(* ===== verification/Vpn_Types.thy ===== *)
theory Vpn_Types
  imports Js_Prelude Complex_Main
begin

text \<open>
  The data of the application: \<^verbatim>\<open>types/vpn.ts\<close> and the wire types of
  \<^verbatim>\<open>services/ipcBridge.ts\<close>. A union of string literals is an enumeration; an interface is a
  record whose optional fields are options. Where the same field name occurs in several
  interfaces the field carries the interface's prefix. Ports, latencies and byte counters are
  natural numbers, rates are exact rationals (the source uses doubles), times are integers
  (milliseconds since the epoch).
\<close>

section \<open>types/vpn.ts\<close>

datatype ConnectionState =
  Disconnected | Connecting | Connected | Reconnecting | Disconnecting | ErrorState

datatype DaemonHealthStatus = HealthConnected | HealthReconnecting | HealthOffline

datatype ProtocolType = Wireguard | OpenvpnUdp | OpenvpnTcp | Ipsec

datatype KillSwitchMode = KsOff | KsStandard | KsStrict

datatype SplitTunnelMode = Bypass | RouteVpn

datatype RoutingMode = RmAuto | RmIntranetOnly | RmFullTunnel

datatype PasswordMode = PmStatic | PmDynamicPrompt | PmTotpAuto

datatype TotpFormat = TfAppend | TfPrefix | TfTotpOnly

record Credentials =
  username :: "string option"
  password :: "string option"
  passwordMode :: "PasswordMode option"
  totpSecret :: "string option"
  totpFormat :: "TotpFormat option"
  hasPassword :: "bool option"
  hasCert :: "bool option"
  hasPrivateKey :: "bool option"
  hasCaCert :: "bool option"
  hasTlsAuth :: "bool option"
  hasTlsCrypt :: "bool option"
  privateKey :: "string option"
  presharedKey :: "string option"
  caCert :: "string option"
  clientCert :: "string option"
  clientKey :: "string option"
  tlsAuthKey :: "string option"
  tlsCryptKey :: "string option"
  keyDirection :: "string option"
  remoteCertTlsServer :: "bool option"
  renegSec :: "nat option"

record VpnProfile =
  profile_id :: string
  profile_name :: string
  protocol :: ProtocolType
  serverHost :: string
  serverPort :: nat
  serverCountry :: string
  serverCity :: string
  serverFlag :: string
  virtualIp :: string
  assignedIp :: "string option"
  isFavorite :: bool
  tags :: "string list"
  lastConnected :: "string option"
  pingMs :: nat
  credentials :: "Credentials option"
  rawConfig :: "string option"
  routingMode :: "RoutingMode option"
  useOnlyForNetworkResources :: "bool option"
  customSubnets :: "string list option"

record TelemetryPoint =
  point_timestamp :: int
  downloadSpeed :: rat
  uploadSpeed :: rat
  point_ping :: nat

record LiveTelemetry =
  currentDownloadKbps :: rat
  currentUploadKbps :: rat
  totalDownloadedBytes :: nat
  totalUploadedBytes :: nat
  currentPingMs :: nat
  jitterMs :: rat
  packetLossPercent :: rat
  sparkline :: "TelemetryPoint list"

datatype LogLevel = DEBUG | INFO | WARN | ERROR

record LogEntry =
  log_id :: string
  log_timestamp :: string
  log_level :: LogLevel
  log_source :: string
  log_message :: string

record AppRule =
  app_id :: string
  app_name :: string
  app_path :: string
  app_icon :: "string option"
  app_mode :: SplitTunnelMode
  app_enabled :: bool

datatype IpRuleType = Cidr | Domain

record IpDomainRule =
  ip_id :: string
  ip_target :: string
  ip_type :: IpRuleType
  ip_description :: string
  ip_mode :: SplitTunnelMode
  ip_enabled :: bool

datatype DnsProvider = Cloudflare | Google | Quad9 | CustomDns

record SecuritySettings =
  killSwitch :: KillSwitchMode
  dnsProtection :: bool
  customDnsProvider :: DnsProvider
  customDnsIp :: "string option"
  customDnsServers :: "string list option"
  ipv6LeakProtection :: bool
  webRtcProtection :: bool
  lanBypass :: bool
  defaultUseOnlyForNetworkResources :: "bool option"
  defaultRoutingMode :: "RoutingMode option"

datatype Language = En | Vi | Zh | Fr

record AppSettings =
  autoLaunch :: bool
  startMinimized :: bool
  autoConnect :: bool
  minimizeToTray :: bool
  notificationsEnabled :: "bool option"
  autoReconnect :: "bool option"
  language :: "Language option"

datatype NavigationTab = TabDashboard | TabProfiles | TabSecurity | TabLogs | TabSettings

text \<open>The absent credentials object: every field of \<open>undefined?.field\<close> is undefined.\<close>

definition no_credentials :: Credentials where
  "no_credentials = \<lparr>username = None, password = None, passwordMode = None, totpSecret = None,
     totpFormat = None, hasPassword = None, hasCert = None, hasPrivateKey = None,
     hasCaCert = None, hasTlsAuth = None, hasTlsCrypt = None, privateKey = None,
     presharedKey = None, caCert = None, clientCert = None, clientKey = None,
     tlsAuthKey = None, tlsCryptKey = None, keyDirection = None, remoteCertTlsServer = None,
     renegSec = None\<rparr>"

abbreviation creds :: "VpnProfile \<Rightarrow> Credentials" where
  "creds p \<equiv> nullish (credentials p) no_credentials"

lemma no_credentials_fields [simp]:
  "username no_credentials = None" "password no_credentials = None"
  "passwordMode no_credentials = None" "totpSecret no_credentials = None"
  "totpFormat no_credentials = None" "hasPassword no_credentials = None"
  "hasCert no_credentials = None" "hasPrivateKey no_credentials = None"
  "hasCaCert no_credentials = None" "hasTlsAuth no_credentials = None"
  "hasTlsCrypt no_credentials = None" "privateKey no_credentials = None"
  "presharedKey no_credentials = None" "caCert no_credentials = None"
  "clientCert no_credentials = None" "clientKey no_credentials = None"
  "tlsAuthKey no_credentials = None" "tlsCryptKey no_credentials = None"
  "keyDirection no_credentials = None" "remoteCertTlsServer no_credentials = None"
  "renegSec no_credentials = None"
  by (simp_all add: no_credentials_def)

text \<open>The string values behind the enumerations, where the source prints or searches them.\<close>

fun protocol_string :: "ProtocolType \<Rightarrow> string" where
  "protocol_string Wireguard = ''wireguard''"
| "protocol_string OpenvpnUdp = ''openvpn_udp''"
| "protocol_string OpenvpnTcp = ''openvpn_tcp''"
| "protocol_string Ipsec = ''ipsec''"

fun level_string :: "LogLevel \<Rightarrow> string" where
  "level_string DEBUG = ''DEBUG''"
| "level_string INFO = ''INFO''"
| "level_string WARN = ''WARN''"
| "level_string ERROR = ''ERROR''"

fun kill_switch_string :: "KillSwitchMode \<Rightarrow> string" where
  "kill_switch_string KsOff = ''off''"
| "kill_switch_string KsStandard = ''standard''"
| "kill_switch_string KsStrict = ''strict''"

fun state_string :: "ConnectionState \<Rightarrow> string" where
  "state_string Disconnected = ''disconnected''"
| "state_string Connecting = ''connecting''"
| "state_string Connected = ''connected''"
| "state_string Reconnecting = ''reconnecting''"
| "state_string Disconnecting = ''disconnecting''"
| "state_string ErrorState = ''error''"

section \<open>Wire types of services/ipcBridge.ts\<close>

datatype WireProtocol = WpWireguard | WpOpenvpnUdp | WpOpenvpnTcp

record UserPasswordAuth =
  ua_username :: string
  ua_password :: string
  ua_ca_cert :: "string option"
  ua_client_cert :: "string option"
  ua_client_key :: "string option"
  ua_tls_auth_key :: "string option"
  ua_tls_crypt_key :: "string option"
  ua_key_direction :: "string option"
  ua_remote_cert_tls_server :: "bool option"
  ua_reneg_sec :: "nat option"
  ua_ovpn_config :: "string option"

datatype AuthConfig =
  AuthWireguardKey (ac_private_key: string) (ac_preshared_key: "string option")
| AuthUserPassword UserPasswordAuth
| AuthRawOvpn (ac_config_content: string) (ac_username: "string option") (ac_password: "string option")

record SecurityPolicy =
  kill_switch_mode :: KillSwitchMode
  ipv6_leak_protection :: bool
  webrtc_protection :: bool
  lan_bypass :: bool

record RoutingPolicy =
  intranet_only :: bool
  custom_subnets :: "string list"

text \<open>
  The parameters as the application sends them, where a port is a number of JavaScript. The shell and
  the daemon read it as a \<^verbatim>\<open>u16\<close>; the guard for that is where the shell receives it (\<open>receive_params\<close>).
\<close>

record VpnConnectParams =
  cp_profile_id :: string
  cp_protocol :: WireProtocol
  server_endpoint :: string
  server_port :: nat
  auth_config :: AuthConfig
  enable_kill_switch :: bool
  custom_dns :: "string list option"
  security_policy :: "SecurityPolicy option"
  routing_policy :: "RoutingPolicy option"

record UserPasswordSecret =
  us_username :: string
  us_password :: string
  us_totp_secret :: "string option"
  us_totp_format :: "TotpFormat option"
  us_ca_cert :: "string option"
  us_client_cert :: "string option"
  us_client_key :: "string option"
  us_tls_auth_key :: "string option"
  us_tls_crypt_key :: "string option"
  us_key_direction :: "string option"
  us_remote_cert_tls_server :: "bool option"
  us_reneg_sec :: "nat option"
  us_ovpn_config :: "string option"

record RawOvpnSecret =
  rs_config_content :: string
  rs_username :: "string option"
  rs_password :: "string option"
  rs_totp_secret :: "string option"
  rs_totp_format :: "TotpFormat option"

datatype ProfileSecretPayload =
  SecretWireguard (sw_private_key: string) (sw_preshared_key: "string option")
| SecretUserPassword UserPasswordSecret
| SecretRawOvpn RawOvpnSecret

record StoredCredentials =
  sc_username :: "string option"
  sc_password_mode :: "PasswordMode option"
  sc_totp_format :: "TotpFormat option"
  sc_has_password :: bool
  sc_has_private_key :: bool
  sc_has_client_cert :: bool
  sc_has_ca_cert :: "bool option"
  sc_has_tls_auth :: "bool option"
  sc_has_tls_crypt :: "bool option"
  sc_has_raw_ovpn :: bool

record StoredProfile =
  sp_id :: string
  sp_name :: string
  sp_server_country :: string
  sp_server_flag :: string
  sp_server_host :: string
  sp_server_port :: nat
  sp_protocol :: ProtocolType
  sp_virtual_ip :: string
  sp_tags :: "string list"
  sp_is_favorite :: bool
  sp_ping_ms :: "nat option"
  sp_last_connected :: "string option"
  sp_credentials :: "StoredCredentials option"
  sp_intranet_only :: "bool option"
  sp_custom_subnets :: "string list option"

record StoredSecuritySettings =
  ss_kill_switch :: KillSwitchMode
  ss_dns_protection :: bool
  ss_custom_dns_provider :: "DnsProvider option"
  ss_custom_dns_servers :: "string list option"
  ss_ipv6_leak_protection :: bool
  ss_webrtc_leak_protection :: bool
  ss_lan_traffic_bypass :: bool
  ss_default_intranet_only :: "bool option"

record FullStorageSnapshot =
  snap_profiles :: "StoredProfile list"
  snap_secrets :: "(string \<rightharpoonup> ProfileSecretPayload) option"
  snap_security_settings :: StoredSecuritySettings
  snap_app_rules :: "AppRule list"
  snap_ip_rules :: "IpDomainRule list"

end
