(* ===== verification/Ipc_Bridge.thy ===== *)
theory Ipc_Bridge
  imports Vpn_Types
begin

text \<open>
  The bridge to the native side, \<^verbatim>\<open>services/ipcBridge.ts\<close>. Every static method of the class is
  one definition. Outside the Tauri shell (\<open>isTauriEnvironment() = false\<close>) a method resolves
  at once; inside it, it issues one \<open>invoke\<close> command and the rest of the method is a function
  of the reply, where \<open>Inl e\<close> is a rejected promise. A method that catches the rejection has
  a plain result, one that lets it through returns a sum.
\<close>

section \<open>Commands\<close>

datatype ipc_command =
  StorageLoadAll
| StorageSaveProfile StoredProfile "ProfileSecretPayload option"
| StorageDeleteProfile string
| StorageSaveSecuritySettings StoredSecuritySettings
| StorageSaveSplitRules "AppRule list" "IpDomainRule list"
| CmdVpnConnect VpnConnectParams
| CmdVpnDisconnect bool
| CmdGetDaemonStatus
| CmdGetMetrics
| CmdSetKillSwitch bool "KillSwitchMode option"
| CmdPingDaemon
| WindowStartDragging
| WindowStartResizeDragging string
| WindowMinimize
| WindowShow
| WindowToggleMaximize
| WindowClose bool
| WindowGetGeometry
| WindowSetSize int int
| WindowSetPosition int int
| TraySetStatus string
| CmdPingServer string nat

type_synonym ipc_error = string

datatype ('v, 'r) bridge =
  Immediate 'r
| Call ipc_command "(ipc_error + 'v) \<Rightarrow> 'r"

primrec issued :: "('v, 'r) bridge \<Rightarrow> ipc_command list" where
  "issued (Immediate r) = []"
| "issued (Call c f) = [c]"

primrec resume :: "('v, 'r) bridge \<Rightarrow> ipc_error + 'v \<Rightarrow> 'r" where
  "resume (Immediate r) v = r"
| "resume (Call c f) v = f v"

text \<open>The two ways a method ends its \<open>await\<close>: \<open>try \<dots> catch\<close> with a fallback, or none.\<close>

definition swallow :: "'r \<Rightarrow> ('v \<Rightarrow> 'r) \<Rightarrow> ipc_error + 'v \<Rightarrow> 'r" where
  "swallow d f r = (case r of Inl e \<Rightarrow> d | Inr v \<Rightarrow> f v)"

definition via :: "bool \<Rightarrow> ipc_command \<Rightarrow> (ipc_error + 'v \<Rightarrow> 'r) \<Rightarrow> 'r \<Rightarrow> ('v, 'r) bridge" where
  "via tauri c f d = (if tauri then Call c f else Immediate d)"

lemma issued_via [simp]: "issued (via tauri c f d) = (if tauri then [c] else [])"
  by (simp add: via_def)

lemma resume_via [simp]: "resume (via tauri c f d) r = (if tauri then f r else d)"
  by (simp add: via_def)

text \<open>What the store reads of a daemon reply: \<open>response.status === "error"\<close> with the optional
  message, or anything else; and the optional \<open>res.result.state\<close> of a status query.\<close>

datatype DaemonResponse = RespOther | RespError "string option"

section \<open>Persistent storage and vault\<close>

definition loadAllStorage ::
  "bool \<Rightarrow> (FullStorageSnapshot, FullStorageSnapshot option) bridge" where
  "loadAllStorage tauri = via tauri StorageLoadAll (swallow None Some) None"

definition secret_password :: "ProfileSecretPayload option \<Rightarrow> string option" where
  "secret_password sec = (case sec of
     Some (SecretUserPassword u) \<Rightarrow> Some (us_password u)
   | Some (SecretRawOvpn r) \<Rightarrow> rs_password r
   | _ \<Rightarrow> None)"

definition secret_private_key :: "ProfileSecretPayload option \<Rightarrow> string option" where
  "secret_private_key sec = (case sec of
     Some (SecretWireguard k psk) \<Rightarrow> Some k
   | _ \<Rightarrow> None)"

definition secret_ovpn :: "ProfileSecretPayload option \<Rightarrow> string option" where
  "secret_ovpn sec = (case sec of
     Some (SecretUserPassword u) \<Rightarrow> us_ovpn_config u
   | Some (SecretRawOvpn r) \<Rightarrow> Some (rs_config_content r)
   | _ \<Rightarrow> None)"

definition storedPayload :: "VpnProfile \<Rightarrow> ProfileSecretPayload option \<Rightarrow> StoredProfile" where
  "storedPayload profile secret = \<lparr>
     sp_id = profile_id profile,
     sp_name = profile_name profile,
     sp_server_country = serverCountry profile,
     sp_server_flag = serverFlag profile,
     sp_server_host = serverHost profile,
     sp_server_port = serverPort profile,
     sp_protocol = protocol profile,
     sp_virtual_ip = virtualIp profile,
     sp_tags = tags profile,
     sp_is_favorite = isFavorite profile,
     sp_ping_ms = Some (pingMs profile),
     sp_last_connected = lastConnected profile,
     sp_credentials = map_option (\<lambda>c. \<lparr>
        sc_username = username c,
        sc_password_mode = Some (nullish (passwordMode c) PmStatic),
        sc_totp_format = Some (nullish (totpFormat c) TfAppend),
        sc_has_password = (nullish (hasPassword c) False \<or> truthy (password c) \<or>
                           truthy (secret_password secret)),
        sc_has_private_key = (nullish (hasPrivateKey c) False \<or> truthy (privateKey c) \<or>
                              truthy (secret_private_key secret)),
        sc_has_client_cert = nullish (hasCert c) False,
        sc_has_ca_cert = None,
        sc_has_tls_auth = None,
        sc_has_tls_crypt = None,
        sc_has_raw_ovpn = (truthy (rawConfig profile) \<or> truthy (secret_ovpn secret))\<rparr>)
       (credentials profile),
     sp_intranet_only = Some (nullish (useOnlyForNetworkResources profile) False),
     sp_custom_subnets = Some (nullish (customSubnets profile) [])\<rparr>"

definition saveProfile ::
  "bool \<Rightarrow> VpnProfile \<Rightarrow> ProfileSecretPayload option \<Rightarrow> (unit, ipc_error + unit) bridge" where
  "saveProfile tauri profile secret =
     via tauri (StorageSaveProfile (storedPayload profile secret) secret) (\<lambda>r. r) (Inr ())"

definition deleteProfile_ipc :: "bool \<Rightarrow> string \<Rightarrow> (unit, unit) bridge" where
  "deleteProfile_ipc tauri profileId =
     via tauri (StorageDeleteProfile profileId) (swallow () (\<lambda>_. ())) ()"

definition security_payload :: "SecuritySettings \<Rightarrow> StoredSecuritySettings" where
  "security_payload s = \<lparr>
     ss_kill_switch = killSwitch s,
     ss_dns_protection = dnsProtection s,
     ss_custom_dns_provider = Some (customDnsProvider s),
     ss_custom_dns_servers = Some (nullish (customDnsServers s) []),
     ss_ipv6_leak_protection = ipv6LeakProtection s,
     ss_webrtc_leak_protection = webRtcProtection s,
     ss_lan_traffic_bypass = lanBypass s,
     ss_default_intranet_only = Some (nullish (defaultUseOnlyForNetworkResources s) False)\<rparr>"

definition saveSecuritySettings :: "bool \<Rightarrow> SecuritySettings \<Rightarrow> (unit, unit) bridge" where
  "saveSecuritySettings tauri s =
     via tauri (StorageSaveSecuritySettings (security_payload s)) (swallow () (\<lambda>_. ())) ()"

text \<open>The payload of a rule repeats its fields one by one.\<close>

definition app_rule_payload :: "AppRule \<Rightarrow> AppRule" where
  "app_rule_payload r = \<lparr>app_id = app_id r, app_name = app_name r, app_path = app_path r,
     app_icon = app_icon r, app_mode = app_mode r, app_enabled = app_enabled r\<rparr>"

definition ip_rule_payload :: "IpDomainRule \<Rightarrow> IpDomainRule" where
  "ip_rule_payload r = \<lparr>ip_id = ip_id r, ip_target = ip_target r, ip_type = ip_type r,
     ip_description = ip_description r, ip_mode = ip_mode r, ip_enabled = ip_enabled r\<rparr>"

definition saveSplitRules :: "bool \<Rightarrow> AppRule list \<Rightarrow> IpDomainRule list \<Rightarrow> (unit, unit) bridge" where
  "saveSplitRules tauri appRules ipRules =
     via tauri (StorageSaveSplitRules (map app_rule_payload appRules) (map ip_rule_payload ipRules))
       (swallow () (\<lambda>_. ())) ()"

section \<open>VPN controls\<close>

definition connectVpn ::
  "bool \<Rightarrow> VpnConnectParams \<Rightarrow> (DaemonResponse, ipc_error + DaemonResponse) bridge" where
  "connectVpn tauri params = via tauri (CmdVpnConnect params) (\<lambda>r. r) (Inr RespOther)"

definition disconnectVpn :: "bool \<Rightarrow> bool \<Rightarrow> (DaemonResponse, ipc_error + DaemonResponse) bridge" where
  "disconnectVpn tauri force = via tauri (CmdVpnDisconnect force) (\<lambda>r. r) (Inr RespOther)"

definition getDaemonStatus ::
  "bool \<Rightarrow> (ConnectionState option, ipc_error + ConnectionState option) bridge" where
  "getDaemonStatus tauri = via tauri CmdGetDaemonStatus (\<lambda>r. r) (Inr (Some Disconnected))"

definition getMetrics :: "bool \<Rightarrow> (unit, ipc_error + unit) bridge" where
  "getMetrics tauri = via tauri CmdGetMetrics (\<lambda>r. r) (Inr ())"

definition setKillSwitch_ipc ::
  "bool \<Rightarrow> bool \<Rightarrow> KillSwitchMode option \<Rightarrow> (DaemonResponse, ipc_error + DaemonResponse) bridge" where
  "setKillSwitch_ipc tauri enabled mode =
     via tauri (CmdSetKillSwitch enabled mode) (\<lambda>r. r) (Inr RespOther)"

definition pingDaemon :: "bool \<Rightarrow> (bool, bool) bridge" where
  "pingDaemon tauri = via tauri CmdPingDaemon (swallow False (\<lambda>b. b)) True"

section \<open>Window and tray\<close>

definition startDragging :: "bool \<Rightarrow> (unit, unit) bridge" where
  "startDragging tauri = via tauri WindowStartDragging (swallow () (\<lambda>_. ())) ()"

definition startResizeDragging :: "bool \<Rightarrow> string \<Rightarrow> (unit, unit) bridge" where
  "startResizeDragging tauri dir = via tauri (WindowStartResizeDragging dir) (swallow () (\<lambda>_. ())) ()"

definition windowMinimize :: "bool \<Rightarrow> (unit, ipc_error + unit) bridge" where
  "windowMinimize tauri = via tauri WindowMinimize (\<lambda>r. r) (Inr ())"

definition windowShow :: "bool \<Rightarrow> (unit, unit) bridge" where
  "windowShow tauri = via tauri WindowShow (swallow () (\<lambda>_. ())) ()"

definition windowMaximize :: "bool \<Rightarrow> (unit, ipc_error + unit) bridge" where
  "windowMaximize tauri = via tauri WindowToggleMaximize (\<lambda>r. r) (Inr ())"

definition windowClose :: "bool \<Rightarrow> bool \<Rightarrow> (unit, ipc_error + unit) bridge" where
  "windowClose tauri minimize = via tauri (WindowClose minimize) (\<lambda>r. r) (Inr ())"

definition windowGetGeometry ::
  "bool \<Rightarrow> (int \<times> int \<times> int \<times> int, (int \<times> int \<times> int \<times> int) option) bridge" where
  "windowGetGeometry tauri = via tauri WindowGetGeometry (swallow None Some) None"

definition windowSetSize :: "bool \<Rightarrow> int \<Rightarrow> int \<Rightarrow> (unit, unit) bridge" where
  "windowSetSize tauri w h = via tauri (WindowSetSize w h) (swallow () (\<lambda>_. ())) ()"

definition windowSetPosition :: "bool \<Rightarrow> int \<Rightarrow> int \<Rightarrow> (unit, unit) bridge" where
  "windowSetPosition tauri x y = via tauri (WindowSetPosition x y) (swallow () (\<lambda>_. ())) ()"

definition updateTrayStatus :: "bool \<Rightarrow> string \<Rightarrow> (unit, unit) bridge" where
  "updateTrayStatus tauri state = via tauri (TraySetStatus state) (swallow () (\<lambda>_. ())) ()"

definition pingHost :: "bool \<Rightarrow> string \<Rightarrow> nat \<Rightarrow> (nat, nat option) bridge" where
  "pingHost tauri host port = via tauri (CmdPingServer host port) (swallow None Some) None"

section \<open>Event subscriptions\<close>

text \<open>The Tauri channel a subscription listens on; outside Tauri nothing is subscribed.\<close>

definition onDaemonStatusChange :: "bool \<Rightarrow> string option" where
  "onDaemonStatusChange tauri = (if tauri then Some ''daemon-status'' else None)"

definition onVpnStatusUpdate :: "bool \<Rightarrow> string option" where
  "onVpnStatusUpdate tauri = (if tauri then Some ''vpn-status-update'' else None)"

definition onMetricsUpdate :: "bool \<Rightarrow> string option" where
  "onMetricsUpdate tauri = (if tauri then Some ''vpn-metrics-update'' else None)"

definition onTrayToggle :: "bool \<Rightarrow> string option" where
  "onTrayToggle tauri = (if tauri then Some ''vpn:tray-toggle'' else None)"

declare loadAllStorage_def [ipc_defs] saveProfile_def [ipc_defs]
  deleteProfile_ipc_def [ipc_defs] saveSecuritySettings_def [ipc_defs]
  saveSplitRules_def [ipc_defs] connectVpn_def [ipc_defs] disconnectVpn_def [ipc_defs]
  getDaemonStatus_def [ipc_defs] getMetrics_def [ipc_defs] setKillSwitch_ipc_def [ipc_defs]
  pingDaemon_def [ipc_defs] startDragging_def [ipc_defs] startResizeDragging_def [ipc_defs]
  windowMinimize_def [ipc_defs] windowShow_def [ipc_defs] windowMaximize_def [ipc_defs]
  windowClose_def [ipc_defs] windowGetGeometry_def [ipc_defs] windowSetSize_def [ipc_defs]
  windowSetPosition_def [ipc_defs] updateTrayStatus_def [ipc_defs] pingHost_def [ipc_defs]

lemma app_rule_payload_id [simp]: "app_rule_payload r = r"
  by (simp add: app_rule_payload_def)

lemma ip_rule_payload_id [simp]: "ip_rule_payload r = r"
  by (simp add: ip_rule_payload_def)

section \<open>Confidentiality of the stored metadata\<close>

text \<open>
  \<^verbatim>\<open>profiles.json\<close> is written in clear; the secrets go to the vault. Scrubbing replaces every
  non-empty secret by one fixed character, leaving the user name and the flags alone.
\<close>

definition scrub :: "string option \<Rightarrow> string option" where
  "scrub x = (if truthy x then Some ''*'' else x)"

definition scrub_credentials :: "Credentials \<Rightarrow> Credentials" where
  "scrub_credentials c = c\<lparr>password := scrub (password c), totpSecret := scrub (totpSecret c),
     privateKey := scrub (privateKey c), presharedKey := scrub (presharedKey c),
     caCert := scrub (caCert c), clientCert := scrub (clientCert c),
     clientKey := scrub (clientKey c), tlsAuthKey := scrub (tlsAuthKey c),
     tlsCryptKey := scrub (tlsCryptKey c)\<rparr>"

definition scrub_profile :: "VpnProfile \<Rightarrow> VpnProfile" where
  "scrub_profile p = p\<lparr>credentials := map_option scrub_credentials (credentials p),
     rawConfig := scrub (rawConfig p)\<rparr>"

fun scrub_secret :: "ProfileSecretPayload \<Rightarrow> ProfileSecretPayload" where
  "scrub_secret (SecretWireguard k psk) = SecretWireguard (or_str (scrub (Some k)) []) (scrub psk)"
| "scrub_secret (SecretUserPassword u) = SecretUserPassword (u\<lparr>
     us_password := or_str (scrub (Some (us_password u))) [],
     us_totp_secret := scrub (us_totp_secret u),
     us_ca_cert := scrub (us_ca_cert u), us_client_cert := scrub (us_client_cert u),
     us_client_key := scrub (us_client_key u), us_tls_auth_key := scrub (us_tls_auth_key u),
     us_tls_crypt_key := scrub (us_tls_crypt_key u), us_ovpn_config := scrub (us_ovpn_config u)\<rparr>)"
| "scrub_secret (SecretRawOvpn r) = SecretRawOvpn (r\<lparr>
     rs_config_content := or_str (scrub (Some (rs_config_content r))) [],
     rs_password := scrub (rs_password r), rs_totp_secret := scrub (rs_totp_secret r)\<rparr>)"

lemma truthy_scrub [simp]: "truthy (scrub x) = truthy x"
  by (simp add: scrub_def)

lemma or_str_scrub [simp]: "or_str (scrub (Some s)) [] = [] \<longleftrightarrow> s = []"
  by (cases s) (simp_all add: scrub_def)

lemma secret_scrub [simp]:
  "truthy (secret_password (map_option scrub_secret s)) = truthy (secret_password s)"
  "truthy (secret_private_key (map_option scrub_secret s)) = truthy (secret_private_key s)"
  "truthy (secret_ovpn (map_option scrub_secret s)) = truthy (secret_ovpn s)"
  by (cases s; cases "the s"; simp add: secret_password_def secret_private_key_def
      secret_ovpn_def)+

text \<open>
  Property C36. The profile metadata sent to be written in clear text does not depend on any
  password, key, certificate, one-time-password seed or raw configuration of the profile or of
  its secret, only on whether each is present: replacing all of them leaves it unchanged.
\<close>

theorem stored_metadata_confidential:
  "storedPayload (scrub_profile p) (map_option scrub_secret s) = storedPayload p s"
  by (cases "credentials p")
     (simp_all add: storedPayload_def scrub_profile_def scrub_credentials_def)

text \<open>
  The error contract of the bridge. Outside the Tauri shell no method of the bridge issues a command; inside it,
  each issues exactly one, and a rejected command is absorbed by the storage loading, the
  deletion and settings writes, the probes, the tray and the window geometry calls, but handed
  to the caller by the profile write, connect, disconnect, status and kill-switch calls.
\<close>

lemma bridge_error_contract:
  "issued (saveProfile tauri p s) = (if tauri then [StorageSaveProfile (storedPayload p s) s] else [])"
  "issued (connectVpn tauri cp) = (if tauri then [CmdVpnConnect cp] else [])"
  "issued (disconnectVpn tauri b) = (if tauri then [CmdVpnDisconnect b] else [])"
  "resume (loadAllStorage tauri) (Inl e) = None"
  "resume (pingDaemon tauri) (Inl e) = (\<not> tauri)"
  "resume (pingHost tauri h n) (Inl e) = None"
  "resume (windowGetGeometry tauri) (Inl e) = None"
  "resume (saveProfile True p s) (Inl e) = Inl e"
  "resume (connectVpn True cp) (Inl e) = Inl e"
  "resume (disconnectVpn True b) (Inl e) = Inl e"
  "resume (getDaemonStatus True) (Inl e) = Inl e"
  "resume (setKillSwitch_ipc True b m) (Inl e) = Inl e"
  by (simp_all add: ipc_defs swallow_def)

end
