(* ===== verification/Keyed_Collections.thy ===== *)
theory Keyed_Collections
  imports Js_Prelude
begin

text \<open>
  The two container idioms of the store, as interfaces. A keyed collection is an array of
  objects with an \<open>id\<close>, changed by \<open>[x, ...xs]\<close>, \<open>xs.map(x => x.id === k ? f(x) : x)\<close> and
  \<open>xs.filter(x => x.id !== k)\<close>, and read by \<open>xs.find(x => x.id === k)\<close>. A rolling window is an
  array that keeps its last entries, \<open>[...xs.slice(-(n - 1)), x]\<close>.
\<close>

section \<open>Keyed collections\<close>

definition find_by :: "('a \<Rightarrow> string) \<Rightarrow> string \<Rightarrow> 'a list \<Rightarrow> 'a option" where
  "find_by key k xs = List.find (\<lambda>x. key x = k) xs"

definition map_by :: "('a \<Rightarrow> string) \<Rightarrow> string \<Rightarrow> ('a \<Rightarrow> 'a) \<Rightarrow> 'a list \<Rightarrow> 'a list" where
  "map_by key k f xs = map (\<lambda>x. if key x = k then f x else x) xs"

definition remove_by :: "('a \<Rightarrow> string) \<Rightarrow> string \<Rightarrow> 'a list \<Rightarrow> 'a list" where
  "remove_by key k xs = filter (\<lambda>x. key x \<noteq> k) xs"

text \<open>
  The contract a client relies on: a collection is a partial map from keys, every operation
  changes the entry of its key only, and no operation makes two entries share a key.
\<close>

locale keyed_collection =
  fixes key :: "'a \<Rightarrow> string"
    and lookup :: "string \<Rightarrow> 'a list \<Rightarrow> 'a option"
    and insert_at :: "'a \<Rightarrow> 'a list \<Rightarrow> 'a list"
    and modify :: "string \<Rightarrow> ('a \<Rightarrow> 'a) \<Rightarrow> 'a list \<Rightarrow> 'a list"
    and remove :: "string \<Rightarrow> 'a list \<Rightarrow> 'a list"
    and keys :: "'a list \<Rightarrow> string list"
  assumes lookup_insert: "lookup k (insert_at x xs) = (if key x = k then Some x else lookup k xs)"
    and lookup_modify: "(\<And>x. key x = j \<Longrightarrow> key (f x) = j) \<Longrightarrow>
      lookup k (modify j f xs) = (if k = j then map_option f (lookup k xs) else lookup k xs)"
    and lookup_remove: "lookup k (remove j xs) = (if k = j then None else lookup k xs)"
    and lookup_None: "lookup k xs = None \<longleftrightarrow> k \<notin> set (keys xs)"
    and lookup_key: "lookup k xs = Some x \<Longrightarrow> key x = k"
    and keys_insert: "keys (insert_at x xs) = key x # keys xs"
    and keys_modify: "(\<And>x. key x = j \<Longrightarrow> key (f x) = j) \<Longrightarrow> keys (modify j f xs) = keys xs"
    and keys_remove: "keys (remove j xs) = filter (\<lambda>k. k \<noteq> j) (keys xs)"
begin

lemma distinct_insert: "distinct (keys xs) \<Longrightarrow> lookup (key x) xs = None \<Longrightarrow> distinct (keys (insert_at x xs))"
  by (simp add: keys_insert lookup_None)

lemma distinct_modify: "(\<And>x. key x = j \<Longrightarrow> key (f x) = j) \<Longrightarrow> distinct (keys (modify j f xs)) = distinct (keys xs)"
  by (simp add: keys_modify)

lemma distinct_remove: "distinct (keys xs) \<Longrightarrow> distinct (keys (remove j xs))"
  by (simp add: keys_remove)

lemma remove_gone: "j \<notin> set (keys (remove j xs))"
  by (simp add: keys_remove)

lemma replace_lookup:
  "key x = j \<Longrightarrow> lookup k (modify j (\<lambda>_. x) xs) =
    (if k = j then map_option (\<lambda>_. x) (lookup k xs) else lookup k xs)"
  by (rule lookup_modify) simp

lemma toggle_twice:
  assumes "\<And>x. f (f x) = x" and "\<And>x. key (f x) = key x"
  shows "lookup k (modify j f (modify j f xs)) = lookup k xs"
  using assms by (simp add: lookup_modify option.map_comp o_def option.map_ident)

end

lemma find_by_simps [simp]:
  "find_by key k [] = None"
  "find_by key k (x # xs) = (if key x = k then Some x else find_by key k xs)"
  by (simp_all add: find_by_def)

lemma map_by_simps [simp]:
  "map_by key k f [] = []"
  "map_by key k f (x # xs) = (if key x = k then f x else x) # map_by key k f xs"
  by (simp_all add: map_by_def)

lemma remove_by_simps [simp]:
  "remove_by key k [] = []"
  "remove_by key k (x # xs) = (if key x = k then remove_by key k xs else x # remove_by key k xs)"
  by (simp_all add: remove_by_def)

lemma find_by_in: "find_by key k xs = Some x \<Longrightarrow> x \<in> set xs \<and> key x = k"
  by (auto simp: find_by_def dest: find_SomeD)

lemma length_map_by [simp]: "length (map_by key k f xs) = length xs"
  by (simp add: map_by_def)

lemma find_by_map_by:
  "(\<And>x. key x = j \<Longrightarrow> key (f x) = j) \<Longrightarrow> find_by key k (map_by key j f xs) =
     (if k = j then map_option f (find_by key k xs) else find_by key k xs)"
  by (induction xs) auto

lemma find_by_remove_by:
  "find_by key k (remove_by key j xs) = (if k = j then None else find_by key k xs)"
  by (induction xs) auto

lemma find_by_None: "find_by key k xs = None \<longleftrightarrow> k \<notin> key ` set xs"
  by (induction xs) auto

lemma keyed_array:
  "keyed_collection key (find_by key) (#) (map_by key) (remove_by key) (map key)"
proof unfold_locales
  fix j and xs :: "'a list" and f
  show "map key (remove_by key j xs) = filter (\<lambda>k. k \<noteq> j) (map key xs)"
    by (induction xs) auto
  show "(\<And>x. key x = j \<Longrightarrow> key (f x) = j) \<Longrightarrow> map key (map_by key j f xs) = map key xs"
    by (induction xs) auto
qed (auto simp: find_by_map_by find_by_remove_by find_by_None dest: find_by_in)

section \<open>Rolling windows\<close>

definition push_window :: "nat \<Rightarrow> 'a \<Rightarrow> 'a list \<Rightarrow> 'a list" where
  "push_window n x xs = slice_last (n - 1) xs @ [x]"

locale rolling_window =
  fixes push :: "'a \<Rightarrow> 'a list \<Rightarrow> 'a list" and cap :: nat
  assumes cap_pos: "0 < cap"
    and push_last: "push x xs \<noteq> [] \<and> last (push x xs) = x"
    and push_length: "length (push x xs) = min cap (Suc (length xs))"
    and push_suffix: "suffix (butlast (push x xs)) xs"
begin

lemma push_bounded: "length (push x xs) \<le> cap"
  by (simp add: push_length)

lemma push_full: "length xs = cap \<Longrightarrow> length (push x xs) = cap"
  using cap_pos by (simp add: push_length)

lemma push_set: "set (push x xs) \<subseteq> insert x (set xs)"
proof -
  have "push x xs = butlast (push x xs) @ [x]"
    using push_last [of x xs] by (metis append_butlast_last_id)
  then have "set (push x xs) = insert x (set (butlast (push x xs)))"
    by (metis Un_insert_right list.set(1) list.set(2) set_append sup_bot.right_neutral)
  moreover have "set (butlast (push x xs)) \<subseteq> set xs"
    using push_suffix by (rule set_mono_suffix)
  ultimately show ?thesis by auto
qed

lemma push_all_length: "length (fold push ys xs) \<le> max cap (length xs)"
proof (induction ys arbitrary: xs)
  case (Cons y ys)
  then show ?case using push_bounded [of y xs] by (fastforce simp: le_max_iff_disj)
qed simp

end

lemma push_window_rolling: "0 < n \<Longrightarrow> rolling_window (push_window n) n"
proof unfold_locales
  fix x :: 'a and xs
  assume n: "0 < n"
  show "0 < n" by fact
  show "push_window n x xs \<noteq> [] \<and> last (push_window n x xs) = x"
    by (simp add: push_window_def)
  show "length (push_window n x xs) = min n (Suc (length xs))"
    using n by (simp add: push_window_def)
  show "suffix (butlast (push_window n x xs)) xs"
    by (simp add: push_window_def suffix_slice_last butlast_append)
qed

end
