(* ===== verification/Totp.thy ===== *)
theory Totp
  imports Js_Prelude "HOL-Library.Word"
begin

unbundle bit_operations_syntax

text \<open>
  The one-time password generator, \<^verbatim>\<open>utils/totp.ts\<close>: the Base32 decoder as the loop of the
  source over a 32-bit accumulator, the code generator with the HMAC of the Web Crypto API as
  a parameter (\<open>None\<close> is a rejected promise, which the source catches), and the countdown of
  the current window. The decoder is compared with positional notation, the generator with the
  dynamic truncation of RFC 4226.
\<close>

section \<open>Base32\<close>

definition alphabet :: string where
  "alphabet = ''ABCDEFGHIJKLMNOPQRSTUVWXYZ234567''"

definition indexOf :: "string \<Rightarrow> char \<Rightarrow> nat option" where
  "indexOf s c = (if c \<in> set s then Some (length (takeWhile (\<lambda>d. d \<noteq> c) s)) else None)"

definition clean_base32 :: "string \<Rightarrow> string" where
  "clean_base32 s =
     rev (dropWhile (\<lambda>c. c = CHR ''='')
       (rev (filter (\<lambda>c. \<not> is_space c \<and> c \<noteq> CHR ''-'') (toUpperCase s))))"

text \<open>The loop state: the number of pending bits, the accumulator, the bytes written.\<close>

type_synonym b32_state = "nat \<times> 32 word \<times> 8 word list"

fun b32_symbol :: "nat \<Rightarrow> b32_state \<Rightarrow> b32_state" where
  "b32_symbol idx (bits, val, out) =
     (let val' = push_bit 5 val OR of_nat idx; bits' = bits + 5 in
      if bits' \<ge> 8
      then (bits' - 8, val', out @ [ucast (drop_bit (bits' - 8) val' AND 255)])
      else (bits', val', out))"

definition b32_step :: "b32_state \<Rightarrow> char \<Rightarrow> b32_state" where
  "b32_step st c = (case indexOf alphabet c of None \<Rightarrow> st | Some idx \<Rightarrow> b32_symbol idx st)"

definition base32ToBytes :: "string \<Rightarrow> 8 word list" where
  "base32ToBytes s = snd (snd (foldl b32_step (0, 0, []) (clean_base32 s)))"

section \<open>Codes\<close>

text \<open>A read outside a typed array is \<open>undefined\<close>, which the bit operators turn into 0.\<close>

definition byte_at :: "8 word list \<Rightarrow> nat \<Rightarrow> 32 word" where
  "byte_at bs i = (if i < length bs then ucast (bs ! i) else 0)"

definition be_bytes32 :: "32 word \<Rightarrow> 8 word list" where
  "be_bytes32 w = map (\<lambda>i. ucast (drop_bit i w)) [24, 16, 8, 0]"

text \<open>\<open>counterView.setUint32(4, counter, false)\<close> on a zeroed eight-byte buffer.\<close>

definition counter_buffer :: "int \<Rightarrow> 8 word list" where
  "counter_buffer counter = [0, 0, 0, 0] @ be_bytes32 (word_of_int counter)"

definition totp_counter :: "int \<Rightarrow> int \<Rightarrow> int" where
  "totp_counter timestampMs periodSeconds = (timestampMs div 1000) div periodSeconds"

definition binary_code :: "8 word list \<Rightarrow> 32 word" where
  "binary_code hmacResult =
     (let offset = unat (byte_at hmacResult (length hmacResult - 1) AND 0x0f) in
      push_bit 24 (byte_at hmacResult offset AND 0x7f) OR
      push_bit 16 (byte_at hmacResult (offset + 1) AND 0xff) OR
      push_bit 8 (byte_at hmacResult (offset + 2) AND 0xff) OR
      (byte_at hmacResult (offset + 3) AND 0xff))"

type_synonym hmac_fn = "8 word list \<Rightarrow> 8 word list \<Rightarrow> 8 word list option"

definition generateCode :: "hmac_fn \<Rightarrow> string \<Rightarrow> int \<Rightarrow> nat \<Rightarrow> int \<Rightarrow> string" where
  "generateCode hmac secret timestampMs digits periodSeconds =
     (if secret = [] \<or> trim secret = [] then []
      else let keyBytes = base32ToBytes secret in
        if keyBytes = [] then []
        else case hmac keyBytes (counter_buffer (totp_counter timestampMs periodSeconds)) of
            None \<Rightarrow> []
          | Some hmacResult \<Rightarrow>
              padStart digits (CHR ''0'')
                (string_of_nat (unat (binary_code hmacResult) mod 10 ^ digits)))"

definition getRemainingSeconds :: "int \<Rightarrow> int \<Rightarrow> int" where
  "getRemainingSeconds timestampMs periodSeconds =
     periodSeconds - ((timestampMs div 1000) smod periodSeconds)"

section \<open>Positional notation\<close>

text \<open>Big-endian values of digit lists, the reference for decoder and generator.\<close>

definition be_value :: "8 word list \<Rightarrow> nat" where
  "be_value bs = foldl (\<lambda>n b. 256 * n + unat b) 0 bs"

definition base32_value :: "nat list \<Rightarrow> nat" where
  "base32_value ds = foldl (\<lambda>n d. 32 * n + d) 0 ds"

fun symbols :: "string \<Rightarrow> nat list" where
  "symbols [] = []"
| "symbols (c # s) = (case indexOf alphabet c of None \<Rightarrow> symbols s | Some i \<Rightarrow> i # symbols s)"

lemma be_value_snoc [simp]: "be_value (bs @ [b]) = 256 * be_value bs + unat b"
  by (simp add: be_value_def)

lemma be_value_Nil [simp]: "be_value [] = 0"
  by (simp add: be_value_def)

lemma base32_value_snoc [simp]: "base32_value (ds @ [d]) = 32 * base32_value ds + d"
  by (simp add: base32_value_def)

lemma base32_value_Nil [simp]: "base32_value [] = 0"
  by (simp add: base32_value_def)

lemma unat_byte: "unat (b :: 8 word) < 256"
  using unsigned_less [of b] by simp

lemma be_value_bound: "be_value bs < 256 ^ length bs"
proof (induction bs rule: rev_induct)
  case Nil
  then show ?case by simp
next
  case (snoc b bs)
  have "unat b < 256" by (rule unat_byte)
  with snoc show ?case by simp
qed

lemma be_value_inject:
  "length bs = length cs \<Longrightarrow> be_value bs = be_value cs \<Longrightarrow> bs = cs"
proof (induction bs arbitrary: cs rule: rev_induct)
  case Nil
  then show ?case by simp
next
  case (snoc b bs)
  then obtain cs' c where cs: "cs = cs' @ [c]"
    by (metis length_0_conv length_append_singleton nat.distinct(1) rev_exhaust)
  have lt: "unat b < 256" "unat c < 256" by (rule unat_byte)+
  from snoc.prems cs have eq: "256 * be_value bs + unat b = 256 * be_value cs' + unat c"
    by simp
  with lt have v: "be_value bs = be_value cs'" by linarith
  with eq have "unat b = unat c" by simp
  with v have "be_value bs = be_value cs'" "b = c" by (simp_all add: word_unat_eq_iff)
  moreover from snoc.prems cs have "length bs = length cs'" by simp
  ultimately show ?case using snoc.IH [of cs'] cs by simp
qed

lemma indexOf_alphabet_bound: "indexOf alphabet c = Some i \<Longrightarrow> i < 32"
proof -
  assume "indexOf alphabet c = Some i"
  then have c: "c \<in> set alphabet" and i: "i = length (takeWhile (\<lambda>d. d \<noteq> c) alphabet)"
    by (auto simp: indexOf_def split: if_splits)
  have "length (takeWhile (\<lambda>d. d \<noteq> c) alphabet) < length alphabet"
    using c by (metis (mono_tags, lifting) length_takeWhile_le nat_less_le takeWhile_eq_all_conv
        takeWhile_eq_take take_all_iff)
  then show ?thesis by (simp add: i alphabet_def)
qed

lemma symbols_bound: "d \<in> set (symbols s) \<Longrightarrow> d < 32"
  by (induction s) (auto split: option.splits dest: indexOf_alphabet_bound)

lemma foldl_b32_step: "foldl b32_step st s = foldl (\<lambda>st i. b32_symbol i st) st (symbols s)"
  by (induction s arbitrary: st) (auto simp: b32_step_def split: option.splits)

section \<open>The decoder computes positional notation\<close>

text \<open>The accumulator wraps at 32 bits; only its lowest bits are ever read.\<close>

lemma bit_small_nat: "(i::nat) < 2 ^ k \<Longrightarrow> bit i n \<Longrightarrow> n < k"
  by (metis bit_take_bit_iff take_bit_nat_eq_self)

lemma or_of_nat:
  fixes w :: "32 word"
  assumes "i < 2 ^ k" and "k \<le> 32"
  shows "unat (push_bit k w OR of_nat i) = (2 ^ k * unat w + i) mod 2 ^ 32"
proof -
  have "push_bit k w AND (of_nat i :: 32 word) = 0"
    using assms(2) bit_small_nat [OF assms(1)] by (force simp: bit_eq_iff bit_simps)
  then have "push_bit k w OR of_nat i = push_bit k w + of_nat i"
    by (simp add: disjunctive_add_eq_or)
  moreover have "unat (push_bit k w) = take_bit 32 (push_bit k (unat w))"
    by (simp add: unsigned_push_bit_eq)
  then have "unat (push_bit k w) = (2 ^ k * unat w) mod 2 ^ 32"
    by (simp only: take_bit_eq_mod push_bit_eq_mult mult.commute)
  ultimately show ?thesis
    by (simp add: unat_word_ariths(1) unat_of_nat mod_simps)
qed


text \<open>
  One symbol: the pending bits of the accumulator (its value modulo \<open>2 ^ bits\<close>) together with
  the bytes already written are the number read so far.
\<close>

definition b32_inv :: "nat list \<Rightarrow> b32_state \<Rightarrow> bool" where
  "b32_inv ds st \<longleftrightarrow> (case st of (bits, val, out) \<Rightarrow>
     bits < 8 \<and> 8 * length out + bits = 5 * length ds \<and>
     2 ^ bits * be_value out + unat val mod 2 ^ bits = base32_value ds)"

lemma split_byte:
  fixes v :: nat
  assumes "bits \<le> m"
  shows "v mod 2 ^ m = 2 ^ bits * ((v div 2 ^ bits) mod 2 ^ (m - bits)) + v mod 2 ^ bits"
proof -
  have "v mod 2 ^ m = v mod (2 ^ bits * 2 ^ (m - bits))"
    using assms by (simp add: power_add [symmetric])
  then show ?thesis by (simp add: mod_mult2_eq)
qed

lemma unat_extract_byte:
  fixes w :: "32 word"
  shows "unat (ucast (drop_bit n w AND 255) :: 8 word) = (unat w div 2 ^ n) mod 256"
proof -
  have "(255 :: 32 word) = mask 8" by (simp add: mask_eq_exp_minus_1)
  then have "drop_bit n w AND 255 = take_bit 8 (drop_bit n w)"
    by (simp add: take_bit_eq_mask)
  moreover have "take_bit 32 (unat w) = unat w"
    using unsigned_less [of w] by (intro take_bit_nat_eq_self) simp
  then have "unat (take_bit 8 (drop_bit n w)) = take_bit 8 (drop_bit n (unat w))"
    by (simp only: unsigned_take_bit_eq unsigned_drop_bit_eq) simp
  ultimately have "unat (drop_bit n w AND 255) = take_bit 8 (drop_bit n (unat w))"
    by simp
  then have "unat (ucast (drop_bit n w AND 255) :: 8 word) = take_bit 8 (drop_bit n (unat w))"
    by (simp only: unsigned_ucast_eq) simp
  then show ?thesis by (simp add: take_bit_eq_mod drop_bit_eq_div)
qed

lemma b32_symbol_inv:
  assumes inv: "b32_inv ds (bits, val, out)" and d: "d < 32"
  shows "b32_inv (ds @ [d]) (b32_symbol d (bits, val, out))"
proof -
  define w where "w = push_bit 5 val OR (of_nat d :: 32 word)"
  define v where "v = unat w"
  from inv have bits: "bits < 8" and len: "8 * length out + bits = 5 * length ds"
    and N: "2 ^ bits * be_value out + unat val mod 2 ^ bits = base32_value ds"
    by (auto simp: b32_inv_def)
  have v: "v = (32 * unat val + d) mod 2 ^ 32"
    using or_of_nat [of d 5 val] d by (simp add: v_def w_def)
  have "v mod 2 ^ (bits + 5) = (32 * unat val + d) mod 2 ^ (bits + 5)"
    unfolding v by (rule mod_mod_cancel, rule le_imp_power_dvd) (use bits in simp)
  also have "\<dots> = 32 * (unat val mod 2 ^ bits) + d"
    using split_byte [of 5 "bits + 5" "32 * unat val + d"] d by simp
  finally have low: "v mod 2 ^ (bits + 5) = 32 * (unat val mod 2 ^ bits) + d" .
  show ?thesis
  proof (cases "8 \<le> bits + 5")
    case True
    have "v mod 2 ^ (bits + 5)
        = 2 ^ (bits - 3) * ((v div 2 ^ (bits - 3)) mod 256) + v mod 2 ^ (bits - 3)"
      using split_byte [of "bits - 3" "bits + 5" v] True by simp
    moreover have "(2::nat) ^ bits = 8 * 2 ^ (bits - 3)"
      using True power_add [of "2::nat" 3 "bits - 3"] by simp
    moreover define byte :: "8 word" where "byte = ucast (drop_bit (bits - 3) w AND 255)"
    moreover have "unat byte = (v div 2 ^ (bits - 3)) mod 256"
      by (simp only: byte_def v_def unat_extract_byte)
    ultimately have "2 ^ (bits - 3) * (256 * be_value out + unat byte) + v mod 2 ^ (bits - 3)
        = 32 * base32_value ds + d"
      unfolding N [symmetric] using low by (simp add: algebra_simps)
    moreover have "b32_symbol d (bits, val, out) = (bits - 3, w, out @ [byte])"
      using True by (simp add: Let_def byte_def flip: w_def)
    ultimately show ?thesis
      using True bits len by (simp add: b32_inv_def v_def del: b32_symbol.simps)
  next
    case False
    then have "b32_symbol d (bits, val, out) = (bits + 5, w, out)"
      by (simp add: Let_def w_def)
    moreover have "2 ^ (bits + 5) * be_value out + v mod 2 ^ (bits + 5) = 32 * base32_value ds + d"
      unfolding N [symmetric] low by (simp add: algebra_simps power_add)
    ultimately show ?thesis
      using False len by (simp add: b32_inv_def v_def)
  qed
qed

lemma b32_loop_inv:
  "\<forall>d \<in> set ds. d < 32 \<Longrightarrow> b32_inv ds (foldl (\<lambda>st i. b32_symbol i st) (0, 0, []) ds)"
proof (induction ds rule: rev_induct)
  case Nil
  then show ?case by (simp add: b32_inv_def)
next
  case (snoc d ds)
  then show ?case
    by (cases "foldl (\<lambda>st i. b32_symbol i st) (0, 0, []) ds")
       (auto simp del: b32_symbol.simps intro: b32_symbol_inv)
qed

lemma eight_div_mod:
  fixes a b c :: nat
  assumes "8 * a + b = 5 * c" and "b < 8"
  shows "b = 5 * c mod 8" and "a = 5 * c div 8"
proof -
  from assms show "a = 5 * c div 8" by linarith
  then show "b = 5 * c mod 8" using assms(1) by (simp add: modulo_nat_def)
qed

lemma base32_decode:
  defines "ds s \<equiv> symbols (clean_base32 s)"
  shows "length (base32ToBytes s) = 5 * length (ds s) div 8 \<and>
         be_value (base32ToBytes s) = base32_value (ds s) div 2 ^ (5 * length (ds s) mod 8)"
proof -
  obtain bits val out
    where st: "foldl (\<lambda>st i. b32_symbol i st) (0, 0, []) (ds s) = (bits, val, out)"
    by (metis prod_cases3)
  have "b32_inv (ds s) (bits, val, out)"
    using b32_loop_inv [of "ds s"] st symbols_bound by (simp add: ds_def)
  then have bits: "bits < 8" and len: "8 * length out + bits = 5 * length (ds s)"
    and N: "2 ^ bits * be_value out + unat val mod 2 ^ bits = base32_value (ds s)"
    by (auto simp: b32_inv_def)
  from st have out: "base32ToBytes s = out"
    by (simp add: base32ToBytes_def foldl_b32_step ds_def)
  from len bits have "bits = 5 * length (ds s) mod 8" "length out = 5 * length (ds s) div 8"
    by (rule eight_div_mod)+
  moreover from N have "base32_value (ds s) div 2 ^ bits = be_value out"
    by (metis add.right_neutral div_mult_self2 mod_div_trivial add.commute power_not_zero
        zero_neq_numeral)
  ultimately show ?thesis by (simp add: out)
qed

text \<open>
  The Base32 decoder reads the symbols of the secret (after upper-casing and
  dropping white space, hyphens, trailing padding and unknown characters) as one big-endian
  number: it returns the longest whole number of bytes the symbols hold, and those bytes are
  the number with the left-over low bits dropped, whatever the length of the secret, although
  the accumulator of the loop is a wrapping 32-bit integer.
\<close>

theorem base32ToBytes_value:
  "length (base32ToBytes s) = 5 * length (symbols (clean_base32 s)) div 8 \<and>
   be_value (base32ToBytes s) =
     base32_value (symbols (clean_base32 s)) div 2 ^ (5 * length (symbols (clean_base32 s)) mod 8)"
  by (rule base32_decode)

section \<open>Round trip with the RFC 4648 encoder\<close>

fun digits32 :: "nat \<Rightarrow> nat \<Rightarrow> nat list" where
  "digits32 0 n = []"
| "digits32 (Suc k) n = digits32 k (n div 32) @ [n mod 32]"

definition base32_encode :: "8 word list \<Rightarrow> string" where
  "base32_encode bs =
     (let k = (8 * length bs + 4) div 5 in
      map (\<lambda>d. alphabet ! d) (digits32 k (be_value bs * 2 ^ (5 * k - 8 * length bs))))"

lemma length_digits32 [simp]: "length (digits32 k n) = k"
  by (induction k arbitrary: n) auto

lemma digits32_bound: "d \<in> set (digits32 k n) \<Longrightarrow> d < 32"
  by (induction k arbitrary: n) auto

lemma base32_value_digits32: "n < 32 ^ k \<Longrightarrow> base32_value (digits32 k n) = n"
proof (induction k arbitrary: n)
  case 0
  then show ?case by simp
next
  case (Suc k)
  then have "n div 32 < 32 ^ k" by (simp add: less_mult_imp_div_less mult.commute)
  with Suc.IH show ?case by simp
qed

lemma alphabet_facts:
  assumes "d < 32"
  shows "indexOf alphabet (alphabet ! d) = Some d" "upper_char (alphabet ! d) = alphabet ! d"
    "\<not> is_space (alphabet ! d)" "alphabet ! d \<noteq> CHR ''-''" "alphabet ! d \<noteq> CHR ''=''"
proof -
  have "\<forall>d \<in> set [0..<32]. indexOf alphabet (alphabet ! d) = Some d \<and>
      upper_char (alphabet ! d) = alphabet ! d \<and> \<not> is_space (alphabet ! d) \<and>
      alphabet ! d \<noteq> CHR ''-'' \<and> alphabet ! d \<noteq> CHR ''=''"
    by code_simp
  with assms show "indexOf alphabet (alphabet ! d) = Some d"
    "upper_char (alphabet ! d) = alphabet ! d"
    "\<not> is_space (alphabet ! d)" "alphabet ! d \<noteq> CHR ''-''" "alphabet ! d \<noteq> CHR ''=''"
    by simp_all
qed

lemma symbols_map_alphabet:
  "\<forall>d \<in> set ds. d < 32 \<Longrightarrow> symbols (map (\<lambda>d. alphabet ! d) ds) = ds"
  by (induction ds) (auto simp: alphabet_facts)

lemma clean_base32_symbols:
  assumes "\<forall>d \<in> set ds. d < 32"
  shows "clean_base32 (map (\<lambda>d. alphabet ! d) ds @ replicate m (CHR ''='')) =
    map (\<lambda>d. alphabet ! d) ds"
proof -
  let ?e = "map (\<lambda>d. alphabet ! d) ds"
  have up: "upper_char (CHR ''='') = CHR ''=''" "\<not> is_space (CHR ''='')" by code_simp+
  have "toUpperCase (?e @ replicate m (CHR ''='')) = ?e @ replicate m (CHR ''='')"
    using assms by (simp add: toUpperCase_def up alphabet_facts)
  moreover have "filter (\<lambda>c. \<not> is_space c \<and> c \<noteq> CHR ''-'') ?e = ?e"
    using assms by (auto simp: filter_id_conv alphabet_facts)
  moreover have "dropWhile (\<lambda>c. c = CHR ''='') (rev ?e) = rev ?e"
  proof (cases ds rule: rev_cases)
    case (snoc ds' d)
    with assms show ?thesis by (simp add: alphabet_facts)
  qed simp
  moreover have "dropWhile (\<lambda>c. c = CHR ''='') (replicate m (CHR ''='') @ ys) =
      dropWhile (\<lambda>c. c = CHR ''='') ys" for ys
    by (induction m) simp_all
  ultimately show ?thesis
    by (simp add: clean_base32_def up)
qed

text \<open>
  Property C6. Decoding what the RFC 4648 encoder writes for a byte string, with any amount
  of padding, gives the byte string back.
\<close>

theorem base32_roundtrip:
  "base32ToBytes (base32_encode bs @ replicate m (CHR ''='')) = bs"
proof -
  define k where "k = (8 * length bs + 4) div 5"
  define n where "n = be_value bs * 2 ^ (5 * k - 8 * length bs)"
  have k: "8 * length bs \<le> 5 * k" "5 * k < 8 * length bs + 5"
    unfolding k_def by presburger+
  have enc: "base32_encode bs = map (\<lambda>d. alphabet ! d) (digits32 k n)"
    by (simp add: base32_encode_def k_def n_def Let_def)
  have "be_value bs < 2 ^ (8 * length bs)"
    using be_value_bound [of bs] by (simp add: power_mult)
  then have "n < 2 ^ (8 * length bs) * 2 ^ (5 * k - 8 * length bs)"
    by (simp add: n_def)
  also have "\<dots> = 2 ^ (5 * k)"
    using k by (simp only: power_add [symmetric]) simp
  also have "\<dots> = 32 ^ k" by (simp add: power_mult)
  finally have n: "base32_value (digits32 k n) = n" by (rule base32_value_digits32)
  have ds: "symbols (clean_base32 (base32_encode bs @ replicate m (CHR ''=''))) = digits32 k n"
    by (simp add: enc clean_base32_symbols symbols_map_alphabet digits32_bound)
  have mod8: "5 * k - 8 * length bs = 5 * k mod 8" and div8: "length bs = 5 * k div 8"
    using eight_div_mod [of "length bs" "5 * k - 8 * length bs" k] k by simp_all
  have "n div 2 ^ (5 * k mod 8) = be_value bs"
    by (simp add: n_def flip: mod8)
  with base32_decode [of "base32_encode bs @ replicate m (CHR ''='')"] ds n
  show ?thesis
    by (intro be_value_inject) (simp_all flip: div8)
qed

section \<open>The generator computes the truncation of RFC 4226\<close>

text \<open>Reference: the four bytes at the offset given by the low nibble of the last byte, as a
  31-bit big-endian number.\<close>

definition dynamic_truncation :: "8 word list \<Rightarrow> nat" where
  "dynamic_truncation mac =
     be_value (take 4 (drop (unat (last mac) mod 16) mac)) mod 2 ^ 31"

lemma unat_and_mask: "unat (w AND mask k :: 32 word) = unat w mod 2 ^ k"
proof -
  have "unat (take_bit k w) = take_bit k (unat w)" by (simp add: unsigned_take_bit_eq)
  then show ?thesis by (simp only: take_bit_eq_mask [symmetric] take_bit_eq_mod)
qed

lemma mod_high_byte:
  fixes a x :: nat
  assumes "x < 2 ^ 24"
  shows "(2 ^ 24 * a + x) mod 2 ^ 31 = 2 ^ 24 * (a mod 128) + x"
  using split_byte [of 24 31 "2 ^ 24 * a + x"] assms by simp

lemma unat_or_disjoint:
  fixes a :: "32 word"
  assumes "unat b < 2 ^ k" and "k \<le> 32"
  shows "unat (push_bit k a OR b) = (2 ^ k * unat a + unat b) mod 2 ^ 32"
  using or_of_nat [of "unat b" k a] assms by simp

lemma byte_at_in [simp]: "i < length bs \<Longrightarrow> unat (byte_at bs i) = unat (bs ! i)"
  by (simp add: byte_at_def unsigned_ucast_eq take_bit_nat_eq_self unat_byte less_trans [OF unat_byte])

lemma byte_masks:
  "(0x0f :: 32 word) = mask 4" "(0x7f :: 32 word) = mask 7" "(0xff :: 32 word) = mask 8"
  by (simp_all add: mask_eq_exp_minus_1)

lemma four_bytes:
  fixes a b c d :: "32 word"
  assumes "unat a < 128" "unat b < 256" "unat c < 256" "unat d < 256"
  shows "unat (push_bit 24 a OR push_bit 16 b OR push_bit 8 c OR d)
    = 2 ^ 24 * unat a + 2 ^ 16 * unat b + 2 ^ 8 * unat c + unat d"
proof -
  have d1: "unat (push_bit 8 c OR d) = 256 * unat c + unat d"
    using unat_or_disjoint [of d 8 c] assms by simp
  have d2: "unat (push_bit 16 b OR (push_bit 8 c OR d)) = 65536 * unat b + 256 * unat c + unat d"
    using unat_or_disjoint [of "push_bit 8 c OR d" 16 b] d1 assms by simp
  show ?thesis
    using unat_or_disjoint [of "push_bit 16 b OR (push_bit 8 c OR d)" 24 a] d2 assms
    by (simp add: or.assoc)
qed

lemma binary_code_truncation:
  assumes "length mac = 20"
  shows "unat (binary_code mac) = dynamic_truncation mac"
proof -
  define off where "off = unat (last mac) mod 16"
  have off: "off < 16" by (simp add: off_def)
  have last: "last mac = mac ! 19" using assms by (simp add: last_conv_nth flip: length_0_conv)
  have o: "unat (byte_at mac (length mac - 1) AND 0x0f) = off"
    using assms by (simp add: byte_masks(1) unat_and_mask off_def last del: One_nat_def)
  let ?b = "\<lambda>i. unat (mac ! (off + i))"
  have lt: "?b i < 256" for i by (rule unat_byte)
  have "take 4 (drop off mac) = map (\<lambda>i. mac ! (off + i)) [0, 1, 2, 3]"
    using assms off by (intro nth_equalityI) (auto simp: less_Suc_eq numeral_eq_Suc)
  then have "be_value (take 4 (drop off mac))
      = 2 ^ 24 * ?b 0 + 2 ^ 16 * ?b 1 + 2 ^ 8 * ?b 2 + ?b 3"
    by (simp add: be_value_def)
  moreover have "(2 ^ 24 * ?b 0 + 2 ^ 16 * ?b 1 + 2 ^ 8 * ?b 2 + ?b 3) mod 2 ^ 31
      = 2 ^ 24 * (?b 0 mod 128) + 2 ^ 16 * ?b 1 + 2 ^ 8 * ?b 2 + ?b 3"
    using mod_high_byte [of "2 ^ 16 * ?b 1 + 2 ^ 8 * ?b 2 + ?b 3" "?b 0"]
      lt [of 1] lt [of 2] lt [of 3] by (simp add: add.assoc)
  moreover have "unat (binary_code mac)
      = 2 ^ 24 * (?b 0 mod 128) + 2 ^ 16 * ?b 1 + 2 ^ 8 * ?b 2 + ?b 3"
    unfolding binary_code_def Let_def o
    using assms off lt [of 1] lt [of 2] lt [of 3]
    by (subst four_bytes) (simp_all add: unat_and_mask byte_masks)
  ultimately show ?thesis by (simp add: dynamic_truncation_def off_def)
qed

lemma generateCode_ok:
  assumes "base32ToBytes secret \<noteq> []" "trim secret \<noteq> []"
    and "hmac (base32ToBytes secret) (counter_buffer (totp_counter t p)) = Some mac"
  shows "generateCode hmac secret t digits p =
    padStart digits (CHR ''0'') (string_of_nat (unat (binary_code mac) mod 10 ^ digits))"
  using assms by (auto simp: generateCode_def trim_def)

text \<open>
  Property C5. For a secret that decodes to a non-empty key and an HMAC of twenty bytes, the
  generated code has exactly the requested number of characters, all of them decimal digits,
  and its value is the RFC 4226 truncation of the HMAC modulo the power of ten. The HMAC is that of
  the decoded key and of the counter of the period, in the eight bytes that \<open>counter_buffer\<close> writes.
\<close>

theorem generateCode_rfc4226:
  assumes "base32ToBytes secret \<noteq> []" "trim secret \<noteq> []" "0 < digits"
    and "hmac (base32ToBytes secret) (counter_buffer (totp_counter t p)) = Some mac"
    and "length mac = 20"
  shows "length (generateCode hmac secret t digits p) = digits \<and>
    (\<forall>c \<in> set (generateCode hmac secret t digits p). is_digit c) \<and>
    parse_digits (generateCode hmac secret t digits p) = dynamic_truncation mac mod 10 ^ digits"
proof -
  let ?n = "unat (binary_code mac) mod 10 ^ digits"
  have "length (string_of_nat ?n) \<le> digits"
    using assms(3) by (intro length_string_of_nat) simp_all
  moreover have "is_digit (CHR ''0'')" by (simp add: is_digit_def)
  ultimately show ?thesis
    using assms set_padStart [of digits "CHR ''0''" "string_of_nat ?n"]
    by (auto simp: generateCode_ok padStart_parse binary_code_truncation
        dest!: subsetD dest: string_of_nat_digits)
qed

definition sample_hmac :: hmac_fn where
  "sample_hmac key msg = Some (replicate 19 (0x5a + last msg) @ [0x1f])"

theorem generateCode_rfc4226_witness:
  "base32ToBytes ''JBSWY3DP'' \<noteq> [] \<and>
   length (generateCode sample_hmac ''JBSWY3DP'' 59000 6 30) = 6"
proof -
  have key: "base32ToBytes ''JBSWY3DP'' \<noteq> []" "trim ''JBSWY3DP'' \<noteq> []" by code_simp+
  show ?thesis
    using generateCode_rfc4226 [OF key, of 6 sample_hmac 59000 30] key
    by (simp add: sample_hmac_def)
qed

text \<open>
  A secret that is empty, blank or holds no Base32 symbols worth a byte, and a
  failure of the Web Crypto API, give the empty code: the generator never fails.
\<close>

theorem generateCode_error:
  "generateCode hmac secret t digits p = [] \<longleftrightarrow>
     trim secret = [] \<or> base32ToBytes secret = [] \<or>
     hmac (base32ToBytes secret) (counter_buffer (totp_counter t p)) = None"
proof -
  have "padStart digits c (string_of_nat n) \<noteq> []" for n c
    by (simp add: padStart_def)
  then show ?thesis
    by (auto simp: generateCode_def Let_def trim_def split: option.splits)
qed

section \<open>Windows\<close>

lemma totp_counter_eq:
  "0 < p \<Longrightarrow> 0 \<le> t \<Longrightarrow> getRemainingSeconds t p = p - (t div 1000) mod p"
  using pos_imp_zdiv_nonneg_iff [of 1000 t]
  by (cases "t div 1000 = 0") (simp_all add: getRemainingSeconds_def signed_modulo_int_def)

lemma generateCode_counter:
  "totp_counter t p = totp_counter t' p \<Longrightarrow>
     generateCode hmac secret t digits p = generateCode hmac secret t' digits p"
  by (simp only: generateCode_def)

lemma div_window: "0 \<le> x \<Longrightarrow> x < p \<Longrightarrow> (p * q + x) div p = (q :: int)"
  by (simp add: div_pos_pos_trivial)

text \<open>
  The countdown shown beside a live code is between one second and the period,
  the code does not change before it has run out, and the counter moves to the next window
  exactly when it has.
\<close>

theorem totp_window:
  assumes "0 < p" "0 \<le> t"
  shows "1 \<le> getRemainingSeconds t p \<and> getRemainingSeconds t p \<le> p \<and>
    (\<forall>s. 0 \<le> s \<longrightarrow> s < getRemainingSeconds t p \<longrightarrow>
       generateCode hmac secret (t + 1000 * s) digits p = generateCode hmac secret t digits p) \<and>
    totp_counter (t + 1000 * getRemainingSeconds t p) p = totp_counter t p + 1"
proof -
  let ?e = "t div 1000"
  have r: "getRemainingSeconds t p = p - ?e mod p" using assms by (rule totp_counter_eq)
  have shift: "totp_counter (t + 1000 * s) p = (?e + s) div p" for s
    by (simp add: totp_counter_def add.commute)
  have e: "?e = p * (?e div p) + ?e mod p" by simp
  have same: "(?e + s) div p = ?e div p" if "0 \<le> s" "s < p - ?e mod p" for s
  proof -
    from e have "(?e + s) div p = (p * (?e div p) + (?e mod p + s)) div p" by simp
    also have "\<dots> = ?e div p" using that assms by (intro div_window) simp_all
    finally show ?thesis .
  qed
  have nxt: "(?e + (p - ?e mod p)) div p = ?e div p + 1"
  proof -
    from e have "?e + (p - ?e mod p) = p * (?e div p + 1)" by (simp add: algebra_simps)
    then show ?thesis using assms by simp
  qed
  have "?e mod p < p" "0 \<le> ?e mod p" using assms by simp_all
  moreover have "generateCode hmac secret (t + 1000 * s) digits p = generateCode hmac secret t digits p"
    if "0 \<le> s" "s < p - ?e mod p" for s
    using same [OF that] shift [of s] by (intro generateCode_counter) (simp only: totp_counter_def)
  moreover have "totp_counter (t + 1000 * (p - ?e mod p)) p = totp_counter t p + 1"
    using nxt by (simp only: shift) (simp only: totp_counter_def)
  ultimately show ?thesis unfolding r by auto
qed

theorem totp_window_witness:
  "getRemainingSeconds 59000 30 = 1 \<and> totp_counter 60000 30 = totp_counter 59000 30 + 1"
  using totp_window [of 30 59000 sample_hmac "''JBSWY3DP''" 6]
  by (simp add: getRemainingSeconds_def signed_modulo_int_def)

end
