(* ===== verification/Vpn_Store.thy ===== *)
theory Vpn_Store
  imports Ipc_Bridge Keyed_Collections Totp
begin

text \<open>
  The Zustand store, \<^verbatim>\<open>state/useVpnStore.ts\<close>: its state, its initial value and its
  synchronous actions. The record also carries what the actions touch outside the store: the
  module variables, the browser's local storage entry, the clock, the source of random
  identifiers, the commands issued to the native side (in order), the notifications shown and
  the continuations waiting for a promise or a timer. An action is a function of the whole
  state; \<open>set\<close> is a record update, \<open>get()\<close> a field read.
\<close>

section \<open>State\<close>

record clock =
  now_ms :: int
  hours :: nat
  minutes :: nat
  seconds :: nat
  millis :: nat

record toast =
  toast_title :: string
  toast_message :: string
  toast_color :: string

text \<open>
  Continuations: the code after an \<open>await\<close>, a \<open>then\<close> or a \<open>setTimeout\<close>, with the local
  variables it captured (the store snapshot \<open>state\<close> of the source is taken before the await).
\<close>

datatype task =
  AwaitTotp VpnProfile SecuritySettings int
| AwaitConnect VpnConnectParams
| AwaitForcedDisconnect
| AwaitDisconnect
| AwaitProbe ConnectionState
| AwaitStatusQuery
| AwaitStorage
| AwaitSubscriptions string
| AwaitPing VpnProfile
| AutoConnectTimer string
| AwaitInitialPing

record VpnStoreState =
  connectionState :: ConnectionState
  daemonHealth :: DaemonHealthStatus
  daemonVersion :: string
  daemonLatencyMs :: rat
  activeProfileId :: string
  activeTab :: NavigationTab
  profiles :: "VpnProfile list"
  telemetry :: LiveTelemetry
  connectedAt :: "int option"
  uptimeSeconds :: int
  logs :: "LogEntry list"
  securitySettings :: SecuritySettings
  appSettings :: AppSettings
  appRules :: "AppRule list"
  ipRules :: "IpDomainRule list"
  isSpotlightOpen :: bool
  isCompactWidget :: bool
  isLogAutoScroll :: bool
  logFilterLevel :: string
  logSearchQuery :: string
  isStorageLoaded :: bool
  mfaPromptProfile :: "VpnProfile option"

text \<open>Partial objects: an absent key is \<open>None\<close>; a key that is present may itself hold
  \<open>undefined\<close> where the field is optional.\<close>

record PartialAppSettings =
  p_autoLaunch :: "bool option"
  p_startMinimized :: "bool option"
  p_autoConnect :: "bool option"
  p_minimizeToTray :: "bool option"
  p_notificationsEnabled :: "bool option option"
  p_autoReconnect :: "bool option option"
  p_language :: "Language option option"

record PartialSecuritySettings =
  p_killSwitch :: "KillSwitchMode option"
  p_dnsProtection :: "bool option"
  p_customDnsProvider :: "DnsProvider option"
  p_customDnsIp :: "string option option"
  p_customDnsServers :: "string list option option"
  p_ipv6LeakProtection :: "bool option"
  p_webRtcProtection :: "bool option"
  p_lanBypass :: "bool option"
  p_defaultUseOnly :: "bool option option"
  p_defaultRoutingMode :: "RoutingMode option option"

record app = VpnStoreState +
  ipcSubscribed :: bool
  isStorageLoading :: bool
  lastNotifiedState :: "ConnectionState option"
  tauri :: bool
  clk :: clock
  uuid_source :: "nat \<Rightarrow> string"
  uuid_next :: nat
  savedAppSettings :: "AppSettings option"
  localStorageWritable :: bool
  outbox :: "ipc_command list"
  toasts :: "toast list"
  pending :: "task list"

section \<open>Initial state\<close>

definition DEFAULT_APP_SETTINGS :: AppSettings where
  "DEFAULT_APP_SETTINGS = \<lparr>autoLaunch = False, startMinimized = True, autoConnect = False,
     minimizeToTray = True, notificationsEnabled = Some True, autoReconnect = Some True,
     language = Some En\<rparr>"

definition merge_app_settings :: "AppSettings \<Rightarrow> PartialAppSettings \<Rightarrow> AppSettings" where
  "merge_app_settings s p = \<lparr>
     autoLaunch = nullish (p_autoLaunch p) (autoLaunch s),
     startMinimized = nullish (p_startMinimized p) (startMinimized s),
     autoConnect = nullish (p_autoConnect p) (autoConnect s),
     minimizeToTray = nullish (p_minimizeToTray p) (minimizeToTray s),
     notificationsEnabled = nullish (p_notificationsEnabled p) (notificationsEnabled s),
     autoReconnect = nullish (p_autoReconnect p) (autoReconnect s),
     language = nullish (p_language p) (language s)\<rparr>"

text \<open>\<open>raw\<close> is the parsed entry, \<open>None\<close> where it is missing, empty or does not parse.\<close>

definition getSavedAppSettings :: "PartialAppSettings option \<Rightarrow> AppSettings" where
  "getSavedAppSettings raw = (case raw of
     Some p \<Rightarrow> merge_app_settings DEFAULT_APP_SETTINGS p
   | None \<Rightarrow> DEFAULT_APP_SETTINGS)"

definition initial_telemetry :: "int \<Rightarrow> LiveTelemetry" where
  "initial_telemetry t = \<lparr>currentDownloadKbps = 0, currentUploadKbps = 0,
     totalDownloadedBytes = 0, totalUploadedBytes = 0, currentPingMs = 0, jitterMs = 0,
     packetLossPercent = 0,
     sparkline = map (\<lambda>i. \<lparr>point_timestamp = t - (30 - int i) * 1000, downloadSpeed = 0,
       uploadSpeed = 0, point_ping = 0\<rparr>) [0..<30]\<rparr>"

definition initial_security :: SecuritySettings where
  "initial_security = \<lparr>killSwitch = KsStrict, dnsProtection = True,
     customDnsProvider = Cloudflare, customDnsIp = None, customDnsServers = None,
     ipv6LeakProtection = True, webRtcProtection = True, lanBypass = True,
     defaultUseOnlyForNetworkResources = None, defaultRoutingMode = None\<rparr>"

definition initial_app ::
  "bool \<Rightarrow> clock \<Rightarrow> (nat \<Rightarrow> string) \<Rightarrow> PartialAppSettings option \<Rightarrow> app" where
  "initial_app is_tauri c uuids raw = \<lparr>
     connectionState = Disconnected, daemonHealth = HealthOffline, daemonVersion = ''0.1.2'',
     daemonLatencyMs = 42 / 100, activeProfileId = [], activeTab = TabDashboard,
     profiles = [], telemetry = initial_telemetry (now_ms c), connectedAt = None,
     uptimeSeconds = 0, logs = [], securitySettings = initial_security,
     appSettings = getSavedAppSettings raw, appRules = [], ipRules = [],
     isSpotlightOpen = False, isCompactWidget = False, isLogAutoScroll = True,
     logFilterLevel = ''ALL'', logSearchQuery = [], isStorageLoaded = False,
     mfaPromptProfile = None,
     ipcSubscribed = False, isStorageLoading = False, lastNotifiedState = None,
     tauri = is_tauri, clk = c, uuid_source = uuids, uuid_next = 0, savedAppSettings = None,
     localStorageWritable = True, outbox = [], toasts = [], pending = []\<rparr>"

section \<open>Effects\<close>

definition send :: "ipc_command list \<Rightarrow> app \<Rightarrow> app" where
  "send cs s = s\<lparr>outbox := outbox s @ cs\<rparr>"

definition await :: "task \<Rightarrow> app \<Rightarrow> app" where
  "await t s = s\<lparr>pending := pending s @ [t]\<rparr>"

definition show_toast :: "toast \<Rightarrow> app \<Rightarrow> app" where
  "show_toast t s = s\<lparr>toasts := toasts s @ [t]\<rparr>"

section \<open>Logs\<close>

definition timeStr :: "clock \<Rightarrow> string" where
  "timeStr c = padStart 2 (CHR ''0'') (string_of_nat (hours c)) @ '':'' @
     padStart 2 (CHR ''0'') (string_of_nat (minutes c)) @ '':'' @
     padStart 2 (CHR ''0'') (string_of_nat (seconds c)) @ ''.'' @
     padStart 3 (CHR ''0'') (string_of_nat (millis c))"

definition push_log :: "LogEntry \<Rightarrow> LogEntry list \<Rightarrow> LogEntry list" where
  "push_log e es = slice_last 499 es @ [e]"

definition addLog :: "LogLevel \<Rightarrow> string \<Rightarrow> string \<Rightarrow> app \<Rightarrow> app" where
  "addLog level source message s =
     (let newEntry = \<lparr>log_id = uuid_source s (uuid_next s), log_timestamp = timeStr (clk s),
        log_level = level, log_source = source, log_message = message\<rparr>
      in s\<lparr>uuid_next := Suc (uuid_next s), logs := push_log newEntry (logs s)\<rparr>)"

definition clearLogs :: "app \<Rightarrow> app" where
  "clearLogs s = s\<lparr>logs := []\<rparr>"

section \<open>Setters\<close>

definition setActiveTab :: "NavigationTab \<Rightarrow> app \<Rightarrow> app" where
  "setActiveTab tab s = s\<lparr>activeTab := tab\<rparr>"

definition setSpotlightOpen :: "bool \<Rightarrow> app \<Rightarrow> app" where
  "setSpotlightOpen b s = s\<lparr>isSpotlightOpen := b\<rparr>"

definition setCompactWidget :: "bool \<Rightarrow> app \<Rightarrow> app" where
  "setCompactWidget b s = s\<lparr>isCompactWidget := b\<rparr>"

definition setLogAutoScroll :: "bool \<Rightarrow> app \<Rightarrow> app" where
  "setLogAutoScroll b s = s\<lparr>isLogAutoScroll := b\<rparr>"

definition setLogFilterLevel :: "string \<Rightarrow> app \<Rightarrow> app" where
  "setLogFilterLevel l s = s\<lparr>logFilterLevel := l\<rparr>"

definition setLogSearchQuery :: "string \<Rightarrow> app \<Rightarrow> app" where
  "setLogSearchQuery q s = s\<lparr>logSearchQuery := q\<rparr>"

definition setDaemonHealth :: "DaemonHealthStatus \<Rightarrow> app \<Rightarrow> app" where
  "setDaemonHealth h s = s\<lparr>daemonHealth := h\<rparr>"

definition setMfaPromptProfile :: "VpnProfile option \<Rightarrow> app \<Rightarrow> app" where
  "setMfaPromptProfile p s = s\<lparr>mfaPromptProfile := p\<rparr>"

section \<open>Profiles\<close>

definition selectProfile :: "string \<Rightarrow> app \<Rightarrow> app" where
  "selectProfile profileId s =
     addLog INFO ''GUI_MANAGER'' (''Selected active profile: '' @ profileId)
       (s\<lparr>activeProfileId := profileId\<rparr>)"

definition flip_favorite :: "VpnProfile \<Rightarrow> VpnProfile" where
  "flip_favorite p = p\<lparr>isFavorite := \<not> isFavorite p\<rparr>"

definition toggleFavorite :: "string \<Rightarrow> app \<Rightarrow> app" where
  "toggleFavorite profileId s =
     (let updatedProfiles = map_by profile_id profileId flip_favorite (profiles s);
          s1 = s\<lparr>profiles := updatedProfiles\<rparr>
      in case find_by profile_id profileId updatedProfiles of
           Some target \<Rightarrow> send (issued (saveProfile (tauri s) target None)) s1
         | None \<Rightarrow> s1)"

text \<open>The part \<open>addProfile\<close> and \<open>updateProfile\<close> share: the secret is folded into the
  credentials the store keeps, non-empty values of the secret winning over the old ones.\<close>

definition with_user_password :: "UserPasswordSecret \<Rightarrow> Credentials \<Rightarrow> Credentials" where
  "with_user_password u c = c\<lparr>
     username := or_else (Some (us_username u)) (username c),
     password := or_else (Some (us_password u)) (password c),
     totpSecret := or_else (us_totp_secret u) (totpSecret c),
     totpFormat := Some (nullish (us_totp_format u) (nullish (totpFormat c) TfAppend)),
     caCert := or_else (us_ca_cert u) (caCert c),
     clientCert := or_else (us_client_cert u) (clientCert c),
     clientKey := or_else (us_client_key u) (clientKey c),
     tlsAuthKey := or_else (us_tls_auth_key u) (tlsAuthKey c),
     tlsCryptKey := or_else (us_tls_crypt_key u) (tlsCryptKey c),
     keyDirection := or_else (us_key_direction u) (keyDirection c),
     remoteCertTlsServer := (case us_remote_cert_tls_server u of
        Some b \<Rightarrow> Some b | None \<Rightarrow> remoteCertTlsServer c),
     renegSec := or_else_num (us_reneg_sec u) (renegSec c),
     hasCaCert := Some (truthy (or_else (us_ca_cert u) (caCert c))),
     hasTlsAuth := Some (truthy (or_else (us_tls_auth_key u) (tlsAuthKey c))),
     hasTlsCrypt := Some (truthy (or_else (us_tls_crypt_key u) (tlsCryptKey c))),
     hasCert := Some (truthy (or_else (us_client_cert u) (clientCert c)))\<rparr>"

definition with_raw_ovpn :: "RawOvpnSecret \<Rightarrow> Credentials \<Rightarrow> Credentials" where
  "with_raw_ovpn r c = c\<lparr>
     username := or_else (rs_username r) (username c),
     password := or_else (rs_password r) (password c),
     totpSecret := or_else (rs_totp_secret r) (totpSecret c),
     totpFormat := Some (nullish (rs_totp_format r) (nullish (totpFormat c) TfAppend))\<rparr>"

definition with_secret :: "ProfileSecretPayload option \<Rightarrow> VpnProfile \<Rightarrow> VpnProfile" where
  "with_secret secret p = (case secret of
     None \<Rightarrow> p
   | Some (SecretWireguard k psk) \<Rightarrow>
       p\<lparr>credentials := Some ((creds p)\<lparr>privateKey := Some k, presharedKey := psk\<rparr>)\<rparr>
   | Some (SecretUserPassword u) \<Rightarrow>
       p\<lparr>credentials := Some (with_user_password u (creds p))\<rparr>
   | Some (SecretRawOvpn r) \<Rightarrow>
       p\<lparr>credentials := Some (with_raw_ovpn r (creds p)),
         rawConfig := or_else (Some (rs_config_content r)) (rawConfig p)\<rparr>)"

lemma with_secret_id [simp]: "profile_id (with_secret sec p) = profile_id p"
  by (simp add: with_secret_def split: option.split ProfileSecretPayload.split)

definition addProfile :: "VpnProfile \<Rightarrow> ProfileSecretPayload option \<Rightarrow> app \<Rightarrow> app" where
  "addProfile profile secret s =
     (let fullProfile = with_secret secret profile;
          s1 = s\<lparr>profiles := fullProfile # profiles s, activeProfileId := profile_id fullProfile\<rparr>;
          s2 = send (issued (saveProfile (tauri s) fullProfile secret)) s1
      in addLog INFO ''PROFILE_MGR''
           (''Saved and encrypted profile: '' @ profile_name fullProfile @ '' ('' @
            protocol_string (protocol fullProfile) @ '')'') s2)"

definition updateProfile :: "VpnProfile \<Rightarrow> ProfileSecretPayload option \<Rightarrow> app \<Rightarrow> app" where
  "updateProfile profile secret s =
     (let fullProfile = with_secret secret profile;
          s1 = s\<lparr>profiles := map_by profile_id (profile_id fullProfile) (\<lambda>_. fullProfile) (profiles s)\<rparr>;
          s2 = send (issued (saveProfile (tauri s) fullProfile secret)) s1
      in addLog INFO ''PROFILE_MGR'' (''Updated profile: '' @ profile_name fullProfile) s2)"

text \<open>The new active profile is read from the list as it was before the deletion.\<close>

definition deleteProfile :: "string \<Rightarrow> app \<Rightarrow> app" where
  "deleteProfile profileId s =
     (let s1 = s\<lparr>profiles := remove_by profile_id profileId (profiles s),
            activeProfileId := (if activeProfileId s = profileId
              then nullish (map_option profile_id (first_opt (profiles s))) []
              else activeProfileId s)\<rparr>;
          s2 = send (issued (deleteProfile_ipc (tauri s) profileId)) s1
      in addLog WARN ''PROFILE_MGR'' (''Deleted profile and erased secrets: '' @ profileId) s2)"

section \<open>Settings\<close>

definition setKillSwitch :: "KillSwitchMode \<Rightarrow> app \<Rightarrow> app" where
  "setKillSwitch mode s =
     (let newSettings = (securitySettings s)\<lparr>killSwitch := mode\<rparr>;
          s1 = s\<lparr>securitySettings := newSettings\<rparr>;
          s2 = send (issued (saveSecuritySettings (tauri s) newSettings)) s1;
          s3 = send (issued (setKillSwitch_ipc (tauri s) (mode \<noteq> KsOff) (Some mode))) s2
      in addLog INFO ''SECURITY_SHIELD''
           (''Kill switch policy persisted: '' @ toUpperCase (kill_switch_string mode)) s3)"

definition merge_security :: "SecuritySettings \<Rightarrow> PartialSecuritySettings \<Rightarrow> SecuritySettings" where
  "merge_security s p = \<lparr>
     killSwitch = nullish (p_killSwitch p) (killSwitch s),
     dnsProtection = nullish (p_dnsProtection p) (dnsProtection s),
     customDnsProvider = nullish (p_customDnsProvider p) (customDnsProvider s),
     customDnsIp = nullish (p_customDnsIp p) (customDnsIp s),
     customDnsServers = nullish (p_customDnsServers p) (customDnsServers s),
     ipv6LeakProtection = nullish (p_ipv6LeakProtection p) (ipv6LeakProtection s),
     webRtcProtection = nullish (p_webRtcProtection p) (webRtcProtection s),
     lanBypass = nullish (p_lanBypass p) (lanBypass s),
     defaultUseOnlyForNetworkResources =
       nullish (p_defaultUseOnly p) (defaultUseOnlyForNetworkResources s),
     defaultRoutingMode = nullish (p_defaultRoutingMode p) (defaultRoutingMode s)\<rparr>"

definition updateSecuritySettings :: "PartialSecuritySettings \<Rightarrow> app \<Rightarrow> app" where
  "updateSecuritySettings settings s =
     (let newSettings = merge_security (securitySettings s) settings;
          s1 = s\<lparr>securitySettings := newSettings\<rparr>;
          s2 = send (issued (saveSecuritySettings (tauri s) newSettings)) s1
      in addLog INFO ''SECURITY_SHIELD'' ''Security settings persisted to disk'' s2)"

definition updateAppSettings :: "PartialAppSettings \<Rightarrow> app \<Rightarrow> app" where
  "updateAppSettings settings s =
     (let newSettings = merge_app_settings (appSettings s) settings;
          s1 = s\<lparr>appSettings := newSettings\<rparr>;
          s2 = (if localStorageWritable s1 then s1\<lparr>savedAppSettings := Some newSettings\<rparr> else s1)
      in addLog INFO ''DESKTOP_SETTINGS'' ''Desktop window settings saved'' s2)"

section \<open>Split tunnelling rules\<close>

definition flip_app_rule :: "AppRule \<Rightarrow> AppRule" where
  "flip_app_rule r = r\<lparr>app_enabled := \<not> app_enabled r\<rparr>"

definition flip_ip_rule :: "IpDomainRule \<Rightarrow> IpDomainRule" where
  "flip_ip_rule r = r\<lparr>ip_enabled := \<not> ip_enabled r\<rparr>"

definition addAppRule :: "AppRule \<Rightarrow> app \<Rightarrow> app" where
  "addAppRule rule s =
     (let newRules = rule # appRules s;
          s1 = s\<lparr>appRules := newRules\<rparr>;
          s2 = send (issued (saveSplitRules (tauri s) newRules (ipRules s))) s1
      in addLog INFO ''SPLIT_TUNNEL'' (''Added split tunneling app rule: '' @ app_name rule) s2)"

definition toggleAppRule :: "string \<Rightarrow> app \<Rightarrow> app" where
  "toggleAppRule k s =
     (let newRules = map_by app_id k flip_app_rule (appRules s)
      in send (issued (saveSplitRules (tauri s) newRules (ipRules s))) (s\<lparr>appRules := newRules\<rparr>))"

definition deleteAppRule :: "string \<Rightarrow> app \<Rightarrow> app" where
  "deleteAppRule k s =
     (let newRules = remove_by app_id k (appRules s)
      in send (issued (saveSplitRules (tauri s) newRules (ipRules s))) (s\<lparr>appRules := newRules\<rparr>))"

definition addIpRule :: "IpDomainRule \<Rightarrow> app \<Rightarrow> app" where
  "addIpRule rule s =
     (let newRules = rule # ipRules s;
          s1 = s\<lparr>ipRules := newRules\<rparr>;
          s2 = send (issued (saveSplitRules (tauri s) (appRules s) newRules)) s1
      in addLog INFO ''SPLIT_TUNNEL'' (''Added route rule: '' @ ip_target rule) s2)"

definition toggleIpRule :: "string \<Rightarrow> app \<Rightarrow> app" where
  "toggleIpRule k s =
     (let newRules = map_by ip_id k flip_ip_rule (ipRules s)
      in send (issued (saveSplitRules (tauri s) (appRules s) newRules)) (s\<lparr>ipRules := newRules\<rparr>))"

definition deleteIpRule :: "string \<Rightarrow> app \<Rightarrow> app" where
  "deleteIpRule k s =
     (let newRules = remove_by ip_id k (ipRules s)
      in send (issued (saveSplitRules (tauri s) (appRules s) newRules)) (s\<lparr>ipRules := newRules\<rparr>))"

section \<open>Telemetry heartbeat\<close>

definition push_point :: "TelemetryPoint \<Rightarrow> TelemetryPoint list \<Rightarrow> TelemetryPoint list" where
  "push_point p ps = slice_last 29 ps @ [p]"

definition tick_idle :: "app \<Rightarrow> app" where
  "tick_idle s =
     (if currentDownloadKbps (telemetry s) \<noteq> 0 \<or> currentUploadKbps (telemetry s) \<noteq> 0 \<or>
         uptimeSeconds s \<noteq> 0
      then s\<lparr>uptimeSeconds := 0, connectedAt := None,
             telemetry := (telemetry s)\<lparr>currentDownloadKbps := 0, currentUploadKbps := 0\<rparr>\<rparr>
      else s)"

definition tickTelemetry :: "app \<Rightarrow> app" where
  "tickTelemetry s =
     (if connectionState s \<noteq> Connected then tick_idle s
      else
        let activeProf = find_by profile_id (activeProfileId s) (profiles s);
            currentPing = or_num (or_else_num (map_option pingMs activeProf)
                            (Some (currentPingMs (telemetry s)))) 25;
            realUptime = (case connectedAt s of
                Some t \<Rightarrow> if t = 0 then uptimeSeconds s else (now_ms (clk s) - t) div 1000
              | None \<Rightarrow> uptimeSeconds s);
            point = \<lparr>point_timestamp = now_ms (clk s),
                     downloadSpeed = currentDownloadKbps (telemetry s),
                     uploadSpeed = currentUploadKbps (telemetry s), point_ping = currentPing\<rparr>
        in s\<lparr>uptimeSeconds := realUptime,
             telemetry := (telemetry s)\<lparr>currentPingMs := currentPing,
               sparkline := push_point point (sparkline (telemetry s))\<rparr>\<rparr>)"

section \<open>Frame conditions\<close>

text \<open>What the effect primitives leave alone.\<close>

lemma addLog_frame [simp]:
  "connectionState (addLog l src m s) = connectionState s"
  "daemonHealth (addLog l src m s) = daemonHealth s"
  "daemonVersion (addLog l src m s) = daemonVersion s"
  "daemonLatencyMs (addLog l src m s) = daemonLatencyMs s"
  "activeProfileId (addLog l src m s) = activeProfileId s"
  "activeTab (addLog l src m s) = activeTab s"
  "profiles (addLog l src m s) = profiles s"
  "telemetry (addLog l src m s) = telemetry s"
  "connectedAt (addLog l src m s) = connectedAt s"
  "uptimeSeconds (addLog l src m s) = uptimeSeconds s"
  "securitySettings (addLog l src m s) = securitySettings s"
  "appSettings (addLog l src m s) = appSettings s"
  "appRules (addLog l src m s) = appRules s"
  "ipRules (addLog l src m s) = ipRules s"
  "isSpotlightOpen (addLog l src m s) = isSpotlightOpen s"
  "isCompactWidget (addLog l src m s) = isCompactWidget s"
  "isLogAutoScroll (addLog l src m s) = isLogAutoScroll s"
  "logFilterLevel (addLog l src m s) = logFilterLevel s"
  "logSearchQuery (addLog l src m s) = logSearchQuery s"
  "isStorageLoaded (addLog l src m s) = isStorageLoaded s"
  "mfaPromptProfile (addLog l src m s) = mfaPromptProfile s"
  "ipcSubscribed (addLog l src m s) = ipcSubscribed s"
  "isStorageLoading (addLog l src m s) = isStorageLoading s"
  "lastNotifiedState (addLog l src m s) = lastNotifiedState s"
  "tauri (addLog l src m s) = tauri s"
  "clk (addLog l src m s) = clk s"
  "uuid_source (addLog l src m s) = uuid_source s"
  "savedAppSettings (addLog l src m s) = savedAppSettings s"
  "localStorageWritable (addLog l src m s) = localStorageWritable s"
  "outbox (addLog l src m s) = outbox s"
  "toasts (addLog l src m s) = toasts s"
  "pending (addLog l src m s) = pending s"
  by (simp_all add: addLog_def Let_def)

lemma send_frame [simp]:
  "connectionState (send cs s) = connectionState s"
  "daemonHealth (send cs s) = daemonHealth s"
  "daemonVersion (send cs s) = daemonVersion s"
  "daemonLatencyMs (send cs s) = daemonLatencyMs s"
  "activeProfileId (send cs s) = activeProfileId s"
  "activeTab (send cs s) = activeTab s"
  "profiles (send cs s) = profiles s"
  "telemetry (send cs s) = telemetry s"
  "connectedAt (send cs s) = connectedAt s"
  "uptimeSeconds (send cs s) = uptimeSeconds s"
  "logs (send cs s) = logs s"
  "securitySettings (send cs s) = securitySettings s"
  "appSettings (send cs s) = appSettings s"
  "appRules (send cs s) = appRules s"
  "ipRules (send cs s) = ipRules s"
  "isSpotlightOpen (send cs s) = isSpotlightOpen s"
  "isCompactWidget (send cs s) = isCompactWidget s"
  "isLogAutoScroll (send cs s) = isLogAutoScroll s"
  "logFilterLevel (send cs s) = logFilterLevel s"
  "logSearchQuery (send cs s) = logSearchQuery s"
  "isStorageLoaded (send cs s) = isStorageLoaded s"
  "mfaPromptProfile (send cs s) = mfaPromptProfile s"
  "ipcSubscribed (send cs s) = ipcSubscribed s"
  "isStorageLoading (send cs s) = isStorageLoading s"
  "lastNotifiedState (send cs s) = lastNotifiedState s"
  "tauri (send cs s) = tauri s"
  "clk (send cs s) = clk s"
  "uuid_source (send cs s) = uuid_source s"
  "uuid_next (send cs s) = uuid_next s"
  "savedAppSettings (send cs s) = savedAppSettings s"
  "localStorageWritable (send cs s) = localStorageWritable s"
  "toasts (send cs s) = toasts s"
  "pending (send cs s) = pending s"
  by (simp_all add: send_def)

lemma await_frame [simp]:
  "connectionState (await t s) = connectionState s"
  "daemonHealth (await t s) = daemonHealth s"
  "daemonVersion (await t s) = daemonVersion s"
  "daemonLatencyMs (await t s) = daemonLatencyMs s"
  "activeProfileId (await t s) = activeProfileId s"
  "activeTab (await t s) = activeTab s"
  "profiles (await t s) = profiles s"
  "telemetry (await t s) = telemetry s"
  "connectedAt (await t s) = connectedAt s"
  "uptimeSeconds (await t s) = uptimeSeconds s"
  "logs (await t s) = logs s"
  "securitySettings (await t s) = securitySettings s"
  "appSettings (await t s) = appSettings s"
  "appRules (await t s) = appRules s"
  "ipRules (await t s) = ipRules s"
  "isSpotlightOpen (await t s) = isSpotlightOpen s"
  "isCompactWidget (await t s) = isCompactWidget s"
  "isLogAutoScroll (await t s) = isLogAutoScroll s"
  "logFilterLevel (await t s) = logFilterLevel s"
  "logSearchQuery (await t s) = logSearchQuery s"
  "isStorageLoaded (await t s) = isStorageLoaded s"
  "mfaPromptProfile (await t s) = mfaPromptProfile s"
  "ipcSubscribed (await t s) = ipcSubscribed s"
  "isStorageLoading (await t s) = isStorageLoading s"
  "lastNotifiedState (await t s) = lastNotifiedState s"
  "tauri (await t s) = tauri s"
  "clk (await t s) = clk s"
  "uuid_source (await t s) = uuid_source s"
  "uuid_next (await t s) = uuid_next s"
  "savedAppSettings (await t s) = savedAppSettings s"
  "localStorageWritable (await t s) = localStorageWritable s"
  "outbox (await t s) = outbox s"
  "toasts (await t s) = toasts s"
  by (simp_all add: await_def)

lemma show_toast_frame [simp]:
  "connectionState (show_toast t s) = connectionState s"
  "daemonHealth (show_toast t s) = daemonHealth s"
  "daemonVersion (show_toast t s) = daemonVersion s"
  "daemonLatencyMs (show_toast t s) = daemonLatencyMs s"
  "activeProfileId (show_toast t s) = activeProfileId s"
  "activeTab (show_toast t s) = activeTab s"
  "profiles (show_toast t s) = profiles s"
  "telemetry (show_toast t s) = telemetry s"
  "connectedAt (show_toast t s) = connectedAt s"
  "uptimeSeconds (show_toast t s) = uptimeSeconds s"
  "logs (show_toast t s) = logs s"
  "securitySettings (show_toast t s) = securitySettings s"
  "appSettings (show_toast t s) = appSettings s"
  "appRules (show_toast t s) = appRules s"
  "ipRules (show_toast t s) = ipRules s"
  "isSpotlightOpen (show_toast t s) = isSpotlightOpen s"
  "isCompactWidget (show_toast t s) = isCompactWidget s"
  "isLogAutoScroll (show_toast t s) = isLogAutoScroll s"
  "logFilterLevel (show_toast t s) = logFilterLevel s"
  "logSearchQuery (show_toast t s) = logSearchQuery s"
  "isStorageLoaded (show_toast t s) = isStorageLoaded s"
  "mfaPromptProfile (show_toast t s) = mfaPromptProfile s"
  "ipcSubscribed (show_toast t s) = ipcSubscribed s"
  "isStorageLoading (show_toast t s) = isStorageLoading s"
  "lastNotifiedState (show_toast t s) = lastNotifiedState s"
  "tauri (show_toast t s) = tauri s"
  "clk (show_toast t s) = clk s"
  "uuid_source (show_toast t s) = uuid_source s"
  "uuid_next (show_toast t s) = uuid_next s"
  "savedAppSettings (show_toast t s) = savedAppSettings s"
  "localStorageWritable (show_toast t s) = localStorageWritable s"
  "outbox (show_toast t s) = outbox s"
  "pending (show_toast t s) = pending s"
  by (simp_all add: show_toast_def)

lemma effects_simps [simp]:
  "outbox (send cs s) = outbox s @ cs"
  "pending (await t s) = pending s @ [t]"
  "toasts (show_toast n s) = toasts s @ [n]"
  "uuid_next (addLog l src m s) = Suc (uuid_next s)"
  by (simp_all add: send_def await_def show_toast_def addLog_def Let_def)

lemma logs_addLog:
  "logs (addLog l src m s) = push_log
     \<lparr>log_id = uuid_source s (uuid_next s), log_timestamp = timeStr (clk s), log_level = l,
      log_source = src, log_message = m\<rparr> (logs s)"
  by (simp add: addLog_def Let_def)

section \<open>The containers of the store meet their interfaces\<close>

interpretation profile_list: keyed_collection profile_id "find_by profile_id" "(#)"
  "map_by profile_id" "remove_by profile_id" "map profile_id"
  by (rule keyed_array)

interpretation app_rule_list: keyed_collection app_id "find_by app_id" "(#)"
  "map_by app_id" "remove_by app_id" "map app_id"
  by (rule keyed_array)

interpretation ip_rule_list: keyed_collection ip_id "find_by ip_id" "(#)"
  "map_by ip_id" "remove_by ip_id" "map ip_id"
  by (rule keyed_array)

lemma push_log_window: "push_log = push_window 500"
  by (simp add: fun_eq_iff push_log_def push_window_def)

lemma push_point_window: "push_point = push_window 30"
  by (simp add: fun_eq_iff push_point_def push_window_def)

interpretation log_window: rolling_window push_log 500
  unfolding push_log_window by (rule push_window_rolling) simp

interpretation sparkline_window: rolling_window push_point 30
  unfolding push_point_window by (rule push_window_rolling) simp

end
