(* ===== verification/Vpn_Session.thy ===== *)
theory Vpn_Session
  imports Vpn_Store
begin

text \<open>
  The asynchronous half of \<^verbatim>\<open>state/useVpnStore.ts\<close>: connecting, disconnecting, probing the
  daemon, loading the persisted state, and the handlers of the daemon's events. An async
  function is cut at its awaits: the part before runs at once and leaves a continuation in
  \<^const>\<open>pending\<close>, the part after is the meaning of that continuation (\<open>run_task\<close>). The
  environment resolves the waiting continuations in any order, so every interleaving of user
  actions, daemon events and replies is a sequence of events of the step function.
\<close>

section \<open>Connecting\<close>

definition wire_protocol :: "ProtocolType \<Rightarrow> WireProtocol" where
  "wire_protocol p = (case p of
     Ipsec \<Rightarrow> WpOpenvpnUdp | OpenvpnUdp \<Rightarrow> WpOpenvpnUdp
   | OpenvpnTcp \<Rightarrow> WpOpenvpnTcp | Wireguard \<Rightarrow> WpWireguard)"

definition combine_totp :: "TotpFormat \<Rightarrow> string \<Rightarrow> string \<Rightarrow> string" where
  "combine_totp format basePass liveOtp = (case format of
     TfAppend \<Rightarrow> basePass @ liveOtp
   | TfPrefix \<Rightarrow> liveOtp @ basePass
   | TfTotpOnly \<Rightarrow> (if liveOtp = [] then basePass else liveOtp))"

definition authConfig :: "VpnProfile \<Rightarrow> string \<Rightarrow> AuthConfig" where
  "authConfig profile finalAuthPassword =
     (if protocol profile = Wireguard
      then AuthWireguardKey (or_str (privateKey (creds profile)) []) (presharedKey (creds profile))
      else AuthUserPassword \<lparr>
        ua_username = or_str (username (creds profile)) [],
        ua_password = finalAuthPassword,
        ua_ca_cert = caCert (creds profile),
        ua_client_cert = clientCert (creds profile),
        ua_client_key = clientKey (creds profile),
        ua_tls_auth_key = tlsAuthKey (creds profile),
        ua_tls_crypt_key = tlsCryptKey (creds profile),
        ua_key_direction = keyDirection (creds profile),
        ua_remote_cert_tls_server = remoteCertTlsServer (creds profile),
        ua_reneg_sec = renegSec (creds profile),
        ua_ovpn_config = rawConfig profile\<rparr>)"

definition isIntranetOnly :: "VpnProfile \<Rightarrow> SecuritySettings \<Rightarrow> bool" where
  "isIntranetOnly profile sec = (case useOnlyForNetworkResources profile of
     Some b \<Rightarrow> b
   | None \<Rightarrow> nullish (defaultUseOnlyForNetworkResources sec) False)"

definition connect_params :: "VpnProfile \<Rightarrow> SecuritySettings \<Rightarrow> string \<Rightarrow> VpnConnectParams" where
  "connect_params profile sec finalAuthPassword = \<lparr>
     cp_profile_id = profile_id profile,
     cp_protocol = wire_protocol (protocol profile),
     server_endpoint = serverHost profile,
     server_port = serverPort profile,
     auth_config = authConfig profile finalAuthPassword,
     enable_kill_switch = (killSwitch sec \<noteq> KsOff),
     custom_dns = None,
     security_policy = Some \<lparr>kill_switch_mode = killSwitch sec,
       ipv6_leak_protection = ipv6LeakProtection sec, webrtc_protection = webRtcProtection sec,
       lan_bypass = lanBypass sec\<rparr>,
     routing_policy = Some \<lparr>intranet_only = isIntranetOnly profile sec,
       custom_subnets = nullish (customSubnets profile) []\<rparr>\<rparr>"

text \<open>The tail of \<open>connect\<close> from the construction of the request on; \<open>sec\<close> are the security
  settings of the snapshot taken when \<open>connect\<close> was called.\<close>

definition connect_send :: "VpnProfile \<Rightarrow> SecuritySettings \<Rightarrow> string \<Rightarrow> app \<Rightarrow> app" where
  "connect_send profile sec finalAuthPassword s =
     (let params = connect_params profile sec finalAuthPassword
      in await (AwaitConnect params) (send (issued (connectVpn (tauri s) params)) s))"

definition handshake_message :: "VpnProfile \<Rightarrow> string" where
  "handshake_message p = ''Initiating tunnel handshake to '' @ profile_name p @ '' ('' @
     serverHost p @ '':'' @ string_of_nat (serverPort p) @ '')...''"

definition connect :: "string option \<Rightarrow> string option \<Rightarrow> app \<Rightarrow> app" where
  "connect targetProfileId overridePassword s =
     (if connectionState s = Connecting \<or> connectionState s = Connected then s
      else
        let profileToUse = or_str targetProfileId (activeProfileId s) in
        case (case find_by profile_id profileToUse (profiles s) of
                Some p \<Rightarrow> Some p | None \<Rightarrow> first_opt (profiles s)) of
          None \<Rightarrow> s
        | Some profile \<Rightarrow>
            if passwordMode (creds profile) = Some PmDynamicPrompt \<and> overridePassword = None
            then s\<lparr>mfaPromptProfile := Some profile\<rparr>
            else
              let s1 = s\<lparr>connectionState := Connecting, activeProfileId := profile_id profile\<rparr>;
                  s2 = addLog INFO ''TUNNEL_ENGINE'' (handshake_message profile) s1;
                  finalAuthPassword = or_str overridePassword []
              in if finalAuthPassword = [] \<and> passwordMode (creds profile) = Some PmTotpAuto \<and>
                    truthy (totpSecret (creds profile))
                 then await (AwaitTotp profile (securitySettings s) (now_ms (clk s))) s2
                 else connect_send profile (securitySettings s) finalAuthPassword s2)"

definition connect_after_totp ::
  "hmac_fn \<Rightarrow> VpnProfile \<Rightarrow> SecuritySettings \<Rightarrow> int \<Rightarrow> app \<Rightarrow> app" where
  "connect_after_totp hmac profile sec t s =
     (let liveOtp = generateCode hmac (or_str (totpSecret (creds profile)) []) t 6 30;
          basePass = or_str (password (creds profile)) [];
          format = nullish (totpFormat (creds profile)) TfAppend;
          s1 = addLog INFO ''CRYPTO_2FA'' ''Generated real-time TOTP OTP for OpenVPN 2FA handshake'' s
      in connect_send profile sec (combine_totp format basePass liveOtp) s1)"

definition connect_reply :: "ipc_error + DaemonResponse \<Rightarrow> app \<Rightarrow> app" where
  "connect_reply r s = (case r of
     Inr (RespError msg) \<Rightarrow>
       (addLog ERROR ''TUNNEL_ENGINE''
          (''Connection failed: '' @ or_str msg ''Connection request rejected by daemon'') s)
       \<lparr>connectionState := ErrorState\<rparr>
   | Inr RespOther \<Rightarrow> s
   | Inl err \<Rightarrow>
       (addLog ERROR ''TUNNEL_ENGINE'' (''Failed to invoke vpn_connect: '' @ err) s)
       \<lparr>connectionState := ErrorState\<rparr>)"

section \<open>Disconnecting\<close>

definition mark_disconnected :: "app \<Rightarrow> app" where
  "mark_disconnected s = s\<lparr>connectionState := Disconnected, connectedAt := None, uptimeSeconds := 0\<rparr>"

definition disconnect :: "app \<Rightarrow> app" where
  "disconnect s =
     (if connectionState s = Disconnected \<or> connectionState s = Disconnecting then s
      else if connectionState s = Connecting then
        let s1 = addLog WARN ''TUNNEL_ENGINE'' ''Connection handshake aborted by user.''
                   (mark_disconnected s);
            s2 = send (issued (updateTrayStatus (tauri s) ''disconnected'')) s1
        in await AwaitForcedDisconnect (send (issued (disconnectVpn (tauri s) True)) s2)
      else
        let s1 = addLog WARN ''TUNNEL_ENGINE''
                   ''Disconnect request received. Tearing down tunnel interfaces...''
                   (s\<lparr>connectionState := Disconnecting\<rparr>)
        in await AwaitDisconnect (send (issued (disconnectVpn (tauri s) False)) s1))"

definition disconnect_reply :: "ipc_error + DaemonResponse \<Rightarrow> app \<Rightarrow> app" where
  "disconnect_reply r s = (case r of
     Inr _ \<Rightarrow> mark_disconnected s
   | Inl err \<Rightarrow> mark_disconnected (addLog ERROR ''TUNNEL_ENGINE'' (''Disconnect error: '' @ err) s))"

section \<open>Probing the daemon\<close>

definition retryDaemonIpc :: "app \<Rightarrow> app" where
  "retryDaemonIpc s =
     await (AwaitProbe (connectionState s)) (send (issued (pingDaemon (tauri s))) s)"

definition probe_reply :: "ConnectionState \<Rightarrow> bool \<Rightarrow> app \<Rightarrow> app" where
  "probe_reply snapshotState alive s =
     (let s1 = s\<lparr>daemonHealth := (if alive then HealthConnected else HealthOffline)\<rparr>
      in if alive then
           let s2 = addLog INFO ''DAEMON_IPC'' ''Daemon probe succeeded: IPC socket online.'' s1
           in if snapshotState = ErrorState then s2\<lparr>connectionState := Disconnected\<rparr> else s2
         else addLog ERROR ''DAEMON_IPC'' ''Daemon probe failed: IPC socket still unreachable.'' s1)"

section \<open>Latency probes\<close>

definition ping_one :: "VpnProfile \<Rightarrow> app \<Rightarrow> app" where
  "ping_one prof s =
     (if serverHost prof \<noteq> [] \<and> serverPort prof \<noteq> 0
      then await (AwaitPing prof)
             (send (issued (pingHost (tauri s) (serverHost prof) (serverPort prof))) s)
      else s)"

definition pingAllProfiles :: "app \<Rightarrow> app" where
  "pingAllProfiles s = fold ping_one (profiles s) s"

definition ping_reply :: "VpnProfile \<Rightarrow> nat option \<Rightarrow> app \<Rightarrow> app" where
  "ping_reply prof rtt s = (case rtt of
     Some r \<Rightarrow> (if r > 0
        then s\<lparr>profiles := map_by profile_id (profile_id prof) (\<lambda>p. p\<lparr>pingMs := r\<rparr>) (profiles s)\<rparr> else s)
   | None \<Rightarrow> s)"

section \<open>Loading the persisted state\<close>

record loaded_secret =
  ld_username :: "string option"
  ld_password :: "string option"
  ld_passwordMode :: PasswordMode
  ld_totpSecret :: "string option"
  ld_totpFormat :: TotpFormat
  ld_privateKey :: "string option"
  ld_presharedKey :: "string option"
  ld_rawConfig :: "string option"
  ld_caCert :: "string option"
  ld_clientCert :: "string option"
  ld_clientKey :: "string option"
  ld_tlsAuthKey :: "string option"
  ld_tlsCryptKey :: "string option"
  ld_keyDirection :: "string option"
  ld_remoteCertTlsServer :: "bool option"
  ld_renegSec :: "nat option"

text \<open>The local variables of the mapping before the secret is read.\<close>

definition stored_username :: "StoredProfile \<Rightarrow> string option" where
  "stored_username p = (case sp_credentials p of Some c \<Rightarrow> sc_username c | None \<Rightarrow> None)"

definition stored_mode :: "StoredProfile \<Rightarrow> PasswordMode option" where
  "stored_mode p = (case sp_credentials p of Some c \<Rightarrow> sc_password_mode c | None \<Rightarrow> None)"

definition stored_format :: "StoredProfile \<Rightarrow> TotpFormat option" where
  "stored_format p = (case sp_credentials p of Some c \<Rightarrow> sc_totp_format c | None \<Rightarrow> None)"

definition without_secret :: "StoredProfile \<Rightarrow> loaded_secret" where
  "without_secret p = \<lparr>ld_username = stored_username p, ld_password = None,
     ld_passwordMode = nullish (stored_mode p) PmStatic, ld_totpSecret = None,
     ld_totpFormat = nullish (stored_format p) TfAppend, ld_privateKey = None,
     ld_presharedKey = None, ld_rawConfig = None, ld_caCert = None, ld_clientCert = None,
     ld_clientKey = None, ld_tlsAuthKey = None, ld_tlsCryptKey = None, ld_keyDirection = None,
     ld_remoteCertTlsServer = None, ld_renegSec = None\<rparr>"

definition mode_with_totp :: "StoredProfile \<Rightarrow> string option \<Rightarrow> PasswordMode" where
  "mode_with_totp p totp = (if truthy totp then nullish (stored_mode p) PmTotpAuto
     else nullish (stored_mode p) PmStatic)"

definition read_secret :: "StoredProfile \<Rightarrow> ProfileSecretPayload option \<Rightarrow> loaded_secret" where
  "read_secret p secret = (let l = without_secret p in case secret of
     None \<Rightarrow> l
   | Some (SecretWireguard k psk) \<Rightarrow> l\<lparr>ld_privateKey := Some k, ld_presharedKey := psk\<rparr>
   | Some (SecretUserPassword u) \<Rightarrow> l\<lparr>
       ld_username := or_else (Some (us_username u)) (stored_username p),
       ld_password := Some (us_password u),
       ld_totpSecret := us_totp_secret u,
       ld_totpFormat := nullish (us_totp_format u) (ld_totpFormat l),
       ld_caCert := us_ca_cert u, ld_clientCert := us_client_cert u,
       ld_clientKey := us_client_key u, ld_tlsAuthKey := us_tls_auth_key u,
       ld_tlsCryptKey := us_tls_crypt_key u, ld_keyDirection := us_key_direction u,
       ld_remoteCertTlsServer := us_remote_cert_tls_server u, ld_renegSec := us_reneg_sec u,
       ld_rawConfig := us_ovpn_config u,
       ld_passwordMode := mode_with_totp p (us_totp_secret u)\<rparr>
   | Some (SecretRawOvpn r) \<Rightarrow> l\<lparr>
       ld_rawConfig := Some (rs_config_content r),
       ld_username := or_else (rs_username r) (stored_username p),
       ld_password := rs_password r,
       ld_totpSecret := rs_totp_secret r,
       ld_totpFormat := nullish (rs_totp_format r) (ld_totpFormat l),
       ld_passwordMode := mode_with_totp p (rs_totp_secret r)\<rparr>)"

definition stored_flag :: "(StoredCredentials \<Rightarrow> bool) \<Rightarrow> StoredProfile \<Rightarrow> bool" where
  "stored_flag f p = (case sp_credentials p of Some c \<Rightarrow> f c | None \<Rightarrow> False)"

definition map_profile :: "FullStorageSnapshot \<Rightarrow> StoredProfile \<Rightarrow> VpnProfile" where
  "map_profile snapshot p =
     (let secret = (case snap_secrets snapshot of Some m \<Rightarrow> m (sp_id p) | None \<Rightarrow> None);
          l = read_secret p secret
      in \<lparr>profile_id = sp_id p, profile_name = sp_name p, protocol = sp_protocol p,
          serverHost = sp_server_host p, serverPort = sp_server_port p,
          serverCountry = sp_server_country p, serverCity = [], serverFlag = sp_server_flag p,
          virtualIp = sp_virtual_ip p, assignedIp = None, isFavorite = sp_is_favorite p,
          tags = sp_tags p, lastConnected = sp_last_connected p,
          pingMs = nullish (sp_ping_ms p) 20,
          credentials = Some \<lparr>username = ld_username l, password = ld_password l,
            passwordMode = Some (ld_passwordMode l), totpSecret = ld_totpSecret l,
            totpFormat = Some (ld_totpFormat l),
            hasPassword = Some (truthy (ld_password l) \<or> stored_flag sc_has_password p),
            hasCert = Some (truthy (ld_clientCert l) \<or> stored_flag sc_has_client_cert p),
            hasPrivateKey = Some (truthy (ld_privateKey l) \<or> stored_flag sc_has_private_key p),
            hasCaCert = Some (truthy (ld_caCert l) \<or>
              stored_flag (\<lambda>c. nullish (sc_has_ca_cert c) False) p),
            hasTlsAuth = Some (truthy (ld_tlsAuthKey l) \<or>
              stored_flag (\<lambda>c. nullish (sc_has_tls_auth c) False) p),
            hasTlsCrypt = Some (truthy (ld_tlsCryptKey l) \<or>
              stored_flag (\<lambda>c. nullish (sc_has_tls_crypt c) False) p),
            privateKey = ld_privateKey l, presharedKey = ld_presharedKey l,
            caCert = ld_caCert l, clientCert = ld_clientCert l, clientKey = ld_clientKey l,
            tlsAuthKey = ld_tlsAuthKey l, tlsCryptKey = ld_tlsCryptKey l,
            keyDirection = ld_keyDirection l, remoteCertTlsServer = ld_remoteCertTlsServer l,
            renegSec = ld_renegSec l\<rparr>,
          rawConfig = ld_rawConfig l, routingMode = None,
          useOnlyForNetworkResources = Some (nullish (sp_intranet_only p) False),
          customSubnets = Some (nullish (sp_custom_subnets p) [])\<rparr>)"

definition map_security :: "StoredSecuritySettings \<Rightarrow> SecuritySettings" where
  "map_security s = \<lparr>killSwitch = ss_kill_switch s, dnsProtection = ss_dns_protection s,
     customDnsProvider = nullish (ss_custom_dns_provider s) Cloudflare, customDnsIp = None,
     customDnsServers = Some (nullish (ss_custom_dns_servers s) [''1.1.1.1'', ''1.0.0.1'']),
     ipv6LeakProtection = ss_ipv6_leak_protection s,
     webRtcProtection = ss_webrtc_leak_protection s, lanBypass = ss_lan_traffic_bypass s,
     defaultUseOnlyForNetworkResources = Some (nullish (ss_default_intranet_only s) False),
     defaultRoutingMode = None\<rparr>"

definition initial_active_id :: "VpnProfile list \<Rightarrow> string" where
  "initial_active_id ps =
     or_str (map_option profile_id (List.find isFavorite ps))
       (or_str (map_option profile_id (first_opt ps)) [])"

definition loadStorage :: "bool \<Rightarrow> app \<Rightarrow> app" where
  "loadStorage force s =
     (if \<not> force \<and> (isStorageLoaded s \<or> isStorageLoading s) then s
      else await AwaitStorage
             (send (issued (loadAllStorage (tauri s))) (s\<lparr>isStorageLoading := True\<rparr>)))"

text \<open>
  \<open>setupIpcSubscriptions\<close> subscribes at most once. The flag is set when the registration of the
  listeners begins, as in the code; from then on events are taken as delivered, although a listener
  hears only those sent after its own registration was answered, and none if it was refused. The
  model thus has every run of the code and some more.
\<close>

definition setupIpcSubscriptions :: "app \<Rightarrow> app" where
  "setupIpcSubscriptions s = (if ipcSubscribed s then s else s\<lparr>ipcSubscribed := True\<rparr>)"

definition storage_reply :: "FullStorageSnapshot option \<Rightarrow> app \<Rightarrow> app" where
  "storage_reply snapshot s = (case snapshot of
     None \<Rightarrow> s\<lparr>isStorageLoading := False\<rparr>
   | Some snap \<Rightarrow>
       let mappedProfiles = map (map_profile snap) (snap_profiles snap);
           activeId = initial_active_id mappedProfiles;
           s1 = s\<lparr>profiles := mappedProfiles,
                  securitySettings := map_security (snap_security_settings snap),
                  appRules := map app_rule_payload (snap_app_rules snap),
                  ipRules := map ip_rule_payload (snap_ip_rules snap),
                  activeProfileId := activeId, isStorageLoaded := True\<rparr>;
           s2 = addLog INFO ''PERSISTENCE'' (''Loaded '' @ string_of_nat (length mappedProfiles) @
                  '' profiles and encrypted vault keys from disk'') s1
       in await (AwaitSubscriptions activeId) (setupIpcSubscriptions s2))"

text \<open>After the subscriptions: \<open>Inl\<close> is a rejected \<open>listen\<close>, which only reaches \<open>finally\<close>.\<close>

definition subscriptions_reply :: "string \<Rightarrow> ipc_error + unit \<Rightarrow> app \<Rightarrow> app" where
  "subscriptions_reply activeId r s = (case r of
     Inl _ \<Rightarrow> s\<lparr>isStorageLoading := False\<rparr>
   | Inr _ \<Rightarrow>
       let s1 = pingAllProfiles s;
           s2 = (if autoConnect (appSettings s1) \<and> activeId \<noteq> []
                 then await (AutoConnectTimer activeId) s1 else s1)
       in s2\<lparr>isStorageLoading := False\<rparr>)"

definition auto_connect :: "string \<Rightarrow> app \<Rightarrow> app" where
  "auto_connect activeId s =
     (if connectionState s = Disconnected then connect (Some activeId) None s else s)"

section \<open>Daemon events\<close>

definition daemon_status_module :: "DaemonHealthStatus \<Rightarrow> app \<Rightarrow> app" where
  "daemon_status_module status s = setDaemonHealth status s"

definition invalidate_tunnel :: "app \<Rightarrow> app" where
  "invalidate_tunnel s =
     (let s1 = addLog ERROR ''DAEMON_IPC''
        ''Daemon process terminated unexpectedly or IPC socket unreachable. Tunnel state invalidated.'' s;
          s2 = s1\<lparr>connectionState := ErrorState, uptimeSeconds := 0, connectedAt := None,
                  telemetry := (telemetry s1)\<lparr>currentDownloadKbps := 0, currentUploadKbps := 0,
                    currentPingMs := 0\<rparr>\<rparr>
      in send (issued (updateTrayStatus (tauri s) ''disconnected'')) s2)"

definition daemon_status_store :: "DaemonHealthStatus \<Rightarrow> app \<Rightarrow> app" where
  "daemon_status_store status s =
     (let prevDaemon = daemonHealth s; s1 = setDaemonHealth status s in
      if status = HealthOffline then
        (if connectionState s = Connected \<or> connectionState s = Connecting
         then invalidate_tunnel s1 else s1)
      else if status = HealthConnected \<and> prevDaemon = HealthOffline then
        await AwaitStatusQuery
          (send (issued (getDaemonStatus (tauri s)))
            (addLog INFO ''DAEMON_IPC'' ''Daemon IPC connection restored. System operational.'' s1))
      else s1)"

definition status_query_reply :: "ipc_error + ConnectionState option \<Rightarrow> app \<Rightarrow> app" where
  "status_query_reply r s = (case r of
     Inr (Some st) \<Rightarrow> s\<lparr>connectionState := st\<rparr> | _ \<Rightarrow> s)"

record StatusSnapshot =
  snap_state :: ConnectionState
  snap_virtual_interface :: "string option"
  snap_assigned_ip :: "string option"
  snap_session_duration_secs :: "nat option"

text \<open>What a handler can be given: not an object, or an object with a tag and a result.\<close>

datatype 'r payload = NotObject | Payload "string option" "'r option"

definition vpn_toast :: "string \<Rightarrow> string \<Rightarrow> string \<Rightarrow> toast" where
  "vpn_toast title msg color = \<lparr>toast_title = title, toast_message = msg, toast_color = color\<rparr>"

definition notify_once :: "ConnectionState \<Rightarrow> toast \<Rightarrow> app \<Rightarrow> app" where
  "notify_once st t s =
     (if notificationsEnabled (appSettings s) = Some True \<and> lastNotifiedState s \<noteq> Some st
      then show_toast t (s\<lparr>lastNotifiedState := Some st\<rparr>) else s)"

definition announce :: "StatusSnapshot \<Rightarrow> ConnectionState \<Rightarrow> app \<Rightarrow> app" where
  "announce snap prevState s =
     (let profName = or_str (map_option profile_name
            (find_by profile_id (activeProfileId s) (profiles s))) ''VPN''
      in case snap_state snap of
        Connected \<Rightarrow>
          notify_once Connected
            (vpn_toast ''VPNHub: Connected'' (''Secure tunnel active with '' @ profName) ''teal'')
            (addLog INFO ''TUNNEL_ENGINE'' (''Tunnel established. Interface: '' @
               or_str (snap_virtual_interface snap) ''tun0'' @ '', Assigned IP: '' @
               or_str (snap_assigned_ip snap) ''DHCP'') s)
      | ErrorState \<Rightarrow>
          notify_once ErrorState
            (vpn_toast ''VPNHub: Error'' ''VPN connection failed or handshake was interrupted.'' ''red'')
            (addLog ERROR ''TUNNEL_ENGINE''
               ''VPN tunnel encountered a fatal error / authentication failure.'' s)
      | Disconnected \<Rightarrow>
          (if prevState = Connected \<or> prevState = Connecting \<or> prevState = Disconnecting
           then let s1 = addLog INFO ''TUNNEL_ENGINE'' ''VPN tunnel disconnected.'' s
                in if notificationsEnabled (appSettings s) = Some True \<and>
                      (prevState = Connected \<or> lastNotifiedState s = Some Connected)
                   then show_toast (vpn_toast ''VPNHub: Disconnected''
                          ''VPN tunnel disconnected. Protection disabled.'' ''gray'') s1
                   else s1
           else s)\<lparr>lastNotifiedState := Some Disconnected\<rparr>
      | _ \<Rightarrow> s)"

definition apply_status :: "StatusSnapshot \<Rightarrow> app \<Rightarrow> app" where
  "apply_status snap s =
     (let daemonState = snap_state snap; prevState = connectionState s in
      if daemonState = prevState then s
      else
        let s1 = announce snap prevState s;
            sessionSecs = int (or_num (snap_session_duration_secs snap) 0);
            s2 = s1\<lparr>connectionState := daemonState,
                    connectedAt := (if daemonState = Connected
                      then Some (now_ms (clk s1) - sessionSecs * 1000) else None),
                    uptimeSeconds := sessionSecs\<rparr>
        in send (issued (updateTrayStatus (tauri s) (state_string daemonState))) s2)"

definition vpn_status_update :: "StatusSnapshot payload \<Rightarrow> app \<Rightarrow> app" where
  "vpn_status_update pl s = (case pl of
     Payload (Some tag) (Some snap) \<Rightarrow> if tag = ''status'' then apply_status snap s else s
   | _ \<Rightarrow> s)"

record Metrics =
  rx_rate_bps :: "rat option"
  tx_rate_bps :: "rat option"
  latency_rtt_ms :: "nat option"
  rx_bytes :: "nat option"
  tx_bytes :: "nat option"

text \<open>\<open>Math.round((rate / 8192) * 10) / 10\<close>.\<close>

definition rate_kbps :: "rat option \<Rightarrow> rat" where
  "rate_kbps r = of_int \<lfloor>(nullish r 0 / 8192) * 10 + 1 / 2\<rfloor> / 10"

definition apply_metrics :: "Metrics \<Rightarrow> app \<Rightarrow> app" where
  "apply_metrics m s =
     (let rxKbps = rate_kbps (rx_rate_bps m); txKbps = rate_kbps (tx_rate_bps m);
          ping = or_num (or_else_num (latency_rtt_ms m) (Some (currentPingMs (telemetry s)))) 24;
          point = \<lparr>point_timestamp = now_ms (clk s), downloadSpeed = rxKbps,
                   uploadSpeed = txKbps, point_ping = ping\<rparr>;
          updatedProfiles = (if activeProfileId s \<noteq> []
            then map_by profile_id (activeProfileId s) (\<lambda>p. p\<lparr>pingMs := ping\<rparr>) (profiles s)
            else profiles s)
      in s\<lparr>profiles := updatedProfiles,
           telemetry := (telemetry s)\<lparr>currentDownloadKbps := rxKbps, currentUploadKbps := txKbps,
             totalDownloadedBytes := nullish (rx_bytes m) (totalDownloadedBytes (telemetry s)),
             totalUploadedBytes := nullish (tx_bytes m) (totalUploadedBytes (telemetry s)),
             currentPingMs := ping,
             sparkline := push_point point (sparkline (telemetry s))\<rparr>\<rparr>)"

definition metrics_update :: "Metrics payload \<Rightarrow> app \<Rightarrow> app" where
  "metrics_update pl s = (case pl of
     Payload (Some tag) (Some m) \<Rightarrow> if tag = ''metrics'' then apply_metrics m s else s
   | _ \<Rightarrow> s)"

definition tray_toggle :: "app \<Rightarrow> app" where
  "tray_toggle s =
     (if connectionState s = Connected \<or> connectionState s = Connecting \<or>
         connectionState s = Reconnecting
      then disconnect s else connect (Some (activeProfileId s)) None s)"

text \<open>\<^verbatim>\<open>AppShell.tsx\<close>: the browser reports that the network is back.\<close>

definition network_online :: "app \<Rightarrow> app" where
  "network_online s =
     (if autoReconnect (appSettings s) = Some True \<and> activeProfileId s \<noteq> [] \<and>
         connectionState s \<noteq> Connected \<and> connectionState s \<noteq> Connecting
      then connect (Some (activeProfileId s)) None
             (addLog INFO ''NETWORK_ADAPTER''
                ''Network connectivity restored. Auto-reconnecting VPN tunnel...'' s)
      else s)"

section \<open>The event loop\<close>

datatype reply =
  ReplyDaemon "ipc_error + DaemonResponse"
| ReplyBool "ipc_error + bool"
| ReplyStatus "ipc_error + ConnectionState option"
| ReplyStorage "ipc_error + FullStorageSnapshot"
| ReplyNat "ipc_error + nat"
| ReplyUnit "ipc_error + unit"

text \<open>\<open>run_task\<close> is \<open>None\<close> when the reply is not one the waiting promise can have.\<close>

primrec run_task :: "hmac_fn \<Rightarrow> task \<Rightarrow> reply \<Rightarrow> app \<Rightarrow> app option" where
  "run_task hmac (AwaitTotp p sec t) r s = (case r of
     ReplyUnit _ \<Rightarrow> Some (connect_after_totp hmac p sec t s) | _ \<Rightarrow> None)"
| "run_task hmac (AwaitConnect cp) r s = (case r of
     ReplyDaemon v \<Rightarrow> Some (connect_reply (resume (connectVpn (tauri s) cp) v) s) | _ \<Rightarrow> None)"
| "run_task hmac AwaitForcedDisconnect r s = (case r of ReplyDaemon v \<Rightarrow> Some s | _ \<Rightarrow> None)"
| "run_task hmac AwaitDisconnect r s = (case r of
     ReplyDaemon v \<Rightarrow> Some (disconnect_reply (resume (disconnectVpn (tauri s) False) v) s)
   | _ \<Rightarrow> None)"
| "run_task hmac (AwaitProbe st) r s = (case r of
     ReplyBool v \<Rightarrow> Some (probe_reply st (resume (pingDaemon (tauri s)) v) s) | _ \<Rightarrow> None)"
| "run_task hmac AwaitStatusQuery r s = (case r of
     ReplyStatus v \<Rightarrow> Some (status_query_reply (resume (getDaemonStatus (tauri s)) v) s)
   | _ \<Rightarrow> None)"
| "run_task hmac AwaitStorage r s = (case r of
     ReplyStorage v \<Rightarrow> Some (storage_reply (resume (loadAllStorage (tauri s)) v) s) | _ \<Rightarrow> None)"
| "run_task hmac (AwaitSubscriptions k) r s = (case r of
     ReplyUnit v \<Rightarrow> Some (subscriptions_reply k (if tauri s then v else Inr ()) s) | _ \<Rightarrow> None)"
| "run_task hmac (AwaitPing prof) r s = (case r of
     ReplyNat v \<Rightarrow> Some (ping_reply prof
       (resume (pingHost (tauri s) (serverHost prof) (serverPort prof)) v) s)
   | _ \<Rightarrow> None)"
| "run_task hmac (AutoConnectTimer k) r s = (case r of
     ReplyUnit _ \<Rightarrow> Some (auto_connect k s) | _ \<Rightarrow> None)"
| "run_task hmac AwaitInitialPing r s = (case r of
     ReplyBool v \<Rightarrow> Some (setDaemonHealth
       (if resume (pingDaemon (tauri s)) v then HealthConnected else HealthOffline) s)
   | _ \<Rightarrow> None)"

definition resolve :: "hmac_fn \<Rightarrow> nat \<Rightarrow> reply \<Rightarrow> app \<Rightarrow> app" where
  "resolve hmac n r s =
     (if n < length (pending s)
      then case run_task hmac (pending s ! n) r
                  (s\<lparr>pending := take n (pending s) @ drop (Suc n) (pending s)\<rparr>) of
             Some s' \<Rightarrow> s' | None \<Rightarrow> s
      else s)"

datatype event =
  Connect "string option" "string option" | Disconnect
| SelectProfile string | ToggleFavorite string
| AddProfile VpnProfile "ProfileSecretPayload option"
| UpdateProfile VpnProfile "ProfileSecretPayload option"
| DeleteProfile string
| SetKillSwitch KillSwitchMode
| UpdateSecurity PartialSecuritySettings | UpdateApp PartialAppSettings
| AddAppRule AppRule | ToggleAppRule string | DeleteAppRule string
| AddIpRule IpDomainRule | ToggleIpRule string | DeleteIpRule string
| ClearLogs | AddLog LogLevel string string
| SetTab NavigationTab | SetSpotlight bool | SetCompact bool | SetAutoScroll bool
| SetFilterLevel string | SetSearchQuery string | SetMfaPrompt "VpnProfile option"
| LoadStorage bool | RetryDaemon | PingAll | Tick
| DaemonStatusModule DaemonHealthStatus | DaemonStatusStore DaemonHealthStatus
| VpnStatus "StatusSnapshot payload" | MetricsEvent "Metrics payload" | TrayToggle
| NetworkOnline
| ClockTick clock
| Resolve nat reply

primrec step :: "hmac_fn \<Rightarrow> app \<Rightarrow> event \<Rightarrow> app" where
  "step hmac s (Connect k pw) = connect k pw s"
| "step hmac s Disconnect = disconnect s"
| "step hmac s (SelectProfile k) = selectProfile k s"
| "step hmac s (ToggleFavorite k) = toggleFavorite k s"
| "step hmac s (AddProfile p sec) = addProfile p sec s"
| "step hmac s (UpdateProfile p sec) = updateProfile p sec s"
| "step hmac s (DeleteProfile k) = deleteProfile k s"
| "step hmac s (SetKillSwitch m) = setKillSwitch m s"
| "step hmac s (UpdateSecurity p) = updateSecuritySettings p s"
| "step hmac s (UpdateApp p) = updateAppSettings p s"
| "step hmac s (AddAppRule r) = addAppRule r s"
| "step hmac s (ToggleAppRule k) = toggleAppRule k s"
| "step hmac s (DeleteAppRule k) = deleteAppRule k s"
| "step hmac s (AddIpRule r) = addIpRule r s"
| "step hmac s (ToggleIpRule k) = toggleIpRule k s"
| "step hmac s (DeleteIpRule k) = deleteIpRule k s"
| "step hmac s ClearLogs = clearLogs s"
| "step hmac s (AddLog l src m) = addLog l src m s"
| "step hmac s (SetTab t) = setActiveTab t s"
| "step hmac s (SetSpotlight b) = setSpotlightOpen b s"
| "step hmac s (SetCompact b) = setCompactWidget b s"
| "step hmac s (SetAutoScroll b) = setLogAutoScroll b s"
| "step hmac s (SetFilterLevel l) = setLogFilterLevel l s"
| "step hmac s (SetSearchQuery q) = setLogSearchQuery q s"
| "step hmac s (SetMfaPrompt p) = setMfaPromptProfile p s"
| "step hmac s (LoadStorage force) = loadStorage force s"
| "step hmac s RetryDaemon = retryDaemonIpc s"
| "step hmac s PingAll = pingAllProfiles s"
| "step hmac s Tick = tickTelemetry s"
| "step hmac s (DaemonStatusModule h) = (if tauri s then daemon_status_module h s else s)"
| "step hmac s (DaemonStatusStore h) =
     (if tauri s \<and> ipcSubscribed s then daemon_status_store h s else s)"
| "step hmac s (VpnStatus pl) = (if tauri s \<and> ipcSubscribed s then vpn_status_update pl s else s)"
| "step hmac s (MetricsEvent pl) = (if tauri s \<and> ipcSubscribed s then metrics_update pl s else s)"
| "step hmac s TrayToggle = (if tauri s \<and> ipcSubscribed s then tray_toggle s else s)"
| "step hmac s NetworkOnline = network_online s"
| "step hmac s (ClockTick c) = s\<lparr>clk := c\<rparr>"
| "step hmac s (Resolve n r) = resolve hmac n r s"

text \<open>The module body: load the storage and, in the desktop shell, probe the daemon.\<close>

definition startup :: "app \<Rightarrow> app" where
  "startup s =
     (let s1 = loadStorage False s
      in if tauri s1 then await AwaitInitialPing (send (issued (pingDaemon (tauri s1))) s1) else s1)"

inductive reachable :: "hmac_fn \<Rightarrow> app \<Rightarrow> bool" for hmac :: hmac_fn where
  boot: "reachable hmac (startup (initial_app is_tauri c uuids raw))"
| event: "reachable hmac s \<Longrightarrow> reachable hmac (step hmac s e)"

end
