(* ===== verification/Session_Invariants.thy ===== *)
theory Session_Invariants
  imports Vpn_Session
begin

text \<open>
  Invariants of the event loop of \<^verbatim>\<open>state/useVpnStore.ts\<close> over every interleaving of user
  actions, daemon events, timers and replies: the log and the sparkline stay within their
  windows, log identifiers stay unique, every connect request carries a consistent policy and
  nothing is sent outside the desktop shell. One preservation lemma per action, then rule
  induction over the reachable states.
\<close>

section \<open>Invariants of event systems\<close>

text \<open>An event system is a step function; an invariant of every step is one of every run.\<close>

locale event_system =
  fixes stp :: "'s \<Rightarrow> 'e \<Rightarrow> 's" and ok :: "'s \<Rightarrow> bool"
  assumes step_ok: "ok s \<Longrightarrow> ok (stp s e)"
begin

lemma run_ok: "ok s \<Longrightarrow> ok (foldl stp s es)"
  by (induction es arbitrary: s) (auto intro: step_ok)

end

section \<open>The parts of the invariant\<close>

definition log_inv :: "app \<Rightarrow> bool" where
  "log_inv s \<longleftrightarrow> length (logs s) \<le> 500 \<and>
     (\<forall>e \<in> set (logs s). \<exists>i < uuid_next s. log_id e = uuid_source s i) \<and>
     (inj (uuid_source s) \<longrightarrow> distinct (map log_id (logs s)))"

definition spark_inv :: "app \<Rightarrow> bool" where
  "spark_inv s \<longleftrightarrow> length (sparkline (telemetry s)) = 30"

definition connect_ok :: "VpnConnectParams \<Rightarrow> bool" where
  "connect_ok cp \<longleftrightarrow> (case (security_policy cp, routing_policy cp) of
     (Some sp, Some rp) \<Rightarrow> enable_kill_switch cp = (kill_switch_mode sp \<noteq> KsOff)
   | _ \<Rightarrow> False) \<and>
   (case auth_config cp of
     AuthWireguardKey _ _ \<Rightarrow> cp_protocol cp = WpWireguard
   | AuthUserPassword _ \<Rightarrow> cp_protocol cp \<noteq> WpWireguard
   | AuthRawOvpn _ _ _ \<Rightarrow> False)"

definition cmd_ok :: "ipc_command \<Rightarrow> bool" where
  "cmd_ok c \<longleftrightarrow> (case c of CmdVpnConnect cp \<Rightarrow> connect_ok cp | _ \<Rightarrow> True)"

definition outbox_inv :: "app \<Rightarrow> bool" where
  "outbox_inv s \<longleftrightarrow> list_all cmd_ok (outbox s) \<and> (\<not> tauri s \<longrightarrow> outbox s = [])"

lemma log_inv_update [simp]:
  "log_inv (s\<lparr>connectionState := v1\<rparr>) = log_inv s"
  "log_inv (s\<lparr>daemonHealth := v2\<rparr>) = log_inv s"
  "log_inv (s\<lparr>activeProfileId := v3\<rparr>) = log_inv s"
  "log_inv (s\<lparr>activeTab := v4\<rparr>) = log_inv s"
  "log_inv (s\<lparr>profiles := v5\<rparr>) = log_inv s"
  "log_inv (s\<lparr>telemetry := v6\<rparr>) = log_inv s"
  "log_inv (s\<lparr>connectedAt := v7\<rparr>) = log_inv s"
  "log_inv (s\<lparr>uptimeSeconds := v8\<rparr>) = log_inv s"
  "log_inv (s\<lparr>securitySettings := v9\<rparr>) = log_inv s"
  "log_inv (s\<lparr>appSettings := v10\<rparr>) = log_inv s"
  "log_inv (s\<lparr>appRules := v11\<rparr>) = log_inv s"
  "log_inv (s\<lparr>ipRules := v12\<rparr>) = log_inv s"
  "log_inv (s\<lparr>isSpotlightOpen := v13\<rparr>) = log_inv s"
  "log_inv (s\<lparr>isCompactWidget := v14\<rparr>) = log_inv s"
  "log_inv (s\<lparr>isLogAutoScroll := v15\<rparr>) = log_inv s"
  "log_inv (s\<lparr>logFilterLevel := v16\<rparr>) = log_inv s"
  "log_inv (s\<lparr>logSearchQuery := v17\<rparr>) = log_inv s"
  "log_inv (s\<lparr>isStorageLoaded := v18\<rparr>) = log_inv s"
  "log_inv (s\<lparr>mfaPromptProfile := v19\<rparr>) = log_inv s"
  "log_inv (s\<lparr>ipcSubscribed := v20\<rparr>) = log_inv s"
  "log_inv (s\<lparr>isStorageLoading := v21\<rparr>) = log_inv s"
  "log_inv (s\<lparr>lastNotifiedState := v22\<rparr>) = log_inv s"
  "log_inv (s\<lparr>clk := v23\<rparr>) = log_inv s"
  "log_inv (s\<lparr>savedAppSettings := v24\<rparr>) = log_inv s"
  "log_inv (s\<lparr>outbox := v25\<rparr>) = log_inv s"
  "log_inv (s\<lparr>toasts := v26\<rparr>) = log_inv s"
  "log_inv (s\<lparr>pending := v27\<rparr>) = log_inv s"
  "log_inv (send cs s) = log_inv s"
  "log_inv (await t s) = log_inv s"
  "log_inv (show_toast n s) = log_inv s"
  by (simp_all add: log_inv_def)

lemma spark_inv_update [simp]:
  "spark_inv (s\<lparr>connectionState := v1\<rparr>) = spark_inv s"
  "spark_inv (s\<lparr>daemonHealth := v2\<rparr>) = spark_inv s"
  "spark_inv (s\<lparr>activeProfileId := v3\<rparr>) = spark_inv s"
  "spark_inv (s\<lparr>activeTab := v4\<rparr>) = spark_inv s"
  "spark_inv (s\<lparr>profiles := v5\<rparr>) = spark_inv s"
  "spark_inv (s\<lparr>connectedAt := v6\<rparr>) = spark_inv s"
  "spark_inv (s\<lparr>uptimeSeconds := v7\<rparr>) = spark_inv s"
  "spark_inv (s\<lparr>logs := v8\<rparr>) = spark_inv s"
  "spark_inv (s\<lparr>securitySettings := v9\<rparr>) = spark_inv s"
  "spark_inv (s\<lparr>appSettings := v10\<rparr>) = spark_inv s"
  "spark_inv (s\<lparr>appRules := v11\<rparr>) = spark_inv s"
  "spark_inv (s\<lparr>ipRules := v12\<rparr>) = spark_inv s"
  "spark_inv (s\<lparr>isSpotlightOpen := v13\<rparr>) = spark_inv s"
  "spark_inv (s\<lparr>isCompactWidget := v14\<rparr>) = spark_inv s"
  "spark_inv (s\<lparr>isLogAutoScroll := v15\<rparr>) = spark_inv s"
  "spark_inv (s\<lparr>logFilterLevel := v16\<rparr>) = spark_inv s"
  "spark_inv (s\<lparr>logSearchQuery := v17\<rparr>) = spark_inv s"
  "spark_inv (s\<lparr>isStorageLoaded := v18\<rparr>) = spark_inv s"
  "spark_inv (s\<lparr>mfaPromptProfile := v19\<rparr>) = spark_inv s"
  "spark_inv (s\<lparr>ipcSubscribed := v20\<rparr>) = spark_inv s"
  "spark_inv (s\<lparr>isStorageLoading := v21\<rparr>) = spark_inv s"
  "spark_inv (s\<lparr>lastNotifiedState := v22\<rparr>) = spark_inv s"
  "spark_inv (s\<lparr>clk := v23\<rparr>) = spark_inv s"
  "spark_inv (s\<lparr>uuid_next := v24\<rparr>) = spark_inv s"
  "spark_inv (s\<lparr>savedAppSettings := v25\<rparr>) = spark_inv s"
  "spark_inv (s\<lparr>outbox := v26\<rparr>) = spark_inv s"
  "spark_inv (s\<lparr>toasts := v27\<rparr>) = spark_inv s"
  "spark_inv (s\<lparr>pending := v28\<rparr>) = spark_inv s"
  "spark_inv (send cs s) = spark_inv s"
  "spark_inv (await t s) = spark_inv s"
  "spark_inv (show_toast n s) = spark_inv s"
  "spark_inv (addLog l src m s) = spark_inv s"
  by (simp_all add: spark_inv_def)

lemma outbox_inv_update [simp]:
  "outbox_inv (s\<lparr>connectionState := v1\<rparr>) = outbox_inv s"
  "outbox_inv (s\<lparr>daemonHealth := v2\<rparr>) = outbox_inv s"
  "outbox_inv (s\<lparr>activeProfileId := v3\<rparr>) = outbox_inv s"
  "outbox_inv (s\<lparr>activeTab := v4\<rparr>) = outbox_inv s"
  "outbox_inv (s\<lparr>profiles := v5\<rparr>) = outbox_inv s"
  "outbox_inv (s\<lparr>telemetry := v6\<rparr>) = outbox_inv s"
  "outbox_inv (s\<lparr>connectedAt := v7\<rparr>) = outbox_inv s"
  "outbox_inv (s\<lparr>uptimeSeconds := v8\<rparr>) = outbox_inv s"
  "outbox_inv (s\<lparr>logs := v9\<rparr>) = outbox_inv s"
  "outbox_inv (s\<lparr>securitySettings := v10\<rparr>) = outbox_inv s"
  "outbox_inv (s\<lparr>appSettings := v11\<rparr>) = outbox_inv s"
  "outbox_inv (s\<lparr>appRules := v12\<rparr>) = outbox_inv s"
  "outbox_inv (s\<lparr>ipRules := v13\<rparr>) = outbox_inv s"
  "outbox_inv (s\<lparr>isSpotlightOpen := v14\<rparr>) = outbox_inv s"
  "outbox_inv (s\<lparr>isCompactWidget := v15\<rparr>) = outbox_inv s"
  "outbox_inv (s\<lparr>isLogAutoScroll := v16\<rparr>) = outbox_inv s"
  "outbox_inv (s\<lparr>logFilterLevel := v17\<rparr>) = outbox_inv s"
  "outbox_inv (s\<lparr>logSearchQuery := v18\<rparr>) = outbox_inv s"
  "outbox_inv (s\<lparr>isStorageLoaded := v19\<rparr>) = outbox_inv s"
  "outbox_inv (s\<lparr>mfaPromptProfile := v20\<rparr>) = outbox_inv s"
  "outbox_inv (s\<lparr>ipcSubscribed := v21\<rparr>) = outbox_inv s"
  "outbox_inv (s\<lparr>isStorageLoading := v22\<rparr>) = outbox_inv s"
  "outbox_inv (s\<lparr>lastNotifiedState := v23\<rparr>) = outbox_inv s"
  "outbox_inv (s\<lparr>clk := v24\<rparr>) = outbox_inv s"
  "outbox_inv (s\<lparr>uuid_next := v25\<rparr>) = outbox_inv s"
  "outbox_inv (s\<lparr>savedAppSettings := v26\<rparr>) = outbox_inv s"
  "outbox_inv (s\<lparr>toasts := v27\<rparr>) = outbox_inv s"
  "outbox_inv (s\<lparr>pending := v28\<rparr>) = outbox_inv s"
  "outbox_inv (await t s) = outbox_inv s"
  "outbox_inv (show_toast n s) = outbox_inv s"
  "outbox_inv (addLog l src m s) = outbox_inv s"
  by (simp_all add: outbox_inv_def)


lemma log_inv_addLog [simp]: "log_inv s \<Longrightarrow> log_inv (addLog l src m s)"
proof -
  assume inv: "log_inv s"
  let ?e = "\<lparr>log_id = uuid_source s (uuid_next s), log_timestamp = timeStr (clk s),
    log_level = l, log_source = src, log_message = m\<rparr>"
  have sub: "set (slice_last 499 (logs s)) \<subseteq> set (logs s)" by (rule set_slice_last)
  have "distinct (map log_id (push_log ?e (logs s)))" if inj: "inj (uuid_source s)"
  proof -
    from inv inj have d: "distinct (map log_id (logs s))" by (simp add: log_inv_def)
    have "uuid_source s (uuid_next s) \<noteq> log_id e" if "e \<in> set (logs s)" for e
      using that inv inj by (auto simp: log_inv_def inj_eq)
    moreover have "distinct (map log_id (slice_last 499 (logs s)))"
      using d by (simp add: slice_last_def drop_map [symmetric] distinct_drop)
    ultimately show ?thesis using sub by (auto simp: push_log_def)
  qed
  moreover have "\<forall>e \<in> set (push_log ?e (logs s)). \<exists>i < Suc (uuid_next s). log_id e = uuid_source s i"
    using inv sub log_window.push_set [of ?e "logs s"]
    by (auto simp: log_inv_def less_Suc_eq dest!: subsetD)
  ultimately show ?thesis
    using log_window.push_bounded [of ?e "logs s"] by (simp add: log_inv_def logs_addLog)
qed

lemma spark_inv_telemetry:
  "length (sparkline t) = 30 \<Longrightarrow> spark_inv (s\<lparr>telemetry := t\<rparr>)"
  by (simp add: spark_inv_def)

lemma connect_ok_params [simp]: "connect_ok (connect_params p sec pw)"
  by (simp add: connect_ok_def connect_params_def authConfig_def wire_protocol_def
      split: ProtocolType.splits)

section \<open>Preservation, one lemma per action\<close>

definition session_inv :: "app \<Rightarrow> bool" where
  "session_inv s \<longleftrightarrow> log_inv s \<and> spark_inv s \<and> outbox_inv s"

lemma outbox_inv_issue [simp]:
  "outbox_inv s \<Longrightarrow> tauri s \<Longrightarrow> cmd_ok c \<Longrightarrow> outbox_inv (send [c] s)"
  "outbox_inv (send [] s) = outbox_inv s"
  by (auto simp: outbox_inv_def)

lemma session_inv_effects [simp]:
  "session_inv s \<Longrightarrow> session_inv (addLog l src m s)"
  "session_inv (await t s) = session_inv s"
  "session_inv (show_toast n s) = session_inv s"
  "session_inv s \<Longrightarrow> tauri s \<Longrightarrow> cmd_ok c \<Longrightarrow> session_inv (send [c] s)"
  "session_inv (send [] s) = session_inv s"
  by (simp_all add: session_inv_def)

lemma session_inv_update [simp]:
  "session_inv (s\<lparr>connectionState := v1\<rparr>) = session_inv s"
  "session_inv (s\<lparr>daemonHealth := v2\<rparr>) = session_inv s"
  "session_inv (s\<lparr>activeProfileId := v3\<rparr>) = session_inv s"
  "session_inv (s\<lparr>activeTab := v4\<rparr>) = session_inv s"
  "session_inv (s\<lparr>profiles := v5\<rparr>) = session_inv s"
  "session_inv (s\<lparr>connectedAt := v6\<rparr>) = session_inv s"
  "session_inv (s\<lparr>uptimeSeconds := v7\<rparr>) = session_inv s"
  "session_inv (s\<lparr>securitySettings := v8\<rparr>) = session_inv s"
  "session_inv (s\<lparr>appSettings := v9\<rparr>) = session_inv s"
  "session_inv (s\<lparr>appRules := v10\<rparr>) = session_inv s"
  "session_inv (s\<lparr>ipRules := v11\<rparr>) = session_inv s"
  "session_inv (s\<lparr>isSpotlightOpen := v12\<rparr>) = session_inv s"
  "session_inv (s\<lparr>isCompactWidget := v13\<rparr>) = session_inv s"
  "session_inv (s\<lparr>isLogAutoScroll := v14\<rparr>) = session_inv s"
  "session_inv (s\<lparr>logFilterLevel := v15\<rparr>) = session_inv s"
  "session_inv (s\<lparr>logSearchQuery := v16\<rparr>) = session_inv s"
  "session_inv (s\<lparr>isStorageLoaded := v17\<rparr>) = session_inv s"
  "session_inv (s\<lparr>mfaPromptProfile := v18\<rparr>) = session_inv s"
  "session_inv (s\<lparr>ipcSubscribed := v19\<rparr>) = session_inv s"
  "session_inv (s\<lparr>isStorageLoading := v20\<rparr>) = session_inv s"
  "session_inv (s\<lparr>lastNotifiedState := v21\<rparr>) = session_inv s"
  "session_inv (s\<lparr>clk := v22\<rparr>) = session_inv s"
  "session_inv (s\<lparr>savedAppSettings := v23\<rparr>) = session_inv s"
  "session_inv (s\<lparr>toasts := v24\<rparr>) = session_inv s"
  "session_inv (s\<lparr>pending := v25\<rparr>) = session_inv s"
  by (simp_all add: session_inv_def)

lemma session_inv_telemetry:
  "session_inv s \<Longrightarrow> length (sparkline t) = 30 \<Longrightarrow> session_inv (s\<lparr>telemetry := t\<rparr>)"
  by (simp add: session_inv_def spark_inv_telemetry)

lemma session_inv_sparkline: "session_inv s \<Longrightarrow> length (sparkline (telemetry s)) = 30"
  by (simp add: session_inv_def spark_inv_def)

lemma session_inv_clearLogs [simp]: "session_inv s \<Longrightarrow> session_inv (clearLogs s)"
  by (simp add: session_inv_def clearLogs_def log_inv_def spark_inv_def outbox_inv_def)

lemma session_inv_setters [simp]:
  "session_inv (setActiveTab v1 s) = session_inv s"
  "session_inv (setSpotlightOpen v2 s) = session_inv s"
  "session_inv (setCompactWidget v3 s) = session_inv s"
  "session_inv (setLogAutoScroll v4 s) = session_inv s"
  "session_inv (setLogFilterLevel v5 s) = session_inv s"
  "session_inv (setLogSearchQuery v6 s) = session_inv s"
  "session_inv (setDaemonHealth v7 s) = session_inv s"
  "session_inv (setMfaPromptProfile v8 s) = session_inv s"
  by (simp_all add: setActiveTab_def setSpotlightOpen_def setCompactWidget_def
      setLogAutoScroll_def setLogFilterLevel_def setLogSearchQuery_def setDaemonHealth_def
      setMfaPromptProfile_def)

lemma session_inv_profiles [simp]:
  assumes "session_inv s"
  shows "session_inv (selectProfile k s)" "session_inv (toggleFavorite k s)"
    "session_inv (addProfile p sec s)" "session_inv (updateProfile p sec s)"
    "session_inv (deleteProfile k s)"
  using assms
  by (simp_all add: selectProfile_def toggleFavorite_def addProfile_def updateProfile_def
      deleteProfile_def Let_def ipc_defs cmd_ok_def split: option.split)

lemma session_inv_settings [simp]:
  assumes "session_inv s"
  shows "session_inv (setKillSwitch m s)" "session_inv (updateSecuritySettings ps s)"
    "session_inv (updateAppSettings pa s)"
  using assms
  by (simp_all add: setKillSwitch_def updateSecuritySettings_def updateAppSettings_def Let_def
      ipc_defs cmd_ok_def)

lemma session_inv_rules [simp]:
  assumes "session_inv s"
  shows "session_inv (addAppRule ar s)" "session_inv (toggleAppRule k s)"
    "session_inv (deleteAppRule k s)" "session_inv (addIpRule ir s)"
    "session_inv (toggleIpRule k s)" "session_inv (deleteIpRule k s)"
  using assms
  by (simp_all add: addAppRule_def toggleAppRule_def deleteAppRule_def addIpRule_def
      toggleIpRule_def deleteIpRule_def Let_def ipc_defs cmd_ok_def)

lemma session_inv_tick [simp]: "session_inv s \<Longrightarrow> session_inv (tickTelemetry s)"
  by (simp add: tickTelemetry_def tick_idle_def Let_def session_inv_telemetry
      session_inv_sparkline sparkline_window.push_full)

lemma session_inv_connect_send [simp]:
  "session_inv s \<Longrightarrow> session_inv (connect_send p sec pw s)"
  by (simp add: connect_send_def Let_def ipc_defs cmd_ok_def)

lemma session_inv_connect [simp]: "session_inv s \<Longrightarrow> session_inv (connect k pw s)"
  by (simp add: connect_def Let_def split: option.split)

lemma session_inv_connect_tasks [simp]:
  assumes "session_inv s"
  shows "session_inv (connect_after_totp hmac p sec t s)" "session_inv (connect_reply r s)"
    "session_inv (mark_disconnected s)" "session_inv (disconnect s)"
    "session_inv (disconnect_reply r s)" "session_inv (retryDaemonIpc s)"
    "session_inv (probe_reply st alive s)" "session_inv (status_query_reply q s)"
    "session_inv (auto_connect k s)"
  using assms
  by (simp_all add: connect_after_totp_def connect_reply_def mark_disconnected_def
      disconnect_def disconnect_reply_def retryDaemonIpc_def probe_reply_def
      status_query_reply_def auto_connect_def Let_def ipc_defs cmd_ok_def
      split: sum.split DaemonResponse.split option.split)

lemma session_inv_ping [simp]:
  "session_inv s \<Longrightarrow> session_inv (ping_one p s)"
  "session_inv s \<Longrightarrow> session_inv (ping_reply p rtt s)"
  by (simp_all add: ping_one_def ping_reply_def ipc_defs cmd_ok_def split: option.split)

lemma session_inv_pingAll [simp]: "session_inv s \<Longrightarrow> session_inv (pingAllProfiles s)"
proof -
  have "session_inv s \<Longrightarrow> session_inv (fold ping_one ps s)" for ps and s :: app
    by (induction ps arbitrary: s) simp_all
  then show "session_inv s \<Longrightarrow> session_inv (pingAllProfiles s)"
    by (simp add: pingAllProfiles_def)
qed

lemma session_inv_storage [simp]:
  assumes "session_inv s"
  shows "session_inv (loadStorage force s)" "session_inv (storage_reply snap s)"
    "session_inv (subscriptions_reply k v s)"
  using assms
  by (simp_all add: loadStorage_def storage_reply_def setupIpcSubscriptions_def
      subscriptions_reply_def Let_def ipc_defs cmd_ok_def split: option.split sum.split)

lemma session_inv_daemon_events [simp]:
  assumes "session_inv s"
  shows "session_inv (daemon_status_module h s)" "session_inv (daemon_status_store h s)"
    "session_inv (vpn_status_update vp s)" "session_inv (metrics_update mp s)"
    "session_inv (tray_toggle s)" "session_inv (network_online s)"
proof -
  have "session_inv (invalidate_tunnel s')" if "session_inv s'" for s'
    using that by (simp add: invalidate_tunnel_def Let_def ipc_defs cmd_ok_def session_inv_telemetry
        session_inv_sparkline)
  then show "session_inv (daemon_status_module h s)" "session_inv (daemon_status_store h s)"
    using assms by (simp_all add: daemon_status_module_def daemon_status_store_def setDaemonHealth_def
        Let_def ipc_defs cmd_ok_def)
  have "session_inv (announce snap prev s)" for snap prev
    using assms by (simp add: announce_def notify_once_def Let_def split: ConnectionState.split)
  moreover have "tauri (announce snap prev s) = tauri s" for snap prev
    by (simp add: announce_def notify_once_def Let_def split: ConnectionState.split)
  ultimately show "session_inv (vpn_status_update vp s)"
    using assms by (simp add: vpn_status_update_def apply_status_def Let_def ipc_defs cmd_ok_def
        split: payload.split option.split)
  show "session_inv (metrics_update mp s)"
    using assms by (simp add: metrics_update_def apply_metrics_def Let_def session_inv_telemetry
        session_inv_sparkline sparkline_window.push_full split: payload.split option.split)
  show "session_inv (tray_toggle s)" "session_inv (network_online s)"
    using assms by (simp_all add: tray_toggle_def network_online_def)
qed

lemma session_inv_run_task:
  "session_inv s \<Longrightarrow> run_task hmac t r s = Some s' \<Longrightarrow> session_inv s'"
  by (cases t) (auto split: reply.splits)

lemma session_inv_step: "session_inv s \<Longrightarrow> session_inv (step hmac s e)"
  by (cases e) (auto simp: resolve_def split: option.splits dest: session_inv_run_task [rotated])

interpretation session: event_system "step hmac" session_inv for hmac
  by unfold_locales (rule session_inv_step)

lemma session_inv_initial: "session_inv (initial_app b c uuids raw)"
  by (simp add: session_inv_def log_inv_def spark_inv_def outbox_inv_def initial_app_def
      initial_telemetry_def)

lemma session_inv_startup: "session_inv s \<Longrightarrow> session_inv (startup s)"
  by (simp add: startup_def Let_def ipc_defs cmd_ok_def)

lemma reachable_session_inv: "reachable hmac s \<Longrightarrow> session_inv s"
proof (induction rule: reachable.induct)
  case (boot is_tauri c uuids raw)
  show ?case by (intro session_inv_startup session_inv_initial)
next
  case (event s e)
  then show ?case by (intro session_inv_step)
qed

lemma reachable_run: "reachable hmac s \<Longrightarrow> reachable hmac (foldl (step hmac) s es)"
  by (induction es arbitrary: s) (auto intro: reachable.event)

section \<open>Properties of every reachable state\<close>

text \<open>
  Property C11. In every state reachable by any interleaving of user actions, daemon events,
  timers and replies, the log holds at most 500 entries and the sparkline exactly 30 points;
  and if the platform never hands out the same random identifier twice, all entries of the
  log have different identifiers.
\<close>

theorem windows_bounded:
  assumes "reachable hmac s"
  shows "length (logs s) \<le> 500 \<and> length (sparkline (telemetry s)) = 30 \<and>
    (inj (uuid_source s) \<longrightarrow> distinct (map log_id (logs s)))"
  using reachable_session_inv [OF assms]
  by (simp add: session_inv_def log_inv_def spark_inv_def)

definition no_hmac :: hmac_fn where
  "no_hmac key msg = None"

definition sample_clock :: clock where
  "sample_clock = \<lparr>now_ms = 1700000000000, hours = 9, minutes = 5, seconds = 7, millis = 42\<rparr>"

definition sample_uuids :: "nat \<Rightarrow> string" where
  "sample_uuids n = replicate n (CHR ''u'')"

definition sample_boot :: "bool \<Rightarrow> app" where
  "sample_boot b = startup (initial_app b sample_clock sample_uuids None)"

lemma sample_boot_reachable: "reachable hmac (sample_boot b)"
  unfolding sample_boot_def by (rule reachable.boot)

theorem windows_bounded_witness:
  "length (logs (step no_hmac (sample_boot True) (SelectProfile ''p1''))) \<le> 500"
  using windows_bounded [OF reachable.event [OF sample_boot_reachable]] by blast

text \<open>
  Property C4. In every reachable state each connect request that was sent to the daemon asks
  for the kill switch exactly when its policy is not off, carries a security and a routing
  policy, and authenticates with a WireGuard key exactly for the WireGuard protocol and with
  user name and password otherwise; and outside the desktop shell nothing was ever sent.
\<close>

theorem connect_requests_consistent:
  assumes "reachable hmac s"
  shows "(\<forall>cp. CmdVpnConnect cp \<in> set (outbox s) \<longrightarrow> connect_ok cp) \<and>
    (\<not> tauri s \<longrightarrow> outbox s = [])"
  using reachable_session_inv [OF assms]
  by (auto simp: session_inv_def outbox_inv_def list_all_iff cmd_ok_def
      split: ipc_command.splits)

definition sample_profile :: VpnProfile where
  "sample_profile = \<lparr>profile_id = ''p1'', profile_name = ''Office'', protocol = OpenvpnUdp,
     serverHost = ''vpn.example'', serverPort = 1194, serverCountry = ''DE'', serverCity = [],
     serverFlag = [], virtualIp = ''10.8.0.2/24'', assignedIp = None, isFavorite = False,
     tags = [], lastConnected = None, pingMs = 20, credentials = None, rawConfig = None,
     routingMode = None, useOnlyForNetworkResources = None, customSubnets = None\<rparr>"

definition sample_requested :: app where
  "sample_requested = step no_hmac (step no_hmac (sample_boot True) (AddProfile sample_profile None)) (Connect None None)"

lemma sample_request_sent:
  "CmdVpnConnect (connect_params sample_profile initial_security []) \<in> set (outbox sample_requested)"
  by (simp add: sample_requested_def sample_boot_def startup_def loadStorage_def initial_app_def addProfile_def
      with_secret_def connect_def connect_send_def sample_profile_def no_credentials_def ipc_defs Let_def)

theorem connect_requests_consistent_witness:
  "connect_ok (connect_params sample_profile initial_security [])"
  using connect_requests_consistent [of no_hmac sample_requested] sample_request_sent
  by (simp add: sample_requested_def sample_boot_reachable reachable.event)

end
