(* ===== verification/Session_Properties.thy ===== *)
theory Session_Properties
  imports Session_Invariants
begin

text \<open>
  The connection life cycle of \<^verbatim>\<open>state/useVpnStore.ts\<close>: what \<open>connect\<close> and \<open>disconnect\<close> do on
  every branch, where connect requests can come from, how the store follows the daemon, what a
  lost daemon does to the tunnel state, and the races between a continuation and the actions
  that ran while it waited.
\<close>

section \<open>Sample states\<close>

definition totp_profile :: VpnProfile where
  "totp_profile = sample_profile\<lparr>profile_id := ''p2'',
     credentials := Some (no_credentials\<lparr>passwordMode := Some PmTotpAuto,
       totpSecret := Some ''JBSWY3DP'', password := Some ''pw''\<rparr>)\<rparr>"

text \<open>A desktop application whose storage and subscriptions are up.\<close>

definition sample_app :: "VpnProfile list \<Rightarrow> app" where
  "sample_app ps = (initial_app True sample_clock sample_uuids None)\<lparr>profiles := ps,
     activeProfileId := nullish (map_option profile_id (first_opt ps)) [],
     ipcSubscribed := True, isStorageLoaded := True, daemonHealth := HealthConnected\<rparr>"

lemma sample_app_fields [simp]:
  "connectionState (sample_app ps) = Disconnected" "profiles (sample_app ps) = ps"
  "tauri (sample_app ps)" "ipcSubscribed (sample_app ps)" "outbox (sample_app ps) = []"
  "pending (sample_app ps) = []" "daemonHealth (sample_app ps) = HealthConnected"
  "activeProfileId (sample_app ps) = nullish (map_option profile_id (first_opt ps)) []"
  "clk (sample_app ps) = sample_clock"
  by (simp_all add: sample_app_def initial_app_def)

section \<open>Connect\<close>

text \<open>The profile \<open>connect\<close> works on: the one asked for, else the first.\<close>

definition chosen_profile :: "string option \<Rightarrow> app \<Rightarrow> VpnProfile option" where
  "chosen_profile k s = (case find_by profile_id (or_str k (activeProfileId s)) (profiles s) of
     Some p \<Rightarrow> Some p | None \<Rightarrow> first_opt (profiles s))"

definition needs_prompt :: "VpnProfile \<Rightarrow> string option \<Rightarrow> bool" where
  "needs_prompt p pw \<longleftrightarrow> passwordMode (creds p) = Some PmDynamicPrompt \<and> pw = None"

definition needs_totp :: "VpnProfile \<Rightarrow> string option \<Rightarrow> bool" where
  "needs_totp p pw \<longleftrightarrow> or_str pw [] = [] \<and> passwordMode (creds p) = Some PmTotpAuto \<and>
     truthy (totpSecret (creds p))"

lemma connect_cases:
  "connect k pw s =
     (if connectionState s \<in> {Connecting, Connected} then s
      else case chosen_profile k s of
        None \<Rightarrow> s
      | Some p \<Rightarrow>
          if needs_prompt p pw then s\<lparr>mfaPromptProfile := Some p\<rparr>
          else let s2 = addLog INFO ''TUNNEL_ENGINE'' (handshake_message p)
                     (s\<lparr>connectionState := Connecting, activeProfileId := profile_id p\<rparr>)
               in if needs_totp p pw
                  then await (AwaitTotp p (securitySettings s) (now_ms (clk s))) s2
                  else connect_send p (securitySettings s) (or_str pw []) s2)"
  by (simp add: connect_def chosen_profile_def needs_prompt_def needs_totp_def Let_def
      cong: option.case_cong if_cong)

text \<open>
  Property C2. In the desktop shell, a connect request on an idle store that knows a profile and needs no prompt
  moves the store to connecting, makes that profile the active one, and either sends exactly
  one request, built from that profile and the current security settings, or, when the
  profile generates its one-time password, sends nothing yet and waits for the code.
\<close>

theorem connect_starts:
  assumes "connectionState s \<notin> {Connecting, Connected}" "tauri s"
    and "chosen_profile k s = Some p" "\<not> needs_prompt p pw"
  shows "connectionState (connect k pw s) = Connecting \<and>
    activeProfileId (connect k pw s) = profile_id p \<and>
    (if needs_totp p pw
     then outbox (connect k pw s) = outbox s \<and>
          pending (connect k pw s) = pending s @ [AwaitTotp p (securitySettings s) (now_ms (clk s))]
     else let cp = connect_params p (securitySettings s) (or_str pw []) in
          outbox (connect k pw s) = outbox s @ [CmdVpnConnect cp] \<and>
          pending (connect k pw s) = pending s @ [AwaitConnect cp])"
  using assms by (simp add: connect_cases connect_send_def Let_def ipc_defs)

theorem connect_starts_witness:
  "connectionState (connect None None (sample_app [sample_profile])) = Connecting \<and>
   length (outbox (connect None None (sample_app [sample_profile]))) = 1"
proof -
  have "chosen_profile None (sample_app [sample_profile]) = Some sample_profile"
    "\<not> needs_prompt sample_profile None" "\<not> needs_totp sample_profile None"
    by (simp_all add: chosen_profile_def needs_prompt_def needs_totp_def sample_profile_def)
  then show ?thesis
    using connect_starts [of "sample_app [sample_profile]" None sample_profile None]
    by (simp add: Let_def)
qed

text \<open>
  A connect request is ignored while a tunnel is up or being set up and when no
  profile exists; and a profile that asks for its password interactively opens the prompt,
  without touching the connection state, the log or the outgoing commands.
\<close>

theorem connect_refused:
  "(connectionState s \<in> {Connecting, Connected} \<or> profiles s = [] \<longrightarrow> connect k pw s = s) \<and>
   (connectionState s \<notin> {Connecting, Connected} \<and> chosen_profile k s = Some p \<and>
    needs_prompt p pw \<longrightarrow> connect k pw s = s\<lparr>mfaPromptProfile := Some p\<rparr>)"
  by (auto simp: connect_cases chosen_profile_def)

theorem connect_refused_witness:
  "connect None None (sample_app []) = sample_app []"
  using connect_refused [of "sample_app []" None None sample_profile] by simp

section \<open>Where connect requests come from\<close>

definition is_vpn_connect :: "ipc_command \<Rightarrow> bool" where
  "is_vpn_connect c \<longleftrightarrow> (case c of CmdVpnConnect _ \<Rightarrow> True | _ \<Rightarrow> False)"

definition connects :: "app \<Rightarrow> nat" where
  "connects s = length (filter is_vpn_connect (outbox s))"

lemma connects_effects [simp]:
  "connects (addLog l src m s) = connects s" "connects (await t s) = connects s"
  "connects (show_toast n s) = connects s"
  "connects (send (c # cs) s) = (if is_vpn_connect c then 1 else 0) + connects (send cs s)"
  "connects (send [] s) = connects s"
  by (simp_all add: connects_def)

lemma connects_store_actions [simp]:
  "connects (selectProfile k s) = connects s" "connects (toggleFavorite k s) = connects s"
  "connects (addProfile p sec s) = connects s" "connects (updateProfile p sec s) = connects s"
  "connects (deleteProfile k s) = connects s" "connects (setKillSwitch m s) = connects s"
  "connects (updateSecuritySettings ps s) = connects s"
  "connects (updateAppSettings pa s) = connects s"
  "connects (addAppRule ar s) = connects s" "connects (toggleAppRule k s) = connects s"
  "connects (deleteAppRule k s) = connects s" "connects (addIpRule ir s) = connects s"
  "connects (toggleIpRule k s) = connects s" "connects (deleteIpRule k s) = connects s"
  "connects (clearLogs s) = connects s" "connects (tickTelemetry s) = connects s"
  by (simp_all add: selectProfile_def toggleFavorite_def addProfile_def updateProfile_def
      deleteProfile_def setKillSwitch_def updateSecuritySettings_def updateAppSettings_def
      addAppRule_def toggleAppRule_def deleteAppRule_def addIpRule_def toggleIpRule_def
      deleteIpRule_def clearLogs_def tickTelemetry_def tick_idle_def connects_def
      is_vpn_connect_def ipc_defs Let_def split: option.split)

lemma connects_setters [simp]:
  "connects (setActiveTab v1 s) = connects s" "connects (setSpotlightOpen v2 s) = connects s"
  "connects (setCompactWidget v3 s) = connects s" "connects (setLogAutoScroll v4 s) = connects s"
  "connects (setLogFilterLevel v5 s) = connects s" "connects (setLogSearchQuery v6 s) = connects s"
  "connects (setDaemonHealth v7 s) = connects s" "connects (setMfaPromptProfile v8 s) = connects s"
  by (simp_all add: setActiveTab_def setSpotlightOpen_def setCompactWidget_def
      setLogAutoScroll_def setLogFilterLevel_def setLogSearchQuery_def setDaemonHealth_def
      setMfaPromptProfile_def connects_def)

lemma connects_async [simp]:
  "connects (connect_reply r s) = connects s" "connects (disconnect s) = connects s"
  "connects (disconnect_reply r s) = connects s" "connects (retryDaemonIpc s) = connects s"
  "connects (probe_reply st alive s) = connects s" "connects (status_query_reply q s) = connects s"
  "connects (ping_reply prof rtt s) = connects s" "connects (loadStorage force s) = connects s"
  "connects (storage_reply snap s) = connects s" "connects (ping_one prof s) = connects s"
  by (simp_all add: connect_reply_def disconnect_def disconnect_reply_def mark_disconnected_def
      retryDaemonIpc_def probe_reply_def status_query_reply_def ping_reply_def loadStorage_def
      storage_reply_def setupIpcSubscriptions_def ping_one_def connects_def is_vpn_connect_def
      ipc_defs Let_def split: sum.split DaemonResponse.split option.split)

lemma connects_pingAll [simp]: "connects (pingAllProfiles s) = connects s"
proof -
  have "connects (fold ping_one ps s) = connects s" for ps and s :: app
    by (induction ps arbitrary: s) simp_all
  then show ?thesis by (simp add: pingAllProfiles_def)
qed

lemma announce_frame [simp]:
  "outbox (announce snap prev s) = outbox s" "tauri (announce snap prev s) = tauri s"
  "clk (announce snap prev s) = clk s" "pending (announce snap prev s) = pending s"
  "profiles (announce snap prev s) = profiles s" "telemetry (announce snap prev s) = telemetry s"
  "ipcSubscribed (announce snap prev s) = ipcSubscribed s"
  "connectionState (announce snap prev s) = connectionState s"
  by (simp_all add: announce_def notify_once_def Let_def split: ConnectionState.split)

lemma connects_events [simp]:
  "connects (daemon_status_module h s) = connects s"
  "connects (daemon_status_store h s) = connects s"
  "connects (vpn_status_update vp s) = connects s" "connects (metrics_update mp s) = connects s"
  "connects (subscriptions_reply k v s) = connects s"
proof -
  show "connects (daemon_status_module h s) = connects s"
    by (simp add: daemon_status_module_def)
  show "connects (daemon_status_store h s) = connects s"
    by (simp add: daemon_status_store_def invalidate_tunnel_def setDaemonHealth_def connects_def
        is_vpn_connect_def ipc_defs Let_def)
  show "connects (vpn_status_update vp s) = connects s"
    by (simp add: vpn_status_update_def apply_status_def connects_def is_vpn_connect_def ipc_defs
        Let_def split: payload.split option.split)
  show "connects (metrics_update mp s) = connects s"
    by (simp add: metrics_update_def apply_metrics_def connects_def Let_def
        split: payload.split option.split)
  have "connects (s'\<lparr>isStorageLoading := b\<rparr>) = connects s'" for s' b
    by (simp add: connects_def)
  then show "connects (subscriptions_reply k v s) = connects s"
    by (simp add: subscriptions_reply_def Let_def split: sum.split)
qed

lemma connects_update [simp]:
  "connects (s\<lparr>connectionState := v1\<rparr>) = connects s" "connects (s\<lparr>activeProfileId := v2\<rparr>) = connects s"
  "connects (s\<lparr>mfaPromptProfile := v3\<rparr>) = connects s" "connects (s\<lparr>pending := v4\<rparr>) = connects s"
  "connects (s\<lparr>clk := v5\<rparr>) = connects s"
  by (simp_all add: connects_def)

lemma connects_connect_send [simp]:
  "connects (connect_send p sec pw s) = (if tauri s then 1 else 0) + connects s"
  by (simp add: connect_send_def is_vpn_connect_def ipc_defs Let_def)

lemma connectionState_connect_send [simp]:
  "connectionState (connect_send p sec pw s) = connectionState s"
  by (simp add: connect_send_def Let_def)

text \<open>An event that may start a connection from an idle store.\<close>

definition origin :: "app \<Rightarrow> app \<Rightarrow> bool" where
  "origin s s' \<longleftrightarrow> connects s' = connects s \<or>
     connects s' = Suc (connects s) \<and> connectionState s \<notin> {Connecting, Connected} \<and>
     connectionState s' = Connecting"

lemma origin_connect [simp]: "origin s (connect k pw s)"
  by (auto simp: origin_def connect_cases Let_def split: option.split)

lemma origin_same: "connects s' = connects s \<Longrightarrow> origin s s'"
  by (simp add: origin_def)

lemma origin_other [simp]:
  "origin s (tray_toggle s)" "origin s (network_online s)" "origin s (auto_connect k s)"
proof -
  show "origin s (tray_toggle s)"
    by (simp add: tray_toggle_def origin_same)
  show "origin s (auto_connect k s)"
    by (simp add: auto_connect_def origin_same)
  have "origin s (connect k pw (addLog l src m s))" for k pw l src m
    using origin_connect [of "addLog l src m s" k pw] by (simp add: origin_def)
  then show "origin s (network_online s)"
    by (simp add: network_online_def origin_same)
qed

lemma origin_run_task:
  assumes "run_task hmac t r s = Some s'"
  shows "origin s s' \<or> (\<exists>p sec n. t = AwaitTotp p sec n) \<and> connects s' \<le> Suc (connects s)"
  using assms
  by (cases t) (auto split: reply.splits if_splits simp: origin_same connect_after_totp_def Let_def)

text \<open>
  Property C3. No event sends more than one connect request. A request is sent either from a
  store that is neither connecting nor connected, which then becomes connecting, or by the
  continuation of such a connect that was waiting for its one-time password.
\<close>

theorem connect_request_origin:
  "connects (step hmac s e) \<le> Suc (connects s) \<and>
   (connects (step hmac s e) = Suc (connects s) \<longrightarrow>
      connectionState s \<notin> {Connecting, Connected} \<and>
      connectionState (step hmac s e) = Connecting \<or>
      (\<exists>n r p sec t. e = Resolve n r \<and> n < length (pending s) \<and> pending s ! n = AwaitTotp p sec t))"
proof (cases "\<exists>n r. e = Resolve n r")
  case False
  then have "origin s (step hmac s e)"
    by (cases e) (simp_all add: origin_same)
  then show ?thesis by (auto simp: origin_def)
next
  case True
  then obtain n r where e: "e = Resolve n r" by blast
  let ?s0 = "s\<lparr>pending := take n (pending s) @ drop (Suc n) (pending s)\<rparr>"
  show ?thesis
  proof (cases "n < length (pending s) \<and> run_task hmac (pending s ! n) r ?s0 \<noteq> None")
    case False
    then show ?thesis by (auto simp: e resolve_def)
  next
    case True
    then obtain s' where s': "run_task hmac (pending s ! n) r ?s0 = Some s'" by blast
    with True have "step hmac s e = s'" by (simp add: e resolve_def)
    with origin_run_task [OF s'] e True show ?thesis by (auto simp: origin_def)
  qed
qed

theorem connect_request_origin_witness:
  "connects (step no_hmac (sample_app [sample_profile]) (Connect None None)) = 1 \<and>
   connectionState (step no_hmac (sample_app [sample_profile]) (Connect None None)) = Connecting"
proof -
  let ?s = "sample_app [sample_profile]"
  have "connects (step no_hmac ?s (Connect None None)) = Suc (connects ?s)"
    by (simp add: connect_cases chosen_profile_def needs_prompt_def needs_totp_def
        sample_profile_def Let_def)
  moreover have "connects ?s = 0" by (simp add: connects_def)
  ultimately show ?thesis
    using connect_request_origin [of no_hmac ?s "Connect None None"] by auto
qed

section \<open>Following the daemon\<close>

definition status_event :: "StatusSnapshot \<Rightarrow> event" where
  "status_event snap = VpnStatus (Payload (Some ''status'') (Some snap))"

text \<open>
  Property C8. A status report of the daemon always leaves the store in the daemon's state:
  whatever races left behind, the next report repairs it. On a change the start time is set
  exactly when the tunnel is connected, the uptime is the daemon's, and the tray is told the
  new state once; a report of the state already known changes nothing at all.
\<close>

theorem status_report_syncs:
  assumes "tauri s" "ipcSubscribed s"
  shows "connectionState (step hmac s (status_event snap)) = snap_state snap \<and>
    (connectionState s = snap_state snap \<longrightarrow> step hmac s (status_event snap) = s) \<and>
    (connectionState s \<noteq> snap_state snap \<longrightarrow>
      (connectedAt (step hmac s (status_event snap)) \<noteq> None \<longleftrightarrow> snap_state snap = Connected) \<and>
      uptimeSeconds (step hmac s (status_event snap)) = int (or_num (snap_session_duration_secs snap) 0) \<and>
      outbox (step hmac s (status_event snap)) = outbox s @ [TraySetStatus (state_string (snap_state snap))])"
  using assms
  by (auto simp: status_event_def vpn_status_update_def apply_status_def Let_def ipc_defs)

definition sample_status :: StatusSnapshot where
  "sample_status = \<lparr>snap_state = Connected, snap_virtual_interface = None,
     snap_assigned_ip = Some ''10.8.0.2'', snap_session_duration_secs = Some 5\<rparr>"

theorem status_report_syncs_witness:
  "connectionState (step no_hmac (sample_app []) (status_event sample_status)) = Connected"
  using status_report_syncs [of "sample_app []" no_hmac sample_status]
  by (simp add: sample_status_def)

text \<open>
  Property C9. When a subscribed store of the desktop shell learns that the daemon is lost while a tunnel is up or being set up, it goes to
  the error state with uptime, start time, rates and latency cleared and the daemon marked as offline,
  tells the tray, and adds one error entry about the lost daemon at the end of the log, of which it
  keeps the last 499 entries before; in any other state only the health indicator changes.
\<close>

theorem daemon_loss_invalidates:
  assumes "tauri s" "ipcSubscribed s"
  shows "if connectionState s \<in> {Connected, Connecting}
    then connectionState (step hmac s (DaemonStatusStore HealthOffline)) = ErrorState \<and>
      uptimeSeconds (step hmac s (DaemonStatusStore HealthOffline)) = 0 \<and>
      connectedAt (step hmac s (DaemonStatusStore HealthOffline)) = None \<and>
      currentDownloadKbps (telemetry (step hmac s (DaemonStatusStore HealthOffline))) = 0 \<and>
      currentUploadKbps (telemetry (step hmac s (DaemonStatusStore HealthOffline))) = 0 \<and>
      currentPingMs (telemetry (step hmac s (DaemonStatusStore HealthOffline))) = 0 \<and>
      outbox (step hmac s (DaemonStatusStore HealthOffline)) = outbox s @ [TraySetStatus ''disconnected''] \<and>
      daemonHealth (step hmac s (DaemonStatusStore HealthOffline)) = HealthOffline \<and>
      (\<exists>entry. logs (step hmac s (DaemonStatusStore HealthOffline)) = slice_last 499 (logs s) @ [entry] \<and>
         log_level entry = ERROR \<and> log_source entry = ''DAEMON_IPC'' \<and> log_message entry =
           ''Daemon process terminated unexpectedly or IPC socket unreachable. Tunnel state invalidated.'')
    else step hmac s (DaemonStatusStore HealthOffline) = s\<lparr>daemonHealth := HealthOffline\<rparr>"
  using assms
  by (simp add: daemon_status_store_def invalidate_tunnel_def setDaemonHealth_def addLog_def push_log_def Let_def ipc_defs)

theorem daemon_loss_invalidates_witness:
  "connectionState (step no_hmac (connect None None (sample_app [sample_profile]))
     (DaemonStatusStore HealthOffline)) = ErrorState"
proof -
  let ?s = "connect None None (sample_app [sample_profile])"
  have "connectionState ?s = Connecting" "tauri ?s" "ipcSubscribed ?s"
    by (simp_all add: connect_cases chosen_profile_def needs_prompt_def needs_totp_def
        sample_profile_def connect_send_def Let_def)
  then show ?thesis using daemon_loss_invalidates [of ?s no_hmac] by simp
qed

text \<open>
  Two listeners watch the daemon's health: one of the module body that only
  records it, and one of the store that also re-reads the session state when the daemon comes
  back. If the module's listener runs first, it overwrites the health the store's listener
  compares with, and the recovery branch is dead: the daemon's return is neither logged nor
  followed by a status query, whatever the state.
\<close>

theorem recovery_branch_shadowed:
  assumes "tauri s" "ipcSubscribed s"
  shows "step hmac (step hmac s (DaemonStatusModule HealthConnected)) (DaemonStatusStore HealthConnected)
      = s\<lparr>daemonHealth := HealthConnected\<rparr> \<and>
    (daemonHealth s = HealthOffline \<longrightarrow>
      outbox (step hmac s (DaemonStatusStore HealthConnected)) = outbox s @ [CmdGetDaemonStatus])"
  using assms
  by (auto simp: daemon_status_module_def daemon_status_store_def setDaemonHealth_def Let_def ipc_defs)

theorem recovery_branch_shadowed_witness:
  "outbox (step no_hmac ((sample_app [])\<lparr>daemonHealth := HealthOffline\<rparr>)
     (DaemonStatusStore HealthConnected)) = [CmdGetDaemonStatus]"
  using recovery_branch_shadowed [of "(sample_app [])\<lparr>daemonHealth := HealthOffline\<rparr>" no_hmac]
  by simp

section \<open>Disconnecting\<close>

text \<open>
  Property C10. Aborting a handshake takes effect at once and sends one forced disconnect;
  tearing down a tunnel passes through disconnecting and sends one normal disconnect, and its
  reply, success or failure, leaves the store disconnected with the session cleared.
\<close>

theorem disconnect_completes:
  assumes "tauri s"
  shows "(connectionState s = Connecting \<longrightarrow>
      connectionState (disconnect s) = Disconnected \<and> connectedAt (disconnect s) = None \<and>
      outbox (disconnect s) = outbox s @ [TraySetStatus ''disconnected'', CmdVpnDisconnect True]) \<and>
    (connectionState s \<in> {Connected, Reconnecting, ErrorState} \<longrightarrow>
      connectionState (disconnect s) = Disconnecting \<and>
      outbox (disconnect s) = outbox s @ [CmdVpnDisconnect False] \<and>
      (\<forall>v. connectionState (step hmac (disconnect s) (Resolve (length (pending s)) (ReplyDaemon v)))
             = Disconnected \<and>
           connectedAt (step hmac (disconnect s) (Resolve (length (pending s)) (ReplyDaemon v))) = None \<and>
           uptimeSeconds (step hmac (disconnect s) (Resolve (length (pending s)) (ReplyDaemon v))) = 0))"
  using assms
  by (auto simp: disconnect_def mark_disconnected_def resolve_def disconnect_reply_def Let_def
      ipc_defs split: sum.split)

theorem disconnect_completes_witness:
  "outbox (disconnect ((sample_app [])\<lparr>connectionState := Connected\<rparr>)) = [CmdVpnDisconnect False]"
  using disconnect_completes [of "(sample_app [])\<lparr>connectionState := Connected\<rparr>" no_hmac] by simp

section \<open>Races\<close>

text \<open>
  Aborting a connect that still waits for its one-time password does not cancel
  it: when the code arrives, the connect request goes out after the forced disconnect, while
  the store shows the tunnel as disconnected.
\<close>

theorem aborted_totp_connect_still_sent:
  assumes "tauri s" "connectionState s \<notin> {Connecting, Connected}" "pending s = []"
    and "chosen_profile k s = Some p" "needs_totp p pw" "\<not> needs_prompt p pw"
  shows "\<exists>cp. outbox (foldl (step hmac) s [Connect k pw, Disconnect, Resolve 0 (ReplyUnit (Inr ()))])
      = outbox s @ [TraySetStatus ''disconnected'', CmdVpnDisconnect True, CmdVpnConnect cp] \<and>
    connectionState (foldl (step hmac) s [Connect k pw, Disconnect, Resolve 0 (ReplyUnit (Inr ()))])
      = Disconnected"
  using assms
  by (simp add: connect_cases disconnect_def mark_disconnected_def resolve_def
      connect_after_totp_def connect_send_def ipc_defs Let_def)

theorem aborted_totp_connect_still_sent_witness:
  "connectionState (foldl (step sample_hmac) (sample_app [totp_profile])
     [Connect None None, Disconnect, Resolve 0 (ReplyUnit (Inr ()))]) = Disconnected"
proof -
  have "chosen_profile None (sample_app [totp_profile]) = Some totp_profile"
    "needs_totp totp_profile None" "\<not> needs_prompt totp_profile None"
    by (simp_all add: chosen_profile_def needs_totp_def needs_prompt_def totp_profile_def)
  then show ?thesis
    using aborted_totp_connect_still_sent
      [of "sample_app [totp_profile]" None totp_profile None sample_hmac]
    by (auto simp del: foldl.simps)
qed

text \<open>
  The probe of a store in the error state decides with the state it saw when it
  was sent: if the tunnel came up meanwhile, its success still resets the store to
  disconnected, until the next status report.
\<close>

theorem stale_probe_resets:
  assumes "tauri s" "ipcSubscribed s" "connectionState s = ErrorState" "pending s = []"
    and "snap_state snap = Connected"
  shows "connectionState (foldl (step hmac) s
      [RetryDaemon, status_event snap, Resolve 0 (ReplyBool (Inr True))]) = Disconnected \<and>
    connectionState (foldl (step hmac) s
      [RetryDaemon, status_event snap, Resolve 0 (ReplyBool (Inr True)), status_event snap]) = Connected"
  using assms
  by (simp add: retryDaemonIpc_def status_event_def vpn_status_update_def apply_status_def
      resolve_def probe_reply_def swallow_def ipc_defs Let_def)

theorem stale_probe_resets_witness:
  "connectionState (foldl (step no_hmac) ((sample_app [])\<lparr>connectionState := ErrorState\<rparr>)
      [RetryDaemon, status_event sample_status, Resolve 0 (ReplyBool (Inr True))]) = Disconnected"
  using stale_probe_resets [of "(sample_app [])\<lparr>connectionState := ErrorState\<rparr>" sample_status no_hmac]
  by (simp add: sample_status_def del: foldl.simps)

end
