(* ===== verification/Event_Loop.thy ===== *)
theory Event_Loop
  imports Session_Properties "HOL-Library.Multiset"
begin

text \<open>
  The event loop comes to rest. Every continuation that waits for an answer leaves, once it is
  answered, only continuations of lower rank: loading the storage leads to the subscriptions,
  these to the latency probes and the timer of the automatic connection, that timer to a
  connect, which may wait for its one-time password and then for the daemon.
\<close>

fun task_rank :: "task \<Rightarrow> nat" where
  "task_rank AwaitStorage = 4"
| "task_rank (AwaitSubscriptions k) = 3"
| "task_rank (AutoConnectTimer k) = 2"
| "task_rank (AwaitTotp p sec t) = 1"
| "task_rank _ = 0"

text \<open>\<open>spawns n s s'\<close>: the step from \<open>s\<close> to \<open>s'\<close> only adds continuations below rank \<open>n\<close>.\<close>

definition spawns :: "nat \<Rightarrow> app \<Rightarrow> app \<Rightarrow> bool" where
  "spawns n s s' \<longleftrightarrow> (\<exists>new. pending s' = pending s @ new \<and> (\<forall>t \<in> set new. task_rank t < n))"

lemma spawns_refl [simp]: "spawns n s s"
  by (simp add: spawns_def)

lemma spawns_same: "pending s' = pending s \<Longrightarrow> spawns n s s'"
  by (simp add: spawns_def)

lemma spawns_trans: "spawns n s1 s2 \<Longrightarrow> spawns n s2 s3 \<Longrightarrow> spawns n s1 s3"
  unfolding spawns_def by (metis append_assoc UnE set_append)

lemma spawns_await: "pending s' = pending s @ [t] \<Longrightarrow> task_rank t < n \<Longrightarrow> spawns n s s'"
  by (simp add: spawns_def)

lemma spawns_mono: "spawns m s s' \<Longrightarrow> m \<le> n \<Longrightarrow> spawns n s s'"
  unfolding spawns_def by (meson order_less_le_trans)

lemma connect_send_spawns: "spawns 1 s (connect_send p sec pw s)"
  by (rule spawns_await [where t = "AwaitConnect (connect_params p sec pw)"]) (simp_all add: connect_send_def Let_def)

lemma connect_spawns: "spawns 2 s (connect ko pw s)"
  by (auto simp: connect_def connect_send_def spawns_def Let_def split: option.splits)

lemma pings_spawn: "spawns 1 s (fold ping_one ps s)"
proof (induction ps arbitrary: s)
  case (Cons p ps)
  have "spawns 1 s (ping_one p s)"
    by (cases "serverHost p \<noteq> [] \<and> serverPort p \<noteq> 0")
      (auto simp: ping_one_def intro: spawns_await [where t = "AwaitPing p"])
  with Cons.IH show ?case by (auto intro: spawns_trans)
qed simp

lemma subscriptions_spawn: "spawns 3 s (subscriptions_reply k r s)"
proof (cases r)
  case (Inr u)
  let ?s1 = "pingAllProfiles s"
  have "spawns 3 s ?s1" unfolding pingAllProfiles_def by (rule spawns_mono [OF pings_spawn]) simp
  moreover have "spawns 3 ?s1 (subscriptions_reply k r s)"
    using Inr by (auto simp: subscriptions_reply_def spawns_def Let_def)
  ultimately show ?thesis by (rule spawns_trans)
qed (simp add: subscriptions_reply_def spawns_def)

lemma replies_keep_pending:
  "pending (connect_reply r s) = pending s" "pending (disconnect_reply r s) = pending s"
  "pending (probe_reply st b s) = pending s" "pending (status_query_reply q s) = pending s"
  "pending (ping_reply prof m s) = pending s" "pending (setDaemonHealth h s) = pending s"
  by (auto simp: connect_reply_def disconnect_reply_def mark_disconnected_def probe_reply_def status_query_reply_def
    ping_reply_def setDaemonHealth_def Let_def split: sum.splits option.splits DaemonResponse.splits)

lemma run_task_spawns:
  assumes "run_task hmac t r s = Some s'"
  shows "spawns (task_rank t) s s'"
proof (cases t)
  case (AwaitTotp p sec now)
  with assms show ?thesis
    by (auto simp: connect_after_totp_def connect_send_def spawns_def Let_def split: reply.splits)
next
  case AwaitStorage
  with assms show ?thesis
    by (auto simp: storage_reply_def setupIpcSubscriptions_def spawns_def Let_def split: reply.splits option.splits)
next
  case (AutoConnectTimer k)
  with assms show ?thesis by (auto simp: auto_connect_def connect_spawns split: reply.splits if_splits)
qed (use assms in \<open>auto simp: replies_keep_pending subscriptions_spawn intro: spawns_same split: reply.splits\<close>)

section \<open>Answering what is pending\<close>

text \<open>
  \<open>answers hmac\<close> relates the state after one answer to the state before it: a continuation, at any
  place of the queue, is answered with a reply its promise can have.
\<close>

definition without_task :: "nat \<Rightarrow> app \<Rightarrow> app" where
  "without_task n s = s\<lparr>pending := take n (pending s) @ drop (Suc n) (pending s)\<rparr>"

definition answers :: "hmac_fn \<Rightarrow> (app \<times> app) set" where
  "answers hmac = {(step hmac s (Resolve n r), s) | s n r. n < length (pending s) \<and>
     run_task hmac (pending s ! n) r (without_task n s) \<noteq> None}"

lemma answers_decrease:
  assumes "(s', s) \<in> answers hmac"
  shows "(image_mset task_rank (mset (pending s')), image_mset task_rank (mset (pending s))) \<in> mult less_than"
proof -
  from assms obtain n r where n: "n < length (pending s)" and "run_task hmac (pending s ! n) r (without_task n s) \<noteq> None"
    and "s' = resolve hmac n r s"
    by (auto simp: answers_def)
  then have run: "run_task hmac (pending s ! n) r (without_task n s) = Some s'"
    by (auto simp: resolve_def without_task_def)
  let ?rest = "take n (pending s) @ drop (Suc n) (pending s)"
  obtain new where new: "pending s' = ?rest @ new" "\<forall>t \<in> set new. task_rank t < task_rank (pending s ! n)"
    using run_task_spawns [OF run] by (auto simp: spawns_def without_task_def)
  have "mset (pending s) = mset ?rest + {#pending s ! n#}"
    using arg_cong [OF id_take_nth_drop [OF n], of mset] by simp
  then show ?thesis
    using new one_step_implies_mult [of "{#task_rank (pending s ! n)#}" "image_mset task_rank (mset new)" less_than
      "image_mset task_rank (mset ?rest)"]
    by (auto simp: add.assoc)
qed

lemma wf_answers: "wf (answers hmac)"
  by (rule wf_subset [OF wf_inv_image [OF wf_mult [OF wf_less_than]],
      of _ "\<lambda>s. image_mset task_rank (mset (pending s))"]) (auto simp: inv_image_def intro: answers_decrease)

lemma always_answerable: "\<exists>r. run_task hmac t r s \<noteq> None"
proof (cases t)
  case (AwaitTotp p sec now)
  then show ?thesis by (auto intro: exI [of _ "ReplyUnit (Inr ())"])
next
  case (AwaitProbe st)
  then show ?thesis by (auto intro: exI [of _ "ReplyBool (Inr True)"])
next
  case AwaitStatusQuery
  then show ?thesis by (auto intro: exI [of _ "ReplyStatus (Inr None)"])
next
  case AwaitStorage
  then show ?thesis by (auto intro: exI [of _ "ReplyStorage (Inl [])"])
next
  case (AwaitSubscriptions k)
  then show ?thesis by (auto intro: exI [of _ "ReplyUnit (Inr ())"])
next
  case (AwaitPing p)
  then show ?thesis by (auto intro: exI [of _ "ReplyNat (Inr 0)"])
next
  case (AutoConnectTimer k)
  then show ?thesis by (auto intro: exI [of _ "ReplyUnit (Inr ())"])
next
  case AwaitInitialPing
  then show ?thesis by (auto intro: exI [of _ "ReplyBool (Inr True)"])
qed (auto intro: exI [of _ "ReplyDaemon (Inr RespOther)"])

lemma some_answer:
  assumes "pending s \<noteq> []"
  obtains n r where "(step hmac s (Resolve n r), s) \<in> answers hmac"
proof -
  obtain r where "run_task hmac (pending s ! 0) r (without_task 0 s) \<noteq> None" using always_answerable by blast
  then have "(step hmac s (Resolve 0 r), s) \<in> answers hmac" using assms unfolding answers_def by blast
  then show thesis by (rule that)
qed

lemma drained: "\<exists>es. (\<forall>e \<in> set es. \<exists>n r. e = Resolve n r) \<and> pending (foldl (step hmac) s es) = []"
proof (induction s rule: wf_induct_rule [OF wf_answers [of hmac]])
  case (1 s)
  show ?case
  proof (cases "pending s = []")
    case False
    then obtain n r where "(step hmac s (Resolve n r), s) \<in> answers hmac" by (rule some_answer)
    from 1 [OF this] obtain es where "\<forall>e \<in> set es. \<exists>n r. e = Resolve n r"
      "pending (foldl (step hmac) (step hmac s (Resolve n r)) es) = []" by blast
    then show ?thesis by (intro exI [of _ "Resolve n r # es"]) auto
  qed (auto intro: exI [of _ "[]"])
qed

text \<open>
  Property C33. Left alone, the application comes to rest. As long as a continuation waits it can be
  answered; however the answers come, in any order and with any outcome, only finitely many can
  follow each other, since each answered continuation leaves only later stages of its work; and
  from every state some sequence of answers leaves nothing pending.
\<close>

theorem application_comes_to_rest:
  "wf (answers hmac) \<and> (\<forall>s. pending s \<noteq> [] \<longrightarrow> (\<exists>s'. (s', s) \<in> answers hmac)) \<and>
   (\<forall>s. \<exists>es. (\<forall>e \<in> set es. \<exists>n r. e = Resolve n r) \<and> pending (foldl (step hmac) s es) = [])"
  using wf_answers drained some_answer by metis

theorem application_comes_to_rest_witness:
  "\<exists>s'. (s', sample_requested) \<in> answers no_hmac"
proof -
  have "pending sample_requested \<noteq> []" by code_simp
  with application_comes_to_rest [of no_hmac] show ?thesis by blast
qed

end
