(* ===== verification/Store_Properties.thy ===== *)
theory Store_Properties
  imports Session_Properties
begin

text \<open>
  The data the store keeps: the profile list as a map from identifiers, the rules and the kill
  switch and what is persisted of them, the loading of the storage, notifications, the uptime
  and the application settings.
\<close>

section \<open>Profiles\<close>

text \<open>The abstract state of the profile list and what each event does to it.\<close>

definition profile_view :: "app \<Rightarrow> string \<rightharpoonup> VpnProfile" where
  "profile_view s k = find_by profile_id k (profiles s)"

definition metrics_ping :: "Metrics \<Rightarrow> app \<Rightarrow> nat" where
  "metrics_ping m s = or_num (or_else_num (latency_rtt_ms m) (Some (currentPingMs (telemetry s)))) 24"

fun profile_spec :: "app \<Rightarrow> event \<Rightarrow> (string \<rightharpoonup> VpnProfile) \<Rightarrow> string \<rightharpoonup> VpnProfile" where
  "profile_spec s (AddProfile p secret) v = v(profile_id p \<mapsto> with_secret secret p)"
| "profile_spec s (UpdateProfile p secret) v =
     (if v (profile_id p) = None then v else v(profile_id p \<mapsto> with_secret secret p))"
| "profile_spec s (DeleteProfile k) v = v(k := None)"
| "profile_spec s (ToggleFavorite k) v = v(k := map_option flip_favorite (v k))"
| "profile_spec s (MetricsEvent (Payload (Some tag) (Some m))) v =
     (if tauri s \<and> ipcSubscribed s \<and> tag = ''metrics'' \<and> activeProfileId s \<noteq> []
      then v(activeProfileId s := map_option (pingMs_update (\<lambda>_. metrics_ping m s)) (v (activeProfileId s)))
      else v)"
| "profile_spec s e v = v"

lemma profiles_frame [simp]:
  "profiles (connect ko pw s) = profiles s" "profiles (disconnect s) = profiles s"
  "profiles (selectProfile k s) = profiles s" "profiles (setKillSwitch m s) = profiles s"
  "profiles (updateSecuritySettings ps s) = profiles s" "profiles (updateAppSettings pa s) = profiles s"
  "profiles (addAppRule ar s) = profiles s" "profiles (toggleAppRule k s) = profiles s"
  "profiles (deleteAppRule k s) = profiles s" "profiles (addIpRule ir s) = profiles s"
  "profiles (toggleIpRule k s) = profiles s" "profiles (deleteIpRule k s) = profiles s"
  "profiles (loadStorage f s) = profiles s" "profiles (retryDaemonIpc s) = profiles s"
  "profiles (daemon_status_store h s) = profiles s" "profiles (vpn_status_update vp s) = profiles s"
  "profiles (tickTelemetry s) = profiles s" "profiles (ping_one prof s) = profiles s"
  by (simp_all add: connect_cases connect_send_def disconnect_def mark_disconnected_def selectProfile_def
      setKillSwitch_def updateSecuritySettings_def updateAppSettings_def addAppRule_def toggleAppRule_def
      deleteAppRule_def addIpRule_def toggleIpRule_def deleteIpRule_def loadStorage_def retryDaemonIpc_def
      daemon_status_store_def invalidate_tunnel_def setDaemonHealth_def vpn_status_update_def
      apply_status_def tickTelemetry_def tick_idle_def ping_one_def Let_def
      split: option.split payload.split)

lemma profiles_pingAll [simp]: "profiles (pingAllProfiles s) = profiles s"
proof -
  have "profiles (fold ping_one ps s) = profiles s" for ps and s :: app
    by (induction ps arbitrary: s) simp_all
  then show ?thesis by (simp add: pingAllProfiles_def)
qed

lemma profiles_setters [simp]:
  "profiles (clearLogs s) = profiles s" "profiles (setActiveTab t s) = profiles s"
  "profiles (setSpotlightOpen b s) = profiles s" "profiles (setCompactWidget b s) = profiles s"
  "profiles (setLogAutoScroll b s) = profiles s" "profiles (setLogFilterLevel l s) = profiles s"
  "profiles (setLogSearchQuery q s) = profiles s" "profiles (setMfaPromptProfile mp s) = profiles s"
  "profiles (setDaemonHealth h s) = profiles s" "profiles (daemon_status_module h s) = profiles s"
  "profiles (tray_toggle s) = profiles s" "profiles (network_online s) = profiles s"
  by (simp_all add: clearLogs_def setActiveTab_def setSpotlightOpen_def setCompactWidget_def
      setLogAutoScroll_def setLogFilterLevel_def setLogSearchQuery_def setMfaPromptProfile_def
      setDaemonHealth_def daemon_status_module_def tray_toggle_def network_online_def)

lemma profile_view_edits:
  "profile_view (addProfile p secret s) = (profile_view s)(profile_id p \<mapsto> with_secret secret p)"
  "profile_view (updateProfile p secret s) = (if profile_view s (profile_id p) = None then profile_view s
     else (profile_view s)(profile_id p \<mapsto> with_secret secret p))"
  "profile_view (deleteProfile k s) = (profile_view s)(k := None)"
  "profile_view (toggleFavorite k s) = (profile_view s)(k := map_option flip_favorite (profile_view s k))"
  by (auto simp: fun_eq_iff profile_view_def addProfile_def updateProfile_def deleteProfile_def
      toggleFavorite_def flip_favorite_def Let_def profile_list.lookup_insert profile_list.lookup_remove
      profile_list.replace_lookup profile_list.lookup_modify split: option.split)

lemma profile_view_metrics:
  "profile_view (apply_metrics m s) = (if activeProfileId s \<noteq> []
     then (profile_view s)(activeProfileId s :=
       map_option (pingMs_update (\<lambda>_. metrics_ping m s)) (profile_view s (activeProfileId s)))
     else profile_view s)"
  by (auto simp: fun_eq_iff profile_view_def apply_metrics_def metrics_ping_def Let_def
      profile_list.lookup_modify)

text \<open>
  Property C7. The profile list behaves as a map from identifiers to profiles: adding binds the
  new identifier, updating rebinds an existing one and never creates one, deleting removes
  exactly one binding, toggling a favourite flips the flag of one, a metrics report sets the
  latency of the active one, and no other user action, daemon event, timer or tick changes any
  profile.
\<close>

theorem profiles_refine_map:
  assumes "\<forall>n r. e \<noteq> Resolve n r"
  shows "profile_view (step hmac s e) = profile_spec s e (profile_view s)"
proof (cases "\<exists>pl. e = MetricsEvent pl")
  case True
  then show ?thesis
    by (auto simp: metrics_update_def profile_view_metrics fun_eq_iff split: payload.split option.split)
next
  case False
  then show ?thesis
    using assms by (cases e) (simp_all add: profile_view_edits, simp_all add: fun_eq_iff profile_view_def)
qed

theorem profiles_refine_map_witness:
  "profile_view (step no_hmac (sample_app [sample_profile]) (DeleteProfile ''p1'')) ''p1'' = None"
  using profiles_refine_map [of "DeleteProfile ''p1''" no_hmac "sample_app [sample_profile]"] by simp

text \<open>
  Deleting a profile leaves the selection pointing at a listed profile, except when
  the deleted profile was both the selected and the first one: the replacement is then taken
  from the list as it was before the deletion, and is the profile that was just deleted.
\<close>

theorem delete_keeps_selection:
  assumes "profile_view s (activeProfileId s) \<noteq> None"
  shows "profile_view (deleteProfile k s) (activeProfileId (deleteProfile k s)) = None \<longleftrightarrow>
    activeProfileId s = k \<and> map_option profile_id (first_opt (profiles s)) = Some k"
proof -
  obtain p ps where "profiles s = p # ps" using assms by (cases "profiles s") (auto simp: profile_view_def)
  moreover have "activeProfileId (deleteProfile k s) = (if activeProfileId s = k
      then nullish (map_option profile_id (first_opt (profiles s))) [] else activeProfileId s)"
    by (simp add: deleteProfile_def Let_def)
  ultimately show ?thesis
    using assms by (auto simp: profile_view_edits profile_view_def)
qed

theorem delete_keeps_selection_witness:
  "profile_view (deleteProfile ''p1'' (sample_app [sample_profile, totp_profile])) ''p1'' = None \<and>
   activeProfileId (deleteProfile ''p1'' (sample_app [sample_profile, totp_profile])) = ''p1''"
  using delete_keeps_selection [of "sample_app [sample_profile, totp_profile]" "''p1''"]
  by (simp add: profile_view_def sample_profile_def deleteProfile_def Let_def)

section \<open>Rules and kill switch\<close>

definition is_rule_event :: "event \<Rightarrow> bool" where
  "is_rule_event e = (case e of AddAppRule _ \<Rightarrow> True | ToggleAppRule _ \<Rightarrow> True | DeleteAppRule _ \<Rightarrow> True
     | AddIpRule _ \<Rightarrow> True | ToggleIpRule _ \<Rightarrow> True | DeleteIpRule _ \<Rightarrow> True | _ \<Rightarrow> False)"

lemmas rule_defs = addAppRule_def toggleAppRule_def deleteAppRule_def addIpRule_def toggleIpRule_def
  deleteIpRule_def

lemma rule_payloads_id [simp]: "app_rule_payload = id" "ip_rule_payload = id"
  by (simp_all add: fun_eq_iff app_rule_payload_def ip_rule_payload_def)

lemma rule_event_saved:
  "tauri s \<Longrightarrow> is_rule_event e \<Longrightarrow>
    outbox (step hmac s e) = outbox s @ [StorageSaveSplitRules (appRules (step hmac s e)) (ipRules (step hmac s e))]"
  by (cases e) (simp_all add: is_rule_event_def rule_defs ipc_defs Let_def)

lemma rules_loaded:
  "appRules (storage_reply (Some snap) t) = snap_app_rules snap"
  "ipRules (storage_reply (Some snap) t) = snap_ip_rules snap"
  "securitySettings (storage_reply (Some snap) t) = map_security (snap_security_settings snap)"
  by (simp_all add: storage_reply_def setupIpcSubscriptions_def Let_def)

text \<open>
  Every change of the split-tunnel rules writes both lists as they now are, and
  loading what was written gives them back; setting the kill switch persists the settings with
  the new mode and then switches the daemon's kill switch on or off to match, and loading those
  settings gives the mode back.
\<close>

theorem rules_and_kill_switch_persisted:
  assumes "tauri s"
  shows "(is_rule_event e \<longrightarrow> (\<exists>ar ir. outbox (step hmac s e) = outbox s @ [StorageSaveSplitRules ar ir] \<and>
        (\<forall>snap t. snap_app_rules snap = ar \<and> snap_ip_rules snap = ir \<longrightarrow>
           appRules (storage_reply (Some snap) t) = appRules (step hmac s e) \<and>
           ipRules (storage_reply (Some snap) t) = ipRules (step hmac s e)))) \<and>
    (\<exists>stored. outbox (step hmac s (SetKillSwitch m)) =
        outbox s @ [StorageSaveSecuritySettings stored, CmdSetKillSwitch (m \<noteq> KsOff) (Some m)] \<and>
      killSwitch (securitySettings (step hmac s (SetKillSwitch m))) = m \<and>
      (\<forall>snap t. snap_security_settings snap = stored \<longrightarrow>
         killSwitch (securitySettings (storage_reply (Some snap) t)) = m))"
  using assms rule_event_saved [OF assms]
  by (auto simp: rules_loaded setKillSwitch_def ipc_defs Let_def security_payload_def map_security_def)

theorem rules_and_kill_switch_persisted_witness:
  "outbox (step no_hmac (sample_app []) (SetKillSwitch KsOff)) \<noteq> []"
  using rules_and_kill_switch_persisted [of "sample_app []" Disconnect no_hmac KsOff] by auto

section \<open>Loading the storage\<close>

definition is_loading_task :: "task \<Rightarrow> bool" where
  "is_loading_task t = (case t of AwaitStorage \<Rightarrow> True | AwaitSubscriptions _ \<Rightarrow> True | _ \<Rightarrow> False)"

definition load_inv :: "app \<Rightarrow> bool" where
  "load_inv s \<longleftrightarrow> (isStorageLoading s \<longrightarrow> (\<exists>t \<in> set (pending s). is_loading_task t))"

text \<open>\<open>s'\<close> waits for everything \<open>s\<close> waits for and agrees on the flag.\<close>

definition waits_on :: "app \<Rightarrow> app \<Rightarrow> bool" where
  "waits_on s s' \<longleftrightarrow> set (pending s) \<subseteq> set (pending s') \<and> isStorageLoading s' = isStorageLoading s"

lemma waits_on_load_inv: "waits_on s s' \<Longrightarrow> load_inv s \<Longrightarrow> load_inv s'"
  by (auto simp: waits_on_def load_inv_def)

lemma waits_on_refl [simp]: "waits_on s s"
  by (simp add: waits_on_def)

lemma waits_on_store [simp]:
  "waits_on s (addLog l src msg s)" "waits_on s (clearLogs s)" "waits_on s (setActiveTab tab s)"
  "waits_on s (setSpotlightOpen b s)" "waits_on s (setCompactWidget b s)"
  "waits_on s (setLogAutoScroll b s)" "waits_on s (setLogFilterLevel lv s)"
  "waits_on s (setLogSearchQuery q s)" "waits_on s (setMfaPromptProfile mp s)"
  "waits_on s (setDaemonHealth h s)" "waits_on s (selectProfile k s)" "waits_on s (toggleFavorite k s)"
  "waits_on s (addProfile p sec s)" "waits_on s (updateProfile p sec s)" "waits_on s (deleteProfile k s)"
  "waits_on s (setKillSwitch m s)" "waits_on s (updateSecuritySettings ps s)"
  "waits_on s (updateAppSettings pa s)" "waits_on s (tickTelemetry s)"
  by (simp_all add: waits_on_def clearLogs_def setActiveTab_def setSpotlightOpen_def setCompactWidget_def
      setLogAutoScroll_def setLogFilterLevel_def setLogSearchQuery_def setMfaPromptProfile_def
      setDaemonHealth_def selectProfile_def toggleFavorite_def addProfile_def updateProfile_def
      deleteProfile_def setKillSwitch_def updateSecuritySettings_def updateAppSettings_def
      tickTelemetry_def tick_idle_def Let_def split: option.split)

lemma waits_on_rules [simp]: "is_rule_event e \<Longrightarrow> waits_on s (step hmac s e)"
  by (cases e) (simp_all add: is_rule_event_def waits_on_def rule_defs Let_def)

lemma waits_on_ping [simp]: "waits_on s (pingAllProfiles s)"
proof -
  have "waits_on s (fold ping_one ps s)" for ps and s :: app
    by (induction ps arbitrary: s) (force simp: waits_on_def ping_one_def)+
  then show ?thesis by (simp add: pingAllProfiles_def)
qed

lemma waits_on_session [simp]:
  "waits_on s (connect k pw s)" "waits_on s (disconnect s)" "waits_on s (retryDaemonIpc s)"
  "waits_on s (connect_after_totp hmac p sec t s)" "waits_on s (connect_reply dr s)"
  "waits_on s (disconnect_reply dr s)" "waits_on s (probe_reply st alive s)"
  "waits_on s (status_query_reply sq s)" "waits_on s (ping_reply p rtt s)" "waits_on s (auto_connect ak s)"
  by (auto simp: waits_on_def connect_cases connect_send_def disconnect_def mark_disconnected_def
      retryDaemonIpc_def connect_after_totp_def connect_reply_def disconnect_reply_def probe_reply_def
      status_query_reply_def ping_reply_def auto_connect_def Let_def
      split: option.splits sum.splits DaemonResponse.splits)

lemma waits_on_events [simp]:
  "waits_on s (daemon_status_module h s)" "waits_on s (daemon_status_store h s)"
  "waits_on s (vpn_status_update vp s)" "waits_on s (metrics_update mu s)"
  by (auto simp: waits_on_def daemon_status_module_def daemon_status_store_def invalidate_tunnel_def
      setDaemonHealth_def vpn_status_update_def apply_status_def announce_def notify_once_def
      metrics_update_def apply_metrics_def Let_def
      split: payload.splits option.splits ConnectionState.splits)

lemma waits_on_toggles [simp]: "waits_on s (tray_toggle s)" "waits_on s (network_online s)"
proof -
  show "waits_on s (tray_toggle s)" by (simp add: tray_toggle_def)
  have "waits_on s s' \<Longrightarrow> waits_on s' s'' \<Longrightarrow> waits_on s s''" for s' s''
    by (auto simp: waits_on_def)
  then show "waits_on s (network_online s)"
    by (simp add: network_online_def) (meson waits_on_session(1) waits_on_store(1))
qed

lemma load_inv_loadStorage: "load_inv s \<Longrightarrow> load_inv (loadStorage force s)"
  by (auto simp: load_inv_def loadStorage_def is_loading_task_def)

lemma load_inv_run_task:
  assumes "run_task hmac t r s = Some s'" "\<not> is_loading_task t \<Longrightarrow> load_inv s"
  shows "load_inv s'"
  using assms waits_on_load_inv [of s s']
  by (cases t)
    (auto simp: is_loading_task_def split: reply.splits,
     auto simp: load_inv_def storage_reply_def setupIpcSubscriptions_def subscriptions_reply_def
       is_loading_task_def setDaemonHealth_def Let_def split: option.splits sum.splits)

lemma load_inv_resolve: "load_inv s \<Longrightarrow> load_inv (resolve hmac n r s)"
proof -
  assume inv: "load_inv s"
  let ?s0 = "s\<lparr>pending := take n (pending s) @ drop (Suc n) (pending s)\<rparr>"
  have "load_inv ?s0" if "n < length (pending s)" "\<not> is_loading_task (pending s ! n)"
  proof -
    have "set (pending s) = insert (pending s ! n) (set (pending ?s0))"
      using arg_cong [OF id_take_nth_drop [OF that(1)], of set] by simp
    then show ?thesis using inv that(2) by (auto simp: load_inv_def)
  qed
  then show ?thesis
    using inv by (auto simp: resolve_def split: option.split intro: load_inv_run_task)
qed

lemma load_inv_step: "load_inv s \<Longrightarrow> load_inv (step hmac s e)"
  using load_inv_loadStorage load_inv_resolve waits_on_load_inv [of s "step hmac s e"]
    waits_on_rules [of e s hmac]
  by (cases e) (simp_all add: is_rule_event_def, simp add: load_inv_def)

interpretation loading: event_system "step hmac" load_inv for hmac
  by unfold_locales (rule load_inv_step)

lemma reachable_load_inv: "reachable hmac s \<Longrightarrow> load_inv s"
proof (induction rule: reachable.induct)
  case (boot is_tauri c uuids raw)
  have "load_inv (initial_app is_tauri c uuids raw)" by (simp add: load_inv_def initial_app_def)
  then have "load_inv (loadStorage False (initial_app is_tauri c uuids raw))"
    by (rule load_inv_loadStorage)
  then show ?case by (simp add: startup_def Let_def load_inv_def)
next
  case (event s e)
  then show ?case by (intro load_inv_step)
qed

lemma subscriptions_release: "\<not> isStorageLoading (subscriptions_reply k v s)"
  by (simp add: subscriptions_reply_def Let_def split: sum.split)

lemma storage_continues:
  "isStorageLoading (storage_reply snap s) \<Longrightarrow> \<exists>k. AwaitSubscriptions k \<in> set (pending (storage_reply snap s))"
  by (auto simp: storage_reply_def setupIpcSubscriptions_def Let_def split: option.split)

text \<open>
  Property C35. While the storage is marked as loading, some continuation is waiting that will
  release the mark: whatever it is answered, the wait for the storage either clears the mark or
  leaves a wait for the subscriptions, and the wait for the subscriptions always clears it. So
  the guard against a second load never locks the storage for good, in any interleaving.
\<close>

theorem loading_flag_released:
  assumes "reachable hmac s" "isStorageLoading s"
  shows "\<exists>n < length (pending s).
    (\<exists>k. pending s ! n = AwaitSubscriptions k \<and>
       (\<forall>v. \<not> isStorageLoading (step hmac s (Resolve n (ReplyUnit v))))) \<or>
    pending s ! n = AwaitStorage \<and>
       (\<forall>v. let s' = step hmac s (Resolve n (ReplyStorage v)) in
          \<not> isStorageLoading s' \<or> (\<exists>k. AwaitSubscriptions k \<in> set (pending s')))"
proof -
  obtain n where n: "n < length (pending s)" "is_loading_task (pending s ! n)"
    using reachable_load_inv [OF assms(1)] assms(2) by (auto simp: load_inv_def in_set_conv_nth)
  then consider k where "pending s ! n = AwaitSubscriptions k" | "pending s ! n = AwaitStorage"
    by (auto simp: is_loading_task_def split: task.splits)
  then show ?thesis
  proof cases
    case (1 k)
    then show ?thesis using n(1) by (intro exI [of _ n]) (simp add: resolve_def subscriptions_release)
  next
    case 2
    then show ?thesis
      using n(1) by (intro exI [of _ n]) (simp add: resolve_def Let_def storage_continues)
  qed
qed

theorem loading_flag_released_witness:
  "\<exists>n < length (pending (sample_boot True)). pending (sample_boot True) ! n = AwaitStorage \<or>
     (\<exists>k. pending (sample_boot True) ! n = AwaitSubscriptions k)"
  using loading_flag_released [OF sample_boot_reachable, of True]
  by (auto simp: sample_boot_def startup_def loadStorage_def initial_app_def Let_def)

section \<open>Notifications\<close>

lemma toasts_frame [simp]:
  "toasts (connect k pw s) = toasts s" "toasts (disconnect s) = toasts s"
  "toasts (selectProfile i s) = toasts s" "toasts (toggleFavorite i s) = toasts s"
  "toasts (addProfile p sec s) = toasts s" "toasts (updateProfile p sec s) = toasts s"
  "toasts (deleteProfile i s) = toasts s" "toasts (setKillSwitch m s) = toasts s"
  "toasts (updateSecuritySettings ps s) = toasts s" "toasts (updateAppSettings pa s) = toasts s"
  "toasts (loadStorage f s) = toasts s" "toasts (retryDaemonIpc s) = toasts s"
  "toasts (daemon_status_store h s) = toasts s" "toasts (metrics_update mu s) = toasts s"
  "toasts (tickTelemetry s) = toasts s" "toasts (ping_one prof s) = toasts s"
  by (simp_all add: connect_cases connect_send_def disconnect_def mark_disconnected_def selectProfile_def
      toggleFavorite_def addProfile_def updateProfile_def deleteProfile_def
      setKillSwitch_def updateSecuritySettings_def updateAppSettings_def loadStorage_def retryDaemonIpc_def
      daemon_status_store_def invalidate_tunnel_def setDaemonHealth_def metrics_update_def
      apply_metrics_def tickTelemetry_def tick_idle_def ping_one_def Let_def
      split: option.split payload.split)

lemma toasts_pingAll [simp]: "toasts (pingAllProfiles s) = toasts s"
proof -
  have "toasts (fold ping_one ps s) = toasts s" for ps and s :: app
    by (induction ps arbitrary: s) simp_all
  then show ?thesis by (simp add: pingAllProfiles_def)
qed

lemma toasts_setters [simp]:
  "toasts (clearLogs s) = toasts s" "toasts (setActiveTab t s) = toasts s"
  "toasts (setSpotlightOpen b s) = toasts s" "toasts (setCompactWidget b s) = toasts s"
  "toasts (setLogAutoScroll b s) = toasts s" "toasts (setLogFilterLevel l s) = toasts s"
  "toasts (setLogSearchQuery q s) = toasts s" "toasts (setMfaPromptProfile mp s) = toasts s"
  "toasts (setDaemonHealth h s) = toasts s" "toasts (daemon_status_module h s) = toasts s"
  "toasts (tray_toggle s) = toasts s" "toasts (network_online s) = toasts s"
  by (simp_all add: clearLogs_def setActiveTab_def setSpotlightOpen_def setCompactWidget_def
      setLogAutoScroll_def setLogFilterLevel_def setLogSearchQuery_def setMfaPromptProfile_def
      setDaemonHealth_def daemon_status_module_def tray_toggle_def network_online_def)

lemma toasts_rules [simp]: "is_rule_event e \<Longrightarrow> toasts (step hmac s e) = toasts s"
  by (cases e) (simp_all add: is_rule_event_def rule_defs Let_def)

lemma toasts_run_task: "run_task hmac t r s = Some s' \<Longrightarrow> toasts s' = toasts s"
  by (cases t)
    (auto simp: connect_after_totp_def connect_send_def connect_reply_def disconnect_reply_def
      mark_disconnected_def probe_reply_def status_query_reply_def storage_reply_def
      setupIpcSubscriptions_def subscriptions_reply_def ping_reply_def auto_connect_def Let_def
      split: reply.splits sum.splits DaemonResponse.splits option.splits)

lemma toasts_resolve [simp]: "toasts (resolve hmac n r s) = toasts s"
  by (auto simp: resolve_def dest: toasts_run_task split: option.split)

lemma announce_toasts:
  assumes "toasts (announce snap prev s) \<noteq> toasts s"
  shows "notificationsEnabled (appSettings s) = Some True \<and>
    (\<exists>t. toasts (announce snap prev s) = toasts s @ [t]) \<and>
    (snap_state snap = Disconnected \<or>
     snap_state snap \<in> {Connected, ErrorState} \<and> lastNotifiedState s \<noteq> Some (snap_state snap))"
  using assms
  by (auto simp: announce_def notify_once_def Let_def split: ConnectionState.splits if_splits)

lemma toasts_status:
  assumes "toasts (vpn_status_update pl s) \<noteq> toasts s"
  obtains snap where "pl = Payload (Some ''status'') (Some snap)" "snap_state snap \<noteq> connectionState s"
    "toasts (vpn_status_update pl s) = toasts (announce snap (connectionState s) s)"
  using assms by (auto simp: vpn_status_update_def apply_status_def Let_def
      split: payload.splits option.splits if_splits)

text \<open>
  The only event that shows a notification is a status report of the daemon that
  changes the connection state, it shows exactly one, and only if the user has notifications
  enabled; a tunnel that comes up or fails is announced only if that is not what was announced
  last.
\<close>

theorem notifications_on_change_only:
  assumes "toasts (step hmac s e) \<noteq> toasts s"
  shows "notificationsEnabled (appSettings s) = Some True \<and>
    (\<exists>t. toasts (step hmac s e) = toasts s @ [t]) \<and>
    (\<exists>snap. e = VpnStatus (Payload (Some ''status'') (Some snap)) \<and> snap_state snap \<noteq> connectionState s \<and>
       (snap_state snap = Disconnected \<or>
        snap_state snap \<in> {Connected, ErrorState} \<and> lastNotifiedState s \<noteq> Some (snap_state snap)))"
proof -
  have "\<not> is_rule_event e" using assms by auto
  then obtain pl where e: "e = VpnStatus pl" and changed: "toasts (vpn_status_update pl s) \<noteq> toasts s"
      and st: "step hmac s e = vpn_status_update pl s"
    using assms by (cases e) (auto simp: is_rule_event_def split: if_splits)
  show ?thesis
  proof (rule toasts_status [OF changed])
    fix snap
    assume "pl = Payload (Some ''status'') (Some snap)" "snap_state snap \<noteq> connectionState s"
      "toasts (vpn_status_update pl s) = toasts (announce snap (connectionState s) s)"
    then show ?thesis
      unfolding st using announce_toasts [of snap "connectionState s" s] changed by (auto simp: e)
  qed
qed

theorem notifications_on_change_only_witness:
  "notificationsEnabled (appSettings (sample_app [sample_profile])) = Some True"
  using notifications_on_change_only
    [of no_hmac "sample_app [sample_profile]" "VpnStatus (Payload (Some ''status'') (Some sample_status))"]
  by (simp add: vpn_status_update_def apply_status_def announce_def notify_once_def sample_status_def
      sample_app_def initial_app_def getSavedAppSettings_def DEFAULT_APP_SETTINGS_def Let_def)

section \<open>Uptime\<close>

lemma uptime_after_report:
  assumes "connectionState s \<noteq> Connected" "snap_state snap = Connected"
  shows "connectionState (apply_status snap s) = Connected \<and>
    connectedAt (apply_status snap s) =
      Some (now_ms (clk s) - int (or_num (snap_session_duration_secs snap) 0) * 1000)"
  using assms by (simp add: apply_status_def Let_def)

text \<open>
  After the daemon reports a tunnel that has been up for \<open>d\<close> seconds, a tick at any
  later time shows \<open>d\<close> plus the whole seconds that have passed since the report, however the
  ticks are spaced; a tick in any state but connected shows zero.
\<close>

theorem uptime_follows_session:
  assumes "tauri s" "ipcSubscribed s" "connectionState s \<noteq> Connected" "snap_state snap = Connected"
    and "d = int (or_num (snap_session_duration_secs snap) 0)" "now_ms (clk s) \<noteq> d * 1000"
  shows "uptimeSeconds (step hmac (step hmac (step hmac s (status_event snap)) (ClockTick c)) Tick) =
      d + (now_ms c - now_ms (clk s)) div 1000 \<and>
    (connectionState s' \<noteq> Connected \<longrightarrow> uptimeSeconds (step hmac s' Tick) = 0)"
proof -
  have "(now_ms c - (now_ms (clk s) - d * 1000)) div 1000 = (now_ms c - now_ms (clk s) + d * 1000) div 1000"
    by (simp add: algebra_simps)
  also have "\<dots> = d + (now_ms c - now_ms (clk s)) div 1000" by simp
  finally have "(now_ms c - (now_ms (clk s) - d * 1000)) div 1000 = d + (now_ms c - now_ms (clk s)) div 1000" .
  then show ?thesis
    using assms uptime_after_report [OF assms(3,4)]
    by (simp add: status_event_def vpn_status_update_def tickTelemetry_def tick_idle_def Let_def)
qed

theorem uptime_follows_session_witness:
  "uptimeSeconds (step no_hmac (step no_hmac (step no_hmac (sample_app [sample_profile])
     (status_event sample_status)) (ClockTick (sample_clock\<lparr>now_ms := 1700000005500\<rparr>))) Tick) = 10"
  using uptime_follows_session [of "sample_app [sample_profile]" sample_status 5 no_hmac
      "sample_clock\<lparr>now_ms := 1700000005500\<rparr>"]
  by (simp add: sample_status_def sample_clock_def or_num_def)

section \<open>Reconnecting when the network returns\<close>

text \<open>
  With automatic reconnection on, a network that comes back starts the connection
  again after the user has disconnected on purpose: nothing records that the tunnel was not
  lost but closed.
\<close>

theorem online_overrides_disconnect:
  assumes "autoReconnect (appSettings s) = Some True" "connectionState s = Connected"
    and "activeProfileId s \<noteq> []" "find_by profile_id (activeProfileId s) (profiles s) = Some p"
    and "passwordMode (creds p) \<noteq> Some PmDynamicPrompt"
  shows "let closed = step hmac (step hmac s Disconnect) (Resolve (length (pending s)) (ReplyDaemon v)) in
    connectionState closed = Disconnected \<and> connectionState (step hmac closed NetworkOnline) = Connecting"
proof -
  have closed: "connectionState s' = Disconnected \<Longrightarrow> appSettings s' = appSettings s \<Longrightarrow>
      activeProfileId s' = activeProfileId s \<Longrightarrow> profiles s' = profiles s \<Longrightarrow>
      connectionState (step hmac s' NetworkOnline) = Connecting" for s' :: app
    using assms(1,3-5)
    by (simp add: network_online_def connect_cases chosen_profile_def needs_prompt_def or_str_def Let_def)
  show ?thesis
    using assms(2) closed
    by (simp add: disconnect_def resolve_def disconnect_reply_def mark_disconnected_def Let_def split: sum.split)
qed

theorem online_overrides_disconnect_witness:
  "let s = (sample_app [sample_profile])\<lparr>connectionState := Connected\<rparr>;
       closed = step no_hmac (step no_hmac s Disconnect) (Resolve 0 (ReplyDaemon (Inr RespOther)))
   in connectionState (step no_hmac closed NetworkOnline) = Connecting"
proof -
  have "autoReconnect (appSettings (sample_app [sample_profile])) = Some True"
    by (simp add: sample_app_def initial_app_def getSavedAppSettings_def DEFAULT_APP_SETTINGS_def)
  then show ?thesis
    using online_overrides_disconnect [of "(sample_app [sample_profile])\<lparr>connectionState := Connected\<rparr>"
        sample_profile no_hmac "Inr RespOther"]
    by (simp add: sample_profile_def no_credentials_def Let_def)
qed

end
