(* ===== verification/Js_Regex.thy ===== *)
theory Js_Regex
  imports Js_Prelude
begin

text \<open>
  The fragment of JavaScript regular expressions the importers use: literals and classes,
  sequence, alternatives, greedy and lazy repetition of a class, optional parts, capture groups
  and the anchors \<open>^\<close> and \<open>$\<close>. \<open>rmatch\<close> is the backtracking matcher of the language (first
  alternative first, longest or shortest repetition first, the leftmost start wins); \<open>mt\<close> says
  declaratively which stretches of the text an expression can match. The matcher finds a match
  exactly when one exists.
\<close>

section \<open>Syntax\<close>

datatype re =
  Eps
| Cls "char \<Rightarrow> bool"
| Cat re re
| Alt re re
| Rep bool nat "char \<Rightarrow> bool"
| Grp nat re
| Bol
| Eol

text \<open>\<open>Rep True n P\<close> is \<open>P{n,}\<close>, \<open>Rep False n P\<close> its lazy form \<open>P{n,}?\<close>; \<open>Bol\<close> is \<open>^\<close> with the \<open>m\<close>
  flag, \<open>Eol\<close> is \<open>$\<close> without it. \<open>lit\<close> is a literal under the \<open>i\<close> flag.\<close>

definition same_letter :: "char \<Rightarrow> char \<Rightarrow> bool" where
  "same_letter d c \<longleftrightarrow> upper_char c = upper_char d"

primrec lit :: "string \<Rightarrow> re" where
  "lit [] = Eps"
| "lit (d # ds) = Cat (Cls (same_letter d)) (lit ds)"

definition opt :: "re \<Rightarrow> re" where
  "opt r = Alt r Eps"

primrec seq :: "re list \<Rightarrow> re" where
  "seq [] = Eps"
| "seq (r # rs) = Cat r (seq rs)"

definition is_newline :: "char \<Rightarrow> bool" where
  "is_newline c \<longleftrightarrow> c = CHR 0x0A \<or> c = CHR 0x0D"

definition at_line_start :: "char option \<Rightarrow> bool" where
  "at_line_start pv \<longleftrightarrow> (case pv of None \<Rightarrow> True | Some c \<Rightarrow> is_newline c)"

section \<open>The backtracking matcher\<close>

text \<open>A position holds the character before it, the rest of the text and the captures.\<close>

type_synonym captures = "nat \<rightharpoonup> string"
type_synonym pos = "char option \<times> string \<times> captures"

definition orElse :: "'a option \<Rightarrow> 'a option \<Rightarrow> 'a option" where
  "orElse a b = (case a of Some r \<Rightarrow> Some r | None \<Rightarrow> b)"

lemma orElse_simps [simp]: "orElse None b = b" "orElse (Some r) b = Some r"
  by (simp_all add: orElse_def)

lemma orElse_eq_None [simp]: "orElse a b = None \<longleftrightarrow> a = None \<and> b = None"
  by (cases a) simp_all

lemma orElse_eq_Some: "orElse a b = Some r \<longleftrightarrow> a = Some r \<or> a = None \<and> b = Some r"
  by (cases a) simp_all

primrec rep_greedy ::
  "(char \<Rightarrow> bool) \<Rightarrow> (pos \<Rightarrow> pos option) \<Rightarrow> string \<Rightarrow> nat \<Rightarrow> char option \<Rightarrow> captures \<Rightarrow> pos option" where
  "rep_greedy P k [] n pv g = (if n = 0 then k (pv, [], g) else None)"
| "rep_greedy P k (c # cs) n pv g =
     orElse (if P c then rep_greedy P k cs (n - 1) (Some c) g else None)
       (if n = 0 then k (pv, c # cs, g) else None)"

primrec rep_lazy ::
  "(char \<Rightarrow> bool) \<Rightarrow> (pos \<Rightarrow> pos option) \<Rightarrow> string \<Rightarrow> nat \<Rightarrow> char option \<Rightarrow> captures \<Rightarrow> pos option" where
  "rep_lazy P k [] n pv g = (if n = 0 then k (pv, [], g) else None)"
| "rep_lazy P k (c # cs) n pv g =
     orElse (if n = 0 then k (pv, c # cs, g) else None)
       (if P c then rep_lazy P k cs (n - 1) (Some c) g else None)"

definition consumed :: "string \<Rightarrow> string \<Rightarrow> string" where
  "consumed xs ys = take (length xs - length ys) xs"

primrec rmatch :: "re \<Rightarrow> (pos \<Rightarrow> pos option) \<Rightarrow> pos \<Rightarrow> pos option" where
  "rmatch Eps k s = k s"
| "rmatch (Cls P) k s = (case s of (pv, xs, g) \<Rightarrow>
     (case xs of [] \<Rightarrow> None | c # cs \<Rightarrow> if P c then k (Some c, cs, g) else None))"
| "rmatch (Cat a b) k s = rmatch a (rmatch b k) s"
| "rmatch (Alt a b) k s = orElse (rmatch a k s) (rmatch b k s)"
| "rmatch (Rep greedy n P) k s = (case s of (pv, xs, g) \<Rightarrow>
     if greedy then rep_greedy P k xs n pv g else rep_lazy P k xs n pv g)"
| "rmatch (Grp i a) k s = (case s of (pv, xs, g) \<Rightarrow>
     rmatch a (\<lambda>(pv', ys, g'). k (pv', ys, g'(i \<mapsto> consumed xs ys))) s)"
| "rmatch Bol k s = (if at_line_start (fst s) then k s else None)"
| "rmatch Eol k s = (if fst (snd s) = [] then k s else None)"

text \<open>\<open>RegExp.prototype.exec\<close> without the \<open>g\<close> flag: the leftmost position that matches.\<close>

primrec search_from :: "re \<Rightarrow> char option \<Rightarrow> string \<Rightarrow> pos option" where
  "search_from r pv [] = rmatch r Some (pv, [], Map.empty)"
| "search_from r pv (c # cs) =
     orElse (rmatch r Some (pv, c # cs, Map.empty)) (search_from r (Some c) cs)"

definition exec :: "re \<Rightarrow> string \<Rightarrow> captures option" where
  "exec r s = map_option (\<lambda>(pv, rest, g). g) (search_from r None s)"

text \<open>\<open>s.replace(r, "")\<close>: the first match is cut out.\<close>

primrec cut_from :: "re \<Rightarrow> char option \<Rightarrow> string \<Rightarrow> string" where
  "cut_from r pv [] = []"
| "cut_from r pv (c # cs) = (case rmatch r Some (pv, c # cs, Map.empty) of
     Some (pv', rest, g) \<Rightarrow> rest | None \<Rightarrow> c # cut_from r (Some c) cs)"

definition cut_first :: "re \<Rightarrow> string \<Rightarrow> string" where
  "cut_first r s = cut_from r None s"

definition test :: "re \<Rightarrow> string \<Rightarrow> bool" where
  "test r s \<longleftrightarrow> exec r s \<noteq> None"

definition group :: "nat \<Rightarrow> captures option \<Rightarrow> string option" where
  "group i m = (case m of Some g \<Rightarrow> g i | None \<Rightarrow> None)"

lemma rmatch_Eps [simp]: "rmatch Eps k = k"
  by (rule ext) simp

lemma rmatch_Cat_Eps [simp]: "rmatch (Cat a Eps) k = rmatch a k"
  by (rule ext) simp

section \<open>What an expression can match\<close>

inductive mt :: "re \<Rightarrow> pos \<Rightarrow> pos \<Rightarrow> bool" where
  mt_eps: "mt Eps s s"
| mt_cls: "P c \<Longrightarrow> mt (Cls P) (pv, c # cs, g) (Some c, cs, g)"
| mt_cat: "mt a s t \<Longrightarrow> mt b t u \<Longrightarrow> mt (Cat a b) s u"
| mt_alt1: "mt a s t \<Longrightarrow> mt (Alt a b) s t"
| mt_alt2: "mt b s t \<Longrightarrow> mt (Alt a b) s t"
| mt_rep0: "mt (Rep greedy 0 P) s s"
| mt_rep: "P c \<Longrightarrow> mt (Rep greedy (n - 1) P) (Some c, cs, g) t \<Longrightarrow> mt (Rep greedy n P) (pv, c # cs, g) t"
| mt_grp: "mt a (pv, xs, g) (pv', ys, g') \<Longrightarrow>
    mt (Grp i a) (pv, xs, g) (pv', ys, g'(i \<mapsto> consumed xs ys))"
| mt_bol: "at_line_start (fst s) \<Longrightarrow> mt Bol s s"
| mt_eol: "fst (snd s) = [] \<Longrightarrow> mt Eol s s"

inductive_cases mt_epsE: "mt Eps s t"
inductive_cases mt_clsE: "mt (Cls P) s t"
inductive_cases mt_catE: "mt (Cat a b) s t"
inductive_cases mt_altE: "mt (Alt a b) s t"
inductive_cases mt_repE: "mt (Rep greedy n P) s t"
inductive_cases mt_grpE: "mt (Grp i a) s t"
inductive_cases mt_bolE: "mt Bol s t"
inductive_cases mt_eolE: "mt Eol s t"

lemma mt_rep_Cons:
  "mt (Rep b n P) (pv, c # cs, g) t \<longleftrightarrow>
     n = 0 \<and> t = (pv, c # cs, g) \<or> P c \<and> mt (Rep b (n - 1) P) (Some c, cs, g) t"
  by (auto intro: mt.intros elim: mt_repE)

lemma mt_rep_Nil: "mt (Rep b n P) (pv, [], g) t \<longleftrightarrow> n = 0 \<and> t = (pv, [], g)"
  by (auto intro: mt.intros elim: mt_repE)

lemma rep_greedy_None:
  "rep_greedy P k xs n pv g = None \<longleftrightarrow> (\<forall>t. mt (Rep True n P) (pv, xs, g) t \<longrightarrow> k t = None)"
proof (induction xs arbitrary: n pv)
  case (Cons c cs)
  show ?case
    unfolding mt_rep_Cons rep_greedy.simps orElse_eq_None using Cons.IH by (auto simp del: split_paired_All)
qed (simp add: mt_rep_Nil del: split_paired_All)

lemma rep_lazy_None:
  "rep_lazy P k xs n pv g = None \<longleftrightarrow> (\<forall>t. mt (Rep False n P) (pv, xs, g) t \<longrightarrow> k t = None)"
proof (induction xs arbitrary: n pv)
  case (Cons c cs)
  show ?case
    unfolding mt_rep_Cons rep_lazy.simps orElse_eq_None using Cons.IH by (auto simp del: split_paired_All)
qed (simp add: mt_rep_Nil del: split_paired_All)

lemma rep_greedy_Some:
  "rep_greedy P k xs n pv g = Some u \<Longrightarrow> \<exists>t. mt (Rep True n P) (pv, xs, g) t \<and> k t = Some u"
proof (induction xs arbitrary: n pv)
  case (Cons c cs)
  from Cons.prems show ?case
    unfolding mt_rep_Cons rep_greedy.simps orElse_eq_Some
    by (auto simp del: split_paired_Ex split: if_splits dest!: Cons.IH)
qed (simp add: mt_rep_Nil del: split_paired_Ex split: if_splits)

lemma rep_lazy_Some:
  "rep_lazy P k xs n pv g = Some u \<Longrightarrow> \<exists>t. mt (Rep False n P) (pv, xs, g) t \<and> k t = Some u"
proof (induction xs arbitrary: n pv)
  case (Cons c cs)
  from Cons.prems show ?case
    unfolding mt_rep_Cons rep_lazy.simps orElse_eq_Some
    by (auto simp del: split_paired_Ex split: if_splits dest!: Cons.IH)
qed (simp add: mt_rep_Nil del: split_paired_Ex split: if_splits)

text \<open>Completeness: the matcher fails only if every way to match ends where the rest fails.\<close>

lemma rmatch_None: "rmatch r k s = None \<longleftrightarrow> (\<forall>t. mt r s t \<longrightarrow> k t = None)"
proof (induction r arbitrary: k s)
  case (Cls P)
  then show ?case by (cases s) (auto intro: mt.intros elim!: mt_clsE split: list.splits)
next
  case (Cat a b)
  show ?case unfolding rmatch.simps Cat.IH by (blast intro: mt.intros elim: mt_catE)
next
  case (Alt a b)
  show ?case unfolding rmatch.simps orElse_eq_None Alt.IH by (blast intro: mt.intros elim: mt_altE)
next
  case (Rep b n P)
  then show ?case
    by (cases s; cases b) (simp_all add: rep_greedy_None rep_lazy_None del: split_paired_All)
next
  case (Grp i a)
  obtain pv xs g where s: "s = (pv, xs, g)" by (metis prod_cases3)
  show ?case unfolding s rmatch.simps prod.case Grp.IH
    by (auto intro: mt.intros elim!: mt_grpE)
qed (auto intro: mt.intros elim!: mt_epsE mt_bolE mt_eolE simp del: split_paired_All)

text \<open>Soundness: a result comes from one of the ways to match.\<close>

lemma rmatch_Some: "rmatch r k s = Some u \<Longrightarrow> \<exists>t. mt r s t \<and> k t = Some u"
proof (induction r arbitrary: k s u)
  case (Cls P)
  then show ?case by (cases s) (auto intro: mt.intros split: list.splits if_splits)
next
  case (Cat a b)
  from Cat.prems show ?case unfolding rmatch.simps by (blast intro: mt.intros dest!: Cat.IH)
next
  case (Alt a b)
  from Alt.prems show ?case
    unfolding rmatch.simps orElse_eq_Some by (blast intro: mt.intros dest!: Alt.IH)
next
  case (Rep b n P)
  obtain pv xs g where s: "s = (pv, xs, g)" by (metis prod_cases3)
  from Rep show ?case
    unfolding s rmatch.simps prod.case by (cases b) (auto dest: rep_greedy_Some rep_lazy_Some simp del: split_paired_Ex)
next
  case (Grp i a)
  obtain pv xs g where s: "s = (pv, xs, g)" by (metis prod_cases3)
  from Grp.prems show ?case
    unfolding s rmatch.simps prod.case by (auto dest!: Grp.IH intro: mt.intros)
qed (auto intro: mt.intros split: if_splits simp del: split_paired_Ex)

section \<open>Searching\<close>

text \<open>The character before a stretch of text that follows \<open>pv\<close>.\<close>

definition prev :: "char option \<Rightarrow> string \<Rightarrow> char option" where
  "prev pv s = (if s = [] then pv else Some (last s))"

lemma prev_simps [simp]: "prev pv [] = pv" "prev pv (c # cs) = prev (Some c) cs"
  by (simp_all add: prev_def)

lemma prev_append [simp]: "prev pv (a @ b) = prev (prev pv a) b"
  by (simp add: prev_def)

lemma prev_nonempty: "s \<noteq> [] \<Longrightarrow> prev pv s = Some (last s)"
  by (simp add: prev_def)

lemma search_None:
  "search_from r pv xs = None \<longleftrightarrow>
     (\<forall>a b. xs = a @ b \<longrightarrow> rmatch r Some (prev pv a, b, Map.empty) = None)"
proof (induction xs arbitrary: pv)
  case (Cons c cs)
  have "(\<forall>a b. c # cs = a @ b \<longrightarrow> rmatch r Some (prev pv a, b, Map.empty) = None) \<longleftrightarrow>
      rmatch r Some (pv, c # cs, Map.empty) = None \<and>
      (\<forall>a b. cs = a @ b \<longrightarrow> rmatch r Some (prev (Some c) a, b, Map.empty) = None)"
    (is "?l = ?r")
  proof
    assume l: ?l
    have "rmatch r Some (prev (Some c) a, b, Map.empty) = None" if "cs = a @ b" for a b
      using l [rule_format, of "c # a" b] that by simp
    with l [rule_format, of "[]" "c # cs"] show ?r by simp
  next
    assume ?r then show ?l by (auto simp: Cons_eq_append_conv)
  qed
  then show ?case by (simp add: Cons.IH)
qed simp

text \<open>The search finds nothing exactly when the expression matches nowhere in the text.\<close>

lemma test_iff:
  "test r xs \<longleftrightarrow> (\<exists>a b t. xs = a @ b \<and> mt r (prev None a, b, Map.empty) t)"
  unfolding test_def exec_def
  by (simp add: search_None rmatch_None)

text \<open>A search passes over a stretch of text at none of whose positions a match starts.\<close>

lemma search_skip:
  "(\<And>a b. pre = a @ b \<Longrightarrow> b \<noteq> [] \<Longrightarrow> rmatch r Some (prev pv a, b @ rest, Map.empty) = None) \<Longrightarrow>
   search_from r pv (pre @ rest) = search_from r (prev pv pre) rest"
proof (induction pre arbitrary: pv)
  case (Cons c cs)
  have "rmatch r Some (pv, c # cs @ rest, Map.empty) = None"
    using Cons.prems [of "[]" "c # cs"] by simp
  moreover have "search_from r (Some c) (cs @ rest) = search_from r (prev (Some c) cs) rest"
    by (rule Cons.IH) (use Cons.prems [of "c # _"] in simp)
  ultimately show ?case by simp
qed simp

lemma search_here: "rmatch r Some (pv, xs, Map.empty) = Some t \<Longrightarrow> search_from r pv xs = Some t"
  by (cases xs) simp_all

text \<open>Expressions that begin with \<open>^\<close> are tried at the starts of lines only.\<close>

lemma search_line_skip:
  assumes "\<forall>c \<in> set l. \<not> is_newline c" and "is_newline nl"
    and "rmatch (Cat Bol r) Some (pv, l @ nl # rest, Map.empty) = None"
  shows "search_from (Cat Bol r) pv (l @ nl # rest) = search_from (Cat Bol r) (Some nl) rest"
proof -
  have "search_from (Cat Bol r) pv ((l @ [nl]) @ rest) = search_from (Cat Bol r) (prev pv (l @ [nl])) rest"
  proof (rule search_skip)
    fix a b assume ab: "l @ [nl] = a @ b" "b \<noteq> []"
    show "rmatch (Cat Bol r) Some (prev pv a, b @ rest, Map.empty) = None"
    proof (cases a rule: rev_cases)
      case Nil
      with assms(3) ab show ?thesis by (metis append.assoc append_Cons append_Nil prev_simps(1))
    next
      case (snoc a' c)
      with ab have "c \<in> set l" by (metis append.assoc append_Cons append_Nil append_butlast_last_id
            butlast_append butlast_snoc in_set_conv_decomp)
      with assms(1) snoc show ?thesis by (simp add: at_line_start_def)
    qed
  qed
  then show ?thesis by simp
qed

text \<open>A found match is a match of the expression somewhere in the text, and it sets no captures
  but those of the groups of the expression.\<close>

lemma search_Some:
  "search_from r pv xs = Some t \<Longrightarrow> \<exists>a b. xs = a @ b \<and> mt r (prev pv a, b, Map.empty) t"
proof (induction xs arbitrary: pv)
  case Nil
  then show ?case by (auto dest: rmatch_Some)
next
  case (Cons c cs)
  then consider "rmatch r Some (pv, c # cs, Map.empty) = Some t" | "search_from r (Some c) cs = Some t"
    by (auto simp: orElse_eq_Some)
  then show ?case
  proof cases
    case 1
    then show ?thesis by (intro exI [of _ "[]"] exI [of _ "c # cs"]) (auto dest: rmatch_Some)
  next
    case 2
    from Cons.IH [OF this] obtain a b where "cs = a @ b" "mt r (prev (Some c) a, b, Map.empty) t" by blast
    then show ?thesis by (intro exI [of _ "c # a"] exI [of _ b]) simp
  qed
qed

lemma exec_Some:
  "exec r xs = Some g \<Longrightarrow> \<exists>a b pv ys. xs = a @ b \<and> mt r (prev None a, b, Map.empty) (pv, ys, g)"
  by (auto simp: exec_def dest!: search_Some)

primrec groups :: "re \<Rightarrow> nat set" where
  "groups Eps = {}"
| "groups (Cls P) = {}"
| "groups (Cat a b) = groups a \<union> groups b"
| "groups (Alt a b) = groups a \<union> groups b"
| "groups (Rep b n P) = {}"
| "groups (Grp i a) = insert i (groups a)"
| "groups Bol = {}"
| "groups Eol = {}"

lemma groups_lit [simp]: "groups (lit w) = {}"
  by (induction w) simp_all

lemma mt_captures: "mt r s t \<Longrightarrow> i \<notin> groups r \<Longrightarrow> snd (snd t) i = snd (snd s) i"
  by (induction rule: mt.induct) auto

lemma mt_captures_tuple:
  "mt r (pv, xs, g) (pv', ys, g') \<Longrightarrow> i \<notin> groups r \<Longrightarrow> g' i = g i"
  using mt_captures [of r "(pv, xs, g)" "(pv', ys, g')" i] by simp

section \<open>Matching literals and repetitions\<close>

primrec starts_i :: "string \<Rightarrow> string \<Rightarrow> bool" where
  "starts_i [] xs = True"
| "starts_i (d # ds) xs = (case xs of [] \<Rightarrow> False | c # cs \<Rightarrow> same_letter d c \<and> starts_i ds cs)"

lemma rmatch_lit:
  "rmatch (lit w) k (pv, xs, g) = (if starts_i w xs
     then k (prev pv (take (length w) xs), drop (length w) xs, g) else None)"
  by (induction w arbitrary: pv xs) (auto split: list.splits)

lemma same_letter_refl [simp]: "same_letter c c"
  by (simp add: same_letter_def)

lemma starts_i_self [simp]: "starts_i w (w @ xs)"
  by (induction w) simp_all

lemma rmatch_lit_self [simp]:
  "rmatch (lit w) k (pv, w @ xs, g) = k (prev pv w, xs, g)"
  by (simp add: rmatch_lit)

lemma rep_lazy_here:
  "(\<And>a b. body = a @ b \<Longrightarrow> b \<noteq> [] \<Longrightarrow> k (prev pv a, b @ rest, g) = None) \<Longrightarrow>
   k (prev pv body, rest, g) = Some t \<Longrightarrow> \<forall>c \<in> set body. P c \<Longrightarrow>
   rep_lazy P k (body @ rest) 0 pv g = Some t"
proof (induction body arbitrary: pv)
  case Nil
  then show ?case by (cases rest) simp_all
next
  case (Cons c cs)
  have "k (pv, c # cs @ rest, g) = None" using Cons.prems(1) [of "[]" "c # cs"] by simp
  moreover have "rep_lazy P k (cs @ rest) 0 (Some c) g = Some t"
    by (rule Cons.IH) (use Cons.prems(1) [of "c # _"] Cons.prems(2,3) in simp_all)
  ultimately show ?case using Cons.prems(3) by simp
qed

lemma rep_greedy_here:
  "\<forall>c \<in> set body. P c \<Longrightarrow> n \<le> length body \<Longrightarrow> (rest = [] \<or> \<not> P (hd rest)) \<Longrightarrow>
   k (prev pv body, rest, g) = Some t \<Longrightarrow> rep_greedy P k (body @ rest) n pv g = Some t"
proof (induction body arbitrary: pv n)
  case Nil
  then show ?case by (cases rest) simp_all
next
  case (Cons c cs)
  have "rep_greedy P k (cs @ rest) (n - 1) (Some c) g = Some t"
    by (rule Cons.IH) (use Cons.prems in simp_all)
  then show ?case using Cons.prems(1) by simp
qed

lemma rep_greedy_stop:
  "rest = [] \<or> \<not> P (hd rest) \<Longrightarrow>
   rep_greedy P k rest n pv g = (if n = 0 then k (pv, rest, g) else None)"
  by (cases rest) simp_all

lemma consumed_append [simp]: "consumed (a @ b) b = a"
  by (simp add: consumed_def)

section \<open>What the captures hold\<close>

lemma mt_rep_chars:
  "mt (Rep b n P) (pv, xs, g) (pv', ys, g') \<Longrightarrow>
     \<exists>w. xs = w @ ys \<and> n \<le> length w \<and> (\<forall>c \<in> set w. P c) \<and> g' = g"
proof (induction xs arbitrary: n pv)
  case Nil
  then show ?case by (simp add: mt_rep_Nil)
next
  case (Cons c cs)
  from Cons.prems consider "n = 0" "(pv', ys, g') = (pv, c # cs, g)"
    | "P c" "mt (Rep b (n - 1) P) (Some c, cs, g) (pv', ys, g')"
    unfolding mt_rep_Cons by blast
  then show ?case
  proof cases
    case 1
    then show ?thesis by (intro exI [of _ "[]"]) simp
  next
    case 2
    from Cons.IH [OF 2(2)] obtain w where
      "cs = w @ ys" "n - 1 \<le> length w" "\<forall>c \<in> set w. P c" "g' = g" by blast
    with 2(1) show ?thesis by (intro exI [of _ "c # w"]) auto
  qed
qed

text \<open>A captured repetition of a class has its length and its characters.\<close>

lemma mt_grp_rep:
  assumes "mt (Grp i (Rep b n P)) (pv, xs, g) t"
  obtains w ys pv' where "xs = w @ ys" "n \<le> length w" "\<forall>c \<in> set w. P c"
    "t = (pv', ys, g(i \<mapsto> w))"
  using assms by (auto elim!: mt_grpE dest!: mt_rep_chars)

end
