(* ===== verification/Config_Import.thy ===== *)
theory Config_Import
  imports Js_Regex Vpn_Types
begin

text \<open>
  Importing WireGuard and OpenVPN configuration files:
  \<^verbatim>\<open>components/profiles/NewProfileHubModal.tsx\<close> (\<open>parseConfigContent\<close> and the two drop handlers)
  and \<^verbatim>\<open>components/profiles/ImportProfileModal.tsx\<close> (\<open>handleDrop\<close>), which repeats the same
  expressions with its own idea of which protocol is expected. Files are ASCII text; the
  identifier and the random number the code draws are arguments.
\<close>

section \<open>The regular expressions\<close>

definition digit :: "char \<Rightarrow> bool" where "digit c = is_digit c"
definition space :: "char \<Rightarrow> bool" where "space c = is_space c"
definition nonspace :: "char \<Rightarrow> bool" where "nonspace c \<longleftrightarrow> \<not> is_space c"
definition blank :: "char \<Rightarrow> bool" where "blank c \<longleftrightarrow> c = CHR '' '' \<or> c = CHR 0x09"
definition anychar :: "char \<Rightarrow> bool" where "anychar c = True"

definition key_value :: "string \<Rightarrow> re \<Rightarrow> re" where
  "key_value k v = seq [lit k, Rep True 0 space, lit ''='', Rep True 0 space, v]"

definition key_char :: "char \<Rightarrow> bool" where
  "key_char c \<longleftrightarrow> \<not> is_space c \<and> c \<noteq> CHR ''#''"

definition privMatch :: re where
  "privMatch = key_value ''PrivateKey'' (Grp 1 (Rep True 1 key_char))"

definition pskMatch :: re where
  "pskMatch = key_value ''PresharedKey'' (Grp 1 (Rep True 1 key_char))"

definition addrMatch :: re where
  "addrMatch = key_value ''Address''
     (Grp 1 (Rep True 1 (\<lambda>c. \<not> is_newline c \<and> c \<noteq> CHR '','' \<and> c \<noteq> CHR ''#'')))"

definition endpointMatch :: re where
  "endpointMatch = key_value ''Endpoint''
     (seq [Grp 1 (Rep True 1 (\<lambda>c. \<not> is_space c \<and> c \<noteq> CHR '':'' \<and> c \<noteq> CHR ''#'')),
           opt (seq [lit '':'', Grp 2 (Rep True 1 digit)])])"

text \<open>The directives: \<open>^[ \t]*name\<close> under the \<open>m\<close> flag.\<close>

definition directive :: "string \<Rightarrow> re \<Rightarrow> re" where
  "directive name rest = seq [Bol, Rep True 0 blank, lit name, rest]"

definition protoMatch :: re where
  "protoMatch = directive ''proto'' (seq [Rep True 1 space,
     Grp 1 (Alt (seq [lit ''tcp'', Rep True 0 digit]) (Alt (seq [lit ''udp'', Rep True 0 digit])
       (Alt (lit ''tcp'') (lit ''udp''))))])"

definition remoteMatch :: re where
  "remoteMatch = directive ''remote'' (seq [Rep True 1 space, Grp 1 (Rep True 1 nonspace),
     opt (seq [Rep True 1 space, Grp 2 (Rep True 1 digit)]),
     opt (seq [Rep True 1 space, Grp 3 (Alt (lit ''tcp'') (lit ''udp''))])])"

definition ifconfigMatch :: re where
  "ifconfigMatch = directive ''ifconfig'' (seq [Rep True 1 space, Grp 1 (Rep True 1 nonspace)])"

definition authUserPass :: re where
  "authUserPass = directive ''auth-user-pass'' Eps"

definition userCommentMatch :: re where
  "userCommentMatch = directive ''#'' (seq [Rep True 0 space, Alt (lit ''username'') (lit ''user''),
     Rep True 0 space, Cls (\<lambda>c. c = CHR '':'' \<or> c = CHR ''=''), Rep True 0 space,
     Grp 1 (Rep True 1 (\<lambda>c. \<not> is_newline c))])"

definition block :: "string \<Rightarrow> re" where
  "block tag = seq [lit (''<'' @ tag @ ''>''), Grp 1 (Rep False 0 anychar), lit (''</'' @ tag @ ''>'')]"

definition kdMatch :: re where
  "kdMatch = directive ''key-direction'' (seq [Rep True 1 space, Grp 1 (Rep True 1 nonspace)])"

definition remoteCertTls :: re where
  "remoteCertTls = directive ''remote-cert-tls'' (seq [Rep True 1 space, lit ''server''])"

definition renegMatch :: re where
  "renegMatch = directive ''reneg-sec'' (seq [Rep True 1 space, Grp 1 (Rep True 1 digit)])"

definition extension :: re where
  "extension = seq [lit ''.'', Grp 1 (Alt (lit ''conf'') (lit ''ovpn'')), Eol]"

section \<open>The local variables of the parser\<close>

record config_vars =
  v_protocol :: ProtocolType
  v_serverHost :: string
  v_serverPort :: nat
  v_privateKey :: "string option"
  v_presharedKey :: "string option"
  v_virtualIp :: string
  v_username :: "string option"
  v_hasAuthUserPass :: bool
  v_caCert :: "string option"
  v_clientCert :: "string option"
  v_clientKey :: "string option"
  v_tlsAuthKey :: "string option"
  v_tlsCryptKey :: "string option"
  v_keyDirection :: "string option"
  v_remoteCertTlsServer :: "bool option"
  v_renegSec :: "nat option"

definition initial_vars :: "bool \<Rightarrow> config_vars" where
  "initial_vars isWireGuard = \<lparr>
     v_protocol = (if isWireGuard then Wireguard else OpenvpnUdp), v_serverHost = [],
     v_serverPort = (if isWireGuard then 51820 else 1194),
     v_privateKey = None, v_presharedKey = None,
     v_virtualIp = (if isWireGuard then ''10.8.0.2/24'' else ''10.8.0.50/24''),
     v_username = None, v_hasAuthUserPass = False, v_caCert = None, v_clientCert = None,
     v_clientKey = None, v_tlsAuthKey = None, v_tlsCryptKey = None, v_keyDirection = None,
     v_remoteCertTlsServer = None, v_renegSec = None\<rparr>"

text \<open>\<open>const m = content.match(r); if (m) v = m[1].trim()\<close>\<close>

definition captured :: "re \<Rightarrow> string \<Rightarrow> string option" where
  "captured r content = map_option trim (group 1 (exec r content))"

definition port_or :: "string option \<Rightarrow> nat \<Rightarrow> nat" where
  "port_or digits d = (case digits of Some ds \<Rightarrow> if ds = [] then d else parse_digits ds | None \<Rightarrow> d)"

definition parse_wireguard :: "string \<Rightarrow> config_vars \<Rightarrow> config_vars" where
  "parse_wireguard content v =
     (let endpoint = exec endpointMatch content
      in v\<lparr>v_privateKey := captured privMatch content,
           v_presharedKey := captured pskMatch content,
           v_virtualIp := nullish (captured addrMatch content) (v_virtualIp v),
           v_serverHost := nullish (map_option trim (group 1 endpoint)) (v_serverHost v),
           v_serverPort := port_or (group 2 endpoint) (v_serverPort v)\<rparr>)"

definition transport :: "string \<Rightarrow> ProtocolType" where
  "transport p = (if startsWith (toLowerCase p) ''tcp'' then OpenvpnTcp else OpenvpnUdp)"

definition parse_openvpn :: "string \<Rightarrow> config_vars \<Rightarrow> config_vars" where
  "parse_openvpn content v =
     (let proto = (case group 1 (exec protoMatch content) of
            Some p \<Rightarrow> transport p | None \<Rightarrow> v_protocol v);
          remote = exec remoteMatch content
      in v\<lparr>v_protocol := (case group 3 remote of Some p \<Rightarrow> transport p | None \<Rightarrow> proto),
           v_serverHost := nullish (map_option trim (group 1 remote)) (v_serverHost v),
           v_serverPort := port_or (group 2 remote) (v_serverPort v),
           v_virtualIp := (case captured ifconfigMatch content of
              Some ip \<Rightarrow> ip @ ''/24'' | None \<Rightarrow> v_virtualIp v),
           v_hasAuthUserPass := test authUserPass content,
           v_username := captured userCommentMatch content,
           v_caCert := captured (block ''ca'') content,
           v_clientCert := captured (block ''cert'') content,
           v_clientKey := captured (block ''key'') content,
           v_tlsAuthKey := captured (block ''tls-auth'') content,
           v_tlsCryptKey := captured (block ''tls-crypt'') content,
           v_keyDirection := captured kdMatch content,
           v_remoteCertTlsServer := (if test remoteCertTls content then Some True else None),
           v_renegSec := map_option parse_digits (group 1 (exec renegMatch content))\<rparr>)"

text \<open>The object both importers build. \<open>flag\<close> is the emoji of the gateway, \<open>random\<close> the number
  \<open>Math.random()\<close> returned.\<close>

definition imported_credentials :: "config_vars \<Rightarrow> Credentials" where
  "imported_credentials v = no_credentials\<lparr>
     username := or_else (v_username v) None, passwordMode := Some PmStatic,
     totpFormat := Some TfAppend, hasPassword := Some (v_hasAuthUserPass v),
     hasPrivateKey := Some (truthy (or_else (v_privateKey v) (v_clientKey v))),
     hasCert := Some (truthy (v_clientCert v)), hasCaCert := Some (truthy (v_caCert v)),
     hasTlsAuth := Some (truthy (v_tlsAuthKey v)), hasTlsCrypt := Some (truthy (v_tlsCryptKey v)),
     privateKey := v_privateKey v, presharedKey := v_presharedKey v, caCert := v_caCert v,
     clientCert := v_clientCert v, clientKey := v_clientKey v, tlsAuthKey := v_tlsAuthKey v,
     tlsCryptKey := v_tlsCryptKey v, keyDirection := v_keyDirection v,
     remoteCertTlsServer := v_remoteCertTlsServer v, renegSec := v_renegSec v\<rparr>"

definition imported_profile ::
  "string \<Rightarrow> rat \<Rightarrow> bool \<Rightarrow> string \<Rightarrow> string \<Rightarrow> config_vars \<Rightarrow> VpnProfile" where
  "imported_profile uuid random isWireGuard flag fileName v = \<lparr>
     profile_id = uuid,
     profile_name = or_str (Some (cut_first extension fileName))
       (if isWireGuard then ''WireGuard Profile'' else ''OpenVPN Profile''),
     protocol = v_protocol v,
     serverHost = or_str (Some (v_serverHost v)) ''127.0.0.1'',
     serverPort = or_num (Some (v_serverPort v)) (if isWireGuard then 51820 else 1194),
     serverCountry = ''Imported Gateway'', serverCity = ''Remote DC'', serverFlag = flag,
     virtualIp = v_virtualIp v, assignedIp = None, isFavorite = False,
     tags = [''Imported'', if isWireGuard then ''WireGuard'' else ''OpenVPN''],
     lastConnected = None, pingMs = nat \<lfloor>20 + random * 30\<rfloor>,
     credentials = Some (imported_credentials v), rawConfig = None, routingMode = None,
     useOnlyForNetworkResources = None, customSubnets = None\<rparr>"

definition bolt_flag :: string where
  "bolt_flag = [CHR 0xE2, CHR 0x9A, CHR 0xA1]"

definition shield_flag :: string where
  "shield_flag = [CHR 0xF0, CHR 0x9F, CHR 0x9B, CHR 0xA1, CHR 0xEF, CHR 0xB8, CHR 0x8F]"

definition globe_flag :: string where
  "globe_flag = [CHR 0xF0, CHR 0x9F, CHR 0x8C, CHR 0x90]"

section \<open>NewProfileHubModal\<close>

definition isWireGuard :: "string \<Rightarrow> string \<Rightarrow> bool" where
  "isWireGuard content fileName \<longleftrightarrow> endsWith (toLowerCase fileName) ''.conf'' \<or>
     str_includes content ''[Interface]'' \<or> str_includes content ''[Peer]''"

definition parseConfigContent :: "string \<Rightarrow> rat \<Rightarrow> string \<Rightarrow> string \<Rightarrow> VpnProfile" where
  "parseConfigContent uuid random content fileName =
     (let wg = isWireGuard content fileName;
          v = (if wg then parse_wireguard content (initial_vars wg)
               else parse_openvpn content (initial_vars wg))
      in imported_profile uuid random wg (if wg then bolt_flag else shield_flag) fileName v)"

text \<open>
  The dialog around the parser. Its texts come from the dictionary of the current language.
  A dropped path and a chosen file are read asynchronously; the read is answered once, and a
  parsed OpenVPN profile is handed over by a timer 300 ms later. The \<open>catch\<close> around the parser is
  not reachable from the parser itself, which is total.
\<close>

record hub_texts =
  wireguardComingSoonError :: string
  failedReadFile :: string

datatype hub_read =
  ReadPath string string
| ReadFile string

record hub =
  hub_error :: "string option"
  hub_isDraggingOver :: bool
  hub_isLoading :: bool
  hub_loadingFileName :: string
  hub_reads :: "hub_read list"
  hub_timers :: "VpnProfile list"
  hub_onClose :: nat
  hub_onImportParsed :: "VpnProfile list"

definition hub_initial :: hub where
  "hub_initial = \<lparr>hub_error = None, hub_isDraggingOver = False, hub_isLoading = False,
     hub_loadingFileName = [], hub_reads = [], hub_timers = [], hub_onClose = 0,
     hub_onImportParsed = []\<rparr>"

definition hub_opened :: "bool \<Rightarrow> hub \<Rightarrow> hub" where
  "hub_opened opened h = (if opened then h else h\<lparr>hub_error := None, hub_isDraggingOver := False,
     hub_isLoading := False, hub_loadingFileName := []\<rparr>)"

definition path_separator :: "char \<Rightarrow> bool" where
  "path_separator c \<longleftrightarrow> c = CHR ''/'' \<or> c = CHR 0x5C"

text \<open>\<open>filePath.split(/[/\\]/).pop() || "profile.ovpn"\<close>\<close>

definition path_file_name :: "string \<Rightarrow> string" where
  "path_file_name filePath =
     or_str (Some (rev (takeWhile (\<lambda>c. \<not> path_separator c) (rev filePath)))) ''profile.ovpn''"

datatype drag_event = DragOver | DragLeave | DragDrop "string list"

fun onDragDropEvent :: "drag_event \<Rightarrow> hub \<Rightarrow> hub" where
  "onDragDropEvent DragOver h = h\<lparr>hub_isDraggingOver := True\<rparr>"
| "onDragDropEvent DragLeave h = h\<lparr>hub_isDraggingOver := False\<rparr>"
| "onDragDropEvent (DragDrop []) h = h\<lparr>hub_isDraggingOver := False\<rparr>"
| "onDragDropEvent (DragDrop (filePath # ps)) h =
     h\<lparr>hub_isDraggingOver := False, hub_loadingFileName := path_file_name filePath,
       hub_isLoading := True,
       hub_reads := hub_reads h @ [ReadPath filePath (path_file_name filePath)]\<rparr>"

definition handleFiles :: "string list \<Rightarrow> hub \<Rightarrow> hub" where
  "handleFiles names h =
     (let h1 = h\<lparr>hub_error := None, hub_isDraggingOver := False\<rparr>
      in case names of
           [] \<Rightarrow> h1
         | name # rest \<Rightarrow> h1\<lparr>hub_loadingFileName := name, hub_isLoading := True,
             hub_reads := hub_reads h1 @ [ReadFile name]\<rparr>)"

text \<open>The continuation both reads share once the content is there.\<close>

definition hub_parsed :: "hub_texts \<Rightarrow> VpnProfile \<Rightarrow> hub \<Rightarrow> hub" where
  "hub_parsed t p h = (if protocol p = Wireguard
     then h\<lparr>hub_isLoading := False, hub_error := Some (wireguardComingSoonError t)\<rparr>
     else h\<lparr>hub_timers := hub_timers h @ [p]\<rparr>)"

fun hub_read_done ::
  "hub_texts \<Rightarrow> string \<Rightarrow> rat \<Rightarrow> hub_read \<Rightarrow> string + string \<Rightarrow> hub \<Rightarrow> hub" where
  "hub_read_done t uuid rnd (ReadPath filePath fileName) (Inr content) h =
     hub_parsed t (parseConfigContent uuid rnd content fileName) h"
| "hub_read_done t uuid rnd (ReadPath filePath fileName) (Inl msg) h =
     h\<lparr>hub_isLoading := False,
       hub_error := Some (or_str (Some msg) (''Failed to read file: '' @ filePath))\<rparr>"
| "hub_read_done t uuid rnd (ReadFile name) (Inr content) h =
     hub_parsed t (parseConfigContent uuid rnd content name) h"
| "hub_read_done t uuid rnd (ReadFile name) (Inl msg) h =
     h\<lparr>hub_isLoading := False, hub_error := Some (failedReadFile t)\<rparr>"

definition hub_timer :: "VpnProfile \<Rightarrow> hub \<Rightarrow> hub" where
  "hub_timer p h = h\<lparr>hub_isLoading := False, hub_onClose := Suc (hub_onClose h),
     hub_onImportParsed := hub_onImportParsed h @ [p]\<rparr>"

text \<open>Every reachable state of the dialog: events, the answers to the reads, the timers.\<close>

inductive hub_reach :: "hub_texts \<Rightarrow> hub \<Rightarrow> bool" for t :: hub_texts where
  start: "hub_reach t hub_initial"
| opened: "hub_reach t h \<Longrightarrow> hub_reach t (hub_opened b h)"
| drag: "hub_reach t h \<Longrightarrow> hub_reach t (onDragDropEvent e h)"
| files: "hub_reach t h \<Longrightarrow> hub_reach t (handleFiles names h)"
| read: "hub_reach t h \<Longrightarrow> hub_reads h = a @ rd # b \<Longrightarrow>
    hub_reach t (hub_read_done t uuid rnd rd r (h\<lparr>hub_reads := a @ b\<rparr>))"
| timer: "hub_reach t h \<Longrightarrow> hub_timers h = a @ p # b \<Longrightarrow>
    hub_reach t (hub_timer p (h\<lparr>hub_timers := a @ b\<rparr>))"

section \<open>ImportProfileModal\<close>

definition isOpenVpnContent :: "string \<Rightarrow> string \<Rightarrow> bool" where
  "isOpenVpnContent content fileName \<longleftrightarrow>
     str_includes content ''<ca>'' \<or> str_includes content ''<cert>'' \<or>
     str_includes content ''auth-user-pass'' \<or>
     test (seq [Bol, lit ''remote'', Rep True 1 space]) content \<or>
     test (seq [Bol, lit ''proto'', Rep True 1 space]) content \<or>
     endsWith (toLowerCase fileName) ''.ovpn''"

definition isWireGuardContent :: "string \<Rightarrow> bool" where
  "isWireGuardContent content \<longleftrightarrow>
     str_includes content ''[Interface]'' \<or> str_includes content ''[Peer]''"

datatype import_result = ErrExpectedWg | ErrExpectedOvpn | Imported VpnProfile

definition handleDrop ::
  "bool \<Rightarrow> string \<Rightarrow> rat \<Rightarrow> string \<Rightarrow> string \<Rightarrow> import_result" where
  "handleDrop isWireGuardExpected uuid random content fileName =
     (let wgc = isWireGuardContent content; ovc = isOpenVpnContent content fileName in
      if isWireGuardExpected \<and> ovc \<and> \<not> wgc then ErrExpectedWg
      else if \<not> isWireGuardExpected \<and> wgc \<and> \<not> ovc then ErrExpectedOvpn
      else
        let v0 = initial_vars isWireGuardExpected;
            v = (if isWireGuardExpected \<or> wgc
                 then parse_wireguard content (v0\<lparr>v_protocol := Wireguard\<rparr>)
                 else parse_openvpn content v0)
        in Imported (imported_profile uuid random isWireGuardExpected globe_flag fileName v))"

end
