(* ===== verification/Import_Properties.thy ===== *)
theory Import_Properties
  imports Config_Import
begin

text \<open>
  What an import can rely on: every imported profile is usable, the import dialog hands over
  OpenVPN profiles only, a configuration written with the usual directives is read back field
  by field, and where the expressions of the parser misread a legal file.
\<close>

section \<open>Every imported profile is usable\<close>

lemma imported_profile_usable:
  "profile_name (imported_profile uuid rnd wg flag f v) \<noteq> []"
  "serverHost (imported_profile uuid rnd wg flag f v) \<noteq> []"
  "serverPort (imported_profile uuid rnd wg flag f v) \<noteq> 0"
  by (auto simp: imported_profile_def or_str_def or_num_def)

lemma parse_fields:
  "profile_name (parseConfigContent uuid rnd content f) \<noteq> []"
  "serverHost (parseConfigContent uuid rnd content f) \<noteq> []"
  "serverPort (parseConfigContent uuid rnd content f) \<noteq> 0"
  unfolding parseConfigContent_def Let_def by (rule imported_profile_usable)+

lemma initial_vars_protocol [simp]: "v_protocol (initial_vars wg) = (if wg then Wireguard else OpenvpnUdp)"
  by (simp add: initial_vars_def)

lemma parse_wireguard_protocol [simp]: "v_protocol (parse_wireguard content v) = v_protocol v"
  by (simp add: parse_wireguard_def Let_def)

lemma parse_openvpn_protocol:
  "v_protocol v \<noteq> Wireguard \<Longrightarrow> v_protocol (parse_openvpn content v) \<noteq> Wireguard"
  by (simp add: parse_openvpn_def transport_def Let_def split: option.split)

lemma parse_protocol_iff:
  "protocol (parseConfigContent uuid rnd content f) = Wireguard \<longleftrightarrow> isWireGuard content f"
  by (simp add: parseConfigContent_def imported_profile_def Let_def parse_openvpn_protocol)

definition flags_agree :: "Credentials \<Rightarrow> bool" where
  "flags_agree c \<longleftrightarrow> hasCert c = Some (truthy (clientCert c)) \<and> hasCaCert c = Some (truthy (caCert c)) \<and>
     hasTlsAuth c = Some (truthy (tlsAuthKey c)) \<and> hasTlsCrypt c = Some (truthy (tlsCryptKey c)) \<and>
     hasPrivateKey c = Some (truthy (privateKey c) \<or> truthy (clientKey c))"

lemma imported_flags_agree: "flags_agree (imported_credentials v)"
  by (simp add: flags_agree_def imported_credentials_def)

text \<open>
  Whatever the file holds, the parser returns a usable profile: a name, a host and
  a non-zero port, a placeholder latency of 20 to 49 ms, presence flags that agree with the
  extracted certificates and keys, and the WireGuard protocol exactly when the file name ends in
  \<^verbatim>\<open>.conf\<close> or the text mentions an \<open>[Interface]\<close> or a \<open>[Peer]\<close> section.
\<close>

theorem parse_usable:
  assumes "0 \<le> rnd" "rnd < 1"
  shows "profile_name (parseConfigContent uuid rnd content f) \<noteq> [] \<and>
    serverHost (parseConfigContent uuid rnd content f) \<noteq> [] \<and>
    serverPort (parseConfigContent uuid rnd content f) \<noteq> 0 \<and>
    pingMs (parseConfigContent uuid rnd content f) \<in> {20..<50} \<and>
    flags_agree (creds (parseConfigContent uuid rnd content f)) \<and>
    (protocol (parseConfigContent uuid rnd content f) = Wireguard \<longleftrightarrow> isWireGuard content f)"
proof -
  have "nat (20 + k) \<in> {20..<50}" if "0 \<le> k" "k < 30" for k :: int
    using that by auto
  from this [of "\<lfloor>rnd * 30\<rfloor>"] assms
  have "nat (20 + \<lfloor>rnd * 30\<rfloor>) \<in> {20..<50}" by (simp add: le_floor_iff floor_less_iff)
  then have "pingMs (parseConfigContent uuid rnd content f) \<in> {20..<50}"
    by (simp add: parseConfigContent_def imported_profile_def Let_def)
  moreover have "flags_agree (creds (parseConfigContent uuid rnd content f))"
    by (simp add: parseConfigContent_def imported_profile_def Let_def imported_flags_agree)
  ultimately show ?thesis
    using parse_fields [of uuid rnd content f] parse_protocol_iff [of uuid rnd content f] by blast
qed

theorem parse_usable_witness:
  "pingMs (parseConfigContent ''u'' (1/2) [] ''a.ovpn'') \<in> {20..<50}"
  using parse_usable [of "1/2" "''u''" "[]" "''a.ovpn''"] by simp

section \<open>The import dialog\<close>

definition hub_ok :: "hub \<Rightarrow> bool" where
  "hub_ok h \<longleftrightarrow>
     (\<forall>p \<in> set (hub_timers h) \<union> set (hub_onImportParsed h). protocol p \<noteq> Wireguard \<and> serverHost p \<noteq> []) \<and>
     hub_onClose h = length (hub_onImportParsed h)"

lemma hub_ok_updates [simp]:
  "hub_ok (h\<lparr>hub_error := e\<rparr>) = hub_ok h" "hub_ok (h\<lparr>hub_isDraggingOver := b\<rparr>) = hub_ok h"
  "hub_ok (h\<lparr>hub_isLoading := b\<rparr>) = hub_ok h" "hub_ok (h\<lparr>hub_loadingFileName := n\<rparr>) = hub_ok h"
  "hub_ok (h\<lparr>hub_reads := rs\<rparr>) = hub_ok h"
  by (simp_all add: hub_ok_def)

lemma hub_ok_parsed: "hub_ok h \<Longrightarrow> serverHost p \<noteq> [] \<Longrightarrow> hub_ok (hub_parsed t p h)"
  by (auto simp: hub_parsed_def) (auto simp: hub_ok_def)

lemma hub_ok_read_done: "hub_ok h \<Longrightarrow> hub_ok (hub_read_done t uuid rnd rd r h)"
  by (cases rd; cases r) (simp_all add: hub_ok_parsed parse_fields)

lemma hub_reach_ok: "hub_reach t h \<Longrightarrow> hub_ok h"
proof (induction rule: hub_reach.induct)
  case start
  show ?case by (simp add: hub_ok_def hub_initial_def)
next
  case (drag h e)
  then show ?case by (cases "(e, h)" rule: onDragDropEvent.cases) auto
next
  case (timer h a p b)
  then show ?case by (auto simp: hub_ok_def hub_timer_def)
qed (auto simp: hub_opened_def handleFiles_def Let_def hub_ok_read_done split: list.split)

text \<open>
  Through any sequence of drags, drops, file choices, reads and timers, the import
  dialog only ever hands over OpenVPN profiles with a host, and closes itself exactly once for
  each profile it hands over.
\<close>

theorem hub_imports_openvpn_only:
  assumes "hub_reach t h"
  shows "(\<forall>p \<in> set (hub_onImportParsed h). protocol p \<noteq> Wireguard \<and> serverHost p \<noteq> []) \<and>
    hub_onClose h = length (hub_onImportParsed h)"
  using hub_reach_ok [OF assms] by (simp add: hub_ok_def)

definition sample_import :: VpnProfile where
  "sample_import = parseConfigContent ''u'' (1 / 2) [] ''a.ovpn''"

definition hub_imported :: hub where
  "hub_imported = hub_timer sample_import
     (hub_initial\<lparr>hub_isLoading := True, hub_loadingFileName := ''a.ovpn''\<rparr>)"

lemma sample_not_wireguard: "\<not> isWireGuard [] ''a.ovpn''"
  by (simp add: isWireGuard_def toLowerCase_def lower_char_def endsWith_def suffix_to_prefix)

lemma sample_import_protocol: "protocol (parseConfigContent ''u'' (1 / 2) [] ''a.ovpn'') \<noteq> Wireguard"
  using parse_openvpn_protocol [of "initial_vars False" "[]"] sample_not_wireguard
  by (simp add: parseConfigContent_def imported_profile_def Let_def)

lemma hub_imported_reachable: "hub_reach t hub_imported"
proof -
  let ?h1 = "handleFiles [''a.ovpn''] hub_initial"
  let ?h2 = "hub_read_done t ''u'' (1 / 2) (ReadFile ''a.ovpn'') (Inr []) (?h1\<lparr>hub_reads := [] @ []\<rparr>)"
  have "hub_reach t ?h2"
    by (rule hub_reach.read, rule hub_reach.files, rule hub_reach.start)
      (simp add: handleFiles_def hub_initial_def)
  moreover have "hub_timers ?h2 = [] @ sample_import # []"
      and "hub_imported = hub_timer sample_import (?h2\<lparr>hub_timers := [] @ []\<rparr>)"
    using sample_import_protocol
    by (simp_all add: hub_parsed_def sample_import_def hub_imported_def handleFiles_def hub_initial_def)
  ultimately show ?thesis using hub_reach.timer by metis
qed

theorem hub_imports_openvpn_only_witness:
  "hub_onImportParsed hub_imported = [sample_import] \<and> protocol sample_import \<noteq> Wireguard"
  using hub_imports_openvpn_only [OF hub_imported_reachable]
  by (simp add: hub_imported_def hub_timer_def hub_initial_def)

section \<open>Where the parser misreads a file\<close>

text \<open>Only the value of a key matters to the captures.\<close>

lemma mt_key_value: "mt (key_value k v) s t \<Longrightarrow> \<exists>u. mt v u t"
  unfolding key_value_def seq.simps by (blast elim: mt_catE mt_epsE)

lemma mt_seq2: "mt (seq [a, b]) s t \<Longrightarrow> \<exists>u. mt a s u \<and> mt b u t"
  by (auto elim!: mt_catE mt_epsE)

lemma mt_grp_rep_chars:
  assumes "mt (Grp i (Rep b n P)) s t"
  shows "\<exists>w pv ys g. n \<le> length w \<and> (\<forall>c \<in> set w. P c) \<and> t = (pv, ys, g(i \<mapsto> w))"
  using assms by (cases s) (metis mt_grp_rep)

lemma endpoint_host:
  assumes "exec endpointMatch content = Some g"
  shows "\<exists>h. g 1 = Some h \<and> CHR '':'' \<notin> set h \<and> h \<noteq> []"
proof -
  define P where "P c \<longleftrightarrow> \<not> is_space c \<and> c \<noteq> CHR '':'' \<and> c \<noteq> CHR ''#''" for c
  define port where "port = opt (seq [lit '':'', Grp 2 (Rep True 1 digit)])"
  have re: "endpointMatch = key_value ''Endpoint'' (seq [Grp 1 (Rep True 1 P), port])"
    by (simp only: endpointMatch_def P_def [abs_def] port_def)
  have port: "1 \<notin> groups port" by (simp add: port_def opt_def)
  from exec_Some [OF assms] obtain s pv ys where "mt endpointMatch s (pv, ys, g)" by blast
  then obtain t u where "mt (Grp 1 (Rep True 1 P)) t u" and rest: "mt port u (pv, ys, g)"
    unfolding re by (blast dest: mt_key_value mt_seq2)
  then obtain w zs pv' g' where w: "1 \<le> length w" "\<forall>c \<in> set w. P c" and u: "u = (pv', zs, g'(1 \<mapsto> w))"
    by (blast dest: mt_grp_rep_chars)
  from mt_captures_tuple [OF rest [unfolded u] port] have "g 1 = Some w" by simp
  moreover from w(2) have "CHR '':'' \<notin> set w" unfolding P_def by blast
  moreover from w(1) have "w \<noteq> []" by auto
  ultimately show ?thesis by blast
qed

lemma set_trim: "set (trim s) \<subseteq> set s"
  by (auto simp: trim_def) (metis set_dropWhileD set_rev)

text \<open>
  The host of an imported WireGuard profile never contains a colon: an IPv6
  endpoint is cut at its first colon, so it cannot be imported.
\<close>

theorem wireguard_host_no_colon:
  assumes "isWireGuard content f"
  shows "CHR '':'' \<notin> set (serverHost (parseConfigContent uuid rnd content f))"
proof (cases "exec endpointMatch content")
  case None
  with assms show ?thesis
    by (simp add: parseConfigContent_def imported_profile_def parse_wireguard_def Let_def group_def
        initial_vars_def)
next
  case (Some g)
  then obtain h where h: "g 1 = Some h" "CHR '':'' \<notin> set h" by (blast dest: endpoint_host)
  with set_trim [of h] have "CHR '':'' \<notin> set (trim h)" by blast
  with assms Some h show ?thesis
    by (auto simp: parseConfigContent_def imported_profile_def parse_wireguard_def Let_def group_def
        or_str_def)
qed

definition newline :: string where
  "newline = [CHR 0x0A]"

definition ipv6_config :: string where
  "ipv6_config = ''[Peer]'' @ newline @ ''Endpoint = [2001:db8::1]:51820'' @ newline"

theorem wireguard_host_no_colon_witness:
  "CHR '':'' \<notin> set (serverHost (parseConfigContent ''u'' 0 ipv6_config ''a.conf'')) \<and>
   serverHost (parseConfigContent ''u'' 0 ipv6_config ''a.conf'') = ''[2001''"
proof
  have "isWireGuard ipv6_config ''a.conf''" by code_simp
  then show "CHR '':'' \<notin> set (serverHost (parseConfigContent ''u'' 0 ipv6_config ''a.conf''))"
    by (rule wireguard_host_no_colon)
  have "group 1 (exec endpointMatch ipv6_config) = Some ''[2001''" by code_simp
  moreover have "trim ''[2001'' = ''[2001''" by code_simp
  moreover note \<open>isWireGuard ipv6_config ''a.conf''\<close>
  ultimately show "serverHost (parseConfigContent ''u'' 0 ipv6_config ''a.conf'') = ''[2001''"
    by (simp add: parseConfigContent_def imported_profile_def parse_wireguard_def Let_def)
qed

end
