(* ===== verification/Import_Roundtrip.thy ===== *)
theory Import_Roundtrip
  imports Config_Import
begin

text \<open>
  The OpenVPN importer of \<^verbatim>\<open>components/profiles/NewProfileHubModal.tsx\<close> against a writer of
  configuration files: each directive and each certificate block of a written file is found by
  its regular expression, so that parsing the file gives its fields back.
\<close>

section \<open>Reading back a written configuration\<close>

definition line :: "string \<Rightarrow> string \<Rightarrow> string" where
  "line l rest = l @ CHR 0x0A # rest"

definition print_block :: "string \<Rightarrow> string \<Rightarrow> string \<Rightarrow> string" where
  "print_block tag body rest = ''<'' @ tag @ ''>'' @ CHR 0x0A # body @ CHR 0x0A # ''</'' @ tag @ ''>'' @ CHR 0x0A # rest"

record ovpn_file =
  of_tcp :: bool
  of_host :: string
  of_port :: nat
  of_ip :: string
  of_user :: string
  of_keydir :: string
  of_reneg :: nat
  of_ca :: string
  of_cert :: string
  of_key :: string
  of_tls_auth :: string
  of_tls_crypt :: string

definition print_config :: "ovpn_file \<Rightarrow> string" where
  "print_config f =
     line ''client'' (
     line (''proto '' @ (if of_tcp f then ''tcp'' else ''udp'')) (
     line (''remote '' @ of_host f @ '' '' @ string_of_nat (of_port f)) (
     line (''ifconfig '' @ of_ip f) (
     line ''auth-user-pass'' (
     line (''# username: '' @ of_user f) (
     line (''key-direction '' @ of_keydir f) (
     line ''remote-cert-tls server'' (
     line (''reneg-sec '' @ string_of_nat (of_reneg f)) (
     print_block ''ca'' (of_ca f) (
     print_block ''cert'' (of_cert f) (
     print_block ''key'' (of_key f) (
     print_block ''tls-auth'' (of_tls_auth f) (
     print_block ''tls-crypt'' (of_tls_crypt f) [])))))))))))))"

definition word :: "string \<Rightarrow> bool" where
  "word w \<longleftrightarrow> w \<noteq> [] \<and> (\<forall>c \<in> set w. \<not> is_space c) \<and> CHR ''<'' \<notin> set w"

definition text_body :: "string \<Rightarrow> bool" where
  "text_body b \<longleftrightarrow> trim b = b \<and> CHR ''<'' \<notin> set b"

definition one_line :: "string \<Rightarrow> bool" where
  "one_line l \<longleftrightarrow> (\<forall>c \<in> set l. \<not> is_newline c)"

lemma one_line_simps [simp]:
  "one_line []" "one_line (c # l) \<longleftrightarrow> \<not> is_newline c \<and> one_line l"
  "one_line (a @ b) \<longleftrightarrow> one_line a \<and> one_line b"
  by (auto simp: one_line_def)

definition printable :: "ovpn_file \<Rightarrow> bool" where
  "printable f \<longleftrightarrow> word (of_host f) \<and> of_port f \<noteq> 0 \<and> word (of_ip f) \<and> word (of_keydir f) \<and>
     text_body (of_user f) \<and> of_user f \<noteq> [] \<and> one_line (of_user f) \<and>
     text_body (of_ca f) \<and> text_body (of_cert f) \<and> text_body (of_key f) \<and>
     text_body (of_tls_auth f) \<and> text_body (of_tls_crypt f)"

lemma length_trim: "length (trim s) \<le> length (dropWhile is_space s)"
proof -
  have "length (trim s) = length (dropWhile is_space (rev (dropWhile is_space s)))"
    by (simp add: trim_def)
  also have "\<dots> \<le> length (rev (dropWhile is_space s))" by (rule length_dropWhile_le)
  finally show ?thesis by simp
qed

lemma trim_hd: "trim s = s \<Longrightarrow> s \<noteq> [] \<Longrightarrow> \<not> is_space (hd s)"
  using length_trim [of s] length_dropWhile_le [of is_space "tl s"] by (cases s) auto

lemma trim_wrap:
  assumes "is_space a" "is_space z"
  shows "trim (a # b @ [z]) = trim b"
proof (cases "\<forall>c \<in> set b. is_space c")
  case True
  with assms have "dropWhile is_space (b @ [z]) = []" "dropWhile is_space b = []" by simp_all
  with assms show ?thesis by (auto simp: trim_def dest: set_dropWhileD)
next
  case False
  then obtain x where "x \<in> set b" "\<not> is_space x" by blast
  then have "dropWhile is_space (b @ [z]) = dropWhile is_space b @ [z]" by (rule dropWhile_append1)
  with assms show ?thesis by (simp add: trim_def)
qed

subsection \<open>Directives\<close>

lemma newline_facts [simp]:
  "is_newline (CHR 0x0A)" "is_space (CHR 0x0A)" "is_space (CHR '' '')" "\<not> is_newline (CHR '' '')"
  "\<not> is_digit (CHR 0x0A)"
  by (simp_all add: is_newline_def is_space_def is_digit_def)

lemma newline_is_space: "is_newline c \<Longrightarrow> is_space c"
  by (auto simp: is_newline_def is_space_def)

lemma directive_miss:
  assumes "xs \<noteq> []" "\<not> blank (hd xs)" "\<not> starts_i name xs"
  shows "rmatch (directive name r) Some (pv, xs, g) = None"
  using assms by (simp add: directive_def rep_greedy_stop rmatch_lit)

lemma directive_skip:
  assumes "one_line l" "l \<noteq> []" "\<not> blank (hd l)"
    and "\<not> starts_i name (l @ CHR 0x0A # rest)"
  shows "search_from (directive name r) pv (line l rest) =
    search_from (directive name r) (Some (CHR 0x0A)) rest"
proof -
  have "rmatch (directive name r) Some (pv, l @ CHR 0x0A # rest, Map.empty) = None"
    using assms by (intro directive_miss) simp_all
  then show ?thesis
    unfolding line_def directive_def seq.simps
    by (intro search_line_skip assms(1) [unfolded one_line_def]) simp_all
qed

lemma directive_hit:
  assumes "at_line_start pv" "name \<noteq> []" "\<not> blank (hd name)"
    and "rmatch r Some (prev pv name, rest, Map.empty) = Some t"
  shows "search_from (directive name r) pv (name @ rest) = Some t"
proof (rule search_here)
  from assms(2,3) have "\<not> blank (hd (name @ rest))" by simp
  with assms show "rmatch (directive name r) Some (pv, name @ rest, Map.empty) = Some t"
    by (simp add: directive_def rep_greedy_stop)
qed

lemma value_hit:
  assumes "w \<noteq> []" "\<forall>c \<in> set w. P c \<and> \<not> is_space c" "\<not> P (CHR 0x0A)"
  shows "rmatch (seq [Rep True 1 space, Grp 1 (Rep True 1 P)]) Some
     (pv, CHR '' '' # w @ CHR 0x0A # rest, Map.empty) =
     Some (prev (Some (CHR '' '')) w, CHR 0x0A # rest, [1 \<mapsto> w])"
proof -
  have w: "Suc 0 \<le> length w" "\<not> space (hd (w @ CHR 0x0A # rest))"
    using assms(1,2) by (cases w; simp add: space_def)+
  have "rep_greedy P (\<lambda>(pv', ys, g'). Some (pv', ys, g'(Suc 0 \<mapsto> consumed (w @ CHR 0x0A # rest) ys)))
      (w @ CHR 0x0A # rest) (Suc 0) (Some (CHR '' '')) Map.empty =
      Some (prev (Some (CHR '' '')) w, CHR 0x0A # rest, [Suc 0 \<mapsto> w])"
    using assms w by (intro rep_greedy_here) simp_all
  with rep_greedy_here [of "'' ''" space "Suc 0" "w @ CHR 0x0A # rest"] w
  show ?thesis by (simp add: space_def rep_greedy_stop)
qed


lemma of_upper_char:
  "(of_char (upper_char c) :: nat) =
     (if 97 \<le> (of_char c :: nat) \<and> (of_char c :: nat) \<le> 122 then of_char c - 32 else of_char c)"
  by (auto simp: upper_char_def intro!: mod_less)

lemma letters: "same_letter d c \<longleftrightarrow>
    (if 97 \<le> (of_char d :: nat) \<and> (of_char d :: nat) \<le> 122 then of_char d - 32 else of_char d :: nat) =
    (if 97 \<le> (of_char c :: nat) \<and> (of_char c :: nat) \<le> 122 then of_char c - 32 else of_char c)"
  unfolding of_upper_char [symmetric] same_letter_def by (metis char_of_char)

lemma value_directive:
  assumes "at_line_start pv" "name \<noteq> []" "\<not> blank (hd name)"
    and "w \<noteq> []" "\<forall>c \<in> set w. P c \<and> \<not> is_space c" "\<not> P (CHR 0x0A)"
  shows "\<exists>t. search_from (directive name (seq [Rep True 1 space, Grp 1 (Rep True 1 P)])) pv
    (line (name @ CHR '' '' # w) rest) = Some t \<and> snd (snd t) = [1 \<mapsto> w]"
  using directive_hit [OF assms(1-3) value_hit [OF assms(4-6)]] by (simp add: line_def)

lemma proto_hit:
  assumes "at_line_start pv"
  shows "\<exists>t. search_from protoMatch pv (line (''proto '' @ (if tcp then ''tcp'' else ''udp'')) rest) = Some t \<and>
    snd (snd t) = [1 \<mapsto> (if tcp then ''tcp'' else ''udp'')]"
proof -
  define r where "r = seq [Rep True 1 space,
     Grp 1 (Alt (seq [lit ''tcp'', Rep True 0 digit]) (Alt (seq [lit ''udp'', Rep True 0 digit])
       (Alt (lit ''tcp'') (lit ''udp''))))]"
  define rest' where "rest' = CHR '' '' # (if tcp then ''tcp'' else ''udp'') @ CHR 0x0A # rest"
  have "\<exists>t. rmatch r Some (prev pv ''proto'', rest', Map.empty) = Some t \<and>
     snd (snd t) = [1 \<mapsto> (if tcp then ''tcp'' else ''udp'')]"
    by (cases tcp) (simp_all add: r_def rest'_def space_def digit_def is_space_def letters consumed_def)
  then obtain t where t: "rmatch r Some (prev pv ''proto'', rest', Map.empty) = Some t"
    "snd (snd t) = [1 \<mapsto> (if tcp then ''tcp'' else ''udp'')]" by blast
  have eq: "line (''proto '' @ (if tcp then ''tcp'' else ''udp'')) rest = ''proto'' @ rest'"
    by (simp add: line_def rest'_def)
  have "\<not> blank (hd ''proto'')" by (simp add: blank_def)
  from directive_hit [OF assms _ this t(1)] t(2) show ?thesis
    unfolding protoMatch_def eq r_def by blast
qed

text \<open>The \<open>remote\<close> line, with whatever its optional last group makes of the line after it.\<close>

definition remote_transport :: re where
  "remote_transport = opt (seq [Rep True 1 space, Grp 3 (Alt (lit ''tcp'') (lit ''udp''))])"

lemma remote_line:
  assumes "at_line_start pv" "word host" and ds: "ds \<noteq> []" "\<forall>c \<in> set ds. is_digit c"
    and tp: "rmatch remote_transport Some (prev (Some (CHR '' '')) ds, CHR 0x0A # rest,
      [1 \<mapsto> host, 2 \<mapsto> ds]) = Some u"
  shows "search_from remoteMatch pv (line (''remote '' @ host @ '' '' @ ds) rest) = Some u"
proof -
  define port where "port = opt (seq [Rep True 1 space, Grp 2 (Rep True 1 digit)])"
  let ?rest = "CHR 0x0A # rest"
  have nsp: "\<not> is_space c" if "is_digit c" for c
    using that by (auto simp: is_digit_def is_space_def)
  have port: "rmatch port (rmatch remote_transport Some) (p, CHR '' '' # ds @ ?rest, [1 \<mapsto> host]) = Some u" for p
  proof -
    have "rep_greedy digit (\<lambda>(pv', ys, g'). rmatch remote_transport Some
          (pv', ys, g'(2 \<mapsto> consumed (ds @ ?rest) ys)))
        (ds @ ?rest) (Suc 0) (Some (CHR '' '')) [1 \<mapsto> host] = Some u"
      using ds tp by (intro rep_greedy_here) (simp_all add: digit_def Suc_le_eq)
    moreover have "\<not> space (hd (ds @ ?rest))" using ds nsp by (cases ds) (simp_all add: space_def)
    ultimately show ?thesis by (simp add: port_def opt_def space_def rep_greedy_stop)
  qed
  have "rep_greedy nonspace (\<lambda>(pv', ys, g'). rmatch port (rmatch remote_transport Some)
        (pv', ys, g'(Suc 0 \<mapsto> consumed (host @ CHR '' '' # ds @ ?rest) ys)))
      (host @ CHR '' '' # ds @ ?rest) (Suc 0) (Some (CHR '' '')) Map.empty = Some u"
    using assms(2) port by (intro rep_greedy_here) (simp_all add: nonspace_def word_def Suc_le_eq)
  moreover have "\<not> space (hd (host @ CHR '' '' # ds @ ?rest))"
    using assms(2) by (cases host) (simp_all add: space_def word_def)
  ultimately have m: "rmatch (seq [Rep True 1 space, Grp 1 (Rep True 1 nonspace), port, remote_transport]) Some
     (prev pv ''remote'', CHR '' '' # host @ CHR '' '' # ds @ ?rest, Map.empty) = Some u"
    by (simp add: space_def rep_greedy_stop)
  have eq: "line (''remote '' @ host @ '' '' @ ds) rest =
      ''remote'' @ CHR '' '' # host @ CHR '' '' # ds @ ?rest"
    by (simp add: line_def)
  have "\<not> blank (hd ''remote'')" by (simp add: blank_def)
  from directive_hit [OF assms(1) _ this m] show ?thesis
    unfolding remoteMatch_def eq remote_transport_def port_def by simp
qed

lemma remote_hit:
  assumes "at_line_start pv" "word host" "ds \<noteq> []" "\<forall>c \<in> set ds. is_digit c"
    and "\<not> is_space (hd rest)" "rest \<noteq> []" "\<not> starts_i ''tcp'' rest" "\<not> starts_i ''udp'' rest"
  shows "\<exists>t. search_from remoteMatch pv (line (''remote '' @ host @ '' '' @ ds) rest) = Some t \<and>
    snd (snd t) = [1 \<mapsto> host, 2 \<mapsto> ds]"
proof -
  have "rmatch remote_transport Some (p, CHR 0x0A # rest, g) = Some (p, CHR 0x0A # rest, g)" for p g
    using assms(5-8)
    by (simp add: remote_transport_def opt_def space_def rep_greedy_stop rmatch_lit del: lit.simps)
  from remote_line [OF assms(1-4) this] show ?thesis by simp
qed

lemma remote_tcp_hit:
  assumes "at_line_start pv" "word host" "ds \<noteq> []" "\<forall>c \<in> set ds. is_digit c"
  shows "\<exists>t. search_from remoteMatch pv (line (''remote '' @ host @ '' '' @ ds) (''tcp'' @ rest)) = Some t \<and>
    snd (snd t) = [1 \<mapsto> host, 2 \<mapsto> ds, 3 \<mapsto> ''tcp'']"
proof -
  have "\<exists>t. rmatch remote_transport Some (p, CHR 0x0A # ''tcp'' @ rest, g) = Some t \<and>
      snd (snd t) = g(3 \<mapsto> ''tcp'')" for p g
    by (simp add: remote_transport_def opt_def space_def is_space_def consumed_def)
  then obtain t where "rmatch remote_transport Some (prev (Some (CHR '' '')) ds,
      CHR 0x0A # ''tcp'' @ rest, [1 \<mapsto> host, 2 \<mapsto> ds]) = Some t"
      "snd (snd t) = [1 \<mapsto> host, 2 \<mapsto> ds, 3 \<mapsto> ''tcp'']" by blast
  with remote_line [OF assms(1-4) this(1)] show ?thesis by blast
qed

lemma user_hit:
  assumes "at_line_start pv" "text_body user" "user \<noteq> []" "one_line user"
  shows "\<exists>t. search_from userCommentMatch pv (line (''# username: '' @ user) rest) = Some t \<and>
    snd (snd t) = [1 \<mapsto> user]"
proof -
  have nsp: "\<not> space (hd (user @ CHR 0x0A # rest))"
    using assms(2,3) trim_hd [of user] by (simp add: text_body_def space_def)
  have "rep_greedy (\<lambda>c. \<not> is_newline c) (\<lambda>(pv', ys, g'). Some (pv', ys, g'(Suc 0 \<mapsto> consumed (user @ CHR 0x0A # rest) ys)))
      (user @ CHR 0x0A # rest) (Suc 0) (Some (CHR '' '')) Map.empty =
      Some (prev (Some (CHR '' '')) user, CHR 0x0A # rest, [Suc 0 \<mapsto> user])"
    using assms by (intro rep_greedy_here) (simp_all add: Suc_le_eq one_line_def)
  with nsp have m: "rmatch (seq [Rep True 0 space, Alt (lit ''username'') (lit ''user''),
     Rep True 0 space, Cls (\<lambda>c. c = CHR '':'' \<or> c = CHR ''=''), Rep True 0 space,
     Grp 1 (Rep True 1 (\<lambda>c. \<not> is_newline c))]) Some
     (prev pv ''#'', '' username: '' @ user @ CHR 0x0A # rest, Map.empty) =
     Some (prev (Some (CHR '' '')) user, CHR 0x0A # rest, [1 \<mapsto> user])"
    by (simp add: space_def rep_greedy_stop is_space_def)
  have eq: "line (''# username: '' @ user) rest = ''#'' @ '' username: '' @ user @ CHR 0x0A # rest"
    by (simp add: line_def)
  have "\<not> blank (hd ''#'')" by (simp add: blank_def)
  from directive_hit [OF assms(1) _ this m] show ?thesis
    unfolding userCommentMatch_def eq by simp
qed


subsection \<open>Blocks\<close>

lemma same_letter_lt [simp]: "same_letter (CHR ''<'') c \<longleftrightarrow> c = CHR ''<''"
proof
  assume "same_letter (CHR ''<'') c"
  then have u: "upper_char c = CHR ''<''" by (simp add: same_letter_def upper_char_def)
  then have "(of_char (upper_char c) :: nat) = 60" by simp
  then have "\<not> (97 \<le> (of_char c :: nat) \<and> (of_char c :: nat) \<le> 122)"
    by (auto simp: upper_char_def)
  with u show "c = CHR ''<''" by (simp add: upper_char_def)
qed (simp add: letters)

lemma block_miss: "\<not> starts_i (''<'' @ tag @ ''>'') xs \<Longrightarrow> rmatch (block tag) Some (pv, xs, g) = None"
  by (simp add: block_def rmatch_lit del: lit.simps)

lemma block_skip:
  assumes "CHR ''<'' \<notin> set pre"
  shows "search_from (block tag) pv (pre @ rest) = search_from (block tag) (prev pv pre) rest"
proof (rule search_skip)
  fix a b assume ab: "pre = a @ b" "b \<noteq> []"
  with assms have "hd b \<noteq> CHR ''<''" by (cases b) auto
  with ab(2) have "\<not> starts_i (''<'' @ tag @ ''>'') (b @ rest)" by (cases b) auto
  then show "rmatch (block tag) Some (prev pv a, b @ rest, Map.empty) = None" by (rule block_miss)
qed

lemma block_line:
  "CHR ''<'' \<notin> set l \<Longrightarrow> search_from (block tag) pv (line l rest) = search_from (block tag) (Some (CHR 0x0A)) rest"
  using block_skip [of "l @ [CHR 0x0A]" tag pv rest] by (simp add: line_def)

lemma block_other:
  assumes "CHR ''<'' \<notin> set body" "CHR ''<'' \<notin> set t"
    and "\<not> starts_i (''<'' @ tag @ ''>'') (print_block t body rest)"
    and "tag \<noteq> []" "\<not> same_letter (hd tag) (CHR ''/'')"
  shows "search_from (block tag) pv (print_block t body rest) = search_from (block tag) (Some (CHR 0x0A)) rest"
proof -
  define m where "m = t @ CHR ''>'' # CHR 0x0A # body @ [CHR 0x0A]"
  define e where "e = CHR ''/'' # t @ [CHR ''>'', CHR 0x0A]"
  have eq: "print_block t body rest = CHR ''<'' # m @ CHR ''<'' # e @ rest"
    by (simp add: print_block_def m_def e_def)
  have "\<not> starts_i (''<'' @ tag @ ''>'') (CHR ''<'' # e @ rest)"
    using assms(4,5) by (cases tag) (simp_all add: e_def)
  then have "rmatch (block tag) Some (p, CHR ''<'' # e @ rest, Map.empty) = None" for p
    by (rule block_miss)
  moreover have "rmatch (block tag) Some (pv, CHR ''<'' # m @ CHR ''<'' # e @ rest, Map.empty) = None"
    using assms(3) unfolding eq by (rule block_miss)
  moreover have "CHR ''<'' \<notin> set m" "CHR ''<'' \<notin> set e" using assms(1,2) by (simp_all add: m_def e_def)
  moreover have "prev (Some (CHR ''<'')) e = Some (CHR 0x0A)" by (simp add: e_def)
  ultimately show ?thesis unfolding eq by (simp add: block_skip)
qed

lemma block_hit:
  assumes "CHR ''<'' \<notin> set body"
  shows "\<exists>u. search_from (block tag) pv (print_block tag body rest) = Some u \<and>
    snd (snd u) 1 = Some (CHR 0x0A # body @ [CHR 0x0A])"
proof -
  define open' close' where "open' = ''<'' @ tag @ ''>''" and "close' = ''</'' @ tag @ ''>''"
  define b where "b = CHR 0x0A # body @ [CHR 0x0A]"
  define rest' where "rest' = CHR 0x0A # rest"
  have eq: "print_block tag body rest = open' @ b @ close' @ rest'"
    by (simp add: print_block_def open'_def close'_def b_def rest'_def)
  let ?k = "\<lambda>(pv', ys, g'). rmatch (lit close') Some (pv', ys, g'(Suc 0 \<mapsto> consumed (b @ close' @ rest') ys))"
  have "rep_lazy anychar ?k (b @ close' @ rest') 0 (prev pv open') Map.empty =
      Some (prev (prev (prev pv open') b) close', rest', [Suc 0 \<mapsto> b])"
  proof (rule rep_lazy_here)
    fix x y assume xy: "b = x @ y" "y \<noteq> []"
    have "CHR ''<'' \<notin> set b" using assms by (simp add: b_def)
    with xy have "hd y \<noteq> CHR ''<''" by (cases y) auto
    with xy(2) have "\<not> starts_i close' (y @ close' @ rest')" by (cases y) (auto simp: close'_def)
    then show "?k (prev (prev pv open') x, y @ close' @ rest', Map.empty) = None"
      by (simp add: rmatch_lit)
  qed (simp_all add: anychar_def)
  then have "rmatch (block tag) Some (pv, print_block tag body rest, Map.empty) =
      Some (prev (prev (prev pv open') b) close', rest', [Suc 0 \<mapsto> b])"
    unfolding eq block_def open'_def [symmetric] close'_def [symmetric] by simp
  from search_here [OF this] show ?thesis by (simp add: b_def)
qed


subsection \<open>The whole file\<close>

lemma line_start_facts [simp]: "at_line_start None" "at_line_start (Some (CHR 0x0A))"
  by (simp_all add: at_line_start_def)

lemma digits_facts:
  "\<forall>c \<in> set (string_of_nat n). is_digit c" "\<forall>c \<in> set (string_of_nat n). \<not> is_space c"
  "one_line (string_of_nat n)" "CHR ''<'' \<notin> set (string_of_nat n)"
proof -
  show d: "\<forall>c \<in> set (string_of_nat n). is_digit c" by (blast dest: string_of_nat_digits)
  have *: "\<not> is_space c" "c \<noteq> CHR ''<''" if "is_digit c" for c
    using that by (auto simp: is_digit_def is_space_def)
  with d show "\<forall>c \<in> set (string_of_nat n). \<not> is_space c" "CHR ''<'' \<notin> set (string_of_nat n)" by auto
  with d * newline_is_space show "one_line (string_of_nat n)" unfolding one_line_def by blast
qed

lemma word_facts:
  "word w \<Longrightarrow> one_line w" "word w \<Longrightarrow> CHR ''<'' \<notin> set w" "word w \<Longrightarrow> trim w = w"
  "word w \<Longrightarrow> w \<noteq> []" "word w \<Longrightarrow> \<forall>c \<in> set w. nonspace c \<and> \<not> is_space c"
  by (auto simp: word_def trim_no_space nonspace_def one_line_def dest: newline_is_space)

lemmas file_facts = digits_facts word_facts

lemma captured_blocks:
  assumes "printable f"
  shows "captured (block ''ca'') (print_config f) = Some (of_ca f)"
    "captured (block ''cert'') (print_config f) = Some (of_cert f)"
    "captured (block ''key'') (print_config f) = Some (of_key f)"
    "captured (block ''tls-auth'') (print_config f) = Some (of_tls_auth f)"
    "captured (block ''tls-crypt'') (print_config f) = Some (of_tls_crypt f)"
proof -
  have cap: "captured (block tag) (print_config f) = Some b"
    if "search_from (block tag) None (print_config f) =
        search_from (block tag) (Some (CHR 0x0A)) (print_block tag b rest)" "text_body b" for tag b rest
    using block_hit [of b tag "Some (CHR 0x0A)" rest] that
    by (auto simp: captured_def exec_def group_def text_body_def trim_wrap)
  have lt: "CHR ''<'' \<notin> set (of_ca f)" "CHR ''<'' \<notin> set (of_cert f)" "CHR ''<'' \<notin> set (of_key f)"
    "CHR ''<'' \<notin> set (of_tls_auth f)" "CHR ''<'' \<notin> set (of_tls_crypt f)" "CHR ''<'' \<notin> set (of_user f)"
    using assms by (simp_all add: printable_def text_body_def)
  note pr = assms [unfolded printable_def]
  have other: "search_from (block tag) pv (print_block t b rest) = search_from (block tag) (Some (CHR 0x0A)) rest"
    if "(tag, t) \<in> {(''cert'', ''ca''), (''key'', ''ca''), (''key'', ''cert''), (''tls-auth'', ''ca''),
      (''tls-auth'', ''cert''), (''tls-auth'', ''key''), (''tls-crypt'', ''ca''), (''tls-crypt'', ''cert''),
      (''tls-crypt'', ''key''), (''tls-crypt'', ''tls-auth'')}" "CHR ''<'' \<notin> set b" for tag t pv b rest
    using that by (intro block_other) (auto simp: print_block_def letters)
  note skip = print_config_def block_line lt file_facts pr
  show "captured (block ''ca'') (print_config f) = Some (of_ca f)"
    by (rule cap) (simp add: skip, simp add: pr)
  show "captured (block ''cert'') (print_config f) = Some (of_cert f)"
    by (rule cap) (simp add: skip other, simp add: pr)
  show "captured (block ''key'') (print_config f) = Some (of_key f)"
    by (rule cap) (simp add: skip other, simp add: pr)
  show "captured (block ''tls-auth'') (print_config f) = Some (of_tls_auth f)"
    by (rule cap) (simp add: skip other, simp add: pr)
  show "captured (block ''tls-crypt'') (print_config f) = Some (of_tls_crypt f)"
    by (rule cap) (simp add: skip other, simp add: pr)
qed

lemmas skip_facts = print_config_def printable_def directive_skip file_facts blank_def letters
  is_newline_def

lemma reach_directives:
  assumes "printable f"
  shows "\<exists>rest. search_from (directive ''proto'' r) None (print_config f) =
      search_from (directive ''proto'' r) (Some (CHR 0x0A)) (line (''proto '' @ (if of_tcp f then ''tcp'' else ''udp'')) rest)"
    "\<exists>rest. search_from (directive ''remote'' r) None (print_config f) =
      search_from (directive ''remote'' r) (Some (CHR 0x0A)) (line (''remote '' @ of_host f @ '' '' @ string_of_nat (of_port f))
        (line (''ifconfig '' @ of_ip f) rest))"
    "\<exists>rest. search_from (directive ''ifconfig'' r) None (print_config f) =
      search_from (directive ''ifconfig'' r) (Some (CHR 0x0A)) (line (''ifconfig'' @ CHR '' '' # of_ip f) rest)"
    "\<exists>rest. search_from (directive ''auth-user-pass'' r) None (print_config f) =
      search_from (directive ''auth-user-pass'' r) (Some (CHR 0x0A)) (line ''auth-user-pass'' rest)"
    "\<exists>rest. search_from (directive ''#'' r) None (print_config f) =
      search_from (directive ''#'' r) (Some (CHR 0x0A)) (line (''# username: '' @ of_user f) rest)"
    "\<exists>rest. search_from (directive ''key-direction'' r) None (print_config f) =
      search_from (directive ''key-direction'' r) (Some (CHR 0x0A)) (line (''key-direction'' @ CHR '' '' # of_keydir f) rest)"
    "\<exists>rest. search_from (directive ''remote-cert-tls'' r) None (print_config f) =
      search_from (directive ''remote-cert-tls'' r) (Some (CHR 0x0A)) (line ''remote-cert-tls server'' rest)"
    "\<exists>rest. search_from (directive ''reneg-sec'' r) None (print_config f) =
      search_from (directive ''reneg-sec'' r) (Some (CHR 0x0A)) (line (''reneg-sec'' @ CHR '' '' # string_of_nat (of_reneg f)) rest)"
  using assms by (simp add: skip_facts, blast)+

text \<open>Each directive of the file is found, with its value as the capture.\<close>

lemma exec_directives:
  assumes "printable f"
  shows "exec ifconfigMatch (print_config f) = Some [1 \<mapsto> of_ip f]"
    "exec kdMatch (print_config f) = Some [1 \<mapsto> of_keydir f]"
    "exec renegMatch (print_config f) = Some [1 \<mapsto> string_of_nat (of_reneg f)]"
    "exec userCommentMatch (print_config f) = Some [1 \<mapsto> of_user f]"
    "exec protoMatch (print_config f) = Some [1 \<mapsto> (if of_tcp f then ''tcp'' else ''udp'')]"
    "exec remoteMatch (print_config f) = Some [1 \<mapsto> of_host f, 2 \<mapsto> string_of_nat (of_port f)]"
proof -
  note pr = assms [unfolded printable_def]
  have ex: "exec (directive name r) (print_config f) = Some g"
    if "\<exists>rest. search_from (directive name r) None (print_config f) = search_from (directive name r) (Some (CHR 0x0A)) (l rest)"
      "\<And>rest. \<exists>t. search_from (directive name r) (Some (CHR 0x0A)) (l rest) = Some t \<and> snd (snd t) = g"
    for name r l g
    using that by (fastforce simp: exec_def)
  have val: "\<exists>t. search_from (directive name (seq [Rep True 1 space, Grp 1 (Rep True 1 P)])) (Some (CHR 0x0A))
      (line (name @ CHR '' '' # w) rest) = Some t \<and> snd (snd t) = [1 \<mapsto> w]"
    if "name \<noteq> []" "\<not> blank (hd name)" "w \<noteq> []" "\<forall>c \<in> set w. P c \<and> \<not> is_space c" "\<not> P (CHR 0x0A)"
    for name P w rest
    by (rule value_directive) (use that in simp_all)
  have pos: "\<not> nonspace (CHR 0x0A)" "\<not> digit (CHR 0x0A)" by (simp_all add: nonspace_def digit_def)
  show "exec ifconfigMatch (print_config f) = Some [1 \<mapsto> of_ip f]" unfolding ifconfigMatch_def
    by (rule ex [OF reach_directives(3) [OF assms] val]) (use pr pos in \<open>auto simp: word_def nonspace_def blank_def\<close>)
  show "exec kdMatch (print_config f) = Some [1 \<mapsto> of_keydir f]" unfolding kdMatch_def
    by (rule ex [OF reach_directives(6) [OF assms] val]) (use pr pos in \<open>auto simp: word_def nonspace_def blank_def\<close>)
  show "exec renegMatch (print_config f) = Some [1 \<mapsto> string_of_nat (of_reneg f)]" unfolding renegMatch_def
    by (rule ex [OF reach_directives(8) [OF assms] val])
      (use pos digits_facts in \<open>auto simp: blank_def digit_def\<close>)
  show "exec userCommentMatch (print_config f) = Some [1 \<mapsto> of_user f]"
    unfolding userCommentMatch_def
    by (rule ex [OF reach_directives(5) [OF assms]], fold userCommentMatch_def) (use pr user_hit in simp)
  show "exec protoMatch (print_config f) = Some [1 \<mapsto> (if of_tcp f then ''tcp'' else ''udp'')]"
    unfolding protoMatch_def
    by (rule ex [OF reach_directives(1) [OF assms]], fold protoMatch_def) (rule proto_hit, simp)
  show "exec remoteMatch (print_config f) = Some [1 \<mapsto> of_host f, 2 \<mapsto> string_of_nat (of_port f)]"
    unfolding remoteMatch_def
    by (rule ex [OF reach_directives(2) [OF assms]], fold remoteMatch_def, rule remote_hit)
      (use pr digits_facts in \<open>auto simp: line_def is_space_def letters\<close>)
qed

lemma test_directives:
  assumes "printable f"
  shows "test authUserPass (print_config f)" "test remoteCertTls (print_config f)"
proof -
  have tst: "test (directive name r) (print_config f)"
    if "\<exists>rest. search_from (directive name r) None (print_config f) = search_from (directive name r) (Some (CHR 0x0A)) (l rest)"
      "\<And>rest. search_from (directive name r) (Some (CHR 0x0A)) (l rest) \<noteq> None" for name r l
    using that by (auto simp: test_def exec_def)
  have "search_from (directive ''auth-user-pass'' Eps) (Some (CHR 0x0A)) (line ''auth-user-pass'' rest) \<noteq> None" for rest
    using directive_hit [of "Some (CHR 0x0A)" "''auth-user-pass''" Eps "CHR 0x0A # rest"]
    by (simp add: line_def blank_def)
  from tst [OF reach_directives(4) [OF assms] this] show "test authUserPass (print_config f)"
    by (simp only: authUserPass_def)
  have "rmatch (seq [Rep True 1 space, lit ''server'']) Some (p, '' server'' @ CHR 0x0A # rest, Map.empty) =
      Some (Some (CHR ''r''), CHR 0x0A # rest, Map.empty)" for p rest
    by (simp add: space_def is_space_def)
  from directive_hit [OF _ _ _ this, of "Some (CHR 0x0A)" "''remote-cert-tls''"]
  have "search_from (directive ''remote-cert-tls'' (seq [Rep True 1 space, lit ''server''])) (Some (CHR 0x0A))
      (line ''remote-cert-tls server'' rest) \<noteq> None" for rest
    by (simp add: line_def blank_def)
  from tst [OF reach_directives(7) [OF assms] this] show "test remoteCertTls (print_config f)"
    by (simp only: remoteCertTls_def)
qed

definition file_vars :: "ovpn_file \<Rightarrow> config_vars" where
  "file_vars f = \<lparr>v_protocol = (if of_tcp f then OpenvpnTcp else OpenvpnUdp), v_serverHost = of_host f,
     v_serverPort = of_port f, v_privateKey = None, v_presharedKey = None,
     v_virtualIp = of_ip f @ ''/24'', v_username = Some (of_user f), v_hasAuthUserPass = True,
     v_caCert = Some (of_ca f), v_clientCert = Some (of_cert f), v_clientKey = Some (of_key f),
     v_tlsAuthKey = Some (of_tls_auth f), v_tlsCryptKey = Some (of_tls_crypt f),
     v_keyDirection = Some (of_keydir f), v_remoteCertTlsServer = Some True,
     v_renegSec = Some (of_reneg f)\<rparr>"

lemma transport_simps [simp]: "transport ''tcp'' = OpenvpnTcp" "transport ''udp'' = OpenvpnUdp"
  by code_simp+

lemma parse_openvpn_print:
  assumes "printable f"
  shows "parse_openvpn (print_config f) (initial_vars False) = file_vars f"
proof -
  note pr = assms [unfolded printable_def]
  have trim: "trim (of_host f) = of_host f" "trim (of_ip f) = of_ip f" "trim (of_keydir f) = of_keydir f"
    "trim (of_user f) = of_user f"
    using pr by (simp_all add: word_facts text_body_def)
  show ?thesis
    by (simp add: parse_openvpn_def file_vars_def initial_vars_def Let_def exec_directives [OF assms]
        captured_blocks [OF assms] test_directives [OF assms] captured_def [of ifconfigMatch]
        captured_def [of kdMatch] captured_def [of userCommentMatch] group_def port_or_def trim)
qed

text \<open>
  Property C34. A configuration written with the usual directives and certificate blocks is read
  back exactly: transport, host, port, address, user name, key direction, renegotiation time,
  certificate checking and the five certificates and keys found in the text are those of the file, and the profile
  made from them is the one the same function makes from the file's own values.
\<close>

theorem openvpn_config_roundtrip:
  assumes "printable f" and "\<not> isWireGuard (print_config f) name"
  shows "parseConfigContent uuid rnd (print_config f) name =
    imported_profile uuid rnd False shield_flag name (file_vars f)"
  using assms by (simp add: parseConfigContent_def parse_openvpn_print Let_def)

definition sample_file :: ovpn_file where
  "sample_file = \<lparr>of_tcp = True, of_host = ''vpn.example'', of_port = 443, of_ip = ''10.0.0.6'',
     of_user = ''bob'', of_keydir = ''1'', of_reneg = 0, of_ca = ''CA'', of_cert = ''CERT'',
     of_key = ''KEY'', of_tls_auth = ''TA'', of_tls_crypt = ''TC''\<rparr>"

theorem openvpn_config_roundtrip_witness:
  "serverHost (parseConfigContent ''u'' 0 (print_config sample_file) ''a.ovpn'') = ''vpn.example'' \<and>
   caCert (creds (parseConfigContent ''u'' 0 (print_config sample_file) ''a.ovpn'')) = Some ''CA''"
proof -
  have "printable sample_file" "\<not> isWireGuard (print_config sample_file) ''a.ovpn''" by code_simp+
  from openvpn_config_roundtrip [OF this, of "''u''" 0] show ?thesis
    by (simp add: imported_profile_def imported_credentials_def file_vars_def sample_file_def)
qed

section \<open>A line read twice\<close>

definition udp_config :: "string \<Rightarrow> string \<Rightarrow> string \<Rightarrow> string" where
  "udp_config host ds rest = line ''proto udp'' (line (''remote '' @ host @ '' '' @ ds) (''tcp'' @ rest))"

text \<open>
  The optional transport of a \<open>remote\<close> line is looked for across the end of the
  line: if the next line begins with \<open>tcp\<close>, as the option \<open>tcp-nodelay\<close> does, the profile is
  imported as TCP although the file says \<open>proto udp\<close>.
\<close>

theorem remote_reads_next_line:
  assumes "word host" "ds \<noteq> []" "\<forall>c \<in> set ds. is_digit c"
    and "\<not> isWireGuard (udp_config host ds rest) name"
  shows "protocol (parseConfigContent uuid rnd (udp_config host ds rest) name) = OpenvpnTcp"
proof -
  have "search_from remoteMatch None (udp_config host ds rest) =
      search_from remoteMatch (Some (CHR 0x0A)) (line (''remote '' @ host @ '' '' @ ds) (''tcp'' @ rest))"
    unfolding udp_config_def remoteMatch_def
    by (rule directive_skip) (simp_all add: is_newline_def blank_def letters)
  with remote_tcp_hit [OF line_start_facts(2) assms(1-3), of rest]
  have "exec remoteMatch (udp_config host ds rest) = Some [1 \<mapsto> host, 2 \<mapsto> ds, 3 \<mapsto> ''tcp'']"
    by (auto simp: exec_def)
  with assms(4) show ?thesis
    by (simp add: parseConfigContent_def imported_profile_def parse_openvpn_def Let_def group_def)
qed

theorem remote_reads_next_line_witness:
  "protocol (parseConfigContent ''u'' 0 (udp_config ''vpn.example'' ''1194'' ''-nodelay'') ''a.ovpn'') = OpenvpnTcp"
proof -
  have "word ''vpn.example''" "''1194'' \<noteq> []" "\<forall>c \<in> set ''1194''. is_digit c"
    "\<not> isWireGuard (udp_config ''vpn.example'' ''1194'' ''-nodelay'') ''a.ovpn''" by code_simp+
  then show ?thesis by (rule remote_reads_next_line)
qed

end
