(* ===== verification/Profile_Forms.thy ===== *)
theory Profile_Forms
  imports Session_Invariants
begin

text \<open>
  The dialogs that edit a profile: \<^verbatim>\<open>components/profiles/ProfileModal.tsx\<close> (the form, its
  initialisation from a profile, its submission to the store), \<^verbatim>\<open>CertificateManagerModal.tsx\<close> (the
  TLS part of the form) and \<^verbatim>\<open>ConnectMfaModal.tsx\<close> with its use in \<^verbatim>\<open>layout/AppShell.tsx\<close> (the
  prompt for a one-time password).
\<close>

section \<open>The profile form\<close>

record profile_form =
  f_name :: string
  f_protocol :: ProtocolType
  f_serverHost :: string
  f_serverPort :: nat
  f_virtualIp :: string
  f_privateKey :: string
  f_presharedKey :: string
  f_useOnlyForNetworkResources :: bool
  f_customSubnetsInput :: string
  f_username :: string
  f_password :: string
  f_passwordMode :: PasswordMode
  f_totpSecret :: string
  f_totpFormat :: TotpFormat
  f_caCert :: string
  f_tlsAuthKey :: string
  f_tlsCryptKey :: string
  f_clientCert :: string
  f_clientKey :: string
  f_keyDirection :: string
  f_remoteCertTlsServer :: bool
  f_renegSec :: "nat option"

definition default_port :: "ProtocolType \<Rightarrow> nat" where
  "default_port p = (if p = Wireguard then 51820 else 1194)"

definition form_of_profile :: "VpnProfile \<Rightarrow> profile_form" where
  "form_of_profile p = (let c = creds p; initTotp = or_str (totpSecret c) [] in \<lparr>
     f_name = profile_name p, f_protocol = protocol p, f_serverHost = serverHost p,
     f_serverPort = or_num (Some (serverPort p)) (default_port (protocol p)),
     f_virtualIp = or_str (Some (virtualIp p)) ''10.8.0.2/24'',
     f_privateKey = or_str (privateKey c) [], f_presharedKey = or_str (presharedKey c) [],
     f_useOnlyForNetworkResources = nullish (useOnlyForNetworkResources p) False,
     f_customSubnetsInput = joinWith '', '' (nullish (customSubnets p) []),
     f_username = or_str (username c) [], f_password = or_str (password c) [],
     f_passwordMode = nullish (passwordMode c) (if initTotp \<noteq> [] then PmTotpAuto else PmStatic),
     f_totpSecret = initTotp, f_totpFormat = nullish (totpFormat c) TfAppend,
     f_caCert = or_str (caCert c) [], f_tlsAuthKey = or_str (tlsAuthKey c) [],
     f_tlsCryptKey = or_str (tlsCryptKey c) [], f_clientCert = or_str (clientCert c) [],
     f_clientKey = or_str (clientKey c) [], f_keyDirection = or_str (keyDirection c) ''none'',
     f_remoteCertTlsServer = nullish (remoteCertTlsServer c) True, f_renegSec = renegSec c\<rparr>)"

definition blank_form :: "bool \<Rightarrow> profile_form" where
  "blank_form openvpn = (let proto = (if openvpn then OpenvpnUdp else Wireguard) in \<lparr>
     f_name = [], f_protocol = proto, f_serverHost = [], f_serverPort = default_port proto,
     f_virtualIp = (if proto = Wireguard then ''10.8.0.2/24'' else ''10.8.0.50/24''),
     f_privateKey = [], f_presharedKey = [], f_useOnlyForNetworkResources = False,
     f_customSubnetsInput = [], f_username = [], f_password = [], f_passwordMode = PmStatic,
     f_totpSecret = [], f_totpFormat = TfAppend, f_caCert = [], f_tlsAuthKey = [],
     f_tlsCryptKey = [], f_clientCert = [], f_clientKey = [], f_keyDirection = ''none'',
     f_remoteCertTlsServer = True, f_renegSec = None\<rparr>)"

definition form_init :: "VpnProfile option \<Rightarrow> bool \<Rightarrow> profile_form" where
  "form_init initialProfile openvpn = (case initialProfile of
     Some p \<Rightarrow> form_of_profile p | None \<Rightarrow> blank_form openvpn)"

text \<open>The transport selector and the port field.\<close>

definition select_transport :: "ProtocolType \<Rightarrow> profile_form \<Rightarrow> profile_form" where
  "select_transport newProto f =
     (let f1 = f\<lparr>f_protocol := newProto\<rparr>
      in if f_serverPort f \<in> {1194, 443, 51820}
         then f1\<lparr>f_serverPort := (if newProto = OpenvpnTcp then 443 else 1194)\<rparr> else f1)"

definition enter_port :: "nat \<Rightarrow> profile_form \<Rightarrow> profile_form" where
  "enter_port val f = f\<lparr>f_serverPort := or_num (Some val)
     (if f_protocol f = Wireguard then 51820 else if f_protocol f = OpenvpnTcp then 443 else 1194)\<rparr>"

text \<open>The live code below the one-time-password field: the code and the seconds it is valid.\<close>

definition updateTotp :: "hmac_fn \<Rightarrow> int \<Rightarrow> profile_form \<Rightarrow> (string \<times> int) option" where
  "updateTotp hmac now f = (if f_passwordMode f \<noteq> PmTotpAuto \<or> f_totpSecret f = [] then None
     else Some (generateCode hmac (f_totpSecret f) now 6 30, getRemainingSeconds now 30))"

section \<open>Submitting the form\<close>

text \<open>\<open>s.split(/[\s,]+/).map(trim).filter(Boolean)\<close>: the maximal runs of other characters.\<close>

definition separator :: "char \<Rightarrow> bool" where
  "separator c \<longleftrightarrow> is_space c \<or> c = CHR '',''"

fun tokens :: "string \<Rightarrow> string \<Rightarrow> string list" where
  "tokens acc [] = (if acc = [] then [] else [acc])"
| "tokens acc (c # cs) = (if separator c
     then (if acc = [] then tokens [] cs else acc # tokens [] cs) else tokens (acc @ [c]) cs)"

definition subnetsList :: "string \<Rightarrow> string list" where
  "subnetsList s = filter (\<lambda>t. t \<noteq> []) (map trim (tokens [] s))"

definition bolt :: string where
  "bolt = [CHR 0xE2, CHR 0x9A, CHR 0xA1]"

definition shield :: string where
  "shield = [CHR 0xF0, CHR 0x9F, CHR 0x9B, CHR 0xA1, CHR 0xEF, CHR 0xB8, CHR 0x8F]"

definition chosen_direction :: "profile_form \<Rightarrow> string option" where
  "chosen_direction f = (if f_keyDirection f \<noteq> ''none'' then Some (f_keyDirection f) else None)"

definition was_flagged :: "(Credentials \<Rightarrow> bool option) \<Rightarrow> VpnProfile option \<Rightarrow> bool" where
  "was_flagged flag initial = (case initial of Some p \<Rightarrow> nullish (flag (creds p)) False | None \<Rightarrow> False)"

definition form_credentials :: "VpnProfile option \<Rightarrow> profile_form \<Rightarrow> Credentials" where
  "form_credentials initial f = \<lparr>
     username = or_undefined (f_username f), password = or_undefined (f_password f),
     passwordMode = Some (f_passwordMode f), totpSecret = or_undefined (f_totpSecret f),
     totpFormat = Some (f_totpFormat f), hasPassword = Some (f_password f \<noteq> []),
     hasCert = Some (f_clientCert f \<noteq> [] \<or> was_flagged hasCert initial),
     hasPrivateKey = Some (f_privateKey f \<noteq> [] \<or> f_clientKey f \<noteq> []),
     hasCaCert = Some (f_caCert f \<noteq> [] \<or> was_flagged hasCaCert initial),
     hasTlsAuth = Some (f_tlsAuthKey f \<noteq> [] \<or> was_flagged hasTlsAuth initial),
     hasTlsCrypt = Some (f_tlsCryptKey f \<noteq> [] \<or> was_flagged hasTlsCrypt initial),
     privateKey = or_undefined (f_privateKey f), presharedKey = or_undefined (f_presharedKey f),
     caCert = or_undefined (f_caCert f), clientCert = or_undefined (f_clientCert f),
     clientKey = or_undefined (f_clientKey f), tlsAuthKey = or_undefined (f_tlsAuthKey f),
     tlsCryptKey = or_undefined (f_tlsCryptKey f), keyDirection = chosen_direction f,
     remoteCertTlsServer = Some (f_remoteCertTlsServer f), renegSec = f_renegSec f\<rparr>"

definition profileData ::
  "string \<Rightarrow> rat \<Rightarrow> VpnProfile option \<Rightarrow> profile_form \<Rightarrow> VpnProfile" where
  "profileData profileId random initial f = (let wg = (f_protocol f = Wireguard) in \<lparr>
     profile_id = profileId,
     profile_name = or_str (Some (f_name f)) ((if wg then ''WireGuard'' else ''OpenVPN'') @ '' Profile''),
     protocol = f_protocol f, serverHost = f_serverHost f,
     serverPort = or_num (Some (f_serverPort f)) (default_port (f_protocol f)),
     serverCountry = or_str (map_option serverCountry initial) ''Configured Gateway'',
     serverCity = or_str (map_option serverCity initial) ''Remote DC'',
     serverFlag = or_str (map_option serverFlag initial) (if wg then bolt else shield),
     virtualIp = or_str (Some (f_virtualIp f)) ''10.8.0.2/24'', assignedIp = None,
     isFavorite = (case initial of Some p \<Rightarrow> isFavorite p | None \<Rightarrow> False),
     tags = nullish (map_option tags initial) [''Custom'', if wg then ''WireGuard'' else ''OpenVPN''],
     lastConnected = None,
     pingMs = or_num (map_option pingMs initial) (nat \<lfloor>20 + random * 40\<rfloor>),
     credentials = Some (form_credentials initial f), rawConfig = None, routingMode = None,
     useOnlyForNetworkResources = Some (f_useOnlyForNetworkResources f),
     customSubnets = Some (subnetsList (f_customSubnetsInput f))\<rparr>)"

definition secretPayload :: "profile_form \<Rightarrow> ProfileSecretPayload option" where
  "secretPayload f =
     (if f_protocol f = Wireguard \<and> f_privateKey f \<noteq> []
      then Some (SecretWireguard (f_privateKey f) (or_undefined (f_presharedKey f)))
      else if f_protocol f = OpenvpnUdp \<or> f_protocol f = OpenvpnTcp
      then Some (SecretUserPassword \<lparr>us_username = f_username f, us_password = f_password f,
        us_totp_secret = or_undefined (f_totpSecret f), us_totp_format = Some (f_totpFormat f),
        us_ca_cert = or_undefined (f_caCert f), us_client_cert = or_undefined (f_clientCert f),
        us_client_key = or_undefined (f_clientKey f), us_tls_auth_key = or_undefined (f_tlsAuthKey f),
        us_tls_crypt_key = or_undefined (f_tlsCryptKey f), us_key_direction = chosen_direction f,
        us_remote_cert_tls_server = Some (f_remoteCertTlsServer f), us_reneg_sec = f_renegSec f,
        us_ovpn_config = None\<rparr>)
      else None)"

definition isEdit :: "VpnProfile option \<Rightarrow> app \<Rightarrow> bool" where
  "isEdit initial s = (case initial of
     Some p \<Rightarrow> (\<exists>q \<in> set (profiles s). profile_id q = profile_id p) | None \<Rightarrow> False)"

text \<open>\<open>crypto.randomUUID()\<close> and \<open>Math.random()\<close> are drawn by the caller.\<close>

definition handleSubmit ::
  "string \<Rightarrow> rat \<Rightarrow> VpnProfile option \<Rightarrow> profile_form \<Rightarrow> app \<Rightarrow> app" where
  "handleSubmit uuid random initial f s = (case initial of
     Some p \<Rightarrow>
       if isEdit initial s
       then updateProfile (profileData (profile_id p) random initial f) (secretPayload f) s
       else addProfile (profileData uuid random initial f) (secretPayload f) s
   | None \<Rightarrow> addProfile (profileData uuid random initial f) (secretPayload f) s)"

section \<open>The certificate manager\<close>

record TlsSecurityConfig =
  tls_caCert :: "string option"
  tls_tlsAuthKey :: "string option"
  tls_tlsCryptKey :: "string option"
  tls_keyDirection :: "string option"
  tls_clientCert :: "string option"
  tls_clientKey :: "string option"
  tls_remoteCertTlsServer :: "bool option"
  tls_renegSec :: "nat option"

datatype TlsMode = TlsNone | TlsAuth | TlsCrypt

record tls_form =
  tf_caCert :: string
  tf_tlsMode :: TlsMode
  tf_tlsAuthKey :: string
  tf_tlsCryptKey :: string
  tf_keyDirection :: string
  tf_clientCert :: string
  tf_clientKey :: string
  tf_remoteCertTlsServer :: bool
  tf_renegSec :: "nat option"

definition tls_open :: "TlsSecurityConfig \<Rightarrow> tls_form" where
  "tls_open config = \<lparr>tf_caCert = or_str (tls_caCert config) [],
     tf_tlsMode = (if truthy (tls_tlsCryptKey config) then TlsCrypt
       else if truthy (tls_tlsAuthKey config) then TlsAuth else TlsNone),
     tf_tlsAuthKey = or_str (tls_tlsAuthKey config) [],
     tf_tlsCryptKey = or_str (tls_tlsCryptKey config) [],
     tf_keyDirection = or_str (tls_keyDirection config) ''none'',
     tf_clientCert = or_str (tls_clientCert config) [],
     tf_clientKey = or_str (tls_clientKey config) [],
     tf_remoteCertTlsServer = nullish (tls_remoteCertTlsServer config) True,
     tf_renegSec = tls_renegSec config\<rparr>"

definition tls_save :: "tls_form \<Rightarrow> TlsSecurityConfig" where
  "tls_save f = \<lparr>tls_caCert = or_undefined (trim (tf_caCert f)),
     tls_tlsAuthKey = (if tf_tlsMode f = TlsAuth then or_undefined (trim (tf_tlsAuthKey f)) else None),
     tls_tlsCryptKey = (if tf_tlsMode f = TlsCrypt then or_undefined (trim (tf_tlsCryptKey f)) else None),
     tls_keyDirection = (if tf_tlsMode f = TlsAuth then Some (tf_keyDirection f) else None),
     tls_clientCert = or_undefined (trim (tf_clientCert f)),
     tls_clientKey = or_undefined (trim (tf_clientKey f)),
     tls_remoteCertTlsServer = Some (tf_remoteCertTlsServer f), tls_renegSec = tf_renegSec f\<rparr>"

text \<open>How the profile form passes its state to the manager and takes it back.\<close>

definition tls_config_of :: "profile_form \<Rightarrow> TlsSecurityConfig" where
  "tls_config_of f = \<lparr>tls_caCert = Some (f_caCert f), tls_tlsAuthKey = Some (f_tlsAuthKey f),
     tls_tlsCryptKey = Some (f_tlsCryptKey f), tls_keyDirection = Some (f_keyDirection f),
     tls_clientCert = Some (f_clientCert f), tls_clientKey = Some (f_clientKey f),
     tls_remoteCertTlsServer = Some (f_remoteCertTlsServer f), tls_renegSec = f_renegSec f\<rparr>"

definition tls_onSave :: "TlsSecurityConfig \<Rightarrow> profile_form \<Rightarrow> profile_form" where
  "tls_onSave cfg f = f\<lparr>f_caCert := or_str (tls_caCert cfg) [],
     f_tlsAuthKey := or_str (tls_tlsAuthKey cfg) [], f_tlsCryptKey := or_str (tls_tlsCryptKey cfg) [],
     f_keyDirection := or_str (tls_keyDirection cfg) ''none'',
     f_clientCert := or_str (tls_clientCert cfg) [], f_clientKey := or_str (tls_clientKey cfg) [],
     f_remoteCertTlsServer := nullish (tls_remoteCertTlsServer cfg) True,
     f_renegSec := tls_renegSec cfg\<rparr>"

section \<open>The one-time-password prompt\<close>

record mfa_form =
  basePassword :: string
  totpCode :: string
  isSubmitting :: bool

definition mfa_open :: "VpnProfile option \<Rightarrow> mfa_form" where
  "mfa_open profile = \<lparr>basePassword = or_str (Option.bind profile (\<lambda>p. password (creds p))) [],
     totpCode = [], isSubmitting = False\<rparr>"

definition mfa_combined :: "VpnProfile \<Rightarrow> mfa_form \<Rightarrow> string" where
  "mfa_combined profile m = (case nullish (totpFormat (creds profile)) TfAppend of
     TfAppend \<Rightarrow> basePassword m @ trim (totpCode m)
   | TfPrefix \<Rightarrow> trim (totpCode m) @ basePassword m
   | TfTotpOnly \<Rightarrow> or_str (Some (trim (totpCode m))) (basePassword m))"

text \<open>\<open>onConfirm\<close> of the shell connects the prompted profile, then \<open>onClose\<close> drops the prompt.\<close>

definition mfa_submit :: "mfa_form \<Rightarrow> app \<Rightarrow> app" where
  "mfa_submit m s = (case mfaPromptProfile s of
     None \<Rightarrow> s
   | Some p \<Rightarrow> setMfaPromptProfile None (connect (Some (profile_id p)) (Some (mfa_combined p m)) s))"

end
