(* ===== verification/Form_Properties.thy ===== *)
theory Form_Properties
  imports Profile_Forms Session_Properties
begin

text \<open>
  The dialogs keep what they are given: saving an unchanged form changes nothing, a submission
  keeps the identifiers of the profile list distinct, the certificate manager returns what it
  was opened with, and the password the prompt combines is the one the daemon receives.
\<close>

section \<open>Reading the subnet list back\<close>

definition token :: "string \<Rightarrow> bool" where
  "token t \<longleftrightarrow> t \<noteq> [] \<and> (\<forall>c \<in> set t. \<not> separator c)"

lemma tokens_append: "\<forall>c \<in> set t. \<not> separator c \<Longrightarrow> tokens acc (t @ s) = tokens (acc @ t) s"
  by (induction t arbitrary: acc) simp_all

lemma tokens_token: "(\<forall>c \<in> set acc. \<not> separator c) \<Longrightarrow> \<forall>t \<in> set (tokens acc s). token t"
proof (induction s arbitrary: acc)
  case (Cons c cs)
  have "\<forall>t \<in> set (tokens [] cs). token t" by (rule Cons.IH) simp
  moreover have "\<forall>t \<in> set (tokens (acc @ [c]) cs). token t" if "\<not> separator c"
    by (rule Cons.IH) (use Cons.prems that in simp)
  ultimately show ?case using Cons.prems by (simp add: token_def)
qed (simp add: token_def)

lemma tokens_join: "\<forall>t \<in> set ts. token t \<Longrightarrow> tokens [] (joinWith '', '' ts) = ts"
proof (induction ts)
  case (Cons x xs)
  note IH = Cons.IH and prems = Cons.prems
  have sep: "separator (CHR '','')" "separator (CHR '' '')" by (simp_all add: separator_def is_space_def)
  show ?case
  proof (cases xs)
    case Nil
    with prems show ?thesis using tokens_append [of x "[]" "[]"] by (simp add: token_def)
  next
    case (Cons y ys)
    with IH prems sep tokens_append [of x "[]" "'', '' @ joinWith '', '' xs"]
    show ?thesis by (simp add: token_def)
  qed
qed simp

lemma token_trim: "token t \<Longrightarrow> trim t = t \<and> t \<noteq> []"
  by (auto simp: token_def separator_def intro: trim_no_space)

lemma subnetsList_tokens: "subnetsList s = tokens [] s" "\<forall>t \<in> set (subnetsList s). token t"
proof -
  have tok: "\<forall>t \<in> set (tokens [] s). token t" by (rule tokens_token) simp
  then have "map trim (tokens [] s) = tokens [] s" by (simp add: map_idI token_trim)
  with tok show "subnetsList s = tokens [] s" by (simp add: subnetsList_def filter_id_conv token_trim)
  with tok show "\<forall>t \<in> set (subnetsList s). token t" by simp
qed

lemma subnetsList_join: "\<forall>t \<in> set ts. token t \<Longrightarrow> subnetsList (joinWith '', '' ts) = ts"
  by (simp add: subnetsList_tokens(1) tokens_join)

section \<open>Saving an unchanged form\<close>

lemma or_str_nonempty: "d \<noteq> [] \<Longrightarrow> or_str v d \<noteq> []"
  by (auto simp: or_str_def split: option.split)

lemma or_num_nonzero: "d \<noteq> 0 \<Longrightarrow> or_num v d \<noteq> 0"
  by (auto simp: or_num_def split: option.split)

lemma or_str_Some: "v \<noteq> [] \<Longrightarrow> or_str (Some v) d = v"
  by (simp add: or_str_def)

lemma or_str_Nil: "or_str (Some v) [] = v"
  by (simp add: or_str_def)

lemma or_undefined_Nil: "or_undefined [] = None"
  by simp

lemma or_num_Some: "v \<noteq> 0 \<Longrightarrow> or_num (Some v) d = v"
  by (simp add: or_num_def)

lemma default_port_nonzero [simp]: "default_port p \<noteq> 0"
  by (simp add: default_port_def)

lemma profileData_id [simp]: "profile_id (profileData i r initial f) = i"
  by (simp add: profileData_def Let_def)

lemma form_of_credentials:
  assumes "credentials q = Some (form_credentials initial f)" "f_keyDirection f \<noteq> []"
  shows "form_credentials (Some q) (form_of_profile q) = form_credentials initial f"
  using assms
  by (auto simp: form_credentials_def form_of_profile_def was_flagged_def chosen_direction_def
      Let_def or_str_Some)

text \<open>
  Opening a profile that the form saved and saving it again unchanged gives the
  same profile: name, endpoint, routing, credentials, certificates, presence flags, subnets.
\<close>

theorem edit_unchanged:
  assumes "f_keyDirection f \<noteq> []" "0 \<le> rnd" "q = profileData uuid rnd initial f"
  shows "profileData (profile_id q) rnd' (Some q) (form_of_profile q) = q"
proof -
  have "0 \<le> \<lfloor>rnd * 40\<rfloor>" using assms(2) by (simp add: le_floor_iff)
  then have "0 < 20 + \<lfloor>rnd * 40\<rfloor>" by linarith
  then have rnd: "nat \<lfloor>20 + rnd * 40\<rfloor> \<noteq> 0" by simp
  have flag: "bolt \<noteq> []" "shield \<noteq> []" by (simp_all add: bolt_def shield_def)
  have "form_credentials (Some q) (form_of_profile q) = form_credentials initial f"
    using assms by (intro form_of_credentials) (simp_all add: profileData_def Let_def)
  moreover have "subnetsList (joinWith '', '' (subnetsList (f_customSubnetsInput f))) =
      subnetsList (f_customSubnetsInput f)"
    by (rule subnetsList_join) (rule subnetsList_tokens)
  ultimately show ?thesis
    using assms(3) rnd flag
    by (simp add: profileData_def Let_def form_of_profile_def or_str_Some or_num_Some
        or_str_nonempty or_num_nonzero)
qed

definition sample_form :: profile_form where
  "sample_form = (blank_form True)\<lparr>f_name := ''Office'', f_serverHost := ''vpn.example'',
     f_customSubnetsInput := ''10.0.0.0/8 192.168.0.0/16'', f_password := ''pw''\<rparr>"

theorem edit_unchanged_witness:
  "profileData ''p1'' 0 (Some (profileData ''p1'' 0 None sample_form))
     (form_of_profile (profileData ''p1'' 0 None sample_form)) = profileData ''p1'' 0 None sample_form"
proof -
  have "f_keyDirection sample_form \<noteq> []" by (simp add: sample_form_def blank_form_def Let_def)
  from edit_unchanged [OF this order_refl refl, of "''p1''" None 0] show ?thesis
    by (simp only: profileData_id)
qed

section \<open>Submitting\<close>

lemma add_update_profiles:
  "profiles (addProfile p sec s) = with_secret sec p # profiles s"
  "profiles (updateProfile p sec s) =
     map_by profile_id (profile_id p) (\<lambda>_. with_secret sec p) (profiles s)"
  by (simp_all add: addProfile_def updateProfile_def Let_def)

text \<open>
  A submission keeps the profile list a keyed collection: editing a listed profile
  replaces it in place and keeps the number and order of the entries, any other submission adds
  one entry in front; if the drawn identifier is new, the identifiers stay distinct.
\<close>

theorem submit_keeps_ids:
  assumes "distinct (map profile_id (profiles s))" "uuid \<notin> profile_id ` set (profiles s)"
  shows "distinct (map profile_id (profiles (handleSubmit uuid rnd initial f s))) \<and>
    map profile_id (profiles (handleSubmit uuid rnd initial f s)) =
      (if isEdit initial s then map profile_id (profiles s)
       else uuid # map profile_id (profiles s))"
proof -
  have ids: "map profile_id (map_by profile_id (profile_id p) (\<lambda>_. with_secret sec (profileData (profile_id p) r i f)) ps) =
      map profile_id ps" for sec p r i f ps
    by (intro profile_list.keys_modify) simp
  have "map profile_id (profiles (handleSubmit uuid rnd initial f s)) =
      (if isEdit initial s then map profile_id (profiles s) else uuid # map profile_id (profiles s))"
    by (cases initial) (simp_all add: handleSubmit_def add_update_profiles isEdit_def ids)
  with assms show ?thesis by simp
qed

theorem submit_keeps_ids_witness:
  "map profile_id (profiles (handleSubmit ''new'' 0 None sample_form (sample_app [sample_profile]))) =
     [''new'', ''p1'']"
  using submit_keeps_ids [of "sample_app [sample_profile]" "''new''" 0 None sample_form]
  by (simp add: isEdit_def) (simp add: sample_profile_def)

section \<open>The certificate manager\<close>

text \<open>
  The certificate manager never hands back both a tls-auth and a tls-crypt key, and
  opening it on what it handed back and saving unchanged hands back the same configuration,
  provided a chosen tls-auth mode has a key and a direction.
\<close>

theorem tls_manager_stable:
  assumes "tf_tlsMode f = TlsAuth \<Longrightarrow> trim (tf_tlsAuthKey f) \<noteq> [] \<and> tf_keyDirection f \<noteq> []"
  shows "tls_save (tls_open (tls_save f)) = tls_save f \<and>
    (tls_tlsAuthKey (tls_save f) = None \<or> tls_tlsCryptKey (tls_save f) = None)"
  using assms by (cases "tf_tlsMode f") (simp_all add: tls_save_def tls_open_def or_str_Some or_undefined_Nil)

theorem tls_manager_stable_witness:
  "tls_save (tls_open (tls_save (tls_open (tls_config_of sample_form)))) =
     tls_save (tls_open (tls_config_of sample_form))"
  using tls_manager_stable [of "tls_open (tls_config_of sample_form)"]
  by (simp add: tls_open_def tls_config_of_def sample_form_def blank_form_def Let_def)

section \<open>The password prompt\<close>

lemma mfa_combined_totp:
  "mfa_combined p m = combine_totp (nullish (totpFormat (creds p)) TfAppend) (basePassword m) (trim (totpCode m))"
  by (simp add: mfa_combined_def combine_totp_def or_str_Some split: TotpFormat.split)

text \<open>
  Connecting a profile that asks for its password opens the prompt and sends
  nothing; confirming the prompt connects that profile with the combined password, sends exactly
  one request, which carries that password unless the protocol is WireGuard, and closes the
  prompt.
\<close>

theorem mfa_prompt_flow:
  assumes "connectionState s \<notin> {Connecting, Connected}" "tauri s"
    and "chosen_profile k s = Some p" "passwordMode (creds p) = Some PmDynamicPrompt"
    and "find_by profile_id (profile_id p) (profiles s) = Some p" "profile_id p \<noteq> []"
  shows "let s1 = connect k None s; s2 = mfa_submit m s1;
      cp = connect_params p (securitySettings s) (mfa_combined p m)
    in outbox s1 = outbox s \<and> mfaPromptProfile s1 = Some p \<and>
      outbox s2 = outbox s @ [CmdVpnConnect cp] \<and> mfaPromptProfile s2 = None \<and>
      connectionState s2 = Connecting \<and>
      (protocol p \<noteq> Wireguard \<longrightarrow> (\<exists>a. auth_config cp = AuthUserPassword a \<and> ua_password a = mfa_combined p m))"
proof -
  have s1: "connect k None s = s\<lparr>mfaPromptProfile := Some p\<rparr>"
    using assms by (simp add: connect_cases needs_prompt_def)
  have "chosen_profile (Some (profile_id p)) (s\<lparr>mfaPromptProfile := Some p\<rparr>) = Some p"
    using assms(5,6) by (simp add: chosen_profile_def or_str_Some)
  with assms show ?thesis
    by (simp add: s1 mfa_submit_def connect_cases needs_prompt_def needs_totp_def connect_send_def
        setMfaPromptProfile_def ipc_defs Let_def connect_params_def authConfig_def or_str_Nil)
qed

definition prompt_profile :: VpnProfile where
  "prompt_profile = sample_profile\<lparr>credentials := Some (no_credentials\<lparr>
     passwordMode := Some PmDynamicPrompt, password := Some ''pw''\<rparr>)\<rparr>"

theorem mfa_prompt_flow_witness:
  "connectionState (mfa_submit \<lparr>basePassword = ''pw'', totpCode = ''123456'', isSubmitting = False\<rparr>
     (connect None None (sample_app [prompt_profile]))) = Connecting"
  using mfa_prompt_flow [of "sample_app [prompt_profile]" None prompt_profile
      "\<lparr>basePassword = ''pw'', totpCode = ''123456'', isSubmitting = False\<rparr>"]
  by (simp add: Let_def chosen_profile_def prompt_profile_def sample_profile_def)

end
