(* ===== verification/Dashboard_Views.thy ===== *)
theory Dashboard_Views
  imports Session_Invariants
begin

text \<open>
  What the dashboard, the profile cards and the tray widget compute from the store and which
  actions their buttons trigger: \<^verbatim>\<open>dashboard/HeroCockpitBanner.tsx\<close>,
  \<^verbatim>\<open>dashboard/DashboardProfileDeck.tsx\<close>, \<^verbatim>\<open>profiles/ProfileCard.tsx\<close>,
  \<^verbatim>\<open>profiles/ProfileLibraryView.tsx\<close>, \<^verbatim>\<open>tray/MiniTrayWidget.tsx\<close> and
  \<^verbatim>\<open>layout/BottomStatusBar.tsx\<close> under \<^verbatim>\<open>components/\<close>. The texts of the current language are a
  function from their path in the dictionary; sizes and speeds are exact rationals.
\<close>

type_synonym dictionary = "string \<Rightarrow> string"

section \<open>Number formats\<close>

text \<open>\<open>Number.prototype.toFixed\<close>: the nearest decimal with \<open>d\<close> places, ties upwards.\<close>

definition toFixed_nonneg :: "nat \<Rightarrow> rat \<Rightarrow> string" where
  "toFixed_nonneg d x =
     (let n = nat \<lfloor>x * 10 ^ d + 1 / 2\<rfloor>; whole = string_of_nat (n div 10 ^ d)
      in if d = 0 then whole
         else whole @ ''.'' @ padStart d (CHR ''0'') (string_of_nat (n mod 10 ^ d)))"

definition toFixed :: "nat \<Rightarrow> rat \<Rightarrow> string" where
  "toFixed d x = (if x < 0 then CHR ''-'' # toFixed_nonneg d (- x) else toFixed_nonneg d x)"

definition pad2 :: "nat \<Rightarrow> string" where
  "pad2 n = padStart 2 (CHR ''0'') (string_of_nat n)"

definition formatUptime :: "nat \<Rightarrow> string" where
  "formatUptime secs =
     pad2 (secs div 3600) @ '':'' @ pad2 (secs mod 3600 div 60) @ '':'' @ pad2 (secs mod 60)"

definition formatSpeed :: "rat \<Rightarrow> string" where
  "formatSpeed kbps = (if kbps \<ge> 1024 then toFixed 1 (kbps / 1024) @ '' MB/s''
     else toFixed 0 kbps @ '' KB/s'')"

definition formatBytes :: "rat \<Rightarrow> string" where
  "formatBytes bytes = (if bytes \<ge> 1024 * 1024 * 1024
     then toFixed 2 (bytes / (1024 * 1024 * 1024)) @ '' GB''
     else toFixed 1 (bytes / (1024 * 1024)) @ '' MB'')"

section \<open>HeroCockpitBanner\<close>

definition activeProfile :: "app \<Rightarrow> VpnProfile option" where
  "activeProfile s = (case find_by profile_id (activeProfileId s) (profiles s) of
     Some p \<Rightarrow> Some p | None \<Rightarrow> first_opt (profiles s))"

definition isConnecting_state :: "ConnectionState \<Rightarrow> bool" where
  "isConnecting_state c \<longleftrightarrow> c = Connecting \<or> c = Reconnecting"

definition activeRulesCount :: "app \<Rightarrow> nat" where
  "activeRulesCount s = length (filter app_enabled (appRules s)) + length (filter ip_enabled (ipRules s))"

definition hero_toggle :: "app \<Rightarrow> app" where
  "hero_toggle s =
     (if daemonHealth s = HealthOffline then retryDaemonIpc s
      else if connectionState s = Connected \<or> isConnecting_state (connectionState s) then disconnect s
      else if connectionState s = Disconnected \<or> connectionState s = ErrorState
      then connect (map_option profile_id (activeProfile s)) None s
      else s)"

definition getStatusText :: "dictionary \<Rightarrow> ConnectionState \<Rightarrow> string" where
  "getStatusText t c =
     (if c = Connected then toUpperCase (t ''common.connected'')
      else if isConnecting_state c then toUpperCase (t ''common.connecting'') @ ''...''
      else if c = ErrorState then toUpperCase (t ''common.error'')
      else toUpperCase (t ''common.disconnected''))"

definition bullet :: string where
  "bullet = [CHR '' '', CHR 0xE2, CHR 0x80, CHR 0xA2, CHR '' '']"

definition powerTooltip :: "dictionary \<Rightarrow> app \<Rightarrow> string" where
  "powerTooltip t s =
     (if isConnecting_state (connectionState s)
      then t ''common.connecting'' @ ''... '' @ t ''common.cancel''
      else if connectionState s = Connected
      then t ''common.connected'' @ bullet @ t ''dashboard.clickToDisconnect''
      else if connectionState s = Disconnecting then t ''common.disconnecting''
      else if daemonHealth s = HealthOffline
      then t ''dashboard.daemonOffline'' @ bullet @ t ''dashboard.retryIpc''
      else t ''dashboard.clickToConnect'')"

text \<open>The sparkline: the height of a value in a drawing of height \<open>h\<close> scaled to \<open>maxSpeed\<close>.\<close>

definition maxSpeed :: "TelemetryPoint list \<Rightarrow> rat" where
  "maxSpeed points = fold max (map downloadSpeed points) 50000"

definition svg_x :: "rat \<Rightarrow> nat \<Rightarrow> nat \<Rightarrow> rat" where
  "svg_x width n i = of_nat i * (width / of_nat (max (n - 1) 1))"

definition svg_y :: "rat \<Rightarrow> rat \<Rightarrow> rat \<Rightarrow> rat" where
  "svg_y h peak v = h - v / peak * (h - 6) - 3"

definition getSvgPath :: "rat \<Rightarrow> rat \<Rightarrow> (TelemetryPoint \<Rightarrow> rat) \<Rightarrow> TelemetryPoint list \<Rightarrow> string" where
  "getSvgPath width h speed points =
     joinWith '' '' (map (\<lambda>(i, p).
       (if i = 0 then ''M'' else ''L'') @ '' '' @ toFixed 1 (svg_x width (length points) i) @ '' '' @
       toFixed 1 (svg_y h (maxSpeed points) (speed p)))
       (zip [0..<length points] points))"

definition downloadAreaPath :: "rat \<Rightarrow> rat \<Rightarrow> TelemetryPoint list \<Rightarrow> string" where
  "downloadAreaPath width h points =
     (let downloadPath = getSvgPath width h downloadSpeed points
      in if downloadPath = [] then []
         else downloadPath @ '' L '' @ toFixed 0 width @ '' '' @ toFixed 0 h @ '' L 0 '' @
              toFixed 0 h @ '' Z'')"

definition livePing :: "app \<Rightarrow> nat" where
  "livePing s =
     (let active = map_option pingMs (activeProfile s);
          first = (if connectionState s = Connected \<and> currentPingMs (telemetry s) > 0
                   then Some (currentPingMs (telemetry s)) else active)
      in or_num first (or_num active 24))"

section \<open>MiniTrayWidget\<close>

definition mini_toggle :: "app \<Rightarrow> app" where
  "mini_toggle s = (if connectionState s = Connected \<or> connectionState s = Connecting
     then disconnect s else connect (map_option profile_id (activeProfile s)) None s)"

section \<open>ProfileCard\<close>

record card_state =
  isActive :: bool
  card_isConnected :: bool
  card_isConnecting :: bool
  card_isDisconnecting :: bool
  card_isError :: bool

definition card_state_of :: "VpnProfile \<Rightarrow> app \<Rightarrow> card_state" where
  "card_state_of p s = (let active = (profile_id p = activeProfileId s); c = connectionState s in
     \<lparr>isActive = active, card_isConnected = (active \<and> c = Connected),
      card_isConnecting = (active \<and> (c = Connecting \<or> c = Reconnecting)),
      card_isDisconnecting = (active \<and> c = Disconnecting), card_isError = (active \<and> c = ErrorState)\<rparr>)"

definition handleConnectClick :: "VpnProfile \<Rightarrow> app \<Rightarrow> app" where
  "handleConnectClick p s =
     (if card_isConnected (card_state_of p s) \<or> card_isConnecting (card_state_of p s)
      then disconnect s else connect (Some (profile_id p)) None s)"

definition cardClass :: "card_state \<Rightarrow> string" where
  "cardClass c = (if card_isConnected c then ''cardConnected'' else if card_isConnecting c then ''cardConnecting''
     else if card_isError c then ''cardError'' else if isActive c then ''cardActive'' else ''card'')"

text \<open>The text of the status badge, if there is one.\<close>

definition renderStatusBadge :: "dictionary \<Rightarrow> card_state \<Rightarrow> string option" where
  "renderStatusBadge t c =
     (if card_isConnected c then Some (toUpperCase (t ''common.connected''))
      else if card_isConnecting c then Some (toUpperCase (t ''common.connecting'') @ ''...'')
      else if card_isDisconnecting c then Some (toUpperCase (t ''common.disconnecting'') @ ''...'')
      else if card_isError c then Some (toUpperCase (t ''common.error''))
      else None)"

record button_props =
  btn_children :: string
  btn_color :: string
  btn_variant :: string
  btn_loading :: bool

definition getButtonProps :: "dictionary \<Rightarrow> card_state \<Rightarrow> button_props" where
  "getButtonProps t c =
     (if card_isConnected c then \<lparr>btn_children = t ''profiles.disconnect'', btn_color = ''red'',
        btn_variant = ''filled'', btn_loading = False\<rparr>
      else if card_isConnecting c then \<lparr>btn_children = t ''common.cancel'', btn_color = ''yellow'',
        btn_variant = ''filled'', btn_loading = False\<rparr>
      else if card_isDisconnecting c then \<lparr>btn_children = t ''common.disconnecting'' @ ''...'',
        btn_color = ''gray'', btn_variant = ''light'', btn_loading = True\<rparr>
      else if card_isError c then \<lparr>btn_children = t ''common.reset'', btn_color = ''red'',
        btn_variant = ''light'', btn_loading = False\<rparr>
      else \<lparr>btn_children = t ''profiles.connect'', btn_color = (if isActive c then ''cyan'' else ''gray''),
        btn_variant = (if isActive c then ''filled'' else ''light''), btn_loading = False\<rparr>)"

definition locationSubtitle :: "VpnProfile \<Rightarrow> string" where
  "locationSubtitle p = or_str
     (Some (joinWith '', '' (filter (\<lambda>x. x \<noteq> []) [serverCity p, serverCountry p]))) ''Remote Gateway''"

definition pingColor :: "nat \<Rightarrow> string" where
  "pingColor ping = (if ping > 0 \<and> ping \<le> 50 then ''#34d399'' else if ping \<le> 100 then ''#fbbf24''
     else ''#f97316'')"

section \<open>DashboardProfileDeck\<close>

text \<open>\<open>sort\<close> is stable: the comparison only separates favourites from the others.\<close>

definition sortedProfiles :: "VpnProfile list \<Rightarrow> VpnProfile list" where
  "sortedProfiles ps = sort_key (\<lambda>p. if isFavorite p then 0 else (1::nat)) ps"

text \<open>\<open>Math.round\<close>, for the slide the mobile deck shows; \<open>w\<close> is the width of the container.\<close>

definition round_half_up :: "rat \<Rightarrow> int" where
  "round_half_up x = \<lfloor>x + 1 / 2\<rfloor>"

definition handleScroll :: "rat \<Rightarrow> rat \<Rightarrow> nat \<Rightarrow> int" where
  "handleScroll scrollLeft w slides = min (round_half_up (scrollLeft / (w * 85 / 100))) (int slides)"

definition scrollToSlide :: "rat \<Rightarrow> nat \<Rightarrow> rat" where
  "scrollToSlide w i = of_nat i * (w * 85 / 100 + 12)"

section \<open>ProfileLibraryView\<close>

datatype library_filter = FilterAll | FilterFavorites | FilterWireguard | FilterOpenvpn

definition mentions :: "string \<Rightarrow> string \<Rightarrow> bool" where
  "mentions field query = str_includes (toLowerCase field) (toLowerCase query)"

definition matchesSearch :: "string \<Rightarrow> VpnProfile \<Rightarrow> bool" where
  "matchesSearch search p \<longleftrightarrow> mentions (profile_name p) search \<or> mentions (serverCountry p) search \<or>
     mentions (serverHost p) search"

definition matchesFilter :: "library_filter \<Rightarrow> VpnProfile \<Rightarrow> bool" where
  "matchesFilter f p = (case f of
     FilterFavorites \<Rightarrow> isFavorite p
   | FilterWireguard \<Rightarrow> protocol p = Wireguard
   | FilterOpenvpn \<Rightarrow> str_includes (protocol_string (protocol p)) ''openvpn''
   | FilterAll \<Rightarrow> True)"

definition filteredProfiles :: "string \<Rightarrow> library_filter \<Rightarrow> VpnProfile list \<Rightarrow> VpnProfile list" where
  "filteredProfiles search f ps = filter (\<lambda>p. matchesSearch search p \<and> matchesFilter f p) ps"

definition favoritesCount :: "VpnProfile list \<Rightarrow> nat" where
  "favoritesCount ps = length (filter isFavorite ps)"

definition formatProtocolLabel :: "string \<Rightarrow> string" where
  "formatProtocolLabel proto =
     (if proto = ''wireguard'' then ''WG'' else if proto = ''openvpn_tcp'' then ''OVPN TCP''
      else if proto = ''openvpn_udp'' then ''OVPN UDP'' else if proto = ''openvpn'' then ''OVPN''
      else toUpperCase proto)"

section \<open>BottomStatusBar\<close>

definition interfaceName :: "app \<Rightarrow> string" where
  "interfaceName s = (if map_option protocol (find_by profile_id (activeProfileId s) (profiles s)) = Some Wireguard
     then ''wg0'' else ''tun0'')"

definition getKsDisplay :: "dictionary \<Rightarrow> KillSwitchMode \<Rightarrow> string \<times> string" where
  "getKsDisplay t m = (case m of
     KsStrict \<Rightarrow> (t ''statusBar.killSwitchStrict'', ''teal'')
   | KsStandard \<Rightarrow> (t ''statusBar.killSwitchAuto'', ''blue'')
   | KsOff \<Rightarrow> (t ''statusBar.killSwitchOff'', ''red''))"

end
