(* ===== verification/Tool_Views.thy ===== *)
theory Tool_Views
  imports Dashboard_Views
begin

text \<open>
  The working views and the window around them: \<^verbatim>\<open>logs/LogConsoleView.tsx\<close>,
  \<^verbatim>\<open>logs/DiagnosticExportModal.tsx\<close>, \<^verbatim>\<open>dashboard/DashboardFullLogStream.tsx\<close>,
  \<^verbatim>\<open>layout/SplitPaneLayout.tsx\<close>, \<^verbatim>\<open>layout/SpotlightSearch.tsx\<close>, \<^verbatim>\<open>layout/Titlebar.tsx\<close>,
  \<^verbatim>\<open>layout/WindowResizeBorders.tsx\<close>, \<^verbatim>\<open>layout/Sidebar.tsx\<close>, the split-tunnel dialogs,
  \<^verbatim>\<open>security/SecurityHubView.tsx\<close>, \<^verbatim>\<open>security/DnsLeakTestModal.tsx\<close>, \<^verbatim>\<open>settings/SettingsView.tsx\<close>
  and \<^verbatim>\<open>i18n/index.ts\<close>.
\<close>

section \<open>LogConsoleView\<close>

definition log_matches :: "string \<Rightarrow> string \<Rightarrow> LogEntry \<Rightarrow> bool" where
  "log_matches level query l \<longleftrightarrow>
     (level = ''ALL'' \<or> level_string (log_level l) = level) \<and>
     (trim query = [] \<or>
      str_includes (toLowerCase (log_message l)) (toLowerCase query) \<or>
      str_includes (toLowerCase (log_source l)) (toLowerCase query) \<or>
      str_includes (toLowerCase (level_string (log_level l))) (toLowerCase query) \<or>
      str_includes (toLowerCase (log_timestamp l)) (toLowerCase query))"

definition filteredLogs :: "string \<Rightarrow> string \<Rightarrow> LogEntry list \<Rightarrow> LogEntry list" where
  "filteredLogs level query ls = rev (filter (log_matches level query) ls)"

record log_stats =
  stat_total :: nat
  stat_error :: nat
  stat_warn :: nat
  stat_info :: nat
  stat_debug :: nat

definition count_level :: "LogEntry \<Rightarrow> log_stats \<Rightarrow> log_stats" where
  "count_level l st = (case log_level l of
     ERROR \<Rightarrow> st\<lparr>stat_error := Suc (stat_error st)\<rparr>
   | WARN \<Rightarrow> st\<lparr>stat_warn := Suc (stat_warn st)\<rparr>
   | INFO \<Rightarrow> st\<lparr>stat_info := Suc (stat_info st)\<rparr>
   | DEBUG \<Rightarrow> st\<lparr>stat_debug := Suc (stat_debug st)\<rparr>)"

definition stats :: "LogEntry list \<Rightarrow> log_stats" where
  "stats ls = fold count_level ls
     \<lparr>stat_total = length ls, stat_error = 0, stat_warn = 0, stat_info = 0, stat_debug = 0\<rparr>"

definition format_log :: "LogEntry \<Rightarrow> string" where
  "format_log l = ''['' @ log_timestamp l @ ''] ['' @ padEnd 5 (CHR '' '') (level_string (log_level l)) @
     ''] ['' @ log_source l @ '']: '' @ log_message l"

definition getFullFormattedLogs :: "LogEntry list \<Rightarrow> string" where
  "getFullFormattedLogs shown = joinWith [CHR 0x0A] (map format_log shown)"

definition getLevelColor :: "LogLevel \<Rightarrow> string" where
  "getLevelColor l = (case l of ERROR \<Rightarrow> ''#ef4444'' | WARN \<Rightarrow> ''#f59e0b'' | INFO \<Rightarrow> ''#38bdf8''
     | DEBUG \<Rightarrow> ''#a78bfa'')"

definition levelFilterData :: "log_stats \<Rightarrow> (string \<times> string) list" where
  "levelFilterData st =
     [(''ALL'', ''ALL ('' @ string_of_nat (stat_total st) @ '')''),
      (''INFO'', ''INFO ('' @ string_of_nat (stat_info st) @ '')''),
      (''WARN'', ''WARN ('' @ string_of_nat (stat_warn st) @ '')''),
      (''ERROR'', ''ERR ('' @ string_of_nat (stat_error st) @ '')''),
      (''DEBUG'', ''DEBUG ('' @ string_of_nat (stat_debug st) @ '')'')]"

section \<open>DashboardFullLogStream and DiagnosticExportModal\<close>

definition recentLogs :: "LogEntry list \<Rightarrow> LogEntry list" where
  "recentLogs ls = slice_last 30 ls"

record export_options =
  includeLogs :: bool
  includeRoutes :: bool
  includeDns :: bool
  sanitizeIps :: bool

record diagnostic_bundle =
  bd_exportedAt :: string
  bd_vpnhubVersion :: string
  bd_platform :: string
  bd_sanitized :: bool
  bd_logs :: "LogEntry list"
  bd_routeTable :: "string list"
  bd_dnsConfig :: "(string list \<times> string) option"

definition bundleData :: "string \<Rightarrow> export_options \<Rightarrow> LogEntry list \<Rightarrow> diagnostic_bundle" where
  "bundleData now op ls = \<lparr>bd_exportedAt = now, bd_vpnhubVersion = ''0.1.2'',
     bd_platform = ''Linux x86_64 (Kernel 6.8.0)'', bd_sanitized = sanitizeIps op,
     bd_logs = (if includeLogs op then slice_last 200 ls else []),
     bd_routeTable = (if includeRoutes op
       then [''default via 10.8.0.1 dev wg0 proto static metric 50'',
             ''103.21.244.18 via 192.168.1.1 dev eno1 proto static metric 100'',
             ''192.168.1.0/24 dev eno1 proto kernel scope link src 192.168.1.105'']
       else []),
     bd_dnsConfig = (if includeDns op then Some ([''1.1.1.1'', ''1.0.0.1''], ''vpnhub.internal'') else None)\<rparr>"

section \<open>SplitPaneLayout\<close>

definition minWidth :: int where "minWidth = 230"
definition maxWidth :: int where "maxWidth = 380"
definition defaultWidth :: int where "defaultWidth = 230"
definition collapsedWidth :: int where "collapsedWidth = 62"

record pane =
  expandedWidth :: int
  isCollapsed :: bool
  isDragging :: bool
  stored_width :: "string option"
  stored_collapsed :: "string option"

definition clamp_width :: "int \<Rightarrow> int" where
  "clamp_width w = min (max w minWidth) maxWidth"

text \<open>\<open>parseInt(saved, 10)\<close>: the leading digits after white space and a sign, if there are any.\<close>

definition parseInt :: "string \<Rightarrow> int option" where
  "parseInt s =
     (let u = dropWhile is_space s;
          neg = startsWith u ''-''; v = (if neg \<or> startsWith u ''+'' then tl u else u);
          ds = takeWhile is_digit v
      in if ds = [] then None
         else Some (if neg then - int (parse_digits ds) else int (parse_digits ds)))"

definition initial_width :: "string option \<Rightarrow> int" where
  "initial_width saved = (case saved of
     None \<Rightarrow> defaultWidth
   | Some txt \<Rightarrow> if txt = [] then defaultWidth
       else (case parseInt txt of Some n \<Rightarrow> clamp_width n | None \<Rightarrow> defaultWidth))"

definition pane_mount :: "string option \<Rightarrow> string option \<Rightarrow> pane" where
  "pane_mount width collapsed = \<lparr>expandedWidth = initial_width width,
     isCollapsed = (collapsed = Some ''true''), isDragging = False,
     stored_width = width, stored_collapsed = collapsed\<rparr>"

text \<open>The media queries \<open>isMobile\<close> and \<open>isTablet\<close> are arguments.\<close>

definition currentWidth :: "bool \<Rightarrow> bool \<Rightarrow> pane \<Rightarrow> int" where
  "currentWidth mobile tablet p =
     (if mobile then 0 else if (if tablet then True else isCollapsed p) then collapsedWidth
      else expandedWidth p)"

definition isCompact :: "bool \<Rightarrow> bool \<Rightarrow> pane \<Rightarrow> bool" where
  "isCompact mobile tablet p \<longleftrightarrow> mobile \<or> (if tablet then True else isCollapsed p)"

definition handleToggleCollapse :: "bool \<Rightarrow> pane \<Rightarrow> pane" where
  "handleToggleCollapse mobile p = (if mobile then p
     else p\<lparr>isCollapsed := \<not> isCollapsed p,
            stored_collapsed := Some (if isCollapsed p then ''false'' else ''true'')\<rparr>)"

definition pane_mouse_down :: "bool \<Rightarrow> bool \<Rightarrow> pane \<Rightarrow> pane" where
  "pane_mouse_down mobile tablet p = (if mobile \<or> tablet then p
     else let p1 = p\<lparr>isDragging := True\<rparr>
          in if isCollapsed p then p1\<lparr>isCollapsed := False, stored_collapsed := Some ''false''\<rparr> else p1)"

definition pane_mouse_move :: "int \<Rightarrow> int \<Rightarrow> pane \<Rightarrow> pane" where
  "pane_mouse_move clientX left p = (if \<not> isDragging p then p
     else p\<lparr>expandedWidth := clamp_width (clientX - left),
            stored_width := Some (string_of_int (clamp_width (clientX - left)))\<rparr>)"

definition pane_mouse_up :: "pane \<Rightarrow> pane" where
  "pane_mouse_up p = p\<lparr>isDragging := False\<rparr>"

definition pane_key_down :: "bool \<Rightarrow> bool \<Rightarrow> string \<Rightarrow> pane \<Rightarrow> pane" where
  "pane_key_down ctrl mobile key p =
     (if ctrl \<and> toLowerCase key = ''b'' then handleToggleCollapse mobile p else p)"

inductive pane_reach :: "pane \<Rightarrow> bool" where
  mount: "pane_reach (pane_mount w c)"
| toggle: "pane_reach p \<Longrightarrow> pane_reach (handleToggleCollapse mobile p)"
| down: "pane_reach p \<Longrightarrow> pane_reach (pane_mouse_down mobile tablet p)"
| move: "pane_reach p \<Longrightarrow> pane_reach (pane_mouse_move x l p)"
| up: "pane_reach p \<Longrightarrow> pane_reach (pane_mouse_up p)"
| key: "pane_reach p \<Longrightarrow> pane_reach (pane_key_down ctrl mobile k p)"

section \<open>SpotlightSearch\<close>

definition spotlight_key :: "bool \<Rightarrow> string \<Rightarrow> app \<Rightarrow> app" where
  "spotlight_key ctrl key s =
     (if ctrl \<and> toLowerCase key = ''k'' then setSpotlightOpen (\<not> isSpotlightOpen s) s else s)"

definition spotlight_profiles :: "string \<Rightarrow> VpnProfile list \<Rightarrow> VpnProfile list" where
  "spotlight_profiles query ps = filter (\<lambda>p. mentions (profile_name p) query \<or>
     mentions (serverCountry p) query \<or> mentions (protocol_string (protocol p)) query \<or>
     (\<exists>tag \<in> set (tags p). mentions tag query)) ps"

datatype spotlight_action = NavDash | NavProfiles | NavSecurity | ToggleKs | NavLogs

definition spotlight_actions :: "spotlight_action list" where
  "spotlight_actions = [NavDash, NavProfiles, NavSecurity, ToggleKs, NavLogs]"

definition action_title :: "dictionary \<Rightarrow> app \<Rightarrow> spotlight_action \<Rightarrow> string" where
  "action_title t s a = (case a of
     NavDash \<Rightarrow> t ''nav.dashboard'' | NavProfiles \<Rightarrow> t ''nav.profiles'' | NavSecurity \<Rightarrow> t ''nav.security''
   | ToggleKs \<Rightarrow> t ''security.killSwitchTitle'' @ '' ('' @
       (if killSwitch (securitySettings s) = KsStrict then t ''common.disable'' else t ''common.enable'') @ '')''
   | NavLogs \<Rightarrow> t ''nav.logs'')"

definition action_subtitle :: "dictionary \<Rightarrow> spotlight_action \<Rightarrow> string" where
  "action_subtitle t a = (case a of
     NavDash \<Rightarrow> t ''dashboard.heroTitleConnected'' | NavProfiles \<Rightarrow> t ''profiles.subtitle''
   | NavSecurity \<Rightarrow> t ''security.subtitle'' | ToggleKs \<Rightarrow> t ''security.killSwitchDesc''
   | NavLogs \<Rightarrow> t ''logs.subtitle'')"

definition filteredActions :: "dictionary \<Rightarrow> string \<Rightarrow> app \<Rightarrow> spotlight_action list" where
  "filteredActions t query s = filter (\<lambda>a. mentions (action_title t s a) query \<or>
     mentions (action_subtitle t a) query) spotlight_actions"

definition action_select :: "spotlight_action \<Rightarrow> app \<Rightarrow> app" where
  "action_select a s = setSpotlightOpen False (case a of
     NavDash \<Rightarrow> setActiveTab TabDashboard s
   | NavProfiles \<Rightarrow> setActiveTab TabProfiles s
   | NavSecurity \<Rightarrow> setActiveTab TabSecurity s
   | ToggleKs \<Rightarrow> setKillSwitch (if killSwitch (securitySettings s) = KsStrict then KsOff else KsStrict) s
   | NavLogs \<Rightarrow> setActiveTab TabLogs s)"

definition spotlight_connect :: "VpnProfile \<Rightarrow> app \<Rightarrow> app" where
  "spotlight_connect p s = setSpotlightOpen False (connect (Some (profile_id p)) None s)"

section \<open>Titlebar, resize borders, sidebar\<close>

definition getDaemonBadge :: "dictionary \<Rightarrow> bool \<Rightarrow> app \<Rightarrow> string" where
  "getDaemonBadge t mobile s = (case daemonHealth s of
     HealthConnected \<Rightarrow> if mobile then t ''titlebar.active''
       else t ''titlebar.active'' @ '' ('' @ daemonVersion s @ '')''
   | HealthReconnecting \<Rightarrow> if mobile then t ''titlebar.reconnecting'' else t ''titlebar.reconnecting'' @ ''...''
   | HealthOffline \<Rightarrow> t ''titlebar.offline'')"

text \<open>\<open>onControl\<close> says whether the pointer is on a button, an input or a link.\<close>

definition titlebar_mouse_down :: "nat \<Rightarrow> bool \<Rightarrow> app \<Rightarrow> app" where
  "titlebar_mouse_down button onControl s = (if button = 0 \<and> \<not> onControl
     then send (issued (startDragging (tauri s))) s else s)"

definition titlebar_double_click :: "bool \<Rightarrow> app \<Rightarrow> app" where
  "titlebar_double_click onControl s = (if \<not> onControl then send (issued (windowMaximize (tauri s))) s else s)"

definition titlebar_close :: "app \<Rightarrow> app" where
  "titlebar_close s = send (issued (windowClose (tauri s) (minimizeToTray (appSettings s)))) s"

definition resize_mouse_down :: "nat \<Rightarrow> string \<Rightarrow> app \<Rightarrow> app" where
  "resize_mouse_down button direction s =
     (if button \<noteq> 0 then s else send (issued (startResizeDragging (tauri s) direction)) s)"

definition NAV_ITEMS :: "NavigationTab list" where
  "NAV_ITEMS = [TabDashboard, TabProfiles, TabSecurity, TabLogs, TabSettings]"

definition getNavLabel :: "dictionary \<Rightarrow> NavigationTab \<Rightarrow> string" where
  "getNavLabel t tab = (case tab of TabDashboard \<Rightarrow> t ''nav.dashboard'' | TabProfiles \<Rightarrow> t ''nav.profiles''
     | TabSecurity \<Rightarrow> t ''nav.security'' | TabLogs \<Rightarrow> t ''nav.logs'' | TabSettings \<Rightarrow> t ''nav.settings'')"

section \<open>Split-tunnel rules\<close>

record ip_rule_form =
  newTarget :: string
  newType :: IpRuleType
  newDesc :: string
  newMode :: SplitTunnelMode

definition handleAddIpRule :: "string \<Rightarrow> ip_rule_form \<times> app \<Rightarrow> ip_rule_form \<times> app" where
  "handleAddIpRule uuid fs = (case fs of (f, s) \<Rightarrow>
     if newTarget f = [] then (f, s)
     else (f\<lparr>newTarget := [], newDesc := []\<rparr>,
       addIpRule \<lparr>ip_id = uuid, ip_target = newTarget f, ip_type = newType f,
         ip_description = or_str (Some (newDesc f))
           (if newType f = Cidr then ''Custom Subnet'' else ''Custom Domain Pattern''),
         ip_mode = newMode f, ip_enabled = True\<rparr> s))"

record app_rule_form =
  arf_name :: string
  arf_path :: string
  arf_icon :: string
  arf_mode :: SplitTunnelMode

definition handleSelectCommon :: "string \<times> string \<times> string \<Rightarrow> app_rule_form \<Rightarrow> app_rule_form" where
  "handleSelectCommon a f = (case a of (name, path, icon) \<Rightarrow>
     f\<lparr>arf_name := name, arf_path := path, arf_icon := icon\<rparr>)"

definition handleAdd :: "string \<Rightarrow> app_rule_form \<Rightarrow> app \<Rightarrow> app" where
  "handleAdd uuid f s = (if arf_name f = [] \<or> arf_path f = [] then s
     else addAppRule \<lparr>app_id = uuid, app_name = arf_name f, app_path = arf_path f,
       app_icon = Some (arf_icon f), app_mode = arf_mode f, app_enabled = True\<rparr> s)"

section \<open>Security and settings\<close>

definition no_security_change :: PartialSecuritySettings where
  "no_security_change = \<lparr>p_killSwitch = None, p_dnsProtection = None, p_customDnsProvider = None,
     p_customDnsIp = None, p_customDnsServers = None, p_ipv6LeakProtection = None,
     p_webRtcProtection = None, p_lanBypass = None, p_defaultUseOnly = None,
     p_defaultRoutingMode = None\<rparr>"

definition hub_kill_switch :: "bool \<Rightarrow> app \<Rightarrow> app" where
  "hub_kill_switch checked s = setKillSwitch (if checked then KsStrict else KsOff) s"

text \<open>The switches of the three shields.\<close>

definition shield_ipv6 :: "bool \<Rightarrow> app \<Rightarrow> app" where
  "shield_ipv6 b s = updateSecuritySettings (no_security_change\<lparr>p_ipv6LeakProtection := Some b\<rparr>) s"

definition shield_webrtc :: "bool \<Rightarrow> app \<Rightarrow> app" where
  "shield_webrtc b s = updateSecuritySettings (no_security_change\<lparr>p_webRtcProtection := Some b\<rparr>) s"

definition shield_lan :: "bool \<Rightarrow> app \<Rightarrow> app" where
  "shield_lan b s = updateSecuritySettings (no_security_change\<lparr>p_lanBypass := Some b\<rparr>) s"

text \<open>
  The DNS leak test makes no query. \<open>runTest\<close> starts three timers, the last of which shows one of
  two fixed server lists, chosen by the connection state when the test was started; the verdict
  next to the list is the connection state when it is displayed.
\<close>

record TestServer =
  dns_ip :: string
  dns_hostname :: string
  dns_isp :: string
  dns_country :: string
  dns_flag :: string

record dns_test =
  dns_testing :: bool
  dns_progress :: nat
  dns_results :: "TestServer list option"

definition runTest :: "dns_test \<Rightarrow> dns_test" where
  "runTest d = d\<lparr>dns_testing := True, dns_progress := 15, dns_results := None\<rparr>"

definition dns_timer :: "nat \<Rightarrow> dns_test \<Rightarrow> dns_test" where
  "dns_timer n d = d\<lparr>dns_progress := n\<rparr>"

definition tunnel_servers :: "TestServer list" where
  "tunnel_servers = map (\<lambda>ip. \<lparr>dns_ip = ip, dns_hostname = ''one.one.one.one'',
     dns_isp = ''Cloudflare Inc. (Encrypted NRPT)'', dns_country = ''Singapore'',
     dns_flag = [CHR 0xF0, CHR 0x9F, CHR 0x87, CHR 0xB8, CHR 0xF0, CHR 0x9F, CHR 0x87, CHR 0xAC]\<rparr>)
     [''172.64.36.1'', ''172.64.36.2'']"

definition local_servers :: "TestServer list" where
  "local_servers = map (\<lambda>ip. \<lparr>dns_ip = ip, dns_hostname = ''dns-cache.isp-local.net'',
     dns_isp = ''Local ISP Telecommunication Corp'', dns_country = ''Vietnam'',
     dns_flag = [CHR 0xF0, CHR 0x9F, CHR 0x87, CHR 0xBB, CHR 0xF0, CHR 0x9F, CHR 0x87, CHR 0xB3]\<rparr>)
     [''203.113.131.1'', ''203.113.131.2'']"

definition dns_finish :: "bool \<Rightarrow> dns_test \<Rightarrow> dns_test" where
  "dns_finish wasConnected d = d\<lparr>dns_progress := 100, dns_testing := False,
     dns_results := Some (if wasConnected then tunnel_servers else local_servers)\<rparr>"

definition isProtected :: "dns_test \<Rightarrow> app \<Rightarrow> bool" where
  "isProtected d s \<longleftrightarrow> dns_results d \<noteq> None \<and> connectionState s = Connected"

definition no_change :: PartialAppSettings where
  "no_change = \<lparr>p_autoLaunch = None, p_startMinimized = None, p_autoConnect = None,
     p_minimizeToTray = None, p_notificationsEnabled = None, p_autoReconnect = None, p_language = None\<rparr>"

text \<open>
  The settings view works on the store and on the autostart entry of the operating system, which
  a plugin reads and writes: \<open>available\<close> says whether the plugin answers the query, \<open>works\<close>
  whether a write succeeds; a failure is only logged to the console.
\<close>

type_synonym desktop = "app \<times> bool"

definition autostart_query :: "bool \<Rightarrow> desktop \<Rightarrow> desktop" where
  "autostart_query available d = (case d of (s, enabled) \<Rightarrow>
     if available \<and> enabled \<noteq> autoLaunch (appSettings s)
     then (updateAppSettings (no_change\<lparr>p_autoLaunch := Some enabled\<rparr>) s, enabled) else d)"

definition handleToggleAutoLaunch :: "bool \<Rightarrow> bool \<Rightarrow> desktop \<Rightarrow> desktop" where
  "handleToggleAutoLaunch works checked d = (case d of (s, enabled) \<Rightarrow>
     (updateAppSettings (no_change\<lparr>p_autoLaunch := Some checked\<rparr>) s,
      if works then checked else enabled))"

definition handleResetDefaults :: "dictionary \<Rightarrow> app \<Rightarrow> app" where
  "handleResetDefaults t s =
     show_toast (vpn_toast (t ''settings.settingsRestoredTitle'') (t ''settings.settingsRestoredMsg'') ''cyan'')
       (updateAppSettings \<lparr>p_autoLaunch = Some False, p_startMinimized = Some True,
          p_autoConnect = Some False, p_minimizeToTray = Some True, p_notificationsEnabled = Some (Some True),
          p_autoReconnect = Some (Some True), p_language = Some (Some En)\<rparr> s)"

section \<open>Languages\<close>

definition getDictionary :: "(Language \<Rightarrow> dictionary) \<Rightarrow> Language option \<Rightarrow> dictionary" where
  "getDictionary dictionaries lang = (case lang of Some l \<Rightarrow> dictionaries l | None \<Rightarrow> dictionaries En)"

definition current_language :: "app \<Rightarrow> Language" where
  "current_language s = nullish (language (appSettings s)) En"

definition useTranslation :: "(Language \<Rightarrow> dictionary) \<Rightarrow> app \<Rightarrow> dictionary" where
  "useTranslation dictionaries s = dictionaries (current_language s)"

definition setLanguage :: "Language \<Rightarrow> app \<Rightarrow> app" where
  "setLanguage l s = updateAppSettings (no_change\<lparr>p_language := Some (Some l)\<rparr>) s"

end
