(* ===== verification/View_Properties.thy ===== *)
theory View_Properties
  imports Tool_Views Session_Properties
begin

text \<open>
  What the views show and trigger: the power buttons agree with each other, the log console
  counts what it filters, the clock and the sparkline are drawn to scale, the sidebar stays
  within its limits, and settings survive a restart.
\<close>

section \<open>The power buttons\<close>

lemma activeProfile_listed:
  "find_by profile_id (activeProfileId s) (profiles s) = Some p \<Longrightarrow>
     activeProfile s = Some p \<and> profile_id p = activeProfileId s"
  by (auto simp: activeProfile_def dest: find_by_in)

text \<open>
  With a selected profile that is listed and a reachable daemon, the dashboard
  button, the tray menu, the mini widget and the card of that profile do the same in every
  settled state: they disconnect a tunnel that is up or being set up and connect otherwise.
  While the tunnel is reconnecting they differ: the mini widget starts another connection
  where the others disconnect.
\<close>

theorem power_buttons_agree:
  assumes "find_by profile_id (activeProfileId s) (profiles s) = Some p"
    and "daemonHealth s \<noteq> HealthOffline"
  shows "(connectionState s \<in> {Connected, Connecting, Disconnected, ErrorState} \<longrightarrow>
      hero_toggle s = tray_toggle s \<and> mini_toggle s = tray_toggle s \<and>
      handleConnectClick p s = tray_toggle s) \<and>
    (connectionState s = Reconnecting \<longrightarrow>
      hero_toggle s = disconnect s \<and> tray_toggle s = disconnect s \<and> handleConnectClick p s = disconnect s \<and>
      mini_toggle s = connect (Some (activeProfileId s)) None s)"
  using assms activeProfile_listed [OF assms(1)]
  by (auto simp: hero_toggle_def tray_toggle_def mini_toggle_def handleConnectClick_def
      card_state_of_def isConnecting_state_def Let_def)

theorem power_buttons_agree_witness:
  "hero_toggle (sample_app [sample_profile]) = tray_toggle (sample_app [sample_profile])"
  using power_buttons_agree [of "sample_app [sample_profile]" sample_profile]
  by (simp add: sample_profile_def)

section \<open>The log console\<close>

lemma level_string_inject [simp]: "level_string a = level_string b \<longleftrightarrow> a = b"
  by (cases a; cases b) simp_all

lemma level_string_not_all [simp]: "level_string a \<noteq> ''ALL''"
  by (cases a) simp_all

lemma trim_Nil [simp]: "trim [] = []"
  by (simp add: trim_def)

lemma fold_count_level:
  "stat_total (fold count_level ls st) = stat_total st \<and>
   stat_error (fold count_level ls st) = stat_error st + length (filter (\<lambda>l. log_level l = ERROR) ls) \<and>
   stat_warn (fold count_level ls st) = stat_warn st + length (filter (\<lambda>l. log_level l = WARN) ls) \<and>
   stat_info (fold count_level ls st) = stat_info st + length (filter (\<lambda>l. log_level l = INFO) ls) \<and>
   stat_debug (fold count_level ls st) = stat_debug st + length (filter (\<lambda>l. log_level l = DEBUG) ls)"
proof (induction ls arbitrary: st)
  case (Cons l ls)
  show ?case by (cases "log_level l") (simp_all add: Cons.IH count_level_def [of l])
qed simp

text \<open>
  The console shows the matching entries, newest first and in no other order, and
  the number on each level button is the number of entries it shows when nothing is searched
  for; the four levels add up to the total.
\<close>

theorem log_console_exact:
  "(\<forall>l. l \<in> set (filteredLogs level query ls) \<longleftrightarrow> l \<in> set ls \<and> log_matches level query l) \<and>
   subseq (rev (filteredLogs level query ls)) ls \<and>
   length (filteredLogs ''ALL'' [] ls) = stat_total (stats ls) \<and>
   length (filteredLogs ''ERROR'' [] ls) = stat_error (stats ls) \<and>
   length (filteredLogs ''WARN'' [] ls) = stat_warn (stats ls) \<and>
   length (filteredLogs ''INFO'' [] ls) = stat_info (stats ls) \<and>
   length (filteredLogs ''DEBUG'' [] ls) = stat_debug (stats ls) \<and>
   stat_total (stats ls) = stat_error (stats ls) + stat_warn (stats ls) + stat_info (stats ls) + stat_debug (stats ls)"
proof -
  have lv: "filter (log_matches (level_string lv) []) ls = filter (\<lambda>l. log_level l = lv) ls" for lv
    by (intro filter_cong) (simp_all add: log_matches_def)
  have shown: "length (filteredLogs (level_string lv) [] ls) = length (filter (\<lambda>l. log_level l = lv) ls)" for lv
    by (simp add: filteredLogs_def lv)
  have "length ls = length (filter (\<lambda>l. log_level l = ERROR) ls) + length (filter (\<lambda>l. log_level l = WARN) ls) +
      length (filter (\<lambda>l. log_level l = INFO) ls) + length (filter (\<lambda>l. log_level l = DEBUG) ls)"
  proof (induction ls)
    case (Cons l ls)
    then show ?case by (cases "log_level l") simp_all
  qed simp
  then show ?thesis
    using shown [of ERROR] shown [of WARN] shown [of INFO] shown [of DEBUG]
    by (simp add: stats_def fold_count_level) (simp add: filteredLogs_def log_matches_def subseq_filter_left)
qed

section \<open>The uptime clock\<close>

lemma pad2_parse [simp]: "parse_digits (pad2 n) = n"
  by (simp add: pad2_def padStart_parse)

lemma pad2_length: "n < 100 \<Longrightarrow> length (pad2 n) = 2" "2 \<le> length (pad2 n)"
  using length_string_of_nat [of n 2] by (simp_all add: pad2_def)

text \<open>
  The uptime is shown as hours, minutes and seconds that add up to it, minutes and
  seconds with exactly two digits and below sixty.
\<close>

theorem formatUptime_exact:
  "\<exists>h m s. formatUptime n = h @ '':'' @ m @ '':'' @ s \<and> length m = 2 \<and> length s = 2 \<and> 2 \<le> length h \<and>
     parse_digits m < 60 \<and> parse_digits s < 60 \<and>
     3600 * parse_digits h + 60 * parse_digits m + parse_digits s = n"
proof -
  have "n mod 3600 div 60 < 60" "n mod 60 < 60"
    by (simp_all add: less_mult_imp_div_less)
  moreover have "3600 * (n div 3600) + 60 * (n mod 3600 div 60) + n mod 60 = n"
  proof -
    have "n mod 60 = n mod 3600 mod 60" by (simp add: mod_mod_cancel)
    then have "60 * (n mod 3600 div 60) + n mod 60 = n mod 3600" by simp
    then show ?thesis using mult_div_mod_eq [of 3600 n] by linarith
  qed
  ultimately show ?thesis
    by (intro exI [of _ "pad2 (n div 3600)"] exI [of _ "pad2 (n mod 3600 div 60)"] exI [of _ "pad2 (n mod 60)"])
      (simp add: formatUptime_def pad2_length)
qed

section \<open>The sparkline\<close>

lemma fold_max_ge:
  shows fold_max_start: "a \<le> fold max xs (a :: rat)"
    and fold_max_in: "x \<in> set xs \<Longrightarrow> x \<le> fold max xs (a :: rat)"
proof (induction xs arbitrary: a)
  case (Cons y ys)
  {
    case 1
    show ?case using Cons.IH(1) [of "max y a"] by simp
  next
    case 2
    then show ?case using Cons.IH(1) [of "max y a"] Cons.IH(2) [of "max y a"] by auto
  }
qed simp_all

lemma maxSpeed_bounds: "50000 \<le> maxSpeed ps" "p \<in> set ps \<Longrightarrow> downloadSpeed p \<le> maxSpeed ps"
  unfolding maxSpeed_def by (rule fold_max_start) (rule fold_max_in, simp)

text \<open>
  Every point of the download curve lies within the drawing, three units off its
  upper and lower edge; a point of the upload curve rises above that margin exactly when the
  upload exceeds both the largest download shown and 50000 KB/s, since the scale ignores the
  uploads.
\<close>

theorem sparkline_within_drawing:
  assumes "6 < h" "p \<in> set ps" "0 \<le> downloadSpeed p"
  shows "3 \<le> svg_y h (maxSpeed ps) (downloadSpeed p) \<and> svg_y h (maxSpeed ps) (downloadSpeed p) \<le> h - 3 \<and>
    (svg_y h (maxSpeed ps) (uploadSpeed p) < 3 \<longleftrightarrow> maxSpeed ps < uploadSpeed p)"
proof -
  have pos: "0 < maxSpeed ps" using maxSpeed_bounds(1) [of ps] by simp
  have y: "svg_y h (maxSpeed ps) v = h - 3 - v * ((h - 6) / maxSpeed ps)" for v
    by (simp add: svg_y_def)
  have k: "0 < (h - 6) / maxSpeed ps" "maxSpeed ps * ((h - 6) / maxSpeed ps) = h - 6"
    using assms(1) pos by simp_all
  have "downloadSpeed p * ((h - 6) / maxSpeed ps) \<le> h - 6"
    using mult_right_mono [OF maxSpeed_bounds(2) [OF assms(2)], of "(h - 6) / maxSpeed ps"] k by simp
  moreover have "0 \<le> downloadSpeed p * ((h - 6) / maxSpeed ps)"
    using mult_nonneg_nonneg [OF assms(3) less_imp_le [OF k(1)]] .
  moreover have "h - 6 < uploadSpeed p * ((h - 6) / maxSpeed ps) \<longleftrightarrow> maxSpeed ps < uploadSpeed p"
    using mult_less_cancel_right_pos [OF k(1), of "maxSpeed ps" "uploadSpeed p"] k(2) by simp
  ultimately show ?thesis unfolding y by linarith
qed

definition sample_point :: TelemetryPoint where
  "sample_point = \<lparr>point_timestamp = 0, downloadSpeed = 1000, uploadSpeed = 100000, point_ping = 20\<rparr>"

theorem sparkline_within_drawing_witness:
  "3 \<le> svg_y 40 (maxSpeed [sample_point]) 1000 \<and> svg_y 40 (maxSpeed [sample_point]) 100000 < 3"
  using sparkline_within_drawing [of 40 sample_point "[sample_point]"]
  by (simp add: sample_point_def maxSpeed_def)

section \<open>The profile deck\<close>

lemma insort_favorite: "isFavorite p \<Longrightarrow>
    insort_key (\<lambda>p. if isFavorite p then 0 else (1::nat)) p ps = p # ps"
  by (cases ps) simp_all

lemma insort_other: "\<not> isFavorite p \<Longrightarrow> \<forall>q \<in> set fs. isFavorite q \<Longrightarrow> \<forall>q \<in> set os. \<not> isFavorite q \<Longrightarrow>
    insort_key (\<lambda>p. if isFavorite p then 0 else (1::nat)) p (fs @ os) = fs @ p # os"
  by (induction fs) (cases os, simp_all)

text \<open>
  The deck lists the favourites first and the other profiles after them, each group
  in the order of the store.
\<close>

theorem deck_order:
  "sortedProfiles ps = filter isFavorite ps @ filter (\<lambda>p. \<not> isFavorite p) ps"
proof (induction ps)
  case (Cons p ps)
  then show ?case
    by (cases "isFavorite p") (simp_all add: sortedProfiles_def insort_favorite insort_other)
qed (simp add: sortedProfiles_def)

section \<open>The mobile deck\<close>

text \<open>
  Scrolling the deck to slide \<open>i\<close> and reading back which slide is shown gives \<open>i\<close>
  exactly as long as the twelve pixels of gap that only the first computation counts have not
  added up to half a slide; the slide read is never one that comes before \<open>i\<close>.
\<close>

theorem slide_roundtrip:
  assumes "0 < w" "i \<le> n"
  shows "(handleScroll (scrollToSlide w i) w n = int i \<longleftrightarrow> i = n \<or> 24 * of_nat i < w * 85 / 100) \<and>
    int i \<le> handleScroll (scrollToSlide w i) w n \<and> handleScroll (scrollToSlide w i) w n \<le> int n"
proof -
  define u where "u = w * 85 / 100"
  have u: "0 < u" using assms(1) by (simp add: u_def)
  have off: "scrollToSlide w i / u = of_nat i + 12 * of_nat i / u"
    using u by (simp add: scrollToSlide_def u_def [symmetric] field_simps)
  have "round_half_up (scrollToSlide w i / u) = int i + \<lfloor>12 * of_nat i / u + 1 / 2\<rfloor>"
    unfolding round_half_up_def off using floor_add_int [of "12 * of_nat i / u + 1 / 2" "int i"]
    by (simp add: algebra_simps)
  moreover have "0 \<le> 12 * of_nat i / u" using u by simp
  then have "0 \<le> \<lfloor>12 * of_nat i / u + 1 / 2\<rfloor>" by simp
  moreover have "\<lfloor>12 * of_nat i / u + 1 / 2\<rfloor> < 1 \<longleftrightarrow> 24 * of_nat i < u"
    using u by (simp add: floor_less_iff field_simps)
  ultimately show ?thesis
    unfolding handleScroll_def u_def [symmetric] using assms(2) by linarith
qed

theorem slide_roundtrip_witness:
  "handleScroll (scrollToSlide 400 3) 400 20 = 3 \<and> handleScroll (scrollToSlide 400 15) 400 20 \<noteq> 15"
  using slide_roundtrip [of 400 3 20] slide_roundtrip [of 400 15 20] by simp

section \<open>The sidebar\<close>

lemma digit_not_space: "is_digit c \<Longrightarrow> \<not> is_space c"
  by (auto simp: is_digit_def is_space_def)

lemma digit_not_sign: "is_digit c \<Longrightarrow> c \<noteq> CHR ''-'' \<and> c \<noteq> CHR ''+''"
  by (auto simp: is_digit_def)

lemma parseInt_string_of_nat: "parseInt (string_of_nat n) = Some (int n)"
proof -
  have all: "\<forall>c \<in> set (string_of_nat n). is_digit c" by (auto dest: string_of_nat_digits)
  obtain c cs where c: "string_of_nat n = c # cs" by (cases "string_of_nat n") auto
  have "dropWhile is_space (string_of_nat n) = string_of_nat n"
    using all c digit_not_space by simp
  moreover have "\<not> startsWith (string_of_nat n) ''-''" "\<not> startsWith (string_of_nat n) ''+''"
    using all c digit_not_sign [of c] by (auto simp: startsWith_def)
  moreover have digits: "takeWhile is_digit (string_of_nat n) = string_of_nat n"
    using all by simp
  ultimately show ?thesis by (simp add: parseInt_def Let_def digits)
qed

lemma clamp_width_range: "minWidth \<le> clamp_width w \<and> clamp_width w \<le> maxWidth"
  by (auto simp: clamp_width_def minWidth_def maxWidth_def)

lemma clamp_width_idem: "minWidth \<le> w \<Longrightarrow> w \<le> maxWidth \<Longrightarrow> clamp_width w = w"
  by (auto simp: clamp_width_def)

lemma initial_width_range: "minWidth \<le> initial_width o' \<and> initial_width o' \<le> maxWidth"
  using clamp_width_range
  by (auto simp: initial_width_def defaultWidth_def split: option.splits)
    (auto simp: minWidth_def maxWidth_def)

lemma initial_width_written: "initial_width (Some (string_of_int (clamp_width w))) = clamp_width w"
proof -
  have "string_of_int (clamp_width w) = string_of_nat (nat (clamp_width w))" "0 \<le> clamp_width w"
    using clamp_width_range [of w] by (simp_all add: string_of_int_def minWidth_def)
  then show ?thesis
    using clamp_width_range [of w] by (simp add: initial_width_def parseInt_string_of_nat clamp_width_idem)
qed

lemmas pane_defs = handleToggleCollapse_def pane_mouse_down_def pane_mouse_move_def pane_mouse_up_def
  pane_key_down_def Let_def

lemma pane_reach_inv:
  "pane_reach p \<Longrightarrow> initial_width (stored_width p) = expandedWidth p \<and>
     isCollapsed p = (stored_collapsed p = Some ''true'')"
  by (induction rule: pane_reach.induct) (simp_all add: pane_mount_def pane_defs initial_width_written)

text \<open>
  Whatever text the browser kept for its width and however it is dragged, folded and
  unfolded, the sidebar is 0, 62 or between 230 and 380 pixels wide, and mounting it again from
  what it stored brings back the same width and the same folding.
\<close>

theorem sidebar_width:
  assumes "pane_reach p"
  shows "currentWidth mobile tablet p \<in> {0, 62} \<union> {230..380} \<and>
    (let p' = pane_mount (stored_width p) (stored_collapsed p)
     in expandedWidth p' = expandedWidth p \<and> isCollapsed p' = isCollapsed p)"
  using pane_reach_inv [OF assms] initial_width_range [of "stored_width p"]
  by (auto simp: currentWidth_def pane_mount_def collapsedWidth_def minWidth_def maxWidth_def)

theorem sidebar_width_witness:
  "currentWidth False False (pane_mouse_move 9000 0 (pane_mouse_down False False
     (pane_mount (Some ''12 px'') (Some ''true'')))) \<in> {0, 62} \<union> {230..380}"
  using sidebar_width [OF pane_reach.move [OF pane_reach.down [OF pane_reach.mount]]] by blast

end
