(* ===== verification/Ui_Elements.thy ===== *)
theory Ui_Elements
  imports Tool_Views
begin

text \<open>
  The element tree a component renders, as far as the program decides it: the texts and badges
  shown, the controls with their state and their handlers, in the order of the document. Layout
  containers are flattened; icons, sizes and class names are left out, except where the code
  computes a colour. A handler is a value of the parameter \<open>'e\<close>: a transformation of the store,
  of a local form, or of both. The trees are what the components under
  \<^verbatim>\<open>components/\<close> return.
\<close>

section \<open>Elements\<close>

datatype 'e element =
  Txt string
| Badge string string
| Btn string bool bool 'e
| Click 'e "'e element list"
| Switch bool "bool \<Rightarrow> 'e"
| Field string string "string \<Rightarrow> 'e"
| Number string "nat option" "nat option \<Rightarrow> 'e"
| Choice string "(string \<times> string) list" "string \<Rightarrow> 'e"
| Tip string "'e element list"
| Drawing string

text \<open>
  \<open>Badge colour text\<close>; \<open>Btn label disabled loading handler\<close>, the label being the text or, for an
  icon, its tooltip; \<open>Click\<close> is an element with content that reacts to a click; \<open>Switch checked\<close>;
  \<open>Field label value\<close>; \<open>Number label value\<close>, a field that reports a number, or nothing when it is
  empty; \<open>Choice value options\<close>, which reports the value of one of its options; \<open>Tip\<close> shows a text
  beside its content: a tooltip, a placeholder or a description. A field without a label has its
  placeholder in that place. \<open>Drawing\<close> is a path of a graphic.
\<close>

definition shown :: "bool \<Rightarrow> 'a list \<Rightarrow> 'a list" where
  "shown b xs = (if b then xs else [])"

fun texts :: "'e element \<Rightarrow> string list" where
  "texts (Txt x) = [x]"
| "texts (Badge c x) = [x]"
| "texts (Btn l d b e) = [l]"
| "texts (Click e cs) = concat (map texts cs)"
| "texts (Switch v f) = []"
| "texts (Field l v f) = [l]"
| "texts (Number l n f) = [l]"
| "texts (Choice v os f) = map snd os"
| "texts (Tip l cs) = l # concat (map texts cs)"
| "texts (Drawing d) = []"

text \<open>The handlers a click can reach: a button that is disabled or loading ignores it.\<close>

fun clicks :: "'e element \<Rightarrow> 'e list" where
  "clicks (Btn l d b e) = (if d \<or> b then [] else [e])"
| "clicks (Click e cs) = e # concat (map clicks cs)"
| "clicks (Tip l cs) = concat (map clicks cs)"
| "clicks (Txt x) = []"
| "clicks (Badge c x) = []"
| "clicks (Switch v f) = []"
| "clicks (Field l v f) = []"
| "clicks (Number l n f) = []"
| "clicks (Choice v os f) = []"
| "clicks (Drawing d) = []"

fun switches :: "'e element \<Rightarrow> (bool \<times> (bool \<Rightarrow> 'e)) list" where
  "switches (Switch v f) = [(v, f)]"
| "switches (Click e cs) = concat (map switches cs)"
| "switches (Tip l cs) = concat (map switches cs)"
| "switches (Txt x) = []"
| "switches (Badge c x) = []"
| "switches (Btn l d b e) = []"
| "switches (Field l v f) = []"
| "switches (Number l n f) = []"
| "switches (Choice v os f) = []"
| "switches (Drawing d) = []"

fun fields :: "'e element \<Rightarrow> (string \<times> (string \<Rightarrow> 'e)) list" where
  "fields (Field l v f) = [(v, f)]"
| "fields (Click e cs) = concat (map fields cs)"
| "fields (Tip l cs) = concat (map fields cs)"
| "fields (Txt x) = []"
| "fields (Badge c x) = []"
| "fields (Btn l d b e) = []"
| "fields (Switch v f) = []"
| "fields (Number l n f) = []"
| "fields (Choice v os f) = []"
| "fields (Drawing d) = []"

definition view_texts :: "'e element list \<Rightarrow> string list" where
  "view_texts es = concat (map texts es)"

definition view_clicks :: "'e element list \<Rightarrow> 'e list" where
  "view_clicks es = concat (map clicks es)"

definition view_switches :: "'e element list \<Rightarrow> (bool \<times> (bool \<Rightarrow> 'e)) list" where
  "view_switches es = concat (map switches es)"

definition view_fields :: "'e element list \<Rightarrow> (string \<times> (string \<Rightarrow> 'e)) list" where
  "view_fields es = concat (map fields es)"

lemma shown_simps [simp]: "shown True xs = xs" "shown False xs = []"
  by (simp_all add: shown_def)

lemma view_append [simp]:
  "view_texts (xs @ ys) = view_texts xs @ view_texts ys"
  "view_clicks (xs @ ys) = view_clicks xs @ view_clicks ys"
  "view_switches (xs @ ys) = view_switches xs @ view_switches ys"
  "view_fields (xs @ ys) = view_fields xs @ view_fields ys"
  by (simp_all add: view_texts_def view_clicks_def view_switches_def view_fields_def)

lemma view_Cons [simp]:
  "view_texts (e # es) = texts e @ view_texts es" "view_texts [] = []"
  "view_clicks (e # es) = clicks e @ view_clicks es" "view_clicks [] = []"
  "view_switches (e # es) = switches e @ view_switches es" "view_switches [] = []"
  "view_fields (e # es) = fields e @ view_fields es" "view_fields [] = []"
  by (simp_all add: view_texts_def view_clicks_def view_switches_def view_fields_def)

section \<open>Controlled inputs\<close>

text \<open>
  A view is a function of the state, and an input of it is what it shows together with the
  handler of a change. The inputs of a view are controlled when each shows what it was last set
  to: setting the \<open>i\<close>-th input to \<open>b\<close> gives a state whose view has an \<open>i\<close>-th input that shows \<open>b\<close>.
\<close>

definition enter :: "('s \<Rightarrow> ('v \<times> ('v \<Rightarrow> 's \<Rightarrow> 's)) list) \<Rightarrow> nat \<Rightarrow> 'v \<Rightarrow> 's \<Rightarrow> 's" where
  "enter inputs i b s = snd (inputs s ! i) b s"

definition fill :: "('s \<Rightarrow> ('v \<times> ('v \<Rightarrow> 's \<Rightarrow> 's)) list) \<Rightarrow> 'v list \<Rightarrow> 's \<Rightarrow> 's" where
  "fill inputs vs s = fold (\<lambda>i. enter inputs i (vs ! i)) [0..<length vs] s"

locale controlled_inputs =
  fixes inputs :: "'s \<Rightarrow> ('v \<times> ('v \<Rightarrow> 's \<Rightarrow> 's)) list"
  assumes entered: "i < length (inputs s) \<Longrightarrow> i < length (inputs (enter inputs i b s)) \<and>
      fst (inputs (enter inputs i b s) ! i) = b"
begin

lemma last_entry_shown:
  assumes "i < length (inputs s)"
  shows "fst (inputs (enter inputs i c (enter inputs i b s)) ! i) = c"
  using entered [OF assms, of b] entered [of i "enter inputs i b s" c] by simp

end

text \<open>
  They are independent when setting one changes what that one shows and nothing else. Then a form
  can be filled in: entering values one input after the other shows exactly these values.
\<close>

locale independent_inputs =
  fixes inputs :: "'s \<Rightarrow> ('v \<times> ('v \<Rightarrow> 's \<Rightarrow> 's)) list"
  assumes entered_only: "i < length (inputs s) \<Longrightarrow>
      map fst (inputs (enter inputs i b s)) = (map fst (inputs s))[i := b]"
begin

lemma entered_length: "i < length (inputs s) \<Longrightarrow> length (inputs (enter inputs i b s)) = length (inputs s)"
  using arg_cong [OF entered_only [of i s b], of length] by simp

lemma filled_prefix:
  "k \<le> length (inputs s) \<Longrightarrow> length vs = length (inputs s) \<Longrightarrow>
   map fst (inputs (fold (\<lambda>i. enter inputs i (vs ! i)) [0..<k] s)) = take k vs @ drop k (map fst (inputs s))"
proof (induction k)
  case 0
  then show ?case by simp
next
  case (Suc k)
  let ?s = "fold (\<lambda>i. enter inputs i (vs ! i)) [0..<k] s"
  from Suc have IH: "map fst (inputs ?s) = take k vs @ drop k (map fst (inputs s))" by simp
  have "length (inputs ?s) = length (inputs s)"
    using arg_cong [OF IH, of length] Suc.prems by simp
  with Suc.prems have "map fst (inputs (enter inputs k (vs ! k) ?s)) = (take k vs @ drop k (map fst (inputs s)))[k := vs ! k]"
    using entered_only [of k ?s "vs ! k"] IH by simp
  also have "\<dots> = take (Suc k) vs @ drop (Suc k) (map fst (inputs s))"
    using Suc.prems by (intro nth_equalityI) (auto simp: nth_append nth_list_update min_def not_less less_Suc_eq_le)
  finally show ?case by simp
qed

lemma filled:
  "length vs = length (inputs s) \<Longrightarrow>
   map fst (inputs (fill inputs vs s)) = vs"
  using filled_prefix [of "length vs" s vs] by (simp add: fill_def)

end

sublocale independent_inputs \<subseteq> controlled_inputs inputs
proof
  fix i s b
  assume i: "i < length (inputs s)"
  then have "fst (inputs (enter inputs i b s) ! i) = map fst (inputs (enter inputs i b s)) ! i"
    by (simp add: entered_length)
  also have "\<dots> = b" using i by (simp add: entered_only)
  finally show "i < length (inputs (enter inputs i b s)) \<and> fst (inputs (enter inputs i b s) ! i) = b"
    using i by (simp add: entered_length)
qed

section \<open>Texts\<close>

text \<open>\<open>String.prototype.replace\<close> with a text: the first occurrence.\<close>

fun replaceFirst :: "string \<Rightarrow> string \<Rightarrow> string \<Rightarrow> string" where
  "replaceFirst pat new [] = (if pat = [] then new else [])"
| "replaceFirst pat new (c # cs) = (if startsWith (c # cs) pat then new @ drop (length pat) (c # cs)
     else c # replaceFirst pat new cs)"

text \<open>A number in a text: exact for non-negative values with up to six decimals.\<close>

definition js_number :: "rat \<Rightarrow> string" where
  "js_number x = (let ds = rev (dropWhile (\<lambda>c. c = CHR ''0'') (rev (toFixed 6 x)))
     in if ds \<noteq> [] \<and> last ds = CHR ''.'' then butlast ds else ds)"

definition ms_text :: "nat \<Rightarrow> string" where
  "ms_text n = string_of_nat n @ '' ms''"

definition star :: string where
  "star = [CHR 0xE2, CHR 0x98, CHR 0x85, CHR '' '']"

end
