(* ===== verification/Shell_Views.thy ===== *)
theory Shell_Views
  imports Ui_Elements
begin

text \<open>
  What the window around the views renders: \<^verbatim>\<open>layout/Titlebar.tsx\<close>, \<^verbatim>\<open>layout/Sidebar.tsx\<close>,
  \<^verbatim>\<open>layout/MobileBottomNavBar.tsx\<close>, \<^verbatim>\<open>layout/BottomStatusBar.tsx\<close>, \<^verbatim>\<open>layout/SpotlightSearch.tsx\<close>,
  \<^verbatim>\<open>tray/MiniTrayWidget.tsx\<close>, \<^verbatim>\<open>security/SecurityHubView.tsx\<close>, \<^verbatim>\<open>security/DnsLeakTestModal.tsx\<close>,
  \<^verbatim>\<open>settings/SettingsView.tsx\<close> and the choice of the view in \<^verbatim>\<open>layout/AppShell.tsx\<close>. The media
  queries are arguments.
\<close>

section \<open>Title bar\<close>

definition daemon_badge_color :: "DaemonHealthStatus \<Rightarrow> string" where
  "daemon_badge_color h = (case h of HealthConnected \<Rightarrow> ''teal'' | HealthReconnecting \<Rightarrow> ''yellow''
     | HealthOffline \<Rightarrow> ''red'')"

definition titlebar_view :: "dictionary \<Rightarrow> bool \<Rightarrow> bool \<Rightarrow> app \<Rightarrow> (app \<Rightarrow> app) element list" where
  "titlebar_view t narrow mobile s =
     shown (\<not> mobile) [Txt ''VPNHub''] @
     [Badge (daemon_badge_color (daemonHealth s)) (getDaemonBadge t mobile s)] @
     (if \<not> narrow
      then [Click (setSpotlightOpen True)
              [Txt (t ''titlebar.searchPlaceholder''), Badge ''gray'' [CHR 0xE2, CHR 0x8C, CHR 0x98, CHR ''K'']]]
      else [Btn [] False False (setSpotlightOpen True)]) @
     [Tip (if isCompactWidget s then ''Full Application'' else ''Mini Tray Mode'')
        [Btn [] False False (setCompactWidget (\<not> isCompactWidget s))],
      Btn [] False False (\<lambda>s. send (issued (windowMinimize (tauri s))) s),
      Btn [] False False (\<lambda>s. send (issued (windowMaximize (tauri s))) s),
      Btn [] False False titlebar_close]"

section \<open>Navigation\<close>

definition nav_badge :: "app \<Rightarrow> NavigationTab \<Rightarrow> string option" where
  "nav_badge s tab = (if tab = TabProfiles \<and> length (profiles s) > 0
     then Some (string_of_nat (length (profiles s))) else None)"

definition nav_button :: "dictionary \<Rightarrow> bool \<Rightarrow> app \<Rightarrow> NavigationTab \<Rightarrow> (app \<Rightarrow> app) element" where
  "nav_button t folded s tab =
     (let content = shown (\<not> folded) [Txt (getNavLabel t tab)] @
            (case nav_badge s tab of
               Some b \<Rightarrow> shown (\<not> folded) [Badge (if activeTab s = tab then ''cyan'' else ''gray'') b]
             | None \<Rightarrow> []);
          button = Click (setActiveTab tab) content
      in if folded then Tip (getNavLabel t tab) [button] else button)"

definition daemon_version_text :: "app \<Rightarrow> string" where
  "daemon_version_text s = (if startsWith (daemonVersion s) ''v'' then daemonVersion s
     else ''v'' @ daemonVersion s)"

text \<open>The sidebar: folding is a handler of the split pane, so the tree acts on both.\<close>

definition on_store :: "('s \<Rightarrow> 's) \<Rightarrow> 'l \<times> 's \<Rightarrow> 'l \<times> 's" where
  "on_store f ls = (fst ls, f (snd ls))"

definition on_local :: "('l \<Rightarrow> 'l) \<Rightarrow> 'l \<times> 's \<Rightarrow> 'l \<times> 's" where
  "on_local f ls = (f (fst ls), snd ls)"

definition sidebar_view ::
  "dictionary \<Rightarrow> bool \<Rightarrow> bool \<Rightarrow> app \<Rightarrow> (pane \<times> app \<Rightarrow> pane \<times> app) element list" where
  "sidebar_view t mobile folded s =
     shown (\<not> folded) [Txt (t ''nav.menu'')] @
     [Tip (if folded then t ''nav.expandSidebar'' else t ''nav.collapseSidebar'')
        [Btn [] False False (on_local (handleToggleCollapse mobile))]] @
     map (\<lambda>tab. map_element on_store (nav_button t folded s tab)) NAV_ITEMS @
     (if \<not> folded
      then [Txt (t ''nav.coreTitle''),
            Txt (t ''nav.daemonStatus'' @ '' '' @ daemon_version_text s),
            Badge (if daemonHealth s = HealthConnected then ''teal'' else ''red'')
              (if daemonHealth s = HealthConnected then t ''common.ready'' else t ''common.offline'')]
      else [Tip (t ''nav.daemonStatus'' @ '' '' @ daemon_version_text s) []])"

definition MOBILE_NAV_ITEMS :: "NavigationTab list" where
  "MOBILE_NAV_ITEMS = [TabDashboard, TabProfiles, TabSecurity, TabLogs, TabSettings]"

definition mobile_nav_view :: "dictionary \<Rightarrow> bool \<Rightarrow> app \<Rightarrow> (app \<Rightarrow> app) element list" where
  "mobile_nav_view t mobile s = shown mobile
     (map (\<lambda>tab. Tip (getNavLabel t tab) [Click (setActiveTab tab) [Txt (getNavLabel t tab)]]) MOBILE_NAV_ITEMS)"

section \<open>Status bar\<close>

definition status_bar_view :: "dictionary \<Rightarrow> bool \<Rightarrow> app \<Rightarrow> (app \<Rightarrow> app) element list" where
  "status_bar_view t mobile s =
     [Txt (fst (getKsDisplay t (killSwitch (securitySettings s)))),
      Txt ''IPv6:'',
      Txt (if ipv6LeakProtection (securitySettings s) then t ''statusBar.ipv6Blocked'' else t ''statusBar.ipv6Pass''),
      Txt ''DNS:'', Txt (t ''statusBar.dnsSecured'')] @
     shown (connectionState s = Connected) [Txt (interfaceName s)] @
     [Txt (js_number (daemonLatencyMs s) @ ''ms'')] @
     shown (\<not> mobile) [Badge ''gray'' ''v0.1.2'']"

section \<open>Spotlight\<close>

text \<open>The tree acts on the query of the dialog and on the store.\<close>

definition spotlight_view ::
  "dictionary \<Rightarrow> string \<Rightarrow> app \<Rightarrow> (string \<times> app \<Rightarrow> string \<times> app) element list" where
  "spotlight_view t query s =
     (let ps = spotlight_profiles query (profiles s); acts = filteredActions t query s in
      shown (isSpotlightOpen s)
        ([Field (t ''titlebar.searchPlaceholder'') query (\<lambda>v. on_local (\<lambda>_. v))] @
         shown (ps \<noteq> [])
           (Txt (t ''common.vpnProfiles'' @ '' ('' @ string_of_nat (length ps) @ '')'') #
            map (\<lambda>p. Click (on_store (spotlight_connect p))
              [Txt (serverFlag p), Txt (profile_name p), Txt (serverCity p @ bullet @ serverHost p),
               Badge ''gray'' (toUpperCase (protocol_string (protocol p))),
               Badge ''teal'' ([CHR 0xE2, CHR 0x9A, CHR 0xA1, CHR '' ''] @ string_of_nat (pingMs p) @ ''ms'')]) ps) @
         shown (acts \<noteq> [])
           (Txt (t ''common.commands'') #
            map (\<lambda>a. Click (on_store (action_select a)) [Txt (action_title t s a), Txt (action_subtitle t a)]) acts)))"

section \<open>Mini tray widget\<close>

definition mini_status :: "app \<Rightarrow> string" where
  "mini_status s = (if connectionState s = Connected
       then ''Connected'' @ bullet @ formatUptime (nat (uptimeSeconds s))
     else if connectionState s = Connecting then ''Connecting... Click to cancel''
     else ''Click button to connect'')"

definition mini_tray_view :: "app \<Rightarrow> (app \<Rightarrow> app) element list" where
  "mini_tray_view s =
     [Txt ''VPNHub Mini'', Tip ''Expand to Full Application'' [Btn [] False False (setCompactWidget False)],
      Click mini_toggle [],
      Txt (nullish (map_option (\<lambda>p. serverFlag p @ '' '' @ profile_name p) (activeProfile s)) '' ''),
      Txt (mini_status s)] @
     shown (connectionState s = Connected)
       [Txt ''DOWNLOAD'', Txt (toFixed 1 (currentDownloadKbps (telemetry s) / 1024) @ '' MB/s''),
        Txt ''PING'', Txt (ms_text (currentPingMs (telemetry s)))] @
     [Txt ''Recent Nodes''] @
     map (\<lambda>p. Click (connect (Some (profile_id p)) None)
       [Txt (serverFlag p), Txt (profile_name p), Txt (string_of_nat (pingMs p) @ ''ms'')]) (take 3 (profiles s))"

section \<open>Security hub\<close>

definition kill_switch_card :: "dictionary \<Rightarrow> app \<Rightarrow> (app \<Rightarrow> app) element list" where
  "kill_switch_card t s = (let active = (killSwitch (securitySettings s) \<noteq> KsOff) in
     [Txt (t ''security.killSwitchTitle''),
      Badge (if active then ''teal'' else ''gray'')
        (if active then t ''security.killSwitchEnforced'' else t ''security.killSwitchOff''),
      Txt (t ''security.killSwitchDesc''), Switch active hub_kill_switch])"

definition ipv6_card :: "dictionary \<Rightarrow> app \<Rightarrow> (app \<Rightarrow> app) element list" where
  "ipv6_card t s = (let on = ipv6LeakProtection (securitySettings s) in
     [Txt (t ''security.ipv6Title''), Switch on shield_ipv6, Txt (t ''security.ipv6Desc''),
      Txt (''IPv6: '' @ (if on then t ''statusBar.ipv6Blocked'' else t ''statusBar.ipv6Pass'')),
      Badge (if on then ''teal'' else ''gray'') (if on then t ''security.ipv6Protected'' else t ''common.disable'')])"

definition webrtc_card :: "dictionary \<Rightarrow> app \<Rightarrow> (app \<Rightarrow> app) element list" where
  "webrtc_card t s = (let on = webRtcProtection (securitySettings s) in
     [Txt (t ''security.webrtcTitle''), Switch on shield_webrtc, Txt (t ''security.webrtcDesc''),
      Txt ''Filter: 3478, 5349, 19302'',
      Badge (if on then ''yellow'' else ''gray'') (if on then t ''security.webrtcProtected'' else t ''common.disable'')])"

definition lan_card :: "dictionary \<Rightarrow> app \<Rightarrow> (app \<Rightarrow> app) element list" where
  "lan_card t s = (let on = lanBypass (securitySettings s) in
     [Txt (t ''security.lanBypassTitle''), Switch on shield_lan, Txt (t ''security.lanBypassDesc''),
      Txt (t ''security.lanBypassTitle''),
      Badge (if on then ''cyan'' else ''gray'') (if on then t ''security.lanBypassActive'' else t ''common.disable'')])"

definition security_view :: "dictionary \<Rightarrow> app \<Rightarrow> (app \<Rightarrow> app) element list" where
  "security_view t s = [Txt (t ''security.title''), Txt (t ''security.subtitle'')] @
     kill_switch_card t s @ ipv6_card t s @ webrtc_card t s @ lan_card t s"

text \<open>The leak test dialog: \<open>close\<close> is the parent's handler.\<close>

definition dns_view ::
  "dictionary \<Rightarrow> (dns_test \<Rightarrow> dns_test) \<Rightarrow> dns_test \<Rightarrow> app \<Rightarrow> (dns_test \<Rightarrow> dns_test) element list" where
  "dns_view t close d s =
     [Txt (t ''modals.dnsLeakTitle''), Txt (t ''modals.dnsLeakDesc'')] @
     shown (dns_testing d) [Txt (t ''modals.dnsLeakTesting''), Txt (string_of_nat (dns_progress d) @ ''%'')] @
     (case dns_results d of
        None \<Rightarrow> []
      | Some rs \<Rightarrow>
          [Txt (if isProtected d s then t ''modals.dnsLeakPassed'' else t ''modals.dnsLeakFailed''),
           Txt (t ''modals.dnsPublicIp''), Txt (t ''modals.dnsIsp''), Txt (t ''modals.dnsLocation'')] @
          concat (map (\<lambda>r. [Txt (dns_ip r), Txt (dns_isp r), Txt (dns_flag r @ '' '' @ dns_country r)]) rs)) @
     [Btn (t ''common.close'') False False close, Btn (t ''security.runDnsTest'') False (dns_testing d) runTest]"

section \<open>Settings\<close>

record LanguageOption =
  lang_code :: Language
  lang_name :: string
  nativeName :: string
  lang_flag :: string

definition utf8 :: "nat list \<Rightarrow> string" where
  "utf8 bs = map char_of bs"

text \<open>A flag is a pair of regional indicator symbols, four bytes each.\<close>

definition flag_of :: "nat \<Rightarrow> nat \<Rightarrow> string" where
  "flag_of a b = utf8 [0xF0, 0x9F, 0x87, a, 0xF0, 0x9F, 0x87, b]"

definition SUPPORTED_LANGUAGES :: "LanguageOption list" where
  "SUPPORTED_LANGUAGES =
     [\<lparr>lang_code = En, lang_name = ''English'', nativeName = ''English'', lang_flag = flag_of 0xBA 0xB8\<rparr>,
      \<lparr>lang_code = Vi, lang_name = ''Vietnamese'',
       nativeName = ''Ti'' @ utf8 [0xE1, 0xBA, 0xBF] @ ''ng Vi'' @ utf8 [0xE1, 0xBB, 0x87] @ ''t'',
       lang_flag = flag_of 0xBB 0xB3\<rparr>,
      \<lparr>lang_code = Zh, lang_name = ''Chinese'',
       nativeName = utf8 [0xE7, 0xAE, 0x80, 0xE4, 0xBD, 0x93, 0xE4, 0xB8, 0xAD, 0xE6, 0x96, 0x87],
       lang_flag = flag_of 0xA8 0xB3\<rparr>,
      \<lparr>lang_code = Fr, lang_name = ''French'', nativeName = ''Fran'' @ utf8 [0xC3, 0xA7] @ ''ais'',
       lang_flag = flag_of 0xAB 0xB7\<rparr>]"

definition on_app :: "(app \<Rightarrow> app) \<Rightarrow> desktop \<Rightarrow> desktop" where
  "on_app f d = (f (fst d), snd d)"

definition settings_header :: "dictionary \<Rightarrow> app \<Rightarrow> (desktop \<Rightarrow> desktop) element list" where
  "settings_header t s =
     [Txt (t ''settings.title''), Txt (t ''settings.subtitle''),
      Badge (if daemonHealth s = HealthConnected then ''teal'' else ''red'')
        (''Core: '' @ (if daemonHealth s = HealthConnected
           then replaceFirst ''{version}'' (daemonVersion s) (t ''settings.coreReady'')
           else t ''settings.coreOffline'')),
      Badge ''cyan'' (t ''settings.vaultAes'')]"

definition language_card :: "dictionary \<Rightarrow> (desktop \<Rightarrow> desktop) element list" where
  "language_card t =
     [Txt (t ''settings.languageCardTitle''), Txt (t ''settings.languageSelectDesc'')] @
     map (\<lambda>l. Click (on_app (setLanguage (lang_code l)))
       [Txt (lang_flag l), Txt (nativeName l), Txt (lang_name l)]) SUPPORTED_LANGUAGES"

definition set_app_setting :: "PartialAppSettings \<Rightarrow> desktop \<Rightarrow> desktop" where
  "set_app_setting p = on_app (updateAppSettings p)"

definition desktop_card :: "dictionary \<Rightarrow> bool \<Rightarrow> app \<Rightarrow> (desktop \<Rightarrow> desktop) element list" where
  "desktop_card t works s =
     [Txt (t ''settings.desktopBehaviorTitle''),
      Txt (t ''settings.launchAtStartup''), Txt (t ''settings.launchAtStartupDesc''),
      Switch (autoLaunch (appSettings s)) (handleToggleAutoLaunch works)] @
     shown (autoLaunch (appSettings s))
       [Txt (t ''settings.startMinimized''), Txt (t ''settings.startMinimizedDesc''),
        Switch (startMinimized (appSettings s)) (\<lambda>b. set_app_setting (no_change\<lparr>p_startMinimized := Some b\<rparr>))] @
     [Txt (t ''settings.autoConnectOnLaunch''), Txt (t ''settings.autoConnectOnLaunchDesc''),
      Switch (autoConnect (appSettings s)) (\<lambda>b. set_app_setting (no_change\<lparr>p_autoConnect := Some b\<rparr>)),
      Txt (t ''settings.minimizeToTrayOnClose''), Txt (t ''settings.minimizeToTrayOnCloseDesc''),
      Switch (minimizeToTray (appSettings s)) (\<lambda>b. set_app_setting (no_change\<lparr>p_minimizeToTray := Some b\<rparr>))]"

definition network_card :: "dictionary \<Rightarrow> app \<Rightarrow> (desktop \<Rightarrow> desktop) element list" where
  "network_card t s =
     [Txt (t ''settings.networkIntegrationTitle''),
      Txt (t ''settings.autoReconnect''), Txt (t ''settings.autoReconnectDesc''),
      Switch (nullish (autoReconnect (appSettings s)) True)
        (\<lambda>b. set_app_setting (no_change\<lparr>p_autoReconnect := Some (Some b)\<rparr>)),
      Txt (t ''settings.desktopNotifications''), Txt (t ''settings.desktopNotificationsDesc''),
      Switch (nullish (notificationsEnabled (appSettings s)) True)
        (\<lambda>b. set_app_setting (no_change\<lparr>p_notificationsEnabled := Some (Some b)\<rparr>)),
      Txt (t ''settings.spotlightTitle''), Txt (t ''settings.spotlightDesc''),
      Btn (t ''settings.spotlightButton'') False False (on_app (setSpotlightOpen True))]"

text \<open>The link to the repository leaves the application and changes nothing in it.\<close>

definition diagnostics_card :: "dictionary \<Rightarrow> app \<Rightarrow> (desktop \<Rightarrow> desktop) element list" where
  "diagnostics_card t s =
     [Txt (t ''settings.diagnosticsTitle''), Badge ''gray'' (t ''settings.engineStatus''),
      Txt (t ''settings.cipherSuiteTitle''), Txt (t ''settings.cipherSuiteDesc''),
      Txt (t ''settings.ipcDaemonTitle''),
      Txt (replaceFirst ''{latency}'' (toFixed 2 (daemonLatencyMs s)) (t ''settings.ipcDaemonDesc'')),
      Txt (t ''settings.encryptedVaultTitle''), Txt (t ''settings.encryptedVaultDesc''),
      Txt (t ''settings.clientVersionText''),
      Btn (t ''settings.resetDefaults'') False False (on_app (handleResetDefaults t)),
      Btn (t ''settings.docsAndGithub'') False False id]"

definition settings_view :: "dictionary \<Rightarrow> bool \<Rightarrow> app \<Rightarrow> (desktop \<Rightarrow> desktop) element list" where
  "settings_view t works s = settings_header t s @ language_card t @ desktop_card t works s @
     network_card t s @ diagnostics_card t s"

section \<open>The shell\<close>

datatype workspace = ShowDashboard | ShowProfiles | ShowSecurity | ShowLogs | ShowSettings

definition renderActiveView :: "app \<Rightarrow> workspace" where
  "renderActiveView s = (case activeTab s of TabDashboard \<Rightarrow> ShowDashboard | TabProfiles \<Rightarrow> ShowProfiles
     | TabSecurity \<Rightarrow> ShowSecurity | TabLogs \<Rightarrow> ShowLogs | TabSettings \<Rightarrow> ShowSettings)"

end
