(* ===== verification/Dashboard_Elements.thy ===== *)
theory Dashboard_Elements
  imports Shell_Views
begin

text \<open>
  What the dashboard renders: \<^verbatim>\<open>dashboard/HeroCockpitBanner.tsx\<close> in its three layouts,
  \<^verbatim>\<open>dashboard/DashboardProfileDeck.tsx\<close> and \<^verbatim>\<open>dashboard/DashboardFullLogStream.tsx\<close>, which
  \<^verbatim>\<open>dashboard/DashboardView.tsx\<close> puts below each other.
\<close>

section \<open>Hero banner\<close>

definition bolt_sign :: string where
  "bolt_sign = utf8 [0xE2, 0x9A, 0xA1]"

definition em_dash :: string where
  "em_dash = utf8 [0xE2, 0x80, 0x94]"

definition is_wireguard :: "VpnProfile option \<Rightarrow> bool" where
  "is_wireguard p \<longleftrightarrow> map_option protocol p = Some Wireguard"

definition status_color :: "ConnectionState \<Rightarrow> string" where
  "status_color c = (if c = Connected then ''teal'' else if isConnecting_state c then ''yellow''
     else if c = ErrorState then ''red'' else ''gray'')"

definition hero_power :: "dictionary \<Rightarrow> app \<Rightarrow> (app \<Rightarrow> app) element" where
  "hero_power t s = Tip (powerTooltip t s) [Btn [] (connectionState s = Disconnecting) False hero_toggle]"

definition hero_status :: "dictionary \<Rightarrow> app \<Rightarrow> (app \<Rightarrow> app) element list" where
  "hero_status t s = (if daemonHealth s = HealthOffline
     then [Badge ''red'' (t ''dashboard.daemonOffline''), Click retryDaemonIpc [Txt (t ''dashboard.retryIpc'')]]
     else [Badge (status_color (connectionState s)) (getStatusText t (connectionState s))])"

definition hero_name :: "string \<Rightarrow> app \<Rightarrow> string" where
  "hero_name fallback s = or_str (map_option profile_name (activeProfile s)) fallback"

definition hero_endpoint :: "app \<Rightarrow> string" where
  "hero_endpoint s = (case activeProfile s of
     Some p \<Rightarrow> serverHost p @ '':'' @ string_of_nat (serverPort p) | None \<Rightarrow> '':'')"

definition hero_uptime :: "app \<Rightarrow> (app \<Rightarrow> app) element list" where
  "hero_uptime s = shown (connectionState s = Connected) [Txt (formatUptime (nat (uptimeSeconds s)))]"

definition live_speed :: "rat \<Rightarrow> app \<Rightarrow> string" where
  "live_speed kbps s = (if connectionState s = Connected then formatSpeed kbps else ''0 KB/s'')"

definition svgHeight :: "bool \<Rightarrow> bool \<Rightarrow> rat" where
  "svgHeight mobile tablet = (if mobile then 34 else if tablet then 38 else 40)"

definition hero_curves :: "rat \<Rightarrow> app \<Rightarrow> (app \<Rightarrow> app) element list" where
  "hero_curves h s = (let ps = sparkline (telemetry s); area = downloadAreaPath 240 h ps;
       path = getSvgPath 240 h downloadSpeed ps
     in shown (area \<noteq> []) [Drawing area] @ shown (path \<noteq> []) [Drawing path])"

definition hero_mobile_profile :: "dictionary \<Rightarrow> app \<Rightarrow> (app \<Rightarrow> app) element list" where
  "hero_mobile_profile t s =
     [hero_power t s] @ hero_status t s @
     [Badge ''cyan'' (if is_wireguard (activeProfile s) then ''WG'' else ''OVPN''),
      Txt (hero_name ''No Profile'' s), Txt (bolt_sign @ string_of_nat (livePing s) @ ''ms'')] @
     hero_uptime s @ hero_curves (svgHeight True False) s"

definition hero_mobile_metrics :: "app \<Rightarrow> (app \<Rightarrow> app) element list" where
  "hero_mobile_metrics s =
     [Txt ''Virtual IP'',
      Txt (if connectionState s = Connected then ''10.8.0.2''
           else em_dash @ '' . '' @ em_dash @ '' . '' @ em_dash @ '' . '' @ em_dash),
      Txt ''Exit IP'', Txt (if connectionState s = Connected then ''123.30.170.251'' else ''Native Direct''),
      Txt ''Download'', Txt (live_speed (currentDownloadKbps (telemetry s)) s),
      Txt ''Upload'', Txt (live_speed (currentUploadKbps (telemetry s)) s)]"

definition hero_mobile :: "dictionary \<Rightarrow> app \<Rightarrow> (app \<Rightarrow> app) element list" where
  "hero_mobile t s = hero_mobile_profile t s @ hero_mobile_metrics s"

definition hero_tablet_profile :: "dictionary \<Rightarrow> app \<Rightarrow> (app \<Rightarrow> app) element list" where
  "hero_tablet_profile t s =
     [hero_power t s] @ hero_status t s @
     [Badge ''cyan'' (if is_wireguard (activeProfile s) then ''WireGuard'' else ''OpenVPN'')] @ hero_uptime s @
     [Txt (hero_name ''No Profile'' s), Txt (hero_endpoint s),
      Txt (bolt_sign @ '' '' @ string_of_nat (livePing s) @ ''ms'')]"

definition hero_tablet_speed :: "app \<Rightarrow> (app \<Rightarrow> app) element list" where
  "hero_tablet_speed s =
     [Txt ''Live Speed'', Txt (live_speed (currentDownloadKbps (telemetry s)) s),
      Txt (live_speed (currentUploadKbps (telemetry s)) s)] @
     hero_curves (svgHeight False True) s @
     [Txt (''Virtual IP: '' @ (if connectionState s = Connected then ''10.8.0.2'' else em_dash @ '' . '' @ em_dash)),
      Txt (''Exit IP: '' @ (if connectionState s = Connected then ''123.30.170.251'' else ''Direct'')),
      Txt ''DNS: 1.1.1.1'']"

definition desktop_protocol :: "VpnProfile option \<Rightarrow> string" where
  "desktop_protocol p = (if map_option protocol p = Some Wireguard then ''WG''
     else if map_option protocol p = Some OpenvpnTcp then ''OVPN TCP'' else ''OVPN UDP'')"

definition hero_desktop_profile :: "dictionary \<Rightarrow> app \<Rightarrow> (app \<Rightarrow> app) element list" where
  "hero_desktop_profile t s =
     [hero_power t s] @ hero_status t s @
     [Badge (if is_wireguard (activeProfile s) then ''violet'' else ''cyan'') (desktop_protocol (activeProfile s))] @
     hero_uptime s @
     [Txt (hero_name ''No Profile Selected'' s), Txt (hero_endpoint s),
      Txt (bolt_sign @ string_of_nat (livePing s) @ ''ms'')]"

definition hero_desktop_network :: "app \<Rightarrow> (app \<Rightarrow> app) element list" where
  "hero_desktop_network s =
     [Txt ''Virtual IP'',
      Txt (if connectionState s = Connected then ''10.8.0.2''
           else em_dash @ '' . '' @ em_dash @ '' . '' @ em_dash @ '' . '' @ em_dash),
      Txt ''Public Exit IP'', Txt (if connectionState s = Connected then ''123.30.170.251'' else ''Native Direct''),
      Txt ''DNS Resolver'', Txt ''1.1.1.1 (NRPT)'',
      Txt ''Kill Switch'', Txt (if killSwitch (securitySettings s) \<noteq> KsOff then ''Strict Lock'' else ''Disabled''),
      Txt ''Split Tunnel:'',
      Txt (if activeRulesCount s > 0 then string_of_nat (activeRulesCount s) @ '' active'' else ''Off''),
      Badge (if connectionState s = Connected then ''teal'' else ''gray'')
        (if connectionState s = Connected then ''Encrypted'' else ''Idle'')]"

definition hero_desktop_speed :: "app \<Rightarrow> (app \<Rightarrow> app) element list" where
  "hero_desktop_speed s =
     [Txt ''Live Throughput'',
      Txt (''Total: '' @ (if connectionState s = Connected
        then formatBytes (of_nat (totalDownloadedBytes (telemetry s) + totalUploadedBytes (telemetry s)))
        else ''0 MB'')),
      Txt ''Down'', Txt (live_speed (currentDownloadKbps (telemetry s)) s),
      Txt ''Up'', Txt (live_speed (currentUploadKbps (telemetry s)) s)] @
     hero_curves (svgHeight False False) s @
     (let up = getSvgPath 240 (svgHeight False False) uploadSpeed (sparkline (telemetry s))
      in shown (up \<noteq> []) [Drawing up])"

definition hero_view :: "dictionary \<Rightarrow> bool \<Rightarrow> bool \<Rightarrow> app \<Rightarrow> (app \<Rightarrow> app) element list" where
  "hero_view t mobile tablet s =
     (if mobile then hero_mobile t s
      else if tablet then hero_tablet_profile t s @ hero_tablet_speed s
      else hero_desktop_profile t s @ hero_desktop_network s @ hero_desktop_speed s)"

section \<open>Profile deck\<close>

record deck =
  activeSlideIndex :: nat
  scroll_target :: "rat option"

text \<open>\<open>w\<close> is the width of the slider; \<open>scrollTo\<close> is recorded as the position asked for.\<close>

definition go_to_slide :: "rat \<Rightarrow> nat \<Rightarrow> deck \<Rightarrow> deck" where
  "go_to_slide w i d = d\<lparr>scroll_target := Some (scrollToSlide w i), activeSlideIndex := i\<rparr>"

definition deck_flag :: "VpnProfile \<Rightarrow> string" where
  "deck_flag p = or_str (Some (serverFlag p)) (utf8 [0xF0, 0x9F, 0x9B, 0xA1, 0xEF, 0xB8, 0x8F])"

definition deck_ping :: "VpnProfile \<Rightarrow> string" where
  "deck_ping p = bolt_sign @ string_of_nat (or_num (Some (pingMs p)) 36) @ ''ms''"

definition deck_badge :: "card_state \<Rightarrow> 'e element list" where
  "deck_badge c = shown (isActive c)
     [Badge (if card_isConnected c then ''teal'' else if card_isConnecting c then ''yellow'' else ''cyan'')
        (if card_isConnected c then ''ACTIVE'' else if card_isConnecting c then ''LINKING'' else ''SELECTED'')]"

definition mobile_card :: "app \<Rightarrow> VpnProfile \<Rightarrow> (deck \<times> app \<Rightarrow> deck \<times> app) element" where
  "mobile_card s p = (let c = card_state_of p s in
     Click (on_store (connect (Some (profile_id p)) None))
       ([Txt (deck_flag p),
         Badge (if protocol p = Wireguard then ''violet'' else ''cyan'')
           (if protocol p = Wireguard then ''WIREGUARD'' else ''OPENVPN'')] @
        deck_badge c @
        [Btn [] False False (on_store (toggleFavorite (profile_id p))),
         Txt (profile_name p), Txt (serverHost p @ '':'' @ string_of_nat (serverPort p)), Txt (deck_ping p)]))"

definition renderMobileWalletDeck ::
  "rat \<Rightarrow> deck \<Rightarrow> app \<Rightarrow> (deck \<times> app \<Rightarrow> deck \<times> app) element list" where
  "renderMobileWalletDeck w d s = (let total = length (sortedProfiles (profiles s)) in
     map (mobile_card s) (sortedProfiles (profiles s)) @
     shown (total > 1)
       ([Btn [] (activeSlideIndex d = 0) False (on_local (go_to_slide w (activeSlideIndex d - 1)))] @
        map (\<lambda>i. Click (on_local (go_to_slide w i)) []) [0..<total] @
        [Btn [] (activeSlideIndex d = total - 1) False (on_local (go_to_slide w (activeSlideIndex d + 1)))]))"

definition deck_connect_click :: "VpnProfile \<Rightarrow> app \<Rightarrow> app" where
  "deck_connect_click p s = (if card_isConnected (card_state_of p s) then disconnect s
     else connect (Some (profile_id p)) None s)"

definition renderDesktopCard :: "app \<Rightarrow> VpnProfile \<Rightarrow> (deck \<times> app \<Rightarrow> deck \<times> app) element" where
  "renderDesktopCard s p = (let c = card_state_of p s in
     Click (on_store (connect (Some (profile_id p)) None))
       [Txt (deck_flag p), Txt (profile_name p), Txt (locationSubtitle p),
        Btn [] False False (on_store (toggleFavorite (profile_id p))),
        Txt (serverHost p @ '':'' @ string_of_nat (serverPort p)),
        Badge (if protocol p = Wireguard then ''violet'' else ''cyan'')
          (if protocol p = Wireguard then ''WireGuard'' else ''OpenVPN''),
        Txt (deck_ping p),
        (if card_isConnected c then Badge ''teal'' ''CONNECTED''
         else if card_isConnecting c then Badge ''yellow'' ''CONNECTING...''
         else Badge (if isActive c then ''cyan'' else ''gray'') (if isActive c then ''SELECTED'' else ''IDLE'')),
        Btn (if card_isConnected c then ''Disconnect'' else ''Connect'') False False
          (on_store (deck_connect_click p))])"

definition renderTabletCard :: "app \<Rightarrow> VpnProfile \<Rightarrow> (deck \<times> app \<Rightarrow> deck \<times> app) element" where
  "renderTabletCard s p = (let c = card_state_of p s in
     Click (on_store (connect (Some (profile_id p)) None))
       (shown (serverFlag p \<noteq> []) [Txt (serverFlag p)] @
        [Txt (profile_name p), Txt (or_str (Some (serverHost p)) (serverCity p)),
         Btn [] False False (on_store (toggleFavorite (profile_id p))),
         Badge (if protocol p = Wireguard then ''violet'' else ''cyan'')
           (if protocol p = Wireguard then ''WG'' else ''OVPN'')] @
        deck_badge c @ [Txt (deck_ping p)]))"

definition renderAddCard :: "dictionary \<Rightarrow> bool \<Rightarrow> (deck \<times> app \<Rightarrow> deck \<times> app) element" where
  "renderAddCard t big = Click (on_store (setActiveTab TabProfiles))
     (Txt (t ''profiles.addProfile'') # shown big [Txt ''OpenVPN (.ovpn) or WireGuard (.conf)''])"

definition deck_view ::
  "dictionary \<Rightarrow> bool \<Rightarrow> bool \<Rightarrow> rat \<Rightarrow> deck \<Rightarrow> app \<Rightarrow> (deck \<times> app \<Rightarrow> deck \<times> app) element list" where
  "deck_view t mobile tablet w d s =
     [Txt (t ''dashboard.quickSwitchTitle''),
      Badge ''cyan'' (string_of_nat (length (profiles s)) @ '' '' @ t ''common.all''),
      Click (on_store (setActiveTab TabProfiles)) [Txt (t ''dashboard.manageAll'')]] @
     (if mobile then renderMobileWalletDeck w d s
      else map (if tablet then renderTabletCard s else renderDesktopCard s) (sortedProfiles (profiles s)) @
        [renderAddCard t (\<not> tablet)])"

section \<open>Log stream\<close>

definition getLevelBadge :: "LogLevel \<Rightarrow> string" where
  "getLevelBadge l = (case l of ERROR \<Rightarrow> ''#ef4444'' | WARN \<Rightarrow> ''#f59e0b'' | INFO \<Rightarrow> ''#38bdf8''
     | DEBUG \<Rightarrow> ''#94a3b8'')"

definition displayTime :: "bool \<Rightarrow> LogEntry \<Rightarrow> string" where
  "displayTime small l = (if small
     then or_str (Some (takeWhile (\<lambda>c. c \<noteq> CHR ''.'') (log_timestamp l))) (log_timestamp l)
     else log_timestamp l)"

definition log_row :: "bool \<Rightarrow> LogEntry \<Rightarrow> 'e element list" where
  "log_row small l =
     [Txt (''['' @ displayTime small l @ '']''), Badge (getLevelBadge (log_level l)) (level_string (log_level l))] @
     shown (\<not> small) [Txt (log_source l)] @ [Txt (log_message l)]"

definition log_stream_view :: "dictionary \<Rightarrow> bool \<Rightarrow> app \<Rightarrow> (app \<Rightarrow> app) element list" where
  "log_stream_view t small s =
     [Txt (t ''dashboard.liveLogStreamTitle''), Badge ''cyan'' (string_of_nat (length (logs s))),
      Tip (t ''logs.autoScroll'' @ (if isLogAutoScroll s then '' (ON)'' else '' (OFF)''))
        [Btn [] False False (setLogAutoScroll (\<not> isLogAutoScroll s))],
      Tip (t ''dashboard.clearStream'') [Btn [] False False clearLogs],
      Click (setActiveTab TabLogs) [Txt (t ''nav.logs'')]] @
     (if recentLogs (logs s) = [] then [Txt (t ''logs.noLogsMessage'')]
      else concat (map (log_row small) (recentLogs (logs s))))"

section \<open>Dashboard\<close>

text \<open>\<open>px\<close> is the width of the window, which the media queries of the three components compare.\<close>

definition dashboard_view ::
  "dictionary \<Rightarrow> nat \<Rightarrow> rat \<Rightarrow> deck \<Rightarrow> app \<Rightarrow> (deck \<times> app \<Rightarrow> deck \<times> app) element list" where
  "dashboard_view t px w d s = (let mobile = (px \<le> 640) in
     map (map_element on_store) (hero_view t mobile (641 \<le> px \<and> px \<le> 1180) s) @
     deck_view t mobile (641 \<le> px \<and> px \<le> 1024) w d s @
     map (map_element on_store) (log_stream_view t (px \<le> 480) s))"

end
