(* ===== verification/Library_Elements.thy ===== *)
theory Library_Elements
  imports Dashboard_Elements
begin

text \<open>
  What the profile library and the log console render: \<^verbatim>\<open>profiles/ProfileCard.tsx\<close>,
  \<^verbatim>\<open>profiles/ProfileLibraryView.tsx\<close> with the state of its search, its filter and its dialogs,
  and \<^verbatim>\<open>logs/LogConsoleView.tsx\<close> with the clipboard and the exported files.
\<close>

section \<open>Library state\<close>

datatype view_mode = GridMode | TableMode

datatype chosen_protocol = ChosenWireguard | ChosenOpenvpn

record library =
  search :: string
  activeFilter :: library_filter
  viewMode :: view_mode
  isProfileModalOpen :: bool
  isHubModalOpen :: bool
  chosenProtocol :: chosen_protocol
  selectedProfile :: "VpnProfile option"

definition library_initial :: library where
  "library_initial = \<lparr>search = [], activeFilter = FilterAll, viewMode = GridMode, isProfileModalOpen = False,
     isHubModalOpen = False, chosenProtocol = ChosenWireguard, selectedProfile = None\<rparr>"

definition protocol_choice :: "VpnProfile \<Rightarrow> chosen_protocol" where
  "protocol_choice p = (if protocol p = Wireguard then ChosenWireguard else ChosenOpenvpn)"

definition handleEdit :: "VpnProfile \<Rightarrow> library \<Rightarrow> library" where
  "handleEdit p l = l\<lparr>selectedProfile := Some p, chosenProtocol := protocol_choice p, isProfileModalOpen := True\<rparr>"

definition onSelectManualCreate :: "chosen_protocol \<Rightarrow> library \<Rightarrow> library" where
  "onSelectManualCreate c l = l\<lparr>chosenProtocol := c, selectedProfile := None, isProfileModalOpen := True\<rparr>"

definition onImportParsed :: "VpnProfile \<Rightarrow> library \<Rightarrow> library" where
  "onImportParsed p l = l\<lparr>selectedProfile := Some p, chosenProtocol := protocol_choice p, isProfileModalOpen := True\<rparr>"

definition onHubClose :: "library \<Rightarrow> library" where
  "onHubClose l = l\<lparr>isHubModalOpen := False\<rparr>"

definition onModalClose :: "library \<Rightarrow> library" where
  "onModalClose l = l\<lparr>isProfileModalOpen := False\<rparr>"

definition effectiveViewMode :: "bool \<Rightarrow> library \<Rightarrow> view_mode" where
  "effectiveViewMode mobile l = (if mobile then GridMode else viewMode l)"

section \<open>Profile card\<close>

definition status_badge_color :: "card_state \<Rightarrow> string" where
  "status_badge_color c = (if card_isConnected c then ''teal'' else if card_isConnecting c then ''yellow''
     else if card_isDisconnecting c then ''gray'' else ''red'')"

definition profile_card ::
  "dictionary \<Rightarrow> app \<Rightarrow> VpnProfile \<Rightarrow> (library \<times> app \<Rightarrow> library \<times> app) element list" where
  "profile_card t s p = (let c = card_state_of p s; b = getButtonProps t c in
     [Txt (serverFlag p), Txt (profile_name p), Txt (locationSubtitle p),
      Btn [] False False (on_store (toggleFavorite (profile_id p))),
      Btn (t ''common.edit'') False False (on_local (handleEdit p)),
      Btn (t ''common.delete'') False False (on_store (deleteProfile (profile_id p))),
      Badge ''cyan'' (toUpperCase (protocol_string (protocol p)))] @
     (case renderStatusBadge t c of Some x \<Rightarrow> [Badge (status_badge_color c) x] | None \<Rightarrow> []) @
     [Txt (''Endpoint: '' @ serverHost p @ '':'' @ string_of_nat (serverPort p)), Txt (ms_text (pingMs p)),
      Btn (btn_children b) False (btn_loading b) (on_store (handleConnectClick p))])"

section \<open>Library view\<close>

definition library_header ::
  "dictionary \<Rightarrow> bool \<Rightarrow> app \<Rightarrow> (library \<times> app \<Rightarrow> library \<times> app) element list" where
  "library_header t mobile s =
     [Txt (t ''profiles.title'')] @
     shown (\<not> mobile)
       ([Badge ''gray'' (string_of_nat (length (profiles s)) @ '' '' @ t ''common.all'')] @
        shown (favoritesCount (profiles s) > 0)
          [Badge ''yellow'' (star @ string_of_nat (favoritesCount (profiles s)) @ '' '' @ t ''profiles.favoritesOnly'')] @
        [Txt (t ''profiles.subtitle'')]) @
     [Btn (t ''profiles.addProfile'') False False (on_local (\<lambda>l. l\<lparr>isHubModalOpen := True\<rparr>))]"

definition filter_pills :: "dictionary \<Rightarrow> app \<Rightarrow> (library_filter \<times> string) list" where
  "filter_pills t s =
     [(FilterAll, t ''common.all'' @ '' ('' @ string_of_nat (length (profiles s)) @ '')''),
      (FilterFavorites, star @ t ''profiles.favoritesOnly'' @ '' ('' @ string_of_nat (favoritesCount (profiles s)) @ '')''),
      (FilterOpenvpn, ''OpenVPN''), (FilterWireguard, ''WireGuard ('' @ t ''common.comingSoon'' @ '')'')]"

definition library_controls ::
  "dictionary \<Rightarrow> bool \<Rightarrow> library \<Rightarrow> app \<Rightarrow> (library \<times> app \<Rightarrow> library \<times> app) element list" where
  "library_controls t mobile l s =
     [Field (if mobile then t ''common.search'' else t ''profiles.searchPlaceholder'') (search l)
        (\<lambda>v. on_local (\<lambda>l. l\<lparr>search := v\<rparr>))] @
     shown (search l \<noteq> []) [Btn [] False False (on_local (\<lambda>l. l\<lparr>search := []\<rparr>))] @
     shown (\<not> mobile)
       [Choice (if viewMode l = GridMode then ''grid'' else ''table'') [(''grid'', ''Grid View''), (''table'', ''Table View'')]
          (\<lambda>v. on_local (\<lambda>l. l\<lparr>viewMode := (if v = ''grid'' then GridMode else TableMode)\<rparr>))] @
     map (\<lambda>(f, label). Btn label False False (on_local (\<lambda>l. l\<lparr>activeFilter := f\<rparr>))) (filter_pills t s)"

definition library_empty ::
  "dictionary \<Rightarrow> library \<Rightarrow> (library \<times> app \<Rightarrow> library \<times> app) element list" where
  "library_empty t l =
     [Txt (t ''profiles.noProfilesFound'')] @ shown (search l \<noteq> []) [Txt (t ''profiles.createPrompt'')] @
     (if search l \<noteq> [] then [Btn (t ''common.reset'') False False (on_local (\<lambda>l. l\<lparr>search := []\<rparr>))]
      else [Btn (t ''profiles.addProfile'') False False (on_local (\<lambda>l. l\<lparr>isHubModalOpen := True\<rparr>))])"

definition row_connect_click :: "VpnProfile \<Rightarrow> app \<Rightarrow> app" where
  "row_connect_click p s = (if card_isConnected (card_state_of p s) \<or> card_isConnecting (card_state_of p s)
     then disconnect s else connect (Some (profile_id p)) None s)"

definition row_label :: "card_state \<Rightarrow> string" where
  "row_label c = (if card_isConnected c then ''Disconnect'' else if card_isConnecting c then ''Cancel''
     else if card_isError c then ''Retry'' else ''Connect'')"

definition table_row :: "app \<Rightarrow> VpnProfile \<Rightarrow> (library \<times> app \<Rightarrow> library \<times> app) element list" where
  "table_row s p = (let c = card_state_of p s in
     [Btn [] False False (on_store (toggleFavorite (profile_id p))), Txt (serverFlag p), Txt (profile_name p)] @
     shown (card_isConnected c) [Badge ''teal'' ''ACTIVE''] @
     shown (card_isConnecting c) [Badge ''yellow'' ''CONNECTING...''] @
     shown (card_isError c) [Badge ''red'' ''FAILED''] @
     [Txt (locationSubtitle p), Badge ''cyan'' (formatProtocolLabel (protocol_string (protocol p))),
      Txt (serverHost p @ '':'' @ string_of_nat (serverPort p)), Txt (ms_text (pingMs p)),
      Tip ''Edit'' [Btn [] False False (on_local (handleEdit p))],
      Btn (row_label c) False (card_isConnecting c \<or> card_isDisconnecting c) (on_store (row_connect_click p))])"

definition library_view ::
  "dictionary \<Rightarrow> bool \<Rightarrow> library \<Rightarrow> app \<Rightarrow> (library \<times> app \<Rightarrow> library \<times> app) element list" where
  "library_view t mobile l s =
     (let ps = filteredProfiles (search l) (activeFilter l) (profiles s) in
      library_header t mobile s @ library_controls t mobile l s @
      (if ps = [] then library_empty t l
       else if effectiveViewMode mobile l = GridMode then concat (map (profile_card t s) ps)
       else map Txt [[], ''Profile / Location'', ''Protocol'', ''Endpoint'', ''Latency'', ''Actions''] @
         concat (map (table_row s) ps)))"

section \<open>Log console\<close>

text \<open>
  The console acts on the clipboard, on the exported files and on the store. \<open>copied\<close> says which
  texts a copy button still reports as copied, \<open>localTime\<close> is the time in the user's format.
\<close>

record console =
  clipboard :: "string option"
  exported :: "string list"

definition copy_text :: "string \<Rightarrow> console \<Rightarrow> console" where
  "copy_text x c = c\<lparr>clipboard := Some x\<rparr>"

definition handleExportLogs :: "LogEntry list \<Rightarrow> console \<Rightarrow> console" where
  "handleExportLogs ls c = c\<lparr>exported := exported c @ [getFullFormattedLogs ls]\<rparr>"

definition console_logs :: "app \<Rightarrow> LogEntry list" where
  "console_logs s = filteredLogs (logFilterLevel s) (logSearchQuery s) (logs s)"

definition console_mobile_actions ::
  "(string \<Rightarrow> bool) \<Rightarrow> app \<Rightarrow> (console \<times> app \<Rightarrow> console \<times> app) element list" where
  "console_mobile_actions copied s = (let ls = console_logs s; all = getFullFormattedLogs ls in
     [Tip (if isLogAutoScroll s then ''Pause Auto-scroll'' else ''Resume Auto-scroll'')
        [Btn [] False False (on_store (setLogAutoScroll (\<not> isLogAutoScroll s)))],
      Tip (if copied all then ''Copied all!'' else ''Copy all visible logs'')
        [Btn [] False False (on_local (copy_text all))],
      Tip ''Export logs (.txt)'' [Btn [] (ls = []) False (on_local (handleExportLogs ls))],
      Tip ''Clear memory logs'' [Btn [] (logs s = []) False (on_store clearLogs)]])"

definition console_desktop_actions ::
  "(string \<Rightarrow> bool) \<Rightarrow> bool \<Rightarrow> string \<Rightarrow> app \<Rightarrow> (console \<times> app \<Rightarrow> console \<times> app) element list" where
  "console_desktop_actions copied tablet localTime s = (let ls = console_logs s; all = getFullFormattedLogs ls in
     shown (\<not> tablet)
       [Tip ''Insert a test log event'' [Btn ''Test Event'' False False
          (on_store (addLog INFO ''USER_EVENT'' (''Manual trigger test event at '' @ localTime)))]] @
     [Tip (if isLogAutoScroll s then ''Pause automatic scrolling'' else ''Resume auto scroll'')
        [Btn (if isLogAutoScroll s then ''Auto-scroll ON'' else ''PAUSED'') False False
          (on_store (setLogAutoScroll (\<not> isLogAutoScroll s)))],
      Tip (if copied all then ''Copied!'' else ''Copy visible logs'')
        [Btn (if copied all then ''Copied'' else ''Copy'') False False (on_local (copy_text all))],
      Tip ''Export visible logs as .txt'' [Btn ''Export'' (ls = []) False (on_local (handleExportLogs ls))],
      Tip ''Clear all console logs'' [Btn ''Clear'' (logs s = []) False (on_store clearLogs)]])"

definition console_controls :: "bool \<Rightarrow> app \<Rightarrow> (console \<times> app \<Rightarrow> console \<times> app) element list" where
  "console_controls mobile s = (let levels = levelFilterData (stats (logs s)) in
     [Field (if mobile then ''Search logs...'' else ''Search logs by keyword, subsystem, error...'')
        (logSearchQuery s) (\<lambda>v. on_store (setLogSearchQuery v))] @
     shown (logSearchQuery s \<noteq> []) [Btn [] False False (on_store (setLogSearchQuery []))] @
     (if mobile then map (\<lambda>(k, label). Btn label False False (on_store (setLogFilterLevel k))) levels
      else [Choice (logFilterLevel s) levels (\<lambda>v. on_store (setLogFilterLevel v))]))"

definition console_empty :: "string \<Rightarrow> app \<Rightarrow> (console \<times> app \<Rightarrow> console \<times> app) element list" where
  "console_empty localTime s = (if logs s = []
     then [Txt ''Console Stream Idle'',
           Txt ''System events, routing changes, and IPC telemetry will stream here automatically.'',
           Btn ''Trigger Test Event'' False False
             (on_store (addLog INFO ''SYSTEM'' (''Manual console trigger test event at '' @ localTime)))]
     else [Txt ''No Matching Logs'',
           Txt ''No log records match your active search query or level filter.'',
           Btn ''Reset Filters'' False False
             (on_store (\<lambda>s. setLogSearchQuery [] (setLogFilterLevel ''ALL'' s)))])"

definition console_line :: "LogEntry \<Rightarrow> string" where
  "console_line l = ''['' @ log_timestamp l @ ''] ['' @ level_string (log_level l) @ ''] ['' @ log_source l @
     '']: '' @ log_message l"

definition console_row ::
  "(string \<Rightarrow> bool) \<Rightarrow> bool \<Rightarrow> LogEntry \<Rightarrow> (console \<times> app \<Rightarrow> console \<times> app) element list" where
  "console_row copied mobile l =
     (let copy = Btn [] False False (on_local (copy_text (console_line l)));
          meta = [Txt (''['' @ log_timestamp l @ '']''), Badge (getLevelColor (log_level l)) (level_string (log_level l)),
            Txt (''['' @ log_source l @ '']'')]
      in if mobile then meta @ [copy, Txt (log_message l)]
         else meta @ [Txt (log_message l),
           Tip (if copied (console_line l) then ''Copied line'' else ''Copy line'') [copy]])"

definition console_view ::
  "(string \<Rightarrow> bool) \<Rightarrow> bool \<Rightarrow> bool \<Rightarrow> string \<Rightarrow> app \<Rightarrow> (console \<times> app \<Rightarrow> console \<times> app) element list" where
  "console_view copied mobile tablet localTime s = (let ls = console_logs s in
     [Txt (if mobile then ''System Console'' else ''Live Daemon & System Console''), Badge ''teal'' ''STREAM ACTIVE''] @
     shown (\<not> mobile)
       [Txt ''Real-time IPC telemetry, kernel events, routing state transitions, and diagnostics''] @
     (if mobile then console_mobile_actions copied s else console_desktop_actions copied tablet localTime s) @
     console_controls mobile s @
     [Badge ''cyan'' ''NEWEST ON TOP'',
      Badge ''teal'' (string_of_nat (length ls) @ '' of '' @ string_of_nat (length (logs s)))] @
     (if ls = [] then console_empty localTime s else concat (map (console_row copied mobile) ls)) @
     shown (\<not> isLogAutoScroll s \<and> ls \<noteq> []) [Btn ''Scroll to Top'' False False id])"

end
