(* ===== verification/Form_Elements.thy ===== *)
theory Form_Elements
  imports Library_Elements Profile_Forms Config_Import
begin

text \<open>
  What the dialogs of the profile library render and do: \<^verbatim>\<open>profiles/ProfileModal.tsx\<close>,
  \<^verbatim>\<open>profiles/CertificateManagerModal.tsx\<close>, \<^verbatim>\<open>profiles/NewProfileHubModal.tsx\<close>,
  \<^verbatim>\<open>profiles/ConnectMfaModal.tsx\<close> and \<^verbatim>\<open>profiles/ProtocolSelectionModal.tsx\<close>. The state of a dialog is
  paired with the state of the library that opens it and with the store.
\<close>

section \<open>State of the profile dialog\<close>

datatype cert_tab = CertCa | CertTls | CertClient | CertAdvanced

record profile_dialog =
  pd_form :: profile_form
  pd_certModalOpened :: bool
  pd_activeTab :: cert_tab
  pd_cert :: tls_form

type_synonym editing = "profile_dialog \<times> library \<times> app"

text \<open>
  The certificate manager loads its own copy of the settings in an effect on \<open>opened\<close> and
  \<open>config\<close>. The dialog passes it a new \<open>config\<close> object whenever it renders, so the effect runs
  after every render of the dialog while the manager is open.
\<close>

definition cert_sync :: "profile_dialog \<Rightarrow> profile_dialog" where
  "cert_sync d = (if pd_certModalOpened d then d\<lparr>pd_cert := tls_open (tls_config_of (pd_form d))\<rparr> else d)"

definition set_form :: "(profile_form \<Rightarrow> profile_form) \<Rightarrow> editing \<Rightarrow> editing" where
  "set_form g = on_local (\<lambda>d. cert_sync (d\<lparr>pd_form := g (pd_form d)\<rparr>))"

definition set_certModalOpened :: "bool \<Rightarrow> editing \<Rightarrow> editing" where
  "set_certModalOpened b = on_local (\<lambda>d. cert_sync (d\<lparr>pd_certModalOpened := b\<rparr>))"

text \<open>A setter of the manager renders the manager only.\<close>

definition set_cert :: "(tls_form \<Rightarrow> tls_form) \<Rightarrow> editing \<Rightarrow> editing" where
  "set_cert g = on_local (\<lambda>d. d\<lparr>pd_cert := g (pd_cert d)\<rparr>)"

text \<open>The dialog renders again: its clock for the live code, or any change of the store.\<close>

definition dialog_render :: "editing \<Rightarrow> editing" where
  "dialog_render = on_local cert_sync"

definition dialog_close :: "editing \<Rightarrow> editing" where
  "dialog_close = on_store (on_local onModalClose)"

definition dialog_submit :: "string \<Rightarrow> rat \<Rightarrow> editing \<Rightarrow> editing" where
  "dialog_submit uuid random e = (case e of (d, l, s) \<Rightarrow>
     dialog_close (d, l, handleSubmit uuid random (selectedProfile l) (pd_form d) s))"

text \<open>
  The effect that initialises the form: it runs when the dialog opens or closes and when its
  profile or its protocol changes.
\<close>

definition dialog_opened :: "editing \<Rightarrow> editing" where
  "dialog_opened e = (case e of (d, l, s) \<Rightarrow>
     (cert_sync (d\<lparr>pd_form := form_init (selectedProfile l) (chosenProtocol l = ChosenOpenvpn)\<rparr>), l, s))"

section \<open>Profile dialog\<close>

definition hasPopulatedTls :: "profile_form \<Rightarrow> bool" where
  "hasPopulatedTls f \<longleftrightarrow> f_caCert f \<noteq> [] \<or> f_tlsAuthKey f \<noteq> [] \<or> f_tlsCryptKey f \<noteq> [] \<or>
     f_clientCert f \<noteq> [] \<or> f_clientKey f \<noteq> [] \<or> f_renegSec f \<noteq> None \<or> f_keyDirection f \<noteq> ''none''"

definition dialog_title :: "dictionary \<Rightarrow> bool \<Rightarrow> profile_form \<Rightarrow> (editing \<Rightarrow> editing) element list" where
  "dialog_title t edit f = (let wg = (f_protocol f = Wireguard) in
     [Txt (if edit then (if wg then t ''modals.editWgTitle'' else t ''modals.editOvpnTitle'')
        else (if wg then t ''modals.createWgTitle'' else t ''modals.createOvpnTitle'')),
      Badge (if wg then ''yellow'' else ''teal'')
        (if wg then ''WireGuard'' @ bullet @ t ''common.comingSoon''
         else if f_protocol f = OpenvpnTcp then ''OpenVPN (TCP)'' else ''OpenVPN (UDP)'')])"

definition transport_of :: "string \<Rightarrow> ProtocolType" where
  "transport_of v = (if v = ''openvpn_tcp'' then OpenvpnTcp else OpenvpnUdp)"

definition server_section :: "dictionary \<Rightarrow> profile_form \<Rightarrow> (editing \<Rightarrow> editing) element list" where
  "server_section t f = (let wg = (f_protocol f = Wireguard) in
     [Txt (t ''modals.serverSettingsTitle''),
      Tip (if wg then t ''modals.profileNameWgPlaceholder'' else t ''modals.profileNameOvpnPlaceholder'')
        [Field (t ''modals.profileNameLabel'') (f_name f) (\<lambda>v. set_form (\<lambda>f. f\<lparr>f_name := v\<rparr>))]] @
     shown (\<not> wg)
       [Txt (t ''modals.transportProtoLabel''),
        Choice (protocol_string (f_protocol f)) [(''openvpn_udp'', ''UDP''), (''openvpn_tcp'', ''TCP'')]
          (\<lambda>v. set_form (select_transport (transport_of v)))] @
     [Tip (t ''modals.serverHostPlaceholder'')
        [Field (t ''modals.serverHostLabel'') (f_serverHost f) (\<lambda>v. set_form (\<lambda>f. f\<lparr>f_serverHost := v\<rparr>))],
      Number (t ''modals.portLabel'') (Some (f_serverPort f)) (\<lambda>n. set_form (enter_port (nullish n 0)))] @
     shown wg
       [Tip ''10.8.0.2/24'' [Tip (t ''modals.virtualIpDesc'')
          [Field (t ''modals.virtualIpLabel'') (f_virtualIp f) (\<lambda>v. set_form (\<lambda>f. f\<lparr>f_virtualIp := v\<rparr>))]]] @
     [Txt (t ''modals.intranetOnlyTitle''),
      Txt (if f_useOnlyForNetworkResources f then t ''modals.intranetOnlyActiveDesc''
        else t ''modals.intranetOnlyDefaultDesc''),
      Switch (f_useOnlyForNetworkResources f) (\<lambda>b. set_form (\<lambda>f. f\<lparr>f_useOnlyForNetworkResources := b\<rparr>))] @
     shown (f_useOnlyForNetworkResources f)
       [Tip (t ''modals.customSubnetsPlaceholder'') [Tip (t ''modals.customSubnetsDesc'')
          [Field (t ''modals.customSubnetsLabel'') (f_customSubnetsInput f)
            (\<lambda>v. set_form (\<lambda>f. f\<lparr>f_customSubnetsInput := v\<rparr>))]],
        Txt (t ''modals.customSubnetsHint'')])"

definition wireguard_keys :: "dictionary \<Rightarrow> profile_form \<Rightarrow> (editing \<Rightarrow> editing) element list" where
  "wireguard_keys t f =
     [Tip (t ''modals.wgPrivKeyPlaceholder'') [Tip (t ''modals.wgPrivKeyDesc'')
        [Field (t ''modals.wgPrivKeyLabel'') (f_privateKey f) (\<lambda>v. set_form (\<lambda>f. f\<lparr>f_privateKey := v\<rparr>))]],
      Tip (t ''modals.wgPskPlaceholder'') [Tip (t ''modals.wgPskDesc'')
        [Field (t ''modals.wgPskLabel'') (f_presharedKey f) (\<lambda>v. set_form (\<lambda>f. f\<lparr>f_presharedKey := v\<rparr>))]]]"

fun mode_string :: "PasswordMode \<Rightarrow> string" where
  "mode_string PmStatic = ''static''"
| "mode_string PmTotpAuto = ''totp_auto''"
| "mode_string PmDynamicPrompt = ''dynamic_prompt''"

definition mode_of :: "string \<Rightarrow> PasswordMode" where
  "mode_of v = (if v = ''totp_auto'' then PmTotpAuto else if v = ''dynamic_prompt'' then PmDynamicPrompt
     else PmStatic)"

fun format_string :: "TotpFormat \<Rightarrow> string" where
  "format_string TfAppend = ''append''"
| "format_string TfPrefix = ''prefix''"
| "format_string TfTotpOnly = ''totp_only''"

definition format_of :: "string \<Rightarrow> TotpFormat" where
  "format_of v = (if v = ''prefix'' then TfPrefix else if v = ''totp_only'' then TfTotpOnly else TfAppend)"

text \<open>\<open>live\<close> is the code shown by the clock of the dialog, with the seconds left.\<close>

definition totp_section ::
  "dictionary \<Rightarrow> (string \<times> int) option \<Rightarrow> profile_form \<Rightarrow> (editing \<Rightarrow> editing) element list" where
  "totp_section t live f =
     [Tip (t ''modals.totpSecretPlaceholder'') [Tip (t ''modals.totpSecretDesc'')
        [Field (t ''modals.totpSecretLabel'') (f_totpSecret f) (\<lambda>v. set_form (\<lambda>f. f\<lparr>f_totpSecret := v\<rparr>))]],
      Tip (t ''modals.totpFormatLabel'')
        [Choice (format_string (f_totpFormat f))
          [(''append'', t ''modals.totpFormatAppend''), (''prefix'', t ''modals.totpFormatPrefix''),
           (''totp_only'', t ''modals.totpFormatOnly'')]
          (\<lambda>v. set_form (\<lambda>f. f\<lparr>f_totpFormat := format_of v\<rparr>))]] @
     (case live of
        Some (code, left) \<Rightarrow> shown (code \<noteq> [])
          [Txt (t ''modals.liveTotpLabel''), Txt code, Txt (string_of_int left),
           Badge ''cyan'' (t ''modals.activeOtpBadge'')]
      | None \<Rightarrow> [])"

definition openvpn_auth ::
  "dictionary \<Rightarrow> (string \<times> int) option \<Rightarrow> profile_form \<Rightarrow> (editing \<Rightarrow> editing) element list" where
  "openvpn_auth t live f =
     [Tip (t ''modals.ovpnUsernamePlaceholder'')
        [Field (t ''modals.ovpnUsernameLabel'') (f_username f) (\<lambda>v. set_form (\<lambda>f. f\<lparr>f_username := v\<rparr>))],
      Txt (t ''modals.ovpnAuthModeLabel''),
      Choice (mode_string (f_passwordMode f))
        [(''static'', t ''modals.authModeStatic''), (''totp_auto'', t ''modals.authModeTotpAuto''),
         (''dynamic_prompt'', t ''modals.authModeDynamicPrompt'')]
        (\<lambda>v. set_form (\<lambda>f. f\<lparr>f_passwordMode := mode_of v\<rparr>)),
      Tip (if f_passwordMode f = PmDynamicPrompt then t ''modals.basePasswordPlaceholder''
          else t ''modals.passwordPlaceholder'')
        [Field (if f_passwordMode f = PmTotpAuto then t ''modals.basePasswordLabel'' else t ''modals.passwordLabel'')
          (f_password f) (\<lambda>v. set_form (\<lambda>f. f\<lparr>f_password := v\<rparr>))]] @
     shown (f_passwordMode f = PmTotpAuto) (totp_section t live f) @
     shown (f_passwordMode f = PmDynamicPrompt) [Txt (t ''modals.dynamicPromptHint'')]"

definition tls_summary :: "dictionary \<Rightarrow> profile_form \<Rightarrow> (editing \<Rightarrow> editing) element list" where
  "tls_summary t f =
     [Txt (t ''modals.tlsSummaryTitle''), Txt (t ''modals.tlsSummaryDesc''),
      Btn (if hasPopulatedTls f then t ''modals.btnConfigSecurity'' else t ''modals.btnSetupCertificates'')
        False False (set_certModalOpened True),
      (if f_caCert f \<noteq> [] then Badge ''teal'' (t ''modals.badgeCustomCa'')
       else Badge ''gray'' (t ''modals.badgeSystemCa'')),
      (if f_tlsCryptKey f \<noteq> [] then Badge ''cyan'' (t ''modals.badgeTlsCrypt'')
       else if f_tlsAuthKey f \<noteq> []
       then Badge ''cyan'' (replaceFirst ''{direction}'' (f_keyDirection f) (t ''modals.badgeTlsAuth''))
       else Badge ''gray'' (t ''modals.badgeStandardTls'')),
      (if f_clientCert f \<noteq> [] \<or> f_clientKey f \<noteq> [] then Badge ''indigo'' (t ''modals.badgeClientCertKey'')
       else Badge ''gray'' (t ''modals.badgeUserPassAuth''))] @
     shown (f_remoteCertTlsServer f) [Badge ''teal'' (t ''modals.badgeServerVerify'')]"

definition auth_section ::
  "dictionary \<Rightarrow> (string \<times> int) option \<Rightarrow> profile_form \<Rightarrow> (editing \<Rightarrow> editing) element list" where
  "auth_section t live f = (let wg = (f_protocol f = Wireguard) in
     [Txt (t ''modals.keysAuthTitle''),
      Badge (if wg then ''cyan'' else ''teal'')
        (if wg then t ''modals.wgKeyExchangeBadge'' else t ''modals.ovpnAuth2faBadge'')] @
     (if wg then wireguard_keys t f else openvpn_auth t live f @ tls_summary t f))"

definition profile_dialog_view ::
  "dictionary \<Rightarrow> string \<Rightarrow> rat \<Rightarrow> (string \<times> int) option \<Rightarrow> editing \<Rightarrow> (editing \<Rightarrow> editing) element list" where
  "profile_dialog_view t uuid random live e = (case e of (d, l, s) \<Rightarrow>
     let f = pd_form d; edit = isEdit (selectedProfile l) s in
     shown (isProfileModalOpen l)
       (dialog_title t edit f @ server_section t f @ auth_section t live f @
        [Btn (t ''common.cancel'') False False dialog_close,
         Btn (if edit then t ''modals.btnSaveChanges'' else t ''modals.btnCreateProfile'') False False
           (dialog_submit uuid random)]))"

section \<open>Certificate manager\<close>

text \<open>
  \<open>picked\<close> is the content of the file the user picks, \<open>None\<close> when the picker is cancelled.
\<close>

definition triggerFilePicker :: "string option \<Rightarrow> (string \<Rightarrow> editing \<Rightarrow> editing) \<Rightarrow> editing \<Rightarrow> editing" where
  "triggerFilePicker picked onLoaded e = (case picked of None \<Rightarrow> e | Some text \<Rightarrow> onLoaded (trim text) e)"

text \<open>
  The box above a certificate or key: its title, whether it is loaded, the import button and,
  when it is loaded, the button that clears it. The five boxes of the dialog are alike.
\<close>

definition pem_box ::
  "string \<Rightarrow> string \<Rightarrow> string \<Rightarrow> string \<Rightarrow> string \<Rightarrow> string option \<Rightarrow> string \<Rightarrow> (string \<Rightarrow> editing \<Rightarrow> editing) \<Rightarrow>
   (editing \<Rightarrow> editing) element list" where
  "pem_box title loaded none import_label clear_title picked v put =
     [Txt title,
      Txt (if v \<noteq> [] then replaceFirst ''{length}'' (string_of_nat (length v)) loaded else none),
      Btn import_label False False (triggerFilePicker picked put)] @
     shown (v \<noteq> []) [Btn clear_title False False (put [])]"

definition line_feed :: string where
  "line_feed = [CHR 0x0A]"

definition pem_placeholder :: "string \<Rightarrow> string" where
  "pem_placeholder kind = ''-----BEGIN '' @ kind @ ''-----'' @ line_feed @ ''...'' @ line_feed @ ''-----END '' @
     kind @ ''-----''"

definition check_mark :: string where
  "check_mark = [CHR 0xE2, CHR 0x9C, CHR 0x93]"

definition set_tab :: "cert_tab \<Rightarrow> editing \<Rightarrow> editing" where
  "set_tab tab = on_local (\<lambda>d. d\<lparr>pd_activeTab := tab\<rparr>)"

definition cert_tabs :: "dictionary \<Rightarrow> tls_form \<Rightarrow> (editing \<Rightarrow> editing) element list" where
  "cert_tabs t c = (let done = (\<lambda>b. shown b [Badge ''teal'' check_mark]) in
     [Click (set_tab CertCa) (Txt (t ''modals.tabRootCa'') # done (tf_caCert c \<noteq> [])),
      Click (set_tab CertTls) (Txt (t ''modals.tabTlsChannel'') #
        done ((tf_tlsMode c = TlsAuth \<and> tf_tlsAuthKey c \<noteq> []) \<or> (tf_tlsMode c = TlsCrypt \<and> tf_tlsCryptKey c \<noteq> []))),
      Click (set_tab CertClient) (Txt (t ''modals.tabClientIdentity'') #
        done (tf_clientCert c \<noteq> [] \<or> tf_clientKey c \<noteq> [])),
      Click (set_tab CertAdvanced) [Txt (t ''modals.tabAdvanced'')]])"

definition ca_panel :: "dictionary \<Rightarrow> string option \<Rightarrow> tls_form \<Rightarrow> (editing \<Rightarrow> editing) element list" where
  "ca_panel t picked c = (let put = (\<lambda>v. set_cert (\<lambda>c. c\<lparr>tf_caCert := v\<rparr>)) in
     pem_box (t ''modals.rootCaTitle'') (t ''modals.rootCaLoaded'') (t ''modals.rootCaDefaultSystem'')
       (t ''modals.importCrtPem'') ''Clear CA Certificate'' picked (tf_caCert c) put @
     [Tip (t ''modals.rootCaPemPlaceholder'') [Field (t ''modals.rootCaPemLabel'') (tf_caCert c) put]])"

fun tls_mode_string :: "TlsMode \<Rightarrow> string" where
  "tls_mode_string TlsNone = ''none''"
| "tls_mode_string TlsAuth = ''tls-auth''"
| "tls_mode_string TlsCrypt = ''tls-crypt''"

definition tls_mode_of :: "string \<Rightarrow> TlsMode" where
  "tls_mode_of v = (if v = ''tls-auth'' then TlsAuth else if v = ''tls-crypt'' then TlsCrypt else TlsNone)"

definition tls_auth_box :: "dictionary \<Rightarrow> string option \<Rightarrow> tls_form \<Rightarrow> (editing \<Rightarrow> editing) element list" where
  "tls_auth_box t picked c = (let put = (\<lambda>v. set_cert (\<lambda>c. c\<lparr>tf_tlsAuthKey := v\<rparr>)) in
     pem_box (t ''modals.tlsAuthStaticKeyTitle'') (t ''modals.tlsKeyLoaded'') (t ''modals.noKeyLoaded'')
       (t ''modals.importKeyFile'') ''Clear TLS Auth Key'' picked (tf_tlsAuthKey c) put @
     [Tip (pem_placeholder ''OpenVPN Static key V1'') [Field (t ''modals.tlsAuthKeyContentLabel'') (tf_tlsAuthKey c) put],
      Tip (t ''modals.keyDirectionLabel'') [Tip (t ''modals.keyDirectionDesc'')
        [Choice (tf_keyDirection c)
          [(''none'', t ''modals.keyDirNone''), (''0'', t ''modals.keyDir0''), (''1'', t ''modals.keyDir1'')]
          (\<lambda>v. set_cert (\<lambda>c. c\<lparr>tf_keyDirection := or_str (Some v) ''none''\<rparr>))]]])"

definition tls_crypt_box :: "dictionary \<Rightarrow> string option \<Rightarrow> tls_form \<Rightarrow> (editing \<Rightarrow> editing) element list" where
  "tls_crypt_box t picked c = (let put = (\<lambda>v. set_cert (\<lambda>c. c\<lparr>tf_tlsCryptKey := v\<rparr>)) in
     pem_box (t ''modals.tlsCryptKeyTitle'') (t ''modals.tlsKeyLoaded'') (t ''modals.noKeyLoaded'')
       (t ''modals.importKeyFile'') ''Clear TLS Crypt Key'' picked (tf_tlsCryptKey c) put @
     [Tip (pem_placeholder ''OpenVPN Static key V1'') [Field (t ''modals.tlsCryptKeyContentLabel'') (tf_tlsCryptKey c) put]])"

definition tls_panel :: "dictionary \<Rightarrow> string option \<Rightarrow> tls_form \<Rightarrow> (editing \<Rightarrow> editing) element list" where
  "tls_panel t picked c =
     [Tip (t ''modals.tlsModeLabel'') [Tip (t ''modals.tlsModeDesc'')
        [Choice (tls_mode_string (tf_tlsMode c))
          [(''none'', t ''modals.tlsModeNone''), (''tls-auth'', t ''modals.tlsModeAuth''),
           (''tls-crypt'', t ''modals.tlsModeCrypt'')]
          (\<lambda>v. set_cert (\<lambda>c. c\<lparr>tf_tlsMode := tls_mode_of v\<rparr>))]]] @
     shown (tf_tlsMode c = TlsAuth) (tls_auth_box t picked c) @
     shown (tf_tlsMode c = TlsCrypt) (tls_crypt_box t picked c)"

definition client_cert_box :: "dictionary \<Rightarrow> string option \<Rightarrow> tls_form \<Rightarrow> (editing \<Rightarrow> editing) element list" where
  "client_cert_box t picked c = (let put = (\<lambda>v. set_cert (\<lambda>c. c\<lparr>tf_clientCert := v\<rparr>)) in
     pem_box (t ''modals.clientCertTitle'') (t ''modals.clientCertLoaded'') (t ''modals.noCertLoaded'')
       (t ''modals.importCrt'') ''Clear Client Cert'' picked (tf_clientCert c) put @
     [Field (pem_placeholder ''CERTIFICATE'') (tf_clientCert c) put])"

definition client_key_box :: "dictionary \<Rightarrow> string option \<Rightarrow> tls_form \<Rightarrow> (editing \<Rightarrow> editing) element list" where
  "client_key_box t picked c = (let put = (\<lambda>v. set_cert (\<lambda>c. c\<lparr>tf_clientKey := v\<rparr>)) in
     pem_box (t ''modals.clientKeyTitle'') (t ''modals.clientKeyLoaded'') (t ''modals.noPrivateKeyLoaded'')
       (t ''modals.importKey'') ''Clear Client Key'' picked (tf_clientKey c) put @
     [Field (pem_placeholder ''PRIVATE KEY'') (tf_clientKey c) put])"

definition client_panel :: "dictionary \<Rightarrow> string option \<Rightarrow> tls_form \<Rightarrow> (editing \<Rightarrow> editing) element list" where
  "client_panel t picked c =
     [Txt (t ''modals.clientIdentityDesc'')] @ client_cert_box t picked c @ client_key_box t picked c"

definition advanced_panel :: "dictionary \<Rightarrow> tls_form \<Rightarrow> (editing \<Rightarrow> editing) element list" where
  "advanced_panel t c =
     [Txt (t ''modals.verifyServerCertTitle''), Txt (t ''modals.verifyServerCertDesc''),
      Switch (tf_remoteCertTlsServer c) (\<lambda>b. set_cert (\<lambda>c. c\<lparr>tf_remoteCertTlsServer := b\<rparr>)),
      Tip (t ''modals.renegSecPlaceholder'') [Tip (t ''modals.renegSecDesc'')
        [Number (t ''modals.renegSecLabel'') (tf_renegSec c) (\<lambda>n. set_cert (\<lambda>c. c\<lparr>tf_renegSec := n\<rparr>))]]]"

definition cert_close :: "editing \<Rightarrow> editing" where
  "cert_close = set_certModalOpened False"

text \<open>\<open>handleSave\<close>: the settings go to the dialog, then the manager closes; one render follows both.\<close>

definition cert_handleSave :: "editing \<Rightarrow> editing" where
  "cert_handleSave = on_local (\<lambda>d. cert_sync (d\<lparr>pd_form := tls_onSave (tls_save (pd_cert d)) (pd_form d),
     pd_certModalOpened := False\<rparr>))"

definition cert_manager_view ::
  "dictionary \<Rightarrow> string option \<Rightarrow> editing \<Rightarrow> (editing \<Rightarrow> editing) element list" where
  "cert_manager_view t picked e = (let d = fst e; c = pd_cert d in
     shown (pd_certModalOpened d)
       ([Txt (t ''modals.certManagerTitle'')] @ cert_tabs t c @
        (case pd_activeTab d of CertCa \<Rightarrow> ca_panel t picked c | CertTls \<Rightarrow> tls_panel t picked c
         | CertClient \<Rightarrow> client_panel t picked c | CertAdvanced \<Rightarrow> advanced_panel t c) @
        [Btn (t ''common.cancel'') False False cert_close,
         Btn (t ''modals.applyCertSettings'') False False cert_handleSave]))"

section \<open>New profile dialog\<close>

text \<open>
  The drop area of \<^verbatim>\<open>NewProfileHubModal.tsx\<close>: files accepted, drag over and out, files rejected
  (too large). It ignores everything while it is disabled.
\<close>

datatype drop_event = DropFiles "string list" | DropEnter | DropLeave | DropReject

definition dropzone :: "dictionary \<Rightarrow> drop_event \<Rightarrow> hub \<Rightarrow> hub" where
  "dropzone t ev h = (if hub_isLoading h then h else case ev of
     DropFiles names \<Rightarrow> handleFiles names h
   | DropEnter \<Rightarrow> h\<lparr>hub_isDraggingOver := True\<rparr>
   | DropLeave \<Rightarrow> h\<lparr>hub_isDraggingOver := False\<rparr>
   | DropReject \<Rightarrow> h\<lparr>hub_isDraggingOver := False, hub_error := Some (t ''modals.invalidFileType'')\<rparr>)"

definition dropzone_content :: "dictionary \<Rightarrow> hub \<Rightarrow> (hub \<times> library \<Rightarrow> hub \<times> library) element list" where
  "dropzone_content t h = (if hub_isLoading h
     then [Txt (t ''modals.dropzoneAnalyzing''),
           Txt (t ''modals.dropzoneExtracting'' @ '' '' @ or_str (Some (hub_loadingFileName h)) ''config'')]
     else [Txt (if hub_isDraggingOver h then t ''modals.dropzoneDropNow'' else t ''modals.importDropzoneText''),
           Txt (t ''modals.importDropzoneSubtext'')])"

text \<open>The manual cards: the one for WireGuard has no handler.\<close>

definition create_manually :: "hub \<times> library \<Rightarrow> hub \<times> library" where
  "create_manually hl = (hub_opened False (fst hl), onSelectManualCreate ChosenOpenvpn (onHubClose (snd hl)))"

definition manual_cards :: "dictionary \<Rightarrow> (hub \<times> library \<Rightarrow> hub \<times> library) element list" where
  "manual_cards t =
     [Txt (t ''profiles.addProfile''),
      Tip (t ''modals.wireguardComingSoonError'')
        [Txt (t ''modals.newProfileWireguardTitle''), Badge ''yellow'' (t ''common.comingSoon''),
         Txt (t ''modals.newProfileWireguardDesc'')],
      Click create_manually
        [Txt (t ''modals.newProfileOpenvpnTitle''), Badge ''teal'' ''TCP / UDP + 2FA'',
         Txt (t ''modals.newProfileOpenvpnDesc'')]]"

definition hub_view :: "dictionary \<Rightarrow> hub \<times> library \<Rightarrow> (hub \<times> library \<Rightarrow> hub \<times> library) element list" where
  "hub_view t hl = (let h = fst hl in
     shown (isHubModalOpen (snd hl))
       ([Txt (t ''modals.newProfileTitle'')] @
        (case hub_error h of Some x \<Rightarrow> shown (x \<noteq> []) [Badge ''red'' x] | None \<Rightarrow> []) @
        [Txt (t ''modals.newProfileImportTitle'')] @
        shown (hub_isDraggingOver h) [Badge ''cyan'' (t ''modals.dropzoneRelease'')] @
        dropzone_content t h @ [Txt (t ''common.or'')] @ manual_cards t))"

text \<open>The timer after a successful import, with the library's handlers: the form opens on the profile.\<close>

definition import_handover :: "VpnProfile \<Rightarrow> hub \<times> library \<Rightarrow> hub \<times> library" where
  "import_handover p hl = (hub_opened False (hub_timer p (fst hl)), onImportParsed p (onHubClose (snd hl)))"

section \<open>One-time-password prompt\<close>

text \<open>
  The prompt is open while the store names a profile to prompt for. The field of the code is
  required: the browser does not submit the form while it is empty.
\<close>

definition mfa_view ::
  "dictionary \<Rightarrow> mfa_form \<Rightarrow> app \<Rightarrow> (mfa_form \<times> app \<Rightarrow> mfa_form \<times> app) element list" where
  "mfa_view t m s = (case mfaPromptProfile s of
     None \<Rightarrow> []
   | Some p \<Rightarrow>
       [Txt (t ''modals.mfaTitle''), Txt (serverFlag p), Txt (profile_name p),
        Txt (serverHost p @ '':'' @ string_of_nat (serverPort p)), Badge ''yellow'' ''MFA / 2FA'',
        Txt (t ''modals.mfaUsername''), Txt (or_str (username (creds p)) ''user''),
        Field (t ''modals.mfaPassword'') (basePassword m) (\<lambda>v. on_local (\<lambda>m. m\<lparr>basePassword := v\<rparr>)),
        Tip (t ''modals.mfaPlaceholder'') [Tip (t ''modals.mfaSubtitle'')
          [Field (t ''modals.mfaCodeLabel'') (totpCode m) (\<lambda>v. on_local (\<lambda>m. m\<lparr>totpCode := v\<rparr>))]],
        Btn (t ''common.cancel'') False False (on_store (setMfaPromptProfile None)),
        Btn (t ''modals.mfaConfirm'') False (isSubmitting m)
          (\<lambda>(m, s). if totpCode m = [] then (m, s) else (m\<lparr>isSubmitting := True\<rparr>, mfa_submit m s))])"

section \<open>Protocol selection\<close>

text \<open>\<open>close\<close> and \<open>onSelect\<close> are the handlers of the dialog's parent.\<close>

definition protocol_selection_view ::
  "dictionary \<Rightarrow> bool \<Rightarrow> ('s \<Rightarrow> 's) \<Rightarrow> (chosen_protocol \<Rightarrow> 's \<Rightarrow> 's) \<Rightarrow> ('s \<Rightarrow> 's) element list" where
  "protocol_selection_view t isImport close onSelect =
     [Txt (if isImport then t ''modals.protoSelectImportTitle'' else t ''modals.protoSelectAddTitle''),
      Txt (if isImport then t ''modals.protoSelectImportDesc'' else t ''modals.protoSelectAddDesc''),
      Tip (t ''modals.wireguardComingSoonError'')
        [Txt (t ''modals.protoWgTitle''), Badge ''yellow'' (t ''common.comingSoon''),
         Txt (if isImport then t ''modals.protoWgDescImport'' else t ''modals.protoWgDescAdd'')],
      Click (\<lambda>s. onSelect ChosenOpenvpn (close s))
        [Txt (t ''modals.protoOvpnTitle''),
         Badge ''teal'' (if isImport then t ''modals.protoOvpnBadgeImport'' else t ''modals.protoOvpnBadgeAdd''),
         Txt (if isImport then t ''modals.protoOvpnDescImport'' else t ''modals.protoOvpnDescAdd'')]]"

end
