(* ===== verification/Rule_Elements.thy ===== *)
theory Rule_Elements
  imports Shell_Views
begin

text \<open>
  What the split-tunnelling view and the diagnostic export render and do:
  \<^verbatim>\<open>split_tunnel/SplitTunnelingView.tsx\<close>, \<^verbatim>\<open>split_tunnel/AddAppRuleModal.tsx\<close> and
  \<^verbatim>\<open>logs/DiagnosticExportModal.tsx\<close>.
\<close>

section \<open>Split tunnelling\<close>

datatype rules_tab = AppsTab | IpDomainTab

record rules_state =
  rv_isAppModalOpen :: bool
  rv_tab :: rules_tab
  rv_ip :: ip_rule_form
  rv_app :: app_rule_form

type_synonym rules_view = "rules_state \<times> app"

definition package_icon :: string where
  "package_icon = utf8 [0xF0, 0x9F, 0x93, 0xA6]"

definition COMMON_APPS :: "(string \<times> string \<times> string) list" where
  "COMMON_APPS =
     [(''Google Chrome'', ''/usr/bin/google-chrome-stable'', utf8 [0xF0, 0x9F, 0x8C, 0x90]),
      (''Discord Client'', ''/usr/bin/discord'', utf8 [0xF0, 0x9F, 0x92, 0xAC]),
      (''Visual Studio Code'', ''/usr/bin/code'', utf8 [0xF0, 0x9F, 0x92, 0xBB]),
      (''Spotify Music'', ''/usr/bin/spotify'', utf8 [0xF0, 0x9F, 0x8E, 0xB5]),
      (''Postman API Tool'', ''/usr/bin/postman'', utf8 [0xF0, 0x9F, 0x9A, 0x80]),
      (''Telegram Messenger'', ''/usr/bin/telegram-desktop'', utf8 [0xE2, 0x9C, 0x88, 0xEF, 0xB8, 0x8F])]"

definition rules_initial :: rules_state where
  "rules_initial = \<lparr>rv_isAppModalOpen = False, rv_tab = AppsTab,
     rv_ip = \<lparr>newTarget = [], newType = Cidr, newDesc = [], newMode = RouteVpn\<rparr>,
     rv_app = \<lparr>arf_name = [], arf_path = [], arf_icon = package_icon, arf_mode = Bypass\<rparr>\<rparr>"

definition set_ip :: "(ip_rule_form \<Rightarrow> ip_rule_form) \<Rightarrow> rules_view \<Rightarrow> rules_view" where
  "set_ip g = on_local (\<lambda>r. r\<lparr>rv_ip := g (rv_ip r)\<rparr>)"

definition set_app_form :: "(app_rule_form \<Rightarrow> app_rule_form) \<Rightarrow> rules_view \<Rightarrow> rules_view" where
  "set_app_form g = on_local (\<lambda>r. r\<lparr>rv_app := g (rv_app r)\<rparr>)"

definition app_modal :: "bool \<Rightarrow> rules_view \<Rightarrow> rules_view" where
  "app_modal b = on_local (\<lambda>r. r\<lparr>rv_isAppModalOpen := b\<rparr>)"

text \<open>The buttons that add a rule; \<open>uuid\<close> is the identifier drawn for it.\<close>

definition add_ip_click :: "string \<Rightarrow> rules_view \<Rightarrow> rules_view" where
  "add_ip_click uuid rs = (case handleAddIpRule uuid (rv_ip (fst rs), snd rs) of
     (f, s) \<Rightarrow> ((fst rs)\<lparr>rv_ip := f\<rparr>, s))"

definition add_app_click :: "string \<Rightarrow> rules_view \<Rightarrow> rules_view" where
  "add_app_click uuid rs = (let f = rv_app (fst rs) in if arf_name f = [] \<or> arf_path f = [] then rs
     else app_modal False (fst rs, handleAdd uuid f (snd rs)))"

fun tunnel_mode_string :: "SplitTunnelMode \<Rightarrow> string" where
  "tunnel_mode_string Bypass = ''bypass''"
| "tunnel_mode_string RouteVpn = ''route_vpn''"

definition tunnel_mode_of :: "string \<Rightarrow> SplitTunnelMode" where
  "tunnel_mode_of v = (if v = ''bypass'' then Bypass else RouteVpn)"

fun ip_type_string :: "IpRuleType \<Rightarrow> string" where
  "ip_type_string Cidr = ''cidr''"
| "ip_type_string Domain = ''domain''"

definition ip_type_of :: "string \<Rightarrow> IpRuleType" where
  "ip_type_of v = (if v = ''domain'' then Domain else Cidr)"

definition app_rule_row :: "dictionary \<Rightarrow> AppRule \<Rightarrow> (rules_view \<Rightarrow> rules_view) element list" where
  "app_rule_row t r =
     [Switch (app_enabled r) (\<lambda>_. on_store (toggleAppRule (app_id r))),
      Txt (or_str (app_icon r) package_icon), Txt (app_name r), Txt (app_path r),
      Badge (if app_mode r = RouteVpn then ''teal'' else ''yellow'')
        (if app_mode r = RouteVpn then t ''splitTunnel.routeVpnBadge'' else t ''splitTunnel.bypassBadge''),
      Btn [] False False (on_store (deleteAppRule (app_id r)))]"

definition apps_panel :: "dictionary \<Rightarrow> app \<Rightarrow> (rules_view \<Rightarrow> rules_view) element list" where
  "apps_panel t s =
     [Txt (t ''splitTunnel.appsSectionTitle''), Txt (t ''splitTunnel.appsSectionDesc''),
      Btn (t ''splitTunnel.btnAddAppRule'') False False (app_modal True)] @
     map (\<lambda>k. Txt (t k)) [''splitTunnel.colStatus'', ''splitTunnel.colApp'', ''splitTunnel.colPath'',
       ''splitTunnel.colPolicy'', ''splitTunnel.colActions''] @
     concat (map (app_rule_row t) (appRules s))"

definition ip_rule_add :: "dictionary \<Rightarrow> string \<Rightarrow> ip_rule_form \<Rightarrow> (rules_view \<Rightarrow> rules_view) element list" where
  "ip_rule_add t uuid f =
     [Txt (t ''splitTunnel.addIpSectionTitle''),
      Tip (t ''splitTunnel.targetPlaceholder'')
        [Field (t ''splitTunnel.targetLabel'') (newTarget f) (\<lambda>v. set_ip (\<lambda>f. f\<lparr>newTarget := v\<rparr>))],
      Tip (t ''splitTunnel.typeLabel'')
        [Choice (ip_type_string (newType f))
          [(''cidr'', t ''splitTunnel.typeCidr''), (''domain'', t ''splitTunnel.typeDomain'')]
          (\<lambda>v. set_ip (\<lambda>f. f\<lparr>newType := ip_type_of v\<rparr>))],
      Tip (t ''splitTunnel.policyLabel'')
        [Choice (tunnel_mode_string (newMode f))
          [(''route_vpn'', t ''splitTunnel.policyRouteVpn''), (''bypass'', t ''splitTunnel.policyBypass'')]
          (\<lambda>v. set_ip (\<lambda>f. f\<lparr>newMode := tunnel_mode_of v\<rparr>))],
      Tip (t ''splitTunnel.descPlaceholder'')
        [Field (t ''splitTunnel.descLabel'') (newDesc f) (\<lambda>v. set_ip (\<lambda>f. f\<lparr>newDesc := v\<rparr>))],
      Btn (t ''splitTunnel.btnAddRule'') (newTarget f = []) False (add_ip_click uuid)]"

definition ip_rule_row :: "dictionary \<Rightarrow> IpDomainRule \<Rightarrow> (rules_view \<Rightarrow> rules_view) element list" where
  "ip_rule_row t r =
     [Switch (ip_enabled r) (\<lambda>_. on_store (toggleIpRule (ip_id r))),
      Txt (ip_target r), Badge ''gray'' (toUpperCase (ip_type_string (ip_type r))), Txt (ip_description r),
      Badge (if ip_mode r = RouteVpn then ''teal'' else ''yellow'')
        (if ip_mode r = RouteVpn then t ''splitTunnel.policyRouteVpn'' else t ''splitTunnel.policyBypass''),
      Btn [] False False (on_store (deleteIpRule (ip_id r)))]"

definition ip_panel :: "dictionary \<Rightarrow> string \<Rightarrow> rules_view \<Rightarrow> (rules_view \<Rightarrow> rules_view) element list" where
  "ip_panel t uuid rs = ip_rule_add t uuid (rv_ip (fst rs)) @
     map (\<lambda>k. Txt (t k)) [''splitTunnel.colStatus'', ''splitTunnel.colTarget'', ''splitTunnel.colType'',
       ''splitTunnel.colDesc'', ''splitTunnel.colPolicy'', ''splitTunnel.colActions''] @
     concat (map (ip_rule_row t) (ipRules (snd rs)))"

definition add_app_view :: "dictionary \<Rightarrow> string \<Rightarrow> rules_state \<Rightarrow> (rules_view \<Rightarrow> rules_view) element list" where
  "add_app_view t uuid r = (let f = rv_app r in shown (rv_isAppModalOpen r)
     ([Txt (t ''modals.addAppTitle''), Txt (t ''modals.addAppDetected'')] @
      map (\<lambda>a. Click (set_app_form (handleSelectCommon a)) [Txt (snd (snd a)), Txt (fst a)]) COMMON_APPS @
      [Tip (t ''modals.addAppNamePlaceholder'')
         [Field (t ''modals.addAppNameLabel'') (arf_name f) (\<lambda>v. set_app_form (\<lambda>f. f\<lparr>arf_name := v\<rparr>))],
       Tip (t ''modals.addAppPathPlaceholder'')
         [Field (t ''modals.addAppPathLabel'') (arf_path f) (\<lambda>v. set_app_form (\<lambda>f. f\<lparr>arf_path := v\<rparr>))],
       Tip (t ''modals.addAppPolicyLabel'')
         [Choice (tunnel_mode_string (arf_mode f))
           [(''bypass'', t ''modals.addAppBypassLabel''), (''route_vpn'', t ''modals.addAppRouteLabel'')]
           (\<lambda>v. set_app_form (\<lambda>f. f\<lparr>arf_mode := tunnel_mode_of v\<rparr>))],
       Btn (t ''common.cancel'') False False (app_modal False),
       Btn (t ''modals.addAppSubmitBtn'') (arf_name f = [] \<or> arf_path f = []) False (add_app_click uuid)]))"

definition split_tunnel_view ::
  "dictionary \<Rightarrow> string \<Rightarrow> rules_view \<Rightarrow> (rules_view \<Rightarrow> rules_view) element list" where
  "split_tunnel_view t uuid rs = (case rs of (r, s) \<Rightarrow>
     [Txt (t ''splitTunnel.title''), Txt (t ''splitTunnel.subtitle''),
      Click (on_local (\<lambda>r. r\<lparr>rv_tab := AppsTab\<rparr>))
        [Txt (t ''splitTunnel.tabApps'' @ '' ('' @ string_of_nat (length (appRules s)) @ '')'')],
      Click (on_local (\<lambda>r. r\<lparr>rv_tab := IpDomainTab\<rparr>))
        [Txt (t ''splitTunnel.tabIpDomain'' @ '' ('' @ string_of_nat (length (ipRules s)) @ '')'')]] @
     (case rv_tab r of AppsTab \<Rightarrow> apps_panel t s | IpDomainTab \<Rightarrow> ip_panel t uuid rs) @
     add_app_view t uuid r)"

section \<open>Diagnostic export\<close>

text \<open>
  The download is prepared by a timer 1.2 s after the click, with the options and the log of that
  click; \<open>pending\<close> are the timers, \<open>files\<close> the bundles downloaded.
\<close>

record export_state =
  ex_options :: export_options
  ex_exporting :: bool
  ex_pending :: "(export_options \<times> LogEntry list) list"
  ex_files :: "diagnostic_bundle list"

definition handleExport :: "LogEntry list \<Rightarrow> export_state \<Rightarrow> export_state" where
  "handleExport ls x = x\<lparr>ex_exporting := True, ex_pending := ex_pending x @ [(ex_options x, ls)]\<rparr>"

fun export_timer :: "string \<Rightarrow> export_state \<Rightarrow> export_state" where
  "export_timer now x = (case ex_pending x of
     [] \<Rightarrow> x
   | (op, ls) # rest \<Rightarrow> x\<lparr>ex_exporting := False, ex_pending := rest, ex_files := ex_files x @ [bundleData now op ls]\<rparr>)"

definition set_option :: "(export_options \<Rightarrow> export_options) \<Rightarrow> export_state \<Rightarrow> export_state" where
  "set_option g x = x\<lparr>ex_options := g (ex_options x)\<rparr>"

definition export_view ::
  "dictionary \<Rightarrow> (export_state \<Rightarrow> export_state) \<Rightarrow> LogEntry list \<Rightarrow> export_state \<Rightarrow>
   (export_state \<Rightarrow> export_state) element list" where
  "export_view t close ls x = (let op = ex_options x in
     [Txt (t ''modals.exportDiagTitle''), Txt (t ''modals.exportDiagSubtitle''),
      Txt (t ''modals.exportIncludeLogs''), Switch (includeLogs op) (\<lambda>b. set_option (\<lambda>op. op\<lparr>includeLogs := b\<rparr>)),
      Txt (t ''modals.exportIncludeRoutes''), Switch (includeRoutes op) (\<lambda>b. set_option (\<lambda>op. op\<lparr>includeRoutes := b\<rparr>)),
      Txt (t ''modals.exportIncludeDns''), Switch (includeDns op) (\<lambda>b. set_option (\<lambda>op. op\<lparr>includeDns := b\<rparr>)),
      Txt (t ''modals.exportSanitizePrivate''), Switch (sanitizeIps op) (\<lambda>b. set_option (\<lambda>op. op\<lparr>sanitizeIps := b\<rparr>))] @
     shown (ex_exporting x) [Txt (t ''modals.exportCompiling'')] @
     [Btn (t ''common.cancel'') False False close,
      Btn (t ''modals.exportDownloadJson'') False (ex_exporting x) (handleExport ls)])"

end
