(* ===== verification/Controlled_Inputs.thy ===== *)
theory Controlled_Inputs
  imports Form_Elements Rule_Elements
begin

text \<open>
  The inputs of every view are controlled: the switches of the security hub, the settings and the
  export dialog, the text fields of the profile dialog, the certificate manager, the rule forms,
  the one-time-password prompt and the search fields. Each view is an instance of the contract of
  \<open>Ui_Elements\<close>.
\<close>

section \<open>Inputs\<close>

text \<open>The case split on the position of an input in a list of known length.\<close>

lemmas position_cases = less_Suc_eq numeral_eq_Suc less_Suc0

lemma addLog_settings [simp]:
  "securitySettings (addLog l src m s) = securitySettings s" "appSettings (addLog l src m s) = appSettings s"
  by (simp_all add: addLog_def)

lemma security_switches:
  "view_switches (security_view t s) =
     [(killSwitch (securitySettings s) \<noteq> KsOff, hub_kill_switch),
      (ipv6LeakProtection (securitySettings s), shield_ipv6),
      (webRtcProtection (securitySettings s), shield_webrtc), (lanBypass (securitySettings s), shield_lan)]"
  by (simp add: security_view_def kill_switch_card_def ipv6_card_def webrtc_card_def lan_card_def Let_def)

interpretation security: independent_inputs "\<lambda>s. view_switches (security_view t s)" for t
  by unfold_locales (auto simp: security_switches enter_def position_cases hub_kill_switch_def shield_ipv6_def
      shield_webrtc_def shield_lan_def setKillSwitch_def updateSecuritySettings_def merge_security_def
      no_security_change_def Let_def)

lemma settings_switches:
  "view_switches (settings_view t works s) =
     [(autoLaunch (appSettings s), handleToggleAutoLaunch works)] @
     shown (autoLaunch (appSettings s))
       [(startMinimized (appSettings s), \<lambda>b. set_app_setting (no_change\<lparr>p_startMinimized := Some b\<rparr>))] @
     [(autoConnect (appSettings s), \<lambda>b. set_app_setting (no_change\<lparr>p_autoConnect := Some b\<rparr>)),
      (minimizeToTray (appSettings s), \<lambda>b. set_app_setting (no_change\<lparr>p_minimizeToTray := Some b\<rparr>)),
      (nullish (autoReconnect (appSettings s)) True,
         \<lambda>b. set_app_setting (no_change\<lparr>p_autoReconnect := Some (Some b)\<rparr>)),
      (nullish (notificationsEnabled (appSettings s)) True,
         \<lambda>b. set_app_setting (no_change\<lparr>p_notificationsEnabled := Some (Some b)\<rparr>))]"
  by (simp add: settings_view_def settings_header_def language_card_def desktop_card_def network_card_def
    diagnostics_card_def SUPPORTED_LANGUAGES_def shown_def)

lemma enter_setting [simp]:
  "appSettings (fst (set_app_setting p d)) = merge_app_settings (appSettings (fst d)) p"
  "appSettings (fst (handleToggleAutoLaunch works b d)) =
     merge_app_settings (appSettings (fst d)) (no_change\<lparr>p_autoLaunch := Some b\<rparr>)"
  by (cases d; simp add: set_app_setting_def on_app_def handleToggleAutoLaunch_def updateAppSettings_def Let_def)+

interpretation settings: controlled_inputs "\<lambda>d. view_switches (settings_view t works (fst d))" for t works
proof (unfold_locales, goal_cases)
  case (1 i d b)
  then show ?case
    by (cases "autoLaunch (appSettings (fst d))")
      (auto simp: settings_switches enter_def position_cases merge_app_settings_def no_change_def)
qed

text \<open>The profile dialog and the certificate manager.\<close>

lemma set_form_simps [simp]:
  "pd_form (fst (set_form g e)) = g (pd_form (fst e))" "snd (set_form g e) = snd e"
  by (simp_all add: set_form_def on_local_def cert_sync_def)

lemma set_cert_simps [simp]:
  "pd_cert (fst (set_cert g e)) = g (pd_cert (fst e))" "pd_form (fst (set_cert g e)) = pd_form (fst e)"
  "pd_certModalOpened (fst (set_cert g e)) = pd_certModalOpened (fst e)"
  "pd_activeTab (fst (set_cert g e)) = pd_activeTab (fst e)" "snd (set_cert g e) = snd e"
  by (simp_all add: set_cert_def on_local_def)

definition dialog_fields :: "editing \<Rightarrow> (string \<times> (string \<Rightarrow> editing \<Rightarrow> editing)) list" where
  "dialog_fields e = (let f = pd_form (fst e); wg = (f_protocol f = Wireguard) in
     shown (isProfileModalOpen (fst (snd e)))
       ([(f_name f, \<lambda>v. set_form (\<lambda>f. f\<lparr>f_name := v\<rparr>)), (f_serverHost f, \<lambda>v. set_form (\<lambda>f. f\<lparr>f_serverHost := v\<rparr>))] @
        shown wg [(f_virtualIp f, \<lambda>v. set_form (\<lambda>f. f\<lparr>f_virtualIp := v\<rparr>))] @
        shown (f_useOnlyForNetworkResources f)
          [(f_customSubnetsInput f, \<lambda>v. set_form (\<lambda>f. f\<lparr>f_customSubnetsInput := v\<rparr>))] @
        (if wg then [(f_privateKey f, \<lambda>v. set_form (\<lambda>f. f\<lparr>f_privateKey := v\<rparr>)),
                     (f_presharedKey f, \<lambda>v. set_form (\<lambda>f. f\<lparr>f_presharedKey := v\<rparr>))]
         else [(f_username f, \<lambda>v. set_form (\<lambda>f. f\<lparr>f_username := v\<rparr>)),
               (f_password f, \<lambda>v. set_form (\<lambda>f. f\<lparr>f_password := v\<rparr>))] @
              shown (f_passwordMode f = PmTotpAuto)
                [(f_totpSecret f, \<lambda>v. set_form (\<lambda>f. f\<lparr>f_totpSecret := v\<rparr>))])))"

lemma profile_dialog_fields: "view_fields (profile_dialog_view t uuid rnd live e) = dialog_fields e"
  by (cases e) (auto simp: profile_dialog_view_def dialog_fields_def dialog_title_def server_section_def
    auth_section_def wireguard_keys_def openvpn_auth_def totp_section_def tls_summary_def shown_def Let_def
    split: option.splits)

interpretation dialog: independent_inputs "\<lambda>e. view_fields (profile_dialog_view t uuid rnd live e)" for t uuid rnd live
proof (unfold_locales, goal_cases)
  case (1 i e b)
  then show ?case
    by (cases "f_protocol (pd_form (fst e)) = Wireguard"; cases "f_useOnlyForNetworkResources (pd_form (fst e))";
        cases "f_passwordMode (pd_form (fst e)) = PmTotpAuto"; cases "isProfileModalOpen (fst (snd e))")
      (auto simp: profile_dialog_fields dialog_fields_def enter_def position_cases Let_def)
qed

lemma pem_box_fields [simp]:
  "view_fields (pem_box a b c d e picked v put) = []" "view_switches (pem_box a b c d e picked v put) = []"
  by (auto simp: pem_box_def shown_def)

definition cert_fields :: "editing \<Rightarrow> (string \<times> (string \<Rightarrow> editing \<Rightarrow> editing)) list" where
  "cert_fields e = (let c = pd_cert (fst e) in
     shown (pd_certModalOpened (fst e)) (case pd_activeTab (fst e) of
       CertCa \<Rightarrow> [(tf_caCert c, \<lambda>v. set_cert (\<lambda>c. c\<lparr>tf_caCert := v\<rparr>))]
     | CertTls \<Rightarrow> shown (tf_tlsMode c = TlsAuth) [(tf_tlsAuthKey c, \<lambda>v. set_cert (\<lambda>c. c\<lparr>tf_tlsAuthKey := v\<rparr>))] @
         shown (tf_tlsMode c = TlsCrypt) [(tf_tlsCryptKey c, \<lambda>v. set_cert (\<lambda>c. c\<lparr>tf_tlsCryptKey := v\<rparr>))]
     | CertClient \<Rightarrow> [(tf_clientCert c, \<lambda>v. set_cert (\<lambda>c. c\<lparr>tf_clientCert := v\<rparr>)),
         (tf_clientKey c, \<lambda>v. set_cert (\<lambda>c. c\<lparr>tf_clientKey := v\<rparr>))]
     | CertAdvanced \<Rightarrow> []))"

lemma cert_manager_fields: "view_fields (cert_manager_view t picked e) = cert_fields e"
  by (auto simp: cert_manager_view_def cert_fields_def cert_tabs_def ca_panel_def tls_panel_def tls_auth_box_def
    tls_crypt_box_def client_panel_def client_cert_box_def client_key_box_def advanced_panel_def shown_def Let_def
    split: cert_tab.splits)

interpretation cert: independent_inputs "\<lambda>e. view_fields (cert_manager_view t picked e)" for t picked
proof (unfold_locales, goal_cases)
  case (1 i e b)
  then show ?case
    by (cases "pd_activeTab (fst e)"; cases "tf_tlsMode (pd_cert (fst e))"; cases "pd_certModalOpened (fst e)")
      (auto simp: cert_manager_fields cert_fields_def enter_def position_cases Let_def)
qed

text \<open>The search fields, the prompt, the rule forms and the export options.\<close>

lemma on_store_simps [simp]: "fst (on_store f x) = fst x" "snd (on_store f x) = f (snd x)"
  by (simp_all add: on_store_def)

lemma on_local_simps [simp]: "fst (on_local f x) = f (fst x)" "snd (on_local f x) = snd x"
  by (simp_all add: on_local_def)

lemma no_fields_concat: "(\<And>x. view_fields (f x) = []) \<Longrightarrow> view_fields (concat (map f xs)) = []"
  by (induction xs) auto

lemma no_fields_map: "(\<And>x. Ui_Elements.fields (f x) = []) \<Longrightarrow> view_fields (map f xs) = []"
  by (induction xs) auto

lemma library_rows_no_fields [simp]:
  "view_fields (profile_card t s p) = []" "view_fields (table_row s p) = []"
  by (auto simp: profile_card_def table_row_def shown_def Let_def split: option.splits)

lemma library_search_field:
  "view_fields (library_view t mobile l s) = [(search l, \<lambda>v. on_local (\<lambda>l. l\<lparr>search := v\<rparr>))]"
  by (auto simp: library_view_def library_header_def library_controls_def library_empty_def shown_def Let_def
    no_fields_concat filter_pills_def)

lemma console_search_field:
  "view_fields (console_view copied mobile tablet now s) =
     [(logSearchQuery s, \<lambda>v. on_store (setLogSearchQuery v))]"
  by (auto simp: console_view_def console_mobile_actions_def console_desktop_actions_def console_controls_def
    console_empty_def console_row_def shown_def Let_def no_fields_concat intro!: no_fields_concat no_fields_map
    split: prod.splits)

lemma spotlight_field:
  "view_fields (spotlight_view t q s) = shown (isSpotlightOpen s) [(q, \<lambda>v. on_local (\<lambda>_. v))]"
  by (auto simp: spotlight_view_def shown_def Let_def intro!: no_fields_map)

lemma mfa_fields:
  "view_fields (mfa_view t m s) = shown (mfaPromptProfile s \<noteq> None)
     [(basePassword m, \<lambda>v. on_local (\<lambda>m. m\<lparr>basePassword := v\<rparr>)), (totpCode m, \<lambda>v. on_local (\<lambda>m. m\<lparr>totpCode := v\<rparr>))]"
  by (auto simp: mfa_view_def shown_def split: option.splits)

interpretation library_search: independent_inputs "\<lambda>ls. view_fields (library_view t mobile (fst ls) (snd ls))" for t mobile
  by unfold_locales (simp add: library_search_field enter_def)

interpretation console_search: independent_inputs
  "\<lambda>cs :: console \<times> app. view_fields (console_view copied mobile tablet now (snd cs))" for copied mobile tablet now
  by unfold_locales (simp add: console_search_field enter_def setLogSearchQuery_def)

interpretation spotlight: independent_inputs "\<lambda>qs. view_fields (spotlight_view t (fst qs) (snd qs))" for t
  by unfold_locales (simp add: spotlight_field enter_def shown_def split: if_splits)

interpretation mfa: independent_inputs "\<lambda>ms. view_fields (mfa_view t (fst ms) (snd ms))" for t
  by unfold_locales (auto simp: mfa_fields enter_def position_cases shown_def split: if_splits)

lemma rule_fields:
  "view_fields (split_tunnel_view t uuid rs) =
     shown (rv_tab (fst rs) = IpDomainTab)
       [(newTarget (rv_ip (fst rs)), \<lambda>v. set_ip (\<lambda>f. f\<lparr>newTarget := v\<rparr>)),
        (newDesc (rv_ip (fst rs)), \<lambda>v. set_ip (\<lambda>f. f\<lparr>newDesc := v\<rparr>))] @
     shown (rv_isAppModalOpen (fst rs))
       [(arf_name (rv_app (fst rs)), \<lambda>v. set_app_form (\<lambda>f. f\<lparr>arf_name := v\<rparr>)),
        (arf_path (rv_app (fst rs)), \<lambda>v. set_app_form (\<lambda>f. f\<lparr>arf_path := v\<rparr>))]"
  by (cases rs) (auto simp: split_tunnel_view_def apps_panel_def ip_panel_def ip_rule_add_def app_rule_row_def
    ip_rule_row_def add_app_view_def COMMON_APPS_def shown_def Let_def no_fields_concat intro!: no_fields_concat
    split: rules_tab.splits)

interpretation rules: independent_inputs "\<lambda>rs. view_fields (split_tunnel_view t uuid rs)" for t uuid
proof (unfold_locales, goal_cases)
  case (1 i rs b)
  then show ?case
    by (cases "rv_tab (fst rs)"; cases "rv_isAppModalOpen (fst rs)")
      (auto simp: rule_fields enter_def position_cases set_ip_def set_app_form_def)
qed

interpretation export: independent_inputs "\<lambda>x. view_switches (export_view t close ls x)" for t close ls
  by unfold_locales (auto simp: export_view_def enter_def position_cases set_option_def shown_def Let_def)

end
