(* ===== verification/Element_Properties.thy ===== *)
theory Element_Properties
  imports Controlled_Inputs Import_Properties
begin

text \<open>
  Properties of what the views render: forms can be filled in and keep what was typed, a profile
  typed into the dialogs reaches the store, the navigation reaches every view, and what the
  buttons of a profile do in each state of the connection.
\<close>

section \<open>Forms\<close>

text \<open>
  Whatever texts are typed into the fields of the profile dialog, of the certificate
  manager, of the split-tunnelling forms or of the one-time-password prompt, one field after the
  other, these are the texts the fields show afterwards: no field overwrites another and none of
  them changes which fields there are.
\<close>

theorem forms_keep_what_is_typed:
  "(length vs = length (view_fields (profile_dialog_view t uuid rnd live e)) \<longrightarrow>
      map fst (view_fields (profile_dialog_view t uuid rnd live
        (fill (\<lambda>e. view_fields (profile_dialog_view t uuid rnd live e)) vs e))) = vs) \<and>
   (length ws = length (view_fields (cert_manager_view t picked e)) \<longrightarrow>
      map fst (view_fields (cert_manager_view t picked
        (fill (\<lambda>e. view_fields (cert_manager_view t picked e)) ws e))) = ws) \<and>
   (length xs = length (view_fields (split_tunnel_view t uuid rs)) \<longrightarrow>
      map fst (view_fields (split_tunnel_view t uuid
        (fill (\<lambda>rs. view_fields (split_tunnel_view t uuid rs)) xs rs))) = xs) \<and>
   (length ys = length (view_fields (mfa_view t (fst ms) (snd ms))) \<longrightarrow>
      (let ms' = fill (\<lambda>ms. view_fields (mfa_view t (fst ms) (snd ms))) ys ms
       in map fst (view_fields (mfa_view t (fst ms') (snd ms'))) = ys))"
  using dialog.filled cert.filled rules.filled mfa.filled by (simp add: Let_def)

definition sample_dialog :: editing where
  "sample_dialog = (\<lparr>pd_form = blank_form True, pd_certModalOpened = True, pd_activeTab = CertClient,
     pd_cert = tls_open (tls_config_of (blank_form True))\<rparr>,
     library_initial\<lparr>isProfileModalOpen := True, chosenProtocol := ChosenOpenvpn\<rparr>, sample_boot True)"

theorem forms_keep_what_is_typed_witness:
  "map fst (view_fields (profile_dialog_view id ''u'' 0 None
     (fill (\<lambda>e. view_fields (profile_dialog_view id ''u'' 0 None e)) [''a'', ''b'', ''c'', ''d''] sample_dialog))) =
     [''a'', ''b'', ''c'', ''d''] \<and>
   map fst (view_fields (cert_manager_view id None
     (fill (\<lambda>e. view_fields (cert_manager_view id None e)) [''x'', ''y''] sample_dialog))) = [''x'', ''y'']"
  using forms_keep_what_is_typed [of "[''a'', ''b'', ''c'', ''d'']" id "''u''" 0 None sample_dialog "[''x'', ''y'']" None]
  by (simp add: profile_dialog_fields dialog_fields_def cert_manager_fields cert_fields_def sample_dialog_def
    blank_form_def Let_def)

section \<open>Creating a profile\<close>

lemma upt_four: "[0..<4] = [0, 1, 2, 3::nat]"
  by (simp add: upt_rec)

lemma blank_openvpn_fields:
  "isProfileModalOpen (fst (snd e)) \<Longrightarrow> pd_form (fst e) = blank_form True \<Longrightarrow> length (dialog_fields e) = 4"
  by (simp add: dialog_fields_def blank_form_def)

lemma filled_blank_form:
  assumes "isProfileModalOpen (fst (snd e))" "pd_form (fst e) = blank_form True"
  shows "pd_form (fst (fill (\<lambda>e. view_fields (profile_dialog_view t uuid rnd live e)) [n, host, user, pass] e)) =
      (blank_form True)\<lparr>f_name := n, f_serverHost := host, f_username := user, f_password := pass\<rparr>"
    and "snd (fill (\<lambda>e. view_fields (profile_dialog_view t uuid rnd live e)) [n, host, user, pass] e) = snd e"
  using assms by (simp_all add: fill_def upt_four enter_def profile_dialog_fields dialog_fields_def blank_form_def
    Let_def nth_Cons')

lemma dialog_submit_result:
  "dialog_submit uuid rnd e = (fst e, onModalClose (fst (snd e)),
     handleSubmit uuid rnd (selectedProfile (fst (snd e))) (pd_form (fst e)) (snd (snd e)))"
  by (cases e) (simp add: dialog_submit_def dialog_close_def on_store_def on_local_def)

lemma added_openvpn_profile:
  fixes n host user pass
  defines "f \<equiv> (blank_form True)\<lparr>f_name := n, f_serverHost := host, f_username := user, f_password := pass\<rparr>"
  assumes "n \<noteq> []" and s2: "s2 = addProfile (profileData uuid rnd None f) (secretPayload f) s"
  shows "\<exists>p sec. profiles s2 = p # profiles s \<and> profile_id p = uuid \<and> profile_name p = n \<and>
      protocol p = OpenvpnUdp \<and> serverHost p = host \<and> serverPort p = 1194 \<and>
      username (creds p) = or_undefined user \<and> password (creds p) = or_undefined pass \<and>
      us_username sec = user \<and> us_password sec = pass \<and> activeProfileId s2 = uuid \<and>
      outbox s2 = outbox s @ issued (saveProfile (tauri s) p (Some (SecretUserPassword sec)))"
proof -
  obtain sec where sec: "secretPayload f = Some (SecretUserPassword sec)" "us_username sec = user" "us_password sec = pass"
    by (simp add: f_def secretPayload_def blank_form_def)
  let ?p = "with_secret (Some (SecretUserPassword sec)) (profileData uuid rnd None f)"
  have "profile_id ?p = uuid" "profile_name ?p = n" "protocol ?p = OpenvpnUdp" "serverHost ?p = host"
    "serverPort ?p = 1194" "username (creds ?p) = or_undefined user" "password (creds ?p) = or_undefined pass"
    using assms(2) sec(2,3) by (simp_all add: with_secret_def profileData_def f_def blank_form_def default_port_def
      or_num_def or_str_def with_user_password_def form_credentials_def or_else_def or_undefined_def Let_def)
  then show ?thesis using sec by (intro exI [of _ ?p] exI [of _ sec]) (simp add: s2 addProfile_def Let_def)
qed

text \<open>
  Property C37. From the new-profile dialog to the store: choosing OpenVPN closes that dialog and
  opens an empty form with four text fields; typing a name that is not empty, a host, a user and a password into them and submitting closes the form and puts a profile with exactly these values, over UDP at
  port 1194, in front of the list, selects it and asks the desktop shell to save it with its
  secret, the password included; nothing else is listed or dropped.
\<close>

theorem created_profile_reaches_store:
  assumes "n \<noteq> []"
  shows "let e = dialog_opened (d, snd (create_manually (h, l)), s);
             (d2, l2, s2) = dialog_submit uuid rnd
               (fill (\<lambda>e. view_fields (profile_dialog_view t uuid rnd live e)) [n, host, user, pass] e)
         in length (view_fields (profile_dialog_view t uuid rnd live e)) = 4 \<and>
            \<not> isHubModalOpen l2 \<and> \<not> isProfileModalOpen l2 \<and> activeProfileId s2 = uuid \<and>
            (\<exists>p sec. profiles s2 = p # profiles s \<and> profile_id p = uuid \<and> profile_name p = n \<and>
               protocol p = OpenvpnUdp \<and> serverHost p = host \<and> serverPort p = 1194 \<and>
               username (creds p) = or_undefined user \<and> password (creds p) = or_undefined pass \<and>
               us_username sec = user \<and> us_password sec = pass \<and>
               outbox s2 = outbox s @ issued (saveProfile (tauri s) p (Some (SecretUserPassword sec))))"
proof -
  define l1 where "l1 = snd (create_manually (h, l))"
  define e where "e = dialog_opened (d, l1, s)"
  have l1: "isProfileModalOpen l1" "\<not> isHubModalOpen l1" "selectedProfile l1 = None" "chosenProtocol l1 = ChosenOpenvpn"
    by (simp_all add: l1_def create_manually_def onSelectManualCreate_def onHubClose_def)
  then have e: "isProfileModalOpen (fst (snd e))" "pd_form (fst e) = blank_form True" "snd e = (l1, s)"
    by (simp_all add: e_def dialog_opened_def cert_sync_def form_init_def)
  let ?e = "fill (\<lambda>e. view_fields (profile_dialog_view t uuid rnd live e)) [n, host, user, pass] e"
  let ?f = "(blank_form True)\<lparr>f_name := n, f_serverHost := host, f_username := user, f_password := pass\<rparr>"
  let ?s = "addProfile (profileData uuid rnd None ?f) (secretPayload ?f) s"
  have "dialog_submit uuid rnd ?e = (fst ?e, onModalClose l1, ?s)"
    using e(3) l1(3) by (simp add: dialog_submit_result filled_blank_form [OF e(1,2)] handleSubmit_def)
  moreover have "length (view_fields (profile_dialog_view t uuid rnd live e)) = 4"
    using blank_openvpn_fields [OF e(1,2)] by (simp add: profile_dialog_fields)
  moreover have "\<not> isHubModalOpen (onModalClose l1) \<and> \<not> isProfileModalOpen (onModalClose l1)"
    using l1 by (simp add: onModalClose_def)
  ultimately show ?thesis
    using added_openvpn_profile [OF assms refl, where host = host and user = user and pass = pass and uuid = uuid
      and rnd = rnd and s = s]
    by (auto simp add: e_def [symmetric] l1_def [symmetric] Let_def)
qed

theorem created_profile_reaches_store_witness:
  "let e = dialog_opened (fst sample_dialog, snd (create_manually (hub_initial, library_initial)), sample_boot True);
       (d2, l2, s2) = dialog_submit ''u9'' (1/2)
         (fill (\<lambda>e. view_fields (profile_dialog_view id ''u9'' (1/2) None e)) [''Office'', ''vpn.example'', ''ann'', ''pw''] e)
   in \<not> isProfileModalOpen l2 \<and> activeProfileId s2 = ''u9'' \<and>
      map profile_name (profiles s2) = ''Office'' # map profile_name (profiles (sample_boot True))"
  using created_profile_reaches_store [of "''Office''" "fst sample_dialog" hub_initial library_initial "sample_boot True"
    "''u9''" "1/2" id None "''vpn.example''" "''ann''" "''pw''"]
  by (auto simp: Let_def split: prod.splits)

lemma defaults_compose:
  "or_str (or_undefined x) [] = x" "or_else (or_undefined x) (or_undefined x) = or_undefined x"
  "or_str (or_else (Some x) (or_undefined x)) [] = x"
  by (simp_all add: or_str_def or_else_def or_undefined_def truthy_def)

lemma with_secret_frame:
  "profile_name (with_secret sec p) = profile_name p" "serverHost (with_secret sec p) = serverHost p"
  "serverPort (with_secret sec p) = serverPort p" "protocol (with_secret sec p) = protocol p"
  by (simp_all add: with_secret_def split: option.split ProfileSecretPayload.split)

lemma imported_form_submitted:
  assumes "protocol p \<noteq> Wireguard" "profile_name p \<noteq> []" "serverPort p \<noteq> 0" "credentials p = Some c"
    and q: "q = with_secret (secretPayload (form_of_profile p)) (profileData uuid rnd (Some p) (form_of_profile p))"
  shows "profile_id q = uuid" "profile_name q = profile_name p" "serverHost q = serverHost p"
    "serverPort q = serverPort p" "protocol q = protocol p"
    "\<forall>sel \<in> {username, password, caCert, clientCert, clientKey, tlsAuthKey, tlsCryptKey}.
       or_str (sel (creds q)) [] = or_str (sel (creds p)) []"
proof -
  show "profile_id q = uuid" "profile_name q = profile_name p" "serverHost q = serverHost p"
    "serverPort q = serverPort p" "protocol q = protocol p"
    using assms(2,3) by (simp_all add: q with_secret_frame profileData_def form_of_profile_def or_str_def or_num_def Let_def)
  show "\<forall>sel \<in> {username, password, caCert, clientCert, clientKey, tlsAuthKey, tlsCryptKey}.
       or_str (sel (creds q)) [] = or_str (sel (creds p)) []"
    using assms(1,4) by (cases "protocol p") (simp_all add: q with_secret_def secretPayload_def profileData_def
      form_of_profile_def with_user_password_def form_credentials_def defaults_compose Let_def)
qed

lemma parsed_identity:
  "profile_id (parseConfigContent u r content file) = u"
  "\<exists>c. credentials (parseConfigContent u r content file) = Some c"
  by (simp_all add: parseConfigContent_def imported_profile_def Let_def)

text \<open>
  Property C38. From a file to the store: the profile parsed from any file that is not taken for
  WireGuard closes the import dialog and opens the form on it, for OpenVPN; submitting the form as
  it stands lists a new profile, under a new identifier, with the name, host, port and protocol
  that were read and with every certificate, key and user name that was found in the file. The
  dialog itself offers no way to start a WireGuard profile.
\<close>

theorem imported_file_reaches_store:
  assumes "\<not> isWireGuard content file" "p = parseConfigContent u r content file" "u \<notin> profile_id ` set (profiles s)"
  shows "let l1 = snd (import_handover p (h, l)); e = dialog_opened (d, l1, s); (d2, l2, s2) = dialog_submit uuid rnd e in
      isProfileModalOpen l1 \<and> \<not> isHubModalOpen l1 \<and> chosenProtocol l1 = ChosenOpenvpn \<and>
      \<not> isProfileModalOpen l2 \<and>
      (\<exists>q. profiles s2 = q # profiles s \<and> profile_id q = uuid \<and> profile_name q = profile_name p \<and>
         serverHost q = serverHost p \<and> serverPort q = serverPort p \<and> protocol q = protocol p \<and>
         (\<forall>sel \<in> {username, password, caCert, clientCert, clientKey, tlsAuthKey, tlsCryptKey}.
            or_str (sel (creds q)) [] = or_str (sel (creds p)) [])) \<and>
      (\<forall>f \<in> set (view_clicks (hub_view t (h, l))). chosenProtocol (snd (f (h, l))) = ChosenOpenvpn)"
proof -
  have p: "protocol p \<noteq> Wireguard" "profile_name p \<noteq> []" "serverPort p \<noteq> 0" "profile_id p = u"
    using assms(1) parse_fields unfolding assms(2) by (simp_all add: parse_protocol_iff parsed_identity)
  obtain c where c: "credentials p = Some c" using parsed_identity(2) unfolding assms(2) by blast
  define l1 where "l1 = snd (import_handover p (h, l))"
  define e where "e = dialog_opened (d, l1, s)"
  have l1: "isProfileModalOpen l1" "\<not> isHubModalOpen l1" "chosenProtocol l1 = ChosenOpenvpn" "selectedProfile l1 = Some p"
    using p(1) by (simp_all add: l1_def import_handover_def onImportParsed_def onHubClose_def protocol_choice_def)
  then have e: "pd_form (fst e) = form_of_profile p" "snd e = (l1, s)"
    by (simp_all add: e_def dialog_opened_def cert_sync_def form_init_def)
  have "\<not> isEdit (Some p) s" using assms(3) p(4) by (auto simp: isEdit_def image_iff)
  then have "dialog_submit uuid rnd e = (fst e, onModalClose l1,
      addProfile (profileData uuid rnd (Some p) (form_of_profile p)) (secretPayload (form_of_profile p)) s)"
    using e l1 by (simp add: dialog_submit_result handleSubmit_def)
  moreover have "\<forall>f \<in> set (view_clicks (hub_view t (h, l))). chosenProtocol (snd (f (h, l))) = ChosenOpenvpn"
    by (auto simp: hub_view_def manual_cards_def dropzone_content_def create_manually_def onSelectManualCreate_def
      shown_def Let_def split: option.splits if_splits)
  moreover have "\<not> isProfileModalOpen (onModalClose l1)" by (simp add: onModalClose_def)
  ultimately show ?thesis
    using imported_form_submitted [OF p(1,2,3) c refl, of uuid rnd] l1
    by (simp add: e_def [symmetric] l1_def [symmetric] addProfile_def Let_def)
qed

theorem imported_file_reaches_store_witness:
  "let p = parseConfigContent ''u1'' 0 ''remote vpn.example 443'' ''a.ovpn'';
       (d2, l2, s2) = dialog_submit ''u2'' 0
         (dialog_opened (fst sample_dialog, snd (import_handover p (hub_initial, library_initial)),
            initial_app True sample_clock sample_uuids None))
   in \<not> isProfileModalOpen l2 \<and> map profile_id (profiles s2) = [''u2'']"
proof -
  have "\<not> isWireGuard ''remote vpn.example 443'' ''a.ovpn''" by code_simp
  moreover have "''u1'' \<notin> profile_id ` set (profiles (initial_app True sample_clock sample_uuids None))"
    by (simp add: initial_app_def)
  ultimately show ?thesis
    using imported_file_reaches_store [of "''remote vpn.example 443''" "''a.ovpn''" _ "''u1''" 0 "initial_app True sample_clock sample_uuids None"
      hub_initial library_initial "fst sample_dialog" "''u2''" 0 id, OF _ refl]
    by (auto simp: Let_def initial_app_def split: prod.splits)
qed

section \<open>Certificate manager\<close>

text \<open>
  An edit made in the certificate manager reaches the form when it is saved before
  the dialog renders again, trimmed; but the manager reloads the form's settings whenever the
  dialog renders while it is open, so a render, such as the one the clock of the live code causes
  every second, discards every unsaved edit, whatever it was.
\<close>

theorem certificate_edits_until_render:
  assumes "pd_certModalOpened (fst e)"
  shows "f_caCert (pd_form (fst (cert_handleSave (set_cert (\<lambda>c. c\<lparr>tf_caCert := v\<rparr>) e)))) = trim v \<and>
    dialog_render (set_cert g e) = dialog_render e \<and>
    f_caCert (pd_form (fst (cert_handleSave (dialog_render (set_cert g e))))) = trim (f_caCert (pd_form (fst e)))"
proof -
  have eq: "dialog_render (set_cert g e) = dialog_render e"
    using assms by (cases e) (simp add: dialog_render_def set_cert_def on_local_def cert_sync_def)
  show ?thesis
    unfolding eq using assms
    by (simp add: dialog_render_def cert_handleSave_def cert_sync_def tls_onSave_def tls_save_def tls_open_def
      tls_config_of_def or_str_def or_undefined_def)
qed

lemma sample_dialog_open:
  "pd_certModalOpened (fst sample_dialog)" "f_caCert (pd_form (fst sample_dialog)) = []"
  by (simp_all add: sample_dialog_def blank_form_def)

lemma trim_samples: "trim '' x '' = ''x''" "trim [] = []"
  by code_simp+

theorem certificate_edits_until_render_witness:
  "f_caCert (pd_form (fst (cert_handleSave (set_cert (\<lambda>c. c\<lparr>tf_caCert := '' x ''\<rparr>) sample_dialog)))) = ''x'' \<and>
   f_caCert (pd_form (fst (cert_handleSave (dialog_render
     (set_cert (\<lambda>c. c\<lparr>tf_caCert := '' x ''\<rparr>) sample_dialog))))) = []"
  using certificate_edits_until_render [of sample_dialog "'' x ''" "\<lambda>c. c\<lparr>tf_caCert := '' x ''\<rparr>"]
  by (metis sample_dialog_open trim_samples)

section \<open>Profiles and the connection\<close>

text \<open>
  Property C40. The button that acts on a profile. In the grid and in the table it is the same
  action; the button of the deck's desktop card is the same action too, except while the profile's
  tunnel is being set up or set up again. Then the grid's button carries the word for cancelling of the chosen
  language and a click disconnects; the table's button carries the fixed English text Cancel but
  is shown as loading, so that it cannot be clicked and the row only offers the favourite and the
  edit button; and the deck's button is labelled Connect and can be clicked: while the tunnel is
  being set up that does nothing, and while it is being set up again it starts another connection
  when the profile is in the list and asks for no one-time password.
\<close>

theorem profile_buttons:
  "row_connect_click p = handleConnectClick p \<and>
   (\<not> card_isConnecting (card_state_of p s) \<longrightarrow> deck_connect_click p s = handleConnectClick p s) \<and>
   (profile_id p = activeProfileId s \<and> connectionState s \<in> {Connecting, Reconnecting} \<longrightarrow>
      Btn (t ''common.cancel'') False False (on_store (handleConnectClick p)) \<in> set (profile_card t s p) \<and>
      handleConnectClick p s = disconnect s \<and>
      Btn ''Cancel'' False True (on_store (row_connect_click p)) \<in> set (table_row s p) \<and>
      view_clicks (table_row s p) = [on_store (toggleFavorite (profile_id p)), on_local (handleEdit p)] \<and>
      (\<exists>h es. renderDesktopCard s p = Click h es \<and>
         Btn ''Connect'' False False (on_store (deck_connect_click p)) \<in> set es) \<and>
      (connectionState s = Connecting \<longrightarrow> deck_connect_click p s = s) \<and>
      (connectionState s = Reconnecting \<and> find_by profile_id (profile_id p) (profiles s) = Some p \<and>
         passwordMode (creds p) \<noteq> Some PmDynamicPrompt \<longrightarrow>
         connectionState (deck_connect_click p s) = Connecting))"
proof -
  have "row_connect_click p = handleConnectClick p"
    by (simp add: row_connect_click_def handleConnectClick_def fun_eq_iff)
  moreover have "\<not> card_isConnecting (card_state_of p s) \<Longrightarrow> deck_connect_click p s = handleConnectClick p s"
    by (simp add: deck_connect_click_def handleConnectClick_def)
  moreover have "connectionState (deck_connect_click p s) = Connecting"
    if "profile_id p = activeProfileId s" "connectionState s = Reconnecting"
      "find_by profile_id (profile_id p) (profiles s) = Some p" "passwordMode (creds p) \<noteq> Some PmDynamicPrompt"
    using that by (simp add: deck_connect_click_def card_state_of_def connect_def or_str_def
      connect_send_def Let_def split: option.splits)
  ultimately show ?thesis
    by (auto simp: profile_card_def handleConnectClick_def card_state_of_def table_row_def row_label_def
      deck_connect_click_def renderDesktopCard_def getButtonProps_def connect_def Let_def split: option.splits)
qed

definition sample_connecting :: app where
  "sample_connecting = (initial_app True sample_clock sample_uuids None)
     \<lparr>profiles := [sample_profile], activeProfileId := ''p1'', connectionState := Connecting\<rparr>"

lemma sample_listed:
  "activeProfileId sample_connecting = profile_id sample_profile" "connectionState sample_connecting = Connecting"
  "find_by profile_id (profile_id sample_profile) (profiles sample_connecting) = Some sample_profile"
  "passwordMode (creds sample_profile) = None"
  by (simp_all add: sample_connecting_def sample_profile_def find_by_def nullish_def)

theorem profile_buttons_witness:
  "handleConnectClick sample_profile sample_connecting = disconnect sample_connecting \<and>
   Btn ''Cancel'' False True (on_store (row_connect_click sample_profile)) \<in> set (table_row sample_connecting sample_profile) \<and>
   deck_connect_click sample_profile sample_connecting = sample_connecting \<and>
   connectionState (deck_connect_click sample_profile (sample_connecting\<lparr>connectionState := Reconnecting\<rparr>)) = Connecting"
  using profile_buttons [of sample_profile sample_connecting id]
    profile_buttons [of sample_profile "sample_connecting\<lparr>connectionState := Reconnecting\<rparr>" id]
  by (simp add: sample_listed)

text \<open>
  Adding a profile selects it whatever the connection does. Added while a tunnel is
  up, the new profile is shown as the connected one although nothing was sent to the daemon but
  the request to save it, and the button of its card disconnects the tunnel of the other profile.
\<close>

theorem added_profile_shown_connected:
  assumes "connectionState s = Connected"
  shows "let s2 = addProfile p secret s; q = hd (profiles s2) in
      profile_id q = profile_id p \<and> connectionState s2 = Connected \<and> card_isConnected (card_state_of q s2) \<and>
      activeProfile s2 = Some q \<and> handleConnectClick q s2 = disconnect s2 \<and>
      outbox s2 = outbox s @ issued (saveProfile (tauri s) q secret) \<and>
      (\<forall>r. profile_id r \<noteq> profile_id p \<longrightarrow> \<not> card_isConnected (card_state_of r s2))"
  using assms by (simp add: addProfile_def card_state_of_def activeProfile_def handleConnectClick_def Let_def)

theorem added_profile_shown_connected_witness:
  "card_isConnected (card_state_of (hd (profiles (addProfile sample_profile None
     (sample_connecting\<lparr>connectionState := Connected, activeProfileId := ''p0''\<rparr>))))
     (addProfile sample_profile None (sample_connecting\<lparr>connectionState := Connected, activeProfileId := ''p0''\<rparr>)))"
  using added_profile_shown_connected [of "sample_connecting\<lparr>connectionState := Connected, activeProfileId := ''p0''\<rparr>"
    sample_profile None] by (simp add: Let_def)

section \<open>Navigation\<close>

lemma map_element_clicks: "clicks (map_element g e) = map g (clicks e)"
proof (induction e rule: clicks.induct)
  case (2 e cs)
  then show ?case by (simp add: map_concat comp_def cong: map_cong)
next
  case (3 l cs)
  then show ?case by (simp add: map_concat comp_def cong: map_cong)
qed simp_all

lemma nav_button_clicks [simp]: "clicks (nav_button t folded s tab) = [setActiveTab tab]"
  by (auto simp: nav_button_def nav_badge_def shown_def Let_def)

lemma view_clicks_map: "view_clicks (map f xs) = concat (map (\<lambda>x. clicks (f x)) xs)"
  by (simp add: view_clicks_def comp_def)

lemma sidebar_clicks:
  "view_clicks (sidebar_view t mobile folded s) =
     on_local (handleToggleCollapse mobile) # map (\<lambda>tab. on_store (setActiveTab tab)) NAV_ITEMS"
  by (simp add: sidebar_view_def map_element_clicks NAV_ITEMS_def shown_def)

lemma mobile_nav_clicks:
  "view_clicks (mobile_nav_view t mobile s) = (if mobile then map setActiveTab MOBILE_NAV_ITEMS else [])"
  by (simp add: mobile_nav_view_def MOBILE_NAV_ITEMS_def shown_def)

fun tab_of :: "workspace \<Rightarrow> NavigationTab" where
  "tab_of ShowDashboard = TabDashboard"
| "tab_of ShowProfiles = TabProfiles"
| "tab_of ShowSecurity = TabSecurity"
| "tab_of ShowLogs = TabLogs"
| "tab_of ShowSettings = TabSettings"

lemma renderActiveView_iff: "renderActiveView (s\<lparr>activeTab := tab\<rparr>) = v \<longleftrightarrow> tab = tab_of v"
  by (cases v; cases tab) (simp_all add: renderActiveView_def)

lemma nav_items:
  "distinct NAV_ITEMS" "set NAV_ITEMS = UNIV" "distinct MOBILE_NAV_ITEMS" "set MOBILE_NAV_ITEMS = UNIV"
  using NavigationTab.exhaust by (auto simp: NAV_ITEMS_def MOBILE_NAV_ITEMS_def)

text \<open>
  Every view is one click away: whatever is shown, the sidebar, folded or not, and
  the bar at the bottom of a narrow window have for each of the five views exactly one button, and
  a click on it shows that view and changes nothing else of the store; outside a narrow window
  the bottom bar has no button.
\<close>

theorem navigation_reaches_every_view:
  "(\<forall>v. \<exists>!i. i < length NAV_ITEMS \<and>
      (\<exists>f. view_clicks (sidebar_view t mobile folded s) ! Suc i = f \<and>
         renderActiveView (snd (f (pane, s))) = v \<and> fst (f (pane, s)) = pane \<and>
         snd (f (pane, s)) = s\<lparr>activeTab := NAV_ITEMS ! i\<rparr>)) \<and>
   (\<forall>v. \<exists>!i. i < length (view_clicks (mobile_nav_view t True s)) \<and>
      renderActiveView ((view_clicks (mobile_nav_view t True s) ! i) s) = v) \<and>
   view_clicks (mobile_nav_view t False s) = []"
proof -
  have ex1: "\<exists>!i. i < length tabs \<and> renderActiveView (s\<lparr>activeTab := tabs ! i\<rparr>) = v"
    if "distinct tabs" "set tabs = UNIV" for tabs v
    using that distinct_Ex1 [of tabs "tab_of v"] by (simp add: renderActiveView_iff)
  show ?thesis
    using ex1 [OF nav_items(1,2)] ex1 [OF nav_items(3,4)]
    by (simp add: sidebar_clicks mobile_nav_clicks setActiveTab_def cong: conj_cong)
qed

section \<open>Security and settings\<close>

lemma list_of_four: "length bs = 4 \<Longrightarrow> \<exists>a b c d. bs = [a, b, c, d]"
  by (auto simp: numeral_eq_Suc length_Suc_conv)

lemma filled_security:
  "fill (\<lambda>s. view_switches (security_view t s)) [a, b, c, d] s =
     shield_lan d (shield_webrtc c (shield_ipv6 b (hub_kill_switch a s)))"
  by (simp add: fill_def upt_four enter_def security_switches nth_Cons')

lemma hub_kill_switch_effect:
  "securitySettings (hub_kill_switch a s) = (securitySettings s)\<lparr>killSwitch := if a then KsStrict else KsOff\<rparr>"
  "tauri (hub_kill_switch a s) = tauri s"
  "outbox (hub_kill_switch a s) = (outbox s @ issued (saveSecuritySettings (tauri s) (securitySettings (hub_kill_switch a s)))) @
     issued (setKillSwitch_ipc (tauri s) a (Some (if a then KsStrict else KsOff)))"
  by (simp_all add: hub_kill_switch_def setKillSwitch_def send_def Let_def)

lemma shield_effect:
  assumes "f = shield_ipv6 \<or> f = shield_webrtc \<or> f = shield_lan"
  shows "killSwitch (securitySettings (f b s)) = killSwitch (securitySettings s) \<and> tauri (f b s) = tauri s \<and>
    outbox (f b s) = outbox s @ issued (saveSecuritySettings (tauri s) (securitySettings (f b s)))"
  using assms by (auto simp: shield_ipv6_def shield_webrtc_def shield_lan_def updateSecuritySettings_def
    no_security_change_def merge_security_def send_def Let_def)

text \<open>
  The four switches of the security hub can be set to any combination, one after the
  other, and show it. The kill switch is then off or strict, never standard, whatever it was
  before; the daemon has been told so, and the settings last sent to be saved are the ones shown.
\<close>

theorem security_hub_any_combination:
  assumes "length bs = 4"
  shows "let s2 = fill (\<lambda>s. view_switches (security_view t s)) bs s in
      map fst (view_switches (security_view t s2)) = bs \<and>
      killSwitch (securitySettings s2) = (if bs ! 0 then KsStrict else KsOff) \<and>
      (\<exists>xs ys. outbox s2 = xs @ issued (setKillSwitch_ipc (tauri s) (bs ! 0) (Some (killSwitch (securitySettings s2)))) @
         ys @ issued (saveSecuritySettings (tauri s) (securitySettings s2)))"
proof -
  from list_of_four [OF assms] obtain a b c d where bs: "bs = [a, b, c, d]" by blast
  have shows_bs: "map fst (view_switches (security_view t (fill (\<lambda>s. view_switches (security_view t s)) bs s))) = bs"
    using assms by (intro security.filled) (simp add: security_switches)
  let ?s1 = "hub_kill_switch a s" and ?s3 = "shield_webrtc c (shield_ipv6 b (hub_kill_switch a s))"
  have "killSwitch (securitySettings (shield_lan d ?s3)) = (if a then KsStrict else KsOff)"
    by (simp add: shield_effect hub_kill_switch_effect(1))
  moreover have "outbox (shield_lan d ?s3) = (outbox s @ issued (saveSecuritySettings (tauri s) (securitySettings ?s1))) @
      issued (setKillSwitch_ipc (tauri s) a (Some (if a then KsStrict else KsOff))) @
      (issued (saveSecuritySettings (tauri s) (securitySettings (shield_ipv6 b ?s1))) @
       issued (saveSecuritySettings (tauri s) (securitySettings ?s3))) @
      issued (saveSecuritySettings (tauri s) (securitySettings (shield_lan d ?s3)))"
    by (simp add: shield_effect hub_kill_switch_effect(2,3))
  ultimately show ?thesis
    using shows_bs unfolding bs filled_security Let_def by (simp del: append_assoc) blast
qed

theorem security_hub_any_combination_witness:
  "map fst (view_switches (security_view id (fill (\<lambda>s. view_switches (security_view id s))
     [False, True, False, True] sample_connecting))) = [False, True, False, True]"
  using security_hub_any_combination [of "[False, True, False, True]" id sample_connecting] by (simp add: Let_def)

text \<open>What \<open>JSON.parse\<close> gives for the settings \<open>JSON.stringify\<close> wrote: undefined fields are dropped.\<close>

definition json_settings :: "AppSettings \<Rightarrow> PartialAppSettings" where
  "json_settings a = \<lparr>p_autoLaunch = Some (autoLaunch a), p_startMinimized = Some (startMinimized a),
     p_autoConnect = Some (autoConnect a), p_minimizeToTray = Some (minimizeToTray a),
     p_notificationsEnabled = map_option Some (notificationsEnabled a),
     p_autoReconnect = map_option Some (autoReconnect a), p_language = map_option Some (language a)\<rparr>"

lemma restored_switches:
  "map fst (view_switches (settings_view t works (initial_app b c u (Some (json_settings (appSettings s)))))) =
   map fst (view_switches (settings_view t works s))"
  by (cases "autoReconnect (appSettings s)"; cases "notificationsEnabled (appSettings s)")
    (simp_all add: settings_switches initial_app_def getSavedAppSettings_def merge_app_settings_def
      json_settings_def DEFAULT_APP_SETTINGS_def shown_def)

lemma entered_setting_saved:
  assumes "i < length (view_switches (settings_view t works (fst d)))" "localStorageWritable (fst d)"
  shows "savedAppSettings (fst (enter (\<lambda>d. view_switches (settings_view t works (fst d))) i b d)) =
    Some (appSettings (fst (enter (\<lambda>d. view_switches (settings_view t works (fst d))) i b d)))"
  using assms by (cases d; cases "autoLaunch (appSettings (fst d))")
    (auto simp: settings_switches enter_def position_cases set_app_setting_def on_app_def
      handleToggleAutoLaunch_def updateAppSettings_def Let_def)

text \<open>
  A switch of the settings view shows what it is set to, and the setting is stored:
  after a restart of the application every switch of the view shows what it showed before,
  provided the browser storage is writable.
\<close>

theorem settings_survive_restart:
  assumes "i < length (view_switches (settings_view t works (fst d)))" "localStorageWritable (fst d)"
  shows "let s2 = fst (enter (\<lambda>d. view_switches (settings_view t works (fst d))) i b d);
             s3 = initial_app native c u (map_option json_settings (savedAppSettings s2))
         in fst (view_switches (settings_view t works s2) ! i) = b \<and>
            map fst (view_switches (settings_view t works s3)) = map fst (view_switches (settings_view t works s2))"
  using settings.entered [OF assms(1)] entered_setting_saved [OF assms] by (simp add: restored_switches)

lemma sample_launch_entered:
  "0 < length (view_switches (settings_view id True (fst (sample_connecting, False))))"
  "localStorageWritable (fst (sample_connecting, False))"
  "map fst (view_switches (settings_view id True (fst (enter (\<lambda>d. view_switches (settings_view id True (fst d))) 0 True
     (sample_connecting, False))))) = [True, True, False, True, True, True]"
  by (simp_all add: settings_switches sample_connecting_def initial_app_def getSavedAppSettings_def
    DEFAULT_APP_SETTINGS_def merge_app_settings_def no_change_def enter_def)

theorem settings_survive_restart_witness:
  "map fst (view_switches (settings_view id True (initial_app True sample_clock sample_uuids
     (map_option json_settings (savedAppSettings (fst (enter (\<lambda>d. view_switches (settings_view id True (fst d))) 0 True
       (sample_connecting, False)))))))) = [True, True, False, True, True, True]"
  using settings_survive_restart [OF sample_launch_entered(1,2), of True True sample_clock sample_uuids]
  unfolding Let_def sample_launch_entered(3) by blast

text \<open>
  The autostart switch and the operating system. Where the system accepts it, a
  toggle makes both agree, so that opening the settings again changes nothing. Resetting to the
  defaults turns the switch off and leaves the system's autostart alone: opening the settings
  again turns the switch back on when it was on there.
\<close>

theorem autostart_and_system:
  "autostart_query available (handleToggleAutoLaunch True b d) = handleToggleAutoLaunch True b d \<and>
   snd (on_app (handleResetDefaults t) d) = snd d \<and>
   \<not> autoLaunch (appSettings (fst (on_app (handleResetDefaults t) d))) \<and>
   autoLaunch (appSettings (fst (autostart_query True (on_app (handleResetDefaults t) d)))) = snd d"
  by (cases d) (simp add: autostart_query_def handleToggleAutoLaunch_def on_app_def handleResetDefaults_def
    updateAppSettings_def merge_app_settings_def no_change_def Let_def)

section \<open>Fixed texts of the dashboard\<close>

text \<open>
  While the tunnel is up the wide dashboard shows the same virtual and exit address for every
  profile and every reply of the daemon, and it calls the standard kill switch a strict lock.
\<close>

lemma dashboard_fixed_texts:
  "connectionState s = Connected \<Longrightarrow>
     {''10.8.0.2'', ''123.30.170.251''} \<subseteq> set (view_texts (hero_view t False False s))"
  "killSwitch (securitySettings s) = KsStandard \<Longrightarrow> ''Strict Lock'' \<in> set (view_texts (hero_view t False False s))"
  by (simp_all add: hero_view_def hero_desktop_network_def)

end
