(* ===== verification/Rust_Prelude.thy ===== *)
theory Rust_Prelude
  imports Js_Prelude "HOL-Library.Word"
begin

text \<open>
  What the native side (\<^verbatim>\<open>packages/daemon\<close>, \<^verbatim>\<open>packages/app/src-tauri\<close>) uses of the Rust standard
  library: splitting and parsing of text, IPv4 addresses as 32-bit words, and child processes.
  Text is ASCII as in the rest of the library. A child process is named by its argument vector;
  what it does is decided by the environment, a function of how many were run before it, and the
  program sees its exit status and output only.
\<close>

unbundle bit_operations_syntax

named_theorems net_defs \<open>definitions of the network layer\<close>

section \<open>Text\<close>

text \<open>\<open>s.split_once(c)\<close>: the parts before and after the first occurrence.\<close>

fun split_once :: "char \<Rightarrow> string \<Rightarrow> (string \<times> string) option" where
  "split_once c [] = None"
| "split_once c (x # s) = (if x = c then Some ([], s)
     else map_option (\<lambda>(a, b). (x # a, b)) (split_once c s))"

text \<open>\<open>s.split_whitespace().collect()\<close>: the maximal runs without white space.\<close>

fun split_words :: "string \<Rightarrow> string \<Rightarrow> string list" where
  "split_words w [] = (if w = [] then [] else [rev w])"
| "split_words w (c # s) = (if is_space c
     then (if w = [] then split_words [] s else rev w # split_words [] s)
     else split_words (c # w) s)"

definition split_whitespace :: "string \<Rightarrow> string list" where
  "split_whitespace s = split_words [] s"

text \<open>\<open>s.split(c)\<close>.\<close>

fun split_on :: "char \<Rightarrow> string \<Rightarrow> string list" where
  "split_on c [] = [[]]"
| "split_on c (x # s) = (if x = c then [] # split_on c s
     else (case split_on c s of [] \<Rightarrow> [[x]] | w # ws \<Rightarrow> (x # w) # ws))"

text \<open>\<open>parts.iter().position(p)\<close> followed by \<open>parts.get(i + 1)\<close>.\<close>

fun word_after :: "string \<Rightarrow> string list \<Rightarrow> string option" where
  "word_after k [] = None"
| "word_after k (w # ws) = (if w = k then first_opt ws else word_after k ws)"

text \<open>\<open>s.parse::<u8>()\<close>: an optional plus sign and at least one digit, at most 255.\<close>

definition all_digits :: "string \<Rightarrow> bool" where
  "all_digits s \<longleftrightarrow> s \<noteq> [] \<and> list_all is_digit s"

definition parse_u8 :: "string \<Rightarrow> 8 word option" where
  "parse_u8 s = (let t = (case s of [] \<Rightarrow> [] | c # r \<Rightarrow> if c = CHR ''+'' then r else s) in
     if all_digits t \<and> parse_digits t \<le> 255 then Some (of_nat (parse_digits t)) else None)"

section \<open>IPv4 addresses\<close>

text \<open>An octet of an address: one to three digits, no leading zero, at most 255.\<close>

definition parse_octet :: "string \<Rightarrow> 32 word option" where
  "parse_octet s = (if all_digits s \<and> length s \<le> 3 \<and> (length s > 1 \<longrightarrow> hd s \<noteq> CHR ''0'') \<and>
     parse_digits s \<le> 255 then Some (of_nat (parse_digits s)) else None)"

definition parse_ipv4 :: "string \<Rightarrow> 32 word option" where
  "parse_ipv4 s = (case map parse_octet (split_on (CHR ''.'') s) of
     [Some a, Some b, Some c, Some d] \<Rightarrow>
       Some (push_bit 24 a OR push_bit 16 b OR push_bit 8 c OR d)
   | _ \<Rightarrow> None)"

definition octet :: "nat \<Rightarrow> 32 word \<Rightarrow> nat" where
  "octet k w = unat (drop_bit k w AND 0xff)"

definition show_ipv4 :: "32 word \<Rightarrow> string" where
  "show_ipv4 w = string_of_nat (octet 24 w) @ ''.'' @ string_of_nat (octet 16 w) @ ''.'' @
     string_of_nat (octet 8 w) @ ''.'' @ string_of_nat (octet 0 w)"

text \<open>\<open>w.count_ones()\<close>.\<close>

definition count_ones :: "32 word \<Rightarrow> nat" where
  "count_ones w = length (filter (bit w) [0..<32])"

text \<open>The netmask of a prefix length.\<close>

definition netmask :: "nat \<Rightarrow> 32 word" where
  "netmask n = push_bit (32 - n) (- 1)"

section \<open>Child processes\<close>

type_synonym argv = "string list"

datatype exit = SpawnFailed | Exited bool string

type_synonym os_run = "nat \<Rightarrow> argv \<Rightarrow> exit"

primrec succeeded :: "exit \<Rightarrow> bool" where
  "succeeded SpawnFailed = False"
| "succeeded (Exited ok out) = ok"

text \<open>\<open>run_all\<close> is a list of commands whose results are ignored.\<close>

record host =
  cmds :: "argv list"

definition run_cmd :: "os_run \<Rightarrow> argv \<Rightarrow> 'a host_scheme \<Rightarrow> exit \<times> 'a host_scheme" where
  "run_cmd os a h = (os (length (cmds h)) a, h\<lparr>cmds := cmds h @ [a]\<rparr>)"

definition run_all :: "argv list \<Rightarrow> 'a host_scheme \<Rightarrow> 'a host_scheme" where
  "run_all as h = h\<lparr>cmds := cmds h @ as\<rparr>"

lemma run_cmd_simps [simp]:
  "fst (run_cmd os a h) = os (length (cmds h)) a"
  "snd (run_cmd os a h) = h\<lparr>cmds := cmds h @ [a]\<rparr>"
  by (simp_all add: run_cmd_def)

section \<open>Lemmas on text and addresses\<close>

lemma split_once_append:
  "c \<notin> set a \<Longrightarrow> split_once c (a @ c # b) = Some (a, b)"
  by (induction a) auto

lemma split_words_word:
  "\<forall>c\<in>set v. \<not> is_space c \<Longrightarrow> split_words w (v @ s) = split_words (rev v @ w) s"
  by (induction v arbitrary: w) auto

lemma is_space_blank [simp]: "is_space (CHR '' '')"
  by (simp add: is_space_def)

lemma split_words_unwords:
  "\<forall>w\<in>set ws. w \<noteq> [] \<and> (\<forall>c\<in>set w. \<not> is_space c) \<Longrightarrow> split_words [] (joinWith '' '' ws) = ws"
proof (induction ws)
  case (Cons x ws)
  then have x: "x \<noteq> []" "\<forall>c\<in>set x. \<not> is_space c" and IH: "split_words [] (joinWith '' '' ws) = ws"
    by auto
  show ?case
  proof (cases ws)
    case Nil
    then show ?thesis using split_words_word [OF x(2), of "[]" "[]"] x(1) by simp
  next
    case (Cons y ys)
    then show ?thesis
      using split_words_word [OF x(2), of "[]" "CHR '' '' # joinWith '' '' ws"] x(1) IH by simp
  qed
qed simp

lemma split_whitespace_unwords:
  "\<forall>w\<in>set ws. w \<noteq> [] \<and> (\<forall>c\<in>set w. \<not> is_space c) \<Longrightarrow> split_whitespace (joinWith '' '' ws) = ws"
  by (simp add: split_whitespace_def split_words_unwords)

lemma split_words_no_space:
  "\<forall>c\<in>set w. \<not> is_space c \<Longrightarrow> w' \<in> set (split_words w s) \<Longrightarrow> w' \<noteq> [] \<and> (\<forall>c\<in>set w'. \<not> is_space c)"
proof (induction s arbitrary: w)
  case Nil
  then show ?case by (auto split: if_splits)
next
  case (Cons c s)
  show ?case
  proof (cases "is_space c")
    case True
    then show ?thesis using Cons.prems Cons.IH [of "[]"] by (auto split: if_splits)
  next
    case False
    show ?thesis
      by (rule Cons.IH [of "c # w"]) (use Cons.prems False in simp_all)
  qed
qed

lemma split_whitespace_no_space:
  "w \<in> set (split_whitespace s) \<Longrightarrow> w \<noteq> [] \<and> (\<forall>c\<in>set w. \<not> is_space c)"
  unfolding split_whitespace_def using split_words_no_space [of "[]"] by simp

lemma word_after_in: "word_after k ws = Some w \<Longrightarrow> w \<in> set ws"
proof (induction ws)
  case (Cons v ws)
  then show ?case by (cases ws) (auto split: if_splits)
qed simp

lemma split_on_append:
  "c \<notin> set a \<Longrightarrow> split_on c (a @ c # b) = a # split_on c b"
  by (induction a) auto

lemma split_on_none: "c \<notin> set a \<Longrightarrow> split_on c a = [a]"
  by (induction a) auto

lemma bit_netmask: "bit (netmask n) i \<longleftrightarrow> 32 - n \<le> i \<and> i < 32"
  by (auto simp: netmask_def bit_simps)

lemma count_ones_netmask: "n \<le> 32 \<Longrightarrow> count_ones (netmask n) = n"
proof -
  assume "n \<le> 32"
  have "filter (\<lambda>i. 32 - n \<le> i \<and> i < 32) [0..<32] = [32 - n..<32]"
  proof -
    have "[0..<32] = [0..<32 - n] @ [32 - n..<(32::nat)]"
      using upt_add_eq_append [of 0 "32 - n" n] \<open>n \<le> 32\<close> by simp
    then show ?thesis by (simp add: filter_empty_conv)
  qed
  then show ?thesis using \<open>n \<le> 32\<close> by (simp add: count_ones_def bit_netmask cong: filter_cong)
qed

lemma octet_less: "octet k w < 256"
proof -
  have "drop_bit k w AND 0xff = take_bit 8 (drop_bit k w)"
    by (simp add: take_bit_eq_mask mask_eq_exp_minus_1)
  then show ?thesis
    using take_bit_nat_less_exp [of 8 "unat (drop_bit k w)"]
    by (simp add: octet_def unsigned_take_bit_eq)
qed

text \<open>Addresses as texts come back.\<close>

lemma string_of_octet: "n < 256 \<Longrightarrow> length (string_of_nat n) \<le> 3"
  by (rule length_string_of_nat) simp_all

lemma string_of_nat_hd: "0 < n \<Longrightarrow> hd (string_of_nat n) \<noteq> CHR ''0''"
proof (induction n rule: less_induct)
  case (less n)
  show ?case
  proof (cases "n < 10")
    case True
    have "of_char (digit_char n) \<noteq> (48::nat)" using True less.prems by simp
    moreover have "of_char (CHR ''0'') = (48::nat)" by simp
    ultimately have "digit_char n \<noteq> CHR ''0''" by metis
    with True show ?thesis by (subst string_of_nat.simps) simp
  next
    case False
    then have "hd (string_of_nat (n div 10)) \<noteq> CHR ''0''" by (intro less.IH) auto
    with False show ?thesis by (subst string_of_nat.simps) (simp add: hd_append)
  qed
qed

lemma parse_octet_show: "n < 256 \<Longrightarrow> parse_octet (string_of_nat n) = Some (of_nat n)"
proof -
  assume n: "n < 256"
  have "list_all is_digit (string_of_nat n)"
    by (auto simp: list_all_iff dest: string_of_nat_digits)
  moreover have "length (string_of_nat n) > 1 \<longrightarrow> hd (string_of_nat n) \<noteq> CHR ''0''"
  proof (cases "n = 0")
    case True
    then show ?thesis by (simp add: string_of_nat.simps [of 0])
  next
    case False
    then show ?thesis using string_of_nat_hd by simp
  qed
  ultimately show ?thesis
    using n string_of_octet [OF n] by (simp add: parse_octet_def all_digits_def)
qed

lemma no_dot: "CHR ''.'' \<notin> set (string_of_nat n)"
  using string_of_nat_digits [of "CHR ''.''" n] by (auto simp: is_digit_def)

lemma no_slash: "CHR ''/'' \<notin> set (string_of_nat n)"
  using string_of_nat_digits [of "CHR ''/''" n] by (auto simp: is_digit_def)

lemma octets_join:
  fixes w :: "32 word"
  shows "push_bit 24 (of_nat (octet 24 w)) OR push_bit 16 (of_nat (octet 16 w)) OR
     push_bit 8 (of_nat (octet 8 w)) OR of_nat (octet 0 w) = w"
proof -
  have m: "(0xff :: 32 word) = mask 8" by (simp add: mask_eq_exp_minus_1)
  show ?thesis
  proof (rule bit_word_eqI)
    fix i
    assume "i < LENGTH(32)"
    then consider "i < 8" | "8 \<le> i" "i < 16" | "16 \<le> i" "i < 24" | "24 \<le> i" "i < 32" by force
    then show "bit (push_bit 24 (of_nat (octet 24 w)) OR push_bit 16 (of_nat (octet 16 w)) OR
        push_bit 8 (of_nat (octet 8 w)) OR (of_nat (octet 0 w) :: 32 word)) i = bit w i"
      by cases (simp_all add: octet_def m bit_simps, linarith+)
  qed
qed

lemma parse_show_ipv4: "parse_ipv4 (show_ipv4 w) = Some w"
proof -
  have "split_on (CHR ''.'') (show_ipv4 w) =
      [string_of_nat (octet 24 w), string_of_nat (octet 16 w), string_of_nat (octet 8 w),
       string_of_nat (octet 0 w)]"
    by (simp add: show_ipv4_def split_on_append split_on_none no_dot)
  then show ?thesis
    using octets_join [of w] by (simp add: parse_ipv4_def parse_octet_show octet_less)
qed

end
