(* ===== verification/Linux_Network.thy ===== *)
theory Linux_Network
  imports Rust_Prelude Vpn_Types
begin

text \<open>
  The daemon's network layer on Linux: \<^verbatim>\<open>network/firewall/linux_nft.rs\<close>, \<^verbatim>\<open>network/ipv6.rs\<close>,
  \<^verbatim>\<open>network/dns/systemd_resolved.rs\<close>, \<^verbatim>\<open>network/interface.rs\<close>, \<^verbatim>\<open>network/routing/linux.rs\<close> and the
  coordinator of \<^verbatim>\<open>network/mod.rs\<close>. The managers' fields are one record with the trace of the
  commands run; what a command answers is the environment's. Text that a command reads on its
  standard input is carried as the last word of its argument vector. Log output is left out.
\<close>

section \<open>State\<close>

record RouteManager =
  original_gateway :: "string option"
  physical_interface :: "string option"
  local_lan_subnet :: "string option"
  injected_routes :: "string list"

record TunnelContext =
  tc_server_ip :: string
  server_endpoint_ips :: "string list"
  tc_server_port :: nat
  tc_iface :: string
  tc_intranet_only :: bool
  vpn_subnets :: "string list"
  tc_security_policy :: SecurityPolicy

record NetworkManager = host +
  router :: RouteManager
  firewall_active :: bool
  resolv_conf_backup :: "string option"
  dns_active_iface :: "string option"
  ipv6_active :: bool
  active_tunnel :: "TunnelContext option"
  resolv_conf :: "string option"

text \<open>
  The environment: what commands answer, the addresses of a host name (its canonical form when it
  is a literal address, else the answers of the resolver), whether a network device exists, and
  whether the n-th write of a file succeeds.
\<close>

record os_env =
  os_answers :: os_run
  os_addresses :: "string \<Rightarrow> string list"
  os_device :: "string \<Rightarrow> bool"
  os_writes :: "nat \<Rightarrow> bool"

definition no_routes :: RouteManager where
  "no_routes = \<lparr>original_gateway = None, physical_interface = None, local_lan_subnet = None,
     injected_routes = []\<rparr>"

definition network_new :: "string option \<Rightarrow> NetworkManager" where
  "network_new resolv = \<lparr>cmds = [], router = no_routes, firewall_active = False,
     resolv_conf_backup = None, dns_active_iface = None, ipv6_active = False,
     active_tunnel = None, resolv_conf = resolv\<rparr>"

section \<open>Firewall\<close>

definition NFT_TABLE_NAME :: string where "NFT_TABLE_NAME = ''vpnhub_killswitch''"

text \<open>A rule of the chain: its matches, in the order they are written, and its verdict.\<close>

datatype fw_match =
  OutIface string
| NotOutIface string
| NotOutNames "string list"
| DestIn string
| AnyDport nat
| UdpDports "nat list"
| CtEstablished

datatype fw_verdict = Accept | Drop

type_synonym fw_rule = "fw_match list \<times> fw_verdict"
type_synonym fw_chain = "fw_verdict \<times> fw_rule list"

definition quoted :: "string \<Rightarrow> string" where
  "quoted s = [CHR 0x22] @ s @ [CHR 0x22]"

primrec show_match :: "fw_match \<Rightarrow> string" where
  "show_match (OutIface i) = ''oif '' @ quoted i"
| "show_match (NotOutIface i) = ''oif != '' @ quoted i"
| "show_match (NotOutNames is) = ''meta oifname != { '' @ joinWith '', '' (map quoted is) @ '' }''"
| "show_match (DestIn d) = ''ip daddr '' @ d"
| "show_match (AnyDport p) = ''th dport '' @ string_of_nat p"
| "show_match (UdpDports ps) = ''udp dport { '' @ joinWith '', '' (map string_of_nat ps) @ '' }''"
| "show_match CtEstablished = ''ct state established,related''"

primrec show_verdict :: "fw_verdict \<Rightarrow> string" where
  "show_verdict Accept = ''accept''"
| "show_verdict Drop = ''drop''"

definition newline :: string where "newline = [CHR 0x0A]"

definition show_rule :: "fw_rule \<Rightarrow> string" where
  "show_rule r = ''        '' @ joinWith '' '' (map show_match (fst r)) @ '' '' @
     show_verdict (snd r) @ newline"

definition show_ruleset :: "fw_chain \<Rightarrow> string" where
  "show_ruleset c = ''table inet '' @ NFT_TABLE_NAME @ '' {'' @ newline @
     ''    chain output {'' @ newline @
     ''        type filter hook output priority 0; policy '' @ show_verdict (fst c) @ '';'' @ newline @
     concat (map show_rule (snd c)) @ ''    }'' @ newline @ ''}'' @ newline"

text \<open>The netmask notations the daemon rewrites to a prefix length.\<close>

definition slash_to_cidr :: "string \<Rightarrow> string" where
  "slash_to_cidr s = (case split_once (CHR ''/'') s of
     Some (ip, msk) \<Rightarrow>
       if msk = ''255.255.255.255'' then ip @ ''/32''
       else (case parse_ipv4 msk of
               Some m \<Rightarrow> ip @ ''/'' @ string_of_nat (count_ones m)
             | None \<Rightarrow> s)
   | None \<Rightarrow> s)"

definition stun_ports :: "nat list" where
  "stun_ports = [3478, 5349, 19302, 19303, 19304, 19305, 19306, 19307, 19308, 19309]"

definition webrtc_rules :: "bool \<Rightarrow> string \<Rightarrow> fw_rule list" where
  "webrtc_rules webrtc tunnel_iface = (if webrtc
     then [([UdpDports stun_ports, NotOutIface tunnel_iface, NotOutIface ''lo''], Drop)] else [])"

definition subnet_rules :: "string \<Rightarrow> string list \<Rightarrow> fw_rule list" where
  "subnet_rules tunnel_iface subnets =
     map (\<lambda>s. ([DestIn (slash_to_cidr s), NotOutNames [tunnel_iface, ''lo'']], Drop))
       (filter (\<lambda>s. s \<noteq> []) (map trim subnets))"

definition intranet_chain :: "string \<Rightarrow> string list \<Rightarrow> bool \<Rightarrow> string option \<Rightarrow> fw_chain" where
  "intranet_chain tunnel_iface subnets webrtc lan = (Accept,
     [([OutIface ''lo''], Accept), ([OutIface tunnel_iface], Accept)] @
     (case lan of Some l \<Rightarrow> [([DestIn l], Accept)] | None \<Rightarrow> []) @
     webrtc_rules webrtc tunnel_iface @
     subnet_rules tunnel_iface subnets @
     [([CtEstablished], Accept)])"

definition full_chain ::
  "string list \<Rightarrow> nat \<Rightarrow> string \<Rightarrow> bool \<Rightarrow> string option \<Rightarrow> fw_chain" where
  "full_chain target_ips port tunnel_iface webrtc lan = (Drop,
     [([OutIface ''lo''], Accept), ([OutIface tunnel_iface], Accept)] @
     map (\<lambda>tip. ([DestIn tip, AnyDport port], Accept)) target_ips @
     [([UdpDports [67, 68]], Accept), ([DestIn ''255.255.255.255''], Accept)] @
     (case lan of Some l \<Rightarrow> [([DestIn l], Accept), ([DestIn ''224.0.0.0/4''], Accept)] | None \<Rightarrow> []) @
     webrtc_rules webrtc tunnel_iface @
     [([CtEstablished], Accept)])"

definition target_ips_of :: "string list \<Rightarrow> string list" where
  "target_ips_of ips = (if ips = [] then [''0.0.0.0''] else ips)"

definition kill_switch_chain ::
  "string list \<Rightarrow> nat \<Rightarrow> string \<Rightarrow> bool \<Rightarrow> string list \<Rightarrow> bool \<Rightarrow> string option \<Rightarrow> fw_chain" where
  "kill_switch_chain endpoint_ips port tunnel_iface intranet subnets webrtc lan =
     (if intranet then intranet_chain tunnel_iface subnets webrtc lan
      else full_chain (target_ips_of endpoint_ips) port tunnel_iface webrtc lan)"

definition apply_iptables_fallback :: "string \<Rightarrow> nat \<Rightarrow> string \<Rightarrow> string option \<Rightarrow> argv list" where
  "apply_iptables_fallback server_ip port tunnel_iface lan =
     [[''iptables'', ''-N'', ''VPNHUB_OUTPUT''],
      [''iptables'', ''-A'', ''VPNHUB_OUTPUT'', ''-o'', ''lo'', ''-j'', ''ACCEPT''],
      [''iptables'', ''-A'', ''VPNHUB_OUTPUT'', ''-o'', tunnel_iface, ''-j'', ''ACCEPT''],
      [''iptables'', ''-A'', ''VPNHUB_OUTPUT'', ''-d'', server_ip, ''-p'', ''udp'', ''--dport'',
        string_of_nat port, ''-j'', ''ACCEPT'']] @
     (case lan of Some l \<Rightarrow> [[''iptables'', ''-A'', ''VPNHUB_OUTPUT'', ''-d'', l, ''-j'', ''ACCEPT'']]
      | None \<Rightarrow> []) @
     [[''iptables'', ''-A'', ''VPNHUB_OUTPUT'', ''-m'', ''conntrack'', ''--ctstate'',
        ''ESTABLISHED,RELATED'', ''-j'', ''ACCEPT'']]"

definition nft_apply :: "fw_chain \<Rightarrow> argv" where
  "nft_apply c = [''nft'', ''-f'', ''-'', show_ruleset c]"

text \<open>\<open>enable_kill_switch\<close>: nftables first, the iptables commands when that fails. It cannot fail.\<close>

definition enable_kill_switch_nft ::
  "os_run \<Rightarrow> string list \<Rightarrow> nat \<Rightarrow> string \<Rightarrow> bool \<Rightarrow> string list \<Rightarrow> bool \<Rightarrow> string option \<Rightarrow>
   NetworkManager \<Rightarrow> NetworkManager" where
  "enable_kill_switch_nft os endpoint_ips port tunnel_iface intranet subnets webrtc lan n =
     (let (st, n1) = run_cmd os (nft_apply
            (kill_switch_chain endpoint_ips port tunnel_iface intranet subnets webrtc lan)) n
      in if succeeded st then n1\<lparr>firewall_active := True\<rparr>
         else (run_all (apply_iptables_fallback (hd (target_ips_of endpoint_ips)) port tunnel_iface lan) n1)
                \<lparr>firewall_active := True\<rparr>)"

definition disable_commands :: "argv list" where
  "disable_commands = [[''nft'', ''delete'', ''table'', ''inet'', NFT_TABLE_NAME],
     [''iptables'', ''-F'', ''VPNHUB_OUTPUT''], [''iptables'', ''-X'', ''VPNHUB_OUTPUT'']]"

definition disable_kill_switch :: "NetworkManager \<Rightarrow> NetworkManager" where
  "disable_kill_switch n = (if \<not> firewall_active n then n
     else (run_all disable_commands n)\<lparr>firewall_active := False\<rparr>)"

section \<open>IPv6 shield\<close>

definition ipv6_route :: "string \<Rightarrow> string \<Rightarrow> argv" where
  "ipv6_route verb kind = [''ip'', ''-6'', ''route'', verb, kind, ''default'', ''metric'', ''1'']"

text \<open>Whatever the commands answer, the shield is marked active.\<close>

definition enable_ipv6_protection :: "os_run \<Rightarrow> NetworkManager \<Rightarrow> NetworkManager" where
  "enable_ipv6_protection os n =
     (if ipv6_active n then n
      else let (st, n1) = run_cmd os (ipv6_route ''add'' ''blackhole'') n
           in case st of
                Exited True _ \<Rightarrow> n1\<lparr>ipv6_active := True\<rparr>
              | Exited False _ \<Rightarrow> (snd (run_cmd os (ipv6_route ''add'' ''unreachable'') n1))\<lparr>ipv6_active := True\<rparr>
              | SpawnFailed \<Rightarrow> n1\<lparr>ipv6_active := True\<rparr>)"

definition disable_ipv6_protection :: "NetworkManager \<Rightarrow> NetworkManager" where
  "disable_ipv6_protection n =
     (if \<not> ipv6_active n then n
      else (run_all [ipv6_route ''del'' ''blackhole'', ipv6_route ''del'' ''unreachable''] n)
             \<lparr>ipv6_active := False\<rparr>)"

section \<open>DNS\<close>

definition resolv_text :: "string list \<Rightarrow> string" where
  "resolv_text servers = ''# Generated by VPNHub Daemon'' @ newline @
     concat (map (\<lambda>s. ''nameserver '' @ s @ newline) servers)"

text \<open>The backup is taken once; a failed write is an error the caller only logs.\<close>

definition apply_resolv_conf_fallback :: "os_env \<Rightarrow> string list \<Rightarrow> NetworkManager \<Rightarrow> NetworkManager" where
  "apply_resolv_conf_fallback env servers n =
     (let n1 = (if resolv_conf_backup n = None then n\<lparr>resolv_conf_backup := resolv_conf n\<rparr> else n)
      in if os_writes env (length (cmds n)) then n1\<lparr>resolv_conf := Some (resolv_text servers)\<rparr> else n1)"

definition configure_dns :: "os_env \<Rightarrow> string \<Rightarrow> string list \<Rightarrow> NetworkManager \<Rightarrow> NetworkManager" where
  "configure_dns env tunnel_iface servers n =
     (if servers = [] then n
      else let n1 = n\<lparr>dns_active_iface := Some tunnel_iface\<rparr>;
               (st, n2) = run_cmd (os_answers env) ([''resolvectl'', ''dns'', tunnel_iface] @ servers) n1
           in if succeeded st
              then snd (run_cmd (os_answers env) [''resolvectl'', ''domain'', tunnel_iface, ''~.''] n2)
              else apply_resolv_conf_fallback env servers n2)"

definition restore_dns :: "os_env \<Rightarrow> NetworkManager \<Rightarrow> NetworkManager" where
  "restore_dns env n =
     (let n1 = (case dns_active_iface n of
            Some i \<Rightarrow> snd (run_cmd (os_answers env) [''resolvectl'', ''revert'', i] n) | None \<Rightarrow> n);
          n2 = (case resolv_conf_backup n1 of
            Some backup \<Rightarrow>
              (if os_writes env (length (cmds n1)) then n1\<lparr>resolv_conf := Some backup\<rparr> else n1)
              \<lparr>resolv_conf_backup := None\<rparr>
          | None \<Rightarrow> n1)
      in n2\<lparr>dns_active_iface := None\<rparr>)"

section \<open>Interface\<close>

definition DEFAULT_VPN_MTU :: nat where "DEFAULT_VPN_MTU = 1420"

definition configure_interface ::
  "os_run \<Rightarrow> string \<Rightarrow> nat \<Rightarrow> string option \<Rightarrow> NetworkManager \<Rightarrow> NetworkManager" where
  "configure_interface os iface mtu assigned n =
     (let (st, n1) = run_cmd os [''ip'', ''link'', ''show'', ''dev'', iface] n;
          n2 = (if succeeded st then n1
                else run_all [[''ip'', ''tuntap'', ''add'', ''dev'', iface, ''mode'', ''tun'']] n1);
          n3 = run_all [[''ip'', ''link'', ''set'', ''dev'', iface, ''mtu'', string_of_nat mtu, ''up'']] n2
      in case assigned of
           None \<Rightarrow> n3
         | Some ip \<Rightarrow>
             let formatted = (if CHR ''/'' \<in> set ip then ip else ip @ ''/24'')
             in run_all [[''ip'', ''addr'', ''flush'', ''dev'', iface],
                         [''ip'', ''addr'', ''add'', formatted, ''dev'', iface]] n3)"

definition teardown_interface :: "os_env \<Rightarrow> string \<Rightarrow> NetworkManager \<Rightarrow> NetworkManager" where
  "teardown_interface env iface n =
     (if os_device env iface
      then run_all [[''ip'', ''tuntap'', ''del'', ''dev'', iface, ''mode'', ''tun'']] n else n)"


section \<open>Routing\<close>

text \<open>The output of a command: none when it could not be started.\<close>

primrec output_text :: "exit \<Rightarrow> string option" where
  "output_text SpawnFailed = None"
| "output_text (Exited ok out) = Some out"

definition with_router :: "(RouteManager \<Rightarrow> RouteManager) \<Rightarrow> NetworkManager \<Rightarrow> NetworkManager" where
  "with_router f n = n\<lparr>router := f (router n)\<rparr>"

definition discover_original_gateway :: "os_run \<Rightarrow> NetworkManager \<Rightarrow> NetworkManager" where
  "discover_original_gateway os n =
     (let (st, n1) = run_cmd os [''ip'', ''route'', ''show'', ''default''] n
      in case output_text st of
           None \<Rightarrow> n1
         | Some text \<Rightarrow>
             let parts = split_whitespace text;
                 keep = (\<lambda>found old. case found of Some w \<Rightarrow> Some w | None \<Rightarrow> old)
             in with_router (\<lambda>r. r\<lparr>
                  original_gateway := keep (word_after ''via'' parts) (original_gateway r),
                  physical_interface := keep (word_after ''dev'' parts) (physical_interface r)\<rparr>) n1)"

text \<open>The two ways to find the local network: a kernel route, or the address of the device. The
  shift is the one of a release build, which takes its amount modulo 32.\<close>

definition lan_of_route_line :: "string \<Rightarrow> string option" where
  "lan_of_route_line line = (case split_whitespace line of
     [] \<Rightarrow> None
   | subnet # _ \<Rightarrow> if CHR ''/'' \<in> set subnet \<and> \<not> startsWith subnet ''169.254.'' then Some subnet else None)"

definition lan_of_addr_line :: "string \<Rightarrow> string option" where
  "lan_of_addr_line line = (case word_after ''inet'' (split_whitespace line) of
     None \<Rightarrow> None
   | Some cidr \<Rightarrow> (case split_once (CHR ''/'') cidr of
       None \<Rightarrow> None
     | Some (ip_str, mask_str) \<Rightarrow> (case (parse_ipv4 ip_str, parse_u8 mask_str) of
         (Some ip, Some k) \<Rightarrow>
           let mask_u32 = (if k = 0 then 0 else push_bit (unat (32 - k) mod 32) (- 1)) :: 32 word
           in Some (show_ipv4 (ip AND mask_u32) @ ''/'' @ string_of_nat (unat k))
       | _ \<Rightarrow> None)))"

fun first_some :: "('a \<Rightarrow> 'b option) \<Rightarrow> 'a list \<Rightarrow> 'b option" where
  "first_some f [] = None"
| "first_some f (x # xs) = (case f x of Some y \<Rightarrow> Some y | None \<Rightarrow> first_some f xs)"

definition lines_of :: "string \<Rightarrow> string list" where
  "lines_of s = split_on (CHR 0x0A) s"

definition detect_local_lan_subnet :: "os_run \<Rightarrow> NetworkManager \<Rightarrow> NetworkManager" where
  "detect_local_lan_subnet os n = (case physical_interface (router n) of
     None \<Rightarrow> n
   | Some dev \<Rightarrow>
       let (st, n1) = run_cmd os [''ip'', ''route'', ''show'', ''dev'', dev, ''proto'', ''kernel''] n
       in case Option.bind (output_text st) (\<lambda>t. first_some lan_of_route_line (lines_of t)) of
            Some subnet \<Rightarrow> with_router (\<lambda>r. r\<lparr>local_lan_subnet := Some subnet\<rparr>) n1
          | None \<Rightarrow>
              let (st', n2) = run_cmd os [''ip'', ''-o'', ''-4'', ''addr'', ''show'', ''dev'', dev] n1
              in case Option.bind (output_text st') (\<lambda>t. first_some lan_of_addr_line (lines_of t)) of
                   Some subnet \<Rightarrow> with_router (\<lambda>r. r\<lparr>local_lan_subnet := Some subnet\<rparr>) n2
                 | None \<Rightarrow> n2)"

definition normalize_route :: "string \<Rightarrow> string" where
  "normalize_route r =
     (let s = trim r in
      if CHR ''/'' \<in> set s then slash_to_cidr s
      else if CHR '' '' \<in> set s then
        (case split_whitespace s of
           p0 # p1 # _ \<Rightarrow> (case parse_ipv4 p1 of
               Some m \<Rightarrow> p0 @ ''/'' @ string_of_nat (count_ones m) | None \<Rightarrow> p0)
         | _ \<Rightarrow> s)
      else s)"

definition track :: "string \<Rightarrow> NetworkManager \<Rightarrow> NetworkManager" where
  "track entry = with_router (\<lambda>r. r\<lparr>injected_routes := injected_routes r @ [entry]\<rparr>)"

definition dev_route :: "string \<Rightarrow> string \<Rightarrow> argv" where
  "dev_route dest iface = [''ip'', ''route'', ''replace'', dest, ''dev'', iface]"

definition dev_entry :: "string \<Rightarrow> string \<Rightarrow> string" where
  "dev_entry dest iface = joinWith '' '' [dest, ''dev'', iface]"

text \<open>A route that is remembered only if the command succeeded, and one that always is.\<close>

definition inject_checked :: "os_run \<Rightarrow> string \<Rightarrow> string \<Rightarrow> NetworkManager \<Rightarrow> NetworkManager" where
  "inject_checked os iface dest n =
     (let (st, n1) = run_cmd os (dev_route dest iface) n
      in if succeeded st then track (dev_entry dest iface) n1 else n1)"

definition inject_always :: "os_run \<Rightarrow> string \<Rightarrow> string \<Rightarrow> NetworkManager \<Rightarrow> NetworkManager" where
  "inject_always os iface dest n =
     track (dev_entry dest iface) (snd (run_cmd os (dev_route dest iface) n))"

text \<open>The host route that keeps the server itself outside the tunnel.\<close>

definition bypass_route :: "string \<Rightarrow> string \<Rightarrow> string option \<Rightarrow> argv" where
  "bypass_route target gw dev = [''ip'', ''route'', ''replace'', target, ''via'', gw] @
     (case dev of Some d \<Rightarrow> [''dev'', d] | None \<Rightarrow> []) @ [''metric'', ''1'']"

definition bypass_entry :: "string \<Rightarrow> string \<Rightarrow> string option \<Rightarrow> string" where
  "bypass_entry target gw dev = joinWith '' '' ([target, ''via'', gw] @
     (case dev of Some d \<Rightarrow> [''dev'', d] | None \<Rightarrow> []))"

definition bypass_server ::
  "os_run \<Rightarrow> string \<Rightarrow> string option \<Rightarrow> string \<Rightarrow> NetworkManager \<Rightarrow> NetworkManager" where
  "bypass_server os gw dev target n =
     (let (st, n1) = run_cmd os (bypass_route target gw dev) n
      in if succeeded st then track (bypass_entry target gw dev) n1 else n1)"

definition server_addresses :: "os_env \<Rightarrow> string \<Rightarrow> string list" where
  "server_addresses env server_ip =
     (if os_addresses env server_ip = [] then [server_ip] else os_addresses env server_ip)"

definition intranet_routes ::
  "os_run \<Rightarrow> string \<Rightarrow> string option \<Rightarrow> string list \<Rightarrow> string list \<Rightarrow> NetworkManager \<Rightarrow> NetworkManager" where
  "intranet_routes os iface assigned pushed custom n =
     (let n1 = (case assigned of Some ip \<Rightarrow> inject_always os iface ip n | None \<Rightarrow> n);
          n2 = fold (\<lambda>r. inject_checked os iface (normalize_route r)) pushed n1
      in fold (\<lambda>r. inject_checked os iface (normalize_route r)) custom n2)"

definition full_tunnel_routes ::
  "os_run \<Rightarrow> string \<Rightarrow> string list \<Rightarrow> string list \<Rightarrow> NetworkManager \<Rightarrow> NetworkManager" where
  "full_tunnel_routes os iface pushed custom n =
     (let n1 = snd (run_cmd os (dev_route ''0.0.0.0/1'' iface) n);
          n2 = snd (run_cmd os (dev_route ''128.0.0.0/1'' iface) n1);
          n3 = track (dev_entry ''128.0.0.0/1'' iface) (track (dev_entry ''0.0.0.0/1'' iface) n2)
      in fold (\<lambda>r. inject_always os iface (normalize_route r)) (pushed @ custom) n3)"

definition setup_vpn_routing ::
  "os_env \<Rightarrow> string \<Rightarrow> string \<Rightarrow> string option \<Rightarrow> bool \<Rightarrow> string list \<Rightarrow> string list \<Rightarrow> bool \<Rightarrow>
   NetworkManager \<Rightarrow> NetworkManager" where
  "setup_vpn_routing env server_ip iface assigned intranet pushed custom lan n =
     (let os = os_answers env;
          n1 = discover_original_gateway os n;
          n2 = (case original_gateway (router n1) of
                  None \<Rightarrow> n1
                | Some gw \<Rightarrow> fold (bypass_server os gw (physical_interface (router n1)))
                    (server_addresses env server_ip) n1);
          n3 = (if lan then detect_local_lan_subnet os n2 else n2)
      in if intranet then intranet_routes os iface assigned pushed custom n3
         else full_tunnel_routes os iface pushed custom n3)"

definition delete_entry :: "string \<Rightarrow> argv list" where
  "delete_entry entry = (case split_whitespace entry of
     a # b # c # _ \<Rightarrow> [[''ip'', ''route'', ''del'', a, b, c]] | _ \<Rightarrow> [])"

definition teardown_vpn_routing :: "string \<Rightarrow> string \<Rightarrow> NetworkManager \<Rightarrow> NetworkManager" where
  "teardown_vpn_routing server_ip iface n =
     (let n1 = run_all (concat (map delete_entry (injected_routes (router n))) @
            [[''ip'', ''route'', ''del'', ''0.0.0.0/1'', ''dev'', iface],
             [''ip'', ''route'', ''del'', ''128.0.0.0/1'', ''dev'', iface]] @
            (case original_gateway (router n) of
               Some gw \<Rightarrow> [[''ip'', ''route'', ''del'', server_ip, ''via'', gw]] | None \<Rightarrow> [])) n
      in n1\<lparr>router := no_routes\<rparr>)"

section \<open>The coordinator\<close>

record tunnel_setup =
  ts_server_ip :: string
  ts_server_port :: nat
  ts_iface :: string
  ts_assigned_ip :: "string option"
  ts_server_dns :: "string list"
  ts_pushed_routes :: "string list"
  ts_redirect_gateway :: bool
  ts_security :: SecurityPolicy
  ts_routing :: RoutingPolicy

definition intranet_split :: "tunnel_setup \<Rightarrow> bool" where
  "intranet_split t \<longleftrightarrow> \<not> (ts_redirect_gateway t \<and> \<not> intranet_only (ts_routing t))"

definition tunnel_subnets :: "tunnel_setup \<Rightarrow> string list" where
  "tunnel_subnets t = (case ts_assigned_ip t of Some ip \<Rightarrow> [ip] | None \<Rightarrow> []) @
     ts_pushed_routes t @ custom_subnets (ts_routing t)"

definition lan_exemption :: "SecurityPolicy \<Rightarrow> NetworkManager \<Rightarrow> string option" where
  "lan_exemption pol n = (if lan_bypass pol then local_lan_subnet (router n) else None)"

definition setup_vpn_network :: "os_env \<Rightarrow> tunnel_setup \<Rightarrow> NetworkManager \<Rightarrow> NetworkManager" where
  "setup_vpn_network env t n =
     (let os = os_answers env; pol = ts_security t; ips = server_addresses env (ts_server_ip t);
          n1 = configure_interface os (ts_iface t) DEFAULT_VPN_MTU (ts_assigned_ip t) n;
          n2 = setup_vpn_routing env (ts_server_ip t) (ts_iface t) (ts_assigned_ip t)
                 (intranet_split t) (ts_pushed_routes t) (custom_subnets (ts_routing t))
                 (lan_bypass pol) n1;
          n3 = (if ts_server_dns t \<noteq> [] then configure_dns env (ts_iface t) (ts_server_dns t) n2 else n2);
          n4 = (if ipv6_leak_protection pol then enable_ipv6_protection os n3 else n3);
          n5 = (if kill_switch_mode pol \<noteq> KsOff
                then enable_kill_switch_nft os ips (ts_server_port t) (ts_iface t) (intranet_split t)
                       (tunnel_subnets t) (webrtc_protection pol) (lan_exemption pol n4) n4
                else n4)
      in n5\<lparr>active_tunnel := Some \<lparr>tc_server_ip = ts_server_ip t, server_endpoint_ips = ips,
           tc_server_port = ts_server_port t, tc_iface = ts_iface t,
           tc_intranet_only = intranet_split t, vpn_subnets = tunnel_subnets t,
           tc_security_policy = pol\<rparr>\<rparr>)"

definition teardown_vpn_network :: "os_env \<Rightarrow> NetworkManager \<Rightarrow> NetworkManager" where
  "teardown_vpn_network env n =
     (let n1 = disable_kill_switch n;
          n2 = disable_ipv6_protection n1;
          n3 = restore_dns env n2
      in case active_tunnel n3 of
           None \<Rightarrow> n3
         | Some ctx \<Rightarrow> teardown_interface env (tc_iface ctx)
             (teardown_vpn_routing (tc_server_ip ctx) (tc_iface ctx) (n3\<lparr>active_tunnel := None\<rparr>)))"

text \<open>Without a tunnel nothing happens; enabling and disabling cannot fail on Linux.\<close>

definition set_kill_switch ::
  "os_run \<Rightarrow> bool \<Rightarrow> KillSwitchMode option \<Rightarrow> NetworkManager \<Rightarrow> NetworkManager" where
  "set_kill_switch os enabled mode n = (case active_tunnel n of
     None \<Rightarrow> n
   | Some ctx \<Rightarrow>
       if enabled then
         let pol = (tc_security_policy ctx)\<lparr>kill_switch_mode := nullish mode KsStrict\<rparr>
         in enable_kill_switch_nft os (server_endpoint_ips ctx) (tc_server_port ctx) (tc_iface ctx)
              (tc_intranet_only ctx) (vpn_subnets ctx) (webrtc_protection pol) (lan_exemption pol n)
              (n\<lparr>active_tunnel := Some (ctx\<lparr>tc_security_policy := pol\<rparr>)\<rparr>)
       else
         disable_kill_switch (n\<lparr>active_tunnel := Some (ctx\<lparr>tc_security_policy :=
           (tc_security_policy ctx)\<lparr>kill_switch_mode := KsOff\<rparr>\<rparr>)\<rparr>))"

definition is_intranet_only :: "NetworkManager \<Rightarrow> bool" where
  "is_intranet_only n = (case active_tunnel n of Some t \<Rightarrow> tc_intranet_only t | None \<Rightarrow> False)"

text \<open>Nothing of a tunnel is left in the managers.\<close>

definition network_clear :: "NetworkManager \<Rightarrow> bool" where
  "network_clear n \<longleftrightarrow> active_tunnel n = None \<and> \<not> firewall_active n \<and> \<not> ipv6_active n \<and>
     dns_active_iface n = None \<and> resolv_conf_backup n = None"

declare enable_kill_switch_nft_def [net_defs] disable_kill_switch_def [net_defs]
  enable_ipv6_protection_def [net_defs] disable_ipv6_protection_def [net_defs]
  configure_dns_def [net_defs] apply_resolv_conf_fallback_def [net_defs] restore_dns_def [net_defs]
  configure_interface_def [net_defs] teardown_interface_def [net_defs]
  discover_original_gateway_def [net_defs] detect_local_lan_subnet_def [net_defs]
  inject_checked_def [net_defs] inject_always_def [net_defs] bypass_server_def [net_defs]
  with_router_def [net_defs] track_def [net_defs] run_cmd_def [net_defs] run_all_def [net_defs]

end
