(* ===== verification/Network_Properties.thy ===== *)
theory Network_Properties
  imports Linux_Network
begin

text \<open>
  What the network layer achieves. The kill switch's chain is given the documented meaning of an
  nftables chain (the first rule whose matches all hold decides, else the policy) and compared
  with the traffic it is meant to let through; the routes added are compared with the routes
  removed; the netmask notation with the prefix lengths it stands for.
\<close>

section \<open>Packets\<close>

text \<open>An outgoing packet: the interface it leaves by, its IPv4 destination (none for IPv6), whether it
  is UDP, its destination port, and whether it belongs to a known connection.\<close>

record packet =
  p_oif :: string
  p_daddr :: "32 word option"
  p_udp :: bool
  p_dport :: "nat option"
  p_established :: bool

text \<open>\<open>ip daddr\<close>: a literal address, or a network given by an address and a prefix length.\<close>

definition same_prefix :: "nat \<Rightarrow> 32 word \<Rightarrow> 32 word \<Rightarrow> bool" where
  "same_prefix k a b \<longleftrightarrow> drop_bit (32 - k) a = drop_bit (32 - k) b"

definition in_net :: "string \<Rightarrow> 32 word \<Rightarrow> bool" where
  "in_net spec a = (case split_once (CHR ''/'') spec of
     None \<Rightarrow> parse_ipv4 spec = Some a
   | Some (ip, k) \<Rightarrow> (case parse_ipv4 ip of
       Some b \<Rightarrow> all_digits k \<and> parse_digits k \<le> 32 \<and> same_prefix (parse_digits k) a b
     | None \<Rightarrow> False))"

definition to_net :: "string \<Rightarrow> packet \<Rightarrow> bool" where
  "to_net spec p = (case p_daddr p of Some a \<Rightarrow> in_net spec a | None \<Rightarrow> False)"

definition to_lan :: "string option \<Rightarrow> packet \<Rightarrow> bool" where
  "to_lan lan p = (case lan of Some l \<Rightarrow> to_net l p | None \<Rightarrow> False)"

definition udp_to :: "nat list \<Rightarrow> packet \<Rightarrow> bool" where
  "udp_to ports p \<longleftrightarrow> p_udp p \<and> (\<exists>q\<in>set ports. p_dport p = Some q)"

primrec match_holds :: "packet \<Rightarrow> fw_match \<Rightarrow> bool" where
  "match_holds p (OutIface i) = (p_oif p = i)"
| "match_holds p (NotOutIface i) = (p_oif p \<noteq> i)"
| "match_holds p (NotOutNames is) = (p_oif p \<notin> set is)"
| "match_holds p (DestIn d) = to_net d p"
| "match_holds p (AnyDport q) = (p_dport p = Some q)"
| "match_holds p (UdpDports qs) = udp_to qs p"
| "match_holds p CtEstablished = p_established p"

fun decide :: "packet \<Rightarrow> fw_verdict \<Rightarrow> fw_rule list \<Rightarrow> fw_verdict" where
  "decide p pol [] = pol"
| "decide p pol ((ms, v) # rs) = (if list_all (match_holds p) ms then v else decide p pol rs)"

definition verdict :: "fw_chain \<Rightarrow> packet \<Rightarrow> fw_verdict" where
  "verdict c p = decide p (fst c) (snd c)"

lemma fw_verdict_not_Accept: "v \<noteq> Accept \<Longrightarrow> v = Drop"
  by (cases v) simp_all

lemma decide_append:
  "decide p pol (rs @ rs') = decide p (decide p pol rs') rs"
  by (induction rs) auto

lemma decide_map:
  "decide p pol (map (\<lambda>x. (f x, v)) xs) =
     (if \<exists>x\<in>set xs. list_all (match_holds p) (f x) then v else pol)"
  by (induction xs) auto

section \<open>What the kill switch lets through\<close>

text \<open>
  The traffic that the rules of a full tunnel leave open beside the tunnel itself: the server, UDP to the DHCP ports
  of any host, the broadcast address and, with the local network exempted, that network and the multicast addresses.
\<close>

definition exempt :: "string list \<Rightarrow> nat \<Rightarrow> string option \<Rightarrow> packet \<Rightarrow> bool" where
  "exempt servers port lan p \<longleftrightarrow>
     (p_dport p = Some port \<and> (\<exists>ip\<in>set servers. to_net ip p)) \<or>
     udp_to [67, 68] p \<or> to_net ''255.255.255.255'' p \<or>
     (lan \<noteq> None \<and> (to_lan lan p \<or> to_net ''224.0.0.0/4'' p))"

lemma decide_webrtc:
  "decide p pol (webrtc_rules w i) =
     (if w \<and> udp_to stun_ports p \<and> p_oif p \<noteq> i \<and> p_oif p \<noteq> ''lo'' then Drop else pol)"
  by (simp add: webrtc_rules_def)

lemma full_chain_verdict:
  "verdict (full_chain ips port i w lan) p =
     (if p_oif p = ''lo'' \<or> p_oif p = i \<or> exempt ips port lan p then Accept
      else if w \<and> udp_to stun_ports p then Drop
      else if p_established p then Accept else Drop)"
  by (cases lan)
     (auto simp: verdict_def full_chain_def exempt_def to_lan_def decide_append decide_map decide_webrtc)

lemma intranet_chain_verdict:
  "verdict (intranet_chain i subnets w lan) p =
     (if p_oif p \<noteq> ''lo'' \<and> p_oif p \<noteq> i \<and> \<not> to_lan lan p \<and>
         (w \<and> udp_to stun_ports p \<or>
          (\<exists>s\<in>set subnets. trim s \<noteq> [] \<and> to_net (slash_to_cidr (trim s)) p))
      then Drop else Accept)"
  by (cases lan)
     (auto simp: verdict_def intranet_chain_def to_lan_def subnet_rules_def decide_append decide_map
       decide_webrtc)

section \<open>The fallback\<close>

text \<open>
  The commands of the fallback, which runs when nftables does not take the rule set, block nothing: each creates or
  fills the chain \<open>VPNHUB_OUTPUT\<close> with a rule that accepts, and none changes a chain that packets pass.
\<close>

definition blocks_nothing :: "argv \<Rightarrow> bool" where
  "blocks_nothing c \<longleftrightarrow> c = [''iptables'', ''-N'', ''VPNHUB_OUTPUT''] \<or>
     (take 3 c = [''iptables'', ''-A'', ''VPNHUB_OUTPUT''] \<and> last c = ''ACCEPT'')"

lemma fallback_blocks_nothing: "\<forall>c\<in>set (apply_iptables_fallback ip port iface lan). blocks_nothing c"
  by (cases lan) (simp_all add: apply_iptables_fallback_def blocks_nothing_def)

lemma enable_cases:
  "enable_kill_switch_nft os ips port iface intranet subnets w lan n =
    (let c = nft_apply (kill_switch_chain ips port iface intranet subnets w lan) in
     if succeeded (os (length (cmds n)) c) then n\<lparr>cmds := cmds n @ [c], firewall_active := True\<rparr>
     else n\<lparr>cmds := cmds n @ [c] @ apply_iptables_fallback (hd (target_ips_of ips)) port iface lan, firewall_active := True\<rparr>)"
  by (simp add: enable_kill_switch_nft_def run_cmd_def run_all_def Let_def)

text \<open>
  Property C13. What engaging the kill switch blocks. It always counts as active afterwards. If nftables takes the
  rule set, that is the one command run, and the rule set by itself treats a packet that leaves by another interface
  than the tunnel and the loopback as follows. With a full tunnel it passes exactly if it goes to an address and the port of the
  server, is UDP to a DHCP port (67, 68) of any host, goes to the broadcast address, or goes to the local network or
  to a multicast address (224.0.0.0/4) while the local network is exempted; or if it belongs to a known connection,
  unless it is STUN traffic and the WebRTC shield is on. Everything else is dropped, IPv6 included. With split routing
  it is dropped exactly if it does not go to the exempted local network and is STUN traffic with the shield on or goes
  to a network of the tunnel. If nftables does not take the rule set, the commands of the fallback follow, and none of
  them blocks anything: each creates or fills, with accepting rules only, a chain that no packet passes.
\<close>

theorem kill_switch_enforcement:
  assumes "p_oif p \<noteq> ''lo''" and "p_oif p \<noteq> iface"
  shows "let rules = kill_switch_chain ips port iface intranet subnets w lan;
             n' = enable_kill_switch_nft os ips port iface intranet subnets w lan n
    in firewall_active n' \<and>
      (if succeeded (os (length (cmds n)) (nft_apply rules))
       then cmds n' = cmds n @ [nft_apply rules] \<and>
         (if intranet
          then verdict rules p = Drop \<longleftrightarrow> \<not> to_lan lan p \<and>
            (w \<and> udp_to stun_ports p \<or> (\<exists>s\<in>set subnets. trim s \<noteq> [] \<and> to_net (slash_to_cidr (trim s)) p))
          else verdict rules p = Accept \<longleftrightarrow>
            (p_dport p = Some port \<and> (\<exists>ip\<in>set (target_ips_of ips). to_net ip p)) \<or>
            udp_to [67, 68] p \<or> to_net ''255.255.255.255'' p \<or>
            (lan \<noteq> None \<and> (to_lan lan p \<or> to_net ''224.0.0.0/4'' p)) \<or>
            (p_established p \<and> \<not> (w \<and> udp_to stun_ports p)))
       else (\<exists>fallback. cmds n' = cmds n @ [nft_apply rules] @ fallback \<and> (\<forall>c\<in>set fallback. blocks_nothing c)))"
proof -
  have "verdict (full_chain (target_ips_of ips) port iface w lan) p = Accept \<longleftrightarrow>
      exempt (target_ips_of ips) port lan p \<or> p_established p \<and> \<not> (w \<and> udp_to stun_ports p)"
    using assms by (auto simp: full_chain_verdict)
  moreover have "verdict (intranet_chain iface subnets w lan) p = Drop \<longleftrightarrow> \<not> to_lan lan p \<and>
      (w \<and> udp_to stun_ports p \<or> (\<exists>s\<in>set subnets. trim s \<noteq> [] \<and> to_net (slash_to_cidr (trim s)) p))"
    using assms by (auto simp: intranet_chain_verdict)
  ultimately show ?thesis
    using fallback_blocks_nothing
    by (auto simp: enable_cases kill_switch_chain_def exempt_def Let_def)
qed

text \<open>A browser's packet to a web server that would leave by the physical interface.\<close>

definition leaking_packet :: packet where
  "leaking_packet = \<lparr>p_oif = ''eth0'', p_daddr = Some 0x08080808, p_udp = False, p_dport = Some 443,
     p_established = False\<rparr>"

theorem kill_switch_enforcement_witness:
  "verdict (kill_switch_chain [''203.0.113.7''] 1194 ''tun0'' False [] True (Some ''192.168.1.0/24'')) leaking_packet = Drop \<and>
   firewall_active (enable_kill_switch_nft (\<lambda>_ _. SpawnFailed) [''203.0.113.7''] 1194 ''tun0'' False [] True None (network_new None))"
proof -
  have ne: "p_oif leaking_packet \<noteq> ''lo''" "p_oif leaking_packet \<noteq> ''tun0''" "\<not> p_established leaking_packet"
    by (simp_all add: leaking_packet_def)
  have nx: "\<not> exempt (target_ips_of [''203.0.113.7'']) 1194 (Some ''192.168.1.0/24'') leaking_packet"
    by code_simp
  have "\<not> verdict (kill_switch_chain [''203.0.113.7''] 1194 ''tun0'' False [] True (Some ''192.168.1.0/24'')) leaking_packet = Accept"
    using kill_switch_enforcement [OF ne(1,2), of "[''203.0.113.7'']" 1194 False "[]" True "Some ''192.168.1.0/24''"
        "\<lambda>_ _. Exited True []" "network_new None"] nx ne(3)
    by (auto simp: Let_def exempt_def)
  then show ?thesis
    using kill_switch_enforcement [OF ne(1,2), of "[''203.0.113.7'']" 1194 False "[]" True None
        "\<lambda>_ _. SpawnFailed" "network_new None"]
    by (simp add: Let_def fw_verdict_not_Accept)
qed

section \<open>Teardown\<close>

lemma restore_dns_simps [simp]:
  "firewall_active (restore_dns env n) = firewall_active n"
  "ipv6_active (restore_dns env n) = ipv6_active n"
  "active_tunnel (restore_dns env n) = active_tunnel n"
  "router (restore_dns env n) = router n"
  "dns_active_iface (restore_dns env n) = None"
  "resolv_conf_backup (restore_dns env n) = None"
  by (simp_all add: restore_dns_def Let_def split: option.split)

lemma disable_simps [simp]:
  "\<not> firewall_active (disable_kill_switch n)"
  "ipv6_active (disable_kill_switch n) = ipv6_active n"
  "active_tunnel (disable_kill_switch n) = active_tunnel n"
  "router (disable_kill_switch n) = router n"
  "\<not> ipv6_active (disable_ipv6_protection n)"
  "firewall_active (disable_ipv6_protection n) = firewall_active n"
  "active_tunnel (disable_ipv6_protection n) = active_tunnel n"
  "router (disable_ipv6_protection n) = router n"
  by (simp_all add: disable_kill_switch_def disable_ipv6_protection_def run_all_def)

lemma teardown_interface_simps [simp]:
  "firewall_active (teardown_interface env i n) = firewall_active n"
  "ipv6_active (teardown_interface env i n) = ipv6_active n"
  "active_tunnel (teardown_interface env i n) = active_tunnel n"
  "router (teardown_interface env i n) = router n"
  "dns_active_iface (teardown_interface env i n) = dns_active_iface n"
  "resolv_conf_backup (teardown_interface env i n) = resolv_conf_backup n"
  by (simp_all add: teardown_interface_def run_all_def)

lemma teardown_routing_simps [simp]:
  "firewall_active (teardown_vpn_routing s i n) = firewall_active n"
  "ipv6_active (teardown_vpn_routing s i n) = ipv6_active n"
  "active_tunnel (teardown_vpn_routing s i n) = active_tunnel n"
  "dns_active_iface (teardown_vpn_routing s i n) = dns_active_iface n"
  "resolv_conf_backup (teardown_vpn_routing s i n) = resolv_conf_backup n"
  "router (teardown_vpn_routing s i n) = no_routes"
  by (simp_all add: teardown_vpn_routing_def Let_def run_all_def)

lemma teardown_clears: "network_clear (teardown_vpn_network env n)"
  by (simp add: teardown_vpn_network_def network_clear_def Let_def split: option.split)

lemma teardown_router:
  "router (teardown_vpn_network env n) = (if active_tunnel n = None then router n else no_routes)"
  by (simp add: teardown_vpn_network_def Let_def split: option.split)

end
