(* ===== verification/Route_Properties.thy ===== *)
theory Route_Properties
  imports Network_Properties
begin

text \<open>
  The bookkeeping of routes: every route the set-up adds is remembered in a form from which the
  teardown reconstructs the command that removes it; netmasks are read as prefix lengths; the
  resolver's configuration comes back.
\<close>

section \<open>Netmasks\<close>

text \<open>A network written with a netmask becomes the same network with its prefix length.\<close>

lemma slash_to_cidr_netmask:
  assumes "CHR ''/'' \<notin> set ip" and "k \<le> 32"
  shows "slash_to_cidr (ip @ ''/'' @ show_ipv4 (netmask k)) = ip @ ''/'' @ string_of_nat k"
proof (cases "show_ipv4 (netmask k) = ''255.255.255.255''")
  case True
  have "parse_ipv4 ''255.255.255.255'' = Some (- 1)" by code_simp
  with True parse_show_ipv4 [of "netmask k"] have "netmask k = - 1" by simp
  then have "count_ones (netmask k) = 32" by (simp add: count_ones_def)
  with count_ones_netmask assms have "k = 32" by simp
  moreover have "string_of_nat 32 = ''32''" by code_simp
  ultimately show ?thesis using True assms by (simp add: slash_to_cidr_def split_once_append)
next
  case False
  then show ?thesis
    using assms by (simp add: slash_to_cidr_def split_once_append parse_show_ipv4 count_ones_netmask)
qed

section \<open>Routes added and removed\<close>

definition word_like :: "string \<Rightarrow> bool" where
  "word_like s \<longleftrightarrow> s \<noteq> [] \<and> (\<forall>c\<in>set s. \<not> is_space c)"

definition is_replace :: "argv \<Rightarrow> bool" where
  "is_replace c \<longleftrightarrow> take 3 c = [''ip'', ''route'', ''replace'']"

definition route_key :: "argv \<Rightarrow> string list" where
  "route_key c = take 3 (drop 3 c)"

definition entry_key :: "string \<Rightarrow> string list" where
  "entry_key e = take 3 (split_whitespace e)"

text \<open>Every route added since the \<open>k\<close>-th command has an entry.\<close>

definition routes_tracked :: "os_run \<Rightarrow> nat \<Rightarrow> NetworkManager \<Rightarrow> bool" where
  "routes_tracked os k n \<longleftrightarrow> (\<forall>i. k \<le> i \<and> i < length (cmds n) \<and> is_replace (cmds n ! i) \<and>
     succeeded (os i (cmds n ! i)) \<longrightarrow>
     (\<exists>e\<in>set (injected_routes (router n)). entry_key e = route_key (cmds n ! i)))"

lemma tracked_cmd:
  assumes "routes_tracked os k n" and "is_replace c \<Longrightarrow> \<not> succeeded (os (length (cmds n)) c)"
  shows "routes_tracked os k (n\<lparr>cmds := cmds n @ [c]\<rparr>)"
  using assms by (auto simp: routes_tracked_def nth_append less_Suc_eq)

lemma tracked_cmd_entry:
  assumes "routes_tracked os k n" and "entry_key e = route_key c"
  shows "routes_tracked os k (track e (n\<lparr>cmds := cmds n @ [c]\<rparr>))"
  using assms by (auto simp: routes_tracked_def track_def with_router_def nth_append less_Suc_eq)

lemma tracked_all:
  "routes_tracked os k n \<Longrightarrow> \<forall>c\<in>set cs. \<not> is_replace c \<Longrightarrow> routes_tracked os k (run_all cs n)"
proof (induction cs arbitrary: n)
  case Nil
  then show ?case by (simp add: run_all_def)
next
  case (Cons c cs)
  have "run_all (c # cs) n = run_all cs (n\<lparr>cmds := cmds n @ [c]\<rparr>)" by (simp add: run_all_def)
  then show ?case using Cons tracked_cmd [OF Cons.prems(1), of c] by simp
qed

lemma tracked_with_router [simp]:
  "(\<And>r. injected_routes (f r) = injected_routes r) \<Longrightarrow>
   routes_tracked os k (with_router f n) = routes_tracked os k n"
  by (simp add: routes_tracked_def with_router_def)

lemma tracked_updates [simp]:
  "routes_tracked os k (n\<lparr>firewall_active := b\<rparr>) = routes_tracked os k n"
  "routes_tracked os k (n\<lparr>ipv6_active := b\<rparr>) = routes_tracked os k n"
  "routes_tracked os k (n\<lparr>dns_active_iface := i\<rparr>) = routes_tracked os k n"
  "routes_tracked os k (n\<lparr>resolv_conf := c\<rparr>) = routes_tracked os k n"
  "routes_tracked os k (n\<lparr>resolv_conf_backup := c\<rparr>) = routes_tracked os k n"
  "routes_tracked os k (n\<lparr>active_tunnel := t\<rparr>) = routes_tracked os k n"
  by (simp_all add: routes_tracked_def)

lemma tracked_fold:
  "(\<And>x n. x \<in> set xs \<Longrightarrow> routes_tracked os k n \<Longrightarrow> routes_tracked os k (f x n)) \<Longrightarrow>
   routes_tracked os k n \<Longrightarrow> routes_tracked os k (fold f xs n)"
  by (induction xs arbitrary: n) auto

lemma is_replace_simps [simp]:
  "is_replace (''ip'' # ''route'' # v # r) \<longleftrightarrow> v = ''replace''"
  "\<not> is_replace (''nft'' # r)" "\<not> is_replace (''iptables'' # r)" "\<not> is_replace (''resolvectl'' # r)"
  "\<not> is_replace (''ip'' # ''-6'' # r)" "\<not> is_replace (''ip'' # ''-o'' # r)"
  "\<not> is_replace (''ip'' # ''link'' # r)" "\<not> is_replace (''ip'' # ''tuntap'' # r)"
  "\<not> is_replace (''ip'' # ''addr'' # r)"
  by (simp_all add: is_replace_def)

lemma entry_key_words:
  "word_like a \<Longrightarrow> word_like b \<Longrightarrow> word_like c \<Longrightarrow> \<forall>d\<in>set ds. word_like d \<Longrightarrow>
   entry_key (joinWith '' '' (a # b # c # ds)) = [a, b, c]"
  unfolding entry_key_def
  by (subst split_whitespace_unwords) (auto simp: word_like_def)

lemma word_like_literals [simp]: "word_like ''dev''" "word_like ''via''"
  by (simp_all add: word_like_def is_space_def)

lemma dev_entry_key: "word_like d \<Longrightarrow> word_like i \<Longrightarrow> entry_key (dev_entry d i) = route_key (dev_route d i)"
  using entry_key_words [of d "''dev''" i "[]"] by (simp add: dev_entry_def dev_route_def route_key_def)

lemma tracked_inject:
  assumes "routes_tracked os k n" "word_like d" "word_like i"
  shows "routes_tracked os k (inject_checked os i d n)" "routes_tracked os k (inject_always os i d n)"
  using assms tracked_cmd [OF assms(1), of "dev_route d i"] tracked_cmd_entry [OF assms(1) dev_entry_key]
  by (simp_all add: inject_checked_def inject_always_def Let_def split_def)

lemma bypass_entry_key:
  "word_like t \<Longrightarrow> word_like g \<Longrightarrow> (\<forall>d. dev = Some d \<longrightarrow> word_like d) \<Longrightarrow>
   entry_key (bypass_entry t g dev) = route_key (bypass_route t g dev)"
  using entry_key_words [of t "''via''" g "case dev of Some d \<Rightarrow> [''dev'', d] | None \<Rightarrow> []"]
  by (cases dev) (simp_all add: bypass_entry_def bypass_route_def route_key_def)

lemma tracked_bypass:
  assumes "routes_tracked os k n" "word_like t" "word_like g" "\<forall>d. dev = Some d \<longrightarrow> word_like d"
  shows "routes_tracked os k (bypass_server os g dev t n)"
  using assms tracked_cmd [OF assms(1), of "bypass_route t g dev"]
    tracked_cmd_entry [OF assms(1) bypass_entry_key [OF assms(2-4)]]
  by (simp add: bypass_server_def Let_def split_def)


definition router_words :: "NetworkManager \<Rightarrow> bool" where
  "router_words n \<longleftrightarrow> (\<forall>g. original_gateway (router n) = Some g \<longrightarrow> word_like g) \<and>
     (\<forall>d. physical_interface (router n) = Some d \<longrightarrow> word_like d)"

lemma discover_words: "router_words n \<Longrightarrow> router_words (discover_original_gateway os n)"
proof -
  have w: "word_after k (split_whitespace t) = Some x \<Longrightarrow> word_like x" for k t x
    using split_whitespace_no_space word_after_in unfolding word_like_def by blast
  assume "router_words n"
  then show ?thesis
    by (auto simp: discover_original_gateway_def Let_def split_def with_router_def router_words_def
        split: option.split dest: w)
qed

lemma tracked_discover:
  "routes_tracked os k n \<Longrightarrow> routes_tracked os k (discover_original_gateway os n)"
  using tracked_cmd [of os k n "[''ip'', ''route'', ''show'', ''default'']"]
  by (simp add: discover_original_gateway_def Let_def split_def split: option.split)

lemma tracked_detect:
  assumes "routes_tracked os k n"
  shows "routes_tracked os k (detect_local_lan_subnet os n)"
proof (cases "physical_interface (router n)")
  case None
  then show ?thesis using assms by (simp add: detect_local_lan_subnet_def)
next
  case (Some dev)
  let ?a = "[''ip'', ''route'', ''show'', ''dev'', dev, ''proto'', ''kernel'']"
  have a: "routes_tracked os k (n\<lparr>cmds := cmds n @ [?a]\<rparr>)"
    using assms by (rule tracked_cmd) simp
  from a tracked_cmd [OF a, of "[''ip'', ''-o'', ''-4'', ''addr'', ''show'', ''dev'', dev]"] Some
  show ?thesis
    by (simp add: detect_local_lan_subnet_def Let_def split_def split: option.split)
qed

lemma tracked_routing:
  assumes "routes_tracked (os_answers env) k n" and "router_words n"
    and "word_like iface" and "\<forall>ip. assigned = Some ip \<longrightarrow> word_like ip"
    and "\<forall>r\<in>set pushed \<union> set custom. word_like (normalize_route r)"
    and "\<forall>a\<in>set (server_addresses env server_ip). word_like a"
  shows "routes_tracked (os_answers env) k
    (setup_vpn_routing env server_ip iface assigned intranet pushed custom lan n)"
proof -
  let ?os = "os_answers env"
  define n1 where "n1 = discover_original_gateway ?os n"
  define n2 where "n2 = (case original_gateway (router n1) of None \<Rightarrow> n1
    | Some gw \<Rightarrow> fold (bypass_server ?os gw (physical_interface (router n1)))
        (server_addresses env server_ip) n1)"
  define n3 where "n3 = (if lan then detect_local_lan_subnet ?os n2 else n2)"
  have t1: "routes_tracked ?os k n1" and w1: "router_words n1"
    using assms tracked_discover discover_words by (simp_all add: n1_def)
  have t2: "routes_tracked ?os k n2"
    using t1 w1 assms(6)
    by (auto simp: n2_def router_words_def split: option.split intro!: tracked_fold tracked_bypass)
  have t3: "routes_tracked ?os k n3" using t2 tracked_detect by (simp add: n3_def)
  have i: "routes_tracked ?os k (intranet_routes ?os iface assigned pushed custom n3)"
    unfolding intranet_routes_def Let_def using t3 assms(3-5)
    by (auto intro!: tracked_fold tracked_inject split: option.split)
  have z: "word_like ''0.0.0.0/1''" "word_like ''128.0.0.0/1''"
    by (simp_all add: word_like_def is_space_def)
  have f: "routes_tracked ?os k (full_tunnel_routes ?os iface pushed custom n3)"
  proof -
    have "track (dev_entry ''128.0.0.0/1'' iface) (track (dev_entry ''0.0.0.0/1'' iface)
        (snd (run_cmd ?os (dev_route ''128.0.0.0/1'' iface)
          (snd (run_cmd ?os (dev_route ''0.0.0.0/1'' iface) n3))))) =
      inject_always ?os iface ''128.0.0.0/1'' (inject_always ?os iface ''0.0.0.0/1'' n3)"
      by (simp add: inject_always_def track_def with_router_def)
    then show ?thesis
      unfolding full_tunnel_routes_def Let_def using t3 assms(3,5) z
      by (auto intro!: tracked_fold tracked_inject)
  qed
  show ?thesis using i f unfolding setup_vpn_routing_def Let_def n3_def n2_def n1_def by simp
qed

lemma tracked_dns:
  assumes "routes_tracked (os_answers env) k n"
  shows "routes_tracked (os_answers env) k (configure_dns env i servers n)"
proof -
  let ?n = "n\<lparr>dns_active_iface := Some i\<rparr>"
  have a: "routes_tracked (os_answers env) k (?n\<lparr>cmds := cmds ?n @ [''resolvectl'' # ''dns'' # i # servers]\<rparr>)"
    by (rule tracked_cmd) (use assms in simp_all)
  from assms a tracked_cmd [OF a, of "[''resolvectl'', ''domain'', i, ''~.'']"] show ?thesis
    by (simp add: configure_dns_def apply_resolv_conf_fallback_def Let_def split_def)
qed

lemma tracked_ipv6:
  assumes "routes_tracked os k n"
  shows "routes_tracked os k (enable_ipv6_protection os n)"
proof -
  have a: "routes_tracked os k (n\<lparr>cmds := cmds n @ [ipv6_route ''add'' ''blackhole'']\<rparr>)"
    using assms by (rule tracked_cmd) (simp add: ipv6_route_def)
  from assms a tracked_cmd [OF a, of "ipv6_route ''add'' ''unreachable''"] show ?thesis
    by (simp add: enable_ipv6_protection_def Let_def split_def ipv6_route_def
        split: exit.split bool.split)
qed

lemma tracked_firewall:
  assumes "routes_tracked os k n"
  shows "routes_tracked os k (enable_kill_switch_nft os ips port i intranet subnets w lan n)"
proof -
  have a: "routes_tracked os k (n\<lparr>cmds := cmds n @
      [nft_apply (kill_switch_chain ips port i intranet subnets w lan)]\<rparr>)"
    using assms by (rule tracked_cmd) (simp add: nft_apply_def)
  have b: "\<forall>c\<in>set (apply_iptables_fallback s port i lan). \<not> is_replace c" for s
    by (auto simp: apply_iptables_fallback_def split: option.splits)
  from assms a tracked_all [OF a b] show ?thesis
    by (simp add: enable_kill_switch_nft_def Let_def split_def)
qed

lemma tracked_interface:
  "routes_tracked os k n \<Longrightarrow> routes_tracked os k (configure_interface os i mtu assigned n)"
  by (auto simp: configure_interface_def Let_def split_def split: option.split
      intro!: tracked_all tracked_cmd)

lemma configure_interface_router [simp]:
  "router (configure_interface os i mtu assigned n) = router n"
  by (simp add: configure_interface_def Let_def split_def run_all_def split: option.split)

definition setup_words :: "os_env \<Rightarrow> tunnel_setup \<Rightarrow> bool" where
  "setup_words env t \<longleftrightarrow> word_like (ts_iface t) \<and> (\<forall>ip\<in>set_option (ts_assigned_ip t). word_like ip) \<and>
     (\<forall>r\<in>set (ts_pushed_routes t @ custom_subnets (ts_routing t)). word_like (normalize_route r)) \<and>
     (\<forall>a\<in>set (server_addresses env (ts_server_ip t)). word_like a)"

lemma tracked_setup:
  assumes "router n = no_routes" and "setup_words env t"
  shows "routes_tracked (os_answers env) (length (cmds n)) (setup_vpn_network env t n)"
proof -
  have "routes_tracked (os_answers env) (length (cmds n)) n" by (auto simp: routes_tracked_def)
  moreover have "router_words n" using assms(1) by (simp add: router_words_def no_routes_def)
  ultimately show ?thesis
    using assms(2)
    by (auto simp: setup_vpn_network_def Let_def setup_words_def router_words_def
        intro!: tracked_firewall tracked_ipv6 tracked_dns tracked_routing tracked_interface)
qed


section \<open>What the teardown takes back\<close>

lemma fold_frame: "(\<And>x n. g (f x n) = g n) \<Longrightarrow> g (fold f xs n) = g n"
  by (induction xs arbitrary: n) auto

text \<open>The fields of the resolver, which only the DNS manager writes.\<close>

definition dns_part :: "NetworkManager \<Rightarrow> string option \<times> string option" where
  "dns_part n = (resolv_conf n, resolv_conf_backup n)"

lemma dns_part_routing_steps:
  "dns_part (with_router f n) = dns_part n" "dns_part (track e n) = dns_part n"
  "dns_part (snd (run_cmd os c n)) = dns_part n" "dns_part (run_all cs n) = dns_part n"
  "dns_part (discover_original_gateway os n) = dns_part n"
  "dns_part (detect_local_lan_subnet os n) = dns_part n"
  "dns_part (inject_checked os i d n) = dns_part n"
  "dns_part (inject_always os i d n) = dns_part n"
  "dns_part (bypass_server os g dev a n) = dns_part n"
  by (simp_all add: dns_part_def net_defs Let_def split: option.split)

lemma dns_part_steps [simp]:
  "dns_part (setup_vpn_routing env sip i assigned intranet pushed custom lan n) = dns_part n"
  "dns_part (configure_interface os i mtu assigned n) = dns_part n"
  "dns_part (enable_ipv6_protection os n) = dns_part n"
  "dns_part (enable_kill_switch_nft os ips port i intranet subnets w l n) = dns_part n"
  "dns_part (disable_kill_switch n) = dns_part n"
  "dns_part (disable_ipv6_protection n) = dns_part n"
  "dns_part (teardown_vpn_routing sip i n) = dns_part n"
  "dns_part (teardown_interface env i n) = dns_part n"
  "dns_part (n\<lparr>active_tunnel := t\<rparr>) = dns_part n"
proof -
  have f: "dns_part (fold f xs n) = dns_part n" if "\<And>x n. dns_part (f x n) = dns_part n" for f :: "string \<Rightarrow> _" and xs n
    using that by (rule fold_frame)
  show "dns_part (setup_vpn_routing env sip i assigned intranet pushed custom lan n) = dns_part n"
    by (simp add: setup_vpn_routing_def intranet_routes_def full_tunnel_routes_def Let_def f
        dns_part_routing_steps del: run_cmd_simps split: option.split)
  show "dns_part (configure_interface os i mtu assigned n) = dns_part n"
    by (simp add: configure_interface_def Let_def split_def dns_part_routing_steps del: run_cmd_simps
        split: option.split)
qed (simp_all add: dns_part_def net_defs teardown_vpn_routing_def Let_def split: option.split exit.split bool.split)

lemma dns_part_restored:
  assumes "resolv_conf n = Some c" and "resolv_conf_backup n = None" and "\<And>i. os_writes env' i"
  shows "resolv_conf (teardown_vpn_network env' (setup_vpn_network env t n)) = Some c"
proof -
  have c: "dns_part n = (Some c, None)" using assms by (simp add: dns_part_def)
  have conf: "snd (dns_part (configure_dns env i servers m)) = Some c \<or>
      dns_part (configure_dns env i servers m) = (Some c, None)"
    if "dns_part m = (Some c, None)" for i servers m
    using that by (auto simp: dns_part_def configure_dns_def apply_resolv_conf_fallback_def Let_def split_def)
  have rest: "fst (dns_part (restore_dns env' m)) = Some c"
    if "snd (dns_part m) = Some c \<or> dns_part m = (Some c, None)" for m
    using that assms(3) by (auto simp: dns_part_def restore_dns_def Let_def split: option.splits)
  have set: "snd (dns_part (setup_vpn_network env t n)) = Some c \<or>
      dns_part (setup_vpn_network env t n) = (Some c, None)"
    by (simp add: setup_vpn_network_def Let_def c conf)
  have "fst (dns_part (teardown_vpn_network env' (setup_vpn_network env t n))) = Some c"
    using rest [of "disable_ipv6_protection (disable_kill_switch (setup_vpn_network env t n))"] set
    by (simp add: teardown_vpn_network_def Let_def split: option.split)
  then show ?thesis by (simp add: dns_part_def)
qed

lemma restore_dns_cmds: "\<exists>cs. cmds (restore_dns env n) = cmds n @ cs"
  by (simp add: restore_dns_def Let_def split: option.split)

lemma teardown_deletes:
  assumes "active_tunnel n \<noteq> None" and "e \<in> set (injected_routes (router n))" and "entry_key e = [a, b, c]"
  shows "[''ip'', ''route'', ''del'', a, b, c] \<in> set (drop (length (cmds n)) (cmds (teardown_vpn_network env n)))"
proof -
  obtain ctx where ctx: "active_tunnel n = Some ctx" using assms(1) by auto
  define m where "m = restore_dns env (disable_ipv6_protection (disable_kill_switch n))"
  have r: "router m = router n" "active_tunnel m = Some ctx" by (simp_all add: m_def ctx)
  obtain cs where cs: "cmds m = cmds n @ cs"
    using restore_dns_cmds [of env "disable_ipv6_protection (disable_kill_switch n)"]
    by (auto simp: m_def disable_kill_switch_def disable_ipv6_protection_def run_all_def split: if_splits)
  have d: "delete_entry e = [[''ip'', ''route'', ''del'', a, b, c]]"
    using assms(3) by (auto simp: entry_key_def delete_entry_def numeral_3_eq_3 split: list.split)
  have e: "[''ip'', ''route'', ''del'', a, b, c] \<in> set (concat (map delete_entry (injected_routes (router n))))"
    using assms(2) d by force
  have "teardown_vpn_network env n = teardown_interface env (tc_iface ctx)
      (teardown_vpn_routing (tc_server_ip ctx) (tc_iface ctx) (m\<lparr>active_tunnel := None\<rparr>))"
    by (simp add: teardown_vpn_network_def Let_def ctx m_def)
  then show ?thesis
    using cs r(1) e by (auto simp: teardown_vpn_routing_def Let_def teardown_interface_def run_all_def)
qed

text \<open>
  Property C14. Disconnecting takes back what connecting did to the machine. Every route the set-up
  added successfully has, among the commands of the teardown, the one that deletes it; the
  firewall, the IPv6 shield and the tunnel are marked inactive; and the resolver's configuration
  file has its old content, provided it existed and can be written. This for routes, addresses and
  interface names that are single words, as the commands require.
\<close>

theorem teardown_undoes_setup:
  fixes env' :: os_env
  assumes "router n = no_routes" and "setup_words env t" and "resolv_conf_backup n = None"
  defines "n1 \<equiv> setup_vpn_network env t n"
  defines "n2 \<equiv> teardown_vpn_network env' n1"
  shows "(\<forall>i a b c r. length (cmds n) \<le> i \<and> i < length (cmds n1) \<and>
       cmds n1 ! i = [''ip'', ''route'', ''replace'', a, b, c] @ r \<and>
       succeeded (os_answers env i (cmds n1 ! i)) \<longrightarrow>
       [''ip'', ''route'', ''del'', a, b, c] \<in> set (drop (length (cmds n1)) (cmds n2))) \<and>
     network_clear n2 \<and> router n2 = no_routes \<and>
     (resolv_conf n \<noteq> None \<and> (\<forall>i. os_writes env' i) \<longrightarrow> resolv_conf n2 = resolv_conf n)"
proof (intro conjI allI impI)
  have act: "active_tunnel n1 \<noteq> None" by (simp add: n1_def setup_vpn_network_def Let_def)
  show "network_clear n2" unfolding n2_def by (rule teardown_clears)
  show "router n2 = no_routes" using act by (auto simp: n2_def teardown_router)
  show "resolv_conf n2 = resolv_conf n" if "resolv_conf n \<noteq> None \<and> (\<forall>i. os_writes env' i)"
    using that dns_part_restored [OF _ assms(3)] by (auto simp: n2_def n1_def)
  fix i a b c r
  assume i: "length (cmds n) \<le> i \<and> i < length (cmds n1) \<and>
       cmds n1 ! i = [''ip'', ''route'', ''replace'', a, b, c] @ r \<and>
       succeeded (os_answers env i (cmds n1 ! i))"
  have "routes_tracked (os_answers env) (length (cmds n)) n1"
    unfolding n1_def using assms(1,2) by (rule tracked_setup)
  with i obtain e where "e \<in> set (injected_routes (router n1))" "entry_key e = route_key (cmds n1 ! i)"
    by (auto simp: routes_tracked_def is_replace_def)
  with i show "[''ip'', ''route'', ''del'', a, b, c] \<in> set (drop (length (cmds n1)) (cmds n2))"
    unfolding n2_def by (intro teardown_deletes [OF act]) (simp_all add: route_key_def)
qed


definition sample_env :: os_env where
  "sample_env = \<lparr>os_answers = (\<lambda>i c. Exited True ''default via 192.168.1.1 dev eth0''),
     os_addresses = (\<lambda>h. [''203.0.113.7'']), os_device = (\<lambda>i. True), os_writes = (\<lambda>i. True)\<rparr>"

definition sample_setup :: tunnel_setup where
  "sample_setup = \<lparr>ts_server_ip = ''vpn.example.com'', ts_server_port = 1194, ts_iface = ''tun0'',
     ts_assigned_ip = Some ''10.8.0.2'', ts_server_dns = [''10.8.0.1''],
     ts_pushed_routes = [''10.0.0.0/255.0.0.0''], ts_redirect_gateway = True,
     ts_security = \<lparr>kill_switch_mode = KsStrict, ipv6_leak_protection = True,
       webrtc_protection = True, lan_bypass = True\<rparr>,
     ts_routing = \<lparr>intranet_only = False, custom_subnets = [''192.168.50.0 255.255.255.0'']\<rparr>\<rparr>"

theorem teardown_undoes_setup_witness:
  "setup_words sample_env sample_setup \<and>
   network_clear (teardown_vpn_network sample_env
     (setup_vpn_network sample_env sample_setup (network_new (Some ''nameserver 1.1.1.1'')))) \<and>
   resolv_conf (teardown_vpn_network sample_env
     (setup_vpn_network sample_env sample_setup (network_new (Some ''nameserver 1.1.1.1'')))) =
     Some ''nameserver 1.1.1.1''"
proof -
  have w: "setup_words sample_env sample_setup" by code_simp
  have o: "os_writes sample_env i" for i by (simp add: sample_env_def)
  show ?thesis
    using teardown_undoes_setup [of "network_new (Some ''nameserver 1.1.1.1'')", OF _ w, of sample_env] w o
    by (simp add: network_new_def)
qed

end
