(* ===== verification/Daemon_Core.thy ===== *)
theory Daemon_Core
  imports Linux_Network
begin

text \<open>
  The daemon's core: \<^verbatim>\<open>core/state.rs\<close>, \<^verbatim>\<open>core/session.rs\<close>, \<^verbatim>\<open>core/orchestrator.rs\<close>, the messages of
  \<^verbatim>\<open>ipc/protocol.rs\<close> and what the two drivers (\<^verbatim>\<open>engine/wireguard/driver.rs\<close>,
  \<^verbatim>\<open>engine/openvpn/driver.rs\<close>) report. The session states are those of the application's
  \<^typ>\<open>ConnectionState\<close>, whose names are the serialised ones. The functions here are one call run
  alone, from its beginning to its end; \<open>Daemon_Tasks\<close> has the same code as tasks that other tasks
  can interrupt between any two accesses to shared state, and shows that a task run alone does what
  the function here does.
\<close>

section \<open>Messages\<close>

record BandwidthMetrics =
  bm_rx_bytes :: nat
  bm_tx_bytes :: nat
  bm_rx_rate_bps :: rat
  bm_tx_rate_bps :: rat
  bm_latency_rtt_ms :: "nat option"
  bm_uptime_seconds :: nat

definition no_metrics :: BandwidthMetrics where
  "no_metrics = \<lparr>bm_rx_bytes = 0, bm_tx_bytes = 0, bm_rx_rate_bps = 0, bm_tx_rate_bps = 0,
     bm_latency_rtt_ms = None, bm_uptime_seconds = 0\<rparr>"

record DaemonStatusSnapshot =
  ds_state :: ConnectionState
  ds_active_profile :: "string option"
  ds_assigned_ip :: "string option"
  ds_virtual_interface :: "string option"
  ds_kill_switch_active :: bool
  ds_dns_servers :: "string list"
  ds_session_duration_secs :: nat
  ds_ipv6_protected :: bool
  ds_intranet_only :: bool

datatype DaemonRequest =
  ReqConnect VpnConnectParams
| ReqDisconnect bool
| ReqGetStatus
| ReqGetMetrics
| ReqSetKillSwitch bool "KillSwitchMode option"
| ReqPing

datatype DaemonReply =
  ReplySuccess
| ReplyPong
| ReplyStatusIs DaemonStatusSnapshot
| ReplyMetricsAre BandwidthMetrics
| ReplyFailed nat string

datatype DaemonEvent = StateChanged ConnectionState ConnectionState "string option"

section \<open>Errors\<close>

datatype DriverError =
  InitializationFailed string
| ConnectionTimeout nat
| AuthenticationFailed string
| InterfaceError string
| ProcessTerminated string
| Unsupported string

text \<open>The errors the orchestrator returns; those of the network layer do not arise on Linux.\<close>

datatype DaemonError = InvalidState string | DriverFailed DriverError

primrec driver_error_text :: "DriverError \<Rightarrow> string" where
  "driver_error_text (InitializationFailed m) = ''Failed to start VPN driver: '' @ m"
| "driver_error_text (ConnectionTimeout t) = ''VPN connection timed out after '' @ string_of_nat t @ ''s''"
| "driver_error_text (AuthenticationFailed m) = ''Authentication failed: '' @ m"
| "driver_error_text (InterfaceError m) = ''Interface configuration error: '' @ m"
| "driver_error_text (ProcessTerminated m) = ''VPN driver process crashed or exited unexpectedly: '' @ m"
| "driver_error_text (Unsupported m) = ''Unsupported driver operation: '' @ m"

primrec daemon_error_text :: "DaemonError \<Rightarrow> string" where
  "daemon_error_text (InvalidState m) = ''Invalid state transition: '' @ m"
| "daemon_error_text (DriverFailed e) = ''VPN driver error: '' @ driver_error_text e"

fun debug_state :: "ConnectionState \<Rightarrow> string" where
  "debug_state Disconnected = ''Disconnected''"
| "debug_state Connecting = ''Connecting''"
| "debug_state Connected = ''Connected''"
| "debug_state Reconnecting = ''Reconnecting''"
| "debug_state Disconnecting = ''Disconnecting''"
| "debug_state ErrorState = ''Error''"

section \<open>State manager\<close>

record StateManager =
  current_state :: ConnectionState
  session_start_epoch_secs :: nat
  sent_events :: "DaemonEvent list"

definition state_manager_new :: StateManager where
  "state_manager_new = \<lparr>current_state = Disconnected, session_start_epoch_secs = 0, sent_events = []\<rparr>"

fun is_valid_transition :: "ConnectionState \<Rightarrow> ConnectionState \<Rightarrow> bool" where
  "is_valid_transition Disconnected Connecting = True"
| "is_valid_transition Connecting Connected = True"
| "is_valid_transition Connecting ErrorState = True"
| "is_valid_transition Connecting Disconnecting = True"
| "is_valid_transition Connecting Reconnecting = True"
| "is_valid_transition Connected Reconnecting = True"
| "is_valid_transition Connected Disconnecting = True"
| "is_valid_transition Connected ErrorState = True"
| "is_valid_transition Reconnecting Connected = True"
| "is_valid_transition Reconnecting Disconnecting = True"
| "is_valid_transition Reconnecting ErrorState = True"
| "is_valid_transition Disconnecting Disconnected = True"
| "is_valid_transition Disconnecting ErrorState = True"
| "is_valid_transition ErrorState Disconnected = True"
| "is_valid_transition ErrorState Connecting = True"
| "is_valid_transition ErrorState Disconnecting = True"
| "is_valid_transition _ _ = False"

text \<open>
  A transition with no other task in between; \<open>now\<close> is the system time in seconds. The code takes no
  lock: \<open>transition_step\<close> in \<open>Daemon_Tasks\<close> has its single accesses.
\<close>

definition transition_to ::
  "nat \<Rightarrow> ConnectionState \<Rightarrow> string option \<Rightarrow> StateManager \<Rightarrow> (DaemonError + unit) \<times> StateManager" where
  "transition_to now new_state reason sm =
     (let cur = current_state sm in
      if cur = new_state then (Inr (), sm)
      else if \<not> is_valid_transition cur new_state
      then (Inl (InvalidState (''Cannot transition from '' @ debug_state cur @ '' to '' @
              debug_state new_state)), sm)
      else (Inr (), sm\<lparr>current_state := new_state,
              session_start_epoch_secs := (if new_state = Connected then now
                else if new_state = Disconnected then 0 else session_start_epoch_secs sm),
              sent_events := sent_events sm @ [StateChanged cur new_state reason]\<rparr>))"

text \<open>\<open>saturating_sub\<close> is the subtraction of natural numbers.\<close>

definition session_duration_secs :: "nat \<Rightarrow> StateManager \<Rightarrow> nat" where
  "session_duration_secs now sm =
     (if session_start_epoch_secs sm = 0 then 0 else now - session_start_epoch_secs sm)"

section \<open>Sessions and drivers\<close>

record ActiveSession =
  as_profile_id :: string
  as_protocol :: WireProtocol
  as_server_endpoint :: string
  as_server_port :: nat
  as_interface_name :: string
  as_assigned_ip :: "string option"
  as_dns_servers :: "string list"
  as_kill_switch_enabled :: bool
  as_connected_at :: nat

definition active_session_new ::
  "nat \<Rightarrow> VpnConnectParams \<Rightarrow> string \<Rightarrow> string option \<Rightarrow> ActiveSession" where
  "active_session_new now params iface ip = \<lparr>as_profile_id = cp_profile_id params,
     as_protocol = cp_protocol params, as_server_endpoint = server_endpoint params,
     as_server_port = server_port params, as_interface_name = iface, as_assigned_ip = ip,
     as_dns_servers = [], as_kill_switch_enabled = enable_kill_switch params,
     as_connected_at = now\<rparr>"

text \<open>What the methods of a driver answer; the OpenVPN engine fills it in while it runs.\<close>

record driver =
  dr_interface_name :: string
  dr_assigned_ip :: "string option"
  dr_pushed_routes :: "string list"
  dr_redirect_gateway :: bool
  dr_search_domains :: "string list"
  dr_dns_servers :: "string list"

datatype DriverEvent =
  DriverState ConnectionState
| DriverMetrics BandwidthMetrics
| DriverLog string string
| DriverFatal DriverError

subsection \<open>WireGuard\<close>

definition validate_credentials :: "VpnConnectParams \<Rightarrow> DriverError + unit" where
  "validate_credentials params = (case auth_config params of
     AuthWireguardKey key psk \<Rightarrow>
       if trim key = [] then Inl (AuthenticationFailed ''WireGuard private key cannot be empty'')
       else Inr ()
   | _ \<Rightarrow> Inl (Unsupported ''Non-WireGuard credentials provided to WireGuard driver''))"

text \<open>\<open>generate_config\<close>; \<open>address\<close> is the address assigned.\<close>

definition generate_config :: "VpnConnectParams \<Rightarrow> string option \<Rightarrow> DriverError + string" where
  "generate_config params address = (case auth_config params of
     AuthWireguardKey key psk \<Rightarrow> Inr (
       ''[Interface]'' @ newline @ ''PrivateKey = '' @ trim key @ newline @
       ''Address = '' @ nullish address ''10.14.0.2/24'' @ newline @ newline @
       ''[Peer]'' @ newline @ ''Endpoint = '' @ server_endpoint params @ '':'' @
       string_of_nat (server_port params) @ newline @
       ''AllowedIPs = 0.0.0.0/0, ::/0'' @ newline @
       (case psk of Some p \<Rightarrow> if trim p = [] then [] else ''PresharedKey = '' @ trim p @ newline
        | None \<Rightarrow> []))
   | _ \<Rightarrow> Inl (Unsupported ''Unsupported auth configuration for WireGuard''))"

definition wireguard_driver :: driver where
  "wireguard_driver = \<lparr>dr_interface_name = ''wg0'', dr_assigned_ip = Some ''10.14.0.2'',
     dr_pushed_routes = [], dr_redirect_gateway = False, dr_search_domains = [],
     dr_dns_servers = []\<rparr>"

text \<open>
  \<open>start\<close>: the outcome and the events sent. \<open>written\<close> is the error of writing the configuration
  file, if any; what \<open>wg-quick\<close> answers does not matter.
\<close>

definition wireguard_start ::
  "VpnConnectParams \<Rightarrow> string option \<Rightarrow> exit \<Rightarrow> (DriverError + driver) \<times> DriverEvent list" where
  "wireguard_start params written wg_quick = (case validate_credentials params of
     Inl e \<Rightarrow> (Inl e, [])
   | Inr _ \<Rightarrow> (case generate_config params (Some ''10.14.0.2'') of
       Inl e \<Rightarrow> (Inl e, [DriverState Connecting])
     | Inr conf \<Rightarrow> (case written of
         Some err \<Rightarrow> (Inl (InitializationFailed (''Failed to write WireGuard config: '' @ err)),
                      [DriverState Connecting])
       | None \<Rightarrow> (Inr wireguard_driver,
           [DriverState Connecting, DriverState Connected,
            DriverLog ''INFO'' (''WireGuard tunnel established for peer '' @ server_endpoint params @
              '':'' @ string_of_nat (server_port params))]))))"

subsection \<open>OpenVPN\<close>

text \<open>The engine's states and events (those parts of a provisioning that the driver reads), and the
  bridging task of the driver.\<close>

datatype EngineState =
  EsDisconnected | EsConnecting | EsTlsHandshake | EsAuthenticating | EsPullingConfig | EsConnected
| EsRekeying | EsDisconnecting | EsError

record NetworkProvision =
  np_ipv4_address :: "string option"
  np_redirect_gateway :: bool
  np_search_domains :: "string list"
  np_dns_servers :: "string list"
  np_routes_v4 :: "(string \<times> 32 word) list"

datatype SessionEvent =
  SeStateChanged EngineState
| SeNetworkConfigured NetworkProvision
| SeAuthChallenge string
| SeStatsUpdated nat nat nat
| SeDisconnected string
| SeError string

fun bridge_state :: "EngineState \<Rightarrow> ConnectionState" where
  "bridge_state EsConnecting = Connecting"
| "bridge_state EsTlsHandshake = Connecting"
| "bridge_state EsAuthenticating = Connecting"
| "bridge_state EsPullingConfig = Connecting"
| "bridge_state EsConnected = Connected"
| "bridge_state EsRekeying = Connected"
| "bridge_state EsDisconnecting = Disconnecting"
| "bridge_state EsDisconnected = Disconnected"
| "bridge_state EsError = Disconnected"

definition provision_driver :: "NetworkProvision \<Rightarrow> driver \<Rightarrow> driver" where
  "provision_driver p d = d\<lparr>
     dr_assigned_ip := (case np_ipv4_address p of Some ip \<Rightarrow> Some ip | None \<Rightarrow> dr_assigned_ip d),
     dr_redirect_gateway := np_redirect_gateway p, dr_search_domains := np_search_domains p,
     dr_dns_servers := np_dns_servers p,
     dr_pushed_routes := map (\<lambda>(dest, m). dest @ ''/'' @ string_of_nat (count_ones m)) (np_routes_v4 p)\<rparr>"

text \<open>One event: the events sent, the change of the driver, and whether the task goes on.\<close>

definition bridge_event :: "SessionEvent \<Rightarrow> DriverEvent list \<times> (driver \<Rightarrow> driver) \<times> bool" where
  "bridge_event e = (case e of
     SeStateChanged st \<Rightarrow> ([DriverState (bridge_state st)], id, True)
   | SeNetworkConfigured p \<Rightarrow> ([], provision_driver p, True)
   | SeAuthChallenge c \<Rightarrow> ([], id, True)
   | SeStatsUpdated i out up \<Rightarrow>
       ([DriverMetrics (no_metrics\<lparr>bm_rx_bytes := i, bm_tx_bytes := out, bm_uptime_seconds := up\<rparr>)], id, True)
   | SeDisconnected reason \<Rightarrow> ([DriverState Disconnected], id, False)
   | SeError m \<Rightarrow> ([DriverFatal (InitializationFailed m)], id, False))"

fun bridge_events :: "SessionEvent list \<Rightarrow> DriverEvent list" where
  "bridge_events [] = []"
| "bridge_events (e # es) = (case bridge_event e of (out, _, cont) \<Rightarrow> out @ (if cont then bridge_events es else []))"

definition bridge_task :: "SessionEvent list \<Rightarrow> DriverEvent list" where
  "bridge_task es = DriverState Connecting # bridge_events es"

section \<open>Orchestrator\<close>

text \<open>
  The orchestrator's fields, and the monitoring tasks of the drivers started, with the request and the
  interface each was started for.
\<close>

record daemon =
  state_mgr :: StateManager
  network_mgr :: NetworkManager
  active_session :: "ActiveSession option"
  active_driver :: "driver option"
  collector_running :: bool
  latest_metrics :: BandwidthMetrics
  monitors :: "(VpnConnectParams \<times> string) list"

definition daemon_new :: "string option \<Rightarrow> daemon" where
  "daemon_new resolv = \<lparr>state_mgr = state_manager_new, network_mgr = network_new resolv,
     active_session = None, active_driver = None, collector_running = False,
     latest_metrics = no_metrics, monitors = []\<rparr>"

abbreviation dstate :: "daemon \<Rightarrow> ConnectionState" where
  "dstate d \<equiv> current_state (state_mgr d)"

text \<open>A transition of the orchestrator's state manager: its result and the daemon after it.\<close>

definition go :: "nat \<Rightarrow> ConnectionState \<Rightarrow> string option \<Rightarrow> daemon \<Rightarrow> (DaemonError + unit) \<times> daemon" where
  "go now st reason d =
     (case transition_to now st reason (state_mgr d) of (r, sm) \<Rightarrow> (r, d\<lparr>state_mgr := sm\<rparr>))"

subsection \<open>connect\<close>

definition connect_begin :: "nat \<Rightarrow> VpnConnectParams \<Rightarrow> daemon \<Rightarrow> (DaemonError + unit) \<times> daemon" where
  "connect_begin now params d =
     (if dstate d \<noteq> Disconnected \<and> dstate d \<noteq> ErrorState
      then (Inl (InvalidState (''Cannot connect while in state '' @ debug_state (dstate d))), d)
      else go now Connecting (Some ''User initiated connection'') d)"

definition connect_finish ::
  "nat \<Rightarrow> VpnConnectParams \<Rightarrow> DriverError + driver \<Rightarrow> daemon \<Rightarrow> (DaemonError + unit) \<times> daemon" where
  "connect_finish now params started d = (case started of
     Inl e \<Rightarrow> (case go now ErrorState (Some (driver_error_text e)) d of
         (Inl err, d') \<Rightarrow> (Inl err, d')
       | (Inr _, d') \<Rightarrow> (Inl (DriverFailed e), d'))
   | Inr drv \<Rightarrow>
       let iface = dr_interface_name drv
       in (Inr (), d\<lparr>active_session := Some (active_session_new now params iface (dr_assigned_ip drv)),
             active_driver := Some drv, collector_running := True,
             monitors := monitors d @ [(params, iface)]\<rparr>))"

subsection \<open>The monitoring task\<close>

definition default_policy :: "VpnConnectParams \<Rightarrow> SecurityPolicy" where
  "default_policy params = \<lparr>
     kill_switch_mode = (if enable_kill_switch params then KsStrict else KsOff),
     ipv6_leak_protection = True, webrtc_protection = True, lan_bypass = True\<rparr>"

definition no_policy :: RoutingPolicy where
  "no_policy = \<lparr>intranet_only = False, custom_subnets = []\<rparr>"

text \<open>What is read of the driver, if one is stored.\<close>

definition driver_part :: "(driver \<Rightarrow> 'a) \<Rightarrow> 'a \<Rightarrow> daemon \<Rightarrow> 'a" where
  "driver_part f z d = (case active_driver d of Some drv \<Rightarrow> f drv | None \<Rightarrow> z)"

definition tunnel_of :: "VpnConnectParams \<Rightarrow> string \<Rightarrow> daemon \<Rightarrow> tunnel_setup" where
  "tunnel_of params iface d = \<lparr>ts_server_ip = server_endpoint params,
     ts_server_port = server_port params, ts_iface = iface,
     ts_assigned_ip = driver_part dr_assigned_ip None d,
     ts_server_dns = driver_part dr_dns_servers [] d,
     ts_pushed_routes = driver_part dr_pushed_routes [] d,
     ts_redirect_gateway = driver_part dr_redirect_gateway False d,
     ts_security = nullish (security_policy params) (default_policy params),
     ts_routing = nullish (routing_policy params) no_policy\<rparr>"

definition tunnel_up :: "os_env \<Rightarrow> VpnConnectParams \<Rightarrow> string \<Rightarrow> daemon \<Rightarrow> daemon" where
  "tunnel_up env params iface d =
     (let assigned = driver_part dr_assigned_ip None d;
          d1 = d\<lparr>active_session := map_option (\<lambda>s. if assigned \<noteq> None
                  then s\<lparr>as_assigned_ip := assigned\<rparr> else s) (active_session d)\<rparr>
      in d1\<lparr>network_mgr := setup_vpn_network env (tunnel_of params iface d) (network_mgr d1)\<rparr>)"

definition monitor_state ::
  "os_env \<Rightarrow> nat \<Rightarrow> VpnConnectParams \<times> string \<Rightarrow> ConnectionState \<Rightarrow> daemon \<Rightarrow> daemon" where
  "monitor_state env now m new_st d =
     (if dstate d = new_st then d
      else let d1 = (if new_st = Connected then tunnel_up env (fst m) (snd m) d else d)
           in snd (go now new_st None d1))"

text \<open>\<open>k\<close> is the number of the task; a fatal error ends it.\<close>

definition monitor_event :: "os_env \<Rightarrow> nat \<Rightarrow> nat \<Rightarrow> DriverEvent \<Rightarrow> daemon \<Rightarrow> daemon" where
  "monitor_event env now k ev d =
     (if k \<ge> length (monitors d) then d
      else case ev of
        DriverState st \<Rightarrow> monitor_state env now (monitors d ! k) st d
      | DriverLog level msg \<Rightarrow> d
      | DriverMetrics m \<Rightarrow> d
      | DriverFatal e \<Rightarrow>
          let d1 = snd (go now ErrorState (Some (driver_error_text e)) d)
          in d1\<lparr>monitors := take k (monitors d1) @ drop (Suc k) (monitors d1)\<rparr>)"

subsection \<open>disconnect\<close>

text \<open>\<open>None\<close>: nothing to do; otherwise the driver has been taken and is stopping.\<close>

definition disconnect_begin :: "nat \<Rightarrow> daemon \<Rightarrow> (DaemonError + unit) option \<times> daemon" where
  "disconnect_begin now d =
     (if dstate d = Disconnected then (Some (Inr ()), d)
      else case go now Disconnecting (Some ''Disconnect initiated'') d of
        (Inl e, d') \<Rightarrow> (Some (Inl e), d')
      | (Inr _, d') \<Rightarrow> (None, d'\<lparr>collector_running := False, active_driver := None\<rparr>))"

definition disconnect_finish :: "os_env \<Rightarrow> nat \<Rightarrow> daemon \<Rightarrow> (DaemonError + unit) \<times> daemon" where
  "disconnect_finish env now d =
     go now Disconnected (Some ''Session terminated cleanly'')
       (d\<lparr>network_mgr := teardown_vpn_network env (network_mgr d), active_session := None\<rparr>)"

definition disconnect_daemon :: "os_env \<Rightarrow> nat \<Rightarrow> daemon \<Rightarrow> (DaemonError + unit) \<times> daemon" where
  "disconnect_daemon env now d = (case disconnect_begin now d of
     (Some r, d') \<Rightarrow> (r, d')
   | (None, d') \<Rightarrow> disconnect_finish env now d')"

definition connect_daemon ::
  "nat \<Rightarrow> DriverError + driver \<Rightarrow> VpnConnectParams \<Rightarrow> daemon \<Rightarrow> (DaemonError + unit) \<times> daemon" where
  "connect_daemon now started params d = (case connect_begin now params d of
     (Inl e, d') \<Rightarrow> (Inl e, d')
   | (Inr _, d') \<Rightarrow> connect_finish now params started d')"

subsection \<open>Queries and dispatch\<close>

definition get_status :: "nat \<Rightarrow> daemon \<Rightarrow> DaemonStatusSnapshot" where
  "get_status now d = (case active_session d of
     Some session \<Rightarrow> \<lparr>ds_state = dstate d, ds_active_profile = Some (as_profile_id session),
       ds_assigned_ip = as_assigned_ip session, ds_virtual_interface = Some (as_interface_name session),
       ds_kill_switch_active = firewall_active (network_mgr d), ds_dns_servers = as_dns_servers session,
       ds_session_duration_secs = session_duration_secs now (state_mgr d),
       ds_ipv6_protected = ipv6_active (network_mgr d),
       ds_intranet_only = is_intranet_only (network_mgr d)\<rparr>
   | None \<Rightarrow> \<lparr>ds_state = dstate d, ds_active_profile = None, ds_assigned_ip = None,
       ds_virtual_interface = None, ds_kill_switch_active = firewall_active (network_mgr d),
       ds_dns_servers = [], ds_session_duration_secs = 0, ds_ipv6_protected = False,
       ds_intranet_only = False\<rparr>)"

definition reply_of :: "nat \<Rightarrow> DaemonError + unit \<Rightarrow> DaemonReply" where
  "reply_of code r = (case r of Inr _ \<Rightarrow> ReplySuccess | Inl e \<Rightarrow> ReplyFailed code (daemon_error_text e))"

definition set_kill_switch_daemon :: "os_env \<Rightarrow> bool \<Rightarrow> KillSwitchMode option \<Rightarrow> daemon \<Rightarrow> daemon" where
  "set_kill_switch_daemon env enabled mode d =
     d\<lparr>network_mgr := set_kill_switch (os_answers env) enabled mode (network_mgr d)\<rparr>"

text \<open>A request handled without another in between; \<open>started\<close> is how the driver's start ends.\<close>

fun handle_request ::
  "os_env \<Rightarrow> nat \<Rightarrow> DriverError + driver \<Rightarrow> DaemonRequest \<Rightarrow> daemon \<Rightarrow> DaemonReply \<times> daemon" where
  "handle_request env now started ReqPing d = (ReplyPong, d)"
| "handle_request env now started ReqGetStatus d = (ReplyStatusIs (get_status now d), d)"
| "handle_request env now started ReqGetMetrics d = (ReplyMetricsAre (latest_metrics d), d)"
| "handle_request env now started (ReqConnect params) d =
     (case connect_daemon now started params d of (r, d') \<Rightarrow> (reply_of 100 r, d'))"
| "handle_request env now started (ReqDisconnect force) d =
     (case disconnect_daemon env now d of (r, d') \<Rightarrow> (reply_of 101 r, d'))"
| "handle_request env now started (ReqSetKillSwitch enabled mode) d =
     (ReplySuccess, set_kill_switch_daemon env enabled mode d)"

end
