(* ===== verification/Ipc_Channel.thy ===== *)
theory Ipc_Channel
  imports Daemon_Core Totp
begin

text \<open>
  The codec of the channel between the desktop shell and the daemon (\<^verbatim>\<open>ipc/codec.rs\<close>) and the loop
  with which a framed stream feeds it. The JSON text of a message is a parameter. A frame is four
  bytes of length, highest first, and the text.
\<close>

section \<open>Codec\<close>

type_synonym bytes = "8 word list"

datatype codec_error = FrameTooLarge nat nat | ProtocolCodec string

definition MAX_IPC_FRAME_SIZE :: nat where "MAX_IPC_FRAME_SIZE = 16 * 1024 * 1024"

definition decode ::
  "(bytes \<Rightarrow> string + 'm) \<Rightarrow> nat \<Rightarrow> bytes \<Rightarrow> (codec_error + 'm option) \<times> bytes" where
  "decode from_slice max_frame_size src =
     (if length src < 4 then (Inr None, src)
      else let len = be_value (take 4 src) in
        if len > max_frame_size then (Inl (FrameTooLarge len max_frame_size), src)
        else if length src < 4 + len then (Inr None, src)
        else case from_slice (take len (drop 4 src)) of
          Inl e \<Rightarrow> (Inl (ProtocolCodec (''Failed to deserialize JSON frame ('' @ string_of_nat len @
                     '' bytes): '' @ e)), drop len (drop 4 src))
        | Inr item \<Rightarrow> (Inr (Some item), drop len (drop 4 src)))"

definition encode :: "('m \<Rightarrow> string + bytes) \<Rightarrow> nat \<Rightarrow> 'm \<Rightarrow> bytes \<Rightarrow> codec_error + bytes" where
  "encode to_vec max_frame_size item dst = (case to_vec item of
     Inl e \<Rightarrow> Inl (ProtocolCodec (''Failed to serialize outbound JSON item: '' @ e))
   | Inr serialized \<Rightarrow>
       if length serialized > max_frame_size
       then Inl (FrameTooLarge (length serialized) max_frame_size)
       else Inr (dst @ be_bytes32 (of_nat (length serialized)) @ serialized))"

section \<open>Framing\<close>

text \<open>
  What a reader relies on: a complete frame is delivered and consumed, an incomplete one is kept.
  Under this contract the messages do not depend on how the stream was cut into reads.
\<close>

text \<open>Reading: the bytes received are appended to the buffer and frames taken while there are any. A frame
  has at least one byte, so that the length of the buffer is enough fuel.\<close>

fun drain :: "(bytes \<Rightarrow> ('e + 'm option) \<times> bytes) \<Rightarrow> nat \<Rightarrow> bytes \<Rightarrow> 'm list \<times> bytes" where
  "drain get 0 b = ([], b)"
| "drain get (Suc k) b = (case get b of
     (Inr (Some m), b') \<Rightarrow> (case drain get k b' of (ms, r) \<Rightarrow> (m # ms, r))
   | _ \<Rightarrow> ([], b))"

definition receive_step ::
  "(bytes \<Rightarrow> ('e + 'm option) \<times> bytes) \<Rightarrow> 'm list \<times> bytes \<Rightarrow> bytes \<Rightarrow> 'm list \<times> bytes" where
  "receive_step get st c = (let buf = snd st @ c in
     case drain get (length buf) buf of (new, r) \<Rightarrow> (fst st @ new, r))"

definition receive :: "(bytes \<Rightarrow> ('e + 'm option) \<times> bytes) \<Rightarrow> bytes list \<Rightarrow> 'm list \<times> bytes" where
  "receive get chunks = foldl (receive_step get) ([], []) chunks"

locale framing =
  fixes put :: "'m \<Rightarrow> bytes" and get :: "bytes \<Rightarrow> ('e + 'm option) \<times> bytes" and ok :: "'m \<Rightarrow> bool"
  assumes get_empty: "get [] = (Inr None, [])"
    and put_nonempty: "ok m \<Longrightarrow> put m \<noteq> []"
    and get_put: "ok m \<Longrightarrow> get (put m @ rest) = (Inr (Some m), rest)"
    and get_partial: "ok m \<Longrightarrow> strict_prefix b (put m) \<Longrightarrow> get b = (Inr None, b)"
begin

text \<open>The part of a frame that may be left in the buffer before the messages \<open>ms\<close> are complete.\<close>

definition pending_part :: "bytes \<Rightarrow> 'm list \<Rightarrow> bool" where
  "pending_part b ms \<longleftrightarrow> b = [] \<or> (\<exists>m ms'. ms = m # ms' \<and> strict_prefix b (put m))"

lemma get_pending: "pending_part b ms \<Longrightarrow> list_all ok ms \<Longrightarrow> get b = (Inr None, b)"
  by (auto simp: pending_part_def get_empty get_partial)

lemma drain_frames:
  assumes "list_all ok ms" and "pending_part b rest" and "list_all ok rest"
    and "length (concat (map put ms) @ b) \<le> k"
  shows "drain get k (concat (map put ms) @ b) = (ms, b)"
  using assms(1,4)
proof (induction ms arbitrary: k)
  case Nil
  then show ?case using get_pending [OF assms(2,3)] by (cases k) simp_all
next
  case (Cons m ms)
  then have "put m \<noteq> []" using put_nonempty by simp
  then obtain k' where k: "k = Suc k'" "length (concat (map put ms) @ b) \<le> k'"
    using Cons.prems by (cases k) (auto simp: Suc_le_eq length_greater_0_conv [symmetric] simp del: length_greater_0_conv)
  have "get (put m @ concat (map put ms) @ b) = (Inr (Some m), concat (map put ms) @ b)"
    using Cons.prems by (simp add: get_put)
  then show ?case using Cons k by simp
qed

lemma split_stream:
  assumes "list_all ok ms" and "prefix b (concat (map put ms))"
  shows "\<exists>xs ys b'. ms = xs @ ys \<and> b = concat (map put xs) @ b' \<and> pending_part b' ys"
  using assms
proof (induction ms arbitrary: b)
  case Nil
  then show ?case by (auto simp: pending_part_def)
next
  case (Cons m ms)
  show ?case
  proof (cases "strict_prefix b (put m)")
    case True
    then show ?thesis by (intro exI [of _ "[]"] exI [of _ "m # ms"] exI [of _ b]) (simp add: pending_part_def)
  next
    case False
    with Cons.prems obtain c where c: "b = put m @ c" "prefix c (concat (map put ms))"
      by (auto simp: prefix_append strict_prefix_def)
    have "\<exists>xs ys b'. ms = xs @ ys \<and> c = concat (map put xs) @ b' \<and> pending_part b' ys"
      by (rule Cons.IH) (use Cons.prems c in simp_all)
    then obtain xs ys b' where "ms = xs @ ys" "c = concat (map put xs) @ b'" "pending_part b' ys"
      by blast
    then show ?thesis using c by (intro exI [of _ "m # xs"] exI [of _ ys] exI [of _ b']) simp
  qed
qed

lemma receive_from:
  assumes "list_all ok ms" and "pending_part buf ms" and "buf @ concat chunks = concat (map put ms)"
  shows "foldl (receive_step get) (acc, buf) chunks = (acc @ ms, [])"
  using assms
proof (induction chunks arbitrary: acc buf ms)
  case Nil
  have "ms = []"
  proof (rule ccontr)
    assume "ms \<noteq> []"
    then obtain m ms' where m: "ms = m # ms'" by (cases ms) auto
    with Nil have "buf = put m @ concat (map put ms')" "put m \<noteq> []" by (auto simp: put_nonempty)
    with Nil m show False by (auto simp: pending_part_def strict_prefix_def prefix_def)
  qed
  with Nil show ?case by simp
next
  case (Cons c chunks)
  have "prefix (buf @ c) (concat (map put ms))"
    using Cons.prems(3) by (metis append_assoc concat.simps(2) prefixI)
  with Cons.prems(1) obtain xs ys b' where d: "ms = xs @ ys" "buf @ c = concat (map put xs) @ b'"
      "pending_part b' ys"
    using split_stream by blast
  have "drain get (length (buf @ c)) (buf @ c) = (xs, b')"
    unfolding d(2) by (rule drain_frames [OF _ d(3)]) (use Cons.prems(1) d in auto)
  then have "receive_step get (acc, buf) c = (acc @ xs, b')"
    unfolding receive_step_def Let_def fst_conv snd_conv by (simp only: prod.case)
  moreover have "b' @ concat chunks = concat (map put ys)"
  proof -
    have "(buf @ c) @ concat chunks = concat (map put xs) @ concat (map put ys)"
      using Cons.prems(3) d(1) by simp
    then show ?thesis unfolding d(2) by simp
  qed
  ultimately show ?case using Cons.IH [of ys b' "acc @ xs"] Cons.prems(1) d by simp
qed

theorem receive_chunks:
  "list_all ok ms \<Longrightarrow> concat chunks = concat (map put ms) \<Longrightarrow> receive get chunks = (ms, [])"
  using receive_from [of ms "[]" chunks "[]"] by (simp add: receive_def pending_part_def)

end


section \<open>The codec is a framing\<close>

definition frame :: "('m \<Rightarrow> string + bytes) \<Rightarrow> 'm \<Rightarrow> bytes" where
  "frame to_vec m = (case to_vec m of
     Inr b \<Rightarrow> be_bytes32 (of_nat (length b)) @ b | Inl e \<Rightarrow> [])"

text \<open>A message whose text is short enough and is read back as the message.\<close>

definition transmissible ::
  "('m \<Rightarrow> string + bytes) \<Rightarrow> (bytes \<Rightarrow> string + 'm) \<Rightarrow> nat \<Rightarrow> 'm \<Rightarrow> bool" where
  "transmissible to_vec from_slice limit m = (case to_vec m of
     Inr b \<Rightarrow> length b \<le> limit \<and> from_slice b = Inr m | Inl e \<Rightarrow> False)"

lemma length_be_bytes32 [simp]: "length (be_bytes32 w) = 4"
  by (simp add: be_bytes32_def)

lemma base256_digits:
  assumes "(n::nat) < 2 ^ 32"
  shows "256 * (256 * (256 * (n div 2 ^ 24 mod 256) + n div 2 ^ 16 mod 256) + n div 2 ^ 8 mod 256) + n mod 256 = n"
proof -
  have "n div 2 ^ 24 = n div 256 div 256 div 256" "n div 2 ^ 16 = n div 256 div 256"
    by (simp_all add: div_mult2_eq [symmetric])
  moreover have "n div 256 div 256 div 256 < 256" using assms by (simp add: div_mult2_eq [symmetric])
  ultimately show ?thesis
    using div_mult_mod_eq [of n 256] div_mult_mod_eq [of "n div 256" 256]
      div_mult_mod_eq [of "n div 256 div 256" 256] by simp
qed

lemma unat_byte_of_word: "unat (ucast (drop_bit k w) :: 8 word) = unat (w :: 32 word) div 2 ^ k mod 256"
proof -
  have "unat (drop_bit k w) = unat w div 2 ^ k"
    unfolding unat_drop_bit_eq by (rule drop_bit_eq_div)
  then show ?thesis by (simp add: unsigned_ucast_eq take_bit_eq_mod)
qed

lemma be_value_bytes32: "be_value (be_bytes32 w) = unat w"
proof -
  have "be_value (be_bytes32 w) = 256 * (256 * (256 * (unat w div 2 ^ 24 mod 256) + unat w div 2 ^ 16 mod 256) +
      unat w div 2 ^ 8 mod 256) + unat w mod 256"
    using unat_byte_of_word [of 0 w] by (simp add: be_value_def be_bytes32_def unat_byte_of_word)
  moreover have "unat w < 2 ^ 32" using unsigned_less [of w, where 'a = nat] by simp
  ultimately show ?thesis using base256_digits by simp
qed

lemma be_value_length: "length b < 2 ^ 32 \<Longrightarrow> be_value (be_bytes32 (of_nat (length b))) = length b"
  by (simp add: be_value_bytes32 unat_of_nat take_bit_eq_mod)

text \<open>
  The same bytes serve the one-time passwords: for a counter of 32 bits, the message that
  \<open>generateCode\<close> signs is the counter in eight bytes, highest first, as RFC 4226 asks.
\<close>

lemma counter_buffer_big_endian:
  assumes "0 \<le> c" and "c < 2 ^ 32"
  shows "length (counter_buffer c) = 8 \<and> be_value (counter_buffer c) = nat c"
proof -
  have "be_value (counter_buffer c) = be_value (be_bytes32 (word_of_int c))"
    by (simp add: counter_buffer_def be_value_def)
  moreover have "unat (word_of_int c :: 32 word) = nat c"
    using assms by (simp add: unsigned_of_int take_bit_int_eq_self)
  ultimately show ?thesis by (simp add: be_value_bytes32 counter_buffer_def)
qed

lemma decode_frame:
  assumes "from_slice b = Inr m" and "length b \<le> limit" and "limit < 2 ^ 32"
  shows "decode from_slice limit (be_bytes32 (of_nat (length b)) @ b @ rest) = (Inr (Some m), rest)"
  using assms be_value_length [of b] by (simp add: decode_def Let_def)

lemma decode_partial:
  assumes "strict_prefix c (be_bytes32 (of_nat (length b)) @ b)" and "length b \<le> limit" and "limit < 2 ^ 32"
  shows "decode from_slice limit c = (Inr None, c)"
proof -
  let ?h = "be_bytes32 (of_nat (length b))"
  obtain d where d: "?h @ b = c @ d" "d \<noteq> []"
    using assms(1) by (auto simp: strict_prefix_def prefix_def)
  have "length c < length (?h @ b)" using d by simp
  moreover have "be_value (take 4 c) = length b" if "\<not> length c < 4"
  proof -
    have "take 4 (c @ d) = ?h" using d(1) [symmetric] by simp
    with that have "take 4 c = ?h" by simp
    with be_value_length [of b] assms show ?thesis by simp
  qed
  ultimately show ?thesis using assms by (simp add: decode_def Let_def)
qed

lemma codec_framing:
  assumes "limit < 2 ^ 32"
  shows "framing (frame to_vec) (decode from_slice limit) (transmissible to_vec from_slice limit)"
proof
  show "decode from_slice limit [] = (Inr None, [])" by (simp add: decode_def)
next
  fix m assume "transmissible to_vec from_slice limit m"
  then obtain b where b: "to_vec m = Inr b" "length b \<le> limit" "from_slice b = Inr m"
    by (auto simp: transmissible_def split: sum.splits)
  then have f: "frame to_vec m = be_bytes32 (of_nat (length b)) @ b" by (simp add: frame_def)
  show "frame to_vec m \<noteq> []" using f by (metis append_is_Nil_conv length_be_bytes32 list.size(3) zero_neq_numeral)
  show "decode from_slice limit (frame to_vec m @ rest) = (Inr (Some m), rest)" for rest
    using decode_frame [of from_slice b m limit rest] b assms f by simp
  show "decode from_slice limit c = (Inr None, c)" if "strict_prefix c (frame to_vec m)" for c
    using decode_partial [OF _ b(2) assms] that f by simp
qed

interpretation raw_frames: framing "frame Inr" "decode Inr MAX_IPC_FRAME_SIZE"
  "transmissible Inr Inr MAX_IPC_FRAME_SIZE"
  by (rule codec_framing) (simp add: MAX_IPC_FRAME_SIZE_def)

text \<open>
  Property C17. The messages between application and daemon survive the transport. If every message
  fits the limit and its JSON text is read back as the message, then encoding appends its frame,
  and a reader that gets the frames cut into pieces anywhere delivers exactly the messages in
  their order and ends with an empty buffer. A header that announces more than the limit is
  refused before its body arrives.
\<close>

theorem frames_survive_any_chunking:
  assumes "limit < 2 ^ 32" and "list_all (transmissible to_vec from_slice limit) ms"
    and "concat chunks = concat (map (frame to_vec) ms)"
  shows "receive (decode from_slice limit) chunks = (ms, []) \<and>
    (\<forall>m\<in>set ms. \<forall>dst. encode to_vec limit m dst = Inr (dst @ frame to_vec m)) \<and>
    (\<forall>h rest. length h = 4 \<and> limit < be_value h \<longrightarrow>
       fst (decode from_slice limit (h @ rest)) = Inl (FrameTooLarge (be_value h) limit))"
proof (intro conjI ballI allI impI)
  show "receive (decode from_slice limit) chunks = (ms, [])"
    using framing.receive_chunks [OF codec_framing [OF assms(1)] assms(2,3)] .
  show "encode to_vec limit m dst = Inr (dst @ frame to_vec m)" if "m \<in> set ms" for m dst
    using assms(2) that
    by (auto simp: list_all_iff transmissible_def encode_def frame_def split: sum.splits)
qed (simp add: decode_def Let_def)

theorem frames_survive_any_chunking_witness:
  "receive (decode Inr MAX_IPC_FRAME_SIZE) [[0, 0], [0, 2, 7], [8, 0, 0, 0], [1, 9]] = ([[7, 8], [9]], [])"
  by (rule conjunct1 [OF frames_survive_any_chunking [where to_vec = Inr]])
     (simp_all add: MAX_IPC_FRAME_SIZE_def transmissible_def frame_def be_bytes32_def)

end
