(* ===== verification/Daemon_Properties.thy ===== *)
theory Daemon_Properties
  imports Daemon_Core Network_Properties
begin

text \<open>
  The daemon's requests run alone: what a transition does, that a disconnect takes the daemon back to
  rest, what a WireGuard session protects, and what failures leave behind.
\<close>

section \<open>Transitions\<close>

lemma transition_result:
  "fst (transition_to now st r sm) = Inr () \<longleftrightarrow> current_state sm = st \<or> is_valid_transition (current_state sm) st"
  "current_state (snd (transition_to now st r sm)) =
     (if is_valid_transition (current_state sm) st then st else current_state sm)"
  by (auto simp: transition_to_def Let_def)

lemma go_simps [simp]:
  "fst (go now st r d) = fst (transition_to now st r (state_mgr d))"
  "state_mgr (snd (go now st r d)) = snd (transition_to now st r (state_mgr d))"
  "network_mgr (snd (go now st r d)) = network_mgr d"
  "active_session (snd (go now st r d)) = active_session d"
  "active_driver (snd (go now st r d)) = active_driver d"
  "collector_running (snd (go now st r d)) = collector_running d"
  "monitors (snd (go now st r d)) = monitors d"
  by (simp_all add: go_def split_def)

lemma go_pair: "go now st r d = (fst (transition_to now st r (state_mgr d)), snd (go now st r d))"
  by (simp add: go_def split_def)

section \<open>Disconnecting\<close>

lemma disconnecting_valid: "st \<noteq> Disconnected \<Longrightarrow> st = Disconnecting \<or> is_valid_transition st Disconnecting"
  by (cases st) simp_all

lemma disconnect_begin_result:
  assumes "dstate d \<noteq> Disconnected"
  shows "disconnect_begin now d = (None, (snd (go now Disconnecting (Some ''Disconnect initiated'') d))
      \<lparr>collector_running := False, active_driver := None\<rparr>)"
    and "dstate (snd (disconnect_begin now d)) = Disconnecting"
proof -
  have "fst (transition_to now Disconnecting (Some ''Disconnect initiated'') (state_mgr d)) = Inr ()"
    using assms disconnecting_valid transition_result(1) by blast
  then show e: "disconnect_begin now d = (None, (snd (go now Disconnecting (Some ''Disconnect initiated'') d))
      \<lparr>collector_running := False, active_driver := None\<rparr>)"
    using assms by (subst disconnect_begin_def, subst go_pair) simp
  show "dstate (snd (disconnect_begin now d)) = Disconnecting"
    using assms disconnecting_valid [of "dstate d"] by (auto simp: e transition_result)
qed

lemma disconnect_rests:
  assumes "dstate d \<noteq> Disconnected"
  shows "\<exists>d'. handle_request env now started (ReqDisconnect force) d = (ReplySuccess, d') \<and>
    dstate d' = Disconnected \<and> active_session d' = None \<and> active_driver d' = None \<and>
    \<not> collector_running d' \<and> network_clear (network_mgr d') \<and>
    (active_tunnel (network_mgr d) \<noteq> None \<longrightarrow> router (network_mgr d') = no_routes) \<and>
    handle_request env' now' started' (ReqDisconnect force') d' = (ReplySuccess, d')"
proof -
  let ?b = "snd (disconnect_begin now d)"
  let ?d' = "snd (disconnect_finish env now ?b)"
  have b: "fst (disconnect_begin now d) = None" and st: "dstate ?b = Disconnecting"
    using disconnect_begin_result [OF assms(1), of now] by simp_all
  have nb: "network_mgr ?b = network_mgr d" "active_driver ?b = None" "\<not> collector_running ?b"
    using disconnect_begin_result(1) [OF assms(1), of now] by simp_all
  have "fst (disconnect_finish env now ?b) = Inr ()"
    unfolding disconnect_finish_def by (simp add: transition_result st)
  then have h: "handle_request env now started (ReqDisconnect force) d = (ReplySuccess, ?d')"
    using b by (simp add: disconnect_daemon_def split_def reply_of_def)
  have s': "dstate ?d' = Disconnected"
    by (simp add: disconnect_finish_def transition_result st)
  then have again: "handle_request env' now' started' (ReqDisconnect force') ?d' = (ReplySuccess, ?d')"
    by (simp add: disconnect_daemon_def disconnect_begin_def reply_of_def)
  have "active_session ?d' = None \<and> active_driver ?d' = None \<and> \<not> collector_running ?d' \<and>
      network_mgr ?d' = teardown_vpn_network env (network_mgr d)"
    using nb by (simp add: disconnect_finish_def)
  then show ?thesis
    using h s' again teardown_clears [of env "network_mgr d"] teardown_router [of env "network_mgr d"]
    by (intro exI [of _ ?d']) auto
qed

text \<open>
  Property C15. A disconnect request that no other request interrupts always succeeds. From every state but
  disconnected it leaves the daemon disconnected with no session, no driver and no collector, with
  the firewall, the IPv6 shield, the DNS settings and the tunnel's routes cleared, and a second one
  changes nothing.
\<close>

theorem disconnect_returns_to_rest:
  assumes "dstate d \<noteq> Disconnected"
  shows "\<exists>d'. handle_request env now started (ReqDisconnect force) d = (ReplySuccess, d') \<and>
    dstate d' = Disconnected \<and> active_session d' = None \<and> active_driver d' = None \<and>
    \<not> collector_running d' \<and> network_clear (network_mgr d') \<and>
    (active_tunnel (network_mgr d) \<noteq> None \<longrightarrow> router (network_mgr d') = no_routes) \<and>
    handle_request env' now' started' (ReqDisconnect force') d' = (ReplySuccess, d')"
  by (rule disconnect_rests [OF assms])


section \<open>Events of a driver\<close>

text \<open>The monitoring task at work on a list of events of its driver.\<close>

definition monitor_all :: "os_env \<Rightarrow> nat \<Rightarrow> nat \<Rightarrow> DriverEvent list \<Rightarrow> daemon \<Rightarrow> daemon" where
  "monitor_all env now k evs d = fold (monitor_event env now k) evs d"

lemma setup_marks:
  "active_tunnel (setup_vpn_network env t n) \<noteq> None"
  "kill_switch_mode (ts_security t) \<noteq> KsOff \<Longrightarrow> firewall_active (setup_vpn_network env t n)"
  by (simp_all add: setup_vpn_network_def Let_def enable_kill_switch_nft_def split_def)

section \<open>WireGuard\<close>

text \<open>A connect request for a WireGuard profile and the events of its driver, one after the other.\<close>

definition wireguard_session ::
  "os_env \<Rightarrow> nat \<Rightarrow> VpnConnectParams \<Rightarrow> exit \<Rightarrow> daemon \<Rightarrow> daemon" where
  "wireguard_session env now params wg_quick d =
     (case wireguard_start params None wg_quick of (started, evs) \<Rightarrow>
        monitor_all env now (length (monitors d)) evs (snd (connect_daemon now started params d)))"

lemma wireguard_start_ok:
  assumes "auth_config params = AuthWireguardKey key psk" and "trim key \<noteq> []"
  shows "\<exists>msg. wireguard_start params None wg_quick =
    (Inr wireguard_driver, [DriverState Connecting, DriverState Connected, DriverLog ''INFO'' msg])"
  using assms by (simp add: wireguard_start_def validate_credentials_def generate_config_def)

lemma wireguard_session_result:
  assumes "auth_config params = AuthWireguardKey key psk" and "trim key \<noteq> []"
    and "dstate d = Disconnected \<or> dstate d = ErrorState"
  shows "dstate (wireguard_session env now params wg_quick d) = Connected"
    and "monitors (wireguard_session env now params wg_quick d) = monitors d @ [(params, ''wg0'')]"
    and "\<exists>n x. network_mgr (wireguard_session env now params wg_quick d) =
       setup_vpn_network env (tunnel_of params ''wg0'' x) n \<and> active_driver x = Some wireguard_driver"
proof -
  obtain msg where w: "wireguard_start params None wg_quick =
      (Inr wireguard_driver, [DriverState Connecting, DriverState Connected, DriverLog ''INFO'' msg])"
    using wireguard_start_ok [OF assms(1,2)] by blast
  let ?c = "snd (connect_daemon now (Inr wireguard_driver) params d)"
  have c: "dstate ?c = Connecting" "monitors ?c = monitors d @ [(params, ''wg0'')]"
      "active_driver ?c = Some wireguard_driver"
    using assms(3) by (auto simp: connect_daemon_def connect_begin_def connect_finish_def go_def
        transition_to_def Let_def wireguard_driver_def)
  have up: "dstate (tunnel_up env params ''wg0'' ?c) = Connecting" using c by (simp add: tunnel_up_def Let_def)
  have s: "wireguard_session env now params wg_quick d = snd (go now Connected None (tunnel_up env params ''wg0'' ?c))"
    using c by (simp add: wireguard_session_def w monitor_all_def monitor_event_def monitor_state_def Let_def)
  show "dstate (wireguard_session env now params wg_quick d) = Connected"
    using up by (simp add: s transition_result)
  show "monitors (wireguard_session env now params wg_quick d) = monitors d @ [(params, ''wg0'')]"
    using c by (simp add: s tunnel_up_def Let_def)
  have "network_mgr (wireguard_session env now params wg_quick d) =
      setup_vpn_network env (tunnel_of params ''wg0'' ?c) (network_mgr ?c)"
    by (simp add: s tunnel_up_def Let_def)
  then show "\<exists>n x. network_mgr (wireguard_session env now params wg_quick d) =
       setup_vpn_network env (tunnel_of params ''wg0'' x) n \<and> active_driver x = Some wireguard_driver"
    using c(3) by blast
qed

text \<open>
  A WireGuard session never protects the machine's traffic. Whatever \<open>wg-quick\<close>
  answers, connecting ends in the state connected; and whatever the policies ask for, the tunnel is
  set up as a split tunnel, because the driver never announces a redirected gateway. So the kill
  switch, even in strict mode, lets through every packet that leaves by another interface, unless it
  is STUN traffic or goes to the tunnel's address or the profile's own networks.
\<close>

theorem wireguard_never_full_tunnel:
  assumes "auth_config params = AuthWireguardKey key psk" and "trim key \<noteq> []"
    and "dstate d = Disconnected \<or> dstate d = ErrorState"
    and "\<not> udp_to stun_ports p"
    and "\<forall>s\<in>set (''10.14.0.2'' # custom_subnets (nullish (routing_policy params) no_policy)).
           \<not> to_net (slash_to_cidr (trim s)) p"
  shows "let d1 = wireguard_session env now params wg_quick d
    in dstate d1 = Connected \<and>
       (\<exists>ctx. active_tunnel (network_mgr d1) = Some ctx \<and> tc_intranet_only ctx \<and>
          (\<forall>w lan. verdict (kill_switch_chain (server_endpoint_ips ctx) (tc_server_port ctx) (tc_iface ctx)
             (tc_intranet_only ctx) (vpn_subnets ctx) w lan) p = Accept))"
proof -
  obtain n x where n: "network_mgr (wireguard_session env now params wg_quick d) =
       setup_vpn_network env (tunnel_of params ''wg0'' x) n" "active_driver x = Some wireguard_driver"
    using wireguard_session_result(3) [OF assms(1-3)] by blast
  obtain ctx where ctx: "active_tunnel (network_mgr (wireguard_session env now params wg_quick d)) = Some ctx"
      "tc_intranet_only ctx" "vpn_subnets ctx = ''10.14.0.2'' # custom_subnets (nullish (routing_policy params) no_policy)"
    unfolding n(1) using n(2)
    by (simp add: setup_vpn_network_def Let_def tunnel_of_def driver_part_def wireguard_driver_def
        intranet_split_def tunnel_subnets_def)
  have "verdict (kill_switch_chain (server_endpoint_ips ctx) (tc_server_port ctx) (tc_iface ctx)
      (tc_intranet_only ctx) (vpn_subnets ctx) w lan) p = Accept" for w lan
    using assms(4,5) ctx by (auto simp: kill_switch_chain_def intranet_chain_verdict)
  then show ?thesis
    using wireguard_session_result(1) [OF assms(1-3)] ctx by (auto simp: Let_def)
qed

section \<open>Failures\<close>

text \<open>
  A fatal error of the driver is fail-closed: the state becomes error, firewall and routes stay as they
  are until the user disconnects, and the kill switch can be released meanwhile.
\<close>

lemma fatal_error_keeps_network:
  assumes "k < length (monitors d)" and "dstate d \<in> {Connecting, Connected, Reconnecting}"
  shows "let d1 = monitor_event env now k (DriverFatal e) d in
    dstate d1 = ErrorState \<and> network_mgr d1 = network_mgr d \<and> active_session d1 = active_session d"
  using assms by (auto simp: monitor_event_def Let_def transition_result)

text \<open>
  A second connect is refused while a session is up, coming up or going down, and changes nothing.
\<close>

lemma connect_rejected:
  assumes "dstate d \<notin> {Disconnected, ErrorState}"
  shows "handle_request env now started (ReqConnect params) d =
    (ReplyFailed 100 (''Invalid state transition: Cannot connect while in state '' @ debug_state (dstate d)), d)"
  using assms by (simp add: connect_daemon_def connect_begin_def reply_of_def)

text \<open>Without a tunnel a request to engage the kill switch succeeds and does nothing.\<close>

lemma kill_switch_without_tunnel:
  "active_tunnel (network_mgr d) = None \<Longrightarrow>
   handle_request env now started (ReqSetKillSwitch enabled mode) d = (ReplySuccess, d)"
  by (simp add: set_kill_switch_daemon_def set_kill_switch_def)

section \<open>Witnesses\<close>

definition sample_params :: VpnConnectParams where
  "sample_params = \<lparr>cp_profile_id = ''p1'', cp_protocol = WpWireguard, server_endpoint = ''203.0.113.7'',
     server_port = 51820, auth_config = AuthWireguardKey ''key'' None, enable_kill_switch = True,
     custom_dns = None, security_policy = None, routing_policy = None\<rparr>"

definition quiet_env :: os_env where
  "quiet_env = \<lparr>os_answers = (\<lambda>i c. SpawnFailed), os_addresses = (\<lambda>h. [h]),
     os_device = (\<lambda>i. False), os_writes = (\<lambda>i. True)\<rparr>"

text \<open>A daemon with a WireGuard session up.\<close>

definition busy_daemon :: daemon where
  "busy_daemon = wireguard_session quiet_env 7 sample_params SpawnFailed (daemon_new None)"

lemma sample_key: "auth_config sample_params = AuthWireguardKey ''key'' None" "trim ''key'' \<noteq> []"
  by (simp add: sample_params_def) code_simp

lemma new_daemon_rests: "dstate (daemon_new r) = Disconnected" "monitors (daemon_new r) = []"
  by (simp_all add: daemon_new_def state_manager_new_def)

lemma busy_connected: "dstate busy_daemon = Connected"
  unfolding busy_daemon_def
  by (rule wireguard_session_result(1) [OF sample_key]) (simp add: new_daemon_rests)

lemma busy_monitors: "length (monitors busy_daemon) = 1"
  unfolding busy_daemon_def
  by (subst wireguard_session_result(2) [OF sample_key]) (simp_all add: new_daemon_rests)

lemma busy_firewall: "firewall_active (network_mgr busy_daemon)"
proof -
  obtain n x where "network_mgr busy_daemon = setup_vpn_network quiet_env (tunnel_of sample_params ''wg0'' x) n"
    using wireguard_session_result(3) [OF sample_key, of "daemon_new None" quiet_env 7 SpawnFailed]
    unfolding busy_daemon_def by (auto simp: new_daemon_rests)
  moreover have "kill_switch_mode (ts_security (tunnel_of sample_params ''wg0'' x)) \<noteq> KsOff"
    by (simp add: tunnel_of_def sample_params_def default_policy_def)
  ultimately show ?thesis using setup_marks(2) by simp
qed

theorem disconnect_returns_to_rest_witness:
  "\<exists>d'. handle_request quiet_env 9 (Inr wireguard_driver) (ReqDisconnect False) busy_daemon = (ReplySuccess, d') \<and>
     dstate d' = Disconnected \<and> network_clear (network_mgr d')"
proof -
  have "dstate busy_daemon \<noteq> Disconnected" by (simp add: busy_connected)
  then show ?thesis
    using disconnect_returns_to_rest [of busy_daemon quiet_env 9 "Inr wireguard_driver" False quiet_env 9
      "Inr wireguard_driver" False] by blast
qed

theorem wireguard_never_full_tunnel_witness:
  "\<exists>ctx. active_tunnel (network_mgr busy_daemon) = Some ctx \<and>
     verdict (kill_switch_chain (server_endpoint_ips ctx) (tc_server_port ctx) (tc_iface ctx)
       (tc_intranet_only ctx) (vpn_subnets ctx) True None) leaking_packet = Accept"
proof -
  have u: "\<not> udp_to stun_ports leaking_packet" by (simp add: udp_to_def leaking_packet_def)
  have "\<not> to_net (slash_to_cidr (trim ''10.14.0.2'')) leaking_packet" by code_simp
  then have n: "\<forall>s\<in>set (''10.14.0.2'' # custom_subnets (nullish (routing_policy sample_params) no_policy)).
      \<not> to_net (slash_to_cidr (trim s)) leaking_packet"
    by (simp add: sample_params_def no_policy_def)
  from wireguard_never_full_tunnel [OF sample_key _ u n, of "daemon_new None" quiet_env 7 SpawnFailed]
  show ?thesis unfolding busy_daemon_def Let_def by (auto simp: new_daemon_rests)
qed

end
