(* ===== verification/Shell_Client.thy ===== *)
theory Shell_Client
  imports Daemon_Core Vpn_Session
begin

text \<open>
  The desktop shell between the application and the daemon: the client of
  \<^verbatim>\<open>src-tauri/src/ipc/client.rs\<close>, the monitoring worker of \<^verbatim>\<open>ipc/worker.rs\<close>, the tray of \<^verbatim>\<open>tray.rs\<close>
  and the commands of \<^verbatim>\<open>commands/vpn.rs\<close> that only forward. A stream carries requests the daemon has
  not answered yet and answers the client has not read yet, both in order; the daemon handles the
  requests of a stream one after the other (\<^verbatim>\<open>ipc/server.rs\<close>).
\<close>

section \<open>The client\<close>

record stream =
  unanswered :: "DaemonRequest list"
  arrived :: "DaemonReply list"

record DaemonClient =
  socket_path :: string
  cl_stream :: "stream option"
  is_connected :: bool

datatype AppError =
  DaemonOffline string
| IpcFailure string
| DaemonFailure nat string
| InvalidResponse
| TauriFailure string
| IoFailure string

primrec app_error_text :: "AppError \<Rightarrow> string" where
  "app_error_text (DaemonOffline m) = ''Daemon is offline or unreachable at socket '' @ m"
| "app_error_text (IpcFailure m) = ''Daemon IPC error: '' @ m"
| "app_error_text (DaemonFailure code m) =
     ''Daemon returned error (code '' @ string_of_nat code @ ''): '' @ m"
| "app_error_text InvalidResponse = ''Invalid response received from daemon''"
| "app_error_text (TauriFailure m) = ''Tauri error: '' @ m"
| "app_error_text (IoFailure m) = ''IO error: '' @ m"

text \<open>
  The circumstances of one request: errors of connecting and writing, how many requests of the stream
  the daemon answers before the ten seconds are over and how, and whether the stream is closed or
  garbled when no answer is there.
\<close>

record attempt =
  connect_error :: "string option"
  write_error :: "string option"
  answers_in_time :: nat
  daemon_answers :: "DaemonRequest \<Rightarrow> DaemonReply"
  garbled :: "string option"
  closed :: bool

definition client_new :: "string \<Rightarrow> DaemonClient" where
  "client_new path = \<lparr>socket_path = path, cl_stream = None, is_connected = False\<rparr>"

definition fresh_stream :: stream where
  "fresh_stream = \<lparr>unanswered = [], arrived = []\<rparr>"

definition ensure_connected :: "attempt \<Rightarrow> DaemonClient \<Rightarrow> (AppError + unit) \<times> DaemonClient" where
  "ensure_connected a c =
     (if cl_stream c \<noteq> None \<and> is_connected c then (Inr (), c)
      else case connect_error a of
        None \<Rightarrow> (Inr (), c\<lparr>cl_stream := Some fresh_stream, is_connected := True\<rparr>)
      | Some e \<Rightarrow> (Inl (DaemonOffline (''Failed to connect to '' @ quoted (socket_path c) @ '': '' @ e)),
                   c\<lparr>cl_stream := None, is_connected := False\<rparr>))"

definition serve :: "attempt \<Rightarrow> stream \<Rightarrow> stream" where
  "serve a s = \<lparr>unanswered = drop (answers_in_time a) (unanswered s),
     arrived = arrived s @ map (daemon_answers a) (take (answers_in_time a) (unanswered s))\<rparr>"

definition drop_stream :: "DaemonClient \<Rightarrow> DaemonClient" where
  "drop_stream c = c\<lparr>cl_stream := None, is_connected := False\<rparr>"

definition send_request ::
  "attempt \<Rightarrow> DaemonRequest \<Rightarrow> DaemonClient \<Rightarrow> (AppError + DaemonReply) \<times> DaemonClient" where
  "send_request a req c = (case ensure_connected a c of
     (Inl e, c1) \<Rightarrow> (Inl e, c1)
   | (Inr _, c1) \<Rightarrow> (case cl_stream c1 of
       None \<Rightarrow> (Inl (DaemonOffline (socket_path c1)), c1)
     | Some s \<Rightarrow> (case write_error a of
         Some e \<Rightarrow> (Inl (IpcFailure (''Socket write error: '' @ e)), drop_stream c1)
       | None \<Rightarrow>
           let s1 = serve a (s\<lparr>unanswered := unanswered s @ [req]\<rparr>) in
           (case arrived s1 of
              r # rest \<Rightarrow>
                ((case r of ReplyFailed code m \<Rightarrow> Inl (DaemonFailure code m) | _ \<Rightarrow> Inr r),
                 c1\<lparr>cl_stream := Some (s1\<lparr>arrived := rest\<rparr>)\<rparr>)
            | [] \<Rightarrow>
                (case garbled a of
                   Some e \<Rightarrow> (Inl (IpcFailure (''Codec decode failure: '' @ e)), drop_stream c1)
                 | None \<Rightarrow>
                     if closed a then (Inl (DaemonOffline ''Daemon closed IPC stream''), drop_stream c1)
                     else (Inl (IpcFailure ''IPC Request timed out''), c1\<lparr>cl_stream := Some s1\<rparr>))))))"

definition ping :: "attempt \<Rightarrow> DaemonClient \<Rightarrow> bool \<times> DaemonClient" where
  "ping a c = (case send_request a ReqPing c of (r, c') \<Rightarrow> (r = Inr ReplyPong, c'))"

section \<open>The commands that only forward\<close>

definition vpn_disconnect :: "attempt \<Rightarrow> bool option \<Rightarrow> DaemonClient \<Rightarrow> (AppError + DaemonReply) \<times> DaemonClient" where
  "vpn_disconnect a force c = send_request a (ReqDisconnect (nullish force False)) c"

definition get_daemon_status :: "attempt \<Rightarrow> DaemonClient \<Rightarrow> (AppError + DaemonReply) \<times> DaemonClient" where
  "get_daemon_status a c = send_request a ReqGetStatus c"

definition get_metrics_cmd :: "attempt \<Rightarrow> DaemonClient \<Rightarrow> (AppError + DaemonReply) \<times> DaemonClient" where
  "get_metrics_cmd a c = send_request a ReqGetMetrics c"

definition set_kill_switch_cmd ::
  "attempt \<Rightarrow> bool \<Rightarrow> KillSwitchMode option \<Rightarrow> DaemonClient \<Rightarrow> (AppError + DaemonReply) \<times> DaemonClient" where
  "set_kill_switch_cmd a enabled mode c = send_request a (ReqSetKillSwitch enabled mode) c"

text \<open>What the application's promise becomes: an error is serialised to its text.\<close>

definition bridge_reply :: "AppError + DaemonReply \<Rightarrow> ipc_error + DaemonResponse" where
  "bridge_reply r = (case r of
     Inl e \<Rightarrow> Inl (app_error_text e)
   | Inr (ReplyFailed code m) \<Rightarrow> Inr (RespError (Some m))
   | Inr _ \<Rightarrow> Inr RespOther)"

section \<open>The tray\<close>

definition tray_toggle_item :: "string \<Rightarrow> string \<times> bool" where
  "tray_toggle_item state = (let l = toLowerCase state in
     if l = ''connected'' then (''Disconnect'', True)
     else if l = ''connecting'' \<or> l = ''reconnecting'' then (''Connecting...'', False)
     else if l = ''disconnecting'' then (''Disconnecting...'', False)
     else (''Connect'', True))"

definition tray_tooltip :: "string \<Rightarrow> string" where
  "tray_tooltip state = (let l = toLowerCase state in
     if l = ''connected'' then ''VPNHub: Connected & Protected (Tunnel Active)''
     else if l = ''connecting'' then ''VPNHub: Connecting to VPN Gateway...''
     else if l = ''reconnecting'' then ''VPNHub: Reconnecting VPN tunnel...''
     else if l = ''disconnecting'' then ''VPNHub: Disconnecting...''
     else if l = ''error'' then ''VPNHub: Connection Error''
     else ''VPNHub: Disconnected (Unprotected)'')"

section \<open>The monitoring worker\<close>

datatype shell_event =
  EmitDaemonStatus bool
| EmitVpnStatus DaemonReply
| EmitMetrics DaemonReply
| TrayStatus string

record worker =
  wk_client :: DaemonClient
  was_online :: bool
  first_tick :: bool
  last_vpn_state :: "string option"

definition worker_new :: "DaemonClient \<Rightarrow> worker" where
  "worker_new c = \<lparr>wk_client = c, was_online = False, first_tick = True, last_vpn_state = None\<rparr>"

definition worker_health :: "attempt \<Rightarrow> worker \<Rightarrow> bool \<times> shell_event list \<times> worker" where
  "worker_health a w = (case ping a (wk_client w) of (alive, c) \<Rightarrow>
     let w1 = w\<lparr>wk_client := c\<rparr> in
     if alive \<noteq> was_online w \<or> first_tick w
     then (alive, [EmitDaemonStatus alive], w1\<lparr>first_tick := False, was_online := alive\<rparr>)
     else (alive, [], w1))"

definition worker_status :: "attempt \<Rightarrow> worker \<Rightarrow> shell_event list \<times> worker" where
  "worker_status a w = (case send_request a ReqGetStatus (wk_client w) of
     (Inl e, c) \<Rightarrow> ([], w\<lparr>wk_client := c\<rparr>)
   | (Inr r, c) \<Rightarrow>
       let w1 = w\<lparr>wk_client := c\<rparr> in
       (case r of
          ReplyStatusIs snap \<Rightarrow>
            (let st = debug_state (ds_state snap) in
             if last_vpn_state w1 \<noteq> Some st
             then ([TrayStatus st, EmitVpnStatus r], w1\<lparr>last_vpn_state := Some st\<rparr>)
             else ([EmitVpnStatus r], w1))
        | _ \<Rightarrow> ([EmitVpnStatus r], w1)))"

definition worker_metrics :: "attempt \<Rightarrow> worker \<Rightarrow> shell_event list \<times> worker" where
  "worker_metrics a w = (case send_request a ReqGetMetrics (wk_client w) of
     (Inl e, c) \<Rightarrow> ([], w\<lparr>wk_client := c\<rparr>)
   | (Inr r, c) \<Rightarrow> ([EmitMetrics r], w\<lparr>wk_client := c\<rparr>))"

definition worker_idle :: "worker \<Rightarrow> shell_event list \<times> worker" where
  "worker_idle w = (if last_vpn_state w \<noteq> Some ''Disconnected''
     then ([TrayStatus ''disconnected''], w\<lparr>last_vpn_state := Some ''Disconnected''\<rparr>) else ([], w))"

text \<open>One turn of the loop, with the circumstances of its three requests.\<close>

definition worker_tick :: "attempt \<times> attempt \<times> attempt \<Rightarrow> worker \<Rightarrow> shell_event list \<times> worker" where
  "worker_tick t w = (case t of (a1, a2, a3) \<Rightarrow>
     (case worker_health a1 w of (alive, es1, w1) \<Rightarrow>
        if alive then
          (case worker_status a2 w1 of (es2, w2) \<Rightarrow>
           (case worker_metrics a3 w2 of (es3, w3) \<Rightarrow> (es1 @ es2 @ es3, w3)))
        else (case worker_idle w1 of (es2, w2) \<Rightarrow> (es1 @ es2, w2))))"

fun worker_run :: "(attempt \<times> attempt \<times> attempt) list \<Rightarrow> worker \<Rightarrow> shell_event list list \<times> worker" where
  "worker_run [] w = ([], w)"
| "worker_run (t # ts) w = (case worker_tick t w of (es, w1) \<Rightarrow>
     (case worker_run ts w1 of (rest, w2) \<Rightarrow> (es # rest, w2)))"

section \<open>What the application receives\<close>

definition status_payload :: "DaemonReply \<Rightarrow> StatusSnapshot payload" where
  "status_payload r = (case r of
     ReplyStatusIs s \<Rightarrow> Payload (Some ''status'') (Some \<lparr>snap_state = ds_state s,
       snap_virtual_interface = ds_virtual_interface s, snap_assigned_ip = ds_assigned_ip s,
       snap_session_duration_secs = Some (ds_session_duration_secs s)\<rparr>)
   | ReplySuccess \<Rightarrow> Payload (Some ''success'') None
   | ReplyPong \<Rightarrow> Payload (Some ''pong'') None
   | ReplyMetricsAre m \<Rightarrow> Payload (Some ''metrics'') None
   | ReplyFailed code m \<Rightarrow> Payload (Some ''error'') None)"

definition metrics_payload :: "DaemonReply \<Rightarrow> Metrics payload" where
  "metrics_payload r = (case r of
     ReplyMetricsAre m \<Rightarrow> Payload (Some ''metrics'') (Some \<lparr>rx_rate_bps = Some (bm_rx_rate_bps m),
       tx_rate_bps = Some (bm_tx_rate_bps m), latency_rtt_ms = bm_latency_rtt_ms m,
       rx_bytes = Some (bm_rx_bytes m), tx_bytes = Some (bm_tx_bytes m)\<rparr>)
   | ReplySuccess \<Rightarrow> Payload (Some ''success'') None
   | ReplyPong \<Rightarrow> Payload (Some ''pong'') None
   | ReplyStatusIs s \<Rightarrow> Payload (Some ''status'') None
   | ReplyFailed code m \<Rightarrow> Payload (Some ''error'') None)"

text \<open>The module's listener of the daemon status runs before the store's.\<close>

definition deliver :: "hmac_fn \<Rightarrow> shell_event \<Rightarrow> app \<Rightarrow> app" where
  "deliver hmac e s = (case e of
     EmitDaemonStatus alive \<Rightarrow>
       (let h = (if alive then HealthConnected else HealthOffline)
        in step hmac (step hmac s (DaemonStatusModule h)) (DaemonStatusStore h))
   | EmitVpnStatus r \<Rightarrow> step hmac s (VpnStatus (status_payload r))
   | EmitMetrics r \<Rightarrow> step hmac s (MetricsEvent (metrics_payload r))
   | TrayStatus t \<Rightarrow> s)"

definition deliver_all :: "hmac_fn \<Rightarrow> shell_event list \<Rightarrow> app \<Rightarrow> app" where
  "deliver_all hmac es s = fold (deliver hmac) es s"

end
