(* ===== verification/Shell_Properties.thy ===== *)
theory Shell_Properties
  imports Shell_Client
begin

text \<open>
  The shell and the two sides it connects. In step with the daemon, one turn of the worker brings the
  store to the daemon's state; one late answer puts every later one out of step for good.
\<close>

section \<open>In step\<close>

text \<open>No request of the stream is open, and no answer unread.\<close>

definition in_step :: "DaemonClient \<Rightarrow> bool" where
  "in_step c \<longleftrightarrow> (case cl_stream c of Some s \<Rightarrow> is_connected c \<longrightarrow> s = fresh_stream | None \<Rightarrow> True)"

definition prompt :: "attempt \<Rightarrow> bool" where
  "prompt a \<longleftrightarrow> connect_error a = None \<and> write_error a = None \<and> 2 \<le> answers_in_time a"

definition outcome :: "DaemonReply \<Rightarrow> AppError + DaemonReply" where
  "outcome r = (case r of ReplyFailed code m \<Rightarrow> Inl (DaemonFailure code m) | _ \<Rightarrow> Inr r)"

text \<open>A client whose stream is open with the unread answers \<open>rs\<close>.\<close>

definition reading :: "DaemonReply list \<Rightarrow> DaemonClient \<Rightarrow> DaemonClient" where
  "reading rs c = c\<lparr>cl_stream := Some \<lparr>unanswered = [], arrived = rs\<rparr>, is_connected := True\<rparr>"

lemma reading_simps [simp]:
  "reading rs (reading qs c) = reading rs c" "in_step (reading [] c)"
  "cl_stream (reading rs c) = Some \<lparr>unanswered = [], arrived = rs\<rparr>" "is_connected (reading rs c)"
  "(reading qs c)\<lparr>cl_stream := Some \<lparr>unanswered = [], arrived = rs\<rparr>\<rparr> = reading rs c"
  by (simp_all add: reading_def in_step_def fresh_stream_def)

lemma prompt_takes [simp]:
  "prompt a \<Longrightarrow> take (answers_in_time a) [x] = [x]" "prompt a \<Longrightarrow> take (answers_in_time a) [x, y] = [x, y]"
  "prompt a \<Longrightarrow> drop (answers_in_time a) [x] = []" "prompt a \<Longrightarrow> drop (answers_in_time a) [x, y] = []"
  by (simp_all add: prompt_def)

lemma prompt_errors [simp]: "prompt a \<Longrightarrow> connect_error a = None" "prompt a \<Longrightarrow> write_error a = None"
  by (simp_all add: prompt_def)

lemma in_step_ensure:
  "in_step c \<Longrightarrow> connect_error a = None \<Longrightarrow> ensure_connected a c = (Inr (), reading [] c)"
  by (cases c) (auto simp: in_step_def ensure_connected_def reading_def fresh_stream_def split: option.splits)

lemma reading_ensure [simp]:
  "is_connected c \<Longrightarrow> cl_stream c \<noteq> None \<Longrightarrow> ensure_connected a c = (Inr (), c)"
  by (simp add: ensure_connected_def)

lemma send_in_step:
  assumes "in_step c" and "prompt a"
  shows "send_request a req c = (outcome (daemon_answers a req), reading [] c)"
  using assms by (simp add: send_request_def in_step_ensure serve_def Let_def outcome_def)

text \<open>One answer behind: the answer read is the one before, and the new one is left over.\<close>

lemma send_behind:
  assumes "prompt a"
  shows "send_request a req (reading [x] c) = (outcome x, reading [daemon_answers a req] c)"
  using assms by (simp add: send_request_def serve_def Let_def outcome_def)

text \<open>How it comes about: the daemon's answer is not there when the time is over.\<close>

definition awaiting :: "DaemonRequest \<Rightarrow> DaemonClient \<Rightarrow> DaemonClient" where
  "awaiting late c = (reading [] c)\<lparr>cl_stream := Some \<lparr>unanswered = [late], arrived = []\<rparr>\<rparr>"

lemma late_answer:
  assumes "in_step c" and "connect_error a = None" and "write_error a = None"
    and "answers_in_time a = 0" and "garbled a = None" and "\<not> closed a"
  shows "send_request a req c = (Inl (IpcFailure ''IPC Request timed out''), awaiting req c)"
  using assms by (simp add: send_request_def in_step_ensure serve_def Let_def awaiting_def)

lemma send_after_late:
  assumes "prompt a"
  shows "send_request a req (awaiting late c) = (outcome (daemon_answers a late), reading [daemon_answers a req] c)"
  using assms by (simp add: send_request_def awaiting_def serve_def Let_def outcome_def)

section \<open>A turn in step\<close>

text \<open>The answers of a daemon to the questions of the worker.\<close>

definition asks :: "daemon \<Rightarrow> nat \<Rightarrow> attempt \<Rightarrow> bool" where
  "asks d now a \<longleftrightarrow> prompt a \<and> daemon_answers a ReqPing = ReplyPong \<and>
     daemon_answers a ReqGetStatus = ReplyStatusIs (get_status now d) \<and>
     daemon_answers a ReqGetMetrics = ReplyMetricsAre (latest_metrics d)"

definition health_events :: "bool \<Rightarrow> worker \<Rightarrow> shell_event list" where
  "health_events alive w = (if alive \<noteq> was_online w \<or> first_tick w then [EmitDaemonStatus alive] else [])"

definition told :: "bool \<Rightarrow> worker \<Rightarrow> worker" where
  "told alive w = w\<lparr>was_online := alive, first_tick := False\<rparr>"

lemma worker_health_eq:
  assumes "send_request a ReqPing (wk_client w) = (r, c)"
  shows "worker_health a w = (r = Inr ReplyPong, health_events (r = Inr ReplyPong) w,
    (told (r = Inr ReplyPong) w)\<lparr>wk_client := c\<rparr>)"
  using assms by (cases w) (auto simp: worker_health_def ping_def health_events_def told_def Let_def)

definition tray_events :: "string \<Rightarrow> worker \<Rightarrow> shell_event list" where
  "tray_events st w = (if last_vpn_state w \<noteq> Some st then [TrayStatus st] else [])"

lemma tick_in_step:
  assumes "in_step (wk_client w)" and "asks d n1 a1" and "asks d n2 a2" and "asks d n3 a3"
  shows "worker_tick (a1, a2, a3) w =
    (health_events True w @ tray_events (debug_state (dstate d)) w @
       [EmitVpnStatus (ReplyStatusIs (get_status n2 d)), EmitMetrics (ReplyMetricsAre (latest_metrics d))],
     \<lparr>wk_client = reading [] (wk_client w), was_online = True, first_tick = False,
      last_vpn_state = Some (debug_state (dstate d))\<rparr>)"
proof -
  have p: "prompt a1" "prompt a2" "prompt a3" using assms by (simp_all add: asks_def)
  have h: "worker_health a1 w = (True, health_events True w, (told True w)\<lparr>wk_client := reading [] (wk_client w)\<rparr>)"
    using worker_health_eq [OF send_in_step [OF assms(1) p(1)]] assms(2) by (simp add: asks_def outcome_def)
  have st: "ds_state (get_status n2 d) = dstate d" by (simp add: get_status_def split: option.split)
  show ?thesis
    unfolding worker_tick_def prod.case h using assms(3,4) p
    by (cases w) (simp add: worker_status_def worker_metrics_def send_in_step outcome_def
        asks_def st tray_events_def told_def Let_def)
qed

text \<open>What a turn's events do to the store.\<close>

lemma deliver_frame [simp]:
  "tauri (deliver hmac e s) = tauri s" "ipcSubscribed (deliver hmac e s) = ipcSubscribed s"
  by (cases e; simp add: deliver_def Let_def daemon_status_module_def setDaemonHealth_def daemon_status_store_def
      invalidate_tunnel_def vpn_status_update_def apply_status_def announce_def notify_once_def metrics_update_def
      apply_metrics_def split: payload.split option.split ConnectionState.split)+

lemma announce_states [simp]:
  "connectionState (announce g p s) = connectionState s" "daemonHealth (announce g p s) = daemonHealth s"
  by (simp_all add: announce_def notify_once_def Let_def split: ConnectionState.split)

lemma deliver_status:
  "tauri s \<Longrightarrow> ipcSubscribed s \<Longrightarrow> connectionState (deliver hmac (EmitVpnStatus (ReplyStatusIs g)) s) = ds_state g"
  "tauri s \<Longrightarrow> ipcSubscribed s \<Longrightarrow> daemonHealth (deliver hmac (EmitVpnStatus (ReplyStatusIs g)) s) = daemonHealth s"
  by (simp_all add: deliver_def status_payload_def vpn_status_update_def apply_status_def Let_def)

lemma deliver_metrics [simp]:
  "connectionState (deliver hmac (EmitMetrics r) s) = connectionState s"
  "daemonHealth (deliver hmac (EmitMetrics r) s) = daemonHealth s"
  by (simp_all add: deliver_def metrics_update_def apply_metrics_def Let_def split: payload.split option.split)

lemma deliver_tray [simp]: "deliver hmac (TrayStatus t) s = s"
  by (simp add: deliver_def)

lemma deliver_online: "tauri s \<Longrightarrow> daemonHealth (deliver hmac (EmitDaemonStatus True) s) = HealthConnected"
  by (simp add: deliver_def Let_def daemon_status_module_def setDaemonHealth_def daemon_status_store_def)

lemma worker_turn:
  assumes "in_step (wk_client w)" and "asks d n1 a1" and "asks d n2 a2" and "asks d n3 a3"
    and "tauri s" and "ipcSubscribed s"
  shows "let (events, w') = worker_tick (a1, a2, a3) w; s' = deliver_all hmac events s
    in connectionState s' = dstate d \<and>
       daemonHealth s' = (if was_online w \<and> \<not> first_tick w then daemonHealth s else HealthConnected) \<and>
       in_step (wk_client w') \<and> was_online w' \<and> last_vpn_state w' = Some (debug_state (dstate d))"
proof -
  have st: "ds_state (get_status n2 d) = dstate d" by (simp add: get_status_def split: option.split)
  define s1 where "s1 = deliver_all hmac (health_events True w @ tray_events (debug_state (dstate d)) w) s"
  have s1: "tauri s1" "ipcSubscribed s1"
      "daemonHealth s1 = (if was_online w \<and> \<not> first_tick w then daemonHealth s else HealthConnected)"
    using assms(5,6) by (auto simp: s1_def deliver_all_def health_events_def tray_events_def deliver_online)
  have "deliver_all hmac (fst (worker_tick (a1, a2, a3) w)) s =
      deliver hmac (EmitMetrics (ReplyMetricsAre (latest_metrics d)))
        (deliver hmac (EmitVpnStatus (ReplyStatusIs (get_status n2 d))) s1)"
    by (simp add: tick_in_step [OF assms(1-4)] s1_def deliver_all_def)
  then show ?thesis
    using s1 st by (simp add: tick_in_step [OF assms(1-4)] deliver_status)
qed

text \<open>
  Property C16. The application follows the daemon. While the shell's client is in step and the daemon
  answers, one turn of the worker, delivered to a store that has subscribed, leaves the store in the
  connection state the daemon is in, whatever state it was in before, and the client in step for the
  next turn. The mark whether the daemon is reachable is set only when the worker's own view of it
  changes: at its first turn and after a turn without an answer the store then shows the daemon as
  reachable; otherwise the mark stays as it was, also when it is wrong because a probe of the store
  failed meanwhile.
\<close>

theorem store_follows_daemon:
  assumes "in_step (wk_client w)" and "asks d n1 a1" and "asks d n2 a2" and "asks d n3 a3"
    and "tauri s" and "ipcSubscribed s"
  shows "let (events, w') = worker_tick (a1, a2, a3) w; s' = deliver_all hmac events s
    in connectionState s' = dstate d \<and>
       daemonHealth s' = (if was_online w \<and> \<not> first_tick w then daemonHealth s else HealthConnected) \<and>
       in_step (wk_client w') \<and> was_online w' \<and> last_vpn_state w' = Some (debug_state (dstate d))"
  by (rule worker_turn [OF assms])

section \<open>Out of step\<close>

primrec is_status :: "DaemonReply \<Rightarrow> bool" where
  "is_status ReplySuccess = False"
| "is_status ReplyPong = False"
| "is_status (ReplyStatusIs s) = True"
| "is_status (ReplyMetricsAre m) = False"
| "is_status (ReplyFailed k m) = False"

primrec is_metrics :: "DaemonReply \<Rightarrow> bool" where
  "is_metrics ReplySuccess = False"
| "is_metrics ReplyPong = False"
| "is_metrics (ReplyStatusIs s) = False"
| "is_metrics (ReplyMetricsAre m) = True"
| "is_metrics (ReplyFailed k m) = False"

text \<open>A daemon at work: it answers in time, each question with an answer of its kind.\<close>

definition alive :: "attempt \<Rightarrow> bool" where
  "alive a \<longleftrightarrow> prompt a \<and> daemon_answers a ReqPing = ReplyPong \<and>
     is_status (daemon_answers a ReqGetStatus) \<and> is_metrics (daemon_answers a ReqGetMetrics)"

lemma handle_request_kinds:
  "fst (handle_request env now started ReqPing d) = ReplyPong"
  "is_status (fst (handle_request env now started ReqGetStatus d))"
  "is_metrics (fst (handle_request env now started ReqGetMetrics d))"
  "fst (handle_request env now started (ReqConnect p) d) \<noteq> ReplyPong"
  "fst (handle_request env now started (ReqDisconnect force) d) \<noteq> ReplyPong"
  by (simp_all add: reply_of_def split: prod.split sum.split)

lemma outcome_pong: "outcome x = Inr ReplyPong \<longleftrightarrow> x = ReplyPong"
  by (cases x) (simp_all add: outcome_def)

text \<open>A turn without an answer to its ping, and one that reads the pong of the turn before.\<close>

lemma tick_deaf:
  assumes "send_request a1 ReqPing (wk_client w) = (outcome x, reading [ReplyPong] c)" and "x \<noteq> ReplyPong"
  shows "\<exists>es. worker_tick (a1, a2, a3) w = (health_events False w @ es,
      (told False w)\<lparr>wk_client := reading [ReplyPong] c, last_vpn_state := Some ''Disconnected''\<rparr>) \<and>
    (\<forall>e\<in>set es. \<exists>t. e = TrayStatus t)"
  unfolding worker_tick_def prod.case worker_health_eq [OF assms(1)]
  using assms(2) by (cases w) (simp add: outcome_pong worker_idle_def told_def)

lemma tick_stale:
  assumes "wk_client w = reading [ReplyPong] c" and "alive a1" and "alive a2" and "alive a3"
  shows "\<exists>g. is_status g \<and> worker_tick (a1, a2, a3) w =
    (health_events True w @ [EmitVpnStatus ReplyPong, EmitMetrics g],
     (told True w)\<lparr>wk_client := reading [daemon_answers a3 ReqGetMetrics] c\<rparr>)"
proof -
  have p: "prompt a1" "prompt a2" "prompt a3" using assms by (simp_all add: alive_def)
  have "send_request a1 ReqPing (wk_client w) = (outcome ReplyPong, reading [ReplyPong] c)"
    using send_behind [OF p(1)] assms by (simp add: alive_def)
  note h = worker_health_eq [OF this]
  obtain g where g: "daemon_answers a2 ReqGetStatus = ReplyStatusIs g"
    using assms(3) by (cases "daemon_answers a2 ReqGetStatus") (simp_all add: alive_def)
  show ?thesis
    unfolding worker_tick_def prod.case h
    using p g by (cases w) (simp add: outcome_pong worker_status_def worker_metrics_def send_behind outcome_def
        told_def Let_def)
qed

text \<open>What turn \<open>i\<close> tells the application: the daemon's health flips, and no status.\<close>

definition flaps :: "bool \<Rightarrow> shell_event list \<Rightarrow> bool" where
  "flaps b es \<longleftrightarrow> EmitDaemonStatus b \<in> set es \<and> (\<forall>g. EmitVpnStatus (ReplyStatusIs g) \<notin> set es)"

lemma flaps_deaf:
  "was_online w \<Longrightarrow> \<forall>e\<in>set es. \<exists>t. e = TrayStatus t \<Longrightarrow> flaps False (health_events False w @ es)"
  by (auto simp: flaps_def health_events_def)

lemma flaps_stale:
  "\<not> was_online w \<Longrightarrow> flaps True (health_events True w @ [EmitVpnStatus ReplyPong, EmitMetrics g])"
  by (simp add: flaps_def health_events_def)

fun attempts_alive :: "attempt \<times> attempt \<times> attempt \<Rightarrow> bool" where
  "attempts_alive (a1, a2, a3) \<longleftrightarrow> alive a1 \<and> alive a2 \<and> alive a3"

text \<open>Behind by an answer that is no pong, or by the pong of the turn before.\<close>

definition deaf :: "worker \<Rightarrow> bool" where
  "deaf w \<longleftrightarrow> (\<exists>x c. wk_client w = reading [x] c \<and> x \<noteq> ReplyPong) \<and> was_online w"

definition stale :: "worker \<Rightarrow> bool" where
  "stale w \<longleftrightarrow> (\<exists>c. wk_client w = reading [ReplyPong] c) \<and> \<not> was_online w"

lemma deaf_tick:
  assumes "deaf w" and "attempts_alive t"
  shows "flaps False (fst (worker_tick t w)) \<and> stale (snd (worker_tick t w))"
proof -
  obtain a1 a2 a3 where t: "t = (a1, a2, a3)" by (cases t) auto
  obtain x c where x: "wk_client w = reading [x] c" "x \<noteq> ReplyPong" "was_online w"
    using assms(1) by (auto simp: deaf_def)
  have "send_request a1 ReqPing (wk_client w) = (outcome x, reading [ReplyPong] c)"
    using assms(2) send_behind [of a1 ReqPing x c] by (simp add: alive_def t x)
  from tick_deaf [OF this x(2), of a2 a3] obtain es where
    "worker_tick t w = (health_events False w @ es,
      (told False w)\<lparr>wk_client := reading [ReplyPong] c, last_vpn_state := Some ''Disconnected''\<rparr>)"
    "\<forall>e\<in>set es. \<exists>t. e = TrayStatus t"
    unfolding t by blast
  then show ?thesis using flaps_deaf x(3) by (auto simp: stale_def told_def)
qed

lemma stale_tick:
  assumes "stale w" and "attempts_alive t"
  shows "flaps True (fst (worker_tick t w)) \<and> deaf (snd (worker_tick t w))"
proof -
  obtain a1 a2 a3 where t: "t = (a1, a2, a3)" by (cases t) auto
  obtain c where c: "wk_client w = reading [ReplyPong] c" "\<not> was_online w"
    using assms(1) by (auto simp: stale_def)
  obtain g where "worker_tick t w = (health_events True w @ [EmitVpnStatus ReplyPong, EmitMetrics g],
      (told True w)\<lparr>wk_client := reading [daemon_answers a3 ReqGetMetrics] c\<rparr>)"
    using tick_stale [OF c(1), of a1 a2 a3] assms(2) unfolding t by auto
  moreover have "daemon_answers a3 ReqGetMetrics \<noteq> ReplyPong" using assms(2) by (auto simp: t alive_def)
  ultimately show ?thesis using flaps_stale c(2) by (auto simp: deaf_def told_def)
qed

lemma run_flaps:
  "list_all attempts_alive ts \<Longrightarrow> i < length ts \<Longrightarrow>
   (deaf w \<longrightarrow> flaps (odd i) (fst (worker_run ts w) ! i)) \<and>
   (stale w \<longrightarrow> flaps (even i) (fst (worker_run ts w) ! i))"
proof (induction ts arbitrary: w i)
  case (Cons t ts)
  show ?case
  proof (cases i)
    case 0
    then show ?thesis using Cons.prems deaf_tick stale_tick by (simp add: split_def)
  next
    case (Suc j)
    then show ?thesis
      using Cons.prems Cons.IH [of j "snd (worker_tick t w)"] deaf_tick stale_tick by (auto simp: split_def)
  qed
qed simp

text \<open>
  Property C23. One late answer unhinges the shell for good. A request other than the worker's ping that gets no answer within ten seconds, while the
  worker holds the daemon for reachable, fails, but its stream stays in use; the answer that comes later is read by the next
  request, and every request from then on reads the answer to the one before. So as long as the
  stream lives, although the daemon answers everything in time, the worker reports the daemon as
  lost and as found in turns, every second, and no status report reaches the application any more.
\<close>

theorem one_timeout_unhinges_the_worker:
  assumes "in_step (wk_client w)" and "was_online w"
    and "connect_error a = None" "write_error a = None" "answers_in_time a = 0" "garbled a = None" "\<not> closed a"
    and "list_all attempts_alive ts" and "\<forall>(a1, a2, a3)\<in>set ts. daemon_answers a1 req \<noteq> ReplyPong"
  shows "fst (send_request a req (wk_client w)) = Inl (IpcFailure ''IPC Request timed out'') \<and>
    (\<forall>i<length ts. flaps (odd i)
       (fst (worker_run ts (w\<lparr>wk_client := snd (send_request a req (wk_client w))\<rparr>)) ! i))"
proof (intro conjI allI impI)
  have late: "send_request a req (wk_client w) = (Inl (IpcFailure ''IPC Request timed out''), awaiting req (wk_client w))"
    using assms by (intro late_answer)
  then show "fst (send_request a req (wk_client w)) = Inl (IpcFailure ''IPC Request timed out'')" by simp
  fix i
  assume i: "i < length ts"
  let ?w = "w\<lparr>wk_client := awaiting req (wk_client w)\<rparr>"
  obtain t ts' where ts: "ts = t # ts'" using i by (cases ts) auto
  obtain a1 a2 a3 where t: "t = (a1, a2, a3)" by (cases t) auto
  have al: "alive a1" "list_all attempts_alive ts'" "daemon_answers a1 req \<noteq> ReplyPong"
    using assms(8,9) by (auto simp: ts t)
  have "send_request a1 ReqPing (wk_client ?w) = (outcome (daemon_answers a1 req), reading [ReplyPong] (wk_client w))"
    using al(1) send_after_late by (simp add: alive_def)
  from tick_deaf [OF this al(3), of a2 a3] obtain es where
    es: "worker_tick t ?w = (health_events False ?w @ es,
      (told False ?w)\<lparr>wk_client := reading [ReplyPong] (wk_client w), last_vpn_state := Some ''Disconnected''\<rparr>)"
    "\<forall>e\<in>set es. \<exists>t. e = TrayStatus t"
    unfolding t by blast
  have "stale (snd (worker_tick t ?w))" using es(1) by (auto simp: stale_def told_def)
  moreover have "flaps False (fst (worker_tick t ?w))" using flaps_deaf [of ?w] assms(2) es by simp
  ultimately show "flaps (odd i) (fst (worker_run ts (w\<lparr>wk_client := snd (send_request a req (wk_client w))\<rparr>)) ! i)"
    using run_flaps [OF al(2), of _ "snd (worker_tick t ?w)"] i
    by (cases i) (auto simp: late ts split_def)
qed


section \<open>Errors on their way to the application\<close>

text \<open>
  An error answer of the daemon never reaches the application as an answer: the client turns it into a
  rejected promise. The branch of the store's connect that looks for an error answer cannot run.
\<close>

lemma no_error_answer: "bridge_reply (fst (send_request a req c)) \<noteq> Inr (RespError m)"
proof -
  have o: "fst (send_request a req c) \<noteq> Inr (ReplyFailed k msg)" for k msg
    by (auto simp: send_request_def Let_def split: prod.splits sum.splits option.splits list.splits
        DaemonReply.splits if_splits)
  show ?thesis
    using o by (auto simp: bridge_reply_def split: sum.split DaemonReply.split)
qed

lemma refused_connect_in_store:
  assumes "in_step c" and "prompt a" and "daemon_answers a (ReqConnect p) = ReplyFailed k m"
  shows "connect_reply (bridge_reply (fst (send_request a (ReqConnect p) c))) s =
    (addLog ERROR ''TUNNEL_ENGINE'' (''Failed to invoke vpn_connect: Daemon returned error (code '' @
       string_of_nat k @ ''): '' @ m) s)\<lparr>connectionState := ErrorState\<rparr>"
  using assms by (simp add: send_in_step outcome_def bridge_reply_def connect_reply_def)

section \<open>Witnesses\<close>

definition resting_daemon :: daemon where
  "resting_daemon = daemon_new None"

definition good_attempt :: attempt where
  "good_attempt = \<lparr>connect_error = None, write_error = None, answers_in_time = 2,
     daemon_answers = (\<lambda>r. case r of ReqPing \<Rightarrow> ReplyPong
       | ReqGetStatus \<Rightarrow> ReplyStatusIs (get_status 5 resting_daemon)
       | ReqGetMetrics \<Rightarrow> ReplyMetricsAre (latest_metrics resting_daemon) | _ \<Rightarrow> ReplySuccess),
     garbled = None, closed = False\<rparr>"

definition late_attempt :: attempt where
  "late_attempt = good_attempt\<lparr>answers_in_time := 0\<rparr>"

definition fresh_worker :: worker where
  "fresh_worker = worker_new (client_new ''/run/vpnhub/vpnhub.sock'')"

definition subscribed_app :: app where
  "subscribed_app = (initial_app True \<lparr>now_ms = 0, hours = 0, minutes = 0, seconds = 0, millis = 0\<rparr>
     (\<lambda>n. ''id'') None)\<lparr>connectionState := Connected, ipcSubscribed := True\<rparr>"

theorem store_follows_daemon_witness:
  "connectionState subscribed_app = Connected \<and>
   connectionState (deliver_all (\<lambda>k m. None) (fst (worker_tick (good_attempt, good_attempt, good_attempt) fresh_worker))
     subscribed_app) = Disconnected"
proof -
  have "in_step (wk_client fresh_worker)"
    by (simp add: fresh_worker_def worker_new_def client_new_def in_step_def)
  moreover have a: "asks resting_daemon 5 good_attempt"
    by (simp add: asks_def good_attempt_def prompt_def)
  moreover have "tauri subscribed_app" "ipcSubscribed subscribed_app" "first_tick fresh_worker"
    by (simp_all add: subscribed_app_def initial_app_def fresh_worker_def worker_new_def)
  moreover have "dstate resting_daemon = Disconnected"
    by (simp add: resting_daemon_def daemon_new_def state_manager_new_def)
  ultimately show ?thesis
    using store_follows_daemon [of fresh_worker resting_daemon 5 good_attempt 5 good_attempt 5 good_attempt
      subscribed_app "\<lambda>k m. None"]
    by (simp add: split_def Let_def subscribed_app_def)
qed

theorem one_timeout_unhinges_the_worker_witness:
  "flaps True (fst (worker_run (replicate 4 (good_attempt, good_attempt, good_attempt))
     (fresh_worker\<lparr>was_online := True,
        wk_client := snd (send_request late_attempt (ReqDisconnect False) (wk_client fresh_worker))\<rparr>)) ! 3)"
proof -
  let ?w = "fresh_worker\<lparr>was_online := True\<rparr>"
  have "in_step (wk_client ?w)" by (simp add: fresh_worker_def worker_new_def client_new_def in_step_def)
  moreover have "list_all attempts_alive (replicate 4 (good_attempt, good_attempt, good_attempt))"
    by (simp add: alive_def good_attempt_def prompt_def numeral_nat list_all_iff)
  moreover have "\<forall>(a1, a2, a3)\<in>set (replicate 4 (good_attempt, good_attempt, good_attempt)).
      daemon_answers a1 (ReqDisconnect False) \<noteq> ReplyPong"
    by (simp add: good_attempt_def)
  ultimately show ?thesis
    using one_timeout_unhinges_the_worker [of ?w late_attempt
        "replicate 4 (good_attempt, good_attempt, good_attempt)" "ReqDisconnect False"]
    by (auto simp: late_attempt_def good_attempt_def dest: spec [of _ 3])
qed

end
