(* ===== verification/App_Storage.thy ===== *)
theory App_Storage
  imports Vpn_Session Shell_Client
begin

text \<open>
  The desktop shell's storage: \<^verbatim>\<open>src-tauri/src/storage/models.rs\<close>, \<^verbatim>\<open>vault.rs\<close> and \<^verbatim>\<open>manager.rs\<close>, and the
  command \<^verbatim>\<open>vpn_connect\<close> of \<^verbatim>\<open>commands/vpn.rs\<close>, which puts the secrets of the vault into a connect
  request. The JSON texts and the AES-GCM cipher are parameters; the key is part of the cipher. A
  file is its content or absent, and how a write ends is decided by the environment.
\<close>

section \<open>What arrives\<close>

text \<open>
  A payload of the application as the shell reads it: absent fields take their defaults, and a number
  that does not fit its type (\<open>u16\<close>, \<open>u32\<close>) or a missing required field makes the command fail.
\<close>

definition receive_credentials :: "StoredCredentials \<Rightarrow> StoredCredentials" where
  "receive_credentials c = c\<lparr>
     sc_password_mode := Some (nullish (sc_password_mode c) PmStatic),
     sc_totp_format := Some (nullish (sc_totp_format c) TfAppend),
     sc_has_ca_cert := Some (nullish (sc_has_ca_cert c) False),
     sc_has_tls_auth := Some (nullish (sc_has_tls_auth c) False),
     sc_has_tls_crypt := Some (nullish (sc_has_tls_crypt c) False)\<rparr>"

definition fits :: "nat \<Rightarrow> nat option \<Rightarrow> bool" where
  "fits w x = (case x of Some n \<Rightarrow> n < 2 ^ w | None \<Rightarrow> False)"

definition receive_profile :: "StoredProfile \<Rightarrow> StoredProfile option" where
  "receive_profile p =
     (if fits 16 (Some (sp_server_port p)) \<and> fits 32 (sp_ping_ms p)
      then Some (p\<lparr>sp_credentials := map_option receive_credentials (sp_credentials p),
                   sp_intranet_only := Some (nullish (sp_intranet_only p) False),
                   sp_custom_subnets := Some (nullish (sp_custom_subnets p) [])\<rparr>)
      else None)"

definition receive_secret :: "ProfileSecretPayload \<Rightarrow> ProfileSecretPayload option" where
  "receive_secret s = (case s of
     SecretUserPassword u \<Rightarrow> (if us_reneg_sec u = None \<or> fits 32 (us_reneg_sec u) then Some s else None)
   | _ \<Rightarrow> Some s)"

definition receive_settings :: "StoredSecuritySettings \<Rightarrow> StoredSecuritySettings option" where
  "receive_settings s = (case ss_custom_dns_provider s of
     None \<Rightarrow> None
   | Some _ \<Rightarrow> Some (s\<lparr>ss_default_intranet_only := Some (nullish (ss_default_intranet_only s) False)\<rparr>))"

definition default_settings :: StoredSecuritySettings where
  "default_settings = \<lparr>ss_kill_switch = KsStrict, ss_dns_protection = True,
     ss_custom_dns_provider = Some Cloudflare, ss_custom_dns_servers = Some [''1.1.1.1'', ''1.0.0.1''],
     ss_ipv6_leak_protection = True, ss_webrtc_leak_protection = True, ss_lan_traffic_bypass = True,
     ss_default_intranet_only = Some False\<rparr>"

section \<open>State\<close>

type_synonym secrets = "string \<rightharpoonup> ProfileSecretPayload"

record disk =
  profiles_json :: "string option"
  settings_json :: "string option"
  rules_json :: "string option"
  vault_enc :: "8 word list option"

record StorageManager = disk +
  vault_cache :: secrets
  mg_profiles :: "StoredProfile list"
  mg_settings :: StoredSecuritySettings
  mg_app_rules :: "AppRule list"
  mg_ip_rules :: "IpDomainRule list"

record serde =
  ser_profiles :: "StoredProfile list \<Rightarrow> string"
  de_profiles :: "string \<Rightarrow> StoredProfile list option"
  ser_settings :: "StoredSecuritySettings \<Rightarrow> string"
  de_settings :: "string \<Rightarrow> StoredSecuritySettings option"
  ser_rules :: "AppRule list \<times> IpDomainRule list \<Rightarrow> string"
  de_rules :: "string \<Rightarrow> (AppRule list \<times> IpDomainRule list) option"
  ser_secrets :: "secrets \<Rightarrow> 8 word list"
  de_secrets :: "8 word list \<Rightarrow> secrets option"
  encrypt :: "8 word list \<Rightarrow> 8 word list \<Rightarrow> 8 word list option"
  decrypt :: "8 word list \<Rightarrow> 8 word list \<Rightarrow> 8 word list option"

text \<open>
  \<open>fs::write\<close> opens the file, which empties it, and then writes. It succeeds, or it cannot open the file
  and leaves it as it was, or it breaks off after some of the bytes, as on a full disk.
\<close>

datatype write_result = Written | NotOpened | CutShort nat

definition fs_write :: "write_result \<Rightarrow> 'a list \<Rightarrow> 'a list option \<Rightarrow> bool \<times> 'a list option" where
  "fs_write r content file = (case r of
     Written \<Rightarrow> (True, Some content) | NotOpened \<Rightarrow> (False, file) | CutShort n \<Rightarrow> (False, Some (take n content)))"

text \<open>One command's circumstances: how each write ends, the nonce and the identifier drawn.\<close>

record io =
  write_profiles :: write_result
  write_settings :: write_result
  write_rules :: write_result
  write_vault :: write_result
  io_nonce :: "8 word list"
  io_uuid :: string

datatype storage_error = VaultFailure string | WriteFailure string

section \<open>Vault\<close>

definition save_to_disk :: "serde \<Rightarrow> io \<Rightarrow> StorageManager \<Rightarrow> (storage_error + unit) \<times> StorageManager" where
  "save_to_disk sd io m = (case encrypt sd (io_nonce io) (ser_secrets sd (vault_cache m)) of
     None \<Rightarrow> (Inl (VaultFailure ''AES-GCM encryption failed''), m)
   | Some ciphertext \<Rightarrow>
       (case fs_write (write_vault io) (io_nonce io @ ciphertext) (vault_enc m) of (ok, file) \<Rightarrow>
          (if ok then Inr () else Inl (WriteFailure ''vault.enc''), m\<lparr>vault_enc := file\<rparr>)))"

definition store_secret ::
  "serde \<Rightarrow> io \<Rightarrow> string \<Rightarrow> ProfileSecretPayload \<Rightarrow> StorageManager \<Rightarrow> (storage_error + unit) \<times> StorageManager" where
  "store_secret sd io k s m = save_to_disk sd io (m\<lparr>vault_cache := (vault_cache m)(k \<mapsto> s)\<rparr>)"

definition remove_secret ::
  "serde \<Rightarrow> io \<Rightarrow> string \<Rightarrow> StorageManager \<Rightarrow> (storage_error + unit) \<times> StorageManager" where
  "remove_secret sd io k m = save_to_disk sd io (m\<lparr>vault_cache := (vault_cache m)(k := None)\<rparr>)"

definition load_from_disk :: "serde \<Rightarrow> 8 word list \<Rightarrow> storage_error + secrets" where
  "load_from_disk sd payload =
     (if length payload < 12 then Inl (VaultFailure ''Vault file corrupted (too small)'')
      else case decrypt sd (take 12 payload) (drop 12 payload) of
        None \<Rightarrow> Inl (VaultFailure ''Vault decryption / authentication failed'')
      | Some plaintext \<Rightarrow> (case de_secrets sd plaintext of
          None \<Rightarrow> Inl (VaultFailure ''Vault JSON parse failed'')
        | Some cache \<Rightarrow> Inr cache))"

text \<open>A vault that cannot be read starts empty.\<close>

definition vault_new :: "serde \<Rightarrow> 8 word list option \<Rightarrow> secrets" where
  "vault_new sd file = (case file of
     None \<Rightarrow> Map.empty
   | Some payload \<Rightarrow> (case load_from_disk sd payload of Inl e \<Rightarrow> Map.empty | Inr cache \<Rightarrow> cache))"

section \<open>Manager\<close>

definition persist_profiles ::
  "serde \<Rightarrow> io \<Rightarrow> StoredProfile list \<Rightarrow> StorageManager \<Rightarrow> (storage_error + unit) \<times> StorageManager" where
  "persist_profiles sd io ps m =
     (case fs_write (write_profiles io) (ser_profiles sd ps) (profiles_json m) of (ok, file) \<Rightarrow>
        (if ok then Inr () else Inl (WriteFailure ''profiles.json''), m\<lparr>profiles_json := file\<rparr>))"

definition persist_settings ::
  "serde \<Rightarrow> io \<Rightarrow> StoredSecuritySettings \<Rightarrow> StorageManager \<Rightarrow> (storage_error + unit) \<times> StorageManager" where
  "persist_settings sd io s m =
     (case fs_write (write_settings io) (ser_settings sd s) (settings_json m) of (ok, file) \<Rightarrow>
        (if ok then Inr () else Inl (WriteFailure ''settings.json''), m\<lparr>settings_json := file\<rparr>))"

definition persist_split_rules ::
  "serde \<Rightarrow> io \<Rightarrow> AppRule list \<Rightarrow> IpDomainRule list \<Rightarrow> StorageManager \<Rightarrow>
   (storage_error + unit) \<times> StorageManager" where
  "persist_split_rules sd io apps ips m =
     (case fs_write (write_rules io) (ser_rules sd (apps, ips)) (rules_json m) of (ok, file) \<Rightarrow>
        (if ok then Inr () else Inl (WriteFailure ''rules.json''), m\<lparr>rules_json := file\<rparr>))"

text \<open>The loop that replaces the first entry with the identifier, or inserts at the front.\<close>

fun replace_first :: "StoredProfile \<Rightarrow> StoredProfile list \<Rightarrow> StoredProfile list option" where
  "replace_first p [] = None"
| "replace_first p (q # qs) = (if sp_id q = sp_id p then Some (p # qs)
     else map_option ((#) q) (replace_first p qs))"

definition upsert :: "StoredProfile \<Rightarrow> StoredProfile list \<Rightarrow> StoredProfile list" where
  "upsert p ps = (case replace_first p ps of Some qs \<Rightarrow> qs | None \<Rightarrow> p # ps)"

definition save_profile ::
  "serde \<Rightarrow> io \<Rightarrow> StoredProfile \<Rightarrow> ProfileSecretPayload option \<Rightarrow> StorageManager \<Rightarrow>
   (storage_error + StoredProfile) \<times> StorageManager" where
  "save_profile sd io profile0 secret m0 =
     (let profile = (if trim (sp_id profile0) = [] then profile0\<lparr>sp_id := io_uuid io\<rparr> else profile0);
          (r, m1) = (case secret of Some sec \<Rightarrow> store_secret sd io (sp_id profile) sec m0 | None \<Rightarrow> (Inr (), m0))
      in case r of
           Inl e \<Rightarrow> (Inl e, m1)
         | Inr _ \<Rightarrow>
             let m2 = m1\<lparr>mg_profiles := upsert profile (mg_profiles m1)\<rparr>
             in (case persist_profiles sd io (mg_profiles m2) m2 of
                   (Inl e, m3) \<Rightarrow> (Inl e, m3) | (Inr _, m3) \<Rightarrow> (Inr profile, m3)))"

definition delete_profile ::
  "serde \<Rightarrow> io \<Rightarrow> string \<Rightarrow> StorageManager \<Rightarrow> (storage_error + unit) \<times> StorageManager" where
  "delete_profile sd io k m =
     (let m1 = snd (remove_secret sd io k m);
          m2 = m1\<lparr>mg_profiles := remove_by sp_id k (mg_profiles m1)\<rparr>
      in persist_profiles sd io (mg_profiles m2) m2)"

definition save_security_settings ::
  "serde \<Rightarrow> io \<Rightarrow> StoredSecuritySettings \<Rightarrow> StorageManager \<Rightarrow> (storage_error + unit) \<times> StorageManager" where
  "save_security_settings sd io s m = (case persist_settings sd io s m of
     (Inl e, m1) \<Rightarrow> (Inl e, m1) | (Inr _, m1) \<Rightarrow> (Inr (), m1\<lparr>mg_settings := s\<rparr>))"

definition save_split_rules ::
  "serde \<Rightarrow> io \<Rightarrow> AppRule list \<Rightarrow> IpDomainRule list \<Rightarrow> StorageManager \<Rightarrow>
   (storage_error + unit) \<times> StorageManager" where
  "save_split_rules sd io apps ips m = (case persist_split_rules sd io apps ips m of
     (Inl e, m1) \<Rightarrow> (Inl e, m1)
   | (Inr _, m1) \<Rightarrow> (Inr (), m1\<lparr>mg_app_rules := apps, mg_ip_rules := ips\<rparr>))"

text \<open>Starting: a file that cannot be read leaves its default; a missing one is written.\<close>

definition load_or :: "('t \<Rightarrow> 'v option) \<Rightarrow> 't option \<Rightarrow> 'v \<Rightarrow> 'v" where
  "load_or parse file dflt = (case file of
     Some t \<Rightarrow> (case parse t of Some v \<Rightarrow> v | None \<Rightarrow> dflt) | None \<Rightarrow> dflt)"

definition manager_new :: "serde \<Rightarrow> io \<Rightarrow> disk \<Rightarrow> storage_error + StorageManager" where
  "manager_new sd io d =
     (let rules = load_or (de_rules sd) (rules_json d) ([], []);
          m = disk.extend d \<lparr>vault_cache = vault_new sd (vault_enc d),
                mg_profiles = load_or (de_profiles sd) (profiles_json d) [],
                mg_settings = load_or (de_settings sd) (settings_json d) default_settings,
                mg_app_rules = fst rules, mg_ip_rules = snd rules\<rparr>;
          ensure = (\<lambda>missing persist st. case st of
             Inl e \<Rightarrow> Inl e
           | Inr x \<Rightarrow> if missing then (case persist x of (Inl e, _) \<Rightarrow> Inl e | (Inr _, x') \<Rightarrow> Inr x') else Inr x)
      in ensure (rules_json d = None) (persist_split_rules sd io [] [])
           (ensure (settings_json d = None) (persist_settings sd io default_settings)
             (ensure (profiles_json d = None) (persist_profiles sd io []) (Inr m))))"

definition get_full_snapshot :: "StorageManager \<Rightarrow> FullStorageSnapshot" where
  "get_full_snapshot m = \<lparr>snap_profiles = mg_profiles m, snap_secrets = Some (vault_cache m),
     snap_security_settings = mg_settings m, snap_app_rules = mg_app_rules m,
     snap_ip_rules = mg_ip_rules m\<rparr>"

section \<open>Connecting\<close>

definition user_auth :: "UserPasswordSecret \<Rightarrow> string \<Rightarrow> AuthConfig" where
  "user_auth u pw = AuthUserPassword \<lparr>ua_username = us_username u, ua_password = pw,
     ua_ca_cert = us_ca_cert u, ua_client_cert = us_client_cert u, ua_client_key = us_client_key u,
     ua_tls_auth_key = us_tls_auth_key u, ua_tls_crypt_key = us_tls_crypt_key u,
     ua_key_direction = us_key_direction u, ua_remote_cert_tls_server = us_remote_cert_tls_server u,
     ua_reneg_sec = us_reneg_sec u, ua_ovpn_config = us_ovpn_config u\<rparr>"

definition inject_secret :: "ProfileSecretPayload \<Rightarrow> AuthConfig \<Rightarrow> AuthConfig" where
  "inject_secret secret auth = (case secret of
     SecretWireguard k psk \<Rightarrow> AuthWireguardKey k psk
   | SecretUserPassword u \<Rightarrow> user_auth u (case auth of
       AuthUserPassword a \<Rightarrow> if ua_password a \<noteq> [] then ua_password a else us_password u
     | _ \<Rightarrow> us_password u)
   | SecretRawOvpn r \<Rightarrow> (case auth of
       AuthUserPassword a \<Rightarrow>
         if ua_password a \<noteq> []
         then AuthRawOvpn (rs_config_content r)
                (if ua_username a \<noteq> [] then Some (ua_username a) else rs_username r) (Some (ua_password a))
         else AuthRawOvpn (rs_config_content r) (rs_username r) (rs_password r)
     | _ \<Rightarrow> AuthRawOvpn (rs_config_content r) (rs_username r) (rs_password r)))"

definition vault_params :: "secrets \<Rightarrow> VpnConnectParams \<Rightarrow> VpnConnectParams" where
  "vault_params cache params = (case cache (cp_profile_id params) of
     Some secret \<Rightarrow> params\<lparr>auth_config := inject_secret secret (auth_config params)\<rparr>
   | None \<Rightarrow> params)"

text \<open>
  The command with its arguments as they arrive: a port that does not fit \<open>u16\<close>, or a renegotiation time
  that does not fit \<open>u32\<close>, is refused before the command runs.
\<close>

definition receive_params :: "VpnConnectParams \<Rightarrow> VpnConnectParams option" where
  "receive_params params = (if fits 16 (Some (server_port params)) \<and>
       (case auth_config params of AuthUserPassword a \<Rightarrow> ua_reneg_sec a = None \<or> fits 32 (ua_reneg_sec a) | _ \<Rightarrow> True)
     then Some params else None)"

definition vpn_connect ::
  "attempt \<Rightarrow> StorageManager \<Rightarrow> VpnConnectParams \<Rightarrow> DaemonClient \<Rightarrow> (AppError + DaemonReply) \<times> DaemonClient" where
  "vpn_connect a m params c = send_request a (ReqConnect (vault_params (vault_cache m) params)) c"

definition invoke_vpn_connect ::
  "attempt \<Rightarrow> StorageManager \<Rightarrow> VpnConnectParams \<Rightarrow> DaemonClient \<Rightarrow> (ipc_error + DaemonResponse) \<times> DaemonClient" where
  "invoke_vpn_connect a m params c = (case receive_params params of
     None \<Rightarrow> (Inl ''invalid args for command vpn_connect'', c)
   | Some q \<Rightarrow> (case vpn_connect a m q c of (r, c') \<Rightarrow> (bridge_reply r, c')))"

end
