(* ===== verification/Storage_Properties.thy ===== *)
theory Storage_Properties
  imports App_Storage Session_Invariants
begin

text \<open>
  What the storage keeps. The profile list is a keyed collection like the store's; what has been
  written is read back at the next start; and a profile that goes from the application's form
  through the storage and a restart back into the store connects with the data it was saved with.
\<close>

section \<open>The profile list\<close>

interpretation stored_profiles: keyed_collection sp_id "find_by sp_id" "(#)" "map_by sp_id"
  "remove_by sp_id" "map sp_id"
  by (rule keyed_array)

lemma find_by_replace_first:
  "replace_first p ps = Some qs \<Longrightarrow> find_by sp_id k qs = (if k = sp_id p then Some p else find_by sp_id k ps)"
  "replace_first p ps = Some qs \<Longrightarrow> map sp_id qs = map sp_id ps"
  by (induction ps arbitrary: qs) (auto split: if_splits)

lemma replace_first_None: "replace_first p ps = None \<longleftrightarrow> sp_id p \<notin> sp_id ` set ps"
  by (induction ps) auto

text \<open>Saving is an update of the map from identifiers to profiles.\<close>

lemma find_upsert: "find_by sp_id k (upsert p ps) = (if k = sp_id p then Some p else find_by sp_id k ps)"
  by (auto simp: upsert_def find_by_replace_first split: option.split)

lemma distinct_upsert: "distinct (map sp_id ps) \<Longrightarrow> distinct (map sp_id (upsert p ps))"
  by (auto simp: upsert_def find_by_replace_first replace_first_None split: option.split)

section \<open>Memory and disk\<close>

text \<open>Every file reads as what the manager holds.\<close>

definition synced :: "serde \<Rightarrow> StorageManager \<Rightarrow> bool" where
  "synced sd m \<longleftrightarrow>
     (\<exists>t. profiles_json m = Some t \<and> de_profiles sd t = Some (mg_profiles m)) \<and>
     (\<exists>t. settings_json m = Some t \<and> de_settings sd t = Some (mg_settings m)) \<and>
     (\<exists>t. rules_json m = Some t \<and> de_rules sd t = Some (mg_app_rules m, mg_ip_rules m)) \<and>
     vault_new sd (vault_enc m) = vault_cache m"

text \<open>The library reads back what it writes, for the values at hand.\<close>

definition profiles_read_back :: "serde \<Rightarrow> StorageManager \<Rightarrow> bool" where
  "profiles_read_back sd m \<longleftrightarrow> de_profiles sd (ser_profiles sd (mg_profiles m)) = Some (mg_profiles m)"

definition vault_reads_back :: "serde \<Rightarrow> io \<Rightarrow> StorageManager \<Rightarrow> bool" where
  "vault_reads_back sd io m = (case encrypt sd (io_nonce io) (ser_secrets sd (vault_cache m)) of
     None \<Rightarrow> True
   | Some c \<Rightarrow> length (io_nonce io) = 12 \<and>
       Option.bind (decrypt sd (io_nonce io) c) (de_secrets sd) = Some (vault_cache m))"

lemma restart_same:
  assumes "synced sd m"
  shows "\<exists>m'. manager_new sd io (disk.truncate m) = Inr m' \<and> get_full_snapshot m' = get_full_snapshot m \<and>
    synced sd m' \<and> vault_cache m' = vault_cache m"
  using assms
  by (cases m) (auto simp: synced_def manager_new_def disk.truncate_def disk.extend_def Let_def load_or_def
      get_full_snapshot_def)

lemma save_to_disk_vault:
  assumes "vault_reads_back sd io m" and "save_to_disk sd io m = (Inr (), m')"
  shows "m' = m\<lparr>vault_enc := vault_enc m'\<rparr> \<and> vault_new sd (vault_enc m') = vault_cache m"
  using assms
  by (auto simp: save_to_disk_def vault_reads_back_def vault_new_def load_from_disk_def
      fs_write_def split: option.splits if_splits bind_splits write_result.splits)

lemma save_profile_parts:
  assumes "save_profile sd io p sec m = (Inr q, m')"
  shows "q = (if trim (sp_id p) = [] then p\<lparr>sp_id := io_uuid io\<rparr> else p) \<and>
    mg_profiles m' = upsert q (mg_profiles m) \<and>
    vault_cache m' = (case sec of Some s \<Rightarrow> (vault_cache m)(sp_id q \<mapsto> s) | None \<Rightarrow> vault_cache m) \<and>
    mg_settings m' = mg_settings m \<and> mg_app_rules m' = mg_app_rules m \<and> mg_ip_rules m' = mg_ip_rules m \<and>
    settings_json m' = settings_json m \<and> rules_json m' = rules_json m \<and>
    profiles_json m' = Some (ser_profiles sd (mg_profiles m')) \<and>
    (sec = None \<longrightarrow> vault_enc m' = vault_enc m) \<and>
    (sec \<noteq> None \<longrightarrow> (\<exists>c. encrypt sd (io_nonce io) (ser_secrets sd (vault_cache m')) = Some c \<and>
       vault_enc m' = Some (io_nonce io @ c)))"
  using assms
  by (auto simp: save_profile_def store_secret_def save_to_disk_def persist_profiles_def fs_write_def Let_def
      split: option.splits sum.splits prod.splits if_splits write_result.splits)

lemma restart_after_save:
  assumes "synced sd m" and "save_profile sd io p sec m = (Inr q, m1)"
    and "profiles_read_back sd m1" and "vault_reads_back sd io m1"
  shows "\<exists>m2. manager_new sd io' (disk.truncate m1) = Inr m2 \<and> synced sd m2 \<and>
    get_full_snapshot m2 = get_full_snapshot m1 \<and>
    (\<forall>k. find_by sp_id k (mg_profiles m2) = (if k = sp_id q then Some q else find_by sp_id k (mg_profiles m))) \<and>
    (distinct (map sp_id (mg_profiles m)) \<longrightarrow> distinct (map sp_id (mg_profiles m2))) \<and>
    vault_cache m2 = (case sec of Some s \<Rightarrow> (vault_cache m)(sp_id q \<mapsto> s) | None \<Rightarrow> vault_cache m)"
proof -
  note parts = save_profile_parts [OF assms(2)]
  have v: "vault_new sd (vault_enc m1) = vault_cache m1"
  proof (cases sec)
    case None
    then show ?thesis using parts assms(1) by (simp add: synced_def)
  next
    case (Some s)
    then obtain c where c: "encrypt sd (io_nonce io) (ser_secrets sd (vault_cache m1)) = Some c"
        "vault_enc m1 = Some (io_nonce io @ c)" using parts by auto
    then show ?thesis
      using assms(4) by (auto simp: vault_reads_back_def vault_new_def load_from_disk_def split: bind_splits)
  qed
  have "synced sd m1"
    using v parts assms(1,3) by (simp add: synced_def profiles_read_back_def)
  from restart_same [OF this, of io'] obtain m2 where m2: "manager_new sd io' (disk.truncate m1) = Inr m2"
      "get_full_snapshot m2 = get_full_snapshot m1" "synced sd m2" "vault_cache m2 = vault_cache m1" by blast
  have "mg_profiles m2 = mg_profiles m1" using m2(2) by (simp add: get_full_snapshot_def)
  with m2 parts show ?thesis by (intro exI [of _ m2]) (simp add: find_upsert distinct_upsert)
qed

text \<open>
  Property C18. A profile that was saved is there after a restart. If memory and files agree, saving
  succeeds and the files written are read back, then the next start finds exactly the storage as it
  was: the profile under its identifier (a fresh one if it had none) with its new data, all others as
  before, no identifier twice, and the secret, if one was given, in the vault beside the others.
\<close>

theorem saved_profile_survives_restart:
  assumes "synced sd m" and "save_profile sd io p sec m = (Inr q, m1)"
    and "profiles_read_back sd m1" and "vault_reads_back sd io m1"
  shows "\<exists>m2. manager_new sd io' (disk.truncate m1) = Inr m2 \<and> synced sd m2 \<and>
    get_full_snapshot m2 = get_full_snapshot m1 \<and>
    (\<forall>k. find_by sp_id k (mg_profiles m2) = (if k = sp_id q then Some q else find_by sp_id k (mg_profiles m))) \<and>
    (distinct (map sp_id (mg_profiles m)) \<longrightarrow> distinct (map sp_id (mg_profiles m2))) \<and>
    vault_cache m2 = (case sec of Some s \<Rightarrow> (vault_cache m)(sp_id q \<mapsto> s) | None \<Rightarrow> vault_cache m)"
  by (rule restart_after_save [OF assms])

text \<open>
  A serialisation for one profile and one secret: the empty list and the list of the profile have
  texts of their own, and the vault is stored as it is.
\<close>

definition office :: StoredProfile where
  "office = storedPayload sample_profile None"

definition office_secret :: UserPasswordSecret where
  "office_secret = \<lparr>us_username = ''ada'', us_password = ''pw'', us_totp_secret = None, us_totp_format = None,
     us_ca_cert = None, us_client_cert = None, us_client_key = None, us_tls_auth_key = None,
     us_tls_crypt_key = None, us_key_direction = None, us_remote_cert_tls_server = None,
     us_reneg_sec = None, us_ovpn_config = None\<rparr>"

definition serde_for :: "StoredProfile \<Rightarrow> serde" where
  "serde_for p = \<lparr>ser_profiles = (\<lambda>ps. if ps = [] then ''[]'' else ''[p]''),
     de_profiles = (\<lambda>t. Some (if t = ''[]'' then [] else [p])),
     ser_settings = (\<lambda>_. ''s''), de_settings = (\<lambda>_. Some default_settings),
     ser_rules = (\<lambda>_. ''r''), de_rules = (\<lambda>_. Some ([], [])),
     ser_secrets = (\<lambda>_. [1]), de_secrets = (\<lambda>_. Some [''p1'' \<mapsto> SecretUserPassword office_secret]),
     encrypt = (\<lambda>_ t. Some t), decrypt = (\<lambda>_ c. Some c)\<rparr>"

definition working_io :: io where
  "working_io = \<lparr>write_profiles = Written, write_settings = Written, write_rules = Written, write_vault = Written,
     io_nonce = replicate 12 0, io_uuid = ''u''\<rparr>"

definition empty_manager :: StorageManager where
  "empty_manager = \<lparr>profiles_json = Some ''[]'', settings_json = Some ''s'', rules_json = Some ''r'',
     vault_enc = None, vault_cache = Map.empty, mg_profiles = [], mg_settings = default_settings,
     mg_app_rules = [], mg_ip_rules = []\<rparr>"

lemma empty_manager_synced: "synced (serde_for p) empty_manager"
  by (simp add: synced_def serde_for_def empty_manager_def vault_new_def)

lemma save_office:
  assumes "sp_id p = ''p1''"
  shows "\<exists>m. save_profile (serde_for p) working_io p (Some (SecretUserPassword office_secret)) empty_manager =
      (Inr p, m) \<and> profiles_read_back (serde_for p) m \<and> vault_reads_back (serde_for p) working_io m"
  using assms
  by (simp add: save_profile_def store_secret_def save_to_disk_def persist_profiles_def fs_write_def serde_for_def
      empty_manager_def working_io_def upsert_def profiles_read_back_def vault_reads_back_def trim_def is_space_def)

theorem saved_profile_survives_restart_witness:
  "\<exists>m1 m2. save_profile (serde_for office) working_io office (Some (SecretUserPassword office_secret))
       empty_manager = (Inr office, m1) \<and>
     manager_new (serde_for office) working_io (disk.truncate m1) = Inr m2 \<and>
     find_by sp_id ''p1'' (mg_profiles m2) = Some office \<and>
     vault_cache m2 ''p1'' = Some (SecretUserPassword office_secret)"
proof -
  have i: "sp_id office = ''p1''" by (simp add: office_def storedPayload_def sample_profile_def)
  from save_office [OF i] obtain m1 where
    m1: "save_profile (serde_for office) working_io office (Some (SecretUserPassword office_secret)) empty_manager =
      (Inr office, m1)" "profiles_read_back (serde_for office) m1" "vault_reads_back (serde_for office) working_io m1"
    by blast
  from saved_profile_survives_restart [OF empty_manager_synced m1, of working_io] m1(1) i
  show ?thesis by auto
qed

section \<open>Deleting, and failing writes\<close>

lemma delete_profile_lookup:
  "find_by sp_id j (mg_profiles (snd (delete_profile sd io k m))) =
     (if j = k then None else find_by sp_id j (mg_profiles m))"
  "vault_cache (snd (delete_profile sd io k m)) = (vault_cache m)(k := None)"
  by (simp_all add: delete_profile_def Let_def persist_profiles_def remove_secret_def save_to_disk_def
      stored_profiles.lookup_remove split: option.split prod.split)

text \<open>The next start, when one file cannot be read.\<close>

lemma restart_unreadable:
  assumes "synced sd m"
  shows "de_profiles sd t = None \<Longrightarrow> \<exists>m2. manager_new sd io ((disk.truncate m)\<lparr>profiles_json := Some t\<rparr>) = Inr m2 \<and>
      get_full_snapshot m2 = (get_full_snapshot m)\<lparr>snap_profiles := []\<rparr>"
    and "de_settings sd t = None \<Longrightarrow> \<exists>m2. manager_new sd io ((disk.truncate m)\<lparr>settings_json := Some t\<rparr>) = Inr m2 \<and>
      get_full_snapshot m2 = (get_full_snapshot m)\<lparr>snap_security_settings := default_settings\<rparr>"
    and "de_rules sd t = None \<Longrightarrow> \<exists>m2. manager_new sd io ((disk.truncate m)\<lparr>rules_json := Some t\<rparr>) = Inr m2 \<and>
      get_full_snapshot m2 = (get_full_snapshot m)\<lparr>snap_app_rules := [], snap_ip_rules := []\<rparr>"
  using assms
  by (cases m; auto simp: synced_def manager_new_def disk.truncate_def disk.extend_def Let_def load_or_def get_full_snapshot_def)+

lemma truncate_updates [simp]:
  "disk.truncate (m\<lparr>profiles_json := x\<rparr>) = (disk.truncate m)\<lparr>profiles_json := x\<rparr>"
  "disk.truncate (m\<lparr>settings_json := x\<rparr>) = (disk.truncate m)\<lparr>settings_json := x\<rparr>"
  "disk.truncate (m\<lparr>rules_json := y\<rparr>) = (disk.truncate m)\<lparr>rules_json := y\<rparr>"
  "disk.truncate (m\<lparr>mg_profiles := ps\<rparr>) = disk.truncate m" for m :: StorageManager
  by (simp_all add: disk.truncate_def)

lemma snapshot_updates [simp]:
  "get_full_snapshot (m\<lparr>profiles_json := x\<rparr>) = get_full_snapshot m"
  "get_full_snapshot (m\<lparr>settings_json := x\<rparr>) = get_full_snapshot m"
  "get_full_snapshot (m\<lparr>rules_json := x\<rparr>) = get_full_snapshot m"
  "get_full_snapshot (m\<lparr>mg_profiles := ps\<rparr>) = (get_full_snapshot m)\<lparr>snap_profiles := ps\<rparr>"
  by (simp_all add: get_full_snapshot_def)

text \<open>What the next start shows after a failed write: all as before, or \<open>lost\<close> where the text that was cut short cannot be read.\<close>

definition after_restart ::
  "serde \<Rightarrow> io \<Rightarrow> write_result \<Rightarrow> bool \<Rightarrow> FullStorageSnapshot \<Rightarrow> FullStorageSnapshot \<Rightarrow> StorageManager \<Rightarrow> bool" where
  "after_restart sd io r unreadable kept lost m \<longleftrightarrow>
     (r = NotOpened \<longrightarrow> (\<exists>m2. manager_new sd io (disk.truncate m) = Inr m2 \<and> get_full_snapshot m2 = kept)) \<and>
     (r \<noteq> NotOpened \<and> unreadable \<longrightarrow> (\<exists>m2. manager_new sd io (disk.truncate m) = Inr m2 \<and> get_full_snapshot m2 = lost))"

fun cut :: "write_result \<Rightarrow> 'a list \<Rightarrow> 'a list" where
  "cut (CutShort n) t = take n t"
| "cut r t = t"

text \<open>
  Property C20. What a failed write costs when memory and files agreed before, with the profile saved under an
  identifier that is not blank and without a secret. The failure is reported. Settings and rules are written before the memory is
  changed, so that the application goes on with the old ones; a profile is changed in memory first, so that the
  application goes on with the new one. The next start depends on how the write failed. If the file could not be
  opened, it finds everything as it was before the operation, so that the new profile is gone. If the write broke off
  after the file was opened, the file holds the part that was written and the old content is lost; when
  that part cannot be read, the next start silently has no profiles at all, or the default settings, or no rules, and
  everything else as before.
\<close>

theorem failed_writes:
  assumes "synced sd m" and "write_settings io \<noteq> Written" and "write_rules io \<noteq> Written" and "write_profiles io \<noteq> Written"
    and "trim (sp_id p) \<noteq> []"
  shows "(\<exists>m1. save_security_settings sd io st m = (Inl (WriteFailure ''settings.json''), m1) \<and>
      get_full_snapshot m1 = get_full_snapshot m \<and>
      after_restart sd io' (write_settings io) (de_settings sd (cut (write_settings io) (ser_settings sd st)) = None)
        (get_full_snapshot m) ((get_full_snapshot m)\<lparr>snap_security_settings := default_settings\<rparr>) m1) \<and>
    (\<exists>m1. save_split_rules sd io apps ips m = (Inl (WriteFailure ''rules.json''), m1) \<and>
      get_full_snapshot m1 = get_full_snapshot m \<and>
      after_restart sd io' (write_rules io) (de_rules sd (cut (write_rules io) (ser_rules sd (apps, ips))) = None)
        (get_full_snapshot m) ((get_full_snapshot m)\<lparr>snap_app_rules := [], snap_ip_rules := []\<rparr>) m1) \<and>
    (\<exists>m1. save_profile sd io p None m = (Inl (WriteFailure ''profiles.json''), m1) \<and>
      get_full_snapshot m1 = (get_full_snapshot m)\<lparr>snap_profiles := upsert p (mg_profiles m)\<rparr> \<and>
      after_restart sd io' (write_profiles io)
        (de_profiles sd (cut (write_profiles io) (ser_profiles sd (upsert p (mg_profiles m)))) = None)
        (get_full_snapshot m) ((get_full_snapshot m)\<lparr>snap_profiles := []\<rparr>) m1)"
proof (intro conjI)
  have kept: "\<exists>m2. manager_new sd io' (disk.truncate m) = Inr m2 \<and> get_full_snapshot m2 = get_full_snapshot m"
    using restart_same [OF assms(1), of io'] by auto
  show "\<exists>m1. save_security_settings sd io st m = (Inl (WriteFailure ''settings.json''), m1) \<and>
      get_full_snapshot m1 = get_full_snapshot m \<and>
      after_restart sd io' (write_settings io) (de_settings sd (cut (write_settings io) (ser_settings sd st)) = None)
        (get_full_snapshot m) ((get_full_snapshot m)\<lparr>snap_security_settings := default_settings\<rparr>) m1"
    using assms(2) kept restart_unreadable(2) [OF assms(1), of _ io']
    by (cases "write_settings io") (auto simp: save_security_settings_def persist_settings_def fs_write_def after_restart_def)
  show "\<exists>m1. save_split_rules sd io apps ips m = (Inl (WriteFailure ''rules.json''), m1) \<and>
      get_full_snapshot m1 = get_full_snapshot m \<and>
      after_restart sd io' (write_rules io) (de_rules sd (cut (write_rules io) (ser_rules sd (apps, ips))) = None)
        (get_full_snapshot m) ((get_full_snapshot m)\<lparr>snap_app_rules := [], snap_ip_rules := []\<rparr>) m1"
    using assms(3) kept restart_unreadable(3) [OF assms(1), of _ io']
    by (cases "write_rules io") (auto simp: save_split_rules_def persist_split_rules_def fs_write_def after_restart_def)
  show "\<exists>m1. save_profile sd io p None m = (Inl (WriteFailure ''profiles.json''), m1) \<and>
      get_full_snapshot m1 = (get_full_snapshot m)\<lparr>snap_profiles := upsert p (mg_profiles m)\<rparr> \<and>
      after_restart sd io' (write_profiles io)
        (de_profiles sd (cut (write_profiles io) (ser_profiles sd (upsert p (mg_profiles m)))) = None)
        (get_full_snapshot m) ((get_full_snapshot m)\<lparr>snap_profiles := []\<rparr>) m1"
    using assms(4,5) kept restart_unreadable(1) [OF assms(1), of _ io']
    by (cases "write_profiles io") (auto simp: save_profile_def persist_profiles_def fs_write_def after_restart_def Let_def)
qed

definition full_disk :: io where
  "full_disk = working_io\<lparr>write_profiles := CutShort 1, write_settings := NotOpened, write_rules := NotOpened\<rparr>"

definition strict_serde :: serde where
  "strict_serde = (serde_for office)\<lparr>de_profiles := \<lambda>t. if t = ''[]'' then Some [] else if t = ''[p]'' then Some [office] else None\<rparr>"

definition office_manager :: StorageManager where
  "office_manager = empty_manager\<lparr>profiles_json := Some ''[p]'', mg_profiles := [office]\<rparr>"

theorem failed_writes_witness:
  "\<exists>m1 m2. save_profile strict_serde full_disk office None office_manager = (Inl (WriteFailure ''profiles.json''), m1) \<and>
     snap_profiles (get_full_snapshot m1) = [office] \<and>
     manager_new strict_serde working_io (disk.truncate m1) = Inr m2 \<and> snap_profiles (get_full_snapshot m2) = []"
proof -
  have i: "trim (sp_id office) \<noteq> []"
    by (simp add: office_def storedPayload_def sample_profile_def trim_def is_space_def)
  have s: "synced strict_serde office_manager"
    by (simp add: synced_def strict_serde_def serde_for_def office_manager_def empty_manager_def vault_new_def)
  have u: "upsert office (mg_profiles office_manager) = [office]" by (simp add: office_manager_def upsert_def)
  have w: "write_settings full_disk \<noteq> Written" "write_rules full_disk \<noteq> Written" "write_profiles full_disk \<noteq> Written"
      "write_profiles full_disk = CutShort 1"
    by (simp_all add: full_disk_def)
  have d: "de_profiles strict_serde (take 1 (ser_profiles strict_serde [office])) = None"
    by (simp add: strict_serde_def serde_for_def)
  show ?thesis
    using failed_writes [OF s w(1-3) i, of default_settings working_io "[]" "[]"] d
    by (auto simp: after_restart_def u w(4))
qed

text \<open>
  A vault whose write broke off and cannot be decrypted any more starts empty: all secrets are lost, although the
  comment in the code calls the write atomic.
\<close>

lemma broken_vault_write:
  assumes "encrypt sd (io_nonce io) (ser_secrets sd ((vault_cache m)(k \<mapsto> s))) = Some c" and "write_vault io = CutShort n"
    and "n < 12 \<or> decrypt sd (take 12 (take n (io_nonce io @ c))) (drop 12 (take n (io_nonce io @ c))) = None"
  shows "\<exists>m1. store_secret sd io k s m = (Inl (WriteFailure ''vault.enc''), m1) \<and> vault_new sd (vault_enc m1) = Map.empty"
  using assms by (auto simp: store_secret_def save_to_disk_def fs_write_def vault_new_def load_from_disk_def)

text \<open>
  A vault that cannot be decrypted counts as empty, and the next secret stored replaces its file: the
  secrets it held are gone even if the key comes back.
\<close>

lemma unreadable_vault_overwritten:
  assumes "load_from_disk sd payload = Inl e" and "manager_new sd io d = Inr m" and "vault_enc d = Some payload"
    and "store_secret sd io k s m = (Inr (), m')"
  shows "\<exists>c. vault_enc m' = Some c \<and> vault_cache m' = [k \<mapsto> s]"
proof -
  have "vault_cache m = Map.empty"
    using assms(1-3) by (auto simp: manager_new_def Let_def vault_new_def disk.extend_def persist_profiles_def
        persist_settings_def persist_split_rules_def split: if_splits prod.splits)
  then show ?thesis
    using assms(4) by (auto simp: store_secret_def save_to_disk_def fs_write_def split: option.splits if_splits write_result.splits)
qed

section \<open>From the form to the daemon\<close>

lemma find_by_map:
  assumes "\<And>x. key (f x) = key' x"
  shows "find_by key k (map f xs) = map_option f (find_by key' k xs)"
  using assms by (induction xs) auto

lemma map_profile_id: "profile_id (map_profile snap r) = sp_id r"
  by (simp add: map_profile_def Let_def)

lemma storage_reply_profiles:
  "profiles (storage_reply (Some snap) s) = map (map_profile snap) (snap_profiles snap)"
  by (simp add: storage_reply_def Let_def setupIpcSubscriptions_def)

lemma received_payload:
  assumes "receive_profile (storedPayload p sec) = Some r"
  shows "sp_id r = profile_id p \<and> sp_name r = profile_name p \<and> sp_protocol r = protocol p \<and>
    sp_server_host r = serverHost p \<and> sp_server_port r = serverPort p \<and> serverPort p < 2 ^ 16 \<and>
    sp_server_country r = serverCountry p \<and> sp_server_flag r = serverFlag p \<and>
    sp_virtual_ip r = virtualIp p \<and> sp_tags r = tags p \<and> sp_is_favorite r = isFavorite p \<and>
    sp_ping_ms r = Some (pingMs p) \<and> sp_last_connected r = lastConnected p \<and>
    sp_intranet_only r = Some (nullish (useOnlyForNetworkResources p) False) \<and>
    sp_custom_subnets r = Some (nullish (customSubnets p) [])"
  using assms by (auto simp: receive_profile_def storedPayload_def fits_def split: if_splits)

text \<open>The parts of a profile that the storage keeps; the city is not among them.\<close>

definition same_profile :: "VpnProfile \<Rightarrow> VpnProfile \<Rightarrow> bool" where
  "same_profile p q \<longleftrightarrow> profile_id q = profile_id p \<and> profile_name q = profile_name p \<and>
     protocol q = protocol p \<and> serverHost q = serverHost p \<and> serverPort q = serverPort p \<and>
     serverCountry q = serverCountry p \<and> serverFlag q = serverFlag p \<and> virtualIp q = virtualIp p \<and>
     isFavorite q = isFavorite p \<and> tags q = tags p \<and> lastConnected q = lastConnected p \<and>
     pingMs q = pingMs p \<and>
     useOnlyForNetworkResources q = Some (nullish (useOnlyForNetworkResources p) False) \<and>
     customSubnets q = Some (nullish (customSubnets p) [])"

lemma loaded_profile_same:
  assumes "receive_profile (storedPayload p sec) = Some r"
  shows "same_profile p (map_profile snap r)"
  using received_payload [OF assms] by (simp add: same_profile_def map_profile_def Let_def)

lemma with_secret_fields [simp]:
  "profile_name (with_secret sec p) = profile_name p" "protocol (with_secret sec p) = protocol p"
  "serverHost (with_secret sec p) = serverHost p" "serverPort (with_secret sec p) = serverPort p"
  "serverCountry (with_secret sec p) = serverCountry p" "serverFlag (with_secret sec p) = serverFlag p"
  "virtualIp (with_secret sec p) = virtualIp p" "isFavorite (with_secret sec p) = isFavorite p"
  "tags (with_secret sec p) = tags p" "lastConnected (with_secret sec p) = lastConnected p"
  "pingMs (with_secret sec p) = pingMs p"
  "useOnlyForNetworkResources (with_secret sec p) = useOnlyForNetworkResources p"
  "customSubnets (with_secret sec p) = customSubnets p"
  by (simp_all add: with_secret_def split: option.split ProfileSecretPayload.split)

lemma same_profile_secret [simp]: "same_profile (with_secret sec p) q = same_profile p q"
  by (simp add: same_profile_def)

text \<open>
  Property C19. A profile of any protocol but WireGuard, saved from the application with a user name and a
  password as its secret, connects after a restart with the data it was saved with. The profile, folded with its secret as the store does, is sent to the shell, saved,
  read at the next start and loaded into the store; there it has all its stored fields, and when it
  connects, the shell sends the daemon its server, port, transport and networks and, from the
  vault, its user name and certificates, with the password typed in or, if none was, the saved one.
\<close>

theorem saved_profile_connects_after_restart:
  assumes "synced sd m" and "trim (profile_id p) \<noteq> []" and "protocol p \<noteq> Wireguard"
    and "sec = Some (SecretUserPassword u)"
    and "receive_profile (storedPayload (with_secret sec p) sec) = Some r"
    and "save_profile sd io r sec m = (Inr q, m1)" and "profiles_read_back sd m1" and "vault_reads_back sd io m1"
  shows "\<exists>m2 loaded. manager_new sd io' (disk.truncate m1) = Inr m2 \<and>
    find_by profile_id (profile_id p) (profiles (storage_reply (Some (get_full_snapshot m2)) s)) = Some loaded \<and>
    same_profile p loaded \<and>
    (\<forall>settings pw. vault_params (vault_cache m2) (connect_params loaded settings pw) =
       (connect_params (p\<lparr>useOnlyForNetworkResources := Some (nullish (useOnlyForNetworkResources p) False)\<rparr>) settings pw)
         \<lparr>auth_config := user_auth u (if pw = [] then us_password u else pw)\<rparr>)"
proof -
  have r: "sp_id r = profile_id p" using received_payload [OF assms(5)] by simp
  then have q: "q = r" using save_profile_parts [OF assms(6)] assms(2) by simp
  obtain m2 where m2: "manager_new sd io' (disk.truncate m1) = Inr m2"
      "find_by sp_id (profile_id p) (mg_profiles m2) = Some r"
      "vault_cache m2 (profile_id p) = Some (SecretUserPassword u)"
    using restart_after_save [OF assms(1,6-8), of io'] assms(4) r q by auto
  let ?l = "map_profile (get_full_snapshot m2) r"
  have f: "find_by profile_id (profile_id p) (profiles (storage_reply (Some (get_full_snapshot m2)) s)) = Some ?l"
    using m2(2) find_by_map [of profile_id "map_profile (get_full_snapshot m2)" sp_id]
    by (simp add: storage_reply_profiles map_profile_id get_full_snapshot_def)
  have l: "same_profile p ?l" using loaded_profile_same [OF assms(5)] by simp
  then have "vault_params (vault_cache m2) (connect_params ?l settings pw) =
       (connect_params (p\<lparr>useOnlyForNetworkResources := Some (nullish (useOnlyForNetworkResources p) False)\<rparr>) settings pw)
         \<lparr>auth_config := user_auth u (if pw = [] then us_password u else pw)\<rparr>" for settings pw
    using m2(3) assms(3)
    by (simp add: vault_params_def connect_params_def same_profile_def isIntranetOnly_def inject_secret_def
        authConfig_def)
  with m2(1) f l show ?thesis by blast
qed

theorem saved_profile_connects_after_restart_witness:
  "\<exists>m2 loaded. find_by profile_id ''p1'' (profiles (storage_reply (Some (get_full_snapshot m2)) (sample_boot True))) = Some loaded \<and>
     serverHost loaded = ''vpn.example'' \<and>
     auth_config (vault_params (vault_cache m2) (connect_params loaded initial_security [])) =
       user_auth office_secret ''pw''"
proof -
  let ?sec = "Some (SecretUserPassword office_secret)"
  obtain r where r: "receive_profile (storedPayload (with_secret ?sec sample_profile) ?sec) = Some r"
    by (simp add: receive_profile_def storedPayload_def fits_def sample_profile_def)
  have p: "trim (profile_id sample_profile) \<noteq> []" "protocol sample_profile \<noteq> Wireguard"
      "serverHost sample_profile = ''vpn.example''" "profile_id sample_profile = ''p1''"
    by (simp_all add: sample_profile_def trim_def is_space_def)
  have "sp_id r = ''p1''" using received_payload [OF r] p(4) by simp
  from save_office [OF this] obtain m1 where
    m1: "save_profile (serde_for r) working_io r ?sec empty_manager = (Inr r, m1)"
      "profiles_read_back (serde_for r) m1" "vault_reads_back (serde_for r) working_io m1" by blast
  have u: "us_password office_secret = ''pw''" by (simp add: office_secret_def)
  from saved_profile_connects_after_restart [OF empty_manager_synced p(1,2) refl r m1, of working_io "sample_boot True"]
  show ?thesis using p u by (fastforce simp: same_profile_def)
qed

end
