(* ===== verification/End_To_End.thy ===== *)
theory End_To_End
  imports Daemon_Properties Shell_Properties Storage_Properties Session_Properties
begin

text \<open>
  The whole chain: the application's store, the shell with its vault and its client, and the daemon
  with its driver and its network layer.
\<close>

section \<open>Connecting\<close>

lemma connect_daemon_starts:
  assumes "dstate d = Disconnected \<or> dstate d = ErrorState"
  shows "handle_request env now (Inr drv) (ReqConnect params) d = (ReplySuccess,
    (snd (go now Connecting (Some ''User initiated connection'') d))
      \<lparr>active_session := Some (active_session_new now params (dr_interface_name drv) (dr_assigned_ip drv)),
       active_driver := Some drv, collector_running := True,
       monitors := monitors d @ [(params, dr_interface_name drv)]\<rparr>)"
  using assms
  by (auto simp: connect_daemon_def connect_begin_def connect_finish_def go_def transition_to_def reply_of_def Let_def)

text \<open>What the daemon has when the driver it started reports that the tunnel is up.\<close>

lemma tunnel_comes_up:
  assumes "dstate d = Disconnected \<or> dstate d = ErrorState"
    and "d1 = snd (handle_request env now (Inr drv) (ReqConnect params) d)"
    and "d2 = monitor_event env now' (length (monitors d)) (DriverState Connected) d1"
  shows "dstate d1 = Connecting \<and> dstate d2 = Connected \<and>
    map_option as_profile_id (active_session d2) = Some (cp_profile_id params) \<and>
    network_mgr d2 = setup_vpn_network env (tunnel_of params (dr_interface_name drv) d1) (network_mgr d)"
proof -
  have d1: "dstate d1 = Connecting" "monitors d1 ! length (monitors d) = (params, dr_interface_name drv)"
      "length (monitors d) < length (monitors d1)" "network_mgr d1 = network_mgr d"
      "map_option as_profile_id (active_session d1) = Some (cp_profile_id params)"
    unfolding assms(2) connect_daemon_starts [OF assms(1)]
    using assms(1) by (auto simp: transition_result active_session_new_def)
  then have d2: "d2 = snd (go now' Connected None (tunnel_up env params (dr_interface_name drv) d1))"
    by (simp add: assms(3) monitor_event_def monitor_state_def Let_def)
  obtain z where "active_session d1 = Some z" "as_profile_id z = cp_profile_id params" using d1(5) by auto
  then show ?thesis
    using d1(1,4) by (simp add: d2 tunnel_up_def Let_def transition_result)
qed

lemma vault_params_frame [simp]:
  "cp_profile_id (vault_params v cp) = cp_profile_id cp" "server_endpoint (vault_params v cp) = server_endpoint cp"
  "server_port (vault_params v cp) = server_port cp" "security_policy (vault_params v cp) = security_policy cp"
  "routing_policy (vault_params v cp) = routing_policy cp"
  by (simp_all add: vault_params_def split: option.split)

lemma setup_context:
  "active_tunnel (setup_vpn_network env t n) = Some \<lparr>tc_server_ip = ts_server_ip t,
     server_endpoint_ips = server_addresses env (ts_server_ip t), tc_server_port = ts_server_port t,
     tc_iface = ts_iface t, tc_intranet_only = intranet_split t, vpn_subnets = tunnel_subnets t,
     tc_security_policy = ts_security t\<rparr>"
  by (simp add: setup_vpn_network_def Let_def)

text \<open>The answer to the connect request, back in the store.\<close>

lemma connect_answered:
  assumes "connectionState s \<notin> {Connecting, Connected}" "tauri s"
    and "chosen_profile k s = Some p" "\<not> needs_prompt p pw" "\<not> needs_totp p pw"
  shows "let s2 = step hmac (step hmac s (Connect k pw)) (Resolve (length (pending s)) (ReplyDaemon (Inr RespOther)))
    in connectionState s2 = Connecting \<and> activeProfileId s2 = profile_id p \<and> tauri s2 \<and>
       ipcSubscribed s2 = ipcSubscribed s \<and> daemonHealth s2 = daemonHealth s"
  using assms by (simp add: connect_cases connect_send_def resolve_def connect_reply_def Let_def ipc_defs)

text \<open>
  Property C1. Connecting works from end to end. The user connects an idle application with a
  profile that needs no prompt and no generated code and whose port fits 16 bits, while the shell's client and worker are
  in step with the daemon and the daemon is marked as reachable; the store sends one request; the shell
  completes it from the vault and forwards it to an idle daemon, whose driver starts; the answer
  leaves the store connecting. When the driver reports the tunnel as up, the daemon has a session for
  this profile and has configured the network for its server and port (the tunnel recorded by the network layer is this one), with the
  kill switch marked as engaged if the user's policy is not off; and after the worker's next turn the application shows it as
  connected.
\<close>

theorem connect_end_to_end:
  assumes "connectionState s \<notin> {Connecting, Connected}" "tauri s" "ipcSubscribed s"
    and "chosen_profile k s = Some p" "\<not> needs_prompt p pw" "\<not> needs_totp p pw"
    and "dstate d = Disconnected \<or> dstate d = ErrorState"
    and "in_step (wk_client w)" "was_online w" "daemonHealth s = HealthConnected"
    and "prompt a" "\<And>req. daemon_answers a req = fst (handle_request env now (Inr drv) req d)"
    and "cp = connect_params p (securitySettings s) (or_str pw [])"
    and "vpn_connect a m cp (wk_client w) = (answer, c)"
    and "d1 = snd (handle_request env now (Inr drv) (ReqConnect (vault_params (vault_cache m) cp)) d)"
    and "d2 = monitor_event env now' (length (monitors d)) (DriverState Connected) d1"
    and "asks d2 n1 a1" "asks d2 n2 a2" "asks d2 n3 a3"
  shows "let s1 = step hmac s (Connect k pw);
             s2 = step hmac s1 (Resolve (length (pending s)) (ReplyDaemon (bridge_reply answer)));
             (events, w') = worker_tick (a1, a2, a3) (w\<lparr>wk_client := c\<rparr>);
             s3 = deliver_all hmac events s2
    in outbox s1 = outbox s @ [CmdVpnConnect cp] \<and> connectionState s2 = Connecting \<and>
       dstate d1 = Connecting \<and> dstate d2 = Connected \<and>
       map_option as_profile_id (active_session d2) = Some (profile_id p) \<and>
       map_option tc_server_ip (active_tunnel (network_mgr d2)) = Some (serverHost p) \<and>
       map_option tc_server_port (active_tunnel (network_mgr d2)) = Some (serverPort p) \<and>
       (killSwitch (securitySettings s) \<noteq> KsOff \<longrightarrow> firewall_active (network_mgr d2)) \<and>
       connectionState s3 = Connected \<and> in_step (wk_client w')"
proof -
  let ?cp = "vault_params (vault_cache m) cp" and ?w = "w\<lparr>wk_client := c\<rparr>"
  let ?s1 = "step hmac s (Connect k pw)"
  let ?s2 = "step hmac ?s1 (Resolve (length (pending s)) (ReplyDaemon (bridge_reply answer)))"
  note up = tunnel_comes_up [OF assms(7,15,16)]
  have reply: "answer = Inr ReplySuccess" "c = reading [] (wk_client w)"
    using assms(14) unfolding vpn_connect_def send_in_step [OF assms(8,11)] assms(12) connect_daemon_starts [OF assms(7)]
    by (simp_all add: outcome_def)
  have sent: "outbox ?s1 = outbox s @ [CmdVpnConnect cp]"
    using assms(1,2,4-6,13) by (simp add: connect_cases connect_send_def Let_def ipc_defs)
  have s2: "connectionState ?s2 = Connecting" "tauri ?s2" "ipcSubscribed ?s2" "daemonHealth ?s2 = HealthConnected"
    using connect_answered [OF assms(1,2,4-6), of hmac] assms(3,10)
    by (simp_all add: reply bridge_reply_def Let_def)
  have turn: "let (events, w') = worker_tick (a1, a2, a3) ?w; s' = deliver_all hmac events ?s2
    in connectionState s' = dstate d2 \<and> in_step (wk_client w')"
    using worker_turn [OF _ assms(17-19) s2(2,3), of ?w hmac] s2(4) by (simp add: reply split_def Let_def)
  have net: "active_tunnel (network_mgr d2) \<noteq> None"
      "map_option tc_server_ip (active_tunnel (network_mgr d2)) = Some (serverHost p)"
      "map_option tc_server_port (active_tunnel (network_mgr d2)) = Some (serverPort p)"
      "killSwitch (securitySettings s) \<noteq> KsOff \<longrightarrow> firewall_active (network_mgr d2)"
    using up setup_marks(2) [of "tunnel_of ?cp (dr_interface_name drv) d1"]
    by (simp_all add: setup_context tunnel_of_def assms(13) connect_params_def)
  show ?thesis
    using sent s2(1) up net turn by (simp add: Let_def split_def assms(13) connect_params_def)
qed

text \<open>A daemon that answers at once, and the run of the property on a new installation.\<close>

definition attempt_on :: "daemon \<Rightarrow> attempt" where
  "attempt_on d = \<lparr>connect_error = None, write_error = None, answers_in_time = 2,
     daemon_answers = (\<lambda>req. fst (handle_request quiet_env 7 (Inr wireguard_driver) req d)),
     garbled = None, closed = False\<rparr>"

definition office_request :: VpnConnectParams where
  "office_request = connect_params sample_profile (securitySettings (sample_app [sample_profile])) []"

definition office_daemon :: daemon where
  "office_daemon = monitor_event quiet_env 8 0 (DriverState Connected)
     (snd (handle_request quiet_env 7 (Inr wireguard_driver)
        (ReqConnect (vault_params (vault_cache empty_manager) office_request)) (daemon_new None)))"

lemma attempt_on_asks: "asks d 7 (attempt_on d)" "prompt (attempt_on d)"
  "daemon_answers (attempt_on d) req = fst (handle_request quiet_env 7 (Inr wireguard_driver) req d)"
  by (simp_all add: asks_def attempt_on_def prompt_def)

theorem connect_end_to_end_witness:
  "\<exists>events w' answer c. vpn_connect (attempt_on (daemon_new None)) empty_manager office_request
       (wk_client fresh_worker) = (answer, c) \<and>
     worker_tick (attempt_on office_daemon, attempt_on office_daemon, attempt_on office_daemon)
       (fresh_worker\<lparr>was_online := True, wk_client := c\<rparr>) = (events, w') \<and>
     connectionState (deliver_all no_hmac events (step no_hmac (step no_hmac (sample_app [sample_profile])
       (Connect None None)) (Resolve 0 (ReplyDaemon (bridge_reply answer))))) = Connected \<and>
     map_option tc_server_port (active_tunnel (network_mgr office_daemon)) = Some 1194"
proof -
  let ?s = "sample_app [sample_profile]" and ?w = "fresh_worker\<lparr>was_online := True\<rparr>"
  have p: "chosen_profile None ?s = Some sample_profile" "\<not> needs_prompt sample_profile None"
      "\<not> needs_totp sample_profile None" "serverPort sample_profile = 1194"
    by (simp_all add: chosen_profile_def needs_prompt_def needs_totp_def sample_profile_def)
  have cp: "office_request = connect_params sample_profile (securitySettings ?s) (or_str None [])"
    by (simp add: office_request_def)
  have w: "in_step (wk_client ?w)" by (simp add: fresh_worker_def worker_new_def client_new_def in_step_def)
  obtain answer c where v: "vpn_connect (attempt_on (daemon_new None)) empty_manager office_request (wk_client ?w) =
      (answer, c)" by (cases "vpn_connect (attempt_on (daemon_new None)) empty_manager office_request (wk_client ?w)")
  obtain events w' where t: "worker_tick (attempt_on office_daemon, attempt_on office_daemon, attempt_on office_daemon)
      (?w\<lparr>wk_client := c\<rparr>) = (events, w')"
    by (cases "worker_tick (attempt_on office_daemon, attempt_on office_daemon, attempt_on office_daemon)
      (?w\<lparr>wk_client := c\<rparr>)")
  note asked = attempt_on_asks(1) [of office_daemon]
  from connect_end_to_end [of ?s None sample_profile None "daemon_new None" ?w "attempt_on (daemon_new None)"
      quiet_env 7 wireguard_driver office_request empty_manager answer c _ office_daemon 8, OF _ _ _ p(1-3) _ w _ _
      attempt_on_asks(2,3) cp v refl _ asked asked asked, of no_hmac]
  show ?thesis using v t p(4) by (auto simp: new_daemon_rests office_daemon_def Let_def)
qed

end
