(* ===== verification/Earlier_Dashboard.thy ===== *)
theory Earlier_Dashboard
  imports Dashboard_Elements View_Properties
begin

text \<open>
  The components of \<^verbatim>\<open>components/dashboard\<close> that the current dashboard has replaced and no view imports:
  \<^verbatim>\<open>HeroCommandBanner.tsx\<close>, \<^verbatim>\<open>HeroConnectionCard.tsx\<close>, \<^verbatim>\<open>TelemetrySparkline.tsx\<close>, \<^verbatim>\<open>ProfileCarousel.tsx\<close>,
  \<^verbatim>\<open>DashboardProfilesCard.tsx\<close>, \<^verbatim>\<open>MiniActivityFeed.tsx\<close>, \<^verbatim>\<open>DashboardLogStreamCard.tsx\<close> and
  \<^verbatim>\<open>SecurityTelemetryCard.tsx\<close>, with their handlers, and the fixtures of \<^verbatim>\<open>state/mockData.ts\<close>. Their texts
  are fixed, in English.
\<close>

section \<open>Power\<close>

text \<open>\<open>handleToggle\<close> of both banners.\<close>

definition earlier_toggle :: "app \<Rightarrow> app" where
  "earlier_toggle s =
     (if connectionState s = Connected then disconnect s
      else if connectionState s = Disconnected \<or> connectionState s = ErrorState
      then connect (map_option profile_id (activeProfile s)) None s
      else s)"

definition earlier_busy :: "app \<Rightarrow> bool" where
  "earlier_busy s \<longleftrightarrow> isConnecting_state (connectionState s) \<or> connectionState s = Disconnecting"

section \<open>Curves\<close>

text \<open>The drawing leaves a margin of four above and below; \<open>sx\<close> is the text of a point's abscissa.\<close>

definition earlier_y :: "rat \<Rightarrow> rat \<Rightarrow> rat \<Rightarrow> rat" where
  "earlier_y h peak v = h - v / peak * (h - 8) - 4"

definition earlier_path ::
  "(nat \<Rightarrow> nat \<Rightarrow> string) \<Rightarrow> rat \<Rightarrow> (TelemetryPoint \<Rightarrow> rat) \<Rightarrow> TelemetryPoint list \<Rightarrow> string" where
  "earlier_path sx h speed points =
     joinWith '' '' (map (\<lambda>(i, p).
       (if i = 0 then ''M'' else ''L'') @ '' '' @ sx (length points) i @ '' '' @
       toFixed 1 (earlier_y h (maxSpeed points) (speed p)))
       (zip [0..<length points] points))"

definition command_path :: "(TelemetryPoint \<Rightarrow> rat) \<Rightarrow> TelemetryPoint list \<Rightarrow> string" where
  "command_path speed points = earlier_path (\<lambda>n i. toFixed 1 (svg_x 260 n i)) 54 speed points"

definition command_area :: "TelemetryPoint list \<Rightarrow> string" where
  "command_area points = (let path = command_path downloadSpeed points
     in if path = [] then [] else path @ '' L 260 54 L 0 54 Z'')"

text \<open>The sparkline divides by the number of gaps without a guard: a single point has no abscissa.\<close>

definition sparkline_x :: "nat \<Rightarrow> nat \<Rightarrow> string" where
  "sparkline_x n i = (if n = 1 then ''NaN'' else toFixed 1 (of_nat i * (280 / of_nat (n - 1))))"

definition sparkline_path :: "(TelemetryPoint \<Rightarrow> rat) \<Rightarrow> TelemetryPoint list \<Rightarrow> string" where
  "sparkline_path speed points = earlier_path sparkline_x 64 speed points"

definition sparkline_area :: "TelemetryPoint list \<Rightarrow> string" where
  "sparkline_area points = sparkline_path downloadSpeed points @ '' L 280 64 L 0 64 Z''"

section \<open>HeroCommandBanner\<close>

definition command_protocol :: "VpnProfile option \<Rightarrow> string" where
  "command_protocol p = (if map_option protocol p = Some Wireguard then ''WIREGUARD''
     else if map_option protocol p = Some OpenvpnTcp then ''OPENVPN TCP'' else ''OPENVPN UDP'')"

definition command_status :: "ConnectionState \<Rightarrow> 'e element" where
  "command_status c = (if c = Connected then Badge ''teal'' ''PROTECTED & CONNECTED''
     else if isConnecting_state c then Badge ''yellow'' ''HANDSHAKE IN PROGRESS...''
     else Badge ''gray'' ''DISCONNECTED'')"

definition command_profile :: "app \<Rightarrow> (app \<Rightarrow> app) element list" where
  "command_profile s =
     [Btn [] (earlier_busy s) False earlier_toggle,
      command_status (connectionState s),
      Badge (if is_wireguard (activeProfile s) then ''violet'' else ''cyan'') (command_protocol (activeProfile s))] @
     hero_uptime s @
     [Txt (hero_name ''No Profile Selected'' s), Txt (hero_endpoint s),
      Txt (bolt_sign @ '' '' @ string_of_nat (or_num (map_option pingMs (activeProfile s)) 36) @ ''ms''),
      Btn (if connectionState s = Connected then ''Disconnect Tunnel'' else ''Quick Connect'') False
        (earlier_busy s) earlier_toggle,
      Btn ''Switch Profile'' False False (setActiveTab TabProfiles)]"

definition earlier_speed :: "(rat \<Rightarrow> string) \<Rightarrow> rat \<Rightarrow> app \<Rightarrow> string" where
  "earlier_speed fmt kbps s = (if connectionState s = Connected then fmt kbps else ''0.0 KB/s'')"

definition command_throughput :: "app \<Rightarrow> (app \<Rightarrow> app) element list" where
  "command_throughput s =
     (let ps = sparkline (telemetry s); down = command_path downloadSpeed ps; up = command_path uploadSpeed ps
      in [Txt ''Live Throughput'',
          Badge (if connectionState s = Connected then ''teal'' else ''gray'')
            (if connectionState s = Connected then ''60 FPS Active'' else ''Standby''),
          Txt ''Download'', Txt (earlier_speed formatSpeed (currentDownloadKbps (telemetry s)) s),
          Txt ''Session Data'',
          Txt (if connectionState s = Connected
            then formatBytes (of_nat (totalDownloadedBytes (telemetry s) + totalUploadedBytes (telemetry s)))
            else ''0.0 MB''),
          Txt ''Upload'', Txt (earlier_speed formatSpeed (currentUploadKbps (telemetry s)) s)] @
         shown (command_area ps \<noteq> []) [Drawing (command_area ps)] @
         shown (down \<noteq> []) [Drawing down] @ shown (up \<noteq> []) [Drawing up])"

definition command_banner_view :: "app \<Rightarrow> (app \<Rightarrow> app) element list" where
  "command_banner_view s = command_profile s @ command_throughput s"

section \<open>HeroConnectionCard\<close>

definition getStatusBadge :: "ConnectionState \<Rightarrow> 'e element" where
  "getStatusBadge c = (case c of
     Connected \<Rightarrow> Badge ''teal'' ''Connected''
   | Connecting \<Rightarrow> Badge ''yellow'' ''Connecting...''
   | Reconnecting \<Rightarrow> Badge ''yellow'' ''Reconnecting...''
   | Disconnecting \<Rightarrow> Badge ''gray'' ''Tearing Down...''
   | ErrorState \<Rightarrow> Badge ''red'' ''Handshake Failed''
   | Disconnected \<Rightarrow> Badge ''gray'' ''Disconnected'')"

text \<open>A part of the active profile, as it is rendered: nothing if there is none.\<close>

definition of_active :: "(VpnProfile \<Rightarrow> string) \<Rightarrow> app \<Rightarrow> string" where
  "of_active f s = (case activeProfile s of Some p \<Rightarrow> f p | None \<Rightarrow> [])"

definition connection_session :: "app \<Rightarrow> (app \<Rightarrow> app) element list" where
  "connection_session s =
     [Click earlier_toggle [], getStatusBadge (connectionState s)] @ hero_uptime s @
     [Badge ''cyan'' (of_active (\<lambda>p. toUpperCase (replaceFirst ''_'' '' '' (protocol_string (protocol p)))) s),
      Txt (of_active serverFlag s), Txt (of_active profile_name s),
      Txt (hero_endpoint s @ bullet @ bolt_sign @ '' '' @
        of_active (\<lambda>p. string_of_nat (pingMs p)) s @ ''ms''),
      Btn ''Change Server'' False False (setActiveTab TabProfiles),
      Btn (if connectionState s = Connected then ''Disconnect'' else ''Quick Connect'') False
        (earlier_busy s) earlier_toggle]"

definition connection_details :: "app \<Rightarrow> (app \<Rightarrow> app) element list" where
  "connection_details s =
     [Txt ''Virtual IP'',
      Txt (if connectionState s = Connected then of_active virtualIp s
           else em_dash @ '' . '' @ em_dash @ '' . '' @ em_dash @ '' . '' @ em_dash),
      Txt ''Public Exit IP'',
      Txt (if connectionState s = Connected then of_active serverHost s else ''Native Direct''),
      Txt ''DNS Resolver'', Txt ''1.1.1.1 (NRPT)'']"

definition connection_card_view :: "app \<Rightarrow> (app \<Rightarrow> app) element list" where
  "connection_card_view s = connection_session s @ connection_details s"

section \<open>TelemetrySparkline\<close>

definition sparkline_speed :: "rat \<Rightarrow> string" where
  "sparkline_speed kbps = (if kbps \<ge> 1024 then toFixed 1 (kbps / 1024) @ '' MB/s'' else js_number kbps @ '' KB/s'')"

definition if_connected :: "string \<Rightarrow> app \<Rightarrow> string" where
  "if_connected t s = (if connectionState s = Connected then t else em_dash)"

definition telemetry_sparkline_view :: "app \<Rightarrow> (app \<Rightarrow> app) element list" where
  "telemetry_sparkline_view s = (let tm = telemetry s; ps = sparkline tm in
     [Txt ''Live Traffic & Metrics'',
      Badge (if connectionState s = Connected then ''teal'' else ''gray'')
        (if connectionState s = Connected then ''60 FPS Stream'' else ''Idle''),
      Txt ''Download'', Txt (earlier_speed sparkline_speed (currentDownloadKbps tm) s),
      Txt ''Upload'', Txt (earlier_speed sparkline_speed (currentUploadKbps tm) s)] @
     shown (connectionState s = Connected) [Drawing (sparkline_area ps)] @
     [Drawing (sparkline_path downloadSpeed ps), Drawing (sparkline_path uploadSpeed ps),
      Txt ''RTT Ping'', Txt (if_connected (string_of_nat (currentPingMs tm) @ '' ms'') s),
      Txt ''Jitter'', Txt (if_connected (js_number (jitterMs tm) @ '' ms'') s),
      Txt ''Loss Rate'', Txt (if_connected (js_number (packetLossPercent tm) @ ''%'') s),
      Txt ''Session Total'',
      Txt (utf8 [0xE2, 0xAC, 0x87] @ '' '' @ formatBytes (of_nat (totalDownloadedBytes tm)))])"

section \<open>Profiles\<close>

definition carousel_card :: "VpnProfile \<Rightarrow> (app \<Rightarrow> app) element" where
  "carousel_card p = Click (connect (Some (profile_id p)) None)
     [Txt (serverFlag p), Txt (profile_name p), Txt (serverCity p),
      Btn [] False False (toggleFavorite (profile_id p)),
      Badge ''gray'' (if protocol p = Wireguard then ''WireGuard'' else ''OpenVPN''),
      Txt (string_of_nat (pingMs p) @ ''ms'')]"

definition carousel_view :: "app \<Rightarrow> (app \<Rightarrow> app) element list" where
  "carousel_view s =
     [Txt ''Quick Switch Profiles'',
      Click (setActiveTab TabProfiles)
        [Txt (''View All ('' @ string_of_nat (length (profiles s)) @ '') '' @ utf8 [0xE2, 0x86, 0x92])]] @
     map carousel_card (sortedProfiles (profiles s))"

definition profiles_card_row :: "app \<Rightarrow> VpnProfile \<Rightarrow> (app \<Rightarrow> app) element" where
  "profiles_card_row s p = Click (connect (Some (profile_id p)) None)
     ([Txt (deck_flag p), Txt (profile_name p)] @
      shown (profile_id p = activeProfileId s) [Badge ''cyan'' ''ACTIVE''] @
      [Txt (serverHost p @ '':'' @ string_of_nat (serverPort p)), Txt (deck_ping p),
       Btn [] False False (toggleFavorite (profile_id p))])"

definition profiles_card_view :: "app \<Rightarrow> (app \<Rightarrow> app) element list" where
  "profiles_card_view s =
     [Txt ''Quick Switch Profiles'',
      Click (setActiveTab TabProfiles) [Txt (''Manage ('' @ string_of_nat (length (profiles s)) @ '')'')]] @
     map (profiles_card_row s) (take 4 (sortedProfiles (profiles s))) @
     [Click (setActiveTab TabProfiles) [Txt ''Add / Import New Profile'']]"

section \<open>Logs\<close>

definition feed_color :: "LogLevel \<Rightarrow> string" where
  "feed_color l = (case l of ERROR \<Rightarrow> ''#ef4444'' | WARN \<Rightarrow> ''#f59e0b'' | INFO \<Rightarrow> ''#38bdf8'' | _ \<Rightarrow> ''#9ca3af'')"

definition feed_logs :: "LogEntry list \<Rightarrow> LogEntry list" where
  "feed_logs ls = rev (slice_last 5 ls)"

definition feed_row :: "LogEntry \<Rightarrow> 'e element list" where
  "feed_row l = [Txt (''['' @ log_timestamp l @ '']''), Badge (feed_color (log_level l)) (level_string (log_level l)),
     Txt (log_message l), Txt (log_source l)]"

definition activity_feed_view :: "app \<Rightarrow> (app \<Rightarrow> app) element list" where
  "activity_feed_view s =
     [Txt ''Quick Log Stream'', Click (setActiveTab TabLogs) [Txt ''View Full Console'']] @
     concat (map feed_row (feed_logs (logs s)))"

definition log_card_view :: "app \<Rightarrow> (app \<Rightarrow> app) element list" where
  "log_card_view s =
     [Txt ''Live Activity Stream'', Click (setActiveTab TabLogs) [Txt ''Full Console'']] @
     (if feed_logs (logs s) = [] then [Txt ''No events logged yet'']
      else concat (map feed_row (feed_logs (logs s))))"

section \<open>SecurityTelemetryCard\<close>

definition security_card_view :: "app \<Rightarrow> (app \<Rightarrow> app) element list" where
  "security_card_view s = (let up = (connectionState s = Connected); n = activeRulesCount s in
     [Txt ''Security & Network Telemetry'',
      Badge (if up then ''teal'' else ''gray'') (if up then ''Encrypted Shield'' else ''Inactive''),
      Txt ''Virtual IP'',
      Txt (if up then ''10.8.0.2 (tun0)'' else em_dash @ '' . '' @ em_dash @ '' . '' @ em_dash @ '' . '' @ em_dash),
      Txt ''Public Exit IP'', Txt (if up then ''123.30.170.251'' else ''Native Direct''),
      Txt ''DNS Protection'', Txt ''1.1.1.1 (Zero Leak)'',
      Txt ''Kill Switch'',
      Txt (if killSwitch (securitySettings s) \<noteq> KsOff then ''Active (Fail-Close)'' else ''Disabled''),
      Txt ''Split Tunneling:'',
      Txt (if n > 0 then ''Active ('' @ string_of_nat n @ '' rules)'' else ''No Rules Active''),
      Badge (if up then ''teal'' else ''gray'') (if up then ''IPSec/AES-GCM'' else ''Standby'')])"

section \<open>Fixtures\<close>

text \<open>The parts of a profile that the fixtures give; the others are absent.\<close>

definition fixture ::
  "string \<Rightarrow> string \<Rightarrow> ProtocolType \<Rightarrow> string \<Rightarrow> nat \<Rightarrow> string \<Rightarrow> string \<Rightarrow> string \<Rightarrow> string \<Rightarrow> bool \<Rightarrow>
   string list \<Rightarrow> string \<Rightarrow> nat \<Rightarrow> Credentials \<Rightarrow> VpnProfile" where
  "fixture i name prot host port country city flag vip fav ts seen ping c = \<lparr>profile_id = i,
     profile_name = name, protocol = prot, serverHost = host, serverPort = port,
     serverCountry = country, serverCity = city, serverFlag = flag, virtualIp = vip, assignedIp = None,
     isFavorite = fav, tags = ts, lastConnected = Some seen, pingMs = ping, credentials = Some c,
     rawConfig = None, routingMode = None, useOnlyForNetworkResources = None, customSubnets = None\<rparr>"

definition fixture_config :: string where
  "fixture_config = joinWith [CHR 0x0A]
     [''[Interface]'', ''PrivateKey = aGVwaGFlc3R1cy1zZWNyZXQta2V5LTEyMzQ1Njc4OTA='', ''Address = 10.8.0.42/24'',
      ''DNS = 1.1.1.1'', [], ''[Peer]'', ''PublicKey = c2ctcHJvZC0wMS1wdWJsaWMta2V5LWFzZGYxMjM='',
      ''Endpoint = 103.21.244.18:51820'', ''AllowedIPs = 0.0.0.0/0'', ''PersistentKeepalive = 25'']"

definition INITIAL_PROFILES :: "VpnProfile list" where
  "INITIAL_PROFILES =
     [(fixture ''sg-prod-01'' ''Singapore - Equinix SG1'' Wireguard ''103.21.244.18'' 51820 ''Singapore''
         ''Jurong East'' (flag_of 0xB8 0xAC) ''10.8.0.42/32'' True [''Production'', ''Low-Latency'', ''Asia-Pacific'']
         ''2 mins ago'' 24 (no_credentials\<lparr>hasPrivateKey := Some True\<rparr>))
        \<lparr>assignedIp := Some ''103.21.244.18'', rawConfig := Some fixture_config\<rparr>,
      fixture ''us-east-prod'' ''US East - AWS Virginia'' Wireguard ''54.210.88.192'' 51820 ''United States''
        ''Ashburn, VA'' (flag_of 0xBA 0xB8) ''10.8.1.15/32'' True [''Production'', ''Cloud'', ''AWS'']
        ''1 day ago'' 165 (no_credentials\<lparr>hasPrivateKey := Some True\<rparr>),
      fixture ''de-corp-vpn'' ''Frankfurt - HQ Gateway'' OpenvpnUdp ''185.120.44.5'' 1194 ''Germany''
        ''Frankfurt am Main'' (flag_of 0xA9 0xAA) ''10.100.4.88/24'' False [''Office'', ''Corporate'', ''Intranet'']
        ''3 days ago'' 142 (no_credentials\<lparr>username := Some ''haipn@hephaestus.internal'',
          hasPassword := Some True, hasCert := Some True\<rparr>),
      fixture ''jp-tokyo-02'' ''Tokyo - NTT Ginza'' Wireguard ''133.242.18.99'' 51820 ''Japan''
        ''Tokyo'' (flag_of 0xAF 0xB5) ''10.8.2.77/32'' True [''Staging'', ''Tokyo-DC'']
        ''5 hours ago'' 48 (no_credentials\<lparr>hasPrivateKey := Some True\<rparr>),
      fixture ''uk-london-sec'' ''London - Telehouse North'' OpenvpnTcp ''194.73.112.50'' 443 ''United Kingdom''
        ''London Docklands'' (flag_of 0xAC 0xA7) ''10.200.1.33/24'' False [''Stealth'', ''TCP-Over-SSL'', ''Europe'']
        ''1 week ago'' 178 (no_credentials\<lparr>username := Some ''vpnhub_client'', hasPassword := Some True\<rparr>)]"

definition log_fixture :: "string \<Rightarrow> string \<Rightarrow> LogLevel \<Rightarrow> string \<Rightarrow> string \<Rightarrow> LogEntry" where
  "log_fixture i t l src m = \<lparr>log_id = i, log_timestamp = t, log_level = l, log_source = src, log_message = m\<rparr>"

definition INITIAL_LOGS :: "LogEntry list" where
  "INITIAL_LOGS =
     [log_fixture ''log-1'' ''23:15:02.110'' INFO ''DAEMON_CORE''
        ''VPNHub System Daemon v0.1.2 (x86_64-unknown-linux-gnu) initialized successfully'',
      log_fixture ''log-2'' ''23:15:02.145'' INFO ''IPC_TRANSPORT''
        ''Unix Domain Socket bound at /run/vpnhub/daemon.sock (permissions: 0660 root:vpnhub)'',
      log_fixture ''log-3'' ''23:15:02.180'' INFO ''FIREWALL_NFT''
        ''Initialized nftables table inet vpnhub_filter with base chains (killswitch=INACTIVE)'',
      log_fixture ''log-4'' ''23:20:11.890'' DEBUG ''WIREGUARD_DRV''
        ''Kernel module wireguard.ko detected. Generic netlink family ID: 34'',
      log_fixture ''log-5'' ''23:22:45.300'' INFO ''ROUTING_ENGINE''
        ''Default gateway resolved: 192.168.1.1 via interface eno1 (metric 100)'']"

definition app_fixture :: "string \<Rightarrow> string \<Rightarrow> string \<Rightarrow> string \<Rightarrow> SplitTunnelMode \<Rightarrow> bool \<Rightarrow> AppRule" where
  "app_fixture i name path icon mode on = \<lparr>app_id = i, app_name = name, app_path = path,
     app_icon = Some icon, app_mode = mode, app_enabled = on\<rparr>"

definition INITIAL_APP_RULES :: "AppRule list" where
  "INITIAL_APP_RULES =
     [app_fixture ''app-chrome'' ''Google Chrome'' ''/usr/bin/google-chrome-stable''
        (utf8 [0xF0, 0x9F, 0x8C, 0x90]) RouteVpn True,
      app_fixture ''app-slack'' ''Slack Workspaces'' ''/usr/bin/slack'' (utf8 [0xF0, 0x9F, 0x92, 0xAC]) RouteVpn True,
      app_fixture ''app-docker'' ''Docker Desktop Engine'' ''/usr/bin/dockerd''
        (utf8 [0xF0, 0x9F, 0x90, 0xB3]) Bypass True,
      app_fixture ''app-steam'' ''Steam Client & Gaming Services'' ''/usr/bin/steam''
        (utf8 [0xF0, 0x9F, 0x8E, 0xAE]) Bypass True,
      app_fixture ''app-terminal'' ''GNOME Terminal / SSH'' ''/usr/bin/gnome-terminal''
        (utf8 [0xF0, 0x9F, 0x92, 0xBB]) RouteVpn False]"

definition ip_fixture :: "string \<Rightarrow> string \<Rightarrow> IpRuleType \<Rightarrow> string \<Rightarrow> SplitTunnelMode \<Rightarrow> bool \<Rightarrow> IpDomainRule" where
  "ip_fixture i target ty desc mode on = \<lparr>ip_id = i, ip_target = target, ip_type = ty,
     ip_description = desc, ip_mode = mode, ip_enabled = on\<rparr>"

definition INITIAL_IP_RULES :: "IpDomainRule list" where
  "INITIAL_IP_RULES =
     [ip_fixture ''rule-cidr-1'' ''10.0.0.0/8'' Cidr ''Corporate VPC Subnets'' RouteVpn True,
      ip_fixture ''rule-cidr-2'' ''192.168.1.0/24'' Cidr ''Local Area Home Network (LAN Bypass)'' Bypass True,
      ip_fixture ''rule-dom-1'' ''*.internal.company.com'' Domain ''Internal Company Microservices'' RouteVpn True,
      ip_fixture ''rule-dom-2'' ''*.netflix.com'' Domain ''Direct Streaming Bypass'' Bypass False]"

section \<open>What they do\<close>

text \<open>
  While the daemon is reachable, the older power buttons do what the current one does, except during
  the handshake: there they are dead, and the current one aborts.
\<close>

lemma earlier_toggle_agrees:
  assumes "daemonHealth s \<noteq> HealthOffline"
  shows "if isConnecting_state (connectionState s)
    then earlier_toggle s = s \<and> hero_toggle s = disconnect s
    else earlier_toggle s = hero_toggle s"
  using assms by (simp add: earlier_toggle_def hero_toggle_def isConnecting_state_def)

text \<open>
  The big power area of the connection card is not disabled while the state changes, but does nothing
  then; the other controls of both banners are disabled.
\<close>

lemma earlier_controls_while_busy:
  assumes "earlier_busy s"
  shows "view_clicks (command_banner_view s) = [setActiveTab TabProfiles]"
    and "\<forall>f\<in>set (view_clicks (connection_card_view s)). f s = s \<or> f = setActiveTab TabProfiles"
  using assms
  by (auto simp: command_banner_view_def command_profile_def command_throughput_def command_status_def
      connection_card_view_def connection_session_def connection_details_def hero_uptime_def Let_def shown_def
      getStatusBadge_def earlier_busy_def isConnecting_state_def earlier_toggle_def split: ConnectionState.split)

text \<open>The download curve stays within the drawing, whatever the speeds.\<close>

lemma earlier_download_within:
  assumes "p \<in> set points" and "0 \<le> downloadSpeed p" and "8 \<le> h"
  shows "4 \<le> earlier_y h (maxSpeed points) (downloadSpeed p) \<and>
    earlier_y h (maxSpeed points) (downloadSpeed p) \<le> h - 4"
proof -
  let ?q = "downloadSpeed p / maxSpeed points"
  have "0 \<le> ?q" "?q \<le> 1"
    using assms(2) maxSpeed_bounds(1) [of points] maxSpeed_bounds(2) [OF assms(1)] by (simp_all add: divide_le_eq_1)
  then have "0 \<le> ?q * (h - 8) \<and> ?q * (h - 8) \<le> 1 * (h - 8)"
    using assms(3) by (intro conjI mult_right_mono mult_nonneg_nonneg) simp_all
  then show ?thesis by (simp add: earlier_y_def)
qed

text \<open>Both feeds show the newest entries first, at most five.\<close>

lemma feed_newest:
  "length (feed_logs ls) = min 5 (length ls)"
  "i < length (feed_logs ls) \<Longrightarrow> feed_logs ls ! i = ls ! (length ls - Suc i)"
  by (auto simp: feed_logs_def slice_last_def rev_nth)

text \<open>
  The fixtures are lists a store could hold: identifiers are distinct in each, and the deck shows the
  favourites first, in their order.
\<close>

lemma fixtures_keyed:
  "distinct (map profile_id INITIAL_PROFILES)" "distinct (map log_id INITIAL_LOGS)"
  "distinct (map app_id INITIAL_APP_RULES)" "distinct (map ip_id INITIAL_IP_RULES)"
  "map profile_id (sortedProfiles INITIAL_PROFILES) =
     [''sg-prod-01'', ''us-east-prod'', ''jp-tokyo-02'', ''de-corp-vpn'', ''uk-london-sec'']"
  by (simp_all add: INITIAL_PROFILES_def fixture_def INITIAL_LOGS_def log_fixture_def INITIAL_APP_RULES_def
      app_fixture_def INITIAL_IP_RULES_def ip_fixture_def sortedProfiles_def)

end
