(* ===== verification/Dictionaries.thy ===== *)
theory Dictionaries
  imports Tool_Views
begin

text \<open>
  The texts of the application in its four languages, \<^verbatim>\<open>i18n/locales/en.ts\<close>, \<^verbatim>\<open>fr.ts\<close>, \<^verbatim>\<open>vi.ts\<close> and \<^verbatim>\<open>zh.ts\<close>, and
  the keys of \<^verbatim>\<open>i18n/types.ts\<close>, section by section. A character that is not printable ASCII, and a
  quote or backslash, is written as a tilde and the five hexadecimal digits of its code point, which
  \<open>uni\<close> replaces by its UTF-8 bytes.
\<close>

section \<open>Escapes\<close>

definition hex_digit :: "char \<Rightarrow> nat" where
  "hex_digit c = (let n = of_char c in if n < 58 then n - 48 else n - 55)"

definition hex_value :: "string \<Rightarrow> nat" where
  "hex_value s = foldl (\<lambda>n c. 16 * n + hex_digit c) 0 s"

definition utf8_of :: "nat \<Rightarrow> string" where
  "utf8_of n = map char_of (if n < 0x80 then [n]
     else if n < 0x800 then [0xC0 + n div 64, 0x80 + n mod 64]
     else if n < 0x10000 then [0xE0 + n div 4096, 0x80 + n div 64 mod 64, 0x80 + n mod 64]
     else [0xF0 + n div 262144, 0x80 + n div 4096 mod 64, 0x80 + n div 64 mod 64, 0x80 + n mod 64])"

fun uni :: "string \<Rightarrow> string" where
  "uni [] = []"
| "uni (c # s) = (if c = CHR ''~'' then utf8_of (hex_value (take 5 s)) @ uni (drop 5 s) else c # uni s)"

section \<open>Keys\<close>

definition keys_common :: "string list" where
  "keys_common =
    [''save'', ''cancel'', ''delete'', ''edit'', ''close'', ''copy'', ''copied'', ''open'', ''back'',
     ''search'', ''filter'', ''reset'', ''enable'', ''disable'', ''active'', ''ready'', ''offline'',
     ''connected'', ''connecting'', ''reconnecting'', ''disconnecting'', ''disconnected'', ''error'',
     ''none'', ''loading'', ''all'', ''success'', ''warning'', ''username'', ''password'', ''or'',
     ''comingSoon'', ''actions'', ''location'', ''isp'', ''vpnProfiles'', ''commands'', ''statusLabel'',
     ''type'', ''policy'', ''target'']"

definition keys_nav :: "string list" where
  "keys_nav =
    [''menu'', ''dashboard'', ''profiles'', ''security'', ''logs'', ''settings'', ''supportAndDocs'',
     ''collapseSidebar'', ''expandSidebar'', ''coreTitle'', ''daemonStatus'']"

definition keys_titlebar :: "string list" where
  "keys_titlebar =
    [''searchPlaceholder'', ''active'', ''reconnecting'', ''offline'', ''searchShortcut'']"

definition keys_statusBar :: "string list" where
  "keys_statusBar =
    [''killSwitchStrict'', ''killSwitchAuto'', ''killSwitchOff'', ''ipv6Blocked'', ''ipv6Pass'',
     ''dnsSecured'']"

definition keys_dashboard :: "string list" where
  "keys_dashboard =
    [''heroTitleConnected'', ''heroTitleDisconnected'', ''heroTitleConnecting'', ''clickToDisconnect'',
     ''clickToConnect'', ''selectProfilePrompt'', ''statusSecured'', ''statusUnprotected'', ''publicIp'',
     ''virtualIp'', ''gateway'', ''latency'', ''uptime'', ''downloadSpeed'', ''uploadSpeed'',
     ''totalTraffic'', ''quickSwitchTitle'', ''manageAll'', ''liveLogStreamTitle'', ''clearStream'',
     ''noActiveTunnel'', ''daemonOffline'', ''retryIpc'', ''livePing'', ''activeRules'']"

definition keys_profiles :: "string list" where
  "keys_profiles =
    [''title'', ''subtitle'', ''addProfile'', ''importOvpn'', ''searchPlaceholder'', ''allProtocols'',
     ''allTags'', ''favoritesOnly'', ''noProfilesFound'', ''createPrompt'', ''serverHost'', ''serverPort'',
     ''protocol'', ''status'', ''lastConnected'', ''never'', ''connect'', ''disconnect'', ''deleteConfirm'']"

definition keys_security :: "string list" where
  "keys_security =
    [''title'', ''subtitle'', ''killSwitchTitle'', ''killSwitchDesc'', ''killSwitchEnforced'',
     ''killSwitchOff'', ''ipv6Title'', ''ipv6Desc'', ''ipv6Protected'', ''webrtcTitle'', ''webrtcDesc'',
     ''webrtcProtected'', ''lanBypassTitle'', ''lanBypassDesc'', ''lanBypassActive'', ''dnsLeakTestTitle'',
     ''dnsLeakTestDesc'', ''runDnsTest'']"

definition keys_logs :: "string list" where
  "keys_logs =
    [''title'', ''subtitle'', ''searchPlaceholder'', ''clearLogs'', ''copyAll'', ''autoScroll'',
     ''filterAll'', ''filterInfo'', ''filterWarn'', ''filterError'', ''filterDebug'', ''noLogsMessage'',
     ''exportDiagnostics'']"

definition keys_settings :: "string list" where
  "keys_settings =
    [''title'', ''subtitle'', ''languageCardTitle'', ''languageSelectLabel'', ''languageSelectDesc'',
     ''desktopBehaviorTitle'', ''launchAtStartup'', ''launchAtStartupDesc'', ''startMinimized'',
     ''startMinimizedDesc'', ''autoConnectOnLaunch'', ''autoConnectOnLaunchDesc'',
     ''minimizeToTrayOnClose'', ''minimizeToTrayOnCloseDesc'', ''networkIntegrationTitle'',
     ''autoReconnect'', ''autoReconnectDesc'', ''desktopNotifications'', ''desktopNotificationsDesc'',
     ''spotlightTitle'', ''spotlightDesc'', ''spotlightButton'', ''diagnosticsTitle'', ''engineStatus'',
     ''cipherSuiteTitle'', ''cipherSuiteDesc'', ''ipcDaemonTitle'', ''ipcDaemonDesc'',
     ''encryptedVaultTitle'', ''encryptedVaultDesc'', ''clientVersionText'', ''resetDefaults'',
     ''settingsRestoredTitle'', ''settingsRestoredMsg'', ''docsAndGithub'', ''coreReady'', ''coreOffline'',
     ''vaultAes'']"

definition keys_splitTunnel :: "string list" where
  "keys_splitTunnel =
    [''title'', ''subtitle'', ''tabApps'', ''tabIpDomain'', ''appsSectionTitle'', ''appsSectionDesc'',
     ''btnAddAppRule'', ''colStatus'', ''colApp'', ''colPath'', ''colPolicy'', ''colActions'',
     ''routeVpnBadge'', ''bypassBadge'', ''addIpSectionTitle'', ''targetLabel'', ''targetPlaceholder'',
     ''typeLabel'', ''typeCidr'', ''typeDomain'', ''policyLabel'', ''policyRouteVpn'', ''policyBypass'',
     ''descLabel'', ''descPlaceholder'', ''btnAddRule'', ''colTarget'', ''colType'', ''colDesc'']"

definition keys_modals1 :: "string list" where
  "keys_modals1 =
    [''mfaTitle'', ''mfaSubtitle'', ''mfaPlaceholder'', ''mfaConfirm'', ''mfaUsername'', ''mfaPassword'',
     ''mfaCodeLabel'', ''dnsLeakTitle'', ''dnsLeakDesc'', ''dnsLeakTesting'', ''dnsLeakPassed'',
     ''dnsLeakFailed'', ''dnsServersFound'', ''dnsPublicIp'', ''dnsIsp'', ''dnsLocation'',
     ''newProfileTitle'', ''newProfileWireguardTitle'', ''newProfileWireguardDesc'',
     ''newProfileOpenvpnTitle'', ''newProfileOpenvpnDesc'', ''newProfileImportTitle'',
     ''newProfileImportDesc'', ''importDropzoneText'', ''importDropzoneSubtext'', ''dropzoneRelease'',
     ''dropzoneDropNow'', ''dropzoneAnalyzing'', ''dropzoneExtracting'', ''invalidFileType'',
     ''failedReadFile'', ''failedParseFile'', ''exportDiagTitle'', ''exportDiagSubtitle'',
     ''exportDownloadJson'', ''exportCopyText'', ''exportIncludeLogs'', ''exportIncludeRoutes'',
     ''exportIncludeDns'', ''exportSanitizePrivate'', ''exportCompiling'', ''qrTitle'', ''qrSubtitle'',
     ''qrCopyBase64'', ''protoSelectImportTitle'', ''protoSelectAddTitle'', ''protoSelectImportDesc'',
     ''protoSelectAddDesc'', ''protoWgTitle'', ''protoWgBadgeImport'', ''protoWgBadgeAdd'',
     ''protoWgDescImport'', ''protoWgDescAdd'', ''protoOvpnTitle'', ''protoOvpnBadgeImport'',
     ''protoOvpnBadgeAdd'', ''protoOvpnDescImport'', ''protoOvpnDescAdd'', ''importWgTitle'',
     ''importOvpnTitle'', ''importWgDropzone'', ''importOvpnDropzone'', ''importWgHelp'',
     ''importOvpnHelp'', ''importClickBrowse'', ''errExpectedWg'', ''errExpectedOvpn'', ''addAppTitle'',
     ''addAppDetected'', ''addAppNameLabel'', ''addAppNamePlaceholder'', ''addAppPathLabel'',
     ''addAppPathPlaceholder'', ''addAppPolicyLabel'', ''addAppBypassLabel'', ''addAppRouteLabel'',
     ''addAppSubmitBtn'', ''certManagerTitle'', ''tabRootCa'', ''tabTlsChannel'', ''tabClientIdentity'',
     ''tabAdvanced'', ''rootCaTitle'', ''rootCaLoaded'', ''rootCaDefaultSystem'', ''importCrtPem'',
     ''rootCaPemLabel'', ''rootCaPemPlaceholder'', ''tlsModeLabel'', ''tlsModeDesc'', ''tlsModeNone'',
     ''tlsModeAuth'']"

definition keys_modals2 :: "string list" where
  "keys_modals2 =
    [''tlsModeCrypt'', ''tlsAuthStaticKeyTitle'', ''tlsKeyLoaded'', ''noKeyLoaded'', ''importKeyFile'',
     ''tlsAuthKeyContentLabel'', ''keyDirectionLabel'', ''keyDirectionDesc'', ''keyDirNone'', ''keyDir0'',
     ''keyDir1'', ''tlsCryptKeyTitle'', ''tlsCryptKeyContentLabel'', ''clientIdentityDesc'',
     ''clientCertTitle'', ''clientCertLoaded'', ''noCertLoaded'', ''importCrt'', ''clientKeyTitle'',
     ''clientKeyLoaded'', ''noPrivateKeyLoaded'', ''importKey'', ''verifyServerCertTitle'',
     ''verifyServerCertDesc'', ''renegSecLabel'', ''renegSecPlaceholder'', ''renegSecDesc'',
     ''applyCertSettings'', ''wireguardComingSoonError'', ''createWgTitle'', ''createOvpnTitle'',
     ''editWgTitle'', ''editOvpnTitle'', ''serverSettingsTitle'', ''profileNameLabel'',
     ''profileNameWgPlaceholder'', ''profileNameOvpnPlaceholder'', ''transportProtoLabel'',
     ''serverHostLabel'', ''serverHostPlaceholder'', ''portLabel'', ''virtualIpLabel'', ''virtualIpDesc'',
     ''intranetOnlyTitle'', ''intranetOnlyActiveDesc'', ''intranetOnlyDefaultDesc'',
     ''customSubnetsLabel'', ''customSubnetsPlaceholder'', ''customSubnetsDesc'', ''customSubnetsHint'',
     ''keysAuthTitle'', ''wgKeyExchangeBadge'', ''ovpnAuth2faBadge'', ''wgPrivKeyLabel'',
     ''wgPrivKeyPlaceholder'', ''wgPrivKeyDesc'', ''wgPskLabel'', ''wgPskPlaceholder'', ''wgPskDesc'',
     ''ovpnUsernameLabel'', ''ovpnUsernamePlaceholder'', ''ovpnAuthModeLabel'', ''authModeStatic'',
     ''authModeTotpAuto'', ''authModeDynamicPrompt'', ''basePasswordLabel'', ''passwordLabel'',
     ''basePasswordPlaceholder'', ''passwordPlaceholder'', ''totpSecretLabel'', ''totpSecretPlaceholder'',
     ''totpSecretDesc'', ''totpFormatLabel'', ''totpFormatAppend'', ''totpFormatPrefix'',
     ''totpFormatOnly'', ''liveTotpLabel'', ''activeOtpBadge'', ''dynamicPromptHint'', ''tlsSummaryTitle'',
     ''tlsSummaryDesc'', ''btnConfigSecurity'', ''btnSetupCertificates'', ''badgeCustomCa'',
     ''badgeSystemCa'', ''badgeTlsCrypt'', ''badgeTlsAuth'', ''badgeStandardTls'', ''badgeClientCertKey'',
     ''badgeUserPassAuth'', ''badgeServerVerify'', ''btnSaveChanges'', ''btnCreateProfile'']"

section \<open>English\<close>

definition en_common :: "(string \<times> string) list" where
  "en_common =
    [(''save'', ''Save''),
     (''cancel'', ''Cancel''),
     (''delete'', ''Delete''),
     (''edit'', ''Edit''),
     (''close'', ''Close''),
     (''copy'', ''Copy''),
     (''copied'', ''Copied!''),
     (''open'', ''Open''),
     (''back'', ''Back''),
     (''search'', ''Search''),
     (''filter'', ''Filter''),
     (''reset'', ''Reset''),
     (''enable'', ''Enable''),
     (''disable'', ''Disable''),
     (''active'', ''Active''),
     (''ready'', ''Ready''),
     (''offline'', ''Offline''),
     (''connected'', ''Connected''),
     (''connecting'', ''Connecting''),
     (''reconnecting'', ''Reconnecting''),
     (''disconnecting'', ''Disconnecting''),
     (''disconnected'', ''Disconnected''),
     (''error'', ''Error''),
     (''none'', ''None''),
     (''loading'', ''Loading...''),
     (''all'', ''All''),
     (''success'', ''Success''),
     (''warning'', ''Warning''),
     (''username'', ''Username''),
     (''password'', ''Password''),
     (''or'', ''OR''),
     (''comingSoon'', ''Coming Soon''),
     (''actions'', ''Actions''),
     (''location'', ''Location''),
     (''isp'', ''ISP''),
     (''vpnProfiles'', ''VPN PROFILES''),
     (''commands'', ''COMMANDS & VIEWS''),
     (''statusLabel'', ''Status''),
     (''type'', ''Type''),
     (''policy'', ''Policy''),
     (''target'', ''Target Destination'')]"

definition en_nav :: "(string \<times> string) list" where
  "en_nav =
    [(''menu'', ''Menu''),
     (''dashboard'', ''Dashboard''),
     (''profiles'', ''Profile Library''),
     (''security'', ''Security & Shield''),
     (''logs'', ''Live Console''),
     (''settings'', ''Settings''),
     (''supportAndDocs'', ''Support & Docs''),
     (''collapseSidebar'', ''Collapse Sidebar (Ctrl+B)''),
     (''expandSidebar'', ''Expand Sidebar (Ctrl+B)''),
     (''coreTitle'', ''VPNHub Core''),
     (''daemonStatus'', ''Daemon'')]"

definition en_titlebar :: "(string \<times> string) list" where
  "en_titlebar =
    [(''searchPlaceholder'', ''Search profiles, commands...''),
     (''active'', ''Active''),
     (''reconnecting'', ''Reconnecting''),
     (''offline'', ''Offline''),
     (''searchShortcut'', uni ''~02318K'')]"

definition en_statusBar :: "(string \<times> string) list" where
  "en_statusBar =
    [(''killSwitchStrict'', ''Kill Switch: STRICT FAIL-CLOSED''),
     (''killSwitchAuto'', ''Kill Switch: AUTO DROPOUT''),
     (''killSwitchOff'', ''Kill Switch: DISABLED''),
     (''ipv6Blocked'', ''BLOCKED''),
     (''ipv6Pass'', ''PASS''),
     (''dnsSecured'', ''SECURED'')]"

definition en_dashboard :: "(string \<times> string) list" where
  "en_dashboard =
    [(''heroTitleConnected'', ''Protected & Connected''),
     (''heroTitleDisconnected'', ''Disconnected & Unprotected''),
     (''heroTitleConnecting'', ''Establishing Secure Tunnel...''),
     (''clickToDisconnect'', ''Click to Disconnect''),
     (''clickToConnect'', ''Click to Connect''),
     (''selectProfilePrompt'', ''Select a profile from the deck below to connect''),
     (''statusSecured'', ''Secured''),
     (''statusUnprotected'', ''Unprotected''),
     (''publicIp'', ''Public IP''),
     (''virtualIp'', ''Virtual IP''),
     (''gateway'', ''Gateway''),
     (''latency'', ''Latency''),
     (''uptime'', ''Uptime''),
     (''downloadSpeed'', ''Download''),
     (''uploadSpeed'', ''Upload''),
     (''totalTraffic'', ''Total Traffic''),
     (''quickSwitchTitle'', ''Quick Switch Profiles''),
     (''manageAll'', ''Manage All Profiles''),
     (''liveLogStreamTitle'', ''Live Activity & Tunnel Telemetry''),
     (''clearStream'', ''Clear Stream''),
     (''noActiveTunnel'', ''No active tunnel connected''),
     (''daemonOffline'', ''DAEMON OFFLINE''),
     (''retryIpc'', uni ''Retry ~021BA''),
     (''livePing'', ''Ping''),
     (''activeRules'', ''Active Rules'')]"

definition en_profiles :: "(string \<times> string) list" where
  "en_profiles =
    [(''title'', ''Profile Library''),
     (''subtitle'', ''Manage WireGuard and OpenVPN server configurations''),
     (''addProfile'', ''New Profile''),
     (''importOvpn'', ''Import .ovpn''),
     (''searchPlaceholder'', ''Search profiles by name, country, or tag...''),
     (''allProtocols'', ''All Protocols''),
     (''allTags'', ''All Tags''),
     (''favoritesOnly'', ''Favorites Only''),
     (''noProfilesFound'', ''No VPN profiles found''),
     (''createPrompt'', ''Add or import a profile to get started''),
     (''serverHost'', ''Server Host''),
     (''serverPort'', ''Port''),
     (''protocol'', ''Protocol''),
     (''status'', ''Status''),
     (''lastConnected'', ''Last Connected''),
     (''never'', ''Never''),
     (''connect'', ''Connect''),
     (''disconnect'', ''Disconnect''),
     (''deleteConfirm'', ''Are you sure you want to delete this profile?'')]"

definition en_security :: "(string \<times> string) list" where
  "en_security =
    [(''title'', ''Security & Shield Center''),
     (''subtitle'', ''Configure firewall leak shields, kill switches, and local network bypass''),
     (''killSwitchTitle'', ''Internet Kill Switch (Firewall Enforcement)''),
     (''killSwitchDesc'', ''Blocks unencrypted traffic if the VPN drops unexpectedly to prevent data leaks''),
     (''killSwitchEnforced'', ''ENFORCED''),
     (''killSwitchOff'', ''OFF''),
     (''ipv6Title'', ''IPv6 Blackhole Shield''),
     (''ipv6Desc'', ''Null-routes native IPv6 traffic to prevent dual-stack leaks bypassing the tunnel''),
     (''ipv6Protected'', ''Protected''),
     (''webrtcTitle'', ''WebRTC STUN Shield''),
     (''webrtcDesc'', ''Prevents browsers from leaking physical IP addresses via outbound STUN requests''),
     (''webrtcProtected'', ''Protected''),
     (''lanBypassTitle'', ''Smart LAN Bypass''),
     (''lanBypassDesc'', ''Allows access to local physical network devices (home/office printers, NAS, router)''),
     (''lanBypassActive'', ''Active''),
     (''dnsLeakTestTitle'', ''DNS Leak Verification''),
     (''dnsLeakTestDesc'', ''Run automated DNS leak diagnostics against global resolver servers''),
     (''runDnsTest'', ''Run Leak Test'')]"

definition en_logs :: "(string \<times> string) list" where
  "en_logs =
    [(''title'', ''Live Console & Diagnostic Logs''),
     (''subtitle'', ''Real-time engine events, protocol handshakes, and diagnostic logs''),
     (''searchPlaceholder'', ''Search logs by keyword, target, or error message...''),
     (''clearLogs'', ''Clear Logs''),
     (''copyAll'', ''Copy All''),
     (''autoScroll'', ''Auto-Scroll''),
     (''filterAll'', ''ALL''),
     (''filterInfo'', ''INFO''),
     (''filterWarn'', ''WARN''),
     (''filterError'', ''ERROR''),
     (''filterDebug'', ''DEBUG''),
     (''noLogsMessage'', ''No console events recorded yet''),
     (''exportDiagnostics'', ''Export Logs'')]"

definition en_settings :: "(string \<times> string) list" where
  "en_settings =
    [(''title'', ''Application Settings''),
     (''subtitle'', ''Configure desktop client behavior, startup preferences, language, and system integration''),
     (''languageCardTitle'', ''Language & Regional Preferences''),
     (''languageSelectLabel'', ''Display Language''),
     (''languageSelectDesc'', ''Select your preferred user interface language for VPNHub''),
     (''desktopBehaviorTitle'', ''Desktop & Window Behavior''),
     (''launchAtStartup'', ''Launch at System Startup''),
     (''launchAtStartupDesc'', ''Starts VPNHub automatically when your operating system boots''),
     (''startMinimized'', ''Start Minimized to System Tray''),
     (''startMinimizedDesc'', ''Launches quietly in the background tray without opening the main window''),
     (''autoConnectOnLaunch'', ''Auto-Connect on Launch''),
     (''autoConnectOnLaunchDesc'', ''Automatically establishes secure connection to your favorite or last active profile''),
     (''minimizeToTrayOnClose'', ''Minimize to System Tray on Close''),
     (''minimizeToTrayOnCloseDesc'', ''Closing the window hides it to the system tray so VPN tunnels stay active''),
     (''networkIntegrationTitle'', ''Network & System Integration''),
     (''autoReconnect'', ''Auto-Reconnect on Network Switch''),
     (''autoReconnectDesc'', ''Automatically restores tunnel when Wi-Fi reconnects or interface changes''),
     (''desktopNotifications'', ''Desktop System Notifications''),
     (''desktopNotificationsDesc'', ''Displays OS desktop notifications on connect, disconnect, and security alerts''),
     (''spotlightTitle'', ''Global Command Spotlight''),
     (''spotlightDesc'', ''Trigger instant profile switcher and navigation palette with shortcut''),
     (''spotlightButton'', uni ''Open (~02318K)''),
     (''diagnosticsTitle'', ''Core Diagnostics & Encrypted Vault Storage''),
     (''engineStatus'', ''Engine Status: High Integrity''),
     (''cipherSuiteTitle'', ''Cipher Suite''),
     (''cipherSuiteDesc'', ''ChaCha20-Poly1305 / AES-GCM + Post-Quantum ML-KEM''),
     (''ipcDaemonTitle'', ''IPC Daemon''),
     (''ipcDaemonDesc'', uni ''Unix Domain Socket ~02022 Latency: {latency}ms''),
     (''encryptedVaultTitle'', ''Encrypted Vault''),
     (''encryptedVaultDesc'', ''AES-256-GCM Zeroized Hardware Storage Key''),
     (''clientVersionText'', ''VPNHub Desktop Client v0.1.2''),
     (''resetDefaults'', ''Reset Defaults''),
     (''settingsRestoredTitle'', ''Settings Restored''),
     (''settingsRestoredMsg'', ''Application settings have been reset to default values.''),
     (''docsAndGithub'', ''Docs & GitHub''),
     (''coreReady'', ''v{version} Ready''),
     (''coreOffline'', ''Offline''),
     (''vaultAes'', ''Vault: AES-256-GCM'')]"

definition en_splitTunnel :: "(string \<times> string) list" where
  "en_splitTunnel =
    [(''title'', ''Split Tunneling Policy Manager''),
     (''subtitle'', ''Granularly define which applications, CIDR subnets, and domains route through VPN or direct internet''),
     (''tabApps'', ''Application Rules''),
     (''tabIpDomain'', ''IP Subnets & Domains''),
     (''appsSectionTitle'', ''Application-Specific Tunnel Rules''),
     (''appsSectionDesc'', ''Packets emitted by specified binaries will follow designated routing table overrides''),
     (''btnAddAppRule'', ''Add Application Rule''),
     (''colStatus'', ''Status''),
     (''colApp'', ''Application''),
     (''colPath'', ''Executable Path''),
     (''colPolicy'', ''Routing Policy''),
     (''colActions'', ''Actions''),
     (''routeVpnBadge'', ''Route via VPN''),
     (''bypassBadge'', ''Bypass VPN (Direct)''),
     (''addIpSectionTitle'', ''Add Subnet CIDR or Domain Rule''),
     (''targetLabel'', ''Target CIDR / Wildcard Domain''),
     (''targetPlaceholder'', ''10.0.0.0/8 or *.corp.domain.com''),
     (''typeLabel'', ''Type''),
     (''typeCidr'', ''IPv4/IPv6 CIDR Subnet''),
     (''typeDomain'', ''Domain Pattern''),
     (''policyLabel'', ''Routing Mode''),
     (''policyRouteVpn'', ''Route via VPN''),
     (''policyBypass'', ''Bypass VPN (Direct)''),
     (''descLabel'', ''Description / Purpose''),
     (''descPlaceholder'', ''e.g. AWS VPC Staging''),
     (''btnAddRule'', ''Add''),
     (''colTarget'', ''Target Destination''),
     (''colType'', ''Type''),
     (''colDesc'', ''Description'')]"

definition en_modals1 :: "(string \<times> string) list" where
  "en_modals1 =
    [(''mfaTitle'', ''Two-Factor Authentication''),
     (''mfaSubtitle'', ''Enter the dynamic 6-digit TOTP / MFA passcode to establish this VPN tunnel.''),
     (''mfaPlaceholder'', ''000000''),
     (''mfaConfirm'', ''Authenticate & Connect''),
     (''mfaUsername'', ''Username''),
     (''mfaPassword'', ''Password''),
     (''mfaCodeLabel'', ''TOTP / MFA Code''),
     (''dnsLeakTitle'', ''Automated DNS Leak Test''),
     (''dnsLeakDesc'', ''Probing global resolver networks to detect DNS packet leaks bypassing your encrypted tunnel.''),
     (''dnsLeakTesting'', ''Testing DNS resolver leaks...''),
     (''dnsLeakPassed'', uni ''No DNS Leaks Detected ~02022 Your traffic is strictly routed through private VPN resolvers.''),
     (''dnsLeakFailed'', uni ''DNS Leak Detected ~02022 Unencrypted DNS requests were observed outside the tunnel.''),
     (''dnsServersFound'', ''Resolvers Detected''),
     (''dnsPublicIp'', ''Resolver IP''),
     (''dnsIsp'', ''ISP''),
     (''dnsLocation'', ''Location''),
     (''newProfileTitle'', ''Create VPN Connection Profile''),
     (''newProfileWireguardTitle'', ''WireGuard Protocol''),
     (''newProfileWireguardDesc'', ''High-speed modern ChaCha20 encrypted tunnel with lightweight keypairs.''),
     (''newProfileOpenvpnTitle'', ''OpenVPN Protocol''),
     (''newProfileOpenvpnDesc'', ''Industry-standard SSL/TLS enterprise VPN with multi-factor authentication support.''),
     (''newProfileImportTitle'', ''Import Existing Configuration''),
     (''newProfileImportDesc'', ''Drag & drop .ovpn, .conf, or client certificate bundles directly.''),
     (''importDropzoneText'', ''Drag .ovpn configuration file here or click to browse''),
     (''importDropzoneSubtext'', ''Supports OpenVPN unified format (.ovpn) with inline certificates and keys''),
     (''dropzoneRelease'', ''Release File to Import''),
     (''dropzoneDropNow'', ''Drop file now to import''),
     (''dropzoneAnalyzing'', ''Analyzing & Parsing Configuration...''),
     (''dropzoneExtracting'', ''Extracting TLS certificates, keys & tunnel endpoints from''),
     (''invalidFileType'', ''Invalid file type. Please upload a valid .ovpn or .conf configuration file.''),
     (''failedReadFile'', ''Failed to read configuration file. Please try again.''),
     (''failedParseFile'', ''Failed to parse VPN configuration file.''),
     (''exportDiagTitle'', ''Export Diagnostic Logs''),
     (''exportDiagSubtitle'', ''Download or copy encrypted technical diagnostics and tunnel logs for troubleshooting.''),
     (''exportDownloadJson'', ''Download JSON Bundle''),
     (''exportCopyText'', ''Copy to Clipboard''),
     (''exportIncludeLogs'', ''Include last 200 daemon trace logs''),
     (''exportIncludeRoutes'', ''Include active Kernel Routing Table (ip route)''),
     (''exportIncludeDns'', ''Include system DNS resolution cache state''),
     (''exportSanitizePrivate'', ''Automatically scrub/sanitize private passwords and cryptographic keys''),
     (''exportCompiling'', ''Compiling encrypted archive bundle...''),
     (''qrTitle'', ''Sync Profile with Mobile Client''),
     (''qrSubtitle'', ''Scan this QR code in VPNHub iOS or Android app to instantly import configuration.''),
     (''qrCopyBase64'', ''Copy Base64 Config String''),
     (''protoSelectImportTitle'', ''Import Profile - Select Protocol''),
     (''protoSelectAddTitle'', ''Add Profile - Select Protocol''),
     (''protoSelectImportDesc'', ''Choose which type of configuration file you want to import:''),
     (''protoSelectAddDesc'', ''Choose the VPN protocol engine to configure for this connection profile:''),
     (''protoWgTitle'', ''WireGuard''),
     (''protoWgBadgeImport'', ''.conf file''),
     (''protoWgBadgeAdd'', ''UDP Peer-to-Peer''),
     (''protoWgDescImport'', ''Import standard WireGuard configuration (.conf)''),
     (''protoWgDescAdd'', ''Ultra-fast throughput, modern cryptography & lowest latency.''),
     (''protoOvpnTitle'', ''OpenVPN''),
     (''protoOvpnBadgeImport'', ''.ovpn / .conf''),
     (''protoOvpnBadgeAdd'', ''TCP / UDP + 2FA''),
     (''protoOvpnDescImport'', ''Import OpenVPN client bundle (.ovpn / .conf)''),
     (''protoOvpnDescAdd'', ''Enterprise protocol supporting TCP/UDP, 2FA OTP & TLS Certificates.''),
     (''importWgTitle'', ''Import WireGuard (.conf)''),
     (''importOvpnTitle'', ''Import OpenVPN (.ovpn)''),
     (''importWgDropzone'', ''Drag & Drop WireGuard .conf file here''),
     (''importOvpnDropzone'', ''Drag & Drop OpenVPN .ovpn or .conf file here''),
     (''importWgHelp'', ''Supports WireGuard standard config format (.conf) up to 5MB''),
     (''importOvpnHelp'', ''Supports OpenVPN 2.x/3.x unified format (.ovpn) up to 5MB''),
     (''importClickBrowse'', ''or click to browse from your computer''),
     (''errExpectedWg'', ''The selected file appears to be an OpenVPN configuration. Please select a valid WireGuard (.conf) file containing [Interface] directives.''),
     (''errExpectedOvpn'', ''The selected file appears to be a WireGuard configuration. Please select an OpenVPN (.ovpn) file.''),
     (''addAppTitle'', ''Add Application Routing Rule''),
     (''addAppDetected'', ''DETECTED INSTALLED APPLICATIONS''),
     (''addAppNameLabel'', ''Application Name''),
     (''addAppNamePlaceholder'', ''e.g. Firefox Developer Edition''),
     (''addAppPathLabel'', ''Executable / Binary Path''),
     (''addAppPathPlaceholder'', uni ''/usr/bin/... or C:~0005CProgram Files~0005C...''),
     (''addAppPolicyLabel'', ''Routing Policy''),
     (''addAppBypassLabel'', ''Bypass VPN (Direct Internet Connection)''),
     (''addAppRouteLabel'', ''Route via Encrypted VPN Tunnel''),
     (''addAppSubmitBtn'', ''Add Rule''),
     (''certManagerTitle'', ''TLS & Certificate Security Manager''),
     (''tabRootCa'', ''Root CA''),
     (''tabTlsChannel'', ''TLS Channel''),
     (''tabClientIdentity'', ''Client Identity''),
     (''tabAdvanced'', ''Advanced''),
     (''rootCaTitle'', ''Certificate Authority (<ca>)''),
     (''rootCaLoaded'', ''Custom Root CA Loaded ({length} characters)''),
     (''rootCaDefaultSystem'', ''Operating system default Root CA bundle will be used.''),
     (''importCrtPem'', ''Import .crt / .pem''),
     (''rootCaPemLabel'', ''Root CA PEM Content''),
     (''rootCaPemPlaceholder'', uni ''-----BEGIN CERTIFICATE-----~0000A...~0000A-----END CERTIFICATE-----''),
     (''tlsModeLabel'', ''TLS Channel Protection Mode''),
     (''tlsModeDesc'', ''Provides an additional HMAC signature or control channel encryption layer.''),
     (''tlsModeNone'', ''None (Standard OpenVPN TLS Handshake)''),
     (''tlsModeAuth'', ''TLS-Auth (<tls-auth>) - Static HMAC Signature'')]"

definition en_modals2 :: "(string \<times> string) list" where
  "en_modals2 =
    [(''tlsModeCrypt'', ''TLS-Crypt (<tls-crypt>) - Full Control Channel Encryption''),
     (''tlsAuthStaticKeyTitle'', ''TLS-Auth Static Key''),
     (''tlsKeyLoaded'', ''Static Key Loaded ({length} chars)''),
     (''noKeyLoaded'', ''No key loaded''),
     (''importKeyFile'', ''Import .key file''),
     (''tlsAuthKeyContentLabel'', ''TLS Auth Key Content (<tls-auth>)''),
     (''keyDirectionLabel'', ''Key Direction (key-direction)''),
     (''keyDirectionDesc'', ''Must match the server configuration.''),
     (''keyDirNone'', ''None / Bidirectional''),
     (''keyDir0'', ''0 (Client / Incoming)''),
     (''keyDir1'', ''1 (Server / Outgoing)''),
     (''tlsCryptKeyTitle'', ''TLS-Crypt Symmetric Key''),
     (''tlsCryptKeyContentLabel'', ''TLS Crypt Key Content (<tls-crypt>)''),
     (''clientIdentityDesc'', ''Required for Mutual TLS (mTLS) or certificate-based client authentication.''),
     (''clientCertTitle'', ''Client Certificate (<cert>)''),
     (''clientCertLoaded'', ''Client Certificate Loaded ({length} chars)''),
     (''noCertLoaded'', ''No certificate''),
     (''importCrt'', ''Import .crt''),
     (''clientKeyTitle'', ''Client Private Key (<key>)''),
     (''clientKeyLoaded'', ''Private Key Loaded ({length} chars)''),
     (''noPrivateKeyLoaded'', ''No private key''),
     (''importKey'', ''Import .key''),
     (''verifyServerCertTitle'', ''Verify Server Certificate''),
     (''verifyServerCertDesc'', ''Enforces server certificate validation flag (remote-cert-tls server)''),
     (''renegSecLabel'', ''Renegotiation Interval (reneg-sec)''),
     (''renegSecPlaceholder'', ''e.g. 0 to disable data channel re-keying''),
     (''renegSecDesc'', ''Default: 3600 seconds. Set to 0 if your server or cloud VPN disables renegotiation.''),
     (''applyCertSettings'', ''Apply Certificate Settings''),
     (''wireguardComingSoonError'', ''WireGuard protocol is currently under development (Coming Soon). Please use OpenVPN (.ovpn) configuration.''),
     (''createWgTitle'', ''Create WireGuard Profile''),
     (''createOvpnTitle'', ''Create OpenVPN Profile''),
     (''editWgTitle'', ''Edit WireGuard Profile''),
     (''editOvpnTitle'', ''Edit OpenVPN Profile''),
     (''serverSettingsTitle'', ''Server & Connection Settings''),
     (''profileNameLabel'', ''Profile Name''),
     (''profileNameWgPlaceholder'', ''e.g. WireGuard Frankfurt Tunnel''),
     (''profileNameOvpnPlaceholder'', ''e.g. OpenVPN Corporate Staging''),
     (''transportProtoLabel'', ''Transport Protocol''),
     (''serverHostLabel'', ''Server Host / IP''),
     (''serverHostPlaceholder'', ''vpn.example.com or 103.21.244.18''),
     (''portLabel'', ''Port''),
     (''virtualIpLabel'', ''Assigned Virtual IP (CIDR)''),
     (''virtualIpDesc'', ''Assigned static IP for this WireGuard tunnel peer''),
     (''intranetOnlyTitle'', ''Use this connection only for resources on its network''),
     (''intranetOnlyActiveDesc'', ''Split-Tunnel active: Routes only internal subnets; Internet goes through local connection''),
     (''intranetOnlyDefaultDesc'', ''Default: Follows server configuration (Uses VPN default gateway if pushed by server)''),
     (''customSubnetsLabel'', ''Custom Corporate Subnets (CIDR)''),
     (''customSubnetsPlaceholder'', ''e.g. 10.0.0.0/8, 192.168.10.0/24, 172.16.0.0/12''),
     (''customSubnetsDesc'', ''Additional private subnets to route into this VPN tunnel (comma-separated)''),
     (''customSubnetsHint'', uni ''~1F4A1 Routes pushed by the VPN server & the assigned tunnel IP are automatically included.''),
     (''keysAuthTitle'', ''Keys & Authentication''),
     (''wgKeyExchangeBadge'', ''WireGuard Key Exchange''),
     (''ovpnAuth2faBadge'', ''OpenVPN Auth & 2FA''),
     (''wgPrivKeyLabel'', ''WireGuard Private Key (Base64)''),
     (''wgPrivKeyPlaceholder'', ''Client peer private key (e.g. aGVwaGFlc3R1cy...)''),
     (''wgPrivKeyDesc'', ''Encrypted securely in AES-256-GCM Vault''),
     (''wgPskLabel'', ''Preshared Key (Optional Post-Quantum Shield)''),
     (''wgPskPlaceholder'', ''Optional 256-bit symmetric PSK''),
     (''wgPskDesc'', ''Additional layer of post-quantum symmetric encryption''),
     (''ovpnUsernameLabel'', ''Username''),
     (''ovpnUsernamePlaceholder'', ''Enter VPN account username''),
     (''ovpnAuthModeLabel'', ''Password & 2FA / TOTP Authentication Mode''),
     (''authModeStatic'', ''Static Password''),
     (''authModeTotpAuto'', ''Auto TOTP''),
     (''authModeDynamicPrompt'', ''Prompt on Connect''),
     (''basePasswordLabel'', ''Base Password''),
     (''passwordLabel'', ''Password''),
     (''basePasswordPlaceholder'', ''Base password (or leave empty to prompt on connect)''),
     (''passwordPlaceholder'', ''Enter password''),
     (''totpSecretLabel'', ''TOTP Secret Key (Base32)''),
     (''totpSecretPlaceholder'', ''e.g. JBSWY3DPEHPK3PXP''),
     (''totpSecretDesc'', ''Stored securely in AES-256-GCM Encrypted Vault''),
     (''totpFormatLabel'', ''Combination Format''),
     (''totpFormatAppend'', ''Base Password + TOTP (e.g. MyPassword123456)''),
     (''totpFormatPrefix'', ''TOTP + Base Password (e.g. 123456MyPassword)''),
     (''totpFormatOnly'', ''TOTP Code Only (e.g. 123456)''),
     (''liveTotpLabel'', ''Live Authenticator OTP:''),
     (''activeOtpBadge'', ''Active OTP''),
     (''dynamicPromptHint'', uni ''~1F4A1 When connecting, VPNHub will display a fast 2FA dialog to enter your dynamic OTP passcode.''),
     (''tlsSummaryTitle'', ''TLS & Certificate Security''),
     (''tlsSummaryDesc'', ''Root CA, TLS Channel Keys, and Client Certificate Authentication''),
     (''btnConfigSecurity'', ''Configure Security''),
     (''btnSetupCertificates'', ''Setup Certificates''),
     (''badgeCustomCa'', uni ''~02713 Custom Root CA''),
     (''badgeSystemCa'', ''System Root CA''),
     (''badgeTlsCrypt'', uni ''~02713 TLS-Crypt Enabled''),
     (''badgeTlsAuth'', uni ''~02713 TLS-Auth (Dir: {direction})''),
     (''badgeStandardTls'', ''Standard TLS Handshake''),
     (''badgeClientCertKey'', uni ''~02713 Client Cert & Key''),
     (''badgeUserPassAuth'', ''User/Pass Auth''),
     (''badgeServerVerify'', ''Server Verify (Active)''),
     (''btnSaveChanges'', ''Save Changes''),
     (''btnCreateProfile'', ''Create Profile'')]"

section \<open>French\<close>

definition fr_common :: "(string \<times> string) list" where
  "fr_common =
    [(''save'', ''Enregistrer''),
     (''cancel'', ''Annuler''),
     (''delete'', ''Supprimer''),
     (''edit'', ''Modifier''),
     (''close'', ''Fermer''),
     (''copy'', ''Copier''),
     (''copied'', uni ''Copi~000E9 !''),
     (''open'', ''Ouvrir''),
     (''back'', ''Retour''),
     (''search'', ''Rechercher''),
     (''filter'', ''Filtrer''),
     (''reset'', uni ''R~000E9initialiser''),
     (''enable'', ''Activer''),
     (''disable'', uni ''D~000E9sactiver''),
     (''active'', ''Actif''),
     (''ready'', uni ''Pr~000EAt''),
     (''offline'', ''Hors ligne''),
     (''connected'', uni ''Connect~000E9''),
     (''connecting'', ''Connexion en cours''),
     (''reconnecting'', ''Reconnexion...''),
     (''disconnecting'', uni ''D~000E9connexion...''),
     (''disconnected'', uni ''D~000E9connect~000E9''),
     (''error'', ''Erreur''),
     (''none'', ''Aucun''),
     (''loading'', ''Chargement...''),
     (''all'', ''Tous''),
     (''success'', uni ''Succ~000E8s''),
     (''warning'', ''Avertissement''),
     (''username'', uni ''Nom d~00027utilisateur''),
     (''password'', ''Mot de passe''),
     (''or'', ''OU''),
     (''comingSoon'', uni ''Bient~000F4t disponible''),
     (''actions'', ''Actions''),
     (''location'', ''Emplacement''),
     (''isp'', ''FAI (Fournisseur)''),
     (''vpnProfiles'', ''PROFILS VPN''),
     (''commands'', ''COMMANDES & NAVIGATION''),
     (''statusLabel'', ''Statut''),
     (''type'', ''Type''),
     (''policy'', ''Politique''),
     (''target'', ''Destination'')]"

definition fr_nav :: "(string \<times> string) list" where
  "fr_nav =
    [(''menu'', ''Menu''),
     (''dashboard'', ''Tableau de bord''),
     (''profiles'', uni ''Biblioth~000E8que de profils''),
     (''security'', uni ''S~000E9curit~000E9 & Protection''),
     (''logs'', ''Console en direct''),
     (''settings'', uni ''Param~000E8tres''),
     (''supportAndDocs'', ''Support & Documentation''),
     (''collapseSidebar'', uni ''R~000E9duire la barre lat~000E9rale (Ctrl+B)''),
     (''expandSidebar'', uni ''Agrandir la barre lat~000E9rale (Ctrl+B)''),
     (''coreTitle'', uni ''C~00153ur VPNHub''),
     (''daemonStatus'', uni ''D~000E9mon'')]"

definition fr_titlebar :: "(string \<times> string) list" where
  "fr_titlebar =
    [(''searchPlaceholder'', ''Rechercher des profils, commandes...''),
     (''active'', ''Actif''),
     (''reconnecting'', ''Reconnexion''),
     (''offline'', ''Hors ligne''),
     (''searchShortcut'', uni ''~02318K'')]"

definition fr_statusBar :: "(string \<times> string) list" where
  "fr_statusBar =
    [(''killSwitchStrict'', ''Kill Switch: APPLICATION STRICTE''),
     (''killSwitchAuto'', uni ''Kill Switch: D~000C9CONNEXION AUTO''),
     (''killSwitchOff'', uni ''Kill Switch: D~000C9SACTIV~000C9''),
     (''ipv6Blocked'', uni ''BLOQU~000C9''),
     (''ipv6Pass'', ''PASSANT''),
     (''dnsSecured'', uni ''S~000C9CURIS~000C9'')]"

definition fr_dashboard :: "(string \<times> string) list" where
  "fr_dashboard =
    [(''heroTitleConnected'', uni ''Prot~000E9g~000E9 & Connect~000E9''),
     (''heroTitleDisconnected'', uni ''D~000E9connect~000E9 & Non prot~000E9g~000E9''),
     (''heroTitleConnecting'', uni ''~000C9tablissement du tunnel s~000E9curis~000E9...''),
     (''clickToDisconnect'', uni ''Cliquer pour d~000E9connecter''),
     (''clickToConnect'', ''Cliquer pour connecter''),
     (''selectProfilePrompt'', uni ''S~000E9lectionnez un profil ci-dessous pour vous connecter''),
     (''statusSecured'', uni ''S~000E9curis~000E9''),
     (''statusUnprotected'', uni ''Non prot~000E9g~000E9''),
     (''publicIp'', ''IP Publique''),
     (''virtualIp'', ''IP Virtuelle''),
     (''gateway'', ''Passerelle''),
     (''latency'', ''Latence''),
     (''uptime'', uni ''Temps d~00027activit~000E9''),
     (''downloadSpeed'', uni ''T~000E9l~000E9chargement''),
     (''uploadSpeed'', uni ''T~000E9l~000E9versement''),
     (''totalTraffic'', ''Trafic total''),
     (''quickSwitchTitle'', ''Changement rapide de profil''),
     (''manageAll'', uni ''G~000E9rer tous les profils''),
     (''liveLogStreamTitle'', uni ''Activit~000E9 en direct & T~000E9l~000E9m~000E9trie''),
     (''clearStream'', ''Effacer le flux''),
     (''noActiveTunnel'', uni ''Aucun tunnel actif connect~000E9''),
     (''daemonOffline'', uni ''D~000C9MON HORS LIGNE''),
     (''retryIpc'', uni ''R~000E9essayer ~021BA''),
     (''livePing'', ''Latence''),
     (''activeRules'', uni ''R~000E8gles actives'')]"

definition fr_profiles :: "(string \<times> string) list" where
  "fr_profiles =
    [(''title'', uni ''Biblioth~000E8que de profils''),
     (''subtitle'', uni ''G~000E9rer les configurations de serveurs WireGuard et OpenVPN''),
     (''addProfile'', ''Nouveau profil''),
     (''importOvpn'', ''Importer .ovpn''),
     (''searchPlaceholder'', ''Rechercher par nom, pays ou tag...''),
     (''allProtocols'', ''Tous les protocoles''),
     (''allTags'', ''Tous les tags''),
     (''favoritesOnly'', ''Favoris uniquement''),
     (''noProfilesFound'', uni ''Aucun profil VPN trouv~000E9''),
     (''createPrompt'', ''Ajoutez ou importez un profil pour commencer''),
     (''serverHost'', uni ''H~000F4te du serveur''),
     (''serverPort'', ''Port''),
     (''protocol'', ''Protocole''),
     (''status'', uni ''~000C9tat''),
     (''lastConnected'', uni ''Derni~000E8re connexion''),
     (''never'', ''Jamais''),
     (''connect'', ''Connecter''),
     (''disconnect'', uni ''D~000E9connecter''),
     (''deleteConfirm'', uni ''~000CAtes-vous s~000FBr de vouloir supprimer ce profil ?'')]"

definition fr_security :: "(string \<times> string) list" where
  "fr_security =
    [(''title'', uni ''Centre de S~000E9curit~000E9 & Protection''),
     (''subtitle'', uni ''Configurer les boucliers pare-feu, le kill switch et l~00027acc~000E8s r~000E9seau local''),
     (''killSwitchTitle'', ''Kill Switch Internet (Application du pare-feu)''),
     (''killSwitchDesc'', uni ''Bloque tout le trafic non chiffr~000E9 si le VPN se d~000E9connecte pour ~000E9viter les fuites''),
     (''killSwitchEnforced'', uni ''APPLIQU~000C9''),
     (''killSwitchOff'', uni ''D~000C9SACTIV~000C9''),
     (''ipv6Title'', ''Bouclier anti-fuite IPv6''),
     (''ipv6Desc'', uni ''Redirige le trafic IPv6 vers un trou noir pour ~000E9viter les fuites hors du tunnel''),
     (''ipv6Protected'', uni ''Prot~000E9g~000E9''),
     (''webrtcTitle'', ''Bouclier WebRTC STUN''),
     (''webrtcDesc'', uni ''Emp~000EAche les navigateurs de divulguer votre v~000E9ritable adresse IP via STUN''),
     (''webrtcProtected'', uni ''Prot~000E9g~000E9''),
     (''lanBypassTitle'', uni ''Acc~000E8s r~000E9seau local (LAN Bypass)''),
     (''lanBypassDesc'', uni ''Autorise l~00027acc~000E8s aux appareils locaux (imprimantes, NAS, routeur)''),
     (''lanBypassActive'', ''Actif''),
     (''dnsLeakTestTitle'', uni ''V~000E9rification des fuites DNS''),
     (''dnsLeakTestDesc'', uni ''Ex~000E9cute un diagnostic automatis~000E9 des fuites DNS''),
     (''runDnsTest'', ''Tester les fuites'')]"

definition fr_logs :: "(string \<times> string) list" where
  "fr_logs =
    [(''title'', ''Console en direct & Journaux de diagnostic''),
     (''subtitle'', uni ''~000C9v~000E9nements du moteur en temps r~000E9el et journaux de diagnostic''),
     (''searchPlaceholder'', uni ''Rechercher par mot-cl~000E9, cible ou message d~00027erreur...''),
     (''clearLogs'', ''Effacer les logs''),
     (''copyAll'', ''Tout copier''),
     (''autoScroll'', uni ''D~000E9filement auto''),
     (''filterAll'', ''TOUS''),
     (''filterInfo'', ''INFO''),
     (''filterWarn'', ''AVERT.''),
     (''filterError'', ''ERREUR''),
     (''filterDebug'', ''DEBUG''),
     (''noLogsMessage'', uni ''Aucun ~000E9v~000E9nement enregistr~000E9 pour le moment''),
     (''exportDiagnostics'', ''Exporter les logs'')]"

definition fr_settings :: "(string \<times> string) list" where
  "fr_settings =
    [(''title'', uni ''Param~000E8tres de l~00027application''),
     (''subtitle'', uni ''Configurer le comportement du client, les pr~000E9f~000E9rences de d~000E9marrage, la langue et l~00027int~000E9gration''),
     (''languageCardTitle'', uni ''Langue & Pr~000E9f~000E9rences r~000E9gionales''),
     (''languageSelectLabel'', uni ''Langue d~00027affichage''),
     (''languageSelectDesc'', uni ''S~000E9lectionnez votre langue pr~000E9f~000E9r~000E9e pour l~00027interface VPNHub''),
     (''desktopBehaviorTitle'', uni ''Comportement du bureau & de la fen~000EAtre''),
     (''launchAtStartup'', uni ''Lancer au d~000E9marrage du syst~000E8me''),
     (''launchAtStartupDesc'', uni ''D~000E9marre automatiquement VPNHub au d~000E9marrage de votre syst~000E8me d~00027exploitation''),
     (''startMinimized'', uni ''D~000E9marrer r~000E9duit dans la barre des t~000E2ches''),
     (''startMinimizedDesc'', uni ''D~000E9marre discr~000E8tement en arri~000E8re-plan sans ouvrir la fen~000EAtre principale''),
     (''autoConnectOnLaunch'', ''Connexion automatique au lancement''),
     (''autoConnectOnLaunchDesc'', uni ''~000C9tablit automatiquement la connexion ~000E0 votre profil favori ou au dernier utilis~000E9''),
     (''minimizeToTrayOnClose'', uni ''R~000E9duire dans la barre des t~000E2ches ~000E0 la fermeture''),
     (''minimizeToTrayOnCloseDesc'', uni ''La fermeture de la fen~000EAtre la masque dans la barre des t~000E2ches pour maintenir le tunnel actif''),
     (''networkIntegrationTitle'', uni ''R~000E9seau & Int~000E9gration syst~000E8me''),
     (''autoReconnect'', uni ''Reconnexion automatique lors du changement de r~000E9seau''),
     (''autoReconnectDesc'', uni ''R~000E9tablit automatiquement le tunnel lorsque le Wi-Fi se reconnecte ou change d~00027interface''),
     (''desktopNotifications'', uni ''Notifications syst~000E8me sur le bureau''),
     (''desktopNotificationsDesc'', uni ''Affiche des notifications syst~000E8me lors de la connexion, d~000E9connexion et alertes''),
     (''spotlightTitle'', ''Palette de commandes rapides Spotlight''),
     (''spotlightDesc'', uni ''Ouvrez le s~000E9lecteur de profils et la palette de navigation avec le raccourci''),
     (''spotlightButton'', uni ''Ouvrir (~02318K)''),
     (''diagnosticsTitle'', uni ''Diagnostics du c~00153ur & Coffre-fort chiffr~000E9''),
     (''engineStatus'', uni ''~000C9tat du moteur : Haute int~000E9grit~000E9''),
     (''cipherSuiteTitle'', ''Suite cryptographique''),
     (''cipherSuiteDesc'', ''ChaCha20-Poly1305 / AES-GCM + Post-Quantique ML-KEM''),
     (''ipcDaemonTitle'', uni ''D~000E9mon IPC''),
     (''ipcDaemonDesc'', uni ''Socket de domaine Unix ~02022 Latence : {latency}ms''),
     (''encryptedVaultTitle'', uni ''Coffre-fort chiffr~000E9''),
     (''encryptedVaultDesc'', uni ''Cl~000E9 mat~000E9rielle AES-256-GCM avec effacement s~000E9curis~000E9 en m~000E9moire (Zeroize)''),
     (''clientVersionText'', ''Client VPNHub v0.1.2''),
     (''resetDefaults'', uni ''R~000E9tablir les param~000E8tres par d~000E9faut''),
     (''settingsRestoredTitle'', uni ''Param~000E8tres r~000E9initialis~000E9s''),
     (''settingsRestoredMsg'', uni ''Les param~000E8tres de l~00027application ont ~000E9t~000E9 restaur~000E9s ~000E0 leurs valeurs par d~000E9faut.''),
     (''docsAndGithub'', ''Documentation & GitHub''),
     (''coreReady'', uni ''v{version} Pr~000EAt''),
     (''coreOffline'', ''Hors ligne''),
     (''vaultAes'', ''Coffre-fort : AES-256-GCM'')]"

definition fr_splitTunnel :: "(string \<times> string) list" where
  "fr_splitTunnel =
    [(''title'', ''Gestionnaire de Split Tunneling''),
     (''subtitle'', uni ''D~000E9finissez pr~000E9cis~000E9ment quelles applications, sous-r~000E9seaux CIDR et domaines transitent par le VPN ou internet''),
     (''tabApps'', uni ''R~000E8gles d~00027applications''),
     (''tabIpDomain'', uni ''Sous-r~000E9seaux IP & Domaines''),
     (''appsSectionTitle'', uni ''R~000E8gles sp~000E9cifiques aux applications''),
     (''appsSectionDesc'', uni ''Les paquets ~000E9mis par les ex~000E9cutables sp~000E9cifi~000E9s suivront la politique de routage d~000E9di~000E9e''),
     (''btnAddAppRule'', uni ''Ajouter une r~000E8gle d~00027application''),
     (''colStatus'', ''Statut''),
     (''colApp'', ''Application''),
     (''colPath'', uni ''Chemin de l~00027ex~000E9cutable''),
     (''colPolicy'', ''Politique''),
     (''colActions'', ''Actions''),
     (''routeVpnBadge'', uni ''Rout~000E9 via VPN''),
     (''bypassBadge'', ''Contournement VPN (Direct)''),
     (''addIpSectionTitle'', uni ''Ajouter un sous-r~000E9seau CIDR ou domaine''),
     (''targetLabel'', ''CIDR cible / Masque de domaine (*.domaine)''),
     (''targetPlaceholder'', ''10.0.0.0/8 ou *.corp.domaine.com''),
     (''typeLabel'', ''Type''),
     (''typeCidr'', uni ''Sous-r~000E9seau IPv4/IPv6 CIDR''),
     (''typeDomain'', ''Masque de domaine''),
     (''policyLabel'', ''Mode de routage''),
     (''policyRouteVpn'', uni ''Rout~000E9 via VPN''),
     (''policyBypass'', ''Contournement VPN (Direct)''),
     (''descLabel'', ''Description / Usage''),
     (''descPlaceholder'', ''Ex. : VPC AWS Staging''),
     (''btnAddRule'', ''Ajouter''),
     (''colTarget'', ''Destination cible''),
     (''colType'', ''Type''),
     (''colDesc'', ''Description'')]"

definition fr_modals1 :: "(string \<times> string) list" where
  "fr_modals1 =
    [(''mfaTitle'', uni ''Authentification ~000E0 deux facteurs (2FA / TOTP)''),
     (''mfaSubtitle'', uni ''Entrez le code TOTP / MFA dynamique ~000E0 6 chiffres pour ~000E9tablir la connexion VPN.''),
     (''mfaPlaceholder'', ''000000''),
     (''mfaConfirm'', ''Authentifier & Connecter''),
     (''mfaUsername'', uni ''Nom d~00027utilisateur''),
     (''mfaPassword'', ''Mot de passe''),
     (''mfaCodeLabel'', ''Code TOTP / MFA''),
     (''dnsLeakTitle'', uni ''Test automatis~000E9 de fuites DNS''),
     (''dnsLeakDesc'', uni ''Sondage des r~000E9solveurs mondiaux pour d~000E9tecter toute fuite DNS hors du tunnel chiffr~000E9.''),
     (''dnsLeakTesting'', uni ''D~000E9tection des fuites de r~000E9solveurs DNS...''),
     (''dnsLeakPassed'', uni ''Aucune fuite DNS d~000E9tect~000E9e ~02022 Votre trafic transite strictement par les r~000E9solveurs priv~000E9s.''),
     (''dnsLeakFailed'', uni ''Fuite DNS d~000E9tect~000E9e ~02022 Des requ~000EAtes DNS non chiffr~000E9es ont ~000E9t~000E9 observ~000E9es hors du tunnel.''),
     (''dnsServersFound'', uni ''R~000E9solveurs d~000E9tect~000E9s''),
     (''dnsPublicIp'', uni ''Adresse IP du r~000E9solveur''),
     (''dnsIsp'', ''FAI (Fournisseur)''),
     (''dnsLocation'', ''Emplacement''),
     (''newProfileTitle'', uni ''Cr~000E9er un profil de connexion VPN''),
     (''newProfileWireguardTitle'', ''Protocole WireGuard''),
     (''newProfileWireguardDesc'', uni ''Tunnel chiffr~000E9 moderne ultra-rapide ChaCha20 avec paires de cl~000E9s l~000E9g~000E8res.''),
     (''newProfileOpenvpnTitle'', ''Protocole OpenVPN''),
     (''newProfileOpenvpnDesc'', uni ''Standard industriel VPN d~00027entreprise SSL/TLS avec prise en charge du 2FA.''),
     (''newProfileImportTitle'', ''Importer une configuration existante''),
     (''newProfileImportDesc'', uni ''Glissez-d~000E9posez directement vos fichiers .ovpn, .conf ou certificats clients.''),
     (''importDropzoneText'', ''Glissez un fichier de configuration .ovpn ici ou cliquez pour parcourir''),
     (''importDropzoneSubtext'', uni ''Prend en charge le format unifi~000E9 OpenVPN (.ovpn) avec certificats int~000E9gr~000E9s''),
     (''dropzoneRelease'', uni ''Rel~000E2chez le fichier pour importer''),
     (''dropzoneDropNow'', uni ''D~000E9posez le fichier maintenant''),
     (''dropzoneAnalyzing'', ''Analyse et extraction de la configuration...''),
     (''dropzoneExtracting'', uni ''Extraction des certificats TLS, cl~000E9s et points de terminaison depuis''),
     (''invalidFileType'', ''Type de fichier invalide. Veuillez importer un fichier .ovpn ou .conf valide.''),
     (''failedReadFile'', uni ''~000C9chec de la lecture du fichier de configuration. Veuillez r~000E9essayer.''),
     (''failedParseFile'', uni ''~000C9chec de l~00027analyse du fichier de configuration VPN.''),
     (''exportDiagTitle'', ''Exporter les journaux de diagnostic''),
     (''exportDiagSubtitle'', uni ''T~000E9l~000E9chargez ou copiez les donn~000E9es techniques et journaux pour le d~000E9pannage.''),
     (''exportDownloadJson'', uni ''T~000E9l~000E9charger le fichier JSON''),
     (''exportCopyText'', ''Copier dans le presse-papiers''),
     (''exportIncludeLogs'', uni ''Inclure les 200 derniers journaux du d~000E9mon''),
     (''exportIncludeRoutes'', ''Inclure la table de routage active du noyau (ip route)''),
     (''exportIncludeDns'', uni ''Inclure l~00027~000E9tat du cache de r~000E9solution DNS''),
     (''exportSanitizePrivate'', uni ''Masquer automatiquement les mots de passe et cl~000E9s priv~000E9es''),
     (''exportCompiling'', uni ''Compilation et chiffrement de l~00027archive...''),
     (''qrTitle'', ''Synchroniser le profil sur mobile''),
     (''qrSubtitle'', uni ''Scannez ce code QR dans l~00027application VPNHub iOS ou Android pour importer le profil.''),
     (''qrCopyBase64'', uni ''Copier la cha~000EEne de configuration Base64''),
     (''protoSelectImportTitle'', ''Importer un profil - Choisir le protocole''),
     (''protoSelectAddTitle'', ''Nouveau profil - Choisir le protocole''),
     (''protoSelectImportDesc'', uni ''Choisissez le type de configuration ~000E0 importer :''),
     (''protoSelectAddDesc'', uni ''Choisissez le protocole VPN ~000E0 configurer pour ce profil :''),
     (''protoWgTitle'', ''WireGuard''),
     (''protoWgBadgeImport'', ''Fichier .conf''),
     (''protoWgBadgeAdd'', ''UDP Peer-to-Peer''),
     (''protoWgDescImport'', ''Importer une configuration WireGuard standard (.conf)''),
     (''protoWgDescAdd'', uni ''D~000E9bit ultra-rapide, cryptographie moderne et latence minimale.''),
     (''protoOvpnTitle'', ''OpenVPN''),
     (''protoOvpnBadgeImport'', ''.ovpn / .conf''),
     (''protoOvpnBadgeAdd'', ''TCP / UDP + 2FA''),
     (''protoOvpnDescImport'', ''Importer un paquet client OpenVPN (.ovpn / .conf)''),
     (''protoOvpnDescAdd'', uni ''Protocole d~00027entreprise avec support TCP/UDP, 2FA OTP et certificats TLS.''),
     (''importWgTitle'', ''Importer configuration WireGuard (.conf)''),
     (''importOvpnTitle'', ''Importer configuration OpenVPN (.ovpn)''),
     (''importWgDropzone'', uni ''Glissez et d~000E9posez le fichier WireGuard .conf ici''),
     (''importOvpnDropzone'', uni ''Glissez et d~000E9posez le fichier OpenVPN .ovpn ou .conf ici''),
     (''importWgHelp'', uni ''Prend en charge le format standard WireGuard (.conf) jusqu~00027~000E0 5 Mo''),
     (''importOvpnHelp'', uni ''Prend en charge le format unifi~000E9 OpenVPN 2.x/3.x (.ovpn) jusqu~00027~000E0 5 Mo''),
     (''importClickBrowse'', ''ou cliquez pour parcourir vos fichiers''),
     (''errExpectedWg'', uni ''Le fichier s~000E9lectionn~000E9 semble ~000EAtre une configuration OpenVPN. Veuillez s~000E9lectionner un fichier WireGuard (.conf) valide avec des directives [Interface].''),
     (''errExpectedOvpn'', uni ''Le fichier s~000E9lectionn~000E9 semble ~000EAtre une configuration WireGuard. Veuillez s~000E9lectionner un fichier OpenVPN (.ovpn) valide.''),
     (''addAppTitle'', uni ''Ajouter une r~000E8gle de routage applicative''),
     (''addAppDetected'', uni ''APPLICATIONS D~000C9TECT~000C9ES SUR LE SYST~000C8ME''),
     (''addAppNameLabel'', uni ''Nom de l~00027application''),
     (''addAppNamePlaceholder'', ''Ex. : Navigateur Firefox''),
     (''addAppPathLabel'', uni ''Chemin du binaire / ex~000E9cutable''),
     (''addAppPathPlaceholder'', uni ''/usr/bin/... ou C:~0005CProgram Files~0005C...''),
     (''addAppPolicyLabel'', ''Politique de routage''),
     (''addAppBypassLabel'', ''Contournement VPN (Connexion Internet directe)''),
     (''addAppRouteLabel'', uni ''Routage via le tunnel chiffr~000E9 VPN''),
     (''addAppSubmitBtn'', uni ''Ajouter la r~000E8gle''),
     (''certManagerTitle'', uni ''Gestionnaire de Certificats & S~000E9curit~000E9 TLS''),
     (''tabRootCa'', uni ''Autorit~000E9 Racine (CA)''),
     (''tabTlsChannel'', ''Canal TLS''),
     (''tabClientIdentity'', uni ''Identit~000E9 Client''),
     (''tabAdvanced'', uni ''Avanc~000E9''),
     (''rootCaTitle'', uni ''Autorit~000E9 de certification (<ca>)''),
     (''rootCaLoaded'', uni ''CA racine personnalis~000E9 charg~000E9 ({length} caract~000E8res)''),
     (''rootCaDefaultSystem'', uni ''Le magasin de certificats racine par d~000E9faut du syst~000E8me sera utilis~000E9.''),
     (''importCrtPem'', ''Importer .crt / .pem''),
     (''rootCaPemLabel'', ''Contenu PEM du CA racine''),
     (''rootCaPemPlaceholder'', uni ''-----BEGIN CERTIFICATE-----~0000A...~0000A-----END CERTIFICATE-----''),
     (''tlsModeLabel'', uni ''Protection du canal de contr~000F4le TLS''),
     (''tlsModeDesc'', uni ''Fournit une signature HMAC suppl~000E9mentaire ou un chiffrement complet du canal de contr~000F4le.''),
     (''tlsModeNone'', uni ''Aucun (N~000E9gociation TLS standard OpenVPN)''),
     (''tlsModeAuth'', ''TLS-Auth (<tls-auth>) - Signature HMAC statique'')]"

definition fr_modals2 :: "(string \<times> string) list" where
  "fr_modals2 =
    [(''tlsModeCrypt'', ''TLS-Crypt (<tls-crypt>) - Chiffrement complet du canal''),
     (''tlsAuthStaticKeyTitle'', uni ''Cl~000E9 statique TLS-Auth''),
     (''tlsKeyLoaded'', uni ''Cl~000E9 statique charg~000E9e ({length} car.)''),
     (''noKeyLoaded'', uni ''Aucune cl~000E9 charg~000E9e''),
     (''importKeyFile'', ''Importer fichier .key''),
     (''tlsAuthKeyContentLabel'', uni ''Contenu de la cl~000E9 TLS-Auth (<tls-auth>)''),
     (''keyDirectionLabel'', uni ''Direction de cl~000E9 (key-direction)''),
     (''keyDirectionDesc'', uni ''Doit correspondre ~000E0 la configuration du serveur.''),
     (''keyDirNone'', ''Aucun / Bidirectionnel''),
     (''keyDir0'', ''0 (Client / Entrant)''),
     (''keyDir1'', ''1 (Serveur / Sortant)''),
     (''tlsCryptKeyTitle'', uni ''Cl~000E9 sym~000E9trique TLS-Crypt''),
     (''tlsCryptKeyContentLabel'', uni ''Contenu de la cl~000E9 TLS-Crypt (<tls-crypt>)''),
     (''clientIdentityDesc'', uni ''Requis pour le TLS mutuel (mTLS) ou l~00027authentification bas~000E9e sur certificat.''),
     (''clientCertTitle'', ''Certificat client (<cert>)''),
     (''clientCertLoaded'', uni ''Certificat client charg~000E9 ({length} car.)''),
     (''noCertLoaded'', ''Aucun certificat''),
     (''importCrt'', ''Importer .crt''),
     (''clientKeyTitle'', uni ''Cl~000E9 priv~000E9e client (<key>)''),
     (''clientKeyLoaded'', uni ''Cl~000E9 priv~000E9e charg~000E9e ({length} car.)''),
     (''noPrivateKeyLoaded'', uni ''Aucune cl~000E9 priv~000E9e''),
     (''importKey'', ''Importer .key''),
     (''verifyServerCertTitle'', uni ''V~000E9rifier le certificat du serveur''),
     (''verifyServerCertDesc'', uni ''Applique le contr~000F4le strict du certificat serveur (remote-cert-tls server)''),
     (''renegSecLabel'', uni ''Intervalle de ren~000E9gociation (reneg-sec)''),
     (''renegSecPlaceholder'', uni ''Ex. : 0 pour d~000E9sactiver le renouvellement des cl~000E9s''),
     (''renegSecDesc'', uni ''D~000E9faut : 3600 secondes. Mettez 0 si votre serveur d~000E9sactive la ren~000E9gociation.''),
     (''applyCertSettings'', uni ''Appliquer les param~000E8tres de certificats''),
     (''wireguardComingSoonError'', uni ''Le protocole WireGuard est en cours de d~000E9veloppement (Bient~000F4t disponible). Veuillez utiliser une configuration OpenVPN (.ovpn).''),
     (''createWgTitle'', uni ''Cr~000E9er un profil WireGuard''),
     (''createOvpnTitle'', uni ''Cr~000E9er un profil OpenVPN''),
     (''editWgTitle'', ''Modifier le profil WireGuard''),
     (''editOvpnTitle'', ''Modifier le profil OpenVPN''),
     (''serverSettingsTitle'', uni ''Param~000E8tres du serveur et de connexion''),
     (''profileNameLabel'', ''Nom du profil''),
     (''profileNameWgPlaceholder'', ''Ex. : WireGuard Tunnel Paris''),
     (''profileNameOvpnPlaceholder'', ''Ex. : OpenVPN Entreprise Staging''),
     (''transportProtoLabel'', ''Protocole de transport''),
     (''serverHostLabel'', uni ''H~000F4te du serveur / IP''),
     (''serverHostPlaceholder'', ''vpn.example.com ou 103.21.244.18''),
     (''portLabel'', ''Port''),
     (''virtualIpLabel'', uni ''IP Virtuelle assign~000E9e (CIDR)''),
     (''virtualIpDesc'', uni ''IP statique attribu~000E9e pour ce pair WireGuard''),
     (''intranetOnlyTitle'', uni ''Utiliser cette connexion uniquement pour les ressources de son r~000E9seau''),
     (''intranetOnlyActiveDesc'', uni ''Split-Tunnel actif : Seuls les sous-r~000E9seaux internes sont rout~000E9s ; Internet passe par la connexion locale''),
     (''intranetOnlyDefaultDesc'', uni ''D~000E9faut : Suit la configuration du serveur (utilise la passerelle VPN par d~000E9faut)''),
     (''customSubnetsLabel'', uni ''Sous-r~000E9seaux d~00027entreprise personnalis~000E9s (CIDR)''),
     (''customSubnetsPlaceholder'', ''Ex. : 10.0.0.0/8, 192.168.10.0/24, 172.16.0.0/12''),
     (''customSubnetsDesc'', uni ''Sous-r~000E9seaux priv~000E9s suppl~000E9mentaires ~000E0 router dans ce tunnel VPN (s~000E9par~000E9s par des virgules)''),
     (''customSubnetsHint'', uni ''~1F4A1 Les routes envoy~000E9es par le serveur et l~00027IP du tunnel sont automatiquement incluses.''),
     (''keysAuthTitle'', uni ''Cl~000E9s et Authentification''),
     (''wgKeyExchangeBadge'', uni ''~000C9change de cl~000E9s WireGuard''),
     (''ovpnAuth2faBadge'', ''Authentification OpenVPN & 2FA''),
     (''wgPrivKeyLabel'', uni ''Cl~000E9 priv~000E9e WireGuard (Base64)''),
     (''wgPrivKeyPlaceholder'', uni ''Cl~000E9 priv~000E9e du pair client (ex. : aGVwaGFlc3R1cy...)''),
     (''wgPrivKeyDesc'', uni ''Chiffr~000E9 de mani~000E8re s~000E9curis~000E9e dans le coffre mat~000E9riel AES-256-GCM''),
     (''wgPskLabel'', uni ''Cl~000E9 pr~000E9-partag~000E9e PSK (Bouclier Post-Quantique)''),
     (''wgPskPlaceholder'', uni ''Cl~000E9 sym~000E9trique 256 bits optionnelle''),
     (''wgPskDesc'', uni ''Couche suppl~000E9mentaire de chiffrement sym~000E9trique post-quantique''),
     (''ovpnUsernameLabel'', uni ''Nom d~00027utilisateur''),
     (''ovpnUsernamePlaceholder'', ''Entrez le compte VPN''),
     (''ovpnAuthModeLabel'', uni ''Mode d~00027authentification Mot de passe & 2FA / TOTP''),
     (''authModeStatic'', ''Mot de passe statique''),
     (''authModeTotpAuto'', ''TOTP Automatique''),
     (''authModeDynamicPrompt'', uni ''Demander ~000E0 la connexion''),
     (''basePasswordLabel'', ''Mot de passe de base''),
     (''passwordLabel'', ''Mot de passe''),
     (''basePasswordPlaceholder'', uni ''Mot de passe de base (ou laisser vide pour demander ~000E0 la connexion)''),
     (''passwordPlaceholder'', ''Entrez le mot de passe''),
     (''totpSecretLabel'', uni ''Cl~000E9 secr~000E8te TOTP (Base32)''),
     (''totpSecretPlaceholder'', ''Ex. : JBSWY3DPEHPK3PXP''),
     (''totpSecretDesc'', uni ''Stock~000E9 de mani~000E8re s~000E9curis~000E9e dans le coffre-fort AES-256-GCM''),
     (''totpFormatLabel'', ''Format de combinaison''),
     (''totpFormatAppend'', ''Mot de passe de base + TOTP (Ex. : MonPasse123456)''),
     (''totpFormatPrefix'', ''TOTP + Mot de passe de base (Ex. : 123456MonPasse)''),
     (''totpFormatOnly'', ''Code TOTP seul (Ex. : 123456)''),
     (''liveTotpLabel'', ''OTP Authenticator en direct :''),
     (''activeOtpBadge'', ''OTP Actif''),
     (''dynamicPromptHint'', uni ''~1F4A1 Lors de la connexion, VPNHub affichera une bo~000EEte de dialogue 2FA rapide pour saisir votre code OTP.''),
     (''tlsSummaryTitle'', uni ''S~000E9curit~000E9 TLS & Certificats''),
     (''tlsSummaryDesc'', uni ''CA racine, cl~000E9s de canal TLS et authentification par certificat client''),
     (''btnConfigSecurity'', uni ''Configurer la s~000E9curit~000E9''),
     (''btnSetupCertificates'', ''Installer les certificats''),
     (''badgeCustomCa'', uni ''~02713 CA Racine personnalis~000E9''),
     (''badgeSystemCa'', uni ''CA Racine syst~000E8me''),
     (''badgeTlsCrypt'', uni ''~02713 TLS-Crypt activ~000E9''),
     (''badgeTlsAuth'', uni ''~02713 TLS-Auth (Dir: {direction})''),
     (''badgeStandardTls'', uni ''N~000E9gociation TLS standard''),
     (''badgeClientCertKey'', uni ''~02713 Certificat & Cl~000E9 Client''),
     (''badgeUserPassAuth'', ''Auth Utilisateur/Pass''),
     (''badgeServerVerify'', uni ''V~000E9rification serveur (Active)''),
     (''btnSaveChanges'', ''Enregistrer les modifications''),
     (''btnCreateProfile'', uni ''Cr~000E9er le profil'')]"

section \<open>Vietnamese\<close>

definition vi_common :: "(string \<times> string) list" where
  "vi_common =
    [(''save'', uni ''L~001B0u''),
     (''cancel'', uni ''H~01EE7y''),
     (''delete'', uni ''X~000F3a''),
     (''edit'', uni ''Ch~01EC9nh s~01EEDa''),
     (''close'', uni ''~00110~000F3ng''),
     (''copy'', uni ''Sao ch~000E9p''),
     (''copied'', uni ''~00110~000E3 sao ch~000E9p!''),
     (''open'', uni ''M~01EDF''),
     (''back'', uni ''Quay l~01EA1i''),
     (''search'', uni ''T~000ECm ki~01EBFm''),
     (''filter'', uni ''B~01ED9 l~01ECDc''),
     (''reset'', uni ''~00110~01EB7t l~01EA1i''),
     (''enable'', uni ''B~01EADt''),
     (''disable'', uni ''T~01EAFt''),
     (''active'', uni ''Ho~01EA1t ~00111~01ED9ng''),
     (''ready'', uni ''S~01EB5n s~000E0ng''),
     (''offline'', uni ''Ngo~01EA1i tuy~01EBFn''),
     (''connected'', uni ''~00110~000E3 k~01EBFt n~01ED1i''),
     (''connecting'', uni ''~00110ang k~01EBFt n~01ED1i''),
     (''reconnecting'', uni ''~00110ang k~01EBFt n~01ED1i l~01EA1i''),
     (''disconnecting'', uni ''~00110ang ng~01EAFt k~01EBFt n~01ED1i''),
     (''disconnected'', uni ''Ch~001B0a k~01EBFt n~01ED1i''),
     (''error'', uni ''L~01ED7i''),
     (''none'', uni ''Kh~000F4ng c~000F3''),
     (''loading'', uni ''~00110ang t~01EA3i...''),
     (''all'', uni ''T~01EA5t c~01EA3''),
     (''success'', uni ''Th~000E0nh c~000F4ng''),
     (''warning'', uni ''C~01EA3nh b~000E1o''),
     (''username'', uni ''T~000EAn ~00111~00103ng nh~01EADp''),
     (''password'', uni ''M~01EADt kh~01EA9u''),
     (''or'', uni ''HO~01EB6C''),
     (''comingSoon'', uni ''S~01EAFp ra m~01EAFt''),
     (''actions'', uni ''Thao t~000E1c''),
     (''location'', uni ''V~01ECB tr~000ED''),
     (''isp'', uni ''Nh~000E0 m~01EA1ng (ISP)''),
     (''vpnProfiles'', uni ''C~01EA4U H~000CCNH VPN''),
     (''commands'', uni ''L~01EC6NH & ~00110I~01EC0U H~001AF~01EDANG''),
     (''statusLabel'', uni ''Tr~01EA1ng th~000E1i''),
     (''type'', uni ''Lo~01EA1i''),
     (''policy'', uni ''Ch~000EDnh s~000E1ch''),
     (''target'', uni ''~00110~000EDch ~00111~01EBFn'')]"

definition vi_nav :: "(string \<times> string) list" where
  "vi_nav =
    [(''menu'', uni ''Danh m~01EE5c''),
     (''dashboard'', uni ''B~01EA3ng ~00111i~01EC1u khi~01EC3n''),
     (''profiles'', uni ''Th~001B0 vi~01EC7n c~01EA5u h~000ECnh''),
     (''security'', uni ''B~01EA3o m~01EADt & L~000E1 ch~01EAFn''),
     (''logs'', uni ''Nh~01EADt k~000FD Console''),
     (''settings'', uni ''C~000E0i ~00111~01EB7t''),
     (''supportAndDocs'', uni ''H~01ED7 tr~01EE3 & T~000E0i li~01EC7u''),
     (''collapseSidebar'', uni ''Thu g~01ECDn Sidebar (Ctrl+B)''),
     (''expandSidebar'', uni ''M~01EDF r~01ED9ng Sidebar (Ctrl+B)''),
     (''coreTitle'', ''VPNHub Core''),
     (''daemonStatus'', ''Daemon'')]"

definition vi_titlebar :: "(string \<times> string) list" where
  "vi_titlebar =
    [(''searchPlaceholder'', uni ''T~000ECm ki~01EBFm c~01EA5u h~000ECnh, l~01EC7nh...''),
     (''active'', uni ''Ho~01EA1t ~00111~01ED9ng''),
     (''reconnecting'', uni ''~00110ang k~01EBFt n~01ED1i l~01EA1i''),
     (''offline'', uni ''Ngo~01EA1i tuy~01EBFn''),
     (''searchShortcut'', uni ''~02318K'')]"

definition vi_statusBar :: "(string \<times> string) list" where
  "vi_statusBar =
    [(''killSwitchStrict'', uni ''Kill Switch: TH~01EF0C THI NGHI~000CAM NG~01EB6T''),
     (''killSwitchAuto'', uni ''Kill Switch: T~01EF0 ~00110~01ED8NG TH~01EA2 N~01ED4I''),
     (''killSwitchOff'', uni ''Kill Switch: ~00110~000C3 T~01EAET''),
     (''ipv6Blocked'', uni ''~00110~000C3 CH~01EB6N''),
     (''ipv6Pass'', uni ''B~01ECE QUA''),
     (''dnsSecured'', uni ''B~01EA2O M~01EACT'')]"

definition vi_dashboard :: "(string \<times> string) list" where
  "vi_dashboard =
    [(''heroTitleConnected'', uni ''~00110~000E3 b~01EA3o v~01EC7 & ~00110ang k~01EBFt n~01ED1i''),
     (''heroTitleDisconnected'', uni ''Ch~001B0a k~01EBFt n~01ED1i & Ch~001B0a b~01EA3o v~01EC7''),
     (''heroTitleConnecting'', uni ''~00110ang thi~01EBFt l~01EADp ~00111~001B0~01EDDng h~01EA7m b~01EA3o m~01EADt...''),
     (''clickToDisconnect'', uni ''Nh~01EA5n ~00111~01EC3 ng~01EAFt k~01EBFt n~01ED1i''),
     (''clickToConnect'', uni ''Nh~01EA5n ~00111~01EC3 k~01EBFt n~01ED1i''),
     (''selectProfilePrompt'', uni ''Ch~01ECDn m~01ED9t c~01EA5u h~000ECnh b~000EAn d~001B0~01EDBi ~00111~01EC3 b~01EAFt ~00111~01EA7u k~01EBFt n~01ED1i''),
     (''statusSecured'', uni ''~00110~000E3 b~01EA3o v~01EC7''),
     (''statusUnprotected'', uni ''Ch~001B0a b~01EA3o v~01EC7''),
     (''publicIp'', uni ''IP C~000F4ng khai''),
     (''virtualIp'', uni ''IP ~01EA2o VPN''),
     (''gateway'', uni ''C~01ED5ng Gateway''),
     (''latency'', uni ''~00110~01ED9 tr~01EC5''),
     (''uptime'', uni ''Th~01EDDi gian ch~01EA1y''),
     (''downloadSpeed'', uni ''T~01EA3i xu~01ED1ng''),
     (''uploadSpeed'', uni ''T~01EA3i l~000EAn''),
     (''totalTraffic'', uni ''T~01ED5ng l~001B0u l~001B0~01EE3ng''),
     (''quickSwitchTitle'', uni ''Chuy~01EC3n nhanh c~01EA5u h~000ECnh''),
     (''manageAll'', uni ''Qu~01EA3n l~000FD t~01EA5t c~01EA3''),
     (''liveLogStreamTitle'', uni ''Ho~01EA1t ~00111~01ED9ng & ~00110o ki~01EC3m th~01EDDi gian th~01EF1c''),
     (''clearStream'', uni ''X~000F3a lu~01ED3ng''),
     (''noActiveTunnel'', uni ''Ch~001B0a c~000F3 ~00111~001B0~01EDDng h~01EA7m n~000E0o k~01EBFt n~01ED1i''),
     (''daemonOffline'', uni ''DAEMON NGO~01EA0I TUY~01EBEN''),
     (''retryIpc'', uni ''Th~01EED l~01EA1i ~021BA''),
     (''livePing'', uni ''~00110~01ED9 tr~01EC5''),
     (''activeRules'', uni ''Quy t~01EAFc ho~01EA1t ~00111~01ED9ng'')]"

definition vi_profiles :: "(string \<times> string) list" where
  "vi_profiles =
    [(''title'', uni ''Th~001B0 vi~01EC7n c~01EA5u h~000ECnh''),
     (''subtitle'', uni ''Qu~01EA3n l~000FD c~000E1c c~01EA5u h~000ECnh m~000E1y ch~01EE7 WireGuard v~000E0 OpenVPN''),
     (''addProfile'', uni ''Th~000EAm c~01EA5u h~000ECnh''),
     (''importOvpn'', uni ''Nh~01EADp file .ovpn''),
     (''searchPlaceholder'', uni ''T~000ECm c~01EA5u h~000ECnh theo t~000EAn, qu~01ED1c gia, th~01EBB...''),
     (''allProtocols'', uni ''T~01EA5t c~01EA3 giao th~01EE9c''),
     (''allTags'', uni ''T~01EA5t c~01EA3 th~01EBB''),
     (''favoritesOnly'', uni ''Ch~01EC9 m~01EE5c y~000EAu th~000EDch''),
     (''noProfilesFound'', uni ''Kh~000F4ng t~000ECm th~01EA5y c~01EA5u h~000ECnh VPN n~000E0o''),
     (''createPrompt'', uni ''Th~000EAm m~01EDBi ho~01EB7c nh~01EADp file ~00111~01EC3 b~01EAFt ~00111~01EA7u''),
     (''serverHost'', uni ''M~000E1y ch~01EE7 Host''),
     (''serverPort'', uni ''C~01ED5ng''),
     (''protocol'', uni ''Giao th~01EE9c''),
     (''status'', uni ''Tr~01EA1ng th~000E1i''),
     (''lastConnected'', uni ''L~01EA7n k~01EBFt n~01ED1i cu~01ED1i''),
     (''never'', uni ''Ch~001B0a t~01EEBng''),
     (''connect'', uni ''K~01EBFt n~01ED1i''),
     (''disconnect'', uni ''Ng~01EAFt k~01EBFt n~01ED1i''),
     (''deleteConfirm'', uni ''B~01EA1n c~000F3 ch~01EAFc ch~01EAFn mu~01ED1n x~000F3a c~01EA5u h~000ECnh n~000E0y kh~000F4ng?'')]"

definition vi_security :: "(string \<times> string) list" where
  "vi_security =
    [(''title'', uni ''Trung t~000E2m B~01EA3o m~01EADt & L~000E1 ch~01EAFn''),
     (''subtitle'', uni ''C~01EA5u h~000ECnh t~001B0~01EDDng l~01EEDa ch~01ED1ng r~000F2 r~01EC9, ng~01EAFt k~01EBFt n~01ED1i t~01EF1 ~00111~01ED9ng v~000E0 ngo~01EA1i l~01EC7 m~01EA1ng n~01ED9i b~01ED9''),
     (''killSwitchTitle'', uni ''Kill Switch (Th~01EF1c thi t~001B0~01EDDng l~01EEDa nghi~000EAm ng~01EB7t)''),
     (''killSwitchDesc'', uni ''Ch~01EB7n to~000E0n b~01ED9 l~001B0u l~001B0~01EE3ng kh~000F4ng m~000E3 h~000F3a n~01EBFu VPN b~01ECB ng~01EAFt ~00111~01ED9t ng~01ED9t ~00111~01EC3 ch~01ED1ng l~01ED9 d~01EEF li~01EC7u''),
     (''killSwitchEnforced'', uni ''~00110ANG TH~01EF0C THI''),
     (''killSwitchOff'', uni ''T~01EAET''),
     (''ipv6Title'', uni ''L~000E1 ch~01EAFn r~000F2 r~01EC9 IPv6 (Blackhole)''),
     (''ipv6Desc'', uni ''Chuy~01EC3n h~001B0~01EDBng v~000F4 hi~01EC7u h~000F3a IPv6 g~01ED1c ~00111~01EC3 ~00111~01EA3m b~01EA3o kh~000F4ng r~000F2 r~01EC9 d~01EEF li~01EC7u ngo~000E0i ~00111~001B0~01EDDng h~01EA7m''),
     (''ipv6Protected'', uni ''~00110~000E3 b~01EA3o v~01EC7''),
     (''webrtcTitle'', uni ''L~000E1 ch~01EAFn WebRTC STUN''),
     (''webrtcDesc'', uni ''Ng~00103n ch~01EB7n tr~000ECnh duy~01EC7t r~000F2 r~01EC9 ~00111~01ECBa ch~01EC9 IP th~01EADt qua c~000E1c g~000F3i tin STUN ra ngo~000E0i''),
     (''webrtcProtected'', uni ''~00110~000E3 b~01EA3o v~01EC7''),
     (''lanBypassTitle'', uni ''Cho ph~000E9p m~01EA1ng c~01EE5c b~01ED9 (LAN Bypass)''),
     (''lanBypassDesc'', uni ''Cho ph~000E9p truy c~01EADp m~000E1y in, ~01ED5 c~01EE9ng m~01EA1ng NAS v~000E0 router trong m~01EA1ng n~01ED9i b~01ED9 gia ~00111~000ECnh/v~00103n ph~000F2ng''),
     (''lanBypassActive'', uni ''Ho~01EA1t ~00111~01ED9ng''),
     (''dnsLeakTestTitle'', uni ''Ki~01EC3m tra r~000F2 r~01EC9 DNS''),
     (''dnsLeakTestDesc'', uni ''Ch~01EA1y ch~01EA9n ~00111o~000E1n t~01EF1 ~00111~01ED9ng ph~000E1t hi~01EC7n r~000F2 r~01EC9 m~000E1y ch~01EE7 DNS to~000E0n c~01EA7u''),
     (''runDnsTest'', uni ''Ki~01EC3m tra r~000F2 r~01EC9'')]"

definition vi_logs :: "(string \<times> string) list" where
  "vi_logs =
    [(''title'', uni ''Nh~01EADt k~000FD Console & Ch~01EA9n ~00111o~000E1n''),
     (''subtitle'', uni ''S~01EF1 ki~01EC7n engine th~01EDDi gian th~01EF1c, b~01EAFt tay giao th~01EE9c v~000E0 log ph~000E2n t~000EDch''),
     (''searchPlaceholder'', uni ''T~000ECm nh~01EADt k~000FD theo t~01EEB kh~000F3a, ~00111~000EDch ~00111~01EBFn ho~01EB7c th~000F4ng b~000E1o l~01ED7i...''),
     (''clearLogs'', uni ''X~000F3a nh~01EADt k~000FD''),
     (''copyAll'', uni ''Sao ch~000E9p t~01EA5t c~01EA3''),
     (''autoScroll'', uni ''T~01EF1 ~00111~01ED9ng cu~01ED9n''),
     (''filterAll'', uni ''T~01EA4T C~01EA2''),
     (''filterInfo'', uni ''TH~000D4NG TIN''),
     (''filterWarn'', uni ''C~01EA2NH B~000C1O''),
     (''filterError'', uni ''L~01ED6I''),
     (''filterDebug'', uni ''G~01EE0 L~01ED6I''),
     (''noLogsMessage'', uni ''Ch~001B0a c~000F3 s~01EF1 ki~01EC7n console n~000E0o ~00111~001B0~01EE3c ghi l~01EA1i''),
     (''exportDiagnostics'', uni ''Xu~01EA5t nh~01EADt k~000FD'')]"

definition vi_settings :: "(string \<times> string) list" where
  "vi_settings =
    [(''title'', uni ''C~000E0i ~00111~01EB7t ~01EE9ng d~01EE5ng''),
     (''subtitle'', uni ''C~01EA5u h~000ECnh h~000E0nh vi m~000E1y kh~000E1ch, t~000F9y ch~01ECDn kh~01EDFi ~00111~01ED9ng, ng~000F4n ng~01EEF v~000E0 t~000EDch h~01EE3p h~01EC7 th~01ED1ng''),
     (''languageCardTitle'', uni ''Ng~000F4n ng~01EEF & T~000F9y ch~01ECDn khu v~01EF1c''),
     (''languageSelectLabel'', uni ''Ng~000F4n ng~01EEF hi~01EC3n th~01ECB''),
     (''languageSelectDesc'', uni ''L~01EF1a ch~01ECDn ng~000F4n ng~01EEF hi~01EC3n th~01ECB cho giao di~01EC7n ng~001B0~01EDDi d~000F9ng VPNHub''),
     (''desktopBehaviorTitle'', uni ''H~000E0nh vi C~01EEDa s~01ED5 & Desktop''),
     (''launchAtStartup'', uni ''Kh~01EDFi ~00111~01ED9ng c~000F9ng h~01EC7 th~01ED1ng''),
     (''launchAtStartupDesc'', uni ''T~01EF1 ~00111~01ED9ng kh~01EDFi ch~01EA1y VPNHub khi h~01EC7 ~00111i~01EC1u h~000E0nh c~01EE7a b~01EA1n kh~01EDFi ~00111~01ED9ng''),
     (''startMinimized'', uni ''Kh~01EDFi ~00111~01ED9ng thu nh~01ECF v~000E0o khay h~01EC7 th~01ED1ng''),
     (''startMinimizedDesc'', uni ''Kh~01EDFi ch~01EA1y ng~01EA7m tr~000EAn thanh Taskbar/Tray m~000E0 kh~000F4ng hi~01EC7n c~01EEDa s~01ED5 ch~000EDnh''),
     (''autoConnectOnLaunch'', uni ''T~01EF1 ~00111~01ED9ng k~01EBFt n~01ED1i khi kh~01EDFi ch~01EA1y''),
     (''autoConnectOnLaunchDesc'', uni ''T~01EF1 ~00111~01ED9ng k~01EBFt n~01ED1i t~01EDBi c~01EA5u h~000ECnh y~000EAu th~000EDch ho~01EB7c c~01EA5u h~000ECnh ~00111~000E3 d~000F9ng g~01EA7n nh~01EA5t''),
     (''minimizeToTrayOnClose'', uni ''Thu nh~01ECF v~000E0o khay h~01EC7 th~01ED1ng khi ~00111~000F3ng''),
     (''minimizeToTrayOnCloseDesc'', uni ''~00110~000F3ng c~01EEDa s~01ED5 s~01EBD ~01EA9n v~000E0o khay h~01EC7 th~01ED1ng ~00111~01EC3 gi~01EEF k~01EBFt n~01ED1i VPN li~000EAn t~01EE5c''),
     (''networkIntegrationTitle'', uni ''M~01EA1ng & T~000EDch h~01EE3p h~01EC7 th~01ED1ng''),
     (''autoReconnect'', uni ''T~01EF1 ~00111~01ED9ng k~01EBFt n~01ED1i l~01EA1i khi ~00111~01ED5i m~01EA1ng''),
     (''autoReconnectDesc'', uni ''T~01EF1 ~00111~01ED9ng ph~01EE5c h~01ED3i ~00111~001B0~01EDDng h~01EA7m khi chuy~01EC3n ~00111~01ED5i Wi-Fi ho~01EB7c m~01EA1ng b~01ECB gi~000E1n ~00111o~01EA1n''),
     (''desktopNotifications'', uni ''Th~000F4ng b~000E1o tr~000EAn m~000E0n h~000ECnh Desktop''),
     (''desktopNotificationsDesc'', uni ''Hi~01EC3n th~01ECB th~000F4ng b~000E1o h~01EC7 th~01ED1ng khi k~01EBFt n~01ED1i, ng~01EAFt k~01EBFt n~01ED1i v~000E0 c~01EA3nh b~000E1o b~01EA3o m~01EADt''),
     (''spotlightTitle'', uni ''Thanh t~000ECm ki~01EBFm l~01EC7nh nhanh Spotlight''),
     (''spotlightDesc'', uni ''K~000EDch ho~01EA1t nhanh b~01EA3ng chuy~01EC3n ~00111~01ED5i c~01EA5u h~000ECnh v~000E0 ~00111i~01EC1u h~001B0~01EDBng b~01EB1ng ph~000EDm t~01EAFt''),
     (''spotlightButton'', uni ''M~01EDF (~02318K)''),
     (''diagnosticsTitle'', uni ''Ch~01EA9n ~00111o~000E1n l~000F5i & K~000E9t l~001B0u tr~01EEF m~000E3 h~000F3a''),
     (''engineStatus'', uni ''Tr~01EA1ng th~000E1i Engine: To~000E0n v~01EB9n cao''),
     (''cipherSuiteTitle'', uni ''B~01ED9 thu~01EADt to~000E1n m~000E3 h~000F3a''),
     (''cipherSuiteDesc'', uni ''ChaCha20-Poly1305 / AES-GCM + H~01EADu l~001B0~01EE3ng t~01EED ML-KEM''),
     (''ipcDaemonTitle'', ''Daemon IPC''),
     (''ipcDaemonDesc'', uni ''Unix Domain Socket ~02022 ~00110~01ED9 tr~01EC5: {latency}ms''),
     (''encryptedVaultTitle'', uni ''K~000E9t l~001B0u tr~01EEF b~01EA3o m~01EADt''),
     (''encryptedVaultDesc'', uni ''Kh~000F3a ph~01EA7n c~01EE9ng m~000E3 h~000F3a AES-256-GCM v~01EDBi c~001A1 ch~01EBF t~01EF1 h~01EE7y b~01ED9 nh~01EDB (Zeroize)''),
     (''clientVersionText'', ''VPNHub Desktop Client v0.1.2''),
     (''resetDefaults'', uni ''Kh~000F4i ph~01EE5c m~01EB7c ~00111~01ECBnh''),
     (''settingsRestoredTitle'', uni ''~00110~000E3 kh~000F4i ph~01EE5c c~000E0i ~00111~01EB7t''),
     (''settingsRestoredMsg'', uni ''C~000E1c t~000F9y ch~01ECDn c~000E0i ~00111~01EB7t ~01EE9ng d~01EE5ng ~00111~000E3 ~00111~001B0~01EE3c ~00111~001B0a v~01EC1 gi~000E1 tr~01ECB m~01EB7c ~00111~01ECBnh.''),
     (''docsAndGithub'', uni ''T~000E0i li~01EC7u & GitHub''),
     (''coreReady'', uni ''v{version} S~01EB5n s~000E0ng''),
     (''coreOffline'', uni ''Ngo~01EA1i tuy~01EBFn''),
     (''vaultAes'', uni ''K~000E9t b~01EA3o m~01EADt: AES-256-GCM'')]"

definition vi_splitTunnel :: "(string \<times> string) list" where
  "vi_splitTunnel =
    [(''title'', uni ''Qu~01EA3n l~000FD Ch~000EDnh s~000E1ch Ph~000E2n lu~01ED3ng (Split Tunneling)''),
     (''subtitle'', uni ''X~000E1c ~00111~01ECBnh chi ti~01EBFt ~01EE9ng d~01EE5ng, d~01EA3i m~01EA1ng CIDR v~000E0 t~000EAn mi~01EC1n n~000E0o ~00111i qua VPN ho~01EB7c m~01EA1ng tr~01EF1c ti~01EBFp''),
     (''tabApps'', uni ''Quy t~01EAFc ~01EE8ng d~01EE5ng''),
     (''tabIpDomain'', uni ''D~01EA3i IP & T~000EAn mi~01EC1n''),
     (''appsSectionTitle'', uni ''Quy t~01EAFc ~00111~01ECBnh tuy~01EBFn ~01EE9ng d~01EE5ng c~01EE5 th~01EC3''),
     (''appsSectionDesc'', uni ''C~000E1c g~000F3i tin ph~000E1t ra t~01EEB t~01EC7p th~01EF1c thi ch~01EC9 ~00111~01ECBnh s~01EBD tu~000E2n theo ch~000EDnh s~000E1ch ~00111~01ECBnh tuy~01EBFn ri~000EAng''),
     (''btnAddAppRule'', uni ''Th~000EAm quy t~01EAFc ~01EE9ng d~01EE5ng''),
     (''colStatus'', uni ''Tr~01EA1ng th~000E1i''),
     (''colApp'', uni ''~01EE8ng d~01EE5ng''),
     (''colPath'', uni ''~00110~001B0~01EDDng d~01EABn th~01EF1c thi''),
     (''colPolicy'', uni ''Ch~000EDnh s~000E1ch''),
     (''colActions'', uni ''Thao t~000E1c''),
     (''routeVpnBadge'', uni ''~00110~01ECBnh tuy~01EBFn qua VPN''),
     (''bypassBadge'', uni ''B~01ECF qua VPN (Tr~01EF1c ti~01EBFp)''),
     (''addIpSectionTitle'', uni ''Th~000EAm D~01EA3i IP Subnet CIDR ho~01EB7c T~000EAn mi~01EC1n''),
     (''targetLabel'', uni ''CIDR ~00110~000EDch / T~000EAn mi~01EC1n ~00111~01EA1i di~01EC7n (*.domain)''),
     (''targetPlaceholder'', uni ''10.0.0.0/8 ho~01EB7c *.corp.domain.com''),
     (''typeLabel'', uni ''Lo~01EA1i''),
     (''typeCidr'', uni ''D~01EA3i Subnet IPv4/IPv6 CIDR''),
     (''typeDomain'', uni ''M~01EABu t~000EAn mi~01EC1n (Domain)''),
     (''policyLabel'', uni ''Ch~01EBF ~00111~01ED9 ~00111~01ECBnh tuy~01EBFn''),
     (''policyRouteVpn'', uni ''~00110~01ECBnh tuy~01EBFn qua VPN''),
     (''policyBypass'', uni ''B~01ECF qua VPN (Tr~01EF1c ti~01EBFp)''),
     (''descLabel'', uni ''M~000F4 t~01EA3 / M~01EE5c ~00111~000EDch''),
     (''descPlaceholder'', uni ''V~000ED d~01EE5: M~01EA1ng n~01ED9i b~01ED9 AWS VPC''),
     (''btnAddRule'', uni ''Th~000EAm''),
     (''colTarget'', uni ''~00110~000EDch ~00111~01EBFn''),
     (''colType'', uni ''Lo~01EA1i''),
     (''colDesc'', uni ''M~000F4 t~01EA3'')]"

definition vi_modals1 :: "(string \<times> string) list" where
  "vi_modals1 =
    [(''mfaTitle'', uni ''X~000E1c th~01EF1c hai y~01EBFu t~01ED1 (2FA / TOTP)''),
     (''mfaSubtitle'', uni ''Nh~01EADp m~000E3 s~01ED1 6 ch~01EEF s~01ED1 TOTP / MFA ~00111~01ED9ng ~00111~01EC3 b~01EAFt ~00111~01EA7u k~01EBFt n~01ED1i ~00111~001B0~01EDDng h~01EA7m VPN.''),
     (''mfaPlaceholder'', ''000000''),
     (''mfaConfirm'', uni ''X~000E1c th~01EF1c & K~01EBFt n~01ED1i''),
     (''mfaUsername'', uni ''T~000EAn ~00111~00103ng nh~01EADp''),
     (''mfaPassword'', uni ''M~01EADt kh~01EA9u''),
     (''mfaCodeLabel'', uni ''M~000E3 TOTP / MFA''),
     (''dnsLeakTitle'', uni ''Ki~01EC3m tra r~000F2 r~01EC9 DNS t~01EF1 ~00111~01ED9ng''),
     (''dnsLeakDesc'', uni ''~00110ang truy v~01EA5n m~01EA1ng l~001B0~01EDBi m~000E1y ch~01EE7 ph~000E2n gi~01EA3i DNS to~000E0n c~01EA7u ~00111~01EC3 ph~000E1t hi~01EC7n r~000F2 r~01EC9 ngo~000E0i ~00111~001B0~01EDDng h~01EA7m m~000E3 h~000F3a.''),
     (''dnsLeakTesting'', uni ''~00110ang ki~01EC3m tra r~000F2 r~01EC9 m~000E1y ch~01EE7 DNS...''),
     (''dnsLeakPassed'', uni ''Kh~000F4ng ph~000E1t hi~01EC7n r~000F2 r~01EC9 DNS ~02022 L~001B0u l~001B0~01EE3ng m~01EA1ng c~01EE7a b~01EA1n ~00111~001B0~01EE3c ~00111~01ECBnh tuy~01EBFn tuy~01EC7t ~00111~01ED1i an to~000E0n.''),
     (''dnsLeakFailed'', uni ''Ph~000E1t hi~01EC7n r~000F2 r~01EC9 DNS ~02022 M~01ED9t s~01ED1 g~000F3i tin DNS ~00111~000E3 b~01ECB g~01EEDi kh~000F4ng m~000E3 h~000F3a ra ngo~000E0i ~00111~001B0~01EDDng h~01EA7m.''),
     (''dnsServersFound'', uni ''M~000E1y ch~01EE7 ph~000E2n gi~01EA3i ph~000E1t hi~01EC7n''),
     (''dnsPublicIp'', uni ''~00110~01ECBa ch~01EC9 IP ph~000E2n gi~01EA3i''),
     (''dnsIsp'', uni ''Nh~000E0 m~01EA1ng (ISP)''),
     (''dnsLocation'', uni ''V~01ECB tr~000ED''),
     (''newProfileTitle'', uni ''T~01EA1o c~01EA5u h~000ECnh k~01EBFt n~01ED1i VPN''),
     (''newProfileWireguardTitle'', uni ''Giao th~01EE9c WireGuard''),
     (''newProfileWireguardDesc'', uni ''~00110~001B0~01EDDng h~01EA7m m~000E3 h~000F3a t~01ED1c ~00111~01ED9 cao hi~01EC7n ~00111~01EA1i ChaCha20 v~01EDBi c~01EB7p kh~000F3a g~01ECDn nh~01EB9.''),
     (''newProfileOpenvpnTitle'', uni ''Giao th~01EE9c OpenVPN''),
     (''newProfileOpenvpnDesc'', uni ''Chu~01EA9n VPN doanh nghi~01EC7p SSL/TLS h~01ED7 tr~01EE3 ~00111~01EA7y ~00111~01EE7 x~000E1c th~01EF1c ~00111a y~01EBFu t~01ED1.''),
     (''newProfileImportTitle'', uni ''Nh~01EADp c~01EA5u h~000ECnh c~000F3 s~01EB5n''),
     (''newProfileImportDesc'', uni ''K~000E9o th~01EA3 file .ovpn, .conf ho~01EB7c g~000F3i ch~01EE9ng ch~01EC9 m~000E1y kh~000E1ch tr~01EF1c ti~01EBFp.''),
     (''importDropzoneText'', uni ''K~000E9o th~01EA3 file c~01EA5u h~000ECnh .ovpn v~000E0o ~00111~000E2y ho~01EB7c nh~01EA5n ~00111~01EC3 duy~01EC7t file''),
     (''importDropzoneSubtext'', uni ''H~01ED7 tr~01EE3 ~00111~01ECBnh d~01EA1ng OpenVPN th~01ED1ng nh~01EA5t (.ovpn) c~000F3 nh~000FAng ch~01EE9ng ch~01EC9 v~000E0 kh~000F3a''),
     (''dropzoneRelease'', uni ''Th~01EA3 file ~00111~01EC3 n~01EA1p c~01EA5u h~000ECnh''),
     (''dropzoneDropNow'', uni ''Th~01EA3 file ngay ~00111~01EC3 nh~01EADp''),
     (''dropzoneAnalyzing'', uni ''~00110ang ph~000E2n t~000EDch & tr~000EDch xu~01EA5t c~01EA5u h~000ECnh...''),
     (''dropzoneExtracting'', uni ''~00110ang tr~000EDch xu~01EA5t ch~01EE9ng ch~01EC9 TLS, kh~000F3a b~000ED m~01EADt & ~00111i~01EC3m cu~01ED1i t~01EEB''),
     (''invalidFileType'', uni ''~00110~01ECBnh d~01EA1ng file kh~000F4ng h~01EE3p l~01EC7. Vui l~000F2ng t~01EA3i l~000EAn file .ovpn ho~01EB7c .conf h~01EE3p l~01EC7.''),
     (''failedReadFile'', uni ''Kh~000F4ng th~01EC3 ~00111~01ECDc file c~01EA5u h~000ECnh. Vui l~000F2ng th~01EED l~01EA1i.''),
     (''failedParseFile'', uni ''Kh~000F4ng th~01EC3 ph~000E2n t~000EDch file c~01EA5u h~000ECnh VPN.''),
     (''exportDiagTitle'', uni ''Xu~01EA5t nh~01EADt k~000FD ch~01EA9n ~00111o~000E1n''),
     (''exportDiagSubtitle'', uni ''T~01EA3i xu~01ED1ng ho~01EB7c sao ch~000E9p b~000E1o c~000E1o k~01EF9 thu~01EADt v~000E0 log ~00111~001B0~01EDDng h~01EA7m ~00111~01EC3 kh~01EAFc ph~01EE5c s~01EF1 c~01ED1.''),
     (''exportDownloadJson'', uni ''T~01EA3i file JSON''),
     (''exportCopyText'', uni ''Sao ch~000E9p v~000E0o b~01ED9 nh~01EDB t~01EA1m''),
     (''exportIncludeLogs'', uni ''Bao g~01ED3m 200 d~000F2ng nh~01EADt k~000FD daemon g~01EA7n nh~01EA5t''),
     (''exportIncludeRoutes'', uni ''Bao g~01ED3m b~01EA3ng ~00111~01ECBnh tuy~01EBFn h~01EA1t nh~000E2n (`ip route`)''),
     (''exportIncludeDns'', uni ''Bao g~01ED3m b~01ED9 nh~01EDB ~00111~01EC7m ph~000E2n gi~01EA3i DNS h~01EC7 th~01ED1ng''),
     (''exportSanitizePrivate'', uni ''T~01EF1 ~00111~01ED9ng x~000F3a m~01EDD m~01EADt kh~01EA9u ri~000EAng t~001B0 v~000E0 kh~000F3a m~01EADt m~000E3''),
     (''exportCompiling'', uni ''~00110ang ~00111~000F3ng g~000F3i v~000E0 m~000E3 h~000F3a t~01EC7p l~001B0u tr~01EEF...''),
     (''qrTitle'', uni ''~00110~01ED3ng b~01ED9 c~01EA5u h~000ECnh v~01EDBi thi~01EBFt b~01ECB di ~00111~01ED9ng''),
     (''qrSubtitle'', uni ''Qu~000E9t m~000E3 QR n~000E0y tr~000EAn ~01EE9ng d~01EE5ng VPNHub iOS ho~01EB7c Android ~00111~01EC3 nh~01EADp c~01EA5u h~000ECnh t~01EE9c th~000EC.''),
     (''qrCopyBase64'', uni ''Sao ch~000E9p chu~01ED7i c~01EA5u h~000ECnh Base64''),
     (''protoSelectImportTitle'', uni ''Nh~01EADp c~01EA5u h~000ECnh - Ch~01ECDn giao th~01EE9c''),
     (''protoSelectAddTitle'', uni ''T~01EA1o c~01EA5u h~000ECnh - Ch~01ECDn giao th~01EE9c''),
     (''protoSelectImportDesc'', uni ''Ch~01ECDn lo~01EA1i t~01EC7p c~01EA5u h~000ECnh b~01EA1n mu~01ED1n nh~01EADp:''),
     (''protoSelectAddDesc'', uni ''Ch~01ECDn giao th~01EE9c VPN mu~01ED1n c~01EA5u h~000ECnh cho k~01EBFt n~01ED1i n~000E0y:''),
     (''protoWgTitle'', ''WireGuard''),
     (''protoWgBadgeImport'', ''File .conf''),
     (''protoWgBadgeAdd'', ''UDP Peer-to-Peer''),
     (''protoWgDescImport'', uni ''Nh~01EADp t~01EC7p c~01EA5u h~000ECnh WireGuard chu~01EA9n (.conf)''),
     (''protoWgDescAdd'', uni ''B~00103ng th~000F4ng si~000EAu nhanh, m~01EADt m~000E3 h~01ECDc hi~01EC7n ~00111~01EA1i & ~00111~01ED9 tr~01EC5 t~01ED1i thi~01EC3u.''),
     (''protoOvpnTitle'', ''OpenVPN''),
     (''protoOvpnBadgeImport'', ''.ovpn / .conf''),
     (''protoOvpnBadgeAdd'', ''TCP / UDP + 2FA''),
     (''protoOvpnDescImport'', uni ''Nh~01EADp g~000F3i c~01EA5u h~000ECnh m~000E1y kh~000E1ch OpenVPN (.ovpn / .conf)''),
     (''protoOvpnDescAdd'', uni ''Giao th~01EE9c doanh nghi~01EC7p h~01ED7 tr~01EE3 TCP/UDP, m~000E3 OTP 2FA & ch~01EE9ng ch~01EC9 TLS.''),
     (''importWgTitle'', uni ''Nh~01EADp c~01EA5u h~000ECnh WireGuard (.conf)''),
     (''importOvpnTitle'', uni ''Nh~01EADp c~01EA5u h~000ECnh OpenVPN (.ovpn)''),
     (''importWgDropzone'', uni ''K~000E9o & th~01EA3 file WireGuard .conf v~000E0o ~00111~000E2y''),
     (''importOvpnDropzone'', uni ''K~000E9o & th~01EA3 file OpenVPN .ovpn ho~01EB7c .conf v~000E0o ~00111~000E2y''),
     (''importWgHelp'', uni ''H~01ED7 tr~01EE3 ~00111~01ECBnh d~01EA1ng WireGuard chu~01EA9n (.conf) dung l~001B0~01EE3ng t~01ED1i ~00111a 5MB''),
     (''importOvpnHelp'', uni ''H~01ED7 tr~01EE3 ~00111~01ECBnh d~01EA1ng OpenVPN 2.x/3.x (.ovpn) dung l~001B0~01EE3ng t~01ED1i ~00111a 5MB''),
     (''importClickBrowse'', uni ''ho~01EB7c b~01EA5m ~00111~01EC3 ch~01ECDn t~01EC7p t~01EEB m~000E1y t~000EDnh''),
     (''errExpectedWg'', uni ''File ~00111~001B0~01EE3c ch~01ECDn c~000F3 v~01EBB l~000E0 c~01EA5u h~000ECnh OpenVPN. Vui l~000F2ng ch~01ECDn file WireGuard (.conf) h~01EE3p l~01EC7 ch~01EE9a kh~01ED1i [Interface].''),
     (''errExpectedOvpn'', uni ''File ~00111~001B0~01EE3c ch~01ECDn c~000F3 v~01EBB l~000E0 c~01EA5u h~000ECnh WireGuard. Vui l~000F2ng ch~01ECDn file OpenVPN (.ovpn) h~01EE3p l~01EC7.''),
     (''addAppTitle'', uni ''Th~000EAm Quy t~01EAFc ~00110~01ECBnh tuy~01EBFn ~01EE8ng d~01EE5ng''),
     (''addAppDetected'', uni ''~01EE8NG D~01EE4NG ~00110~000C3 C~000C0I ~00110~01EB6T TR~000CAN H~01EC6 TH~01ED0NG''),
     (''addAppNameLabel'', uni ''T~000EAn ~01EE9ng d~01EE5ng''),
     (''addAppNamePlaceholder'', uni ''V~000ED d~01EE5: Tr~000ECnh duy~01EC7t Firefox''),
     (''addAppPathLabel'', uni ''~00110~001B0~01EDDng d~01EABn t~01EC7p th~01EF1c thi / nh~01ECB ph~000E2n''),
     (''addAppPathPlaceholder'', uni ''/usr/bin/... ho~01EB7c C:~0005CProgram Files~0005C...''),
     (''addAppPolicyLabel'', uni ''Ch~000EDnh s~000E1ch ~00111~01ECBnh tuy~01EBFn''),
     (''addAppBypassLabel'', uni ''B~01ECF qua VPN (K~01EBFt n~01ED1i Internet tr~01EF1c ti~01EBFp)''),
     (''addAppRouteLabel'', uni ''~00110~01ECBnh tuy~01EBFn qua ~00110~001B0~01EDDng h~01EA7m VPN m~000E3 h~000F3a''),
     (''addAppSubmitBtn'', uni ''Th~000EAm quy t~01EAFc''),
     (''certManagerTitle'', uni ''Qu~01EA3n l~000FD Ch~01EE9ng ch~01EC9 & B~01EA3o m~01EADt TLS''),
     (''tabRootCa'', ''Root CA''),
     (''tabTlsChannel'', uni ''K~000EAnh TLS''),
     (''tabClientIdentity'', uni ''Danh t~000EDnh Client''),
     (''tabAdvanced'', uni ''N~000E2ng cao''),
     (''rootCaTitle'', uni ''T~01ED5 ch~01EE9c Ch~01EE9ng th~01EF1c CA (<ca>)''),
     (''rootCaLoaded'', uni ''~00110~000E3 n~01EA1p Root CA t~000F9y ch~01EC9nh ({length} k~000FD t~01EF1)''),
     (''rootCaDefaultSystem'', uni ''S~01EBD s~01EED d~01EE5ng ch~000F9m ch~01EE9ng ch~01EC9 Root CA m~01EB7c ~00111~01ECBnh c~01EE7a h~01EC7 ~00111i~01EC1u h~000E0nh.''),
     (''importCrtPem'', uni ''Nh~01EADp file .crt / .pem''),
     (''rootCaPemLabel'', uni ''N~01ED9i dung PEM Root CA''),
     (''rootCaPemPlaceholder'', uni ''-----BEGIN CERTIFICATE-----~0000A...~0000A-----END CERTIFICATE-----''),
     (''tlsModeLabel'', uni ''Ch~01EBF ~00111~01ED9 b~01EA3o v~01EC7 k~000EAnh ~00111i~01EC1u khi~01EC3n TLS''),
     (''tlsModeDesc'', uni ''Cung c~01EA5p th~000EAm ch~01EEF k~000FD HMAC ho~01EB7c l~01EDBp m~000E3 h~000F3a to~000E0n di~01EC7n k~000EAnh ~00111i~01EC1u khi~01EC3n.''),
     (''tlsModeNone'', uni ''Kh~000F4ng d~000F9ng (B~01EAFt tay OpenVPN TLS ti~000EAu chu~01EA9n)''),
     (''tlsModeAuth'', uni ''TLS-Auth (<tls-auth>) - Ch~01EEF k~000FD HMAC t~00129nh'')]"

definition vi_modals2 :: "(string \<times> string) list" where
  "vi_modals2 =
    [(''tlsModeCrypt'', uni ''TLS-Crypt (<tls-crypt>) - M~000E3 h~000F3a to~000E0n b~01ED9 k~000EAnh ~00111i~01EC1u khi~01EC3n''),
     (''tlsAuthStaticKeyTitle'', uni ''Kh~000F3a t~00129nh TLS-Auth''),
     (''tlsKeyLoaded'', uni ''~00110~000E3 n~01EA1p kh~000F3a t~00129nh ({length} k~000FD t~01EF1)''),
     (''noKeyLoaded'', uni ''Ch~001B0a n~01EA1p kh~000F3a b~000ED m~01EADt''),
     (''importKeyFile'', uni ''Nh~01EADp file .key''),
     (''tlsAuthKeyContentLabel'', uni ''N~01ED9i dung kh~000F3a TLS-Auth (<tls-auth>)''),
     (''keyDirectionLabel'', uni ''H~001B0~01EDBng kh~000F3a (key-direction)''),
     (''keyDirectionDesc'', uni ''Ph~01EA3i kh~01EDBp v~01EDBi c~01EA5u h~000ECnh m~000E1y ch~01EE7 server.''),
     (''keyDirNone'', uni ''Kh~000F4ng ch~01EC9 ~00111~01ECBnh / Hai chi~01EC1u''),
     (''keyDir0'', uni ''0 (Client / ~00110~01EBFn)''),
     (''keyDir1'', uni ''1 (Server / ~00110i)''),
     (''tlsCryptKeyTitle'', uni ''Kh~000F3a ~00111~01ED1i x~01EE9ng TLS-Crypt''),
     (''tlsCryptKeyContentLabel'', uni ''N~01ED9i dung kh~000F3a TLS-Crypt (<tls-crypt>)''),
     (''clientIdentityDesc'', uni ''B~01EAFt bu~01ED9c cho x~000E1c th~01EF1c Mutual TLS (mTLS) ho~01EB7c x~000E1c th~01EF1c ng~001B0~01EDDi d~000F9ng b~01EB1ng ch~01EE9ng ch~01EC9.''),
     (''clientCertTitle'', uni ''Ch~01EE9ng ch~01EC9 Client (<cert>)''),
     (''clientCertLoaded'', uni ''~00110~000E3 n~01EA1p ch~01EE9ng ch~01EC9 Client ({length} k~000FD t~01EF1)''),
     (''noCertLoaded'', uni ''Ch~001B0a c~000F3 ch~01EE9ng ch~01EC9''),
     (''importCrt'', uni ''Nh~01EADp file .crt''),
     (''clientKeyTitle'', uni ''Kh~000F3a ri~000EAng t~001B0 Client (<key>)''),
     (''clientKeyLoaded'', uni ''~00110~000E3 n~01EA1p kh~000F3a ri~000EAng t~001B0 ({length} k~000FD t~01EF1)''),
     (''noPrivateKeyLoaded'', uni ''Ch~001B0a c~000F3 kh~000F3a ri~000EAng t~001B0''),
     (''importKey'', uni ''Nh~01EADp file .key''),
     (''verifyServerCertTitle'', uni ''X~000E1c th~01EF1c ch~01EE9ng ch~01EC9 m~000E1y ch~01EE7''),
     (''verifyServerCertDesc'', uni ''B~01EAFt bu~01ED9c ki~01EC3m tra c~01EDD ch~01EE9ng th~01EF1c m~000E1y ch~01EE7 (remote-cert-tls server)''),
     (''renegSecLabel'', uni ''Kho~01EA3ng th~01EDDi gian t~000E1i th~001B0~001A1ng l~001B0~01EE3ng kh~000F3a (reneg-sec)''),
     (''renegSecPlaceholder'', uni ''V~000ED d~01EE5: 0 ~00111~01EC3 t~01EAFt t~000E1i th~001B0~001A1ng l~001B0~01EE3ng k~000EAnh d~01EEF li~01EC7u''),
     (''renegSecDesc'', uni ''M~01EB7c ~00111~01ECBnh: 3600 gi~000E2y. ~00110~01EB7t 0 n~01EBFu m~000E1y ch~01EE7 cloud VPN v~000F4 hi~01EC7u h~000F3a t~000E1i b~01EAFt tay.''),
     (''applyCertSettings'', uni ''~000C1p d~01EE5ng c~01EA5u h~000ECnh ch~01EE9ng ch~01EC9''),
     (''wireguardComingSoonError'', uni ''Giao th~01EE9c WireGuard ~00111ang ~00111~001B0~01EE3c ph~000E1t tri~01EC3n (S~01EAFp ra m~01EAFt). Vui l~000F2ng s~01EED d~01EE5ng c~01EA5u h~000ECnh OpenVPN (.ovpn).''),
     (''createWgTitle'', uni ''T~01EA1o c~01EA5u h~000ECnh WireGuard''),
     (''createOvpnTitle'', uni ''T~01EA1o c~01EA5u h~000ECnh OpenVPN''),
     (''editWgTitle'', uni ''Ch~01EC9nh s~01EEDa c~01EA5u h~000ECnh WireGuard''),
     (''editOvpnTitle'', uni ''Ch~01EC9nh s~01EEDa c~01EA5u h~000ECnh OpenVPN''),
     (''serverSettingsTitle'', uni ''C~000E0i ~00111~01EB7t M~000E1y ch~01EE7 & K~01EBFt n~01ED1i''),
     (''profileNameLabel'', uni ''T~000EAn c~01EA5u h~000ECnh''),
     (''profileNameWgPlaceholder'', uni ''V~000ED d~01EE5: WireGuard Tokyo Tunnel''),
     (''profileNameOvpnPlaceholder'', uni ''V~000ED d~01EE5: OpenVPN C~000F4ng ty Staging''),
     (''transportProtoLabel'', uni ''Giao th~01EE9c truy~01EC1n t~01EA3i''),
     (''serverHostLabel'', uni ''M~000E1y ch~01EE7 Host / IP''),
     (''serverHostPlaceholder'', uni ''vpn.example.com ho~01EB7c 103.21.244.18''),
     (''portLabel'', uni ''C~01ED5ng Port''),
     (''virtualIpLabel'', uni ''IP ~01EA2o ~00111~001B0~01EE3c c~01EA5p (CIDR)''),
     (''virtualIpDesc'', uni ''~00110~01ECBa ch~01EC9 IP t~00129nh n~01ED9i b~01ED9 c~01EA5p cho peer WireGuard n~000E0y''),
     (''intranetOnlyTitle'', uni ''Ch~01EC9 s~01EED d~01EE5ng k~01EBFt n~01ED1i n~000E0y cho t~000E0i nguy~000EAn trong m~01EA1ng n~01ED9i b~01ED9''),
     (''intranetOnlyActiveDesc'', uni ''Split-Tunnel ~00111ang b~01EADt: Ch~01EC9 ~00111~01ECBnh tuy~01EBFn d~01EA3i IP n~01ED9i b~01ED9; Internet ~00111i qua m~01EA1ng c~01EE5c b~01ED9 b~000ECnh th~001B0~01EDDng''),
     (''intranetOnlyDefaultDesc'', uni ''M~01EB7c ~00111~01ECBnh: Theo c~01EA5u h~000ECnh m~000E1y ch~01EE7 (D~000F9ng gateway VPN l~000E0m m~01EB7c ~00111~01ECBnh n~01EBFu server y~000EAu c~01EA7u)''),
     (''customSubnetsLabel'', uni ''D~01EA3i m~01EA1ng n~01ED9i b~01ED9 doanh nghi~01EC7p t~000F9y ch~01EC9nh (CIDR)''),
     (''customSubnetsPlaceholder'', uni ''V~000ED d~01EE5: 10.0.0.0/8, 192.168.10.0/24, 172.16.0.0/12''),
     (''customSubnetsDesc'', uni ''C~000E1c d~01EA3i m~01EA1ng ph~01EE5 mu~01ED1n ~00111~01ECBnh tuy~01EBFn v~000E0o ~00111~001B0~01EDDng h~01EA7m VPN n~000E0y (ph~000E2n c~000E1ch b~01EB1ng d~01EA5u ph~01EA9y)''),
     (''customSubnetsHint'', uni ''~1F4A1 C~000E1c d~01EA3i m~01EA1ng do server c~01EA5p v~000E0 IP ~01EA3o ~00111~001B0~01EDDng h~01EA7m ~00111~000E3 ~00111~001B0~01EE3c t~01EF1 ~00111~01ED9ng th~000EAm v~000E0o.''),
     (''keysAuthTitle'', uni ''Kh~000F3a m~01EADt m~000E3 & X~000E1c th~01EF1c''),
     (''wgKeyExchangeBadge'', uni ''Trao ~00111~01ED5i kh~000F3a WireGuard''),
     (''ovpnAuth2faBadge'', uni ''X~000E1c th~01EF1c OpenVPN & 2FA''),
     (''wgPrivKeyLabel'', uni ''Kh~000F3a ri~000EAng t~001B0 WireGuard (Base64)''),
     (''wgPrivKeyPlaceholder'', uni ''Kh~000F3a ri~000EAng t~001B0 m~000E1y kh~000E1ch (v~000ED d~01EE5: aGVwaGFlc3R1cy...)''),
     (''wgPrivKeyDesc'', uni ''~00110~001B0~01EE3c m~000E3 h~000F3a an to~000E0n trong k~000E9t b~01EA3o m~01EADt ph~01EA7n c~01EE9ng AES-256-GCM''),
     (''wgPskLabel'', uni ''Kh~000F3a chia s~01EBB tr~001B0~01EDBc PSK (L~000E1 ch~01EAFn H~01EADu l~001B0~01EE3ng t~01EED)''),
     (''wgPskPlaceholder'', uni ''Kh~000F3a ~00111~01ED1i x~01EE9ng 256-bit t~000F9y ch~01ECDn''),
     (''wgPskDesc'', uni ''L~01EDBp b~01EA3o v~01EC7 m~000E3 h~000F3a ~00111~01ED1i x~01EE9ng t~00103ng c~001B0~01EDDng ch~01ED1ng l~01EA1i ~00111i~01EC7n to~000E1n l~001B0~01EE3ng t~01EED''),
     (''ovpnUsernameLabel'', uni ''T~000EAn ~00111~00103ng nh~01EADp''),
     (''ovpnUsernamePlaceholder'', uni ''Nh~01EADp t~000E0i kho~01EA3n VPN''),
     (''ovpnAuthModeLabel'', uni ''Ch~01EBF ~00111~01ED9 x~000E1c th~01EF1c M~01EADt kh~01EA9u & 2FA / TOTP''),
     (''authModeStatic'', uni ''M~01EADt kh~01EA9u t~00129nh''),
     (''authModeTotpAuto'', uni ''T~01EF1 sinh TOTP''),
     (''authModeDynamicPrompt'', uni ''H~01ECFi m~000E3 khi k~01EBFt n~01ED1i''),
     (''basePasswordLabel'', uni ''M~01EADt kh~01EA9u g~01ED1c''),
     (''passwordLabel'', uni ''M~01EADt kh~01EA9u''),
     (''basePasswordPlaceholder'', uni ''M~01EADt kh~01EA9u c~001A1 b~01EA3n (ho~01EB7c ~00111~01EC3 tr~01ED1ng ~00111~01EC3 nh~01EADp khi k~01EBFt n~01ED1i)''),
     (''passwordPlaceholder'', uni ''Nh~01EADp m~01EADt kh~01EA9u''),
     (''totpSecretLabel'', uni ''Kh~000F3a b~000ED m~01EADt TOTP Secret (Base32)''),
     (''totpSecretPlaceholder'', uni ''V~000ED d~01EE5: JBSWY3DPEHPK3PXP''),
     (''totpSecretDesc'', uni ''~00110~001B0~01EE3c l~001B0u tr~01EEF an to~000E0n trong K~000E9t m~000E3 h~000F3a AES-256-GCM''),
     (''totpFormatLabel'', uni ''~00110~01ECBnh d~01EA1ng k~01EBFt h~01EE3p m~000E3''),
     (''totpFormatAppend'', uni ''M~01EADt kh~01EA9u g~01ED1c + TOTP (V~000ED d~01EE5: MatKhau123456)''),
     (''totpFormatPrefix'', uni ''TOTP + M~01EADt kh~01EA9u g~01ED1c (V~000ED d~01EE5: 123456MatKhau)''),
     (''totpFormatOnly'', uni ''Ch~01EC9 g~01EEDi m~000E3 TOTP (V~000ED d~01EE5: 123456)''),
     (''liveTotpLabel'', uni ''M~000E3 Authenticator tr~01EF1c ti~01EBFp:''),
     (''activeOtpBadge'', uni ''OTP ~00110ang ho~01EA1t ~00111~01ED9ng''),
     (''dynamicPromptHint'', uni ''~1F4A1 Khi b~01EA5m K~01EBFt N~01ED1i, VPNHub s~01EBD hi~01EC3n th~01ECB h~01ED9p tho~01EA1i x~000E1c th~01EF1c 2FA nhanh ~00111~01EC3 b~01EA1n nh~01EADp m~000E3 OTP ~00111~01ED9ng.''),
     (''tlsSummaryTitle'', uni ''B~01EA3o m~01EADt Ch~01EE9ng ch~01EC9 & TLS''),
     (''tlsSummaryDesc'', uni ''Root CA, Kh~000F3a k~000EAnh TLS, v~000E0 X~000E1c th~01EF1c Ch~01EE9ng ch~01EC9 m~000E1y kh~000E1ch''),
     (''btnConfigSecurity'', uni ''C~01EA5u h~000ECnh B~01EA3o m~01EADt''),
     (''btnSetupCertificates'', uni ''Thi~01EBFt l~01EADp Ch~01EE9ng ch~01EC9''),
     (''badgeCustomCa'', uni ''~02713 Root CA t~000F9y ch~01EC9nh''),
     (''badgeSystemCa'', uni ''Root CA h~01EC7 th~01ED1ng''),
     (''badgeTlsCrypt'', uni ''~02713 ~00110~000E3 b~01EADt TLS-Crypt''),
     (''badgeTlsAuth'', uni ''~02713 TLS-Auth (H~001B0~01EDBng: {direction})''),
     (''badgeStandardTls'', uni ''B~01EAFt tay TLS chu~01EA9n''),
     (''badgeClientCertKey'', uni ''~02713 Ch~01EE9ng ch~01EC9 & Kh~000F3a Client''),
     (''badgeUserPassAuth'', uni ''X~000E1c th~01EF1c User/Pass''),
     (''badgeServerVerify'', uni ''Ki~01EC3m tra Server (B~01EADt)''),
     (''btnSaveChanges'', uni ''L~001B0u thay ~00111~01ED5i''),
     (''btnCreateProfile'', uni ''T~01EA1o c~01EA5u h~000ECnh'')]"

section \<open>Chinese\<close>

definition zh_common :: "(string \<times> string) list" where
  "zh_common =
    [(''save'', uni ''~04FDD~05B58''),
     (''cancel'', uni ''~053D6~06D88''),
     (''delete'', uni ''~05220~09664''),
     (''edit'', uni ''~07F16~08F91''),
     (''close'', uni ''~05173~095ED''),
     (''copy'', uni ''~0590D~05236''),
     (''copied'', uni ''~05DF2~0590D~05236~0FF01''),
     (''open'', uni ''~06253~05F00''),
     (''back'', uni ''~08FD4~056DE''),
     (''search'', uni ''~0641C~07D22''),
     (''filter'', uni ''~07B5B~09009''),
     (''reset'', uni ''~091CD~07F6E''),
     (''enable'', uni ''~0542F~07528''),
     (''disable'', uni ''~07981~07528''),
     (''active'', uni ''~06D3B~08DC3''),
     (''ready'', uni ''~05C31~07EEA''),
     (''offline'', uni ''~079BB~07EBF''),
     (''connected'', uni ''~05DF2~08FDE~063A5''),
     (''connecting'', uni ''~06B63~05728~08FDE~063A5''),
     (''reconnecting'', uni ''~06B63~05728~091CD~065B0~08FDE~063A5''),
     (''disconnecting'', uni ''~06B63~05728~065AD~05F00~08FDE~063A5''),
     (''disconnected'', uni ''~0672A~08FDE~063A5''),
     (''error'', uni ''~09519~08BEF''),
     (''none'', uni ''~065E0''),
     (''loading'', uni ''~052A0~08F7D~04E2D...''),
     (''all'', uni ''~05168~090E8''),
     (''success'', uni ''~06210~0529F''),
     (''warning'', uni ''~08B66~0544A''),
     (''username'', uni ''~07528~06237~0540D''),
     (''password'', uni ''~05BC6~07801''),
     (''or'', uni ''~06216''),
     (''comingSoon'', uni ''~05373~05C06~063A8~051FA''),
     (''actions'', uni ''~064CD~04F5C''),
     (''location'', uni ''~04F4D~07F6E''),
     (''isp'', uni ''~08FD0~08425~05546 (ISP)''),
     (''vpnProfiles'', uni ''VPN ~0914D~07F6E~06587~04EF6''),
     (''commands'', uni ''~05FEB~06377~0547D~04EE4~04E0E~089C6~056FE''),
     (''statusLabel'', uni ''~072B6~06001''),
     (''type'', uni ''~07C7B~0578B''),
     (''policy'', uni ''~07B56~07565''),
     (''target'', uni ''~076EE~06807~05730~05740'')]"

definition zh_nav :: "(string \<times> string) list" where
  "zh_nav =
    [(''menu'', uni ''~083DC~05355''),
     (''dashboard'', uni ''~063A7~05236~09762~0677F''),
     (''profiles'', uni ''~0914D~07F6E~05E93''),
     (''security'', uni ''~05B89~05168~04E0E~09632~062A4''),
     (''logs'', uni ''~08FD0~0884C~065E5~05FD7''),
     (''settings'', uni ''~08BBE~07F6E''),
     (''supportAndDocs'', uni ''~0652F~06301~04E0E~06587~06863''),
     (''collapseSidebar'', uni ''~06298~053E0~04FA7~08FB9~0680F (Ctrl+B)''),
     (''expandSidebar'', uni ''~05C55~05F00~04FA7~08FB9~0680F (Ctrl+B)''),
     (''coreTitle'', uni ''VPNHub ~06838~05FC3''),
     (''daemonStatus'', uni ''~05B88~062A4~08FDB~07A0B'')]"

definition zh_titlebar :: "(string \<times> string) list" where
  "zh_titlebar =
    [(''searchPlaceholder'', uni ''~0641C~07D22~0914D~07F6E~03001~05FEB~06377~0547D~04EE4...''),
     (''active'', uni ''~06D3B~08DC3''),
     (''reconnecting'', uni ''~091CD~08FDE~04E2D''),
     (''offline'', uni ''~079BB~07EBF''),
     (''searchShortcut'', uni ''~02318K'')]"

definition zh_statusBar :: "(string \<times> string) list" where
  "zh_statusBar =
    [(''killSwitchStrict'', uni ''Kill Switch: ~04E25~0683C~05F3A~05236~06267~0884C''),
     (''killSwitchAuto'', uni ''Kill Switch: ~081EA~052A8~065AD~05F00''),
     (''killSwitchOff'', uni ''Kill Switch: ~05DF2~07981~07528''),
     (''ipv6Blocked'', uni ''~05DF2~062E6~0622A''),
     (''ipv6Pass'', uni ''~076F4~0901A''),
     (''dnsSecured'', uni ''~05B89~05168~09632~062A4'')]"

definition zh_dashboard :: "(string \<times> string) list" where
  "zh_dashboard =
    [(''heroTitleConnected'', uni ''~053D7~04FDD~062A4~04E14~05DF2~08FDE~063A5''),
     (''heroTitleDisconnected'', uni ''~0672A~08FDE~063A5~04E14~065E0~04FDD~062A4''),
     (''heroTitleConnecting'', uni ''~06B63~05728~05EFA~07ACB~05B89~05168~052A0~05BC6~096A7~09053...''),
     (''clickToDisconnect'', uni ''~070B9~051FB~065AD~05F00~08FDE~063A5''),
     (''clickToConnect'', uni ''~070B9~051FB~05EFA~07ACB~08FDE~063A5''),
     (''selectProfilePrompt'', uni ''~04ECE~04E0B~065B9~09009~062E9~04E00~04E2A~0914D~07F6E~04EE5~05F00~059CB~08FDE~063A5''),
     (''statusSecured'', uni ''~05B89~05168~052A0~05BC6''),
     (''statusUnprotected'', uni ''~0672A~053D7~04FDD~062A4''),
     (''publicIp'', uni ''~0516C~07F51 IP''),
     (''virtualIp'', uni ''VPN ~0865A~062DF IP''),
     (''gateway'', uni ''~07F51~05173''),
     (''latency'', uni ''~05EF6~08FDF''),
     (''uptime'', uni ''~08FD0~0884C~065F6~095F4''),
     (''downloadSpeed'', uni ''~04E0B~08F7D~0901F~05EA6''),
     (''uploadSpeed'', uni ''~04E0A~04F20~0901F~05EA6''),
     (''totalTraffic'', uni ''~0603B~06D41~091CF''),
     (''quickSwitchTitle'', uni ''~05FEB~0901F~05207~06362~0914D~07F6E''),
     (''manageAll'', uni ''~07BA1~07406~06240~06709~0914D~07F6E''),
     (''liveLogStreamTitle'', uni ''~05B9E~065F6~06D3B~052A8~04E0E~096A7~09053~09065~06D4B''),
     (''clearStream'', uni ''~06E05~07A7A~065E5~05FD7''),
     (''noActiveTunnel'', uni ''~05F53~0524D~065E0~06D3B~08DC3~08FDE~063A5~096A7~09053''),
     (''daemonOffline'', uni ''~05B88~062A4~08FDB~07A0B~079BB~07EBF''),
     (''retryIpc'', uni ''~091CD~08BD5 ~021BA''),
     (''livePing'', uni ''~05EF6~08FDF''),
     (''activeRules'', uni ''~0751F~06548~089C4~05219'')]"

definition zh_profiles :: "(string \<times> string) list" where
  "zh_profiles =
    [(''title'', uni ''~0914D~07F6E~05E93''),
     (''subtitle'', uni ''~07BA1~07406 WireGuard ~0548C OpenVPN ~0670D~052A1~05668~0914D~07F6E~06587~04EF6''),
     (''addProfile'', uni ''~065B0~05EFA~0914D~07F6E''),
     (''importOvpn'', uni ''~05BFC~05165 .ovpn''),
     (''searchPlaceholder'', uni ''~06309~0540D~079F0~03001~056FD~05BB6~06216~06807~07B7E~0641C~07D22...''),
     (''allProtocols'', uni ''~06240~06709~0534F~08BAE''),
     (''allTags'', uni ''~06240~06709~06807~07B7E''),
     (''favoritesOnly'', uni ''~04EC5~06536~085CF''),
     (''noProfilesFound'', uni ''~0672A~0627E~05230 VPN ~0914D~07F6E~06587~04EF6''),
     (''createPrompt'', uni ''~06DFB~052A0~06216~05BFC~05165~0914D~07F6E~04EE5~05F00~059CB~04F7F~07528''),
     (''serverHost'', uni ''~0670D~052A1~05668~05730~05740''),
     (''serverPort'', uni ''~07AEF~053E3''),
     (''protocol'', uni ''~0534F~08BAE''),
     (''status'', uni ''~072B6~06001''),
     (''lastConnected'', uni ''~04E0A~06B21~08FDE~063A5''),
     (''never'', uni ''~04ECE~04E0D''),
     (''connect'', uni ''~08FDE~063A5''),
     (''disconnect'', uni ''~065AD~05F00''),
     (''deleteConfirm'', uni ''~0786E~05B9A~08981~05220~09664~06B64~0914D~07F6E~05417~0FF1F'')]"

definition zh_security :: "(string \<times> string) list" where
  "zh_security =
    [(''title'', uni ''~05B89~05168~04E0E~09632~062A4~04E2D~05FC3''),
     (''subtitle'', uni ''~0914D~07F6E~09632~0706B~05899~09632~06CC4~06F0F~03001~05E94~06025~05207~065AD~05F00~05173~053CA~05C40~057DF~07F51~08C41~0514D''),
     (''killSwitchTitle'', uni ''~07F51~07EDC~05207~065AD~05F00~05173 (Kill Switch ~09632~0706B~05899~05F3A~05236~06267~0884C)''),
     (''killSwitchDesc'', uni ''~05F53 VPN ~0610F~05916~065AD~05F00~065F6~0963B~06B62~06240~06709~0672A~052A0~05BC6~06D41~091CF~04EE5~09632~06B62~06570~0636E~06CC4~06F0F''),
     (''killSwitchEnforced'', uni ''~05DF2~05F3A~05236~06267~0884C''),
     (''killSwitchOff'', uni ''~05DF2~05173~095ED''),
     (''ipv6Title'', uni ''IPv6 ~09ED1~06D1E~09632~062A4~076FE''),
     (''ipv6Desc'', uni ''~07A7A~08DEF~07531~091CD~05B9A~05411~0539F~0751F IPv6 ~06D41~091CF~0FF0C~0675C~07EDD~053CC~06808~06D41~091CF~07ED5~08FC7~096A7~09053~06CC4~06F0F''),
     (''ipv6Protected'', uni ''~053D7~04FDD~062A4''),
     (''webrtcTitle'', uni ''WebRTC STUN ~09632~062A4~076FE''),
     (''webrtcDesc'', uni ''~09632~06B62~06D4F~089C8~05668~0901A~08FC7~05916~090E8 STUN ~08BF7~06C42~06CC4~09732~07269~07406~0771F~05B9E IP ~05730~05740''),
     (''webrtcProtected'', uni ''~053D7~04FDD~062A4''),
     (''lanBypassTitle'', uni ''~0667A~080FD~05C40~057DF~07F51~076F4~08FDE (LAN Bypass)''),
     (''lanBypassDesc'', uni ''~05141~08BB8~08BBF~095EE~05BB6~05EAD/~0529E~0516C~05BA4~0672C~05730~07269~07406~08BBE~05907~0FF08~06253~05370~0673A~03001NAS ~05B58~050A8~03001~08DEF~07531~05668~0FF09''),
     (''lanBypassActive'', uni ''~05DF2~0542F~07528''),
     (''dnsLeakTestTitle'', uni ''DNS ~06CC4~06F0F~068C0~06D4B''),
     (''dnsLeakTestDesc'', uni ''~09488~05BF9~05168~07403~089E3~06790~0670D~052A1~05668~08FD0~0884C~081EA~052A8~05316 DNS ~06CC4~06F0F~08BCA~065AD''),
     (''runDnsTest'', uni ''~08FD0~0884C~06CC4~06F0F~06D4B~08BD5'')]"

definition zh_logs :: "(string \<times> string) list" where
  "zh_logs =
    [(''title'', uni ''~05B9E~065F6~063A7~05236~053F0~04E0E~08BCA~065AD~065E5~05FD7''),
     (''subtitle'', uni ''~05B9E~065F6~05F15~064CE~04E8B~04EF6~03001~0534F~08BAE~063E1~0624B~04E0E~06545~0969C~08BCA~065AD~065E5~05FD7''),
     (''searchPlaceholder'', uni ''~06309~05173~0952E~08BCD~03001~076EE~06807~06216~09519~08BEF~04FE1~0606F~0641C~07D22...''),
     (''clearLogs'', uni ''~06E05~07A7A~065E5~05FD7''),
     (''copyAll'', uni ''~0590D~05236~05168~090E8''),
     (''autoScroll'', uni ''~081EA~052A8~06EDA~052A8''),
     (''filterAll'', uni ''~05168~090E8''),
     (''filterInfo'', uni ''~04FE1~0606F''),
     (''filterWarn'', uni ''~08B66~0544A''),
     (''filterError'', uni ''~09519~08BEF''),
     (''filterDebug'', uni ''~08C03~08BD5''),
     (''noLogsMessage'', uni ''~06682~065E0~08BB0~05F55~07684~063A7~05236~053F0~04E8B~04EF6''),
     (''exportDiagnostics'', uni ''~05BFC~051FA~065E5~05FD7'')]"

definition zh_settings :: "(string \<times> string) list" where
  "zh_settings =
    [(''title'', uni ''~05E94~07528~08BBE~07F6E''),
     (''subtitle'', uni ''~0914D~07F6E~0684C~09762~05BA2~06237~07AEF~0884C~04E3A~03001~0542F~052A8~0504F~0597D~03001~08BED~08A00~0548C~07CFB~07EDF~096C6~06210''),
     (''languageCardTitle'', uni ''~08BED~08A00~04E0E~0533A~057DF~08BBE~07F6E''),
     (''languageSelectLabel'', uni ''~0754C~09762~0663E~0793A~08BED~08A00''),
     (''languageSelectDesc'', uni ''~09009~062E9~060A8~0504F~0597D~07684 VPNHub ~05BA2~06237~07AEF~0663E~0793A~08BED~08A00''),
     (''desktopBehaviorTitle'', uni ''~0684C~09762~04E0E~07A97~053E3~0884C~04E3A''),
     (''launchAtStartup'', uni ''~05F00~0673A~081EA~052A8~0542F~052A8''),
     (''launchAtStartupDesc'', uni ''~05728~064CD~04F5C~07CFB~07EDF~0542F~052A8~065F6~081EA~052A8~08FD0~0884C VPNHub''),
     (''startMinimized'', uni ''~0542F~052A8~065F6~06700~05C0F~05316~05230~07CFB~07EDF~06258~076D8''),
     (''startMinimizedDesc'', uni ''~05F00~0673A~0542F~052A8~065F6~05728~06258~076D8~0540E~053F0~08FD0~0884C~0FF0C~04E0D~0663E~0793A~04E3B~07A97~053E3''),
     (''autoConnectOnLaunch'', uni ''~0542F~052A8~065F6~081EA~052A8~08FDE~063A5''),
     (''autoConnectOnLaunchDesc'', uni ''~06253~05F00~05E94~07528~065F6~081EA~052A8~08FDE~063A5~05230~05E38~07528~06216~04E0A~06B21~08FDE~063A5~07684~0914D~07F6E''),
     (''minimizeToTrayOnClose'', uni ''~05173~095ED~065F6~06700~05C0F~05316~05230~06258~076D8''),
     (''minimizeToTrayOnCloseDesc'', uni ''~070B9~051FB~05173~095ED~06309~094AE~065F6~09690~085CF~081F3~07CFB~07EDF~06258~076D8~0FF0C~04FDD~06301 VPN ~096A7~09053~07A33~05B9A~05728~07EBF''),
     (''networkIntegrationTitle'', uni ''~07F51~07EDC~04E0E~07CFB~07EDF~096C6~06210''),
     (''autoReconnect'', uni ''~07F51~07EDC~05207~06362~065F6~081EA~052A8~091CD~08FDE''),
     (''autoReconnectDesc'', uni ''~05F53 Wi-Fi ~091CD~065B0~08FDE~063A5~06216~07F51~05361~05207~06362~065F6~081EA~052A8~06062~0590D~096A7~09053~08FDE~063A5''),
     (''desktopNotifications'', uni ''~0684C~09762~07CFB~07EDF~0901A~077E5''),
     (''desktopNotificationsDesc'', uni ''~05728~08FDE~063A5~03001~065AD~05F00~08FDE~063A5~053CA~05B89~05168~08B66~0544A~065F6~053D1~09001~07CFB~07EDF~0901A~077E5''),
     (''spotlightTitle'', uni ''~05168~05C40~05FEB~06377~0641C~07D22~09762~0677F (Spotlight)''),
     (''spotlightDesc'', uni ''~04F7F~07528~05168~05C40~05FEB~06377~0952E~05FEB~0901F~05207~06362~0914D~07F6E~0548C~06267~0884C~06307~04EE4''),
     (''spotlightButton'', uni ''~06253~05F00 (~02318K)''),
     (''diagnosticsTitle'', uni ''~06838~05FC3~08BCA~065AD~04E0E~052A0~05BC6~05B58~050A8~05E93''),
     (''engineStatus'', uni ''~05F15~064CE~072B6~06001~0FF1A~09AD8~05B8C~06574~06027''),
     (''cipherSuiteTitle'', uni ''~052A0~05BC6~07B97~06CD5~05957~04EF6''),
     (''cipherSuiteDesc'', uni ''ChaCha20-Poly1305 / AES-GCM + ~0540E~091CF~05B50 ML-KEM''),
     (''ipcDaemonTitle'', uni ''IPC ~05B88~062A4~08FDB~07A0B''),
     (''ipcDaemonDesc'', uni ''Unix ~057DF~05957~063A5~05B57 ~02022 ~05EF6~08FDF~0FF1A{latency}ms''),
     (''encryptedVaultTitle'', uni ''~05B89~05168~052A0~05BC6~06570~0636E~04FDD~09669~05E93''),
     (''encryptedVaultDesc'', uni ''AES-256-GCM ~0786C~04EF6~07EA7~05B89~05168~05BC6~094A5~0FF0C~05177~05907~05185~05B58~081EA~052A8~064E6~09664 (Zeroize)''),
     (''clientVersionText'', uni ''VPNHub ~0684C~09762~05BA2~06237~07AEF v0.1.2''),
     (''resetDefaults'', uni ''~06062~0590D~09ED8~08BA4~08BBE~07F6E''),
     (''settingsRestoredTitle'', uni ''~05DF2~06062~0590D~08BBE~07F6E''),
     (''settingsRestoredMsg'', uni ''~06240~06709~05E94~07528~08BBE~07F6E~05DF2~091CD~07F6E~04E3A~09ED8~08BA4~0521D~059CB~0503C~03002''),
     (''docsAndGithub'', uni ''~06587~06863~04E0E GitHub''),
     (''coreReady'', uni ''v{version} ~05C31~07EEA''),
     (''coreOffline'', uni ''~079BB~07EBF''),
     (''vaultAes'', uni ''~052A0~05BC6~05E93~0FF1AAES-256-GCM'')]"

definition zh_splitTunnel :: "(string \<times> string) list" where
  "zh_splitTunnel =
    [(''title'', uni ''~05206~06D41~07B56~07565~07BA1~07406~05668 (Split Tunneling)''),
     (''subtitle'', uni ''~07CBE~07EC6~063A7~05236~054EA~04E9B~05E94~07528~07A0B~05E8F~03001CIDR ~07F51~06BB5~0548C~057DF~0540D~08D70 VPN ~06216~076F4~08FDE~07F51~07EDC''),
     (''tabApps'', uni ''~05E94~07528~05206~06D41~089C4~05219''),
     (''tabIpDomain'', uni ''IP ~07F51~06BB5~04E0E~057DF~0540D''),
     (''appsSectionTitle'', uni ''~05E94~07528~07A0B~05E8F~07279~05B9A~08DEF~07531~089C4~05219''),
     (''appsSectionDesc'', uni ''~06307~05B9A~053EF~06267~0884C~07A0B~05E8F~053D1~051FA~07684~06570~0636E~05305~05C06~09075~05FAA~04E13~095E8~07684~08DEF~07531~08868~07B56~07565''),
     (''btnAddAppRule'', uni ''~06DFB~052A0~05E94~07528~089C4~05219''),
     (''colStatus'', uni ''~072B6~06001''),
     (''colApp'', uni ''~05E94~07528''),
     (''colPath'', uni ''~053EF~06267~0884C~06587~04EF6~08DEF~05F84''),
     (''colPolicy'', uni ''~08DEF~07531~07B56~07565''),
     (''colActions'', uni ''~064CD~04F5C''),
     (''routeVpnBadge'', uni ''~08D70 VPN ~052A0~05BC6''),
     (''bypassBadge'', uni ''~07ED5~08FC7 VPN (~076F4~08FDE)''),
     (''addIpSectionTitle'', uni ''~06DFB~052A0~05B50~07F51 CIDR ~06216~057DF~0540D~089C4~05219''),
     (''targetLabel'', uni ''~076EE~06807 CIDR / ~0901A~0914D~07B26~057DF~0540D (*.domain)''),
     (''targetPlaceholder'', uni ''10.0.0.0/8 ~06216 *.corp.domain.com''),
     (''typeLabel'', uni ''~07C7B~0578B''),
     (''typeCidr'', uni ''IPv4/IPv6 CIDR ~05B50~07F51''),
     (''typeDomain'', uni ''~057DF~0540D~05339~0914D~06A21~05F0F''),
     (''policyLabel'', uni ''~08DEF~07531~06A21~05F0F''),
     (''policyRouteVpn'', uni ''~08D70 VPN ~052A0~05BC6''),
     (''policyBypass'', uni ''~07ED5~08FC7 VPN (~076F4~08FDE)''),
     (''descLabel'', uni ''~063CF~08FF0 / ~07528~09014''),
     (''descPlaceholder'', uni ''~04F8B~05982~0FF1AAWS VPC ~05185~090E8~073AF~05883''),
     (''btnAddRule'', uni ''~06DFB~052A0''),
     (''colTarget'', uni ''~076EE~06807~05730~05740''),
     (''colType'', uni ''~07C7B~0578B''),
     (''colDesc'', uni ''~063CF~08FF0'')]"

definition zh_modals1 :: "(string \<times> string) list" where
  "zh_modals1 =
    [(''mfaTitle'', uni ''~053CC~091CD~08EAB~04EFD~09A8C~08BC1 (2FA / TOTP)''),
     (''mfaSubtitle'', uni ''~08F93~05165~052A8~06001 6 ~04F4D TOTP / MFA ~09A8C~08BC1~07801~04EE5~05EFA~07ACB VPN ~08FDE~063A5~03002''),
     (''mfaPlaceholder'', ''000000''),
     (''mfaConfirm'', uni ''~09A8C~08BC1~05E76~08FDE~063A5''),
     (''mfaUsername'', uni ''~07528~06237~0540D''),
     (''mfaPassword'', uni ''~05BC6~07801''),
     (''mfaCodeLabel'', uni ''TOTP / MFA ~09A8C~08BC1~07801''),
     (''dnsLeakTitle'', uni ''~081EA~052A8~05316 DNS ~06CC4~06F0F~06D4B~08BD5''),
     (''dnsLeakDesc'', uni ''~06B63~05728~063A2~06D4B~05168~07403~089E3~06790~0670D~052A1~05668~07F51~07EDC~0FF0C~04EE5~068C0~06D4B~07ED5~08FC7~052A0~05BC6~096A7~09053~07684 DNS ~06CC4~06F0F~03002''),
     (''dnsLeakTesting'', uni ''~06B63~05728~068C0~06D4B DNS ~089E3~06790~05668~06CC4~06F0F...''),
     (''dnsLeakPassed'', uni ''~0672A~068C0~06D4B~05230 DNS ~06CC4~06F0F ~02022 ~060A8~07684~06240~06709~06D41~091CF~04E25~0683C~0901A~08FC7~079C1~06709 VPN ~089E3~06790~05668~052A0~05BC6~04F20~08F93~03002''),
     (''dnsLeakFailed'', uni ''~068C0~06D4B~05230 DNS ~06CC4~06F0F ~02022 ~089C2~05BDF~05230~096A7~09053~05916~090E8~05B58~05728~0672A~052A0~05BC6~07684~0660E~06587 DNS ~08BF7~06C42~03002''),
     (''dnsServersFound'', uni ''~068C0~06D4B~05230~07684~089E3~06790~05668''),
     (''dnsPublicIp'', uni ''~089E3~06790~05668 IP ~05730~05740''),
     (''dnsIsp'', uni ''~08FD0~08425~05546 (ISP)''),
     (''dnsLocation'', uni ''~05730~07406~04F4D~07F6E''),
     (''newProfileTitle'', uni ''~0521B~05EFA VPN ~08FDE~063A5~0914D~07F6E''),
     (''newProfileWireguardTitle'', uni ''WireGuard ~0534F~08BAE''),
     (''newProfileWireguardDesc'', uni ''~057FA~04E8E ChaCha20 ~052A0~05BC6~07684~06781~0901F~073B0~04EE3 VPN ~096A7~09053~0FF0C~091C7~07528~08F7B~091CF~05316~05BC6~094A5~05BF9~03002''),
     (''newProfileOpenvpnTitle'', uni ''OpenVPN ~0534F~08BAE''),
     (''newProfileOpenvpnDesc'', uni ''~0884C~04E1A~06807~051C6 SSL/TLS ~04F01~04E1A~07EA7 VPN~0FF0C~05168~09762~0652F~06301~0591A~056E0~07D20~08EAB~04EFD~09A8C~08BC1~03002''),
     (''newProfileImportTitle'', uni ''~05BFC~05165~05DF2~06709~0914D~07F6E~06587~04EF6''),
     (''newProfileImportDesc'', uni ''~076F4~063A5~062D6~062FD~05BFC~05165 .ovpn~03001.conf ~06216~05BA2~06237~07AEF~08BC1~04E66~05305~03002''),
     (''importDropzoneText'', uni ''~05C06 .ovpn ~0914D~07F6E~06587~04EF6~062D6~081F3~06B64~05904~0FF0C~06216~070B9~051FB~06D4F~089C8~06587~04EF6''),
     (''importDropzoneSubtext'', uni ''~0652F~06301~05305~0542B~05185~05D4C~08BC1~04E66~0548C~05BC6~094A5~07684~06807~051C6 OpenVPN ~07EDF~04E00~0683C~05F0F (.ovpn)''),
     (''dropzoneRelease'', uni ''~091CA~0653E~06587~04EF6~04EE5~05BFC~05165''),
     (''dropzoneDropNow'', uni ''~07ACB~05373~062D6~0653E~06587~04EF6~05BFC~05165''),
     (''dropzoneAnalyzing'', uni ''~06B63~05728~05206~06790~05E76~089E3~06790~0914D~07F6E~06587~04EF6...''),
     (''dropzoneExtracting'', uni ''~06B63~05728~063D0~053D6 TLS ~08BC1~04E66~03001~05BC6~094A5~053CA~096A7~09053~08282~070B9~0FF1A''),
     (''invalidFileType'', uni ''~065E0~06548~07684~06587~04EF6~07C7B~0578B~03002~08BF7~04E0A~04F20~06709~06548~07684 .ovpn ~06216 .conf ~0914D~07F6E~06587~04EF6~03002''),
     (''failedReadFile'', uni ''~065E0~06CD5~08BFB~053D6~0914D~07F6E~06587~04EF6~0FF0C~08BF7~091CD~08BD5~03002''),
     (''failedParseFile'', uni ''~089E3~06790 VPN ~0914D~07F6E~06587~04EF6~05931~08D25~03002''),
     (''exportDiagTitle'', uni ''~05BFC~051FA~08BCA~065AD~065E5~05FD7''),
     (''exportDiagSubtitle'', uni ''~04E0B~08F7D~06216~0590D~05236~052A0~05BC6~07684~06280~0672F~08BCA~065AD~06570~0636E~0548C~096A7~09053~065E5~05FD7~0FF0C~04FBF~04E8E~06545~0969C~06392~09664~03002''),
     (''exportDownloadJson'', uni ''~04E0B~08F7D JSON ~06570~0636E~05305''),
     (''exportCopyText'', uni ''~0590D~05236~05230~0526A~08D34~0677F''),
     (''exportIncludeLogs'', uni ''~05305~0542B~06700~08FD1 200 ~06761~05B88~062A4~08FDB~07A0B~08DDF~08E2A~065E5~05FD7''),
     (''exportIncludeRoutes'', uni ''~05305~0542B~05185~06838~06D3B~052A8~08DEF~07531~08868 (`ip route`)''),
     (''exportIncludeDns'', uni ''~05305~0542B~07CFB~07EDF DNS ~089E3~06790~07F13~05B58~072B6~06001''),
     (''exportSanitizePrivate'', uni ''~081EA~052A8~08131~0654F/~064E6~09664~079C1~06709~05BC6~07801~053CA~052A0~05BC6~05BC6~094A5''),
     (''exportCompiling'', uni ''~06B63~05728~06253~05305~05E76~052A0~05BC6~08BCA~065AD~06570~0636E~05305...''),
     (''qrTitle'', uni ''~04E0E~079FB~052A8~08BBE~05907~0540C~06B65~0914D~07F6E''),
     (''qrSubtitle'', uni ''~05728 VPNHub iOS ~06216 Android ~05E94~07528~04E2D~0626B~063CF~06B64~04E8C~07EF4~07801~04EE5~05373~065F6~05BFC~05165~0914D~07F6E~03002''),
     (''qrCopyBase64'', uni ''~0590D~05236 Base64 ~0914D~07F6E~05B57~07B26~04E32''),
     (''protoSelectImportTitle'', uni ''~05BFC~05165~0914D~07F6E - ~09009~062E9~0534F~08BAE''),
     (''protoSelectAddTitle'', uni ''~065B0~05EFA~0914D~07F6E - ~09009~062E9~0534F~08BAE''),
     (''protoSelectImportDesc'', uni ''~09009~062E9~08981~05BFC~05165~07684~0914D~07F6E~06587~04EF6~07C7B~0578B~0FF1A''),
     (''protoSelectAddDesc'', uni ''~09009~062E9~06B64~08FDE~063A5~0914D~07F6E~04F7F~07528~07684 VPN ~0534F~08BAE~05F15~064CE~0FF1A''),
     (''protoWgTitle'', ''WireGuard''),
     (''protoWgBadgeImport'', uni ''.conf ~06587~04EF6''),
     (''protoWgBadgeAdd'', uni ''UDP ~070B9~05BF9~070B9''),
     (''protoWgDescImport'', uni ''~05BFC~05165~06807~051C6 WireGuard ~0914D~07F6E~06587~04EF6 (.conf)''),
     (''protoWgDescAdd'', uni ''~06781~0901F~0541E~05410~091CF~03001~073B0~04EE3~05BC6~07801~05B66~04E0E~06700~04F4E~07F51~07EDC~05EF6~08FDF~03002''),
     (''protoOvpnTitle'', ''OpenVPN''),
     (''protoOvpnBadgeImport'', ''.ovpn / .conf''),
     (''protoOvpnBadgeAdd'', ''TCP / UDP + 2FA''),
     (''protoOvpnDescImport'', uni ''~05BFC~05165 OpenVPN ~05BA2~06237~07AEF~05305 (.ovpn / .conf)''),
     (''protoOvpnDescAdd'', uni ''~0652F~06301 TCP/UDP~030012FA ~052A8~06001~07801~053CA TLS ~08BC1~04E66~07684~04F01~04E1A~07EA7~0534F~08BAE~03002''),
     (''importWgTitle'', uni ''~05BFC~05165 WireGuard ~0914D~07F6E (.conf)''),
     (''importOvpnTitle'', uni ''~05BFC~05165 OpenVPN ~0914D~07F6E (.ovpn)''),
     (''importWgDropzone'', uni ''~05C06 WireGuard .conf ~06587~04EF6~062D6~0653E~05230~06B64~05904''),
     (''importOvpnDropzone'', uni ''~05C06 OpenVPN .ovpn ~06216 .conf ~06587~04EF6~062D6~0653E~05230~06B64~05904''),
     (''importWgHelp'', uni ''~0652F~06301~06807~051C6 WireGuard ~0914D~07F6E~0683C~05F0F (.conf)~0FF0C~06700~05927 5MB''),
     (''importOvpnHelp'', uni ''~0652F~06301 OpenVPN 2.x/3.x ~07EDF~04E00~0914D~07F6E~0683C~05F0F (.ovpn)~0FF0C~06700~05927 5MB''),
     (''importClickBrowse'', uni ''~06216~070B9~051FB~04ECE~07535~08111~04E2D~06D4F~089C8~09009~062E9''),
     (''errExpectedWg'', uni ''~06240~09009~06587~04EF6~04F3C~04E4E~0662F OpenVPN ~0914D~07F6E~06587~04EF6~03002~08BF7~09009~062E9~05305~0542B [Interface] ~07684~06709~06548 WireGuard (.conf) ~06587~04EF6~03002''),
     (''errExpectedOvpn'', uni ''~06240~09009~06587~04EF6~04F3C~04E4E~0662F WireGuard ~0914D~07F6E~06587~04EF6~03002~08BF7~09009~062E9~06709~06548~07684 OpenVPN (.ovpn) ~06587~04EF6~03002''),
     (''addAppTitle'', uni ''~06DFB~052A0~05E94~07528~07A0B~05E8F~05206~06D41~089C4~05219''),
     (''addAppDetected'', uni ''~07CFB~07EDF~05DF2~05B89~088C5~07684~05E94~07528~07A0B~05E8F''),
     (''addAppNameLabel'', uni ''~05E94~07528~07A0B~05E8F~0540D~079F0''),
     (''addAppNamePlaceholder'', uni ''~04F8B~05982~0FF1AFirefox ~06D4F~089C8~05668''),
     (''addAppPathLabel'', uni ''~053EF~06267~0884C~06587~04EF6 / ~04E8C~08FDB~05236~08DEF~05F84''),
     (''addAppPathPlaceholder'', uni ''/usr/bin/... ~06216 C:~0005CProgram Files~0005C...''),
     (''addAppPolicyLabel'', uni ''~08DEF~07531~07B56~07565''),
     (''addAppBypassLabel'', uni ''~07ED5~08FC7 VPN (~076F4~063A5~08FDE~063A5~04E92~08054~07F51)''),
     (''addAppRouteLabel'', uni ''~0901A~08FC7 VPN ~052A0~05BC6~096A7~09053~04F20~08F93''),
     (''addAppSubmitBtn'', uni ''~06DFB~052A0~089C4~05219''),
     (''certManagerTitle'', uni ''TLS ~04E0E~08BC1~04E66~05B89~05168~07BA1~07406~05668''),
     (''tabRootCa'', uni ''~06839~08BC1~04E66 CA''),
     (''tabTlsChannel'', uni ''TLS ~063A7~05236~0901A~09053''),
     (''tabClientIdentity'', uni ''~05BA2~06237~07AEF~08EAB~04EFD''),
     (''tabAdvanced'', uni ''~09AD8~07EA7~08BBE~07F6E''),
     (''rootCaTitle'', uni ''~08BC1~04E66~09881~053D1~0673A~06784 (<ca>)''),
     (''rootCaLoaded'', uni ''~05DF2~052A0~08F7D~081EA~05B9A~04E49~06839~08BC1~04E66 CA ({length} ~04E2A~05B57~07B26)''),
     (''rootCaDefaultSystem'', uni ''~05C06~04F7F~07528~064CD~04F5C~07CFB~07EDF~09ED8~08BA4~07684~06839~08BC1~04E66~09881~053D1~0673A~06784~05305~03002''),
     (''importCrtPem'', uni ''~05BFC~05165 .crt / .pem''),
     (''rootCaPemLabel'', uni ''~06839~08BC1~04E66 CA PEM ~05185~05BB9''),
     (''rootCaPemPlaceholder'', uni ''-----BEGIN CERTIFICATE-----~0000A...~0000A-----END CERTIFICATE-----''),
     (''tlsModeLabel'', uni ''TLS ~063A7~05236~0901A~09053~04FDD~062A4~06A21~05F0F''),
     (''tlsModeDesc'', uni ''~063D0~04F9B~0989D~05916~07684 HMAC ~07B7E~0540D~09A8C~08BC1~06216~05168~063A7~05236~0901A~09053~052A0~05BC6~05C42~03002''),
     (''tlsModeNone'', uni ''~065E0 (~06807~051C6 OpenVPN TLS ~063E1~0624B)''),
     (''tlsModeAuth'', uni ''TLS-Auth (<tls-auth>) - ~09759~06001 HMAC ~07B7E~0540D'')]"

definition zh_modals2 :: "(string \<times> string) list" where
  "zh_modals2 =
    [(''tlsModeCrypt'', uni ''TLS-Crypt (<tls-crypt>) - ~05168~063A7~05236~0901A~09053~052A0~05BC6''),
     (''tlsAuthStaticKeyTitle'', uni ''TLS-Auth ~09759~06001~05BC6~094A5''),
     (''tlsKeyLoaded'', uni ''~05DF2~052A0~08F7D~09759~06001~05BC6~094A5 ({length} ~05B57~07B26)''),
     (''noKeyLoaded'', uni ''~0672A~052A0~08F7D~05BC6~094A5''),
     (''importKeyFile'', uni ''~05BFC~05165 .key ~06587~04EF6''),
     (''tlsAuthKeyContentLabel'', uni ''TLS Auth ~05BC6~094A5~05185~05BB9 (<tls-auth>)''),
     (''keyDirectionLabel'', uni ''~05BC6~094A5~065B9~05411 (key-direction)''),
     (''keyDirectionDesc'', uni ''~05FC5~0987B~04E0E~0670D~052A1~05668~07AEF~0914D~07F6E~04E25~0683C~05339~0914D~03002''),
     (''keyDirNone'', uni ''~065E0 / ~053CC~05411''),
     (''keyDir0'', uni ''0 (~05BA2~06237~07AEF / ~04F20~05165)''),
     (''keyDir1'', uni ''1 (~0670D~052A1~05668 / ~053D1~09001)''),
     (''tlsCryptKeyTitle'', uni ''TLS-Crypt ~05BF9~079F0~05BC6~094A5''),
     (''tlsCryptKeyContentLabel'', uni ''TLS Crypt ~05BC6~094A5~05185~05BB9 (<tls-crypt>)''),
     (''clientIdentityDesc'', uni ''~053CC~05411 TLS (mTLS) ~06216~057FA~04E8E~08BC1~04E66~07684~05BA2~06237~07AEF~08EAB~04EFD~09A8C~08BC1~06240~09700~03002''),
     (''clientCertTitle'', uni ''~05BA2~06237~07AEF~08BC1~04E66 (<cert>)''),
     (''clientCertLoaded'', uni ''~05DF2~052A0~08F7D~05BA2~06237~07AEF~08BC1~04E66 ({length} ~05B57~07B26)''),
     (''noCertLoaded'', uni ''~0672A~063D0~04F9B~08BC1~04E66''),
     (''importCrt'', uni ''~05BFC~05165 .crt''),
     (''clientKeyTitle'', uni ''~05BA2~06237~07AEF~079C1~094A5 (<key>)''),
     (''clientKeyLoaded'', uni ''~05DF2~052A0~08F7D~05BA2~06237~07AEF~079C1~094A5 ({length} ~05B57~07B26)''),
     (''noPrivateKeyLoaded'', uni ''~0672A~063D0~04F9B~079C1~094A5''),
     (''importKey'', uni ''~05BFC~05165 .key''),
     (''verifyServerCertTitle'', uni ''~09A8C~08BC1~0670D~052A1~05668~08BC1~04E66''),
     (''verifyServerCertDesc'', uni ''~05F3A~05236~06267~0884C~0670D~052A1~05668~08BC1~04E66~06821~09A8C~06807~08BC6 (remote-cert-tls server)''),
     (''renegSecLabel'', uni ''~091CD~065B0~0534F~05546~05468~0671F (reneg-sec)''),
     (''renegSecPlaceholder'', uni ''~04F8B~05982~0FF1A~08BBE~04E3A 0 ~04EE5~07981~07528~06570~0636E~0901A~09053~091CD~0534F~05546''),
     (''renegSecDesc'', uni ''~09ED8~08BA4~0503C~0FF1A3600 ~079D2~03002~082E5~060A8~07684~04E91 VPN ~0670D~052A1~05668~07981~07528~04E86~091CD~0534F~05546~08BF7~08BBE~04E3A 0~03002''),
     (''applyCertSettings'', uni ''~05E94~07528~08BC1~04E66~04E0E~05B89~05168~0914D~07F6E''),
     (''wireguardComingSoonError'', uni ''WireGuard ~0534F~08BAE~06B63~05728~05F00~053D1~04E2D~0FF08~05373~05C06~063A8~051FA~0FF09~0FF0C~08BF7~05BFC~05165 OpenVPN (.ovpn) ~0914D~07F6E~06587~04EF6~03002''),
     (''createWgTitle'', uni ''~0521B~05EFA WireGuard ~0914D~07F6E''),
     (''createOvpnTitle'', uni ''~0521B~05EFA OpenVPN ~0914D~07F6E''),
     (''editWgTitle'', uni ''~07F16~08F91 WireGuard ~0914D~07F6E''),
     (''editOvpnTitle'', uni ''~07F16~08F91 OpenVPN ~0914D~07F6E''),
     (''serverSettingsTitle'', uni ''~0670D~052A1~05668~04E0E~08FDE~063A5~08BBE~07F6E''),
     (''profileNameLabel'', uni ''~0914D~07F6E~0540D~079F0''),
     (''profileNameWgPlaceholder'', uni ''~04F8B~05982~0FF1AWireGuard ~09999~06E2F~08282~070B9''),
     (''profileNameOvpnPlaceholder'', uni ''~04F8B~05982~0FF1AOpenVPN ~0516C~053F8~05185~090E8~073AF~05883''),
     (''transportProtoLabel'', uni ''~04F20~08F93~0534F~08BAE''),
     (''serverHostLabel'', uni ''~0670D~052A1~05668~04E3B~0673A / IP''),
     (''serverHostPlaceholder'', uni ''vpn.example.com ~06216 103.21.244.18''),
     (''portLabel'', uni ''~07AEF~053E3''),
     (''virtualIpLabel'', uni ''~05206~0914D~07684~0865A~062DF IP (CIDR)''),
     (''virtualIpDesc'', uni ''~04E3A~06B64 WireGuard ~096A7~09053~08282~070B9~05206~0914D~07684~09759~06001~05185~07F51 IP''),
     (''intranetOnlyTitle'', uni ''~04EC5~05C06~06B64~08FDE~063A5~07528~04E8E~05176~07F51~07EDC~04E0A~07684~08D44~06E90 (~05185~07F51~05206~06D41)''),
     (''intranetOnlyActiveDesc'', uni ''~05206~06D41~05DF2~0542F~07528~0FF1A~04EC5~08DEF~07531~05185~090E8~04E13~07528~05B50~07F51~0FF0C~05E38~089C4~04E92~08054~07F51~08D70~0672C~05730~07269~07406~08FDE~063A5''),
     (''intranetOnlyDefaultDesc'', uni ''~09ED8~08BA4~0FF1A~09075~05FAA~0670D~052A1~05668~063A8~09001~07B56~07565~0FF08~0670D~052A1~05668~08981~06C42~065F6~04F5C~04E3A~09ED8~08BA4~07F51~05173~0FF09''),
     (''customSubnetsLabel'', uni ''~081EA~05B9A~04E49~04F01~04E1A~05185~07F51~05B50~07F51 (CIDR)''),
     (''customSubnetsPlaceholder'', uni ''~04F8B~05982~0FF1A10.0.0.0/8, 192.168.10.0/24, 172.16.0.0/12''),
     (''customSubnetsDesc'', uni ''~09700~08981~08DEF~07531~05230~06B64 VPN ~096A7~09053~07684~09644~052A0~05185~090E8~079C1~06709~07F51~06BB5~0FF08~09017~053F7~05206~09694~0FF09''),
     (''customSubnetsHint'', uni ''~1F4A1 ~0670D~052A1~05668~063A8~09001~07684~07F51~06BB5~053CA~05206~0914D~07684~096A7~09053~0865A~062DF IP ~05DF2~081EA~052A8~05305~0542B~03002''),
     (''keysAuthTitle'', uni ''~05BC6~094A5~04E0E~08EAB~04EFD~09A8C~08BC1''),
     (''wgKeyExchangeBadge'', uni ''WireGuard ~05BC6~094A5~04EA4~06362''),
     (''ovpnAuth2faBadge'', uni ''OpenVPN ~08BA4~08BC1~04E0E 2FA''),
     (''wgPrivKeyLabel'', uni ''WireGuard ~05BA2~06237~07AEF~079C1~094A5 (Base64)''),
     (''wgPrivKeyPlaceholder'', uni ''~05BA2~06237~07AEF~08282~070B9~079C1~094A5 (~04F8B~05982~0FF1AaGVwaGFlc3R1cy...)''),
     (''wgPrivKeyDesc'', uni ''~05DF2~05728 AES-256-GCM ~0786C~04EF6~04FDD~09669~05E93~04E2D~05B89~05168~052A0~05BC6~05B58~050A8''),
     (''wgPskLabel'', uni ''~09884~05171~04EAB~05BC6~094A5 PSK (~0540E~091CF~05B50~09632~062A4~076FE)''),
     (''wgPskPlaceholder'', uni ''~053EF~09009~07684 256 ~04F4D~05BF9~079F0 PSK ~05BC6~094A5''),
     (''wgPskDesc'', uni ''~062B5~05FA1~091CF~05B50~08BA1~07B97~0653B~051FB~07684~09644~052A0~05BF9~079F0~052A0~05BC6~04FDD~062A4~05C42''),
     (''ovpnUsernameLabel'', uni ''~07528~06237~0540D''),
     (''ovpnUsernamePlaceholder'', uni ''~08F93~05165 VPN ~08D26~053F7~07528~06237~0540D''),
     (''ovpnAuthModeLabel'', uni ''~05BC6~07801~04E0E 2FA / TOTP ~09A8C~08BC1~06A21~05F0F''),
     (''authModeStatic'', uni ''~09759~06001~05BC6~07801''),
     (''authModeTotpAuto'', uni ''~081EA~052A8~08BA1~07B97 TOTP''),
     (''authModeDynamicPrompt'', uni ''~08FDE~063A5~065F6~052A8~06001~05F39~07A97''),
     (''basePasswordLabel'', uni ''~057FA~07840~05BC6~07801''),
     (''passwordLabel'', uni ''~05BC6~07801''),
     (''basePasswordPlaceholder'', uni ''~057FA~07840~05BC6~07801~0FF08~06216~07559~07A7A~05728~08FDE~063A5~065F6~08F93~05165~0FF09''),
     (''passwordPlaceholder'', uni ''~08F93~05165~05BC6~07801''),
     (''totpSecretLabel'', uni ''TOTP ~05BC6~094A5 Secret (Base32)''),
     (''totpSecretPlaceholder'', uni ''~04F8B~05982~0FF1AJBSWY3DPEHPK3PXP''),
     (''totpSecretDesc'', uni ''~05B89~05168~052A0~05BC6~05B58~050A8~05728 AES-256-GCM ~06570~0636E~04FDD~09669~05E93~04E2D''),
     (''totpFormatLabel'', uni ''~05BC6~07801~07EC4~05408~0683C~05F0F''),
     (''totpFormatAppend'', uni ''~057FA~07840~05BC6~07801 + TOTP ~052A8~06001~07801 (~04F8B~05982~0FF1AMyPass123456)''),
     (''totpFormatPrefix'', uni ''TOTP ~052A8~06001~07801 + ~057FA~07840~05BC6~07801 (~04F8B~05982~0FF1A123456MyPass)''),
     (''totpFormatOnly'', uni ''~04EC5~053D1~09001 TOTP ~052A8~06001~07801 (~04F8B~05982~0FF1A123456)''),
     (''liveTotpLabel'', uni ''~05B9E~065F6~09A8C~08BC1~05668~052A8~06001~07801~0FF1A''),
     (''activeOtpBadge'', uni ''~052A8~06001~09A8C~08BC1~07801~06709~06548''),
     (''dynamicPromptHint'', uni ''~1F4A1 ~08FDE~063A5~065F6~0FF0CVPNHub ~05C06~05F39~051FA~05FEB~06377 2FA ~05BF9~08BDD~06846~04EE5~04F9B~08F93~05165~05B9E~065F6~052A8~06001~09A8C~08BC1~07801~03002''),
     (''tlsSummaryTitle'', uni ''TLS ~04E0E~08BC1~04E66~05B89~05168''),
     (''tlsSummaryDesc'', uni ''~06839~08BC1~04E66 CA~03001TLS ~063A7~05236~0901A~09053~05BC6~094A5~053CA~05BA2~06237~07AEF~08BC1~04E66~09A8C~08BC1''),
     (''btnConfigSecurity'', uni ''~0914D~07F6E~08BC1~04E66~05B89~05168''),
     (''btnSetupCertificates'', uni ''~08BBE~07F6E~08BC1~04E66''),
     (''badgeCustomCa'', uni ''~02713 ~081EA~05B9A~04E49~06839~08BC1~04E66 CA''),
     (''badgeSystemCa'', uni ''~07CFB~07EDF~09ED8~08BA4~06839~08BC1~04E66''),
     (''badgeTlsCrypt'', uni ''~02713 ~05DF2~0542F~07528 TLS-Crypt''),
     (''badgeTlsAuth'', uni ''~02713 TLS-Auth (~065B9~05411: {direction})''),
     (''badgeStandardTls'', uni ''~06807~051C6 TLS ~063E1~0624B''),
     (''badgeClientCertKey'', uni ''~02713 ~05BA2~06237~07AEF~08BC1~04E66~04E0E~079C1~094A5''),
     (''badgeUserPassAuth'', uni ''~08D26~053F7~05BC6~07801~08BA4~08BC1''),
     (''badgeServerVerify'', uni ''~0670D~052A1~05668~09A8C~08BC1 (~05DF2~0542F~07528)''),
     (''btnSaveChanges'', uni ''~04FDD~05B58~066F4~06539''),
     (''btnCreateProfile'', uni ''~0521B~05EFA~0914D~07F6E'')]"

section \<open>The dictionaries\<close>

definition under :: "string \<Rightarrow> (string \<times> string) list \<Rightarrow> (string \<times> string) list" where
  "under sec es = map (\<lambda>(k, v). (sec @ ''.'' @ k, v)) es"

definition keys_under :: "string \<Rightarrow> string list \<Rightarrow> string list" where
  "keys_under sec ks = map (\<lambda>k. sec @ ''.'' @ k) ks"

definition dictionary_keys :: "string list" where
  "dictionary_keys =
     keys_under ''common'' keys_common @
     keys_under ''nav'' keys_nav @
     keys_under ''titlebar'' keys_titlebar @
     keys_under ''statusBar'' keys_statusBar @
     keys_under ''dashboard'' keys_dashboard @
     keys_under ''profiles'' keys_profiles @
     keys_under ''security'' keys_security @
     keys_under ''logs'' keys_logs @
     keys_under ''settings'' keys_settings @
     keys_under ''splitTunnel'' keys_splitTunnel @
     keys_under ''modals'' (keys_modals1 @ keys_modals2)"

definition en_texts :: "(string \<times> string) list" where
  "en_texts =
     under ''common'' en_common @
     under ''nav'' en_nav @
     under ''titlebar'' en_titlebar @
     under ''statusBar'' en_statusBar @
     under ''dashboard'' en_dashboard @
     under ''profiles'' en_profiles @
     under ''security'' en_security @
     under ''logs'' en_logs @
     under ''settings'' en_settings @
     under ''splitTunnel'' en_splitTunnel @
     under ''modals'' (en_modals1 @ en_modals2)"

definition fr_texts :: "(string \<times> string) list" where
  "fr_texts =
     under ''common'' fr_common @
     under ''nav'' fr_nav @
     under ''titlebar'' fr_titlebar @
     under ''statusBar'' fr_statusBar @
     under ''dashboard'' fr_dashboard @
     under ''profiles'' fr_profiles @
     under ''security'' fr_security @
     under ''logs'' fr_logs @
     under ''settings'' fr_settings @
     under ''splitTunnel'' fr_splitTunnel @
     under ''modals'' (fr_modals1 @ fr_modals2)"

definition vi_texts :: "(string \<times> string) list" where
  "vi_texts =
     under ''common'' vi_common @
     under ''nav'' vi_nav @
     under ''titlebar'' vi_titlebar @
     under ''statusBar'' vi_statusBar @
     under ''dashboard'' vi_dashboard @
     under ''profiles'' vi_profiles @
     under ''security'' vi_security @
     under ''logs'' vi_logs @
     under ''settings'' vi_settings @
     under ''splitTunnel'' vi_splitTunnel @
     under ''modals'' (vi_modals1 @ vi_modals2)"

definition zh_texts :: "(string \<times> string) list" where
  "zh_texts =
     under ''common'' zh_common @
     under ''nav'' zh_nav @
     under ''titlebar'' zh_titlebar @
     under ''statusBar'' zh_statusBar @
     under ''dashboard'' zh_dashboard @
     under ''profiles'' zh_profiles @
     under ''security'' zh_security @
     under ''logs'' zh_logs @
     under ''settings'' zh_settings @
     under ''splitTunnel'' zh_splitTunnel @
     under ''modals'' (zh_modals1 @ zh_modals2)"

definition texts_of :: "Language \<Rightarrow> (string \<times> string) list" where
  "texts_of l = (case l of En \<Rightarrow> en_texts | Fr \<Rightarrow> fr_texts | Vi \<Rightarrow> vi_texts | Zh \<Rightarrow> zh_texts)"

text \<open>What is shown for a path of the dictionary; \<open>missing\<close> is what a path without a text would show.\<close>

definition DICTIONARIES :: "string \<Rightarrow> Language \<Rightarrow> dictionary" where
  "DICTIONARIES missing l k = (case map_of (texts_of l) k of Some t \<Rightarrow> t | None \<Rightarrow> missing)"

section \<open>Same keys\<close>

lemmas key_defs = keys_common_def keys_nav_def keys_titlebar_def keys_statusBar_def keys_dashboard_def keys_profiles_def 
  keys_security_def keys_logs_def keys_settings_def keys_splitTunnel_def keys_modals1_def keys_modals2_def

lemma en_keys:
  "map fst en_common = keys_common"
  "map fst en_nav = keys_nav"
  "map fst en_titlebar = keys_titlebar"
  "map fst en_statusBar = keys_statusBar"
  "map fst en_dashboard = keys_dashboard"
  "map fst en_profiles = keys_profiles"
  "map fst en_security = keys_security"
  "map fst en_logs = keys_logs"
  "map fst en_settings = keys_settings"
  "map fst en_splitTunnel = keys_splitTunnel"
  "map fst en_modals1 = keys_modals1"
  "map fst en_modals2 = keys_modals2"
  by (simp_all only: en_common_def en_nav_def en_titlebar_def en_statusBar_def en_dashboard_def en_profiles_def 
      en_security_def en_logs_def en_settings_def en_splitTunnel_def en_modals1_def en_modals2_def
      key_defs list.map fst_conv)

lemma fr_keys:
  "map fst fr_common = keys_common"
  "map fst fr_nav = keys_nav"
  "map fst fr_titlebar = keys_titlebar"
  "map fst fr_statusBar = keys_statusBar"
  "map fst fr_dashboard = keys_dashboard"
  "map fst fr_profiles = keys_profiles"
  "map fst fr_security = keys_security"
  "map fst fr_logs = keys_logs"
  "map fst fr_settings = keys_settings"
  "map fst fr_splitTunnel = keys_splitTunnel"
  "map fst fr_modals1 = keys_modals1"
  "map fst fr_modals2 = keys_modals2"
  by (simp_all only: fr_common_def fr_nav_def fr_titlebar_def fr_statusBar_def fr_dashboard_def fr_profiles_def 
      fr_security_def fr_logs_def fr_settings_def fr_splitTunnel_def fr_modals1_def fr_modals2_def
      key_defs list.map fst_conv)

lemma vi_keys:
  "map fst vi_common = keys_common"
  "map fst vi_nav = keys_nav"
  "map fst vi_titlebar = keys_titlebar"
  "map fst vi_statusBar = keys_statusBar"
  "map fst vi_dashboard = keys_dashboard"
  "map fst vi_profiles = keys_profiles"
  "map fst vi_security = keys_security"
  "map fst vi_logs = keys_logs"
  "map fst vi_settings = keys_settings"
  "map fst vi_splitTunnel = keys_splitTunnel"
  "map fst vi_modals1 = keys_modals1"
  "map fst vi_modals2 = keys_modals2"
  by (simp_all only: vi_common_def vi_nav_def vi_titlebar_def vi_statusBar_def vi_dashboard_def vi_profiles_def 
      vi_security_def vi_logs_def vi_settings_def vi_splitTunnel_def vi_modals1_def vi_modals2_def
      key_defs list.map fst_conv)

lemma zh_keys:
  "map fst zh_common = keys_common"
  "map fst zh_nav = keys_nav"
  "map fst zh_titlebar = keys_titlebar"
  "map fst zh_statusBar = keys_statusBar"
  "map fst zh_dashboard = keys_dashboard"
  "map fst zh_profiles = keys_profiles"
  "map fst zh_security = keys_security"
  "map fst zh_logs = keys_logs"
  "map fst zh_settings = keys_settings"
  "map fst zh_splitTunnel = keys_splitTunnel"
  "map fst zh_modals1 = keys_modals1"
  "map fst zh_modals2 = keys_modals2"
  by (simp_all only: zh_common_def zh_nav_def zh_titlebar_def zh_statusBar_def zh_dashboard_def zh_profiles_def 
      zh_security_def zh_logs_def zh_settings_def zh_splitTunnel_def zh_modals1_def zh_modals2_def
      key_defs list.map fst_conv)

lemma under_keys: "map fst (under sec es) = keys_under sec (map fst es)"
  by (induction es) (auto simp: under_def keys_under_def)

text \<open>Every language has a text for every key, in the same order.\<close>

lemma all_keys: "map fst (texts_of l) = dictionary_keys"
  by (cases l) (simp_all add: texts_of_def en_texts_def fr_texts_def vi_texts_def zh_texts_def dictionary_keys_def
      under_keys en_keys fr_keys vi_keys zh_keys)

lemma text_present:
  assumes "k \<in> set dictionary_keys"
  shows "DICTIONARIES a l k = DICTIONARIES b l k"
proof -
  have "k \<in> fst ` set (texts_of l)" using assms all_keys [of l] by (metis set_map)
  then obtain t where "map_of (texts_of l) k = Some t" using weak_map_of_SomeI by (metis imageE prod.collapse)
  then show ?thesis by (simp add: DICTIONARIES_def)
qed

end
