(* ===== verification/Language_Properties.thy ===== *)
theory Language_Properties
  imports Dictionaries Form_Elements Rule_Elements
begin

text \<open>
  The views and the dictionaries: two dictionaries that agree on the keys of \<^verbatim>\<open>i18n/types.ts\<close> give the same
  views, so that no view asks for a text that a language lacks; and the texts with a placeholder
  have it in every language.
\<close>

section \<open>Views use no other keys\<close>

lemmas view_defs = getStatusText_def powerTooltip_def renderStatusBadge_def getButtonProps_def getKsDisplay_def action_title_def
  action_subtitle_def getDaemonBadge_def getNavLabel_def handleResetDefaults_def filteredActions_def
  nav_button_def kill_switch_card_def ipv6_card_def webrtc_card_def lan_card_def settings_header_def
  language_card_def desktop_card_def network_card_def diagnostics_card_def titlebar_view_def sidebar_view_def
  mobile_nav_view_def status_bar_view_def spotlight_view_def security_view_def dns_view_def settings_view_def
  hero_power_def hero_status_def renderAddCard_def profile_card_def library_header_def filter_pills_def
  library_empty_def hero_view_def hero_mobile_def hero_mobile_profile_def hero_tablet_profile_def
  hero_desktop_profile_def deck_view_def log_stream_view_def dashboard_view_def library_view_def
  library_controls_def app_rule_row_def ip_rule_row_def split_tunnel_view_def apps_panel_def ip_panel_def
  ip_rule_add_def add_app_view_def export_view_def dialog_title_def server_section_def wireguard_keys_def
  totp_section_def openvpn_auth_def tls_summary_def dropzone_content_def manual_cards_def cert_tabs_def
  ca_panel_def tls_panel_def tls_auth_box_def tls_crypt_box_def client_panel_def client_cert_box_def
  client_key_box_def advanced_panel_def profile_dialog_view_def auth_section_def cert_manager_view_def
  dropzone_def hub_view_def mfa_view_def protocol_selection_view_def

locale same_texts =
  fixes t t' :: dictionary
  assumes agree: "list_all (\<lambda>k. t k = t' k) dictionary_keys"
begin

lemmas texts_agree = agree [simplified dictionary_keys_def keys_under_def key_defs, simplified]

lemma parts_same:
  "app_rule_row t = app_rule_row t'" "ip_rule_row t = ip_rule_row t'" "handleResetDefaults t = handleResetDefaults t'"
  "filteredActions t = filteredActions t'" "nav_button t = nav_button t'" "profile_card t = profile_card t'"
  by (simp_all only: fun_eq_iff simp_thms list.map view_defs texts_agree)

lemma views_same:
  "titlebar_view t = titlebar_view t' \<and>
   sidebar_view t = sidebar_view t' \<and>
   mobile_nav_view t = mobile_nav_view t' \<and>
   status_bar_view t = status_bar_view t' \<and>
   spotlight_view t = spotlight_view t' \<and>
   security_view t = security_view t' \<and>
   dns_view t = dns_view t' \<and>
   settings_view t = settings_view t' \<and>
   dashboard_view t = dashboard_view t' \<and>
   library_view t = library_view t' \<and>
   split_tunnel_view t = split_tunnel_view t' \<and>
   export_view t = export_view t' \<and>
   profile_dialog_view t = profile_dialog_view t' \<and>
   cert_manager_view t = cert_manager_view t' \<and>
   dropzone t = dropzone t' \<and>
   hub_view t = hub_view t' \<and>
   mfa_view t = mfa_view t' \<and>
   protocol_selection_view t = protocol_selection_view t'"
  by (simp only: parts_same fun_eq_iff simp_thms list.map view_defs texts_agree)

end

interpretation lang: same_texts "DICTIONARIES a l" "DICTIONARIES b l" for a b l
  by unfold_locales (simp add: list_all_iff text_present)

text \<open>
  Property C39. In every language every view is the same whatever an absent text would show: the titlebar, the two
  navigations, the status bar, the spotlight, the security and split tunnelling views, the settings, the
  dashboard, the library, the log export and the dialogs of the profile forms ask for no text that the
  language lacks.
\<close>

theorem no_text_missing:
  "titlebar_view (DICTIONARIES a l) = titlebar_view (DICTIONARIES b l) \<and>
   sidebar_view (DICTIONARIES a l) = sidebar_view (DICTIONARIES b l) \<and>
   mobile_nav_view (DICTIONARIES a l) = mobile_nav_view (DICTIONARIES b l) \<and>
   status_bar_view (DICTIONARIES a l) = status_bar_view (DICTIONARIES b l) \<and>
   spotlight_view (DICTIONARIES a l) = spotlight_view (DICTIONARIES b l) \<and>
   security_view (DICTIONARIES a l) = security_view (DICTIONARIES b l) \<and>
   dns_view (DICTIONARIES a l) = dns_view (DICTIONARIES b l) \<and>
   settings_view (DICTIONARIES a l) = settings_view (DICTIONARIES b l) \<and>
   dashboard_view (DICTIONARIES a l) = dashboard_view (DICTIONARIES b l) \<and>
   library_view (DICTIONARIES a l) = library_view (DICTIONARIES b l) \<and>
   split_tunnel_view (DICTIONARIES a l) = split_tunnel_view (DICTIONARIES b l) \<and>
   export_view (DICTIONARIES a l) = export_view (DICTIONARIES b l) \<and>
   profile_dialog_view (DICTIONARIES a l) = profile_dialog_view (DICTIONARIES b l) \<and>
   cert_manager_view (DICTIONARIES a l) = cert_manager_view (DICTIONARIES b l) \<and>
   dropzone (DICTIONARIES a l) = dropzone (DICTIONARIES b l) \<and>
   hub_view (DICTIONARIES a l) = hub_view (DICTIONARIES b l) \<and>
   mfa_view (DICTIONARIES a l) = mfa_view (DICTIONARIES b l) \<and>
   protocol_selection_view (DICTIONARIES a l) = protocol_selection_view (DICTIONARIES b l)"
  by (rule lang.views_same)

section \<open>Placeholders\<close>

text \<open>The texts that a view completes, with the placeholder it replaces.\<close>

definition settings_placeholders :: "(string \<times> string) list" where
  "settings_placeholders = [(''ipcDaemonDesc'', ''{latency}''), (''coreReady'', ''{version}'')]"

definition modals_placeholders :: "(string \<times> string) list" where
  "modals_placeholders =
     [(''rootCaLoaded'', ''{length}''), (''tlsKeyLoaded'', ''{length}''), (''clientCertLoaded'', ''{length}''),
      (''clientKeyLoaded'', ''{length}''), (''badgeTlsAuth'', ''{direction}'')]"

definition placeholders :: "(string \<times> string) list" where
  "placeholders = under ''settings'' settings_placeholders @ under ''modals'' modals_placeholders"

fun contains :: "string \<Rightarrow> string \<Rightarrow> bool" where
  "contains pat [] = (pat = [])"
| "contains pat (c # cs) = (startsWith (c # cs) pat \<or> contains pat cs)"

lemma contains_append: "contains pat s \<Longrightarrow> contains pat (r @ s)"
  by (induction r) auto

lemma replaceFirst_contains:
  "contains pat s \<Longrightarrow> \<exists>before after. s = before @ pat @ after \<and> (\<forall>new. replaceFirst pat new s = before @ new @ after)"
proof (induction s)
  case (Cons c cs)
  show ?case
  proof (cases "startsWith (c # cs) pat")
    case True
    then obtain r where "c # cs = pat @ r" by (auto simp: startsWith_def prefix_def)
    moreover have "replaceFirst pat new (c # cs) = new @ drop (length pat) (c # cs)" for new
      using True by simp
    ultimately have "c # cs = [] @ pat @ r \<and> (\<forall>new. replaceFirst pat new (c # cs) = [] @ new @ r)"
      by (simp del: replaceFirst.simps)
    then show ?thesis by blast
  next
    case False
    then obtain u v where "cs = u @ pat @ v" "\<forall>new. replaceFirst pat new cs = u @ new @ v"
      using Cons by auto
    then have "c # cs = (c # u) @ pat @ v \<and> (\<forall>new. replaceFirst pat new (c # cs) = (c # u) @ new @ v)"
      using False by simp
    then show ?thesis by blast
  qed
qed simp

lemma map_of_under:
  "map_of (under sec es) x = (if prefix (sec @ ''.'') x then map_of es (drop (Suc (length sec)) x) else None)"
  by (induction es) (auto simp: under_def prefix_def)

text \<open>An entry of a dictionary has its placeholder, if it is one of those that have one.\<close>

definition complete_entry :: "(string \<times> string) list \<Rightarrow> string \<times> string \<Rightarrow> bool" where
  "complete_entry ph e = (case map_of ph (fst e) of Some pat \<Rightarrow> contains pat (snd e) | None \<Rightarrow> True)"

lemma complete_other: "map_of ph k = None \<Longrightarrow> complete_entry ph (k, v)"
  by (simp add: complete_entry_def)

lemma list_all_intros: "list_all P []" "P x \<Longrightarrow> list_all P xs \<Longrightarrow> list_all P (x # xs)"
  by simp_all

lemmas complete_simps = complete_entry_def settings_placeholders_def modals_placeholders_def startsWith_def contains_append

lemma settings_complete:
  "list_all (complete_entry settings_placeholders) en_settings" "list_all (complete_entry settings_placeholders) fr_settings"
  "list_all (complete_entry settings_placeholders) vi_settings" "list_all (complete_entry settings_placeholders) zh_settings"
  unfolding en_settings_def fr_settings_def vi_settings_def zh_settings_def
  by (intro list_all_intros; ((rule complete_other, (simp add: settings_placeholders_def; fail)) | simp add: complete_simps))+

lemma modals_complete:
  "list_all (complete_entry modals_placeholders) en_modals1" "list_all (complete_entry modals_placeholders) en_modals2"
  "list_all (complete_entry modals_placeholders) fr_modals1" "list_all (complete_entry modals_placeholders) fr_modals2"
  "list_all (complete_entry modals_placeholders) vi_modals1" "list_all (complete_entry modals_placeholders) vi_modals2"
  "list_all (complete_entry modals_placeholders) zh_modals1" "list_all (complete_entry modals_placeholders) zh_modals2"
  unfolding en_modals1_def fr_modals1_def vi_modals1_def zh_modals1_def
    en_modals2_def fr_modals2_def vi_modals2_def zh_modals2_def
  by (intro list_all_intros; ((rule complete_other, (simp add: modals_placeholders_def; fail)) | simp add: complete_simps))+

lemma under_simps: "under sec [] = []" "under sec (e # es) = (sec @ ''.'' @ fst e, snd e) # under sec es"
  by (simp_all add: under_def case_prod_beta)

lemma complete_key:
  "complete_entry placeholders (''settings.'' @ k, v) = complete_entry settings_placeholders (k, v)"
  "complete_entry placeholders (''modals.'' @ k, v) = complete_entry modals_placeholders (k, v)"
  "\<not> prefix ''settings.'' x \<Longrightarrow> \<not> prefix ''modals.'' x \<Longrightarrow> complete_entry placeholders (x, v)"
  by (simp_all add: complete_entry_def placeholders_def map_of_under map_add_def split: option.split)

lemma complete_under:
  "list_all (complete_entry placeholders) (under ''settings'' es) = list_all (complete_entry settings_placeholders) es"
  "list_all (complete_entry placeholders) (under ''modals'' es) = list_all (complete_entry modals_placeholders) es"
  "\<forall>k. \<not> prefix ''settings.'' (sec @ ''.'' @ k) \<and> \<not> prefix ''modals.'' (sec @ ''.'' @ k) \<Longrightarrow>
     list_all (complete_entry placeholders) (under sec es)"
  by (induction es) (auto simp: under_simps complete_key [simplified])

lemma texts_complete: "list_all (complete_entry placeholders) (texts_of l)"
  by (cases l) (simp_all add: texts_of_def en_texts_def fr_texts_def vi_texts_def zh_texts_def complete_under
      settings_complete modals_complete)

lemma keys_of_placeholders: "list_all (\<lambda>(k, pat). k \<in> set dictionary_keys \<and> map_of placeholders k = Some pat) placeholders"
  by (simp add: placeholders_def settings_placeholders_def modals_placeholders_def under_def dictionary_keys_def
      keys_under_def keys_settings_def keys_modals1_def keys_modals2_def)

text \<open>
  In every language the text of each of these keys has its placeholder, and completing the text puts the
  value in its place and leaves the rest.
\<close>

theorem placeholders_filled:
  "\<forall>(k, pat) \<in> set placeholders. \<exists>before after.
     DICTIONARIES m l k = before @ pat @ after \<and>
     (\<forall>new. replaceFirst pat new (DICTIONARIES m l k) = before @ new @ after)"
  proof clarify
  fix k pat assume "(k, pat) \<in> set placeholders"
  then have "k \<in> set dictionary_keys" and ph: "map_of placeholders k = Some pat"
    using keys_of_placeholders by (auto simp: list_all_iff)
  then obtain v where v: "map_of (texts_of l) k = Some v" using all_keys [of l] by (metis list.set_map map_of_eq_None_iff not_None_eq)
  then have "complete_entry placeholders (k, v)" using texts_complete [of l] by (auto simp: list_all_iff dest: map_of_SomeD)
  then show "\<exists>before after. DICTIONARIES m l k = before @ pat @ after \<and>
      (\<forall>new. replaceFirst pat new (DICTIONARIES m l k) = before @ new @ after)"
    using replaceFirst_contains v ph by (simp add: complete_entry_def DICTIONARIES_def)
qed

end
