(* ===== verification/Window_Frame.thy ===== *)
theory Window_Frame
  imports Shell_Client Ipc_Channel Form_Elements Session_Properties
begin

text \<open>
  The frame around the views: the resize handles of \<^verbatim>\<open>WindowResizeBorders.tsx\<close>, the composition of
  \<^verbatim>\<open>AppShell.tsx\<close> and \<^verbatim>\<open>SplitPaneLayout.tsx\<close>, and, on the native side, the window commands of
  \<^verbatim>\<open>commands/window.rs\<close>, the tray of \<^verbatim>\<open>tray.rs\<close>, the server ping of \<^verbatim>\<open>commands/vpn.rs\<close> and what \<^verbatim>\<open>lib.rs\<close> does at
  the start and at the exit. What the window system answers is an argument.
\<close>

section \<open>Resize handles\<close>

record resize_box =
  rb_direction :: string
  rb_top :: "int option"
  rb_bottom :: "int option"
  rb_left :: "int option"
  rb_right :: "int option"
  rb_width :: "int option"
  rb_height :: "int option"
  rb_cursor :: string

definition box ::
  "string \<Rightarrow> int option \<Rightarrow> int option \<Rightarrow> int option \<Rightarrow> int option \<Rightarrow> int option \<Rightarrow> int option \<Rightarrow> string \<Rightarrow> resize_box" where
  "box d t b l r w h c = \<lparr>rb_direction = d, rb_top = t, rb_bottom = b, rb_left = l, rb_right = r,
     rb_width = w, rb_height = h, rb_cursor = c\<rparr>"

definition WindowResizeBorders :: "resize_box list" where
  "WindowResizeBorders =
     [box ''n'' (Some 0) None (Some 10) (Some 10) None (Some 6) ''ns-resize'',
      box ''s'' None (Some 0) (Some 10) (Some 10) None (Some 6) ''ns-resize'',
      box ''w'' (Some 10) (Some 10) (Some 0) None (Some 6) None ''ew-resize'',
      box ''e'' (Some 10) (Some 10) None (Some 0) (Some 6) None ''ew-resize'',
      box ''nw'' (Some 0) None (Some 0) None (Some 12) (Some 12) ''nwse-resize'',
      box ''ne'' (Some 0) None None (Some 0) (Some 12) (Some 12) ''nesw-resize'',
      box ''sw'' None (Some 0) (Some 0) None (Some 12) (Some 12) ''nesw-resize'',
      box ''se'' None (Some 0) None (Some 0) (Some 12) (Some 12) ''nwse-resize'']"

text \<open>
  Where an absolutely placed box lies in a window of the given extent, first included and last excluded; of
  boxes with the same level the later one is on top.
\<close>

definition extent :: "int \<Rightarrow> int option \<Rightarrow> int option \<Rightarrow> int option \<Rightarrow> int \<times> int" where
  "extent whole near far breadth = (case (near, far, breadth) of
     (Some a, Some b, _) \<Rightarrow> (a, whole - b)
   | (Some a, None, Some w) \<Rightarrow> (a, a + w)
   | (None, Some b, Some w) \<Rightarrow> (whole - b - w, whole - b)
   | _ \<Rightarrow> (0, 0))"

definition in_extent :: "int \<Rightarrow> int \<times> int \<Rightarrow> bool" where
  "in_extent x e \<longleftrightarrow> fst e \<le> x \<and> x < snd e"

definition covers :: "int \<Rightarrow> int \<Rightarrow> int \<Rightarrow> int \<Rightarrow> resize_box \<Rightarrow> bool" where
  "covers w h x y b \<longleftrightarrow> in_extent x (extent w (rb_left b) (rb_right b) (rb_width b)) \<and>
     in_extent y (extent h (rb_top b) (rb_bottom b) (rb_height b))"

definition handle_at :: "int \<Rightarrow> int \<Rightarrow> int \<Rightarrow> int \<Rightarrow> resize_box option" where
  "handle_at w h x y = List.find (covers w h x y) (rev WindowResizeBorders)"

definition press_at :: "int \<Rightarrow> int \<Rightarrow> int \<Rightarrow> int \<Rightarrow> nat \<Rightarrow> app \<Rightarrow> app" where
  "press_at w h x y button s = (case handle_at w h x y of
     None \<Rightarrow> s | Some b \<Rightarrow> resize_mouse_down button (rb_direction b) s)"

section \<open>The shell's layout\<close>

datatype shell_part =
  PartMiniWidget
| PartTitlebar
| PartSidebar int bool
| PartSplitter string
| PartWorkspace workspace
| PartMobileNav
| PartStatusBar
| PartSpotlight
| PartMfa "VpnProfile option"
| PartResizeBorders

definition SplitPaneLayout :: "bool \<Rightarrow> bool \<Rightarrow> pane \<Rightarrow> workspace \<Rightarrow> shell_part list" where
  "SplitPaneLayout mobile tablet p content =
     shown (\<not> mobile) [PartSidebar (currentWidth mobile tablet p) (isCompact mobile tablet p)] @
     shown (\<not> mobile \<and> \<not> tablet)
       [PartSplitter (if isCollapsed p then ''Double click to expand sidebar''
          else ''Drag to resize sidebar / Double click to collapse'')] @
     [PartWorkspace content]"

definition AppShell :: "bool \<Rightarrow> bool \<Rightarrow> pane \<Rightarrow> app \<Rightarrow> shell_part list" where
  "AppShell mobile tablet p s =
     (if isCompactWidget s then [PartMiniWidget]
      else [PartTitlebar] @ SplitPaneLayout mobile tablet p (renderActiveView s) @
        shown mobile [PartMobileNav] @ [PartStatusBar, PartSpotlight, PartMfa (mfaPromptProfile s), PartResizeBorders])"

text \<open>The class that marks the page while the window is resized, and the timer that removes it.\<close>

record resizing =
  is_resizing :: bool
  resizeTimer :: bool

definition handleResize :: "resizing \<Rightarrow> resizing" where
  "handleResize r = r\<lparr>is_resizing := True, resizeTimer := True\<rparr>"

definition resize_timeout :: "resizing \<Rightarrow> resizing" where
  "resize_timeout r = (if resizeTimer r then r\<lparr>is_resizing := False, resizeTimer := False\<rparr> else r)"

section \<open>Window commands\<close>

datatype ResizeDirection = North | South | East | West | NorthEast | NorthWest | SouthEast | SouthWest

datatype window_call =
  StartDragging | StartResizeDragging ResizeDirection | Minimize | Unminimize | Maximize | Unmaximize
| Hide | ShowWindow | SetFocus | SetSize int int | SetPosition int int

text \<open>What a command does: calls of the window system, an event for the application, or the end.\<close>

datatype shell_effect = Window window_call | EmitTrayToggle | SendDisconnect | ExitApp

type_synonym window_result = "shell_effect list \<times> (AppError + unit)"

definition call_window :: "(window_call \<Rightarrow> string option) \<Rightarrow> window_call \<Rightarrow> window_result" where
  "call_window err c = ([Window c], case err c of None \<Rightarrow> Inr () | Some e \<Rightarrow> Inl (TauriFailure e))"

definition resize_direction :: "string \<Rightarrow> ResizeDirection option" where
  "resize_direction d = map_of
     [(''n'', North), (''north'', North), (''top'', North), (''s'', South), (''south'', South), (''bottom'', South),
      (''e'', East), (''east'', East), (''right'', East), (''w'', West), (''west'', West), (''left'', West),
      (''ne'', NorthEast), (''northeast'', NorthEast), (''topright'', NorthEast),
      (''nw'', NorthWest), (''northwest'', NorthWest), (''topleft'', NorthWest),
      (''se'', SouthEast), (''southeast'', SouthEast), (''bottomright'', SouthEast),
      (''sw'', SouthWest), (''southwest'', SouthWest), (''bottomleft'', SouthWest)] (toLowerCase d)"

definition window_start_resize_dragging :: "(window_call \<Rightarrow> string option) \<Rightarrow> string \<Rightarrow> window_result" where
  "window_start_resize_dragging err direction = (case resize_direction direction of
     None \<Rightarrow> ([], Inl (TauriFailure (''Invalid resize direction: '' @ direction)))
   | Some d \<Rightarrow> call_window err (StartResizeDragging d))"

definition window_maximize :: "(window_call \<Rightarrow> string option) \<Rightarrow> window_result" where
  "window_maximize err = call_window err Maximize"

definition window_toggle_maximize :: "(window_call \<Rightarrow> string option) \<Rightarrow> string + bool \<Rightarrow> window_result" where
  "window_toggle_maximize err is_maximized = (case is_maximized of
     Inl e \<Rightarrow> ([], Inl (TauriFailure e))
   | Inr m \<Rightarrow> call_window err (if m then Unmaximize else Maximize))"

definition window_close :: "(window_call \<Rightarrow> string option) \<Rightarrow> bool option \<Rightarrow> window_result" where
  "window_close err minimize_to_tray =
     (if nullish minimize_to_tray True then call_window err Hide else ([SendDisconnect, ExitApp], Inr ()))"

definition window_show :: "(window_call \<Rightarrow> string option) \<Rightarrow> window_result" where
  "window_show err = (case call_window err ShowWindow of
     (es, Inl e) \<Rightarrow> (es, Inl e)
   | (es, Inr _) \<Rightarrow> (case call_window err SetFocus of (es', r) \<Rightarrow> (es @ es', r)))"

definition to_logical :: "rat \<Rightarrow> int \<times> int \<Rightarrow> rat \<times> rat" where
  "to_logical factor p = (of_int (fst p) / factor, of_int (snd p) / factor)"

definition window_get_geometry ::
  "string + int \<times> int \<Rightarrow> string + int \<times> int \<Rightarrow> string + rat \<Rightarrow> AppError + (rat \<times> rat) \<times> (rat \<times> rat) \<times> rat" where
  "window_get_geometry dims pos factor = (case (dims, pos, factor) of
     (Inl e, _, _) \<Rightarrow> Inl (TauriFailure e)
   | (Inr s, Inl e, _) \<Rightarrow> Inl (TauriFailure e)
   | (Inr s, Inr p, Inl e) \<Rightarrow> Inl (TauriFailure e)
   | (Inr s, Inr p, Inr f) \<Rightarrow> Inr (to_logical f p, to_logical f s, f))"

text \<open>The window commands among those that the shell registers.\<close>

definition window_command ::
  "(window_call \<Rightarrow> string option) \<Rightarrow> string + bool \<Rightarrow> ipc_command \<Rightarrow> window_result option" where
  "window_command err is_maximized c = (case c of
     WindowStartDragging \<Rightarrow> Some (call_window err StartDragging)
   | WindowStartResizeDragging d \<Rightarrow> Some (window_start_resize_dragging err d)
   | WindowMinimize \<Rightarrow> Some (call_window err Minimize)
   | WindowToggleMaximize \<Rightarrow> Some (window_toggle_maximize err is_maximized)
   | WindowClose m \<Rightarrow> Some (window_close err (Some m))
   | WindowShow \<Rightarrow> Some (window_show err)
   | WindowSetSize w h \<Rightarrow> Some (call_window err (SetSize w h))
   | WindowSetPosition x y \<Rightarrow> Some (call_window err (SetPosition x y))
   | _ \<Rightarrow> None)"

section \<open>Tray\<close>

datatype tray_image = TrayConnected | TrayConnecting | TrayDisconnected

definition tray_image_of :: "string \<Rightarrow> tray_image" where
  "tray_image_of state = (let l = toLowerCase state in
     if l = ''connected'' then TrayConnected
     else if l = ''connecting'' \<or> l = ''reconnecting'' then TrayConnecting else TrayDisconnected)"

text \<open>The two statics of the module and what the system shows.\<close>

record tray =
  LAST_TRAY_STATE :: "string option"
  TOGGLE_MENU_ITEM :: "(string \<times> bool) option"
  tray_icon :: "(tray_image \<times> string) option"

definition tray_absent :: tray where
  "tray_absent = \<lparr>LAST_TRAY_STATE = None, TOGGLE_MENU_ITEM = None, tray_icon = None\<rparr>"

definition update_tray_status :: "string \<Rightarrow> tray \<Rightarrow> tray" where
  "update_tray_status state t = (let state_lower = toLowerCase state in
     if LAST_TRAY_STATE t = Some state_lower then t
     else t\<lparr>LAST_TRAY_STATE := Some state_lower,
            TOGGLE_MENU_ITEM := map_option (\<lambda>_. tray_toggle_item state) (TOGGLE_MENU_ITEM t),
            tray_icon := map_option (\<lambda>_. (tray_image_of state, tray_tooltip state)) (tray_icon t)\<rparr>)"

text \<open>Whether the menu and the icon could be built is an argument.\<close>

definition setup_system_tray :: "string option \<Rightarrow> string option \<Rightarrow> tray \<Rightarrow> (string + unit) \<times> tray" where
  "setup_system_tray menu_error icon_error t = (case menu_error of
     Some e \<Rightarrow> (Inl e, t)
   | None \<Rightarrow> let t1 = t\<lparr>TOGGLE_MENU_ITEM := Some (''Connect'', True)\<rparr> in
       (case icon_error of
          Some e \<Rightarrow> (Inl e, t1)
        | None \<Rightarrow> (Inr (), t1\<lparr>tray_icon := Some (TrayDisconnected, ''VPNHub: Disconnected (Unprotected)'')\<rparr>)))"

definition on_menu_event :: "bool \<Rightarrow> string \<Rightarrow> shell_effect list" where
  "on_menu_event has_window item =
     (if item = ''tray_show'' then (if has_window then [Window Unminimize, Window ShowWindow, Window SetFocus] else [])
      else if item = ''tray_toggle'' then [EmitTrayToggle]
      else if item = ''tray_quit'' then [SendDisconnect, ExitApp]
      else [])"

section \<open>Start and exit\<close>

definition is_minimized_arg :: "string list \<Rightarrow> bool" where
  "is_minimized_arg args = list_ex (\<lambda>arg. arg \<in> {''--minimized'', ''-m'', ''--hidden'', ''--background''}) args"

text \<open>The event that the run loop reports when the application exits.\<close>

definition on_exit :: "shell_effect list \<Rightarrow> shell_effect list" where
  "on_exit es = es @ shown (ExitApp \<in> set es) [SendDisconnect]"

definition ascii_bytes :: "string \<Rightarrow> bytes" where
  "ascii_bytes s = map (\<lambda>c. of_nat (of_char c)) s"

definition disconnect_payload :: string where
  "disconnect_payload = ''{'' @ quoted ''action'' @ '':'' @ quoted ''disconnect'' @ '','' @ quoted ''params'' @ '':{'' @
     quoted ''force'' @ '':true}}''"

definition send_synchronous_disconnect :: "bool \<Rightarrow> bytes" where
  "send_synchronous_disconnect listening = (if listening
     then be_bytes32 (of_nat (length disconnect_payload)) @ ascii_bytes disconnect_payload else [])"

section \<open>Ping of a server\<close>

datatype probe = Reached nat | Refused nat | ProbeFailed string | ProbeTimeout

definition ping_server :: "probe \<Rightarrow> string + nat" where
  "ping_server p = (case p of
     Reached ms \<Rightarrow> Inr (max ms 1 mod 2 ^ 32)
   | Refused ms \<Rightarrow> Inr (max ms 1 mod 2 ^ 32)
   | ProbeFailed e \<Rightarrow> Inl e
   | ProbeTimeout \<Rightarrow> Inl ''Timeout'')"

section \<open>Resizing\<close>

datatype edge = TopEdge | BottomEdge | LeftEdge | RightEdge

primrec moved :: "ResizeDirection \<Rightarrow> edge set" where
  "moved North = {TopEdge}"
| "moved South = {BottomEdge}"
| "moved East = {RightEdge}"
| "moved West = {LeftEdge}"
| "moved NorthEast = {TopEdge, RightEdge}"
| "moved NorthWest = {TopEdge, LeftEdge}"
| "moved SouthEast = {BottomEdge, RightEdge}"
| "moved SouthWest = {BottomEdge, LeftEdge}"

text \<open>How far a point lies from an edge.\<close>

primrec distance :: "int \<Rightarrow> int \<Rightarrow> int \<Rightarrow> int \<Rightarrow> edge \<Rightarrow> int" where
  "distance w h x y TopEdge = y"
| "distance w h x y BottomEdge = h - 1 - y"
| "distance w h x y LeftEdge = x"
| "distance w h x y RightEdge = w - 1 - x"

lemma directions_known:
  "resize_direction ''n'' = Some North" "resize_direction ''s'' = Some South"
  "resize_direction ''e'' = Some East" "resize_direction ''w'' = Some West"
  "resize_direction ''ne'' = Some NorthEast" "resize_direction ''nw'' = Some NorthWest"
  "resize_direction ''se'' = Some SouthEast" "resize_direction ''sw'' = Some SouthWest"
  by code_simp+

lemmas handle_simps = handle_at_def WindowResizeBorders_def box_def covers_def in_extent_def extent_def

lemma handle_cases:
  assumes "24 \<le> w" "24 \<le> h" "0 \<le> x" "x < w" "0 \<le> y" "y < h"
  shows "map_option rb_direction (handle_at w h x y) =
    (if x < 12 \<and> y < 12 then Some ''nw'' else if w - 12 \<le> x \<and> y < 12 then Some ''ne''
     else if x < 12 \<and> h - 12 \<le> y then Some ''sw'' else if w - 12 \<le> x \<and> h - 12 \<le> y then Some ''se''
     else if y < 6 then Some ''n'' else if h - 6 \<le> y then Some ''s''
     else if x < 6 then Some ''w'' else if w - 6 \<le> x then Some ''e'' else None)"
  using assms by (auto simp: handle_simps)

text \<open>
  In a window of at least 24 by 24 pixels, pressing the left button within six pixels of an edge sends
  one command to the shell, which starts a resize that moves this edge; no resize moves an edge that is
  twelve or more pixels away.
\<close>

theorem pressed_edge_resized:
  assumes "tauri s" "24 \<le> w" "24 \<le> h" "0 \<le> x" "x < w" "0 \<le> y" "y < h" and "distance w h x y e < 6"
  shows "\<exists>dir d. outbox (press_at w h x y 0 s) = outbox s @ [WindowStartResizeDragging dir] \<and>
    window_command err m (WindowStartResizeDragging dir) = Some (call_window err (StartResizeDragging d)) \<and>
    e \<in> moved d \<and> (\<forall>e' \<in> moved d. distance w h x y e' < 12)"
proof -
  obtain b where b: "handle_at w h x y = Some b" and dir: "rb_direction b \<in> {''n'', ''s'', ''e'', ''w'', ''nw'', ''ne'', ''sw'', ''se''}"
    and near: "\<And>d. resize_direction (rb_direction b) = Some d \<Longrightarrow> e \<in> moved d \<and> (\<forall>e' \<in> moved d. distance w h x y e' < 12)"
    using handle_cases [OF assms(2-7)] assms(2-8)
    by (cases "handle_at w h x y"; cases e) (auto simp: directions_known split: if_splits)
  obtain d where d: "resize_direction (rb_direction b) = Some d" using dir by (auto simp: directions_known)
  show ?thesis using assms(1) b near [OF d] d
    by (intro exI [of _ "rb_direction b"] exI [of _ d])
      (simp add: press_at_def resize_mouse_down_def send_def startResizeDragging_def window_command_def
        window_start_resize_dragging_def)
qed

theorem pressed_edge_resized_witness:
  "\<exists>dir d. outbox (press_at 800 600 3 300 0 (sample_app [])) = outbox (sample_app []) @ [WindowStartResizeDragging dir] \<and>
     window_command (\<lambda>_. None) (Inr False) (WindowStartResizeDragging dir) =
       Some (call_window (\<lambda>_. None) (StartResizeDragging d)) \<and> LeftEdge \<in> moved d"
  using pressed_edge_resized [of "sample_app []" 800 600 3 300 LeftEdge "\<lambda>_. None" "Inr False"] by fastforce

text \<open>Nothing is sent from inside the border, and another button does nothing.\<close>

lemma press_elsewhere:
  assumes "24 \<le> w" "24 \<le> h" "12 \<le> x" "x < w - 12" "12 \<le> y" "y < h - 12"
  shows "press_at w h x y button s = s"
  using handle_cases [of w h x y] assms by (simp add: press_at_def)

lemma other_button: "button \<noteq> 0 \<Longrightarrow> press_at w h x y button s = s"
  by (simp add: press_at_def resize_mouse_down_def split: option.split)

section \<open>Layout\<close>

text \<open>Outside the mini widget there is exactly one navigation and one workspace, the one of the current tab.\<close>

lemma one_navigation:
  assumes "\<not> isCompactWidget s"
  shows "(PartMobileNav \<in> set (AppShell mobile tablet p s)) = mobile"
    and "(\<exists>w c. PartSidebar w c \<in> set (AppShell mobile tablet p s)) = (\<not> mobile)"
    and "PartWorkspace v \<in> set (AppShell mobile tablet p s) \<longleftrightarrow> v = renderActiveView s"
  using assms by (auto simp: AppShell_def SplitPaneLayout_def shown_def)

lemma resizing_marked:
  "is_resizing (resize_timeout (handleResize r)) = False"
  "handleResize (handleResize r) = handleResize r"
  "resizeTimer r \<Longrightarrow> is_resizing r \<Longrightarrow> resizeTimer (resize_timeout r) = is_resizing (resize_timeout r)"
  by (simp_all add: handleResize_def resize_timeout_def)

section \<open>Tray\<close>

definition shows_state :: "string \<Rightarrow> tray \<Rightarrow> bool" where
  "shows_state state t \<longleftrightarrow> TOGGLE_MENU_ITEM t = Some (tray_toggle_item state) \<and>
     tray_icon t = Some (tray_image_of state, tray_tooltip state)"

lemma update_shows:
  assumes "TOGGLE_MENU_ITEM t \<noteq> None" "tray_icon t \<noteq> None"
    and "\<And>state. LAST_TRAY_STATE t = Some (toLowerCase state) \<Longrightarrow> shows_state state t"
  shows "shows_state state (update_tray_status state t)"
    and "LAST_TRAY_STATE (update_tray_status state t) = Some (toLowerCase state)"
  using assms by (auto simp: update_tray_status_def shows_state_def Let_def)

lemma same_lower:
  "toLowerCase a = toLowerCase b \<Longrightarrow> shows_state a t = shows_state b t"
  by (simp add: shows_state_def tray_toggle_item_def tray_image_of_def tray_tooltip_def)

text \<open>
  Once the tray is set up, after any reports of the worker and of the application its menu item, image
  and tooltip are those of the last report, although a report that repeats the state is skipped.
\<close>

theorem tray_shows_last_report:
  assumes "setup_system_tray None None tray_absent = (r, t)"
  shows "shows_state state (fold update_tray_status (reports @ [state]) t)"
proof -
  have "(TOGGLE_MENU_ITEM u \<noteq> None \<and> tray_icon u \<noteq> None) \<and>
      (\<forall>st. LAST_TRAY_STATE u = Some (toLowerCase st) \<longrightarrow> shows_state st u)"
    if "u = fold update_tray_status reports t" for u
    using that
  proof (induction reports arbitrary: u rule: rev_induct)
    case Nil
    then show ?case using assms by (auto simp: setup_system_tray_def tray_absent_def)
  next
    case (snoc x xs)
    let ?v = "fold update_tray_status xs t"
    have v: "TOGGLE_MENU_ITEM ?v \<noteq> None" "tray_icon ?v \<noteq> None"
      "\<And>st. LAST_TRAY_STATE ?v = Some (toLowerCase st) \<Longrightarrow> shows_state st ?v"
      using snoc.IH [OF refl] by blast+
    have u: "u = update_tray_status x ?v" using snoc.prems by simp
    have shown_x: "shows_state x u" unfolding u by (rule update_shows(1) [OF v])
    have "LAST_TRAY_STATE u = Some (toLowerCase x)" unfolding u by (rule update_shows(2) [OF v])
    with shown_x have "shows_state st u" if "LAST_TRAY_STATE u = Some (toLowerCase st)" for st
      using that same_lower [of x st u] by simp
    then show ?case using shown_x by (simp add: shows_state_def)
  qed
  then show ?thesis using update_shows(1) [of "fold update_tray_status reports t" state] by simp
qed

theorem tray_shows_last_report_witness:
  "shows_state ''CONNECTED'' (fold update_tray_status [''connecting'', ''Connected'', ''CONNECTED'']
     (snd (setup_system_tray None None tray_absent)))"
  using tray_shows_last_report [of "fst (setup_system_tray None None tray_absent)"
    "snd (setup_system_tray None None tray_absent)" "''CONNECTED''" "[''connecting'', ''Connected'']"] by simp

section \<open>Exit\<close>

lemma disconnect_payload_length: "length disconnect_payload = 47"
  by (simp add: disconnect_payload_def quoted_def)

text \<open>
  What the shell writes at the exit is one complete frame: however the stream is cut, the daemon reads
  exactly one message, whose text is the payload.
\<close>

theorem exit_frame_received:
  assumes "from_slice (ascii_bytes disconnect_payload) = Inr m"
    and "concat chunks = send_synchronous_disconnect True"
  shows "receive (decode from_slice MAX_IPC_FRAME_SIZE) chunks = ([m], [])"
proof -
  let ?b = "ascii_bytes disconnect_payload" and ?to_vec = "\<lambda>_ :: 'a. Inr (ascii_bytes disconnect_payload)"
  have len: "length ?b = 47" by (simp add: ascii_bytes_def disconnect_payload_length)
  have fr: "framing (frame ?to_vec) (decode from_slice MAX_IPC_FRAME_SIZE) (transmissible ?to_vec from_slice MAX_IPC_FRAME_SIZE)"
    by (rule codec_framing) (simp add: MAX_IPC_FRAME_SIZE_def)
  have "list_all (transmissible ?to_vec from_slice MAX_IPC_FRAME_SIZE) [m]"
    using assms(1) len by (simp add: transmissible_def MAX_IPC_FRAME_SIZE_def)
  moreover have "concat chunks = concat (map (frame ?to_vec) [m])"
    using assms(2) by (simp add: frame_def send_synchronous_disconnect_def ascii_bytes_def)
  ultimately show ?thesis by (rule framing.receive_chunks [OF fr])
qed

text \<open>Quitting from the tray and closing without the tray send the message twice, hiding never.\<close>

lemma exit_messages:
  "on_exit (on_menu_event has_window ''tray_quit'') = [SendDisconnect, ExitApp, SendDisconnect]"
  "on_exit (fst (window_close err (Some False))) = [SendDisconnect, ExitApp, SendDisconnect]"
  "SendDisconnect \<notin> set (on_exit (fst (window_close err (Some True))))"
  by (simp_all add: on_exit_def on_menu_event_def window_close_def call_window_def shown_def)

end
