(* ===== verification/Ovpn_Replay.thy ===== *)
theory Ovpn_Replay
  imports "HOL-Library.Word"
begin

unbundle bit_operations_syntax

text \<open>
  The replay filter of the OpenVPN data channel, \<^verbatim>\<open>ovpn-crypto/src/anti_replay.rs\<close>: a window of 128 sequence
  numbers below the highest one accepted, kept as two 64-bit masks. It is compared with the set of the
  numbers accepted so far.
\<close>

section \<open>Window\<close>

datatype CryptoError =
  AeadEncryption string
| AeadAuthenticationFailed
| AntiReplayRejection "64 word" "64 word"
| InvalidKeySize nat nat
| InvalidNonceSize nat nat
| InvalidTagSize nat nat
| KdfError string
| PostQuantumKemError string
| Pkcs11Error string
| KeyringError string
| InvalidKey string
| DecryptionFailed string
| InvalidSerialization string

record AntiReplayWindow =
  max_seq :: "64 word"
  bitmap :: "64 word \<times> 64 word"
  accepted_count :: "64 word"
  rejected_count :: "64 word"
  initialized :: bool

definition WINDOW_SIZE :: "64 word" where "WINDOW_SIZE = 128"

definition window_new :: AntiReplayWindow where
  "window_new = \<lparr>max_seq = 0, bitmap = (0, 0), accepted_count = 0, rejected_count = 0, initialized = False\<rparr>"

definition window_reset :: "AntiReplayWindow \<Rightarrow> AntiReplayWindow" where
  "window_reset w = w\<lparr>max_seq := 0, bitmap := (0, 0), accepted_count := 0, rejected_count := 0, initialized := False\<rparr>"

definition saturating_sub :: "64 word \<Rightarrow> 64 word \<Rightarrow> 64 word" where
  "saturating_sub a b = (if a < b then 0 else a - b)"

definition rejection :: "AntiReplayWindow \<Rightarrow> 64 word \<Rightarrow> CryptoError" where
  "rejection w seq = AntiReplayRejection seq (saturating_sub (max_seq w) (WINDOW_SIZE - 1))"

text \<open>The mask at index 0 or 1 of the array, and its update.\<close>

definition mask_at :: "64 word \<times> 64 word \<Rightarrow> 64 word \<Rightarrow> 64 word" where
  "mask_at b word = (if word = 0 then fst b else snd b)"

definition mask_update :: "64 word \<times> 64 word \<Rightarrow> 64 word \<Rightarrow> 64 word \<Rightarrow> 64 word \<times> 64 word" where
  "mask_update b word m = (if word = 0 then (fst b OR m, snd b) else (fst b, snd b OR m))"

definition check_only :: "AntiReplayWindow \<Rightarrow> 64 word \<Rightarrow> CryptoError + unit" where
  "check_only w seq =
     (if \<not> initialized w then Inr ()
      else if seq > max_seq w then Inr ()
      else let diff = max_seq w - seq in
        if diff \<ge> WINDOW_SIZE then Inl (rejection w seq)
        else let word = diff div 64; pos = diff mod 64 in
          if mask_at (bitmap w) word AND push_bit (unat pos) 1 \<noteq> 0 then Inl (rejection w seq)
          else Inr ())"

definition advance :: "64 word \<Rightarrow> 64 word \<times> 64 word \<Rightarrow> 64 word \<times> 64 word" where
  "advance diff b =
     (if diff \<ge> WINDOW_SIZE then (1, 0)
      else if diff \<ge> 64 then (1, push_bit (unat (diff - 64)) (fst b))
      else let carry = drop_bit (unat (64 - diff)) (fst b)
           in (push_bit (unat diff) (fst b) OR 1, push_bit (unat diff) (snd b) OR carry))"

definition check_and_update :: "AntiReplayWindow \<Rightarrow> 64 word \<Rightarrow> (CryptoError + unit) \<times> AntiReplayWindow" where
  "check_and_update w seq =
     (if \<not> initialized w
      then (Inr (), w\<lparr>max_seq := seq, bitmap := (1, 0), initialized := True, accepted_count := accepted_count w + 1\<rparr>)
      else if seq > max_seq w
      then (Inr (), w\<lparr>bitmap := advance (seq - max_seq w) (bitmap w), max_seq := seq, accepted_count := accepted_count w + 1\<rparr>)
      else let diff = max_seq w - seq in
        if diff \<ge> WINDOW_SIZE then (Inl (rejection w seq), w\<lparr>rejected_count := rejected_count w + 1\<rparr>)
        else let word = diff div 64; pos = diff mod 64; mask = push_bit (unat pos) 1 in
          if mask_at (bitmap w) word AND mask \<noteq> 0
          then (Inl (rejection w seq), w\<lparr>rejected_count := rejected_count w + 1\<rparr>)
          else (Inr (), w\<lparr>bitmap := mask_update (bitmap w) word mask, accepted_count := accepted_count w + 1\<rparr>))"

fun receive_all :: "64 word list \<Rightarrow> AntiReplayWindow \<Rightarrow> bool list \<times> AntiReplayWindow" where
  "receive_all [] w = ([], w)"
| "receive_all (s # ss) w = (case check_and_update w s of (r, w1) \<Rightarrow>
     (case receive_all ss w1 of (rs, w2) \<Rightarrow> ((r = Inr ()) # rs, w2)))"

section \<open>Reference\<close>

text \<open>What the filter stands for: numbers not seen before and less than 128 below the highest one.\<close>

definition acceptable :: "64 word set \<Rightarrow> 64 word \<Rightarrow> bool" where
  "acceptable seen s \<longleftrightarrow> s \<notin> seen \<and> (\<forall>m \<in> seen. unat m < unat s + 128)"

fun filter_reference :: "64 word list \<Rightarrow> 64 word set \<Rightarrow> bool list" where
  "filter_reference [] seen = []"
| "filter_reference (s # ss) seen =
     acceptable seen s # filter_reference ss (if acceptable seen s then insert s seen else seen)"

section \<open>Masks\<close>

text \<open>Whether the number \<open>i\<close> below the highest one is marked.\<close>

definition marked :: "64 word \<times> 64 word \<Rightarrow> nat \<Rightarrow> bool" where
  "marked b i \<longleftrightarrow> (if i < 64 then bit (fst b) i else bit (snd b) (i - 64))"

lemma and_single_bit: "(w AND push_bit n 1 \<noteq> 0) = bit (w :: 64 word) n"
  by (metis and_exp_eq_0_iff_not_bit push_bit_of_1)

lemma unat_64: "unat (d div 64 :: 64 word) = unat d div 64" "unat (d mod 64 :: 64 word) = unat d mod 64"
  by (simp_all add: unat_div unat_mod)

lemma first_mask: "(d div 64 = (0 :: 64 word)) = (unat d < 64)"
  by (simp add: word_unat_eq_iff unat_64 div_eq_0_iff)

lemma mask_bit:
  assumes "d < (128 :: 64 word)"
  shows "(mask_at b (d div 64) AND push_bit (unat (d mod 64)) 1 \<noteq> 0) = marked b (unat d)"
proof -
  have "unat d < 128" using assms by (simp add: word_less_nat_alt)
  then show ?thesis unfolding and_single_bit mask_at_def marked_def first_mask unat_64
    by (cases "unat d < 64") (auto simp: mod_if)
qed

lemma marked_update:
  assumes "d < (128 :: 64 word)" and "i < 128"
  shows "marked (mask_update b (d div 64) (push_bit (unat (d mod 64)) 1)) i = (i = unat d \<or> marked b i)"
proof -
  have "unat d < 128" using assms by (simp add: word_less_nat_alt)
  then show ?thesis using assms(2) unfolding mask_update_def marked_def first_mask unat_64
    by (cases "unat d < 64") (auto simp: bit_simps mod_if split: if_splits)
qed

lemma no_bit_beyond: "64 \<le> n \<Longrightarrow> \<not> bit (w :: 64 word) n"
  using bit_imp_le_length [of w n] by auto

lemma marked_advance:
  assumes "0 < d" and "i < 128"
  shows "marked (advance d b) i = (i = 0 \<or> (unat d \<le> i \<and> marked b (i - unat d)))"
proof -
  have d: "0 < unat d" using assms(1) by (simp add: word_less_nat_alt)
  consider "128 \<le> unat d" | "64 \<le> unat d" "unat d < 128" | "unat d < 64" by linarith
  then show ?thesis
  proof cases
    case 1
    then show ?thesis using assms(2) by (auto simp: advance_def WINDOW_SIZE_def marked_def word_le_nat_alt bit_simps)
  next
    case 2
    then have "unat (d - 64) = unat d - 64" by (simp add: unat_sub word_le_nat_alt)
    with 2 show ?thesis using assms(2)
      by (auto simp: advance_def WINDOW_SIZE_def marked_def word_le_nat_alt bit_simps)
  next
    case 3
    then have "unat (64 - d) = 64 - unat d" by (simp add: unat_sub word_le_nat_alt)
    with 3 d show ?thesis using assms(2)
      by (auto simp: advance_def WINDOW_SIZE_def marked_def word_le_nat_alt bit_simps Let_def no_bit_beyond add.commute [of 64 "unat d"])
  qed
qed

section \<open>Refinement\<close>

text \<open>
  A filter of sequence numbers that stands for a set of accepted numbers: whether it accepts is decided by the set,
  and it accepts nothing that is in the set.
\<close>

locale replay_filter =
  fixes fresh :: 'w and receive :: "'w \<Rightarrow> 's \<Rightarrow> bool \<times> 'w" and represents :: "'w \<Rightarrow> 's set \<Rightarrow> bool"
    and ok :: "'s set \<Rightarrow> 's \<Rightarrow> bool"
  assumes fresh_represents: "represents fresh {}"
    and receive_decides: "represents w seen \<Longrightarrow> fst (receive w s) = ok seen s"
    and receive_represents:
      "represents w seen \<Longrightarrow> represents (snd (receive w s)) (if ok seen s then insert s seen else seen)"
    and ok_unseen: "ok seen s \<Longrightarrow> s \<notin> seen"
begin

fun run :: "'s list \<Rightarrow> 'w \<Rightarrow> bool list \<times> 'w" where
  "run [] w = ([], w)"
| "run (s # ss) w = (let r = receive w s; rs = run ss (snd r) in (fst r # fst rs, snd rs))"

fun decisions :: "'s list \<Rightarrow> 's set \<Rightarrow> bool list" where
  "decisions [] seen = []"
| "decisions (s # ss) seen = ok seen s # decisions ss (if ok seen s then insert s seen else seen)"

definition accepted :: "'s list \<Rightarrow> bool list \<Rightarrow> 's list" where
  "accepted ss rs = map fst (filter snd (zip ss rs))"

lemma run_decisions: "represents w seen \<Longrightarrow> fst (run ss w) = decisions ss seen"
proof (induction ss arbitrary: w seen)
  case (Cons s ss)
  then show ?case using Cons.IH [OF receive_represents [OF Cons.prems, of s]] by (simp add: Let_def receive_decides)
qed simp

lemma accepted_once: "distinct (accepted ss (decisions ss seen)) \<and> set (accepted ss (decisions ss seen)) \<inter> seen = {}"
proof (induction ss arbitrary: seen)
  case Nil
  then show ?case by (simp add: accepted_def)
next
  case (Cons s ss)
  show ?case
    using Cons.IH [of seen] Cons.IH [of "insert s seen"] ok_unseen [of seen s] by (auto simp: accepted_def)
qed

lemma no_replay: "distinct (accepted ss (fst (run ss fresh)))"
  using run_decisions [OF fresh_represents] accepted_once by simp

end

definition window_represents :: "AntiReplayWindow \<Rightarrow> 64 word set \<Rightarrow> bool" where
  "window_represents w seen \<longleftrightarrow> (if initialized w
     then max_seq w \<in> seen \<and> (\<forall>m \<in> seen. m \<le> max_seq w) \<and>
       (\<forall>s. s \<le> max_seq w \<and> max_seq w - s < 128 \<longrightarrow> marked (bitmap w) (unat (max_seq w - s)) = (s \<in> seen))
     else seen = {})"

definition window_receive :: "AntiReplayWindow \<Rightarrow> 64 word \<Rightarrow> bool \<times> AntiReplayWindow" where
  "window_receive w s = (case check_and_update w s of (r, w') \<Rightarrow> (r = Inr (), w'))"

lemma unat_diff: "s \<le> m \<Longrightarrow> unat (m - s :: 64 word) = unat m - unat s"
  by (simp add: unat_sub word_le_nat_alt)

lemma near_iff: "s \<le> m \<Longrightarrow> (m - s < (128 :: 64 word)) = (unat m < unat s + 128)"
  using unat_diff [of s m] by (auto simp: word_less_nat_alt word_le_nat_alt)

lemma acceptable_within:
  assumes "window_represents w seen" and "initialized w"
  shows "acceptable seen s \<longleftrightarrow> s \<notin> seen \<and> (max_seq w < s \<or> max_seq w - s < 128)"
proof -
  have top: "max_seq w \<in> seen" "\<And>m. m \<in> seen \<Longrightarrow> unat m \<le> unat (max_seq w)"
    using assms by (auto simp: window_represents_def word_le_nat_alt)
  have "(\<forall>m \<in> seen. unat m < unat s + 128) = (unat (max_seq w) < unat s + 128)"
    using top by (meson le_less_trans)
  moreover have "unat (max_seq w) < unat s + 128" if "max_seq w < s" using that by (simp add: word_less_nat_alt)
  ultimately show ?thesis using near_iff [of s "max_seq w"]
    by (cases "max_seq w < s") (auto simp: acceptable_def not_less)
qed

lemma window_decides:
  assumes "window_represents w seen"
  shows "fst (window_receive w s) = acceptable seen s"
proof (cases "initialized w")
  case False
  with assms show ?thesis
    by (simp add: window_represents_def window_receive_def check_and_update_def acceptable_def)
next
  case True
  show ?thesis
  proof (cases "max_seq w < s")
    case newer: True
    have "s \<notin> seen" using assms True newer by (auto simp: window_represents_def)
    with newer True show ?thesis
      by (simp add: acceptable_within [OF assms True] window_receive_def check_and_update_def)
  next
    case older: False
    then have le: "s \<le> max_seq w" by simp
    show ?thesis
    proof (cases "max_seq w - s < 128")
      case near: True
      have "marked (bitmap w) (unat (max_seq w - s)) = (s \<in> seen)"
        using assms True le near by (simp add: window_represents_def)
      then show ?thesis using near older True mask_bit [OF near, of "bitmap w"]
        by (simp add: acceptable_within [OF assms True] window_receive_def check_and_update_def WINDOW_SIZE_def Let_def
            linorder_not_less [symmetric] del: push_bit_of_1 linorder_not_less)
    next
      case False
      with older True show ?thesis
        by (auto simp: acceptable_within [OF assms True] window_receive_def check_and_update_def WINDOW_SIZE_def
            Let_def not_less)
    qed
  qed
qed

lemma window_keeps_newer:
  assumes "window_represents w seen" and "initialized w" and "max_seq w < s"
  shows "window_represents (snd (window_receive w s)) (insert s seen)"
proof -
  let ?m = "max_seq w"
  have marks: "marked (advance (s - ?m) (bitmap w)) (unat (s - x)) = (x \<in> insert s seen)"
    if x: "x \<le> s" "s - x < 128" for x
  proof -
    have d: "0 < s - ?m" "unat (s - ?m) = unat s - unat ?m" "unat (s - x) = unat s - unat x" "unat (s - x) < 128"
      using x unat_diff [OF less_imp_le [OF assms(3)]] unat_diff [OF x(1)] assms(3)
      by (simp_all add: word_less_nat_alt)
    have adv: "marked (advance (s - ?m) (bitmap w)) (unat (s - x)) =
        (unat s = unat x \<or> (unat s - unat ?m \<le> unat s - unat x \<and>
         marked (bitmap w) (unat s - unat x - (unat s - unat ?m))))"
      using marked_advance [OF d(1,4), of "bitmap w"] d x(1) by (auto simp: word_le_nat_alt)
    show ?thesis
    proof (cases "x \<le> ?m")
      case True
      then have le: "unat x \<le> unat ?m" "unat ?m < unat s" using assms(3) by (simp_all add: word_le_nat_alt word_less_nat_alt)
      then have "?m - x < 128" using near_iff [OF True] d(3,4) by linarith
      then have "marked (bitmap w) (unat (?m - x)) = (x \<in> seen)"
        using assms(1,2) True by (simp add: window_represents_def)
      moreover have "unat s - unat x - (unat s - unat ?m) = unat (?m - x)" using le unat_diff [OF True] by linarith
      ultimately show ?thesis using adv le assms(3) True by auto
    next
      case False
      then have "x \<notin> seen" using assms(1,2) by (auto simp: window_represents_def)
      moreover have "unat ?m < unat x" using False by (simp add: word_less_nat_alt not_le)
      ultimately show ?thesis using adv x(1) by (auto simp: word_le_nat_alt word_unat_eq_iff)
    qed
  qed
  have "\<forall>m \<in> insert s seen. m \<le> s" using assms by (auto simp: window_represents_def)
  then show ?thesis using assms(2,3) marks by (simp add: window_represents_def window_receive_def check_and_update_def)
qed

lemma window_keeps_older:
  assumes "window_represents w seen" and "initialized w" and "\<not> max_seq w < s"
  shows "window_represents (snd (window_receive w s)) (if acceptable seen s then insert s seen else seen)"
proof (cases "acceptable seen s")
  case True
  then have near: "max_seq w - s < 128" and new: "s \<notin> seen" and le: "s \<le> max_seq w"
    using acceptable_within [OF assms(1,2)] assms(3) by auto
  have "fst (window_receive w s)" using True window_decides [OF assms(1)] by simp
  then have w': "snd (window_receive w s) = w\<lparr>bitmap := mask_update (bitmap w) ((max_seq w - s) div 64)
      (push_bit (unat ((max_seq w - s) mod 64)) 1), accepted_count := accepted_count w + 1\<rparr>"
    using assms(2,3) by (auto simp: window_receive_def check_and_update_def Let_def split: if_splits)
  have "marked (mask_update (bitmap w) ((max_seq w - s) div 64) (push_bit (unat ((max_seq w - s) mod 64)) 1))
      (unat (max_seq w - x)) = (x \<in> insert s seen)" if x: "x \<le> max_seq w" "max_seq w - x < 128" for x
  proof -
    have "unat (max_seq w - x) < 128" using x(2) by (simp add: word_less_nat_alt)
    moreover have "(unat (max_seq w - x) = unat (max_seq w - s)) = (x = s)"
      using unat_diff [OF x(1)] unat_diff [OF le] x(1) le by (auto simp: word_le_nat_alt word_unat_eq_iff)
    ultimately show ?thesis using marked_update [OF near] assms(1,2) x by (auto simp: window_represents_def)
  qed
  then show ?thesis using True w' assms(1,2) le by (auto simp: window_represents_def)
next
  case False
  then have "\<not> fst (window_receive w s)" using window_decides [OF assms(1)] by simp
  then show ?thesis using False assms
    by (auto simp: window_receive_def check_and_update_def window_represents_def Let_def split: if_splits)
qed

lemma window_keeps:
  assumes "window_represents w seen"
  shows "window_represents (snd (window_receive w s)) (if acceptable seen s then insert s seen else seen)"
proof (cases "initialized w")
  case False
  then show ?thesis using assms
    by (auto simp: window_represents_def window_receive_def check_and_update_def acceptable_def marked_def bit_simps
        unat_eq_zero)
next
  case True
  have "acceptable seen s" if "max_seq w < s"
    using that acceptable_within [OF assms True] assms True by (auto simp: window_represents_def)
  then show ?thesis
    using window_keeps_newer [OF assms True] window_keeps_older [OF assms True] by (cases "max_seq w < s") auto
qed

interpretation window: replay_filter window_new window_receive window_represents acceptable
proof unfold_locales
  show "window_represents window_new {}" by (simp add: window_represents_def window_new_def)
qed (rule window_decides window_keeps | assumption | simp add: acceptable_def)+

lemma receive_all_run: "receive_all ss w = window.run ss w"
  by (induction ss arbitrary: w) (auto simp: window_receive_def Let_def split: prod.split)

lemma filter_reference_decisions: "filter_reference ss seen = window.decisions ss seen"
  by (induction ss arbitrary: seen) auto

lemma check_only_agrees: "(check_only w s = Inr ()) = (fst (check_and_update w s) = Inr ())"
  by (auto simp: check_only_def check_and_update_def Let_def)

text \<open>
  Property C24. Whatever the order in which packets arrive, a fresh window accepts exactly those whose number it has
  not accepted before and that is less than 128 below the highest one accepted; so no number is
  accepted twice, and checking without updating gives the same answer as updating.
\<close>

theorem window_refines_set:
  "fst (receive_all ss window_new) = filter_reference ss {} \<and>
   distinct (map fst (filter snd (zip ss (fst (receive_all ss window_new))))) \<and>
   (check_only w s = Inr ()) = (fst (check_and_update w s) = Inr ())"
proof (intro conjI)
  show "fst (receive_all ss window_new) = filter_reference ss {}"
    unfolding receive_all_run filter_reference_decisions by (rule window.run_decisions [OF window.fresh_represents])
  show "distinct (map fst (filter snd (zip ss (fst (receive_all ss window_new)))))"
    using window.no_replay [of ss] by (simp add: receive_all_run window.accepted_def)
qed (rule check_only_agrees)

end
