(* ===== verification/Ovpn_Wire.thy ===== *)
theory Ovpn_Wire
  imports Ovpn_Replay Ipc_Channel
begin

text \<open>
  Packets of the OpenVPN protocol as bytes: \<^verbatim>\<open>ovpn-protocol/src/opcode.rs\<close> and \<^verbatim>\<open>frame.rs\<close>. Reading a number from
  a slice is total here; the source tests the length before every read.
\<close>

section \<open>Opcodes\<close>

datatype ProtocolError =
  PacketTooShort nat
| UnknownOpcode "8 word"
| SessionIdMismatch "64 word" "64 word"
| InvalidFraming string
| CryptoFailure CryptoError
| OvpnConfigError string
| TlsError string
| TlsIo string
| ReliableWindowOverflow
| HandshakeTimeout nat
| AuthenticationFailed string
| InvalidStateTransition string string
| ServerExit string

datatype Opcode =
  ControlHardResetClientV1 | ControlHardResetServerV1 | ControlSoftResetV1 | ControlV1 | AckV1 | DataV1
| ControlHardResetClientV2 | ControlHardResetServerV2 | DataV2 | ControlHardResetClientV3 | ControlWkcV1

primrec opcode_value :: "Opcode \<Rightarrow> 8 word" where
  "opcode_value ControlHardResetClientV1 = 1"
| "opcode_value ControlHardResetServerV1 = 2"
| "opcode_value ControlSoftResetV1 = 3"
| "opcode_value ControlV1 = 4"
| "opcode_value AckV1 = 5"
| "opcode_value DataV1 = 6"
| "opcode_value ControlHardResetClientV2 = 7"
| "opcode_value ControlHardResetServerV2 = 8"
| "opcode_value DataV2 = 9"
| "opcode_value ControlHardResetClientV3 = 10"
| "opcode_value ControlWkcV1 = 11"

definition from_u8 :: "8 word \<Rightarrow> ProtocolError + Opcode" where
  "from_u8 v =
     (if v = 1 then Inr ControlHardResetClientV1 else if v = 2 then Inr ControlHardResetServerV1
      else if v = 3 then Inr ControlSoftResetV1 else if v = 4 then Inr ControlV1 else if v = 5 then Inr AckV1
      else if v = 6 then Inr DataV1 else if v = 7 then Inr ControlHardResetClientV2
      else if v = 8 then Inr ControlHardResetServerV2 else if v = 9 then Inr DataV2
      else if v = 10 then Inr ControlHardResetClientV3 else if v = 11 then Inr ControlWkcV1
      else Inl (UnknownOpcode v))"

definition is_data :: "Opcode \<Rightarrow> bool" where
  "is_data op \<longleftrightarrow> op = DataV1 \<or> op = DataV2"

definition is_control :: "Opcode \<Rightarrow> bool" where
  "is_control op \<longleftrightarrow> \<not> is_data op"

definition is_reliable :: "Opcode \<Rightarrow> bool" where
  "is_reliable op \<longleftrightarrow> op \<in> {ControlHardResetClientV1, ControlHardResetServerV1, ControlSoftResetV1, ControlV1,
     ControlHardResetClientV2, ControlHardResetServerV2, ControlHardResetClientV3, ControlWkcV1}"

primrec opcode_name :: "Opcode \<Rightarrow> string" where
  "opcode_name ControlHardResetClientV1 = ''P_CONTROL_HARD_RESET_CLIENT_V1''"
| "opcode_name ControlHardResetServerV1 = ''P_CONTROL_HARD_RESET_SERVER_V1''"
| "opcode_name ControlSoftResetV1 = ''P_CONTROL_SOFT_RESET_V1''"
| "opcode_name ControlV1 = ''P_CONTROL_V1''"
| "opcode_name AckV1 = ''P_ACK_V1''"
| "opcode_name DataV1 = ''P_DATA_V1''"
| "opcode_name ControlHardResetClientV2 = ''P_CONTROL_HARD_RESET_CLIENT_V2''"
| "opcode_name ControlHardResetServerV2 = ''P_CONTROL_HARD_RESET_SERVER_V2''"
| "opcode_name DataV2 = ''P_DATA_V2''"
| "opcode_name ControlHardResetClientV3 = ''P_CONTROL_HARD_RESET_CLIENT_V3''"
| "opcode_name ControlWkcV1 = ''P_CONTROL_WKC_V1''"

definition encode_header_byte :: "Opcode \<Rightarrow> 8 word \<Rightarrow> 8 word" where
  "encode_header_byte op key_id = push_bit 3 (opcode_value op) OR (key_id AND 0x07)"

definition parse_header_byte :: "8 word \<Rightarrow> ProtocolError + Opcode \<times> 8 word" where
  "parse_header_byte b = (case from_u8 (drop_bit 3 b) of Inl e \<Rightarrow> Inl e | Inr op \<Rightarrow> Inr (op, b AND 0x07))"

section \<open>Numbers in slices\<close>

definition be_bytes64 :: "64 word \<Rightarrow> bytes" where
  "be_bytes64 w = map (\<lambda>i. ucast (drop_bit i w)) [56, 48, 40, 32, 24, 16, 8, 0]"

definition get_u32 :: "bytes \<Rightarrow> 32 word \<times> bytes" where
  "get_u32 src = (of_nat (be_value (take 4 src)), drop 4 src)"

definition get_u64 :: "bytes \<Rightarrow> 64 word \<times> bytes" where
  "get_u64 src = (of_nat (be_value (take 8 src)), drop 8 src)"

fun get_u32s :: "nat \<Rightarrow> bytes \<Rightarrow> 32 word list \<times> bytes" where
  "get_u32s 0 src = ([], src)"
| "get_u32s (Suc n) src = (case get_u32 src of (w, src1) \<Rightarrow> (case get_u32s n src1 of (ws, r) \<Rightarrow> (w # ws, r)))"

section \<open>Control packets\<close>

record ControlPacket =
  cp_opcode :: Opcode
  cp_key_id :: "8 word"
  cp_session_id :: "64 word"
  ack_array :: "32 word list"
  cp_remote_session_id :: "64 word option"
  cp_packet_id :: "32 word option"
  cp_payload :: bytes

definition encode_body :: "ControlPacket \<Rightarrow> bytes" where
  "encode_body p = (let ack_len = (of_nat (length (ack_array p)) :: 8 word) in
     [ack_len] @ concat (map be_bytes32 (ack_array p)) @
     (if ack_len > 0 then be_bytes64 (case cp_remote_session_id p of None \<Rightarrow> 0 | Some r \<Rightarrow> r) else []) @
     (case cp_packet_id p of None \<Rightarrow> [] | Some pid \<Rightarrow> be_bytes32 pid) @ cp_payload p)"

definition encode_control :: "ControlPacket \<Rightarrow> bytes" where
  "encode_control p =
     [encode_header_byte (cp_opcode p) (cp_key_id p)] @ be_bytes64 (cp_session_id p) @ encode_body p"

definition decode_body ::
  "Opcode \<Rightarrow> 8 word \<Rightarrow> 64 word \<Rightarrow> bytes \<Rightarrow> ProtocolError + ControlPacket" where
  "decode_body op key_id session_id src = (case src of
     [] \<Rightarrow> Inl (PacketTooShort 9)
   | l # src1 \<Rightarrow>
       let ack_len = unat l in
       if length src1 < ack_len * 4 then Inl (InvalidFraming ''Not enough bytes for ACK array'')
       else case get_u32s ack_len src1 of (acks, src2) \<Rightarrow>
         if ack_len > 0 \<and> length src2 < 8 then Inl (InvalidFraming ''Missing remote session ID in ACK'')
         else case (if ack_len > 0 then map_prod Some id (get_u64 src2) else (None, src2)) of (remote, src3) \<Rightarrow>
           if is_reliable op \<and> length src3 < 4 then Inl (InvalidFraming ''Missing packet ID in reliable packet'')
           else case (if is_reliable op then map_prod Some id (get_u32 src3) else (None, src3)) of (pid, src4) \<Rightarrow>
             Inr \<lparr>cp_opcode = op, cp_key_id = key_id, cp_session_id = session_id, ack_array = acks,
               cp_remote_session_id = remote, cp_packet_id = pid, cp_payload = src4\<rparr>)"

definition decode_control :: "bytes \<Rightarrow> ProtocolError + ControlPacket" where
  "decode_control src =
     (if length src < 9 then Inl (PacketTooShort (length src))
      else case parse_header_byte (hd src) of
        Inl e \<Rightarrow> Inl e
      | Inr (op, key_id) \<Rightarrow> (case get_u64 (tl src) of (session_id, rest) \<Rightarrow> decode_body op key_id session_id rest))"

section \<open>Data packets\<close>

definition encode_header :: "Opcode \<Rightarrow> 8 word \<Rightarrow> 32 word option \<Rightarrow> 32 word \<Rightarrow> bytes" where
  "encode_header op key_id peer_id packet_id =
     [encode_header_byte op key_id] @
     (if op = DataV2
      then let pid = (case peer_id of None \<Rightarrow> 0 | Some p \<Rightarrow> p)
           in [ucast (drop_bit 16 pid AND 0xFF), ucast (drop_bit 8 pid AND 0xFF), ucast (pid AND 0xFF)]
      else []) @
     be_bytes32 packet_id"

definition decode_data :: "bytes \<Rightarrow> ProtocolError + Opcode \<times> 8 word \<times> 32 word option \<times> 32 word \<times> bytes" where
  "decode_data src = (case src of
     [] \<Rightarrow> Inl (PacketTooShort 0)
   | h # src1 \<Rightarrow> (case parse_header_byte h of
       Inl e \<Rightarrow> Inl e
     | Inr (op, key_id) \<Rightarrow>
         if op = DataV2 then
           (if length src1 < 7 then Inl (PacketTooShort (length src1 + 1))
            else let p0 = ucast (src1 ! 0) :: 32 word; p1 = ucast (src1 ! 1) :: 32 word; p2 = ucast (src1 ! 2) :: 32 word in
              case get_u32 (drop 3 src1) of (packet_id, rest) \<Rightarrow>
                Inr (op, key_id, Some (push_bit 16 p0 OR push_bit 8 p1 OR p2), packet_id, rest))
         else if op = DataV1 then
           (if length src1 < 4 then Inl (PacketTooShort (length src1 + 1))
            else case get_u32 src1 of (packet_id, rest) \<Rightarrow> Inr (op, key_id, None, packet_id, rest))
         else Inl (InvalidFraming (''Expected data opcode, got '' @ opcode_name op))))"

section \<open>Round trips\<close>

lemma and_low: "(k :: 8 word) AND 7 = take_bit 3 k" "(p :: 32 word) AND 0xFF = take_bit 8 p"
  by (simp_all add: take_bit_eq_mask mask_eq_exp_minus_1)

lemma below_power: "unat w < 2 ^ n \<Longrightarrow> take_bit n w = w" for w :: "'a :: len word"
  using word_unat_eq_iff [of "take_bit n w" w] take_bit_nat_eq_self [of "unat w" n]
  unfolding unsigned_take_bit_eq by simp

lemma split_header:
  fixes v k :: "8 word"
  shows "drop_bit 3 (push_bit 3 v OR (k AND 7)) = take_bit 5 v"
    and "(push_bit 3 v OR (k AND 7)) AND 7 = k AND 7"
  unfolding and_low by (auto intro!: bit_word_eqI simp: bit_simps)

lemma parse_encode_header:
  "parse_header_byte (encode_header_byte op key_id) = Inr (op, key_id AND 0x07)"
proof -
  have "from_u8 (take_bit 5 (opcode_value op)) = Inr op" by (cases op) (simp_all add: from_u8_def)
  then show ?thesis by (simp only: parse_header_byte_def encode_header_byte_def split_header sum.case)
qed

lemma small_key_id: "key_id < 8 \<Longrightarrow> key_id AND 0x07 = (key_id :: 8 word)"
  unfolding and_low by (intro below_power) (simp add: word_less_nat_alt)

text \<open>The value of the lowest \<open>n\<close> bytes of a word, highest first.\<close>

lemma be_value_low_bytes:
  fixes w :: "'a :: len word"
  shows "be_value (map (\<lambda>i. ucast (drop_bit (8 * i) w)) (rev [0..<n])) = unat w mod 256 ^ n"
proof (induction n arbitrary: w)
  case (Suc n)
  let ?v = "drop_bit 8 w"
  have "map (\<lambda>i. ucast (drop_bit (8 * i) w)) (rev [0..<Suc n]) =
      map (\<lambda>i. ucast (drop_bit (8 * i) ?v)) (rev [0..<n]) @ [ucast w :: 8 word]"
    by (simp add: upt_rec [of 0] map_Suc_upt [symmetric] rev_map comp_def add.commute [of 8] del: upt_Suc)
  moreover have "unat (ucast w :: 8 word) = unat w mod 256" by (simp add: unsigned_ucast_eq take_bit_eq_mod)
  moreover have "unat ?v = unat w div 256" unfolding unat_drop_bit_eq by (simp add: drop_bit_eq_div)
  ultimately show ?case using Suc.IH [of ?v] by (simp add: mod_mult2_eq)
qed simp

lemma be_value_bytes64: "be_value (be_bytes64 w) = unat w"
proof -
  have "be_bytes64 w = map (\<lambda>i. ucast (drop_bit (8 * i) w)) (rev [0..<8])"
    by (simp add: be_bytes64_def upt_rec)
  moreover have "unat w < 256 ^ 8" using unsigned_less [of w, where 'a = nat] by simp
  ultimately show ?thesis by (simp only: be_value_low_bytes mod_less)
qed

lemma length_be_bytes64 [simp]: "length (be_bytes64 w) = 8"
  by (simp add: be_bytes64_def)

lemma get_u32_put [simp]: "get_u32 (be_bytes32 w @ rest) = (w, rest)"
  by (simp add: get_u32_def be_value_bytes32)

lemma get_u64_put [simp]: "get_u64 (be_bytes64 w @ rest) = (w, rest)"
  by (simp add: get_u64_def be_value_bytes64)

lemma length_acks: "length (concat (map be_bytes32 ws)) = length ws * 4"
  by (induction ws) simp_all

lemma get_u32s_put: "get_u32s (length ws) (concat (map be_bytes32 ws) @ rest) = (ws, rest)"
  by (induction ws) simp_all

text \<open>
  A control packet can be read back if its key number has three bits, it acknowledges fewer than 256 packets,
  names the remote session exactly when it acknowledges any, and has a packet number exactly when its
  opcode is a reliable one.
\<close>

definition wire_packet :: "ControlPacket \<Rightarrow> bool" where
  "wire_packet p \<longleftrightarrow> cp_key_id p < 8 \<and> length (ack_array p) < 256 \<and>
     (cp_remote_session_id p = None \<longleftrightarrow> ack_array p = []) \<and> (cp_packet_id p = None \<longleftrightarrow> \<not> is_reliable (cp_opcode p))"

lemma decode_encode_control:
  assumes "wire_packet p"
  shows "decode_control (encode_control p) = Inr p"
proof -
  have acks: "unat (of_nat (length (ack_array p)) :: 8 word) = length (ack_array p)"
    using assms by (simp add: wire_packet_def unat_of_nat take_bit_eq_mod)
  then have some: "(0 < (of_nat (length (ack_array p)) :: 8 word)) = (ack_array p \<noteq> [])"
    by (simp add: word_less_nat_alt)
  show ?thesis using assms acks some
    by (cases "cp_remote_session_id p"; cases "cp_packet_id p")
      (auto simp: decode_control_def encode_control_def encode_body_def decode_body_def parse_encode_header small_key_id
        wire_packet_def get_u32s_put Let_def length_acks)
qed

theorem data_header_roundtrip:
  assumes "key_id < 8" and "is_data op" and "op = DataV2 \<Longrightarrow> peer < 2 ^ 24"
  shows "decode_data (encode_header op key_id (Some peer) packet_id @ payload) =
    Inr (op, key_id, if op = DataV2 then Some peer else None, packet_id, payload)"
proof (cases "op = DataV2")
  case True
  have "peer < 2 ^ 24" using assms(3) True by simp
  then have "take_bit 24 peer = peer" by (intro below_power) (simp add: word_less_nat_alt)
  then have hi: "\<not> bit peer n" if "24 \<le> n" for n using that by (metis bit_take_bit_iff not_le)
  have "push_bit 16 (ucast (ucast (drop_bit 16 peer AND 0xFF) :: 8 word)) OR
      push_bit 8 (ucast (ucast (drop_bit 8 peer AND 0xFF) :: 8 word)) OR
      ucast (ucast (peer AND 0xFF) :: 8 word) = peer"
    unfolding and_low
  proof (intro bit_word_eqI)
    fix n assume "n < LENGTH(32)"
    then consider "n < 8" | "8 \<le> n" "n < 16" | "16 \<le> n" "n < 24" | "24 \<le> n" by linarith
    then show "bit (push_bit 16 (ucast (ucast (take_bit 8 (drop_bit 16 peer)) :: 8 word)) OR
        push_bit 8 (ucast (ucast (take_bit 8 (drop_bit 8 peer)) :: 8 word)) OR
        ucast (ucast (take_bit 8 peer) :: 8 word) :: 32 word) n = bit peer n"
      by cases (auto simp: bit_simps hi)
  qed
  then show ?thesis using assms True
    by (simp add: decode_data_def encode_header_def parse_encode_header small_key_id Let_def)
next
  case False
  then show ?thesis using assms
    by (simp add: decode_data_def encode_header_def parse_encode_header small_key_id is_data_def)
qed

end
