(* ===== verification/Ovpn_Mss.thy ===== *)
theory Ovpn_Mss
  imports Ovpn_Wire
begin

text \<open>
  TCP MSS clamping of packets on their way into the tunnel, \<^verbatim>\<open>ovpn-protocol/src/mssfix.rs\<close>. The scan of the
  TCP options is a loop that may not end, so it is a partial function: \<open>None\<close> is a loop that never
  returns. An index out of range is an outcome of its own.
\<close>

section \<open>Checksums\<close>

text \<open>Equation 3 of RFC 1624, with the carries folded back.\<close>

function fold_carry :: "32 word \<Rightarrow> 32 word" where
  "fold_carry s = (if drop_bit 16 s \<noteq> 0 then fold_carry ((s AND 0xFFFF) + drop_bit 16 s) else s)"
  by pat_completeness auto

lemma low_half: "unat (s AND 0xFFFF :: 32 word) = unat s mod 65536"
proof -
  have "s AND 0xFFFF = take_bit 16 s" by (simp add: take_bit_eq_mask mask_eq_exp_minus_1)
  then have "unat (s AND 0xFFFF) = take_bit 16 (unat s)" by (simp only: unsigned_take_bit_eq)
  then show ?thesis by (simp add: take_bit_eq_mod)
qed

lemma high_half: "unat (drop_bit 16 s :: 32 word) = unat s div 65536"
  unfolding unat_drop_bit_eq by (simp add: drop_bit_eq_div)

lemma folded: "unat ((s AND 0xFFFF) + drop_bit 16 s :: 32 word) = unat s mod 65536 + unat s div 65536"
proof -
  have "unat s < 2 ^ 32" using unsigned_less [of s, where 'a = nat] by simp
  then have "unat s mod 65536 + unat s div 65536 < 2 ^ 32" by (simp add: less_mult_imp_div_less)
  then show ?thesis unfolding low_half [symmetric] high_half [symmetric] by (subst unat_add_lem [THEN iffD1]) simp_all
qed

lemma high_zero: "(drop_bit 16 s = (0 :: 32 word)) = (unat s div 65536 = 0)"
  unfolding high_half [symmetric] by (simp only: unat_eq_zero)

lemma folded_less: "drop_bit 16 s \<noteq> 0 \<Longrightarrow> unat ((s AND 0xFFFF) + drop_bit 16 s :: 32 word) < unat s"
  using div_mult_mod_eq [of "unat s" 65536] unfolding folded high_zero by linarith

termination fold_carry
  by (relation "measure unat", rule wf_measure) (simp only: in_measure, erule folded_less)

declare fold_carry.simps [simp del]

definition update_checksum :: "16 word \<Rightarrow> 16 word \<Rightarrow> 16 word \<Rightarrow> 16 word" where
  "update_checksum old_checksum old_val new_val =
     ucast (NOT (fold_carry (ucast (NOT old_checksum) + ucast (NOT old_val) + ucast new_val)))"

section \<open>Clamping\<close>

definition u16_at :: "bytes \<Rightarrow> nat \<Rightarrow> 16 word" where
  "u16_at b i = of_nat (be_value [b ! i, b ! (i + 1)])"

definition put_u16 :: "bytes \<Rightarrow> nat \<Rightarrow> 16 word \<Rightarrow> bytes" where
  "put_u16 b i w = b[i := ucast (drop_bit 8 w), i + 1 := ucast w]"

datatype mss_outcome = Unclamped | Clamped bytes | IndexPanic

definition set_mss :: "bytes \<Rightarrow> nat \<Rightarrow> 16 word \<Rightarrow> bytes" where
  "set_mss tcp i max_mss =
     put_u16 (put_u16 tcp (i + 2) max_mss) 16 (update_checksum (u16_at tcp 16) (u16_at tcp (i + 2)) max_mss)"

partial_function (option) mss_scan :: "bytes \<Rightarrow> nat \<Rightarrow> 16 word \<Rightarrow> nat \<Rightarrow> mss_outcome option" where
  "mss_scan tcp data_offset max_mss i =
     (if \<not> (i < data_offset \<and> i < length tcp) then Some Unclamped
      else if tcp ! i = 0 then Some Unclamped
      else if tcp ! i = 1 then mss_scan tcp data_offset max_mss (i + 1)
      else if tcp ! i = 2
      then (if i + 4 \<le> length tcp \<and> tcp ! (i + 1) = 4 \<and> u16_at tcp (i + 2) > max_mss
            then Some (Clamped (set_mss tcp i max_mss))
            else if i + 1 < length tcp then mss_scan tcp data_offset max_mss (i + unat (tcp ! (i + 1)))
            else Some IndexPanic)
      else if i + 1 \<ge> length tcp then Some Unclamped
      else if unat (tcp ! (i + 1)) < 2 then Some Unclamped
      else mss_scan tcp data_offset max_mss (i + unat (tcp ! (i + 1))))"

declare mss_scan.simps [code]

definition clamp_tcp_segment :: "bytes \<Rightarrow> 16 word \<Rightarrow> mss_outcome option" where
  "clamp_tcp_segment tcp max_mss =
     (if length tcp < 20 then Some Unclamped
      else let data_offset = unat (drop_bit 4 (tcp ! 12) * 4); flags = tcp ! 13 in
        if flags AND 0x02 = 0 \<or> length tcp < data_offset \<or> data_offset \<le> 20 then Some Unclamped
        else mss_scan tcp data_offset max_mss 20)"

definition behind :: "bytes \<Rightarrow> nat \<Rightarrow> mss_outcome option \<Rightarrow> mss_outcome option" where
  "behind packet n r = map_option (\<lambda>out. case out of Clamped tcp \<Rightarrow> Clamped (take n packet @ tcp) | o' \<Rightarrow> o') r"

definition clamp_ipv4_tcp_mss :: "bytes \<Rightarrow> 16 word \<Rightarrow> mss_outcome option" where
  "clamp_ipv4_tcp_mss packet max_mss =
     (if length packet < 20 then Some Unclamped
      else let ihl = unat ((packet ! 0 AND 0x0F) * 4); protocol = packet ! 9 in
        if protocol \<noteq> 6 \<or> length packet < ihl + 20 then Some Unclamped
        else behind packet ihl (clamp_tcp_segment (drop ihl packet) max_mss))"

definition clamp_ipv6_tcp_mss :: "bytes \<Rightarrow> 16 word \<Rightarrow> mss_outcome option" where
  "clamp_ipv6_tcp_mss packet max_mss =
     (if length packet < 40 then Some Unclamped
      else if packet ! 6 \<noteq> 6 \<or> length packet < 40 + 20 then Some Unclamped
      else behind packet 40 (clamp_tcp_segment (drop 40 packet) max_mss))"

definition clamp_tcp_mss :: "bytes \<Rightarrow> 16 word \<Rightarrow> mss_outcome option" where
  "clamp_tcp_mss packet max_mss =
     (if packet = [] then Some Unclamped
      else let ip_version = drop_bit 4 (packet ! 0) in
        if ip_version = 4 then clamp_ipv4_tcp_mss packet max_mss
        else if ip_version = 6 then clamp_ipv6_tcp_mss packet max_mss else Some Unclamped)"

section \<open>The checksum stays right\<close>

text \<open>The sum of the 16-bit words of a segment, highest byte first.\<close>

fun sum16 :: "bytes \<Rightarrow> nat" where
  "sum16 (a # b # r) = 256 * unat a + unat b + sum16 r"
| "sum16 [a] = 256 * unat a"
| "sum16 [] = 0"

lemma fold_carry_value: "\<exists>k. unat s = unat (fold_carry s) + 65535 * k" "unat (fold_carry s) < 65536"
proof (induction s rule: fold_carry.induct)
  case (1 s)
  {
    case 1
    show ?case
    proof (cases "drop_bit 16 s = 0")
      case True
      then show ?thesis by (intro exI [of _ 0]) (simp add: fold_carry.simps [of s])
    next
      case False
      then obtain k where "unat s mod 65536 + unat s div 65536 = unat (fold_carry s) + 65535 * k"
        using "1.IH"(1) unfolding folded by (auto simp: fold_carry.simps [of s])
      then have "unat s = unat (fold_carry s) + 65535 * (k + unat s div 65536)"
        using div_mult_mod_eq [of "unat s" 65536] unfolding distrib_left by linarith
      then show ?thesis by blast
    qed
  next
    case 2
    show ?case
    proof (cases "drop_bit 16 s = 0")
      case True
      then have "unat s < 65536" by (simp add: high_zero div_eq_0_iff)
      then show ?thesis using True by (simp add: fold_carry.simps [of s])
    next
      case False
      then show ?thesis using "1.IH"(2) by (simp add: fold_carry.simps [of s])
    qed
  }
qed

lemma unat_not: "unat (NOT w) = 2 ^ LENGTH('a) - 1 - unat w" for w :: "'a :: len word"
proof -
  have "NOT w = - 1 - w" by (simp add: not_eq_complement)
  moreover have "unat (- 1 - w) = unat (- 1 :: 'a word) - unat w" by (rule unat_sub) simp
  ultimately show ?thesis by (simp add: unsigned_minus_1_eq_mask mask_eq_exp_minus_1)
qed

lemma unat_ucast_not: "unat s < 65536 \<Longrightarrow> unat (ucast (NOT s) :: 16 word) = 65535 - unat (s :: 32 word)"
proof -
  assume s: "unat s < 65536"
  have "unat (ucast (NOT s) :: 16 word) = unat (NOT s) mod 65536" by (simp add: unsigned_ucast_eq take_bit_eq_mod)
  also have "unat (NOT s) = (65535 - unat s) + 65535 * 65536" using s unat_not [of s] by simp
  also have "\<dots> mod 65536 = (65535 - unat s) mod 65536" by (rule mod_mult_self1)
  finally show ?thesis by simp
qed

lemma LENGTH_32: "LENGTH(32) = 32" "LENGTH(16) = 16" by simp_all

lemma unat_small: "n < 2 ^ LENGTH('a) \<Longrightarrow> unat (of_nat n :: 'a :: len word) = n"
  by (simp add: unat_of_nat take_bit_nat_eq_self)

lemma update_checksum_value:
  "\<exists>k. unat (update_checksum c old new) + unat new + 65535 = unat c + unat old + 65535 * k"
proof -
  let ?s = "ucast (NOT c) + ucast (NOT old) + ucast new :: 32 word"
  have c: "unat c \<le> 65535" "unat old \<le> 65535" "unat new \<le> 65535"
    using unsigned_less [of c, where 'a = nat] unsigned_less [of old, where 'a = nat] unsigned_less [of new, where 'a = nat]
    by simp_all
  have "?s = of_nat (unat (NOT c) + unat (NOT old) + unat new)" by simp
  moreover have "unat (NOT c) + unat (NOT old) + unat new < 2 ^ 32" using c unat_not [of c] unat_not [of old] by simp
  ultimately have "unat ?s = unat (NOT c) + unat (NOT old) + unat new" using unat_small [where 'a = 32] by (simp only: LENGTH_32)
  then have "unat ?s = (65535 - unat c) + (65535 - unat old) + unat new" by (simp add: unat_not)
  moreover obtain k where k: "unat ?s = unat (fold_carry ?s) + 65535 * k" "unat (fold_carry ?s) < 65536"
    using fold_carry_value by blast
  ultimately have "unat (update_checksum c old new) + unat new + 65535 = unat c + unat old + 65535 * k"
    using c unat_ucast_not [OF k(2)] by (simp add: update_checksum_def)
  then show ?thesis by blast
qed

lemma unat_u16: "256 * unat (ucast (drop_bit 8 w) :: 8 word) + unat (ucast w :: 8 word) = unat (w :: 16 word)"
proof -
  have "unat (drop_bit 8 w) = unat w div 256" unfolding unat_drop_bit_eq by (simp add: drop_bit_eq_div)
  moreover have "unat w div 256 < 256" using unsigned_less [of w, where 'a = nat] by (simp add: less_mult_imp_div_less)
  ultimately show ?thesis by (simp add: unsigned_ucast_eq take_bit_eq_mod)
qed

lemma u16_at_value: "unat (u16_at b i) = 256 * unat (b ! i) + unat (b ! (i + 1))"
proof -
  have v: "be_value [b ! i, b ! (i + 1)] = 256 * unat (b ! i) + unat (b ! (i + 1))" by (simp add: be_value_def)
  then have "be_value [b ! i, b ! (i + 1)] < 2 ^ LENGTH(16)"
    using unat_byte [of "b ! i"] unat_byte [of "b ! (i + 1)"] by simp
  then show ?thesis unfolding u16_at_def by (simp only: unat_small v)
qed

lemma put_u16_sum:
  "2 * k + 1 < length b \<Longrightarrow> sum16 (put_u16 b (2 * k) w) + unat (u16_at b (2 * k)) = sum16 b + unat w"
proof (induction k arbitrary: b)
  case 0
  then obtain x y r where b: "b = x # y # r" by (cases b; cases "tl b") auto
  show ?case using unat_u16 [of w] by (simp add: b put_u16_def u16_at_value)
next
  case (Suc k)
  then obtain x y r where b: "b = x # y # r" by (cases b; cases "tl b") auto
  have "put_u16 b (2 * Suc k) w = x # y # put_u16 r (2 * k) w" "u16_at b (2 * Suc k) = u16_at r (2 * k)"
    by (simp_all add: b put_u16_def u16_at_def)
  then show ?case using Suc.IH [of r] Suc.prems by (simp add: b)
qed

lemma set_mss_value:
  assumes "20 \<le> i" and "i + 4 \<le> length tcp"
  shows "u16_at (set_mss tcp i max_mss) (i + 2) = max_mss"
  using assms unat_u16 [of max_mss]
  by (intro word_unat_eq_iff [THEN iffD2]) (simp add: u16_at_value set_mss_def put_u16_def)

text \<open>When the option's value is aligned, the sum of the segment modulo 65535 is what the receiver tests.\<close>

lemma aligned_option_keeps_checksum:
  assumes "even i" and "20 \<le> i" and "i + 4 \<le> length tcp"
  shows "sum16 (set_mss tcp i max_mss) mod 65535 = sum16 tcp mod 65535"
proof -
  obtain n where n: "i + 2 = 2 * n" using assms(1) by (metis dvdE even_add even_numeral)
  let ?b = "put_u16 tcp (i + 2) max_mss" and ?cs = "update_checksum (u16_at tcp 16) (u16_at tcp (i + 2)) max_mss"
  have len: "length (put_u16 b j w) = length b" for b j w by (simp add: put_u16_def)
  have "u16_at ?b 16 = u16_at tcp 16" using assms(2) by (simp add: u16_at_def put_u16_def)
  then have "sum16 (set_mss tcp i max_mss) + unat (u16_at tcp 16) = sum16 ?b + unat ?cs"
    using put_u16_sum [of 8 ?b ?cs] assms(2,3) by (simp add: set_mss_def len)
  moreover have "sum16 ?b + unat (u16_at tcp (i + 2)) = sum16 tcp + unat max_mss"
    using put_u16_sum [of n tcp max_mss] n assms(3) by simp
  moreover obtain k where "unat ?cs + unat max_mss + 65535 = unat (u16_at tcp 16) + unat (u16_at tcp (i + 2)) + 65535 * k"
    using update_checksum_value by blast
  ultimately have "sum16 (set_mss tcp i max_mss) + 65535 = sum16 tcp + 65535 * k" by linarith
  then show ?thesis by (metis mod_add_self2 mod_mult_self2)
qed

section \<open>The scan\<close>

text \<open>With an MSS option of length zero the scan never returns.\<close>

theorem zero_length_option_hangs:
  assumes "i < data_offset" and "i + 1 < length tcp" and "tcp ! i = 2" and "tcp ! (i + 1) = 0"
  shows "mss_scan tcp data_offset max_mss i = None"
proof -
  have "\<not> (i < data_offset \<and> i + 1 < length tcp \<and> tcp ! i = 2 \<and> tcp ! (i + 1) = 0)"
    if "mss_scan tcp data_offset max_mss i = Some r" for r
    by (rule mss_scan.raw_induct [where P = "\<lambda>tcp off m i r. \<not> (i < off \<and> i + 1 < length tcp \<and> tcp ! i = 2 \<and> tcp ! (i + 1) = 0)",
          OF _ that]) (auto split: if_splits)
  then show ?thesis using assms by (cases "mss_scan tcp data_offset max_mss i") auto
qed

text \<open>Without one it always does.\<close>

theorem scan_returns:
  assumes "\<forall>i < length tcp. tcp ! i = 2 \<longrightarrow> i + 1 < length tcp \<and> tcp ! (i + 1) \<noteq> 0"
  shows "\<exists>r. mss_scan tcp data_offset max_mss i = Some r \<and> r \<noteq> IndexPanic"
proof (induction "data_offset - i" arbitrary: i rule: less_induct)
  case less
  have later: "\<exists>r. mss_scan tcp data_offset max_mss (i + n) = Some r \<and> r \<noteq> IndexPanic" if "i < data_offset" "0 < n" for n
    using less [of "i + n"] that by simp
  show ?case
  proof (cases "i < data_offset \<and> i < length tcp")
    case True
    have "0 < unat (tcp ! (i + 1))" if "tcp ! i = 2" using assms True that by (simp add: unat_gt_0)
    moreover have "i + 1 < length tcp" if "tcp ! i = 2" using assms True that by simp
    ultimately show ?thesis using True later [of 1] later [of "unat (tcp ! (i + 1))"]
      by (subst (1) mss_scan.simps) auto
  next
    case False
    then show ?thesis by (subst mss_scan.simps) simp
  qed
qed

text \<open>What the scan changes is the value of an MSS option within the segment.\<close>

lemma scan_clamps:
  assumes "mss_scan tcp data_offset max_mss i = Some r" and "r = Clamped tcp'" and "20 \<le> i"
  shows "\<exists>k. 20 \<le> k \<and> k + 4 \<le> length tcp \<and> tcp ! k = 2 \<and> tcp ! (k + 1) = 4 \<and> max_mss < u16_at tcp (k + 2) \<and>
    tcp' = set_mss tcp k max_mss"
proof -
  let ?P = "\<lambda>tcp off m i r. r = Clamped tcp' \<longrightarrow> 20 \<le> i \<longrightarrow>
    (\<exists>k. 20 \<le> k \<and> k + 4 \<le> length tcp \<and> tcp ! k = 2 \<and> tcp ! (k + 1) = 4 \<and> m < u16_at tcp (k + 2) \<and>
       tcp' = set_mss tcp k m)"
  have "?P tcp data_offset max_mss i r"
    by (rule mss_scan.raw_induct [where P = ?P, OF _ assms(1)]) (auto split: if_splits)
  then show ?thesis using assms(2,3) by blast
qed

text \<open>
  Property C32. When a segment is clamped, one MSS option with a higher value now has the given one and nothing but this
  value and the checksum has changed; and when the option is aligned, the segment's sum modulo 65535 is what
  it was, so that the receiver accepts it exactly when it accepted the original.
\<close>

theorem clamping_keeps_checksum:
  assumes "clamp_tcp_segment tcp max_mss = Some (Clamped tcp')"
  shows "\<exists>k. 20 \<le> k \<and> k + 4 \<le> length tcp \<and> tcp ! k = 2 \<and> tcp ! (k + 1) = 4 \<and>
    max_mss < u16_at tcp (k + 2) \<and> u16_at tcp' (k + 2) = max_mss \<and> length tcp' = length tcp \<and>
    (\<forall>j. j \<notin> {16, 17, k + 2, k + 3} \<longrightarrow> tcp' ! j = tcp ! j) \<and>
    (even k \<longrightarrow> sum16 tcp' mod 65535 = sum16 tcp mod 65535)"
proof -
  obtain off where "mss_scan tcp off max_mss 20 = Some (Clamped tcp')"
    using assms by (auto simp: clamp_tcp_segment_def Let_def split: if_splits)
  then obtain k where k: "20 \<le> k" "k + 4 \<le> length tcp" "tcp ! k = 2" "tcp ! (k + 1) = 4" "max_mss < u16_at tcp (k + 2)"
      "tcp' = set_mss tcp k max_mss"
    using scan_clamps by blast
  have "u16_at tcp' (k + 2) = max_mss" unfolding k(6) by (rule set_mss_value [OF k(1,2)])
  moreover have "\<forall>j. j \<notin> {16, 17, k + 2, k + 3} \<longrightarrow> tcp' ! j = tcp ! j" "length tcp' = length tcp"
    unfolding k(6) by (simp_all add: set_mss_def put_u16_def)
  moreover have "even k \<longrightarrow> sum16 tcp' mod 65535 = sum16 tcp mod 65535"
    unfolding k(6) using aligned_option_keeps_checksum [of k tcp max_mss] k(1,2) by blast
  ultimately show ?thesis using k(1-5) by blast
qed

definition aligned_segment :: bytes where
  "aligned_segment = [0, 0, 0, 0, 0, 0, 0, 0, 0, 0, 0, 0, 0x60, 0x02, 0, 0, 0, 0, 0, 0, 2, 4, 0x05, 0xB4]"

lemma aligned_scan: "clamp_tcp_segment aligned_segment 1000 = Some (Clamped (set_mss aligned_segment 20 1000))"
proof -
  have "u16_at aligned_segment 22 = 1460" by (simp add: u16_at_def aligned_segment_def be_value_def)
  then have "mss_scan aligned_segment 24 1000 20 = Some (Clamped (set_mss aligned_segment 20 1000))"
    by (subst mss_scan.simps) (simp add: aligned_segment_def)
  then show ?thesis by (simp add: clamp_tcp_segment_def aligned_segment_def)
qed

theorem clamping_keeps_checksum_witness:
  "clamp_tcp_segment aligned_segment 1000 = Some (Clamped (set_mss aligned_segment 20 1000)) \<and>
   (\<exists>k. 20 \<le> k \<and> u16_at (set_mss aligned_segment 20 1000) (k + 2) = 1000 \<and>
     (even k \<longrightarrow> sum16 (set_mss aligned_segment 20 1000) mod 65535 = sum16 aligned_segment mod 65535))"
  using clamping_keeps_checksum [OF aligned_scan] aligned_scan by blast

text \<open>
  So a single packet stops the engine: an IPv4 TCP packet with the SYN flag whose first option is an MSS option
  of length zero is never done with.
\<close>

lemma hanging_packet:
  assumes "length ip = 20" "ip ! 0 = 0x45" "ip ! 9 = 6" and "24 \<le> length tcp" "tcp ! 12 = 0x60" "tcp ! 13 AND 0x02 \<noteq> 0"
    and "tcp ! 20 = 2" "tcp ! 21 = 0"
  shows "clamp_tcp_mss (ip @ tcp) max_mss = None"
  using assms zero_length_option_hangs [of 20 24 tcp max_mss]
  by (auto simp: clamp_tcp_mss_def clamp_ipv4_tcp_mss_def clamp_tcp_segment_def behind_def nth_append Let_def)

text \<open>
  After a single no-operation option the value of the MSS option is not aligned, and the checksum is wrong
  after clamping.
\<close>

definition unaligned_segment :: bytes where
  "unaligned_segment =
     [0, 0, 0, 0, 0, 0, 0, 0, 0, 0, 0, 0, 0x70, 0x02, 0, 0, 0, 0, 0, 0, 1, 2, 4, 0x05, 0xB4, 0, 0, 0]"

lemma unaligned_values: "u16_at unaligned_segment 23 = 1460" "u16_at unaligned_segment 16 = 0"
  by (simp_all add: u16_at_def unaligned_segment_def be_value_def)

lemma unaligned_scan: "clamp_tcp_segment unaligned_segment 1000 = Some (Clamped (set_mss unaligned_segment 21 1000))"
proof -
  have "mss_scan unaligned_segment 28 1000 20 = mss_scan unaligned_segment 28 1000 21"
    by (subst mss_scan.simps) (simp add: unaligned_segment_def)
  also have "\<dots> = Some (Clamped (set_mss unaligned_segment 21 1000))"
    using unaligned_values by (subst mss_scan.simps) (simp add: unaligned_segment_def)
  finally show ?thesis by (simp add: clamp_tcp_segment_def unaligned_segment_def)
qed

lemma unaligned_checksum: "update_checksum 0 1460 1000 = 460"
proof -
  have "(ucast (- 1 :: 16 word) :: 32 word) = 65535" by (simp add: word_unat_eq_iff unsigned_minus_1_eq_mask mask_eq_exp_minus_1)
  then show ?thesis by (simp add: update_checksum_def fold_carry.simps [of 130610] fold_carry.simps [of 65075])
qed

lemma unaligned_checksum_wrong:
  "sum16 (set_mss unaligned_segment 21 1000) mod 65535 = 24276" "sum16 unaligned_segment mod 65535 = 10506"
proof -
  have "put_u16 (put_u16 unaligned_segment 23 1000) 16 460 =
      [0, 0, 0, 0, 0, 0, 0, 0, 0, 0, 0, 0, 0x70, 0x02, 0, 0, 1, 204, 0, 0, 1, 2, 4, 3, 232, 0, 0, 0]"
    by code_simp
  then show "sum16 (set_mss unaligned_segment 21 1000) mod 65535 = 24276"
    by (simp add: set_mss_def unaligned_values unaligned_checksum)
qed (simp add: unaligned_segment_def)

end
