(* ===== verification/Ovpn_Messages.thy ===== *)
theory Ovpn_Messages
  imports Rust_Prelude "HOL-Library.AList"
begin

text \<open>
  The text messages of the OpenVPN control channel: the options a server pushes, \<^verbatim>\<open>ovpn-config/src/push.rs\<close>, with
  the network configuration made of them, \<^verbatim>\<open>network_config.rs\<close>, and the messages of the authentication,
  \<^verbatim>\<open>ovpn-protocol/src/auth.rs\<close>. IPv4 addresses are 32-bit words, IPv6 addresses their eight groups; durations are
  seconds. A hash map is an association list, of which only lookups and insertions are used.
\<close>

section \<open>Numbers and addresses in texts\<close>

text \<open>\<open>s.parse::<uN>()\<close> for the type whose greatest value is given.\<close>

definition parse_uint :: "nat \<Rightarrow> string \<Rightarrow> nat option" where
  "parse_uint bound s = (let t = (case s of [] \<Rightarrow> [] | c # r \<Rightarrow> if c = CHR ''+'' then r else s) in
     if all_digits t \<and> parse_digits t \<le> bound then Some (parse_digits t) else None)"

text \<open>
  The parser of the standard library for addresses: a number is the longest run of digits, refused when it is
  too long or too big.
\<close>

definition hex_value :: "char \<Rightarrow> nat option" where
  "hex_value c = (let n = (of_char c :: nat) in
     if 48 \<le> n \<and> n \<le> 57 then Some (n - 48) else if 97 \<le> n \<and> n \<le> 102 then Some (n - 87)
     else if 65 \<le> n \<and> n \<le> 70 then Some (n - 55) else None)"

definition read_group :: "string \<Rightarrow> (16 word \<times> string) option" where
  "read_group s = (let d = takeWhile (\<lambda>c. hex_value c \<noteq> None) s in
     if d = [] \<or> length d > 4 then None
     else Some (of_nat (foldl (\<lambda>n c. 16 * n + the (hex_value c)) 0 d), drop (length d) s))"

definition read_octet :: "string \<Rightarrow> (32 word \<times> string) option" where
  "read_octet s = (let d = takeWhile is_digit s in map_option (\<lambda>n. (n, drop (length d) s)) (parse_octet d))"

definition read_separator :: "char \<Rightarrow> nat \<Rightarrow> (string \<Rightarrow> ('a \<times> string) option) \<Rightarrow> string \<Rightarrow> ('a \<times> string) option" where
  "read_separator sep i inner s = (if i = 0 then inner s
     else case s of [] \<Rightarrow> None | c # r \<Rightarrow> if c = sep then inner r else None)"

fun read_octets :: "nat \<Rightarrow> nat \<Rightarrow> string \<Rightarrow> (32 word list \<times> string) option" where
  "read_octets 0 i s = Some ([], s)"
| "read_octets (Suc n) i s = (case read_separator (CHR ''.'') i read_octet s of
     None \<Rightarrow> None
   | Some (b, r) \<Rightarrow> map_option (\<lambda>(bs, t). (b # bs, t)) (read_octets n (Suc i) r))"

fun read_groups :: "nat \<Rightarrow> nat \<Rightarrow> string \<Rightarrow> 16 word list \<times> bool \<times> string" where
  "read_groups 0 i s = ([], False, s)"
| "read_groups (Suc left) i s =
     (case (if left \<ge> 1 then read_separator (CHR '':'') i (read_octets 4 0) s else None) of
        Some (bs, r) \<Rightarrow> ([ucast (push_bit 8 (bs ! 0) OR bs ! 1), ucast (push_bit 8 (bs ! 2) OR bs ! 3)], True, r)
      | None \<Rightarrow> (case read_separator (CHR '':'') i read_group s of
          None \<Rightarrow> ([], False, s)
        | Some (g, r) \<Rightarrow> (case read_groups left (Suc i) r of (gs, v4, t) \<Rightarrow> (g # gs, v4, t))))"

type_synonym Ipv6Addr = "16 word list"

definition parse_ipv6 :: "string \<Rightarrow> Ipv6Addr option" where
  "parse_ipv6 s = (case read_groups 8 0 s of (head, v4, r) \<Rightarrow>
     if length head = 8 then (if r = [] then Some head else None)
     else if v4 then None
     else if take 2 r = ''::''
     then (case read_groups (8 - (length head + 1)) 0 (drop 2 r) of (tail, _, t) \<Rightarrow>
       if t = [] then Some (head @ replicate (8 - length head - length tail) 0 @ tail) else None)
     else None)"

datatype IpAddr = V4 "32 word" | V6 Ipv6Addr

definition parse_ip :: "string \<Rightarrow> IpAddr option" where
  "parse_ip s = (case parse_ipv4 s of Some a \<Rightarrow> Some (V4 a) | None \<Rightarrow> map_option V6 (parse_ipv6 s))"

section \<open>Network configuration\<close>

record Ipv4Route =
  destination :: "32 word"
  netmask_v4 :: "32 word"
  gateway :: "32 word option"
  metric :: "nat option"

record Ipv6Route =
  destination_v6 :: Ipv6Addr
  prefix_len :: nat
  gateway_v6 :: "Ipv6Addr option"
  metric_v6 :: "nat option"

record RedirectGatewayFlags =
  def1 :: bool
  local_gw :: bool
  ipv6 :: bool
  block_local :: bool
  bypass_dhcp :: bool
  bypass_dns :: bool
  enabled :: bool

definition no_redirect :: RedirectGatewayFlags where
  "no_redirect = \<lparr>def1 = False, local_gw = False, ipv6 = False, block_local = False, bypass_dhcp = False,
     bypass_dns = False, enabled = False\<rparr>"

definition redirect_flag :: "string \<Rightarrow> RedirectGatewayFlags \<Rightarrow> RedirectGatewayFlags" where
  "redirect_flag arg f =
     (if arg = ''def1'' then f\<lparr>def1 := True\<rparr>
      else if arg = ''local'' \<or> arg = ''autolocal'' then f\<lparr>local_gw := True\<rparr>
      else if arg = ''ipv6'' then f\<lparr>ipv6 := True\<rparr>
      else if arg = ''block-local'' then f\<lparr>block_local := True\<rparr>
      else if arg = ''bypass-dhcp'' then f\<lparr>bypass_dhcp := True\<rparr>
      else if arg = ''bypass-dns'' then f\<lparr>bypass_dns := True\<rparr>
      else f)"

definition from_args :: "string list \<Rightarrow> RedirectGatewayFlags" where
  "from_args args = fold redirect_flag args (no_redirect\<lparr>enabled := True\<rparr>)"

datatype NetworkTopology = Net30 | Subnet | P2p

type_synonym options_map = "(string \<times> string) list"

record NetworkProvisioningConfig =
  nc_interface_name :: "string option"
  nc_mtu :: nat
  nc_topology :: NetworkTopology
  nc_ipv4_address :: "32 word option"
  nc_ipv4_netmask :: "32 word option"
  nc_ipv4_gateway :: "32 word option"
  nc_ipv6_address :: "Ipv6Addr option"
  nc_ipv6_prefix_len :: "nat option"
  nc_ipv6_gateway :: "Ipv6Addr option"
  nc_dns_servers :: "IpAddr list"
  nc_search_domains :: "string list"
  nc_wins_servers :: "32 word list"
  nc_ntp_servers :: "IpAddr list"
  nc_routes_v4 :: "Ipv4Route list"
  nc_routes_v6 :: "Ipv6Route list"
  nc_excluded_routes_v4 :: "Ipv4Route list"
  nc_excluded_routes_v6 :: "Ipv6Route list"
  nc_redirect_gateway :: RedirectGatewayFlags
  nc_block_outside_dns :: bool
  nc_mss_fix :: "nat option"
  nc_peer_id :: "nat option"
  nc_ping_interval :: "nat option"
  nc_ping_restart :: "nat option"
  nc_custom_options :: options_map

section \<open>Pushed options\<close>

record PushOptions =
  topology :: "NetworkTopology option"
  ifconfig_v4 :: "(32 word \<times> 32 word) option"
  ifconfig_v6 :: "(Ipv6Addr \<times> nat \<times> Ipv6Addr option) option"
  route_gateway :: "32 word option"
  route_metric :: "nat option"
  routes_v4 :: "Ipv4Route list"
  routes_v6 :: "Ipv6Route list"
  redirect_gateway :: "RedirectGatewayFlags option"
  dns_servers :: "IpAddr list"
  search_domains :: "string list"
  wins_servers :: "32 word list"
  ntp_servers :: "IpAddr list"
  block_outside_dns :: bool
  ping_interval :: "nat option"
  ping_restart :: "nat option"
  push_peer_id :: "nat option"
  push_mss_fix :: "nat option"
  tun_mtu :: "nat option"
  explicit_exit_notify :: "nat option"
  push_auth_token :: "string option"
  cipher :: "string option"
  custom_options :: options_map

definition no_push_options :: PushOptions where
  "no_push_options = \<lparr>topology = None, ifconfig_v4 = None, ifconfig_v6 = None, route_gateway = None, route_metric = None,
     routes_v4 = [], routes_v6 = [], redirect_gateway = None, dns_servers = [], search_domains = [], wins_servers = [],
     ntp_servers = [], block_outside_dns = False, ping_interval = None, ping_restart = None, push_peer_id = None,
     push_mss_fix = None, tun_mtu = None, explicit_exit_notify = None, push_auth_token = None, cipher = None,
     custom_options = []\<rparr>"

text \<open>The text between two separators, when there is any.\<close>

definition item_of :: "string \<Rightarrow> string list" where
  "item_of current = (let trimmed = trim current in if trimmed = [] then [] else [trimmed])"

fun split_items :: "bool \<Rightarrow> bool \<Rightarrow> string \<Rightarrow> string \<Rightarrow> string list" where
  "split_items dq sq current [] = item_of current"
| "split_items dq sq current (c # s) =
     (if c = CHR 0x5C then (case s of [] \<Rightarrow> item_of current | n # r \<Rightarrow> split_items dq sq (current @ [n]) r)
      else if c = CHR 0x22 \<and> \<not> sq then split_items (\<not> dq) sq current s
      else if c = CHR 0x27 \<and> \<not> dq then split_items dq (\<not> sq) current s
      else if c \<in> {CHR '','', CHR 0x0A, CHR 0x0D} \<and> \<not> dq \<and> \<not> sq then item_of current @ split_items dq sq [] s
      else split_items dq sq (current @ [c]) s)"

definition split_push_reply_items :: "string \<Rightarrow> string list" where
  "split_push_reply_items payload = (let clean = trim payload in
     split_items False False []
       (if startsWith clean ''PUSH_REPLY''
        then dropWhile (\<lambda>c. c \<in> {CHR '','', CHR '' '', CHR 0x09, CHR 0x0A, CHR 0x0D}) (drop 10 clean) else clean))"

definition arg_at :: "nat \<Rightarrow> string list \<Rightarrow> string option" where
  "arg_at i args = (if i < length args then Some (args ! i) else None)"

definition push_topology :: "string list \<Rightarrow> PushOptions \<Rightarrow> PushOptions" where
  "push_topology args opts = (case args of [] \<Rightarrow> opts | arg # _ \<Rightarrow> opts\<lparr>topology :=
     (let t = toLowerCase arg in if t = ''subnet'' then Some Subnet else if t = ''net30'' then Some Net30
      else if t = ''p2p'' then Some P2p else None)\<rparr>)"

definition push_ifconfig :: "string list \<Rightarrow> PushOptions \<Rightarrow> PushOptions" where
  "push_ifconfig args opts = (if length args \<ge> 2
     then (case (parse_ipv4 (args ! 0), parse_ipv4 (args ! 1)) of
       (Some l, Some r) \<Rightarrow> opts\<lparr>ifconfig_v4 := Some (l, r)\<rparr> | _ \<Rightarrow> opts) else opts)"

definition address_prefix :: "nat \<Rightarrow> string \<Rightarrow> (Ipv6Addr \<times> nat) option" where
  "address_prefix whole s = (let parts = split_on (CHR ''/'') s in
     map_option (\<lambda>ip. (ip, nullish (Option.bind (arg_at 1 parts) (parse_uint 255)) whole)) (parse_ipv6 (parts ! 0)))"

definition push_ifconfig_ipv6 :: "string list \<Rightarrow> PushOptions \<Rightarrow> PushOptions" where
  "push_ifconfig_ipv6 args opts = (case args of [] \<Rightarrow> opts
   | first # _ \<Rightarrow> (case address_prefix 64 first of
       None \<Rightarrow> opts
     | Some (ip, len) \<Rightarrow> opts\<lparr>ifconfig_v6 := Some (ip, len, Option.bind (arg_at 1 args) parse_ipv6)\<rparr>))"

definition or_opt :: "'a option \<Rightarrow> 'a option \<Rightarrow> 'a option" where
  "or_opt a b = (case a of None \<Rightarrow> b | Some _ \<Rightarrow> a)"

abbreviation u32_max :: nat where "u32_max \<equiv> 4294967295"

abbreviation u64_max :: nat where "u64_max \<equiv> 18446744073709551615"

definition push_route :: "string list \<Rightarrow> PushOptions \<Rightarrow> PushOptions" where
  "push_route args opts = (case Option.bind (arg_at 0 args) parse_ipv4 of None \<Rightarrow> opts
   | Some dest \<Rightarrow> opts\<lparr>routes_v4 := routes_v4 opts @ [\<lparr>destination = dest,
       netmask_v4 = nullish (Option.bind (arg_at 1 args) parse_ipv4) 0xFFFFFFFF,
       gateway = or_opt (Option.bind (arg_at 2 args) parse_ipv4) (route_gateway opts),
       metric = or_opt (Option.bind (arg_at 3 args) (parse_uint u32_max)) (route_metric opts)\<rparr>]\<rparr>)"

definition push_route_ipv6 :: "string list \<Rightarrow> PushOptions \<Rightarrow> PushOptions" where
  "push_route_ipv6 args opts = (case Option.bind (arg_at 0 args) (address_prefix 128) of None \<Rightarrow> opts
   | Some (dest, len) \<Rightarrow> opts\<lparr>routes_v6 := routes_v6 opts @ [\<lparr>destination_v6 = dest, prefix_len = len,
       gateway_v6 = Option.bind (arg_at 1 args) parse_ipv6,
       metric_v6 = or_opt (Option.bind (arg_at 2 args) (parse_uint u32_max)) (route_metric opts)\<rparr>]\<rparr>)"

definition push_new :: "'a \<Rightarrow> 'a list \<Rightarrow> 'a list" where
  "push_new x xs = (if x \<in> set xs then xs else xs @ [x])"

definition push_dhcp_option :: "string list \<Rightarrow> PushOptions \<Rightarrow> PushOptions" where
  "push_dhcp_option args opts = (if length args < 2 then opts
     else let opt_type = toUpperCase (args ! 0); opt_val = joinWith '' '' (tl args) in
       if opt_type = ''DNS''
       then (case parse_ip opt_val of None \<Rightarrow> opts | Some ip \<Rightarrow> opts\<lparr>dns_servers := push_new ip (dns_servers opts)\<rparr>)
       else if opt_type \<in> {''DOMAIN'', ''DOMAIN-SEARCH'', ''ADAPTER_DOMAIN_SUFFIX''}
       then opts\<lparr>search_domains := push_new opt_val (search_domains opts)\<rparr>
       else if opt_type = ''WINS''
       then (case parse_ipv4 opt_val of None \<Rightarrow> opts | Some ip \<Rightarrow> opts\<lparr>wins_servers := push_new ip (wins_servers opts)\<rparr>)
       else if opt_type = ''NTP''
       then (case parse_ip opt_val of None \<Rightarrow> opts | Some ip \<Rightarrow> opts\<lparr>ntp_servers := push_new ip (ntp_servers opts)\<rparr>)
       else opts)"

text \<open>A number as first argument; without one the option stays as it was.\<close>

definition number_arg :: "nat \<Rightarrow> string list \<Rightarrow> nat option" where
  "number_arg bound args = Option.bind (arg_at 0 args) (parse_uint bound)"

definition apply_option :: "string \<Rightarrow> string list \<Rightarrow> PushOptions \<Rightarrow> PushOptions" where
  "apply_option verb args opts =
     (if verb = ''topology'' then push_topology args opts
      else if verb = ''ifconfig'' then push_ifconfig args opts
      else if verb = ''ifconfig-ipv6'' then push_ifconfig_ipv6 args opts
      else if verb = ''route-gateway''
      then opts\<lparr>route_gateway := or_opt (Option.bind (arg_at 0 args) parse_ipv4) (route_gateway opts)\<rparr>
      else if verb = ''route-metric'' then opts\<lparr>route_metric := or_opt (number_arg u32_max args) (route_metric opts)\<rparr>
      else if verb = ''route'' then push_route args opts
      else if verb = ''route-ipv6'' then push_route_ipv6 args opts
      else if verb = ''redirect-gateway'' \<or> verb = ''redirect-private'' then opts\<lparr>redirect_gateway := Some (from_args args)\<rparr>
      else if verb = ''dhcp-option'' then push_dhcp_option args opts
      else if verb = ''block-outside-dns'' then opts\<lparr>block_outside_dns := True\<rparr>
      else if verb = ''ping'' then opts\<lparr>ping_interval := or_opt (number_arg u64_max args) (ping_interval opts)\<rparr>
      else if verb = ''ping-restart'' then opts\<lparr>ping_restart := or_opt (number_arg u64_max args) (ping_restart opts)\<rparr>
      else if verb = ''peer-id'' then opts\<lparr>push_peer_id := or_opt (number_arg u32_max args) (push_peer_id opts)\<rparr>
      else if verb = ''mssfix'' then opts\<lparr>push_mss_fix := Some (nullish (number_arg 65535 args) 1450)\<rparr>
      else if verb = ''tun-mtu'' then opts\<lparr>tun_mtu := or_opt (number_arg u32_max args) (tun_mtu opts)\<rparr>
      else if verb = ''explicit-exit-notify'' then opts\<lparr>explicit_exit_notify := Some (nullish (number_arg 255 args) 1)\<rparr>
      else if verb = ''auth-token'' then opts\<lparr>push_auth_token := or_opt (arg_at 0 args) (push_auth_token opts)\<rparr>
      else if verb = ''cipher'' then opts\<lparr>cipher := or_opt (arg_at 0 args) (cipher opts)\<rparr>
      else opts\<lparr>custom_options := AList.update verb (joinWith '' '' args) (custom_options opts)\<rparr>)"

definition apply_item :: "string \<Rightarrow> PushOptions \<Rightarrow> PushOptions" where
  "apply_item item opts = (case split_whitespace item of [] \<Rightarrow> opts
   | verb # args \<Rightarrow> apply_option (toLowerCase verb) args opts)"

definition parse_push_reply :: "string \<Rightarrow> PushOptions" where
  "parse_push_reply payload = fold apply_item (split_push_reply_items payload) no_push_options"

section \<open>Configuration and pushed options together\<close>

datatype KeyDirection = Bidirectional | ServerDirection | ClientDirection

record OpenVpnConfig =
  oc_hosts :: "string list"
  oc_dev :: string
  oc_ca :: "string option"
  oc_cert :: "string option"
  oc_key :: "string option"
  oc_tls_auth :: "(string \<times> KeyDirection option) option"
  oc_key_direction :: "KeyDirection option"
  oc_data_ciphers :: "string list"
  oc_auth_digest :: "string option"
  oc_auth_user_pass :: "(string option \<times> string option) option"
  oc_ifconfig_v4 :: "(32 word \<times> 32 word) option"
  oc_ifconfig_v6 :: "(Ipv6Addr \<times> Ipv6Addr) option"
  oc_topology :: "NetworkTopology option"
  oc_routes_v4 :: "Ipv4Route list"
  oc_routes_v6 :: "Ipv6Route list"
  oc_redirect_gateway :: RedirectGatewayFlags
  oc_dns_servers :: "IpAddr list"
  oc_search_domains :: "string list"
  oc_block_outside_dns :: bool
  oc_tun_mtu :: "nat option"
  oc_mss_fix :: "nat option"
  oc_ping_interval :: "nat option"
  oc_ping_restart :: "nat option"

definition ipv4_configuration ::
  "PushOptions \<Rightarrow> OpenVpnConfig \<Rightarrow> NetworkTopology \<Rightarrow> 32 word option \<times> 32 word option \<times> 32 word option" where
  "ipv4_configuration p b tp = (case ifconfig_v4 p of
     Some (l, remote_or_mask) \<Rightarrow>
       if tp = Subnet then (Some l, Some remote_or_mask, route_gateway p)
       else (Some l, Some 0xFFFFFFFC, Some remote_or_mask)
   | None \<Rightarrow> (case oc_ifconfig_v4 b of
       Some (l, remote_or_mask) \<Rightarrow> (Some l, Some remote_or_mask, None) | None \<Rightarrow> (None, None, None)))"

definition ipv6_configuration :: "PushOptions \<Rightarrow> OpenVpnConfig \<Rightarrow> Ipv6Addr option \<times> nat option \<times> Ipv6Addr option" where
  "ipv6_configuration p b = (case ifconfig_v6 p of
     Some (l, len, gw) \<Rightarrow> (Some l, Some len, gw)
   | None \<Rightarrow> (case oc_ifconfig_v6 b of Some (l, remote) \<Rightarrow> (Some l, Some 64, Some remote) | None \<Rightarrow> (None, None, None)))"

definition build_provisioning_config :: "PushOptions \<Rightarrow> OpenVpnConfig \<Rightarrow> NetworkProvisioningConfig" where
  "build_provisioning_config p b = (let tp = nullish (or_opt (topology p) (oc_topology b)) Subnet in
     case ipv4_configuration p b tp of (ip4, mask4, gw4) \<Rightarrow> case ipv6_configuration p b of (ip6, prefix6, gw6) \<Rightarrow>
     \<lparr>nc_interface_name = Some (oc_dev b), nc_mtu = nullish (or_opt (tun_mtu p) (oc_tun_mtu b)) 1500, nc_topology = tp,
      nc_ipv4_address = ip4, nc_ipv4_netmask = mask4, nc_ipv4_gateway = gw4,
      nc_ipv6_address = ip6, nc_ipv6_prefix_len = prefix6, nc_ipv6_gateway = gw6,
      nc_dns_servers = fold push_new (oc_dns_servers b) (dns_servers p),
      nc_search_domains = fold push_new (oc_search_domains b) (search_domains p),
      nc_wins_servers = wins_servers p, nc_ntp_servers = ntp_servers p,
      nc_routes_v4 = fold push_new (oc_routes_v4 b) (routes_v4 p),
      nc_routes_v6 = fold push_new (oc_routes_v6 b) (routes_v6 p),
      nc_excluded_routes_v4 = [], nc_excluded_routes_v6 = [],
      nc_redirect_gateway = nullish (redirect_gateway p) (oc_redirect_gateway b),
      nc_block_outside_dns = (block_outside_dns p \<or> oc_block_outside_dns b),
      nc_mss_fix = or_opt (push_mss_fix p) (oc_mss_fix b), nc_peer_id = push_peer_id p,
      nc_ping_interval = or_opt (ping_interval p) (oc_ping_interval b),
      nc_ping_restart = or_opt (ping_restart p) (oc_ping_restart b), nc_custom_options = custom_options p\<rparr>)"

section \<open>Authentication\<close>

datatype AuthChallenge = CrV1 string string string string | WebSso string | UserPassRequired

text \<open>Texts as bytes, and a text behind its length with a zero at the end.\<close>

definition text_bytes :: "string \<Rightarrow> 8 word list" where
  "text_bytes s = map (\<lambda>c. of_nat (of_char c)) s"

definition write_auth_string :: "string \<Rightarrow> 8 word list" where
  "write_auth_string s = (if s = [] then [0, 0]
     else let len = (of_nat (length s + 1) :: 16 word) in [ucast (drop_bit 8 len), ucast len] @ text_bytes s @ [0])"

text \<open>The random bytes are an argument.\<close>

definition encode_key_method_2 ::
  "8 word list \<Rightarrow> string \<Rightarrow> string option \<Rightarrow> string option \<Rightarrow> string \<Rightarrow> 8 word list" where
  "encode_key_method_2 random options username password peer_info =
     [0, 0, 0, 0, 2] @ random @ write_auth_string options @ write_auth_string (nullish username []) @
     write_auth_string (nullish password []) @ write_auth_string peer_info"

definition key_method_options :: string where
  "key_method_options = ''V4,dev-type tun,link-mtu 1550,tun-mtu 1500,proto TCPv4_CLIENT,keydir 1,cipher AES-256-GCM,auth [null-digest],keysize 256,tls-auth,key-method 2,tls-client''"

definition key_method_peer_info :: string where
  "key_method_peer_info = ''IV_VER=3.0'' @ [CHR 0x0A] @ ''IV_PLAT=linux'' @ [CHR 0x0A] @ ''IV_NCP=2'' @ [CHR 0x0A] @
     ''IV_TCP=1'' @ [CHR 0x0A] @ ''IV_PROTO=30'' @ [CHR 0x0A] @
     ''IV_CIPHERS=AES-256-GCM:AES-128-GCM:CHACHA20-POLY1305'' @ [CHR 0x0A] @
     ''IV_GUI_VER=VPNHub-Daemon/0.1.2'' @ [CHR 0x0A]"

definition encode_credentials :: "8 word list \<Rightarrow> string \<Rightarrow> string \<Rightarrow> 8 word list" where
  "encode_credentials random username password =
     encode_key_method_2 random key_method_options (Some username) (Some password) key_method_peer_info"

definition encode_crv1_response :: "string \<Rightarrow> string \<Rightarrow> 8 word list" where
  "encode_crv1_response state_id token = text_bytes (''CRV1::'' @ state_id @ ''::'' @ token @ [CHR 0x0A])"

text \<open>\<open>s.splitn(n, c)\<close>.\<close>

fun splitn :: "nat \<Rightarrow> char \<Rightarrow> string \<Rightarrow> string list" where
  "splitn 0 c s = []"
| "splitn (Suc 0) c s = [s]"
| "splitn (Suc (Suc n)) c s = (case split_once c s of None \<Rightarrow> [s] | Some (a, b) \<Rightarrow> a # splitn (Suc n) c b)"

definition strip_prefix :: "string \<Rightarrow> string \<Rightarrow> string option" where
  "strip_prefix p s = (if startsWith s p then Some (drop (length p) s) else None)"

definition web_sso :: "string \<Rightarrow> AuthChallenge option" where
  "web_sso trimmed = (case strip_prefix ''OPEN_URL:'' trimmed of
     Some url \<Rightarrow> Some (WebSso (trim url))
   | None \<Rightarrow> map_option (\<lambda>url. WebSso (trim url)) (strip_prefix ''INFO_PRE:WEB_AUTH:'' trimmed))"

definition parse_challenge :: "string \<Rightarrow> AuthChallenge option" where
  "parse_challenge message = (let trimmed = trim message in
     case map_option (splitn 4 (CHR '':'')) (strip_prefix ''CRV1:'' trimmed) of
       Some [flags, state_id, username, prompt] \<Rightarrow> Some (CrV1 flags state_id username prompt)
     | _ \<Rightarrow> web_sso trimmed)"

section \<open>Splitting a push message\<close>

text \<open>A text without separators, quotes and backslashes, and without blanks at its ends.\<close>

definition plain_char :: "char \<Rightarrow> bool" where
  "plain_char c \<longleftrightarrow> c \<notin> {CHR 0x5C, CHR 0x22, CHR 0x27, CHR '','', CHR 0x0A, CHR 0x0D}"

definition plain_item :: "string \<Rightarrow> bool" where
  "plain_item s \<longleftrightarrow> s \<noteq> [] \<and> list_all plain_char s \<and> \<not> is_space (hd s) \<and> \<not> is_space (last s)"

lemma trim_ends: "s \<noteq> [] \<Longrightarrow> \<not> is_space (hd s) \<Longrightarrow> \<not> is_space (last s) \<Longrightarrow> trim s = s"
proof -
  assume s: "s \<noteq> []" "\<not> is_space (hd s)" "\<not> is_space (last s)"
  have "dropWhile is_space s = s" using s(1,2) by (cases s) simp_all
  moreover have "dropWhile is_space (rev s) = rev s" using s(1,3) by (cases s rule: rev_cases) simp_all
  ultimately show "trim s = s" by (simp add: trim_def)
qed

lemma plain_item_of: "plain_item s \<Longrightarrow> item_of s = [s]"
  by (auto simp: plain_item_def item_of_def trim_ends)

lemma split_items_plain:
  "list_all plain_char s \<Longrightarrow> split_items False False cur (s @ t) = split_items False False (cur @ s) t"
  by (induction s arbitrary: cur) (auto simp: plain_char_def)

lemma split_items_join:
  assumes "list_all plain_item items"
  shows "split_items False False [] (joinWith '','' items) = items"
  using assms
proof (induction items)
  case (Cons x xs)
  then have x: "list_all plain_char x" "item_of x = [x]" by (auto simp: plain_item_def plain_item_of)
  show ?case
  proof (cases xs)
    case Nil
    then show ?thesis using split_items_plain [OF x(1), of "[]" "[]"] x(2) by simp
  next
    case (Cons y ys)
    then show ?thesis using split_items_plain [OF x(1), of "[]" "CHR '','' # joinWith '','' xs"] x(2) Cons.IH Cons.prems by simp
  qed
qed (simp add: item_of_def trim_def)

lemma join_ends:
  "items \<noteq> [] \<Longrightarrow> list_all plain_item items \<Longrightarrow>
     joinWith '','' items \<noteq> [] \<and> hd (joinWith '','' items) = hd (hd items) \<and> last (joinWith '','' items) = last (last items)"
proof (induction items)
  case (Cons x xs)
  then show ?case by (cases xs) (auto simp: plain_item_def)
qed simp

lemma split_pushed_items:
  assumes "list_all plain_item items" and "items \<noteq> []"
  shows "split_push_reply_items (''PUSH_REPLY,'' @ joinWith '','' items) = items"
proof -
  let ?j = "joinWith '','' items"
  have j: "?j \<noteq> []" "hd ?j = hd (hd items)" "last ?j = last (last items)" using join_ends assms by auto
  have "plain_item (hd items)" "plain_item (last items)" using assms by (auto simp: list_all_iff)
  then have first: "\<not> is_space (hd ?j)" "plain_char (hd ?j)" and final: "\<not> is_space (last ?j)"
    using j by (auto simp: plain_item_def list_all_iff)
  have "trim (''PUSH_REPLY,'' @ ?j) = ''PUSH_REPLY,'' @ ?j"
    using j(1) final by (intro trim_ends) (simp_all add: is_space_def)
  moreover have "dropWhile (\<lambda>c. c \<in> {CHR '','', CHR '' '', CHR 0x09, CHR 0x0A, CHR 0x0D}) ?j = ?j"
    using j(1) first by (cases ?j) (auto simp: plain_char_def is_space_def)
  ultimately show ?thesis using split_items_join [OF assms(1)]
    by (simp add: split_push_reply_items_def startsWith_def)
qed

section \<open>Options as a server writes them\<close>

datatype pushed =
  PushedSubnet
| PushedIfconfig "32 word" "32 word"
| PushedGateway "32 word"
| PushedRoute "32 word" "32 word"
| PushedRedirect
| PushedDns "32 word"
| PushedDomain string
| PushedPing nat
| PushedPingRestart nat
| PushedPeerId nat

primrec pushed_words :: "pushed \<Rightarrow> string list" where
  "pushed_words PushedSubnet = [''topology'', ''subnet'']"
| "pushed_words (PushedIfconfig a m) = [''ifconfig'', show_ipv4 a, show_ipv4 m]"
| "pushed_words (PushedGateway g) = [''route-gateway'', show_ipv4 g]"
| "pushed_words (PushedRoute d m) = [''route'', show_ipv4 d, show_ipv4 m]"
| "pushed_words PushedRedirect = [''redirect-gateway'', ''def1'']"
| "pushed_words (PushedDns a) = [''dhcp-option'', ''DNS'', show_ipv4 a]"
| "pushed_words (PushedDomain s) = [''dhcp-option'', ''DOMAIN'', s]"
| "pushed_words (PushedPing n) = [''ping'', string_of_nat n]"
| "pushed_words (PushedPingRestart n) = [''ping-restart'', string_of_nat n]"
| "pushed_words (PushedPeerId n) = [''peer-id'', string_of_nat n]"

definition pushed_text :: "pushed list \<Rightarrow> string" where
  "pushed_text ps = ''PUSH_REPLY,'' @ joinWith '','' (map (\<lambda>p. joinWith '' '' (pushed_words p)) ps)"

text \<open>What each option is to change.\<close>

primrec pushed_meaning :: "pushed \<Rightarrow> PushOptions \<Rightarrow> PushOptions" where
  "pushed_meaning PushedSubnet opts = opts\<lparr>topology := Some Subnet\<rparr>"
| "pushed_meaning (PushedIfconfig a m) opts = opts\<lparr>ifconfig_v4 := Some (a, m)\<rparr>"
| "pushed_meaning (PushedGateway g) opts = opts\<lparr>route_gateway := Some g\<rparr>"
| "pushed_meaning (PushedRoute d m) opts = opts\<lparr>routes_v4 := routes_v4 opts @
     [\<lparr>destination = d, netmask_v4 = m, gateway = route_gateway opts, metric = route_metric opts\<rparr>]\<rparr>"
| "pushed_meaning PushedRedirect opts = opts\<lparr>redirect_gateway := Some (no_redirect\<lparr>enabled := True, def1 := True\<rparr>)\<rparr>"
| "pushed_meaning (PushedDns a) opts = opts\<lparr>dns_servers := push_new (V4 a) (dns_servers opts)\<rparr>"
| "pushed_meaning (PushedDomain s) opts = opts\<lparr>search_domains := push_new s (search_domains opts)\<rparr>"
| "pushed_meaning (PushedPing n) opts = opts\<lparr>ping_interval := Some n\<rparr>"
| "pushed_meaning (PushedPingRestart n) opts = opts\<lparr>ping_restart := Some n\<rparr>"
| "pushed_meaning (PushedPeerId n) opts = opts\<lparr>push_peer_id := Some n\<rparr>"

text \<open>Names without blanks and separators, numbers that fit their types.\<close>

definition plain_word :: "string \<Rightarrow> bool" where
  "plain_word s \<longleftrightarrow> s \<noteq> [] \<and> list_all (\<lambda>c. plain_char c \<and> \<not> is_space c) s"

primrec printable :: "pushed \<Rightarrow> bool" where
  "printable PushedSubnet = True"
| "printable (PushedIfconfig a m) = True"
| "printable (PushedGateway g) = True"
| "printable (PushedRoute d m) = True"
| "printable PushedRedirect = True"
| "printable (PushedDns a) = True"
| "printable (PushedDomain s) = plain_word s"
| "printable (PushedPing n) = (n \<le> u64_max)"
| "printable (PushedPingRestart n) = (n \<le> u64_max)"
| "printable (PushedPeerId n) = (n \<le> u32_max)"

lemma digit_plain: "is_digit c \<Longrightarrow> plain_char c \<and> \<not> is_space c"
  by (auto simp: is_digit_def plain_char_def is_space_def)

lemma plain_word_nat: "plain_word (string_of_nat n)"
  using string_of_nat_digits digit_plain by (fastforce simp: plain_word_def list_all_iff)

lemma plain_word_ipv4: "plain_word (show_ipv4 a)"
proof -
  have "list_all (\<lambda>c. plain_char c \<and> \<not> is_space c) (string_of_nat n)" for n
    using plain_word_nat [of n] by (simp add: plain_word_def)
  moreover have "plain_char (CHR ''.'')" "\<not> is_space (CHR ''.'')" by (simp_all add: plain_char_def is_space_def)
  ultimately show ?thesis by (simp add: plain_word_def show_ipv4_def)
qed

lemma plain_words_join:
  assumes "list_all plain_word ws" and "ws \<noteq> []"
  shows "plain_item (joinWith '' '' ws)" and "split_whitespace (joinWith '' '' ws) = ws"
proof -
  have blank: "plain_char (CHR '' '')" by (simp add: plain_char_def)
  show "plain_item (joinWith '' '' ws)"
    using assms
  proof (induction ws)
    case (Cons x xs)
    then show ?case by (cases xs) (auto simp: plain_item_def plain_word_def list_all_iff blank)
  qed simp
  show "split_whitespace (joinWith '' '' ws) = ws"
    using assms by (intro split_whitespace_unwords) (auto simp: plain_word_def list_all_iff)
qed

lemma pushed_words_plain: "printable p \<Longrightarrow> list_all plain_word (pushed_words p) \<and> pushed_words p \<noteq> []"
  by (cases p) (simp_all add: plain_word_ipv4 plain_word_nat, simp_all add: plain_word_def plain_char_def is_space_def)

lemma parse_uint_show: "n \<le> bound \<Longrightarrow> parse_uint bound (string_of_nat n) = Some n"
proof -
  assume "n \<le> bound"
  have d: "all_digits (string_of_nat n)" by (auto simp: all_digits_def list_all_iff dest: string_of_nat_digits)
  then have "hd (string_of_nat n) \<noteq> CHR ''+''" by (cases "string_of_nat n") (auto simp: all_digits_def is_digit_def)
  moreover have "parse_digits (string_of_nat n) = n" by simp
  ultimately show ?thesis using d \<open>n \<le> bound\<close> by (cases "string_of_nat n") (auto simp: parse_uint_def)
qed

lemmas option_defs = apply_option_def push_topology_def push_ifconfig_def push_route_def push_dhcp_option_def
  arg_at_def number_arg_def or_opt_def parse_ip_def from_args_def redirect_flag_def no_redirect_def

lemma apply_pushed: "printable p \<Longrightarrow> apply_item (joinWith '' '' (pushed_words p)) opts = pushed_meaning p opts"
  using plain_words_join(2) [of "pushed_words p"] pushed_words_plain [of p]
  by (cases p) (simp_all add: apply_item_def option_defs parse_show_ipv4 parse_uint_show toLowerCase_def lower_char_def
      toUpperCase_def upper_char_def)

lemma fold_items: "list_all printable ps \<Longrightarrow>
    fold apply_item (map (\<lambda>p. joinWith '' '' (pushed_words p)) ps) opts = fold pushed_meaning ps opts"
  by (induction ps arbitrary: opts) (simp_all add: apply_pushed)

lemma plain_pushed: "list_all printable ps \<Longrightarrow> list_all plain_item (map (\<lambda>p. joinWith '' '' (pushed_words p)) ps)"
  by (induction ps) (auto dest: pushed_words_plain intro: plain_words_join(1))

text \<open>
  The options that a server writes into a push message are read as they are meant, one after the other: addresses,
  routes with the gateway pushed before them, name servers and domains without repetition, and numbers.
\<close>

lemma pushed_options_read:
  assumes "list_all printable ps" and "ps \<noteq> []"
  shows "parse_push_reply (pushed_text ps) = fold pushed_meaning ps no_push_options"
  using split_pushed_items [OF plain_pushed [OF assms(1)]] assms fold_items [OF assms(1)]
  by (simp add: parse_push_reply_def pushed_text_def)

lemma pushed_options_example:
  "push_peer_id (parse_push_reply (pushed_text [PushedRoute 0x0A000000 0xFF000000, PushedPeerId 7])) = Some 7"
  using pushed_options_read [of "[PushedRoute 0x0A000000 0xFF000000, PushedPeerId 7]"] by simp

section \<open>The terminator\<close>

primrec numeric :: "pushed \<Rightarrow> bool" where
  "numeric PushedSubnet = False"
| "numeric (PushedIfconfig a m) = False"
| "numeric (PushedGateway g) = False"
| "numeric (PushedRoute d m) = False"
| "numeric PushedRedirect = False"
| "numeric (PushedDns a) = False"
| "numeric (PushedDomain s) = False"
| "numeric (PushedPing n) = True"
| "numeric (PushedPingRestart n) = True"
| "numeric (PushedPeerId n) = True"

lemma no_number: "parse_uint bound (string_of_nat n @ [CHR 0x00]) = None"
  by (cases "string_of_nat n") (auto simp: parse_uint_def all_digits_def is_digit_def)

lemma terminated_words:
  assumes "numeric p" and "printable p"
  shows "plain_item (joinWith '' '' (pushed_words p) @ [CHR 0x00])"
    and "apply_item (joinWith '' '' (pushed_words p) @ [CHR 0x00]) opts = opts"
proof -
  have nul: "plain_char (CHR 0x00)" "\<not> is_space (CHR 0x00)" by (simp_all add: plain_char_def is_space_def)
  show "plain_item (joinWith '' '' (pushed_words p) @ [CHR 0x00])"
    using plain_words_join(1) pushed_words_plain [OF assms(2)] nul by (auto simp: plain_item_def)
  obtain verb n where p: "pushed_words p = [verb, string_of_nat n]" "verb \<in> {''ping'', ''ping-restart'', ''peer-id''}"
    using assms(1) by (cases p) auto
  have "plain_word (string_of_nat n @ [CHR 0x00])" using plain_word_nat [of n] nul by (simp add: plain_word_def)
  moreover have "plain_word verb" using pushed_words_plain [OF assms(2)] p(1) by simp
  ultimately have "split_whitespace (joinWith '' '' [verb, string_of_nat n @ [CHR 0x00]]) = [verb, string_of_nat n @ [CHR 0x00]]"
    by (intro plain_words_join(2)) simp_all
  then have "apply_item (joinWith '' '' (pushed_words p) @ [CHR 0x00]) opts =
      apply_option (toLowerCase verb) [string_of_nat n @ [CHR 0x00]] opts"
    by (simp add: apply_item_def p(1))
  moreover have "number_arg bound [string_of_nat n @ [CHR 0x00]] = None" for bound
    by (simp add: number_arg_def arg_at_def no_number)
  moreover have "toLowerCase verb = verb" using p(2) by (auto simp: toLowerCase_def lower_char_def)
  ultimately show "apply_item (joinWith '' '' (pushed_words p) @ [CHR 0x00]) opts = opts"
    using p(2) by (elim insertE) (simp_all add: apply_option_def or_opt_def)
qed

lemma join_snoc: "xs \<noteq> [] \<Longrightarrow> joinWith sep (xs @ [x]) = joinWith sep xs @ sep @ x"
  by (induction sep xs rule: joinWith.induct) auto

lemma join_append_last: "joinWith sep (xs @ [x]) @ y = joinWith sep (xs @ [x @ y])"
  by (cases "xs = []") (simp_all add: join_snoc)

text \<open>
  Property C29. A push message that ends with the zero byte with which OpenVPN ends its control messages loses its last option when this is one of the numbers ping, ping-restart and peer-id: the byte is taken for a part of the
  number.
\<close>

theorem terminator_drops_last_option:
  assumes "list_all printable ps" and "printable p" and "numeric p"
  shows "parse_push_reply (pushed_text (ps @ [p]) @ [CHR 0x00]) = fold pushed_meaning ps no_push_options"
proof -
  let ?t = "map (\<lambda>p. joinWith '' '' (pushed_words p)) ps" and ?l = "joinWith '' '' (pushed_words p) @ [CHR 0x00]"
  have "pushed_text (ps @ [p]) @ [CHR 0x00] = ''PUSH_REPLY,'' @ joinWith '','' (?t @ [?l])"
    using join_append_last [of "'',''" ?t "joinWith '' '' (pushed_words p)" "[CHR 0x00]"] by (simp add: pushed_text_def)
  moreover have "list_all plain_item (?t @ [?l])"
    using plain_pushed [OF assms(1)] terminated_words(1) [OF assms(3,2)] by simp
  ultimately have "split_push_reply_items (pushed_text (ps @ [p]) @ [CHR 0x00]) = ?t @ [?l]"
    using split_pushed_items by simp
  then show ?thesis
    using fold_items [OF assms(1)] terminated_words(2) [OF assms(3,2)] by (simp add: parse_push_reply_def)
qed

theorem terminator_drops_last_option_witness:
  "push_peer_id (parse_push_reply (pushed_text ([PushedSubnet] @ [PushedPeerId 7]) @ [CHR 0x00])) = None"
  using terminator_drops_last_option [of "[PushedSubnet]" "PushedPeerId 7"] by (simp add: no_push_options_def)

section \<open>Configuration\<close>

lemma set_push_new: "set (fold push_new xs ys) = set ys \<union> set xs" "distinct ys \<Longrightarrow> distinct (fold push_new xs ys)"
  by (induction xs arbitrary: ys) (auto simp: push_new_def)

text \<open>Pushed values take precedence, lists are united without repetition.\<close>

lemma provisioning_config:
  "set (nc_routes_v4 (build_provisioning_config p b)) = set (routes_v4 p) \<union> set (oc_routes_v4 b)"
  "set (nc_dns_servers (build_provisioning_config p b)) = set (dns_servers p) \<union> set (oc_dns_servers b)"
  "ifconfig_v4 p = Some (ip, m) \<Longrightarrow> nc_ipv4_address (build_provisioning_config p b) = Some ip"
  "ifconfig_v4 p = Some (ip, m) \<Longrightarrow> topology p = Some Subnet \<Longrightarrow> nc_ipv4_netmask (build_provisioning_config p b) = Some m"
  by (auto simp: build_provisioning_config_def Let_def set_push_new ipv4_configuration_def or_opt_def split: prod.splits)

section \<open>Authentication messages\<close>

text \<open>The texts of the key exchange come back: behind its length, a text ends with its zero byte.\<close>

lemma auth_string_length:
  assumes "s \<noteq> []" and "length s < 65535"
  shows "unat (of_nat (length s + 1) :: 16 word) = length (drop 2 (write_auth_string s))"
proof -
  have "unat (of_nat (length s + 1) :: 16 word) = length s + 1"
    using assms(2) by (subst unat_of_nat) (simp add: take_bit_eq_mod)
  then show ?thesis using assms(1) by (simp add: write_auth_string_def Let_def text_bytes_def)
qed

text \<open>A challenge is read field by field; the prompt may contain colons.\<close>

lemma challenge_read:
  assumes "CHR '':'' \<notin> set flags" "CHR '':'' \<notin> set state_id" "CHR '':'' \<notin> set username"
    and "prompt \<noteq> []" "\<not> is_space (last prompt)"
  shows "parse_challenge (''CRV1:'' @ flags @ '':'' @ state_id @ '':'' @ username @ '':'' @ prompt) =
    Some (CrV1 flags state_id username prompt)"
proof -
  let ?r = "flags @ '':'' @ state_id @ '':'' @ username @ '':'' @ prompt"
  have "trim (''CRV1:'' @ ?r) = ''CRV1:'' @ ?r" using assms(4,5) by (intro trim_ends) (simp_all add: is_space_def)
  moreover have "splitn 4 (CHR '':'') ?r = [flags, state_id, username, prompt]"
    using assms(1-3) by (simp add: numeral_eq_Suc split_once_append)
  ultimately show ?thesis by (simp add: parse_challenge_def strip_prefix_def startsWith_def Let_def)
qed

end
