(* ===== verification/Ovpn_Data.thy ===== *)
theory Ovpn_Data
  imports Ovpn_Mss Ovpn_Messages
begin

text \<open>
  The data channel of the OpenVPN engine: the key slots of \<^verbatim>\<open>ovpn-protocol/src/key_slots.rs\<close> and, of \<^verbatim>\<open>engine.rs\<close>, what
  happens to a packet from the tunnel device and to a data packet from the network. A cipher is a pair of
  functions, the implementations of \<^verbatim>\<open>SymmCipher\<close> being third-party code; what is needed of them is a
  hypothesis of the property that needs it.
\<close>

section \<open>Key slots\<close>

record SymmCipher =
  encrypt_in_place :: "bytes \<Rightarrow> bytes \<Rightarrow> bytes \<Rightarrow> CryptoError + bytes \<times> bytes"
  decrypt_in_place :: "bytes \<Rightarrow> bytes \<Rightarrow> bytes \<Rightarrow> bytes \<Rightarrow> CryptoError + bytes"

record KeySlot =
  ks_key_id :: "8 word"
  tx_cipher :: SymmCipher
  rx_cipher :: SymmCipher
  tx_implicit_iv :: bytes
  rx_implicit_iv :: bytes
  anti_replay :: AntiReplayWindow
  tx_packet_id :: "32 word"
  created_at :: nat
  bytes_sent :: nat
  bytes_received :: nat

record SessionKeySet =
  sk_key_id :: "8 word"
  tx_cipher_key :: bytes
  tx_hmac_key :: bytes
  rx_cipher_key :: bytes
  rx_hmac_key :: bytes

definition implicit_iv :: "bytes \<Rightarrow> bytes" where
  "implicit_iv hmac_key = (if length hmac_key \<ge> 8 then take 8 hmac_key else replicate 8 0)"

text \<open>\<open>create\<close> is the constructor of the suite's cipher.\<close>

definition key_slot_new ::
  "(bytes \<Rightarrow> CryptoError + SymmCipher) \<Rightarrow> SessionKeySet \<Rightarrow> nat \<Rightarrow> ProtocolError + KeySlot" where
  "key_slot_new create keys now = (case create (tx_cipher_key keys) of
     Inl e \<Rightarrow> Inl (CryptoFailure e)
   | Inr tx \<Rightarrow> (case create (rx_cipher_key keys) of
       Inl e \<Rightarrow> Inl (CryptoFailure e)
     | Inr rx \<Rightarrow> Inr \<lparr>ks_key_id = sk_key_id keys, tx_cipher = tx, rx_cipher = rx,
         tx_implicit_iv = implicit_iv (tx_hmac_key keys), rx_implicit_iv = implicit_iv (rx_hmac_key keys),
         anti_replay = window_new, tx_packet_id = 1, created_at = now, bytes_sent = 0, bytes_received = 0\<rparr>))"

definition next_tx_packet_id :: "KeySlot \<Rightarrow> 32 word \<times> KeySlot" where
  "next_tx_packet_id s = (tx_packet_id s, s\<lparr>tx_packet_id := tx_packet_id s + 1\<rparr>)"

record KeySlotManager =
  primary :: "KeySlot option"
  secondary :: "KeySlot option"

definition install_new_key ::
  "(bytes \<Rightarrow> CryptoError + SymmCipher) \<Rightarrow> SessionKeySet \<Rightarrow> nat \<Rightarrow> KeySlotManager \<Rightarrow>
     (ProtocolError + unit) \<times> KeySlotManager" where
  "install_new_key create keys now m = (case key_slot_new create keys now of
     Inl e \<Rightarrow> (Inl e, m)
   | Inr slot \<Rightarrow> (Inr (), m\<lparr>secondary := (case primary m of Some old \<Rightarrow> Some old | None \<Rightarrow> secondary m),
       primary := Some slot\<rparr>))"

definition get_rx_slot :: "8 word \<Rightarrow> KeySlotManager \<Rightarrow> KeySlot option" where
  "get_rx_slot key_id m = (case primary m of
     Some p \<Rightarrow> if ks_key_id p = key_id then Some p
       else (case secondary m of Some s \<Rightarrow> if ks_key_id s = key_id then Some s else None | None \<Rightarrow> None)
   | None \<Rightarrow> (case secondary m of Some s \<Rightarrow> if ks_key_id s = key_id then Some s else None | None \<Rightarrow> None))"

text \<open>Writing through the reference that \<open>get_rx_slot\<close> returned.\<close>

definition put_rx_slot :: "8 word \<Rightarrow> KeySlot \<Rightarrow> KeySlotManager \<Rightarrow> KeySlotManager" where
  "put_rx_slot key_id slot m = (case primary m of
     Some p \<Rightarrow> if ks_key_id p = key_id then m\<lparr>primary := Some slot\<rparr> else m\<lparr>secondary := Some slot\<rparr>
   | None \<Rightarrow> m\<lparr>secondary := Some slot\<rparr>)"

definition retire_secondary :: "KeySlotManager \<Rightarrow> KeySlotManager" where
  "retire_secondary m = m\<lparr>secondary := None\<rparr>"

section \<open>Data path\<close>

datatype OutputAction =
  SendToNetwork bytes
| SendToTun bytes
| ConfigureNetwork NetworkProvisioningConfig
| RequestAuthChallenge AuthChallenge
| StateChange EngineState
| CloseSession string

definition KEEPALIVE_MAGIC :: bytes where
  "KEEPALIVE_MAGIC = [0x2a, 0x18, 0x7b, 0xf3, 0x64, 0x1e, 0xb4, 0xcb, 0x07, 0xed, 0x2d, 0x0a, 0x98, 0x1f, 0xc7, 0x48]"

definition EXPLICIT_EXIT_NOTIFY_MAGIC :: bytes where
  "EXPLICIT_EXIT_NOTIFY_MAGIC = [0x28, 0x7f, 0x34, 0x6b, 0xd4, 0xef, 0x7a, 0x81, 0x2d, 0x56, 0xb8, 0xd3, 0xaf, 0xc5, 0x45, 0x9c]"

text \<open>The fields of the engine that the data channel uses; the control channel extends the record.\<close>

record ProtocolEngine =
  eng_state :: EngineState
  eng_peer_id :: "32 word option"
  key_manager :: KeySlotManager
  eng_outbox :: "OutputAction list"
  mss_fix :: "16 word option"
  eng_last_ping_sent :: nat

definition deliverable :: "bytes \<Rightarrow> bool" where
  "deliverable b \<longleftrightarrow> \<not> (length b \<ge> 16 \<and> take 16 b = KEEPALIVE_MAGIC) \<and>
     \<not> (length b \<ge> 16 \<and> take 16 b = EXPLICIT_EXIT_NOTIFY_MAGIC) \<and> length b \<ge> 20 \<and>
     drop_bit 4 (b ! 0) \<in> {4, 6}"

definition process_incoming_data_packet ::
  "8 word \<Rightarrow> bytes \<Rightarrow> 'a ProtocolEngine_scheme \<Rightarrow> (ProtocolError + unit) \<times> 'a ProtocolEngine_scheme" where
  "process_incoming_data_packet key_id packet e = (case decode_data packet of
     Inl err \<Rightarrow> (Inl err, e)
   | Inr (op, kid, peer, packet_id, payload_with_tag) \<Rightarrow> (case get_rx_slot key_id (key_manager e) of
       None \<Rightarrow> (Inl (InvalidFraming (''No key slot for key_id '' @ string_of_nat (unat key_id))), e)
     | Some slot \<Rightarrow> (case check_and_update (anti_replay slot) (ucast packet_id) of (verdict, w) \<Rightarrow>
         let put = (\<lambda>s. e\<lparr>key_manager := put_rx_slot key_id s (key_manager e)\<rparr>);
             slot1 = slot\<lparr>anti_replay := w\<rparr> in
         (case verdict of
            Inl err \<Rightarrow> (Inl (CryptoFailure err), put slot1)
          | Inr _ \<Rightarrow>
              if length payload_with_tag < 16
              then (Inl (InvalidFraming ''Data packet payload too short for AEAD tag''), put slot1)
              else let nonce = be_bytes32 packet_id @ rx_implicit_iv slot;
                       aad = take (length packet - length payload_with_tag) packet in
                (case decrypt_in_place (rx_cipher slot) nonce aad (drop 16 payload_with_tag) (take 16 payload_with_tag) of
                   Inl err \<Rightarrow> (Inl (CryptoFailure err), put slot1)
                 | Inr plain \<Rightarrow>
                     let e2 = put (slot1\<lparr>bytes_received := bytes_received slot1 + length plain\<rparr>) in
                     (Inr (), if deliverable plain then e2\<lparr>eng_outbox := eng_outbox e2 @ [SendToTun plain]\<rparr> else e2))))))"

text \<open>Encrypting one payload with the primary slot, as for packets of the device and for pings.\<close>

definition seal :: "bytes \<Rightarrow> KeySlot \<Rightarrow> 32 word option \<Rightarrow> (ProtocolError + bytes) \<times> KeySlot" where
  "seal plain slot peer_id = (case next_tx_packet_id slot of (packet_id, slot1) \<Rightarrow>
     let op = (if peer_id \<noteq> None then DataV2 else DataV1);
         nonce = be_bytes32 packet_id @ tx_implicit_iv slot;
         header = encode_header op (ks_key_id slot) peer_id packet_id in
     (case encrypt_in_place (tx_cipher slot) nonce header plain of
        Inl err \<Rightarrow> (Inl (CryptoFailure err), slot1)
      | Inr (tag, ciphertext) \<Rightarrow>
          (Inr (header @ tag @ ciphertext), slot1\<lparr>bytes_sent := bytes_sent slot1 + length ciphertext\<rparr>)))"

datatype 'e tun_outcome = TunPanics | TunReturns "ProtocolError + unit" 'e

definition process_tun_packet ::
  "bytes \<Rightarrow> 'a ProtocolEngine_scheme \<Rightarrow> 'a ProtocolEngine_scheme tun_outcome option" where
  "process_tun_packet packet e =
     (if eng_state e \<noteq> EsConnected \<and> eng_state e \<noteq> EsRekeying then Some (TunReturns (Inr ()) e)
      else case (case mss_fix e of None \<Rightarrow> Some Unclamped | Some max_mss \<Rightarrow> clamp_tcp_mss packet max_mss) of
        None \<Rightarrow> None
      | Some IndexPanic \<Rightarrow> Some TunPanics
      | Some clamped \<Rightarrow>
          let plain = (case clamped of Clamped p \<Rightarrow> p | _ \<Rightarrow> packet) in
          (case primary (key_manager e) of
             None \<Rightarrow> Some (TunReturns (Inl (InvalidFraming ''No active TX key slot'')) e)
           | Some slot \<Rightarrow> (case seal plain slot (eng_peer_id e) of
               (r, slot1) \<Rightarrow>
                 let e1 = e\<lparr>key_manager := (key_manager e)\<lparr>primary := Some slot1\<rparr>\<rparr> in
                 (case r of
                    Inl err \<Rightarrow> Some (TunReturns (Inl err) e1)
                  | Inr out_frame \<Rightarrow>
                      Some (TunReturns (Inr ()) (e1\<lparr>eng_outbox := eng_outbox e1 @ [SendToNetwork out_frame]\<rparr>))))))"

definition send_keepalive_ping ::
  "nat \<Rightarrow> 'a ProtocolEngine_scheme \<Rightarrow> (ProtocolError + unit) \<times> 'a ProtocolEngine_scheme" where
  "send_keepalive_ping now e =
     (if eng_state e \<noteq> EsConnected \<and> eng_state e \<noteq> EsRekeying then (Inr (), e)
      else case primary (key_manager e) of
        None \<Rightarrow> (Inr (), e)
      | Some slot \<Rightarrow> (case seal KEEPALIVE_MAGIC slot (eng_peer_id e) of (r, slot1) \<Rightarrow>
          let e1 = e\<lparr>key_manager := (key_manager e)\<lparr>primary := Some slot1\<rparr>\<rparr> in
          (case r of
             Inl err \<Rightarrow> (Inl err, e1)
           | Inr out_frame \<Rightarrow> (Inr (), e1\<lparr>eng_last_ping_sent := now, eng_outbox := eng_outbox e1 @ [SendToNetwork out_frame]\<rparr>))))"

section \<open>From one engine to the other\<close>

lemma get_put_rx_slot:
  "get_rx_slot k m = Some s \<Longrightarrow> ks_key_id s' = k \<Longrightarrow> get_rx_slot k (put_rx_slot k s' m) = Some s'"
  by (auto simp: get_rx_slot_def put_rx_slot_def split: option.splits if_splits)

lemma rx_slot_key: "get_rx_slot k m = Some s \<Longrightarrow> ks_key_id s = k"
  by (auto simp: get_rx_slot_def split: option.splits if_splits)

lemma decode_sealed:
  assumes "key_id < 8" and "\<forall>p. peer_id = Some p \<longrightarrow> p < 2 ^ 24"
  shows "\<exists>op peer. decode_data (encode_header (if peer_id \<noteq> None then DataV2 else DataV1) key_id peer_id packet_id @ rest) =
    Inr (op, key_id, peer, packet_id, rest)"
proof (cases peer_id)
  case None
  then show ?thesis using data_header_roundtrip [of key_id DataV1 0 packet_id rest] assms(1)
    by (simp add: is_data_def encode_header_def)
next
  case (Some p)
  then show ?thesis using data_header_roundtrip [of key_id DataV2 p packet_id rest] assms by (simp add: is_data_def)
qed

lemma window_accepts: "check_only w s = Inr () \<Longrightarrow> \<exists>w'. check_and_update w s = (Inr (), w')"
  using check_only_agrees [of w s] by (metis prod.collapse)

text \<open>What a sealed frame becomes at the other end.\<close>

lemma sealed_received:
  assumes "seal plain s peer_id = (Inr f, s1)" and "get_rx_slot (ks_key_id s) (key_manager b) = Some r"
    and "ks_key_id s < 8" and "\<forall>p. peer_id = Some p \<longrightarrow> p < 2 ^ 24"
    and "\<forall>nonce aad p tag c. encrypt_in_place (tx_cipher s) nonce aad p = Inr (tag, c) \<longrightarrow>
      length tag = 16 \<and> decrypt_in_place (rx_cipher r) nonce aad c tag = Inr p"
    and "rx_implicit_iv r = tx_implicit_iv s" and "check_only (anti_replay r) (ucast (tx_packet_id s)) = Inr ()"
  shows "\<exists>b'. process_incoming_data_packet (ks_key_id s) f b = (Inr (), b') \<and>
    eng_outbox b' = eng_outbox b @ (if deliverable plain then [SendToTun plain] else [])"
proof -
  let ?op = "if peer_id \<noteq> None then DataV2 else DataV1"
  let ?h = "encode_header ?op (ks_key_id s) peer_id (tx_packet_id s)"
  let ?nonce = "be_bytes32 (tx_packet_id s) @ tx_implicit_iv s"
  obtain tag c where enc: "encrypt_in_place (tx_cipher s) ?nonce ?h plain = Inr (tag, c)" and f: "f = ?h @ tag @ c"
    using assms(1) by (auto simp: seal_def next_tx_packet_id_def Let_def split: sum.splits prod.splits)
  have dec: "length tag = 16" "decrypt_in_place (rx_cipher r) ?nonce ?h c tag = Inr plain" using assms(5) enc by auto
  obtain op peer where d: "decode_data f = Inr (op, ks_key_id s, peer, tx_packet_id s, tag @ c)"
    using decode_sealed [OF assms(3,4), of "tx_packet_id s" "tag @ c"] unfolding f by blast
  obtain w' where w: "check_and_update (anti_replay r) (ucast (tx_packet_id s)) = (Inr (), w')"
    using window_accepts [OF assms(7)] by blast
  have "take (length f - length (tag @ c)) f = ?h" unfolding f by simp
  then show ?thesis using d w dec assms(2,6)
    by (simp add: process_incoming_data_packet_def Let_def)
qed

text \<open>
  Property C25. A packet of the tunnel device that one engine sends as a data packet is, clamped or not, handed to the device of
  the other engine, if the ciphers of the two slots are inverse to each other, the slots have the
  same number and salt, the receiver's window has not seen the number, the key id is below 8 and the peer number below 2^24, and the packet is
  one that is handed on: twenty bytes or more, with the version number 4 or 6 of an IP packet.
\<close>

theorem tunnel_packet_arrives:
  assumes "process_tun_packet packet a = Some (TunReturns (Inr ()) a')"
    and "eng_outbox a' = eng_outbox a @ [SendToNetwork f]"
    and "primary (key_manager a) = Some s" and "get_rx_slot (ks_key_id s) (key_manager b) = Some r"
    and "ks_key_id s < 8" and "\<forall>p. eng_peer_id a = Some p \<longrightarrow> p < 2 ^ 24"
    and "\<forall>nonce aad p tag c. encrypt_in_place (tx_cipher s) nonce aad p = Inr (tag, c) \<longrightarrow>
      length tag = 16 \<and> decrypt_in_place (rx_cipher r) nonce aad c tag = Inr p"
    and "rx_implicit_iv r = tx_implicit_iv s" and "check_only (anti_replay r) (ucast (tx_packet_id s)) = Inr ()"
  shows "\<exists>plain b'. (plain = packet \<or> (\<exists>m. mss_fix a = Some m \<and> clamp_tcp_mss packet m = Some (Clamped plain))) \<and>
    process_incoming_data_packet (ks_key_id s) f b = (Inr (), b') \<and>
    eng_outbox b' = eng_outbox b @ (if deliverable plain then [SendToTun plain] else [])"
proof -
  obtain plain s1 where "plain = packet \<or> (\<exists>m. mss_fix a = Some m \<and> clamp_tcp_mss packet m = Some (Clamped plain))"
    and "seal plain s (eng_peer_id a) = (Inr f, s1)"
    using assms(1-3) by (fastforce simp: process_tun_packet_def Let_def split: if_splits option.splits mss_outcome.splits
        prod.splits sum.splits)
  then show ?thesis using sealed_received [OF _ assms(4-9)] by blast
qed

section \<open>One forged packet\<close>

lemma refused:
  assumes "decode_data p = Inr (op, k, peer, pid, payload)" and "get_rx_slot k (key_manager e) = Some slot"
    and "\<exists>err w'. check_and_update (anti_replay slot) (ucast pid) = (Inl err, w')"
  shows "\<exists>err e'. process_incoming_data_packet k p e = (Inl (CryptoFailure err), e') \<and> eng_outbox e' = eng_outbox e"
  using assms by (auto simp: process_incoming_data_packet_def Let_def)

text \<open>
  The window is updated before the packet is authenticated. After one forged packet with the highest number, which the
  cipher refuses, the engine would refuse every genuine packet of that key whose number is not among the
  last 128 of the whole range. The client session does not go on after such an error; another user of the engine may.
\<close>

theorem forged_packet_silences_tunnel:
  assumes "get_rx_slot k (key_manager e) = Some slot" and "k < 8" and "max_seq (anti_replay slot) < 0xFFFFFFFF"
    and "length garbage \<ge> 16" and "forged = encode_header DataV1 k None 0xFFFFFFFF @ garbage"
    and "decrypt_in_place (rx_cipher slot) (be_bytes32 0xFFFFFFFF @ rx_implicit_iv slot) (take 5 forged) (drop 16 garbage)
      (take 16 garbage) = Inl AeadAuthenticationFailed"
  shows "\<exists>e'. process_incoming_data_packet k forged e = (Inl (CryptoFailure AeadAuthenticationFailed), e') \<and>
    eng_outbox e' = eng_outbox e \<and>
    (\<forall>genuine op peer pid payload. decode_data genuine = Inr (op, k, peer, pid, payload) \<and> pid < 0xFFFFFF80 \<longrightarrow>
       (\<exists>err e''. process_incoming_data_packet k genuine e' = (Inl (CryptoFailure err), e'') \<and> eng_outbox e'' = eng_outbox e))"
proof -
  obtain op peer where d: "decode_data forged = Inr (op, k, peer, 0xFFFFFFFF, garbage)"
    using decode_sealed [of k None "0xFFFFFFFF" garbage] assms(2,5) by auto
  let ?w = "snd (check_and_update (anti_replay slot) 0xFFFFFFFF)"
  have w: "fst (check_and_update (anti_replay slot) 0xFFFFFFFF) = Inr ()" "initialized ?w" "max_seq ?w = 0xFFFFFFFF"
    using assms(3) by (simp_all add: check_and_update_def)
  let ?slot = "slot\<lparr>anti_replay := ?w\<rparr>"
  let ?e = "e\<lparr>key_manager := put_rx_slot k ?slot (key_manager e)\<rparr>"
  have len: "length forged - length garbage = 5" using assms(5) by (simp add: encode_header_def)
  have first: "process_incoming_data_packet k forged e = (Inl (CryptoFailure AeadAuthenticationFailed), ?e)"
    using d w(1) assms(1,4,6) len
    by (auto simp: process_incoming_data_packet_def Let_def split: prod.split)
  have rx: "get_rx_slot k (key_manager ?e) = Some ?slot"
    using get_put_rx_slot [OF assms(1), of ?slot] rx_slot_key [OF assms(1)] by simp
  have late: "\<exists>err w'. check_and_update ?w (ucast pid) = (Inl err, w')" if "pid < 0xFFFFFF80" for pid :: "32 word"
  proof -
    have pid: "unat (ucast pid :: 64 word) = unat pid" "unat pid < 0xFFFFFF80"
      using that unsigned_less [of pid, where 'a = nat] by (simp_all add: unsigned_ucast_eq take_bit_nat_eq_self word_less_nat_alt)
    then have le: "ucast pid \<le> (0xFFFFFFFF :: 64 word)" by (simp add: word_le_nat_alt)
    have "(128 :: 64 word) \<le> 0xFFFFFFFF - ucast pid" using pid unat_diff [OF le] by (simp add: word_le_nat_alt)
    then show ?thesis using w(2,3) le by (simp add: check_and_update_def WINDOW_SIZE_def not_less [symmetric])
  qed
  show ?thesis
  proof (intro exI [of _ ?e] conjI allI impI)
    fix genuine op peer pid payload
    assume "decode_data genuine = Inr (op, k, peer, pid, payload) \<and> pid < 0xFFFFFF80"
    then show "\<exists>err e''. process_incoming_data_packet k genuine ?e = (Inl (CryptoFailure err), e'') \<and> eng_outbox e'' = eng_outbox e"
      using refused [of genuine op k peer pid payload ?e ?slot] rx late by simp
  qed (use first in simp_all)
qed

section \<open>Nonces\<close>

fun nonces :: "nat \<Rightarrow> KeySlot \<Rightarrow> bytes list" where
  "nonces 0 s = []"
| "nonces (Suc n) s = (be_bytes32 (fst (next_tx_packet_id s)) @ tx_implicit_iv s) # nonces n (snd (next_tx_packet_id s))"

text \<open>
  The packets of a slot have different nonces up to 4294967296 packets and not beyond: the number wraps around and
  nothing stops the slot from sending.
\<close>

theorem nonces_repeat_after_wrap: "distinct (nonces n s) \<longleftrightarrow> n \<le> 2 ^ 32"
proof -
  have all: "nonces n s = map (\<lambda>i. be_bytes32 (tx_packet_id s + of_nat i) @ tx_implicit_iv s) [0..<n]" for n s
  proof (induction n arbitrary: s)
    case (Suc n)
    show ?case
      by (simp add: Suc.IH upt_conv_Cons map_Suc_upt [symmetric] next_tx_packet_id_def comp_def add.assoc del: upt_Suc)
  qed simp
  have inj: "(be_bytes32 a = be_bytes32 b) = (a = b)" for a b by (metis be_value_bytes32 word_unat_eq_iff)
  have nums: "x = y" if "(of_nat x :: 32 word) = of_nat y" "x < 2 ^ 32" "y < 2 ^ 32" for x y
    using that by (metis LENGTH_32(1) unat_small)
  have zero: "(of_nat (2 ^ 32) :: 32 word) = 0" by simp
  show ?thesis
  proof
    assume "n \<le> 2 ^ 32"
    then show "distinct (nonces n s)" unfolding all distinct_map
      by (auto simp: inj_on_def inj intro!: nums)
  next
    assume d: "distinct (nonces n s)"
    show "n \<le> 2 ^ 32"
    proof (rule ccontr)
      assume "\<not> n \<le> 2 ^ 32"
      then have n: "2 ^ 32 < length (nonces n s)" "0 < length (nonces n s)" unfolding all by simp_all
      then have "nonces n s ! (2 ^ 32) = be_bytes32 (tx_packet_id s + of_nat (2 ^ 32)) @ tx_implicit_iv s"
        unfolding all by simp
      also have "\<dots> = nonces n s ! 0" unfolding zero using n(2) by (simp add: all)
      finally have "nonces n s ! 0 = nonces n s ! (2 ^ 32)" by (rule sym)
      then show False using n nth_eq_iff_index_eq [OF d n(2,1)] by simp
    qed
  qed
qed

section \<open>One packet stops the engine\<close>

text \<open>
  Property C31. With MSS clamping on, a connected engine never returns from a single IPv4 packet of the tunnel
  device: a TCP segment with the SYN flag whose first option is an MSS option of length zero.
\<close>

theorem zero_length_option_stops_engine:
  assumes "eng_state e = EsConnected" and "mss_fix e = Some max_mss"
    and "length ip = 20" "ip ! 0 = 0x45" "ip ! 9 = 6" and "24 \<le> length tcp" "tcp ! 12 = 0x60" "tcp ! 13 AND 0x02 \<noteq> 0"
    and "tcp ! 20 = 2" "tcp ! 21 = 0"
  shows "process_tun_packet (ip @ tcp) e = None"
  using hanging_packet [OF assms(3-10)] assms(1,2) by (simp add: process_tun_packet_def)

section \<open>Instances\<close>

definition sample_cipher :: SymmCipher where
  "sample_cipher = \<lparr>encrypt_in_place = \<lambda>nonce aad p. Inr (replicate 16 0, p),
     decrypt_in_place = \<lambda>nonce aad c tag. if tag = replicate 16 0 then Inr c else Inl AeadAuthenticationFailed\<rparr>"

definition sample_slot :: KeySlot where
  "sample_slot = \<lparr>ks_key_id = 0, tx_cipher = sample_cipher, rx_cipher = sample_cipher, tx_implicit_iv = replicate 8 7,
     rx_implicit_iv = replicate 8 7, anti_replay = window_new, tx_packet_id = 1, created_at = 0, bytes_sent = 0,
     bytes_received = 0\<rparr>"

definition sample_engine :: ProtocolEngine where
  "sample_engine = \<lparr>eng_state = EsConnected, eng_peer_id = None, key_manager = \<lparr>primary = Some sample_slot, secondary = None\<rparr>,
     eng_outbox = [], mss_fix = None, eng_last_ping_sent = 0\<rparr>"

definition sample_ip_packet :: bytes where
  "sample_ip_packet = 0x45 # replicate 19 1"

definition sample_frame :: bytes where
  "sample_frame = encode_header DataV1 0 None 1 @ replicate 16 0 @ sample_ip_packet"

lemma sample_sent:
  "\<exists>e. process_tun_packet sample_ip_packet sample_engine = Some (TunReturns (Inr ()) e) \<and> eng_outbox e = [SendToNetwork sample_frame]"
  by (simp add: process_tun_packet_def sample_engine_def seal_def next_tx_packet_id_def sample_slot_def sample_cipher_def
      sample_frame_def Let_def)

lemma sample_deliverable: "deliverable sample_ip_packet"
  by (simp add: deliverable_def sample_ip_packet_def KEEPALIVE_MAGIC_def EXPLICIT_EXIT_NOTIFY_MAGIC_def)

theorem tunnel_packet_arrives_witness:
  "\<exists>b'. process_incoming_data_packet 0 sample_frame sample_engine = (Inr (), b') \<and> eng_outbox b' = [SendToTun sample_ip_packet]"
proof -
  obtain e where e: "process_tun_packet sample_ip_packet sample_engine = Some (TunReturns (Inr ()) e)"
      "eng_outbox e = eng_outbox sample_engine @ [SendToNetwork sample_frame]"
    using sample_sent by (auto simp: sample_engine_def)
  have f: "ks_key_id sample_slot = 0" "mss_fix sample_engine = None" "eng_outbox sample_engine = []"
      "primary (key_manager sample_engine) = Some sample_slot" "eng_peer_id sample_engine = None"
    by (simp_all add: sample_slot_def sample_engine_def)
  have "\<exists>plain b'. (plain = sample_ip_packet \<or>
        (\<exists>m. mss_fix sample_engine = Some m \<and> clamp_tcp_mss sample_ip_packet m = Some (Clamped plain))) \<and>
      process_incoming_data_packet (ks_key_id sample_slot) sample_frame sample_engine = (Inr (), b') \<and>
      eng_outbox b' = eng_outbox sample_engine @ (if deliverable plain then [SendToTun plain] else [])"
    by (rule tunnel_packet_arrives [OF e f(4), where r = sample_slot])
      (simp_all add: f get_rx_slot_def sample_slot_def sample_cipher_def check_only_def window_new_def)
  then show ?thesis using f sample_deliverable by auto
qed

theorem forged_packet_silences_tunnel_witness:
  "\<exists>e' err e''. process_incoming_data_packet 0 (encode_header DataV1 0 None 0xFFFFFFFF @ replicate 16 1) sample_engine =
       (Inl (CryptoFailure AeadAuthenticationFailed), e') \<and>
     process_incoming_data_packet 0 sample_frame e' = (Inl (CryptoFailure err), e'')"
proof -
  have "decode_data sample_frame = Inr (DataV1, 0, None, 1, replicate 16 0 @ sample_ip_packet)"
    using data_header_roundtrip [of 0 DataV1 0 1 "replicate 16 0 @ sample_ip_packet"]
    by (simp add: sample_frame_def is_data_def encode_header_def)
  moreover have "get_rx_slot 0 (key_manager sample_engine) = Some sample_slot"
    by (simp add: get_rx_slot_def sample_engine_def sample_slot_def)
  moreover have "max_seq (anti_replay sample_slot) < 0xFFFFFFFF" by (simp add: sample_slot_def window_new_def)
  moreover have "decrypt_in_place (rx_cipher sample_slot) n a c (replicate 16 1) = Inl AeadAuthenticationFailed" for n a c
    by (simp add: sample_slot_def sample_cipher_def)
  ultimately show ?thesis
    using forged_packet_silences_tunnel [of 0 sample_engine sample_slot "replicate 16 1"
        "encode_header DataV1 0 None 0xFFFFFFFF @ replicate 16 1"] by fastforce
qed

definition hanging_tcp :: bytes where
  "hanging_tcp = [0, 80, 0, 80, 0, 0, 0, 0, 0, 0, 0, 0, 0x60, 2, 0, 0, 0, 0, 0, 0, 2, 0, 0, 0]"

definition hanging_ip :: bytes where
  "hanging_ip = [0x45, 0, 0, 44, 0, 0, 0, 0, 64, 6, 0, 0, 10, 0, 0, 1, 10, 0, 0, 2]"

theorem zero_length_option_stops_engine_witness:
  "process_tun_packet (hanging_ip @ hanging_tcp) (sample_engine\<lparr>mss_fix := Some 1400\<rparr>) = None"
  by (rule zero_length_option_stops_engine) (simp_all add: sample_engine_def hanging_ip_def hanging_tcp_def)

end
