(* ===== verification/Ovpn_Reliable.thy ===== *)
theory Ovpn_Reliable
  imports Ovpn_Wire "HOL-Library.AList"
begin

text \<open>
  The reliable control channel of the OpenVPN protocol, \<^verbatim>\<open>ovpn-protocol/src/reliable.rs\<close>: the sender's queue with its
  retransmission timers and the receiver's queue that puts packets into order. Instants and durations are
  natural numbers of milliseconds; a difference of instants stops at zero, as in the source. The ordered map
  of the receiver is an association list; only lookups, removals and its size are used.
\<close>

section \<open>Sender\<close>

record ReliablePacket =
  rp_packet_id :: "32 word"
  rp_opcode :: Opcode
  rp_key_id :: "8 word"
  rp_payload :: bytes
  first_sent_at :: nat
  last_sent_at :: nat
  retransmit_count :: nat
  current_rto :: nat

record ReliableSendQueue =
  sq_session_id :: "64 word"
  sq_remote_session_id :: "64 word option"
  next_packet_id :: "32 word"
  window_size :: nat
  initial_rto :: nat
  max_rto :: nat
  max_retransmits :: nat
  unacked :: "ReliablePacket list"

definition send_queue_new :: "64 word \<Rightarrow> nat \<Rightarrow> ReliableSendQueue" where
  "send_queue_new session_id window = \<lparr>sq_session_id = session_id, sq_remote_session_id = None, next_packet_id = 0,
     window_size = window, initial_rto = 1500, max_rto = 10000, max_retransmits = 10, unacked = []\<rparr>"

definition enqueue ::
  "Opcode \<Rightarrow> 8 word \<Rightarrow> bytes \<Rightarrow> nat \<Rightarrow> ReliableSendQueue \<Rightarrow> (ProtocolError + 32 word) \<times> ReliableSendQueue" where
  "enqueue op key_id payload now q =
     (if length (unacked q) \<ge> window_size q then (Inl ReliableWindowOverflow, q)
      else (Inr (next_packet_id q), q\<lparr>next_packet_id := next_packet_id q + 1,
        unacked := unacked q @ [\<lparr>rp_packet_id = next_packet_id q, rp_opcode = op, rp_key_id = key_id, rp_payload = payload,
          first_sent_at = now, last_sent_at = now, retransmit_count = 0, current_rto = initial_rto q\<rparr>]\<rparr>))"

definition process_acks :: "32 word list \<Rightarrow> ReliableSendQueue \<Rightarrow> nat \<times> ReliableSendQueue" where
  "process_acks acks q = (let rest = filter (\<lambda>p. rp_packet_id p \<notin> set acks) (unacked q)
     in (length (unacked q) - length rest, q\<lparr>unacked := rest\<rparr>))"

definition resend :: "ReliableSendQueue \<Rightarrow> ReliablePacket \<Rightarrow> ControlPacket" where
  "resend q p = \<lparr>cp_opcode = rp_opcode p, cp_key_id = rp_key_id p, cp_session_id = sq_session_id q, ack_array = [],
     cp_remote_session_id = sq_remote_session_id q, cp_packet_id = Some (rp_packet_id p), cp_payload = rp_payload p\<rparr>"

definition expired :: "nat \<Rightarrow> ReliablePacket \<Rightarrow> bool" where
  "expired now p \<longleftrightarrow> now - last_sent_at p \<ge> current_rto p"

fun poll_loop ::
  "nat \<Rightarrow> ReliableSendQueue \<Rightarrow> ReliablePacket list \<Rightarrow> (ProtocolError + ControlPacket list) \<times> ReliablePacket list" where
  "poll_loop now q [] = (Inr [], [])"
| "poll_loop now q (p # ps) =
     (if expired now p
      then let p1 = p\<lparr>retransmit_count := retransmit_count p + 1\<rparr> in
        if retransmit_count p1 > max_retransmits q
        then (Inl (HandshakeTimeout (now - first_sent_at p1)), p1 # ps)
        else let p2 = p1\<lparr>current_rto := min (current_rto p1 * 2) (max_rto q), last_sent_at := now\<rparr> in
          (case poll_loop now q ps of
             (Inl e, ps') \<Rightarrow> (Inl e, p2 # ps')
           | (Inr rs, ps') \<Rightarrow> (Inr (resend q p2 # rs), p2 # ps'))
      else (case poll_loop now q ps of (r, ps') \<Rightarrow> (r, p # ps')))"

definition poll_retransmissions ::
  "nat \<Rightarrow> ReliableSendQueue \<Rightarrow> (ProtocolError + ControlPacket list) \<times> ReliableSendQueue" where
  "poll_retransmissions now q = (case poll_loop now q (unacked q) of (r, ps) \<Rightarrow> (r, q\<lparr>unacked := ps\<rparr>))"

definition nearest_deadline :: "ReliableSendQueue \<Rightarrow> nat option" where
  "nearest_deadline q = (case map (\<lambda>p. last_sent_at p + current_rto p) (unacked q) of
     [] \<Rightarrow> None | d # ds \<Rightarrow> Some (fold min ds d))"

section \<open>Receiver\<close>

record ReliableRecvQueue =
  next_expected_id :: "32 word"
  pending_acks :: "32 word list"
  out_of_order :: "(32 word \<times> bytes) list"
  ready_stream :: "bytes list"

definition recv_queue_new :: ReliableRecvQueue where
  "recv_queue_new = \<lparr>next_expected_id = 0, pending_acks = [], out_of_order = [], ready_stream = []\<rparr>"

function drain_buffered ::
  "(32 word \<times> bytes) list \<Rightarrow> 32 word \<Rightarrow> bytes list \<times> (32 word \<times> bytes) list \<times> 32 word" where
  "drain_buffered buf next = (case map_of buf next of
     None \<Rightarrow> ([], buf, next)
   | Some p \<Rightarrow> (case drain_buffered (AList.delete next buf) (next + 1) of (ps, b, n) \<Rightarrow> (p # ps, b, n)))"
  by pat_completeness auto

lemma delete_shrinks: "map_of buf k = Some p \<Longrightarrow> length (AList.delete k buf) < length buf"
  unfolding AList.delete_eq by (rule length_filter_less [of "(k, p)"]) (auto dest: map_of_SomeD)

termination drain_buffered
  by (relation "measure (\<lambda>(buf, _). length buf)") (auto dest: delete_shrinks)

declare drain_buffered.simps [simp del]

definition process_packet ::
  "32 word \<Rightarrow> bytes \<Rightarrow> ReliableRecvQueue \<Rightarrow> (ProtocolError + unit) \<times> ReliableRecvQueue" where
  "process_packet packet_id payload q =
     (let q1 = (if packet_id \<in> set (pending_acks q) then q else q\<lparr>pending_acks := pending_acks q @ [packet_id]\<rparr>) in
      if packet_id < next_expected_id q then (Inr (), q1)
      else if packet_id = next_expected_id q
      then (case drain_buffered (out_of_order q) (next_expected_id q + 1) of (ps, buf, next) \<Rightarrow>
        (Inr (), q1\<lparr>ready_stream := ready_stream q @ [payload] @ ps, next_expected_id := next, out_of_order := buf\<rparr>))
      else if length (out_of_order q) > 64 then (Inl ReliableWindowOverflow, q1)
      else (Inr (), q1\<lparr>out_of_order := AList.update packet_id payload (out_of_order q)\<rparr>))"

definition drain_ready :: "ReliableRecvQueue \<Rightarrow> bytes list \<times> ReliableRecvQueue" where
  "drain_ready q = (ready_stream q, q\<lparr>ready_stream := []\<rparr>)"

definition drain_acks :: "ReliableRecvQueue \<Rightarrow> 32 word list \<times> ReliableRecvQueue" where
  "drain_acks q = (pending_acks q, q\<lparr>pending_acks := []\<rparr>)"

text \<open>Packets arriving in some order, some of them more than once; the outcome says which ones were taken.\<close>

fun arrive :: "(nat \<Rightarrow> bytes) \<Rightarrow> nat list \<Rightarrow> ReliableRecvQueue \<Rightarrow> bool list \<times> ReliableRecvQueue" where
  "arrive payload [] q = ([], q)"
| "arrive payload (i # is) q = (case process_packet (of_nat i) (payload i) q of (r, q1) \<Rightarrow>
     (case arrive payload is q1 of (rs, q2) \<Rightarrow> ((r = Inr ()) # rs, q2)))"

text \<open>Sender and receiver together: packet \<open>i\<close> is queued and sent, and if it is not lost, received and acknowledged.\<close>

definition exchange :: "(nat \<Rightarrow> bytes) \<Rightarrow> (nat \<Rightarrow> bool) \<Rightarrow> nat \<Rightarrow>
    ReliableSendQueue \<times> ReliableRecvQueue \<Rightarrow> ReliableSendQueue \<times> ReliableRecvQueue" where
  "exchange payload lost i st = (case enqueue ControlV1 0 (payload i) 0 (fst st) of
     (Inl _, s) \<Rightarrow> (s, snd st)
   | (Inr pid, s) \<Rightarrow> if lost i then (s, snd st)
       else let r = snd (process_packet pid (payload i) (snd st)); a = drain_acks r
            in (snd (process_acks (fst a) s), snd a))"

section \<open>Sender's properties\<close>

lemma enqueue_window: "length (unacked q) \<le> window_size q \<Longrightarrow> length (unacked (snd (enqueue op k p now q))) \<le> window_size q"
  by (simp add: enqueue_def)

lemma process_acks_removes:
  "set (unacked (snd (process_acks acks q))) = {p \<in> set (unacked q). rp_packet_id p \<notin> set acks}"
  by (auto simp: process_acks_def Let_def)

lemma poll_idle: "\<forall>p \<in> set ps. \<not> expired now p \<Longrightarrow> poll_loop now q ps = (Inr [], ps)"
  by (induction ps) simp_all

lemma poll_due: "\<exists>p \<in> set ps. expired now p \<Longrightarrow> fst (poll_loop now q ps) \<noteq> Inr []"
proof (induction ps)
  case (Cons p ps)
  then show ?case by (cases "expired now p") (auto simp: Let_def split: prod.split sum.split)
qed simp

lemma poll_ids: "map rp_packet_id (snd (poll_loop now q ps)) = map rp_packet_id ps"
  by (induction ps) (auto simp: Let_def split: prod.split sum.split)

lemma nearest_deadline_Min:
  "nearest_deadline q = Some t \<longleftrightarrow> unacked q \<noteq> [] \<and> t = Min ((\<lambda>p. last_sent_at p + current_rto p) ` set (unacked q))"
proof (cases "unacked q")
  case (Cons p ps)
  let ?d = "\<lambda>p. last_sent_at p + current_rto p"
  have "Min (?d ` set (unacked q)) = fold min (map ?d ps) (?d p)"
    using Min.set_eq_fold [of "?d p" "map ?d ps"] Cons by simp
  then show ?thesis using Cons by (auto simp: nearest_deadline_def)
qed (simp add: nearest_deadline_def)

text \<open>
  The deadline is exact: with timers that are not zero, nothing is resent before it, and at it a packet is
  resent or the handshake given up; the packets that wait stay the same.
\<close>

lemma deadline_exact:
  assumes "nearest_deadline q = Some t" and "\<forall>p \<in> set (unacked q). 0 < current_rto p"
  shows "now < t \<Longrightarrow> poll_retransmissions now q = (Inr [], q)"
    and "t \<le> now \<Longrightarrow> fst (poll_retransmissions now q) \<noteq> Inr []"
    and "map rp_packet_id (unacked (snd (poll_retransmissions now q))) = map rp_packet_id (unacked q)"
proof -
  let ?d = "\<lambda>p. last_sent_at p + current_rto p"
  have t: "unacked q \<noteq> []" "t = Min (?d ` set (unacked q))" using assms(1) by (simp_all add: nearest_deadline_Min)
  show "poll_retransmissions now q = (Inr [], q)" if "now < t"
  proof -
    have "\<not> expired now p" if p: "p \<in> set (unacked q)" for p
    proof -
      have "now < ?d p" using \<open>now < t\<close> t p by simp
      then show ?thesis using assms(2) p by (auto simp: expired_def)
    qed
    then show ?thesis by (simp add: poll_retransmissions_def poll_idle)
  qed
  show "fst (poll_retransmissions now q) \<noteq> Inr []" if "t \<le> now"
  proof -
    have "t \<in> ?d ` set (unacked q)" using t by simp
    then obtain p where "p \<in> set (unacked q)" "t = ?d p" by blast
    then have "\<exists>p \<in> set (unacked q). expired now p"
      using that by (intro bexI [of _ p]) (simp_all add: expired_def)
    then show ?thesis using poll_due [of "unacked q" now q] by (auto simp: poll_retransmissions_def split: prod.splits)
  qed
  show "map rp_packet_id (unacked (snd (poll_retransmissions now q))) = map rp_packet_id (unacked q)"
    using poll_ids [of now q "unacked q"] by (auto simp: poll_retransmissions_def split: prod.split)
qed

section \<open>Receiver's properties\<close>

lemma of_nat_32: "i < 2 ^ 32 \<Longrightarrow> unat (of_nat i :: 32 word) = i"
  by (simp add: unat_of_nat take_bit_eq_mod)

lemma of_nat_32_eq: "i < 2 ^ 32 \<Longrightarrow> j < 2 ^ 32 \<Longrightarrow> (of_nat i = (of_nat j :: 32 word)) = (i = j)"
  by (metis of_nat_32)

text \<open>The packets taken, of those from \<open>m\<close> on, are in the buffer.\<close>

definition buffers :: "(nat \<Rightarrow> bytes) \<Rightarrow> nat set \<Rightarrow> nat \<Rightarrow> (32 word \<times> bytes) list \<Rightarrow> bool" where
  "buffers payload got m buf \<longleftrightarrow>
     (\<forall>i < 2 ^ 32. map_of buf (of_nat i) = (if i \<in> got \<and> m \<le> i then Some (payload i) else None))"

lemma drain_buffers:
  assumes "buffers payload got m buf" and "got \<subseteq> {..< 2 ^ 32 - 1}" and "m < 2 ^ 32"
  shows "\<exists>k b. drain_buffered buf (of_nat m) = (map payload [m..<k], b, of_nat k) \<and> m \<le> k \<and> k < 2 ^ 32 \<and>
    {m..<k} \<subseteq> got \<and> k \<notin> got \<and> buffers payload got k b"
  using assms
proof (induction "length buf" arbitrary: buf m rule: less_induct)
  case less
  show ?case
  proof (cases "m \<in> got")
    case True
    then have hit: "map_of buf (of_nat m) = Some (payload m)" using less.prems by (simp add: buffers_def)
    have m: "m + 1 < 2 ^ 32" using True less.prems(2) by auto
    have "buffers payload got (m + 1) (AList.delete (of_nat m) buf)"
      using less.prems(1) by (auto simp: buffers_def AList.delete_conv of_nat_32_eq less.prems(3) le_less_Suc_eq)
    with less.hyps [OF delete_shrinks [OF hit]] less.prems(2) m obtain k b where
      k: "drain_buffered (AList.delete (of_nat m) buf) (of_nat (m + 1)) = (map payload [m + 1..<k], b, of_nat k)"
        "m + 1 \<le> k" "k < 2 ^ 32" "{m + 1..<k} \<subseteq> got" "k \<notin> got" "buffers payload got k b" by blast
    have "drain_buffered buf (of_nat m) = (map payload [m..<k], b, of_nat k)"
      using hit k(1,2) by (subst drain_buffered.simps) (simp add: upt_conv_Cons add.commute)
    moreover have "{m..<k} \<subseteq> got"
    proof
      fix i assume "i \<in> {m..<k}"
      then show "i \<in> got" using k(4) True by (cases "i = m") auto
    qed
    ultimately show ?thesis using k(2,3,5,6) by (intro exI [of _ k] exI [of _ b]) simp
  next
    case False
    then have "drain_buffered buf (of_nat m) = ([], buf, of_nat m)"
      using less.prems by (subst drain_buffered.simps) (simp add: buffers_def)
    then show ?thesis using False less.prems by (intro exI [of _ m] exI [of _ buf]) simp
  qed
qed

definition in_order :: "(nat \<Rightarrow> bytes) \<Rightarrow> nat set \<Rightarrow> ReliableRecvQueue \<Rightarrow> bool" where
  "in_order payload got q \<longleftrightarrow> (\<exists>n < 2 ^ 32. next_expected_id q = of_nat n \<and> ready_stream q = map payload [0..<n] \<and>
     {..<n} \<subseteq> got \<and> n \<notin> got \<and> buffers payload got n (out_of_order q))"

lemma in_order_cong:
  "next_expected_id q' = next_expected_id q \<Longrightarrow> ready_stream q' = ready_stream q \<Longrightarrow> out_of_order q' = out_of_order q \<Longrightarrow>
     in_order payload got q' = in_order payload got q"
  by (simp add: in_order_def)

lemma in_order_next:
  assumes "in_order payload got q" and "got \<subseteq> {..< 2 ^ 32 - 1}" and "next_expected_id q = of_nat i" and "i < 2 ^ 32 - 1"
    and "drain_buffered (out_of_order q) (next_expected_id q + 1) = (ps, buf, nxt)"
    and "next_expected_id q' = nxt" "ready_stream q' = ready_stream q @ [payload i] @ ps" "out_of_order q' = buf"
  shows "in_order payload (insert i got) q'"
proof -
  have n: "i \<notin> got" "{..<i} \<subseteq> got" "ready_stream q = map payload [0..<i]" "buffers payload got i (out_of_order q)"
    using assms(1,3,4) by (auto simp: in_order_def of_nat_32_eq)
  have "buffers payload (insert i got) (i + 1) (out_of_order q)"
    using n(1,4) by (auto simp: buffers_def Suc_le_eq le_less)
  then obtain k b where k: "drain_buffered (out_of_order q) (of_nat (i + 1)) = (map payload [i + 1..<k], b, of_nat k)"
      "i + 1 \<le> k" "k < 2 ^ 32" "{i + 1..<k} \<subseteq> insert i got" "k \<notin> insert i got" "buffers payload (insert i got) k b"
    using drain_buffers [of payload "insert i got" "i + 1" "out_of_order q"] assms(2,4) by auto
  have "next_expected_id q + 1 = of_nat (i + 1)" using assms(3) by simp
  with assms(5) k(1) have e: "ps = map payload [i + 1..<k]" "buf = b" "nxt = of_nat k" by (simp_all only: prod.inject)
  have "[0..<k] = [0..<i] @ [i] @ [i + 1..<k]"
    using k(2) upt_add_eq_append [of 0 i "k - i"] by (simp add: upt_conv_Cons)
  then have "ready_stream q' = map payload [0..<k]" using assms(7) n(3) e by simp
  moreover have "{..<k} \<subseteq> insert i got"
  proof
    fix j assume "j \<in> {..<k}"
    then consider "j < i" | "j = i" | "j \<in> {i + 1..<k}" by force
    then show "j \<in> insert i got" using n(2) k(4) by cases auto
  qed
  ultimately show ?thesis using k(3,5,6) e assms(6,8) by (auto simp: in_order_def)
qed

lemma in_order_ahead:
  assumes "in_order payload got q" and "next_expected_id q < of_nat i" and "i < 2 ^ 32"
    and "next_expected_id q' = next_expected_id q" "ready_stream q' = ready_stream q"
      "out_of_order q' = AList.update (of_nat i) (payload i) (out_of_order q)"
  shows "in_order payload (insert i got) q'"
proof -
  obtain n where n: "n < 2 ^ 32" "next_expected_id q = of_nat n" "ready_stream q = map payload [0..<n]" "{..<n} \<subseteq> got"
      "n \<notin> got" "buffers payload got n (out_of_order q)" using assms(1) by (auto simp: in_order_def)
  have "n < i" using assms(2,3) n(1,2) by (simp add: word_less_nat_alt of_nat_32)
  then have "buffers payload (insert i got) n (out_of_order q')"
    using n(6) assms(3,6) by (auto simp: buffers_def AList.update_conv of_nat_32_eq)
  then show ?thesis using n assms(4,5) \<open>n < i\<close> by (auto simp: in_order_def)
qed

lemma process_in_order:
  assumes "in_order payload got q" and "got \<subseteq> {..< 2 ^ 32 - 1}" and "i < 2 ^ 32 - 1"
    and "process_packet (of_nat i) (payload i) q = (r, q')"
  shows "in_order payload (if r = Inr () then insert i got else got) q'"
proof -
  obtain n where n: "n < 2 ^ 32" "next_expected_id q = of_nat n" "{..<n} \<subseteq> got"
    using assms(1) by (auto simp: in_order_def)
  consider "i < n" | "i = n" | "n < i" by linarith
  then show ?thesis
  proof cases
    case 1
    then have "(of_nat i :: 32 word) < of_nat n" using n(1) by (simp add: word_less_nat_alt of_nat_32)
    then have "r = Inr ()" and e: "next_expected_id q' = next_expected_id q" "ready_stream q' = ready_stream q"
        "out_of_order q' = out_of_order q"
      using assms(4) n(2) by (auto simp: process_packet_def Let_def split: if_splits)
    moreover have "in_order payload got q'" using in_order_cong [OF e] assms(1) by simp
    moreover have "insert i got = got" using 1 n(3) by auto
    ultimately show ?thesis by simp
  next
    case 2
    then have "next_expected_id q = of_nat i" using n(2) by simp
    moreover obtain ps buf nxt where d: "drain_buffered (out_of_order q) (next_expected_id q + 1) = (ps, buf, nxt)"
      by (metis prod_cases3)
    moreover have "r = Inr ()" "next_expected_id q' = nxt" "ready_stream q' = ready_stream q @ [payload i] @ ps"
        "out_of_order q' = buf"
      using assms(4) calculation by (auto simp: process_packet_def Let_def split: if_splits)
    ultimately show ?thesis using in_order_next [OF assms(1,2) _ assms(3) d] by simp
  next
    case 3
    then have lt: "next_expected_id q < of_nat i" using n(1,2) assms(3) by (simp add: word_less_nat_alt of_nat_32)
    show ?thesis
    proof (cases "length (out_of_order q) > 64")
      case True
      then have "r \<noteq> Inr ()" and e: "next_expected_id q' = next_expected_id q" "ready_stream q' = ready_stream q"
          "out_of_order q' = out_of_order q"
        using assms(4) lt by (auto simp: process_packet_def Let_def split: if_splits)
      then show ?thesis using in_order_cong [OF e] assms(1) by simp
    next
      case False
      then have "r = Inr ()" "next_expected_id q' = next_expected_id q" "ready_stream q' = ready_stream q"
          "out_of_order q' = AList.update (of_nat i) (payload i) (out_of_order q)"
        using assms(4) lt by (auto simp: process_packet_def Let_def split: if_splits)
      then show ?thesis using in_order_ahead [OF assms(1) lt] assms(3) by simp
    qed
  qed
qed

lemma process_acks_recorded:
  "set (pending_acks (snd (process_packet k p q))) = insert k (set (pending_acks q))"
  by (auto simp: process_packet_def Let_def split: prod.split)

definition taken :: "nat list \<Rightarrow> bool list \<Rightarrow> nat set" where
  "taken is oks = {i. (i, True) \<in> set (zip is oks)}"

lemma taken_Cons [simp]: "taken (i # is) (b # oks) = (if b then insert i (taken is oks) else taken is oks)"
  by (auto simp: taken_def)

lemma arrive_in_order:
  assumes "in_order payload got q" and "got \<subseteq> {..< 2 ^ 32 - 1}" and "set is \<subseteq> {..< 2 ^ 32 - 1}"
  shows "in_order payload (got \<union> taken is (fst (arrive payload is q))) (snd (arrive payload is q)) \<and>
    set (pending_acks (snd (arrive payload is q))) = set (pending_acks q) \<union> of_nat ` set is"
  using assms
proof (induction "is" arbitrary: got q)
  case Nil
  then show ?case by (simp add: taken_def)
next
  case (Cons i "is")
  obtain r q1 where p: "process_packet (of_nat i) (payload i) q = (r, q1)" by (metis surj_pair)
  have "in_order payload (if r = Inr () then insert i got else got) q1"
    using process_in_order [OF Cons.prems(1,2) _ p] Cons.prems(3) by simp
  moreover have "set (pending_acks q1) = insert (of_nat i) (set (pending_acks q))"
    using process_acks_recorded [of "of_nat i" "payload i" q] p by simp
  ultimately show ?case using Cons.IH [of "if r = Inr () then insert i got else got" q1] Cons.prems(2,3) p
    by (cases "r = Inr ()") (auto split: prod.split)
qed

lemma recv_new_in_order: "in_order payload {} recv_queue_new"
  by (auto simp: in_order_def recv_queue_new_def buffers_def)

text \<open>
  Property C30. Whatever the order in which the packets of a stream, numbered below 2^32 - 1, arrive and however often, what the receiver hands on is an
  initial part of the stream, each packet once and in order, as far as the packets it took reach
  without a gap; and every packet that arrived is recorded among those to acknowledge.
\<close>

theorem delivered_in_order:
  assumes "set is \<subseteq> {..< 2 ^ 32 - 1}" and "arrive payload is recv_queue_new = (oks, q)"
  shows "\<exists>n. ready_stream q = map payload [0..<n] \<and> {..<n} \<subseteq> taken is oks \<and> n \<notin> taken is oks \<and>
    set (pending_acks q) = of_nat ` set is"
  using arrive_in_order [OF recv_new_in_order _ assms(1), of payload] assms(2)
  by (auto simp: in_order_def recv_queue_new_def)

theorem delivered_in_order_witness:
  "\<exists>n. ready_stream (snd (arrive (\<lambda>i. [of_nat i]) [1, 0, 1, 3] recv_queue_new)) = map (\<lambda>i. [of_nat i]) [0..<n]"
  using delivered_in_order [of "[1, 0, 1, 3]" "\<lambda>i. [of_nat i]"
    "fst (arrive (\<lambda>i. [of_nat i]) [1, 0, 1, 3] recv_queue_new)" "snd (arrive (\<lambda>i. [of_nat i]) [1, 0, 1, 3] recv_queue_new)"]
  by auto

text \<open>
  A packet that is refused because the buffer is full is acknowledged all the same, and the acknowledgement takes
  it from the sender's queue.
\<close>

theorem refused_packet_acknowledged:
  assumes "next_expected_id q < k" and "64 < length (out_of_order q)"
  shows "fst (process_packet k p q) = Inl ReliableWindowOverflow \<and>
    out_of_order (snd (process_packet k p q)) = out_of_order q \<and> ready_stream (snd (process_packet k p q)) = ready_stream q \<and>
    k \<notin> rp_packet_id ` set (unacked (snd (process_acks (fst (drain_acks (snd (process_packet k p q)))) s)))"
  using assms process_acks_recorded [of k p q]
  by (auto simp: process_packet_def process_acks_removes drain_acks_def Let_def)

text \<open>
  Of the two queues alone: with the first packet delayed, the sender goes on as the later ones are
  acknowledged, and the packet that no longer fits is acknowledged too. When the first packet arrives at last,
  the receiver waits for that packet and the sender has nothing left to send. The engine stops at the
  error of the full buffer, before the acknowledgement is sent.
\<close>

definition after_delay :: "(nat \<Rightarrow> bytes) \<Rightarrow> nat \<Rightarrow> ReliableSendQueue \<times> ReliableRecvQueue" where
  "after_delay payload n = fold (exchange payload (\<lambda>i. i = 0)) [0..<n] (send_queue_new 1 16, recv_queue_new)"

definition first_packet :: "(nat \<Rightarrow> bytes) \<Rightarrow> ReliablePacket" where
  "first_packet payload = \<lparr>rp_packet_id = 0, rp_opcode = ControlV1, rp_key_id = 0, rp_payload = payload 0,
     first_sent_at = 0, last_sent_at = 0, retransmit_count = 0, current_rto = 1500\<rparr>"

definition waiting :: "(nat \<Rightarrow> bytes) \<Rightarrow> nat \<Rightarrow> nat \<Rightarrow> ReliableSendQueue \<times> ReliableRecvQueue" where
  "waiting payload sent n = ((send_queue_new 1 16)\<lparr>next_packet_id := of_nat sent, unacked := [first_packet payload]\<rparr>,
     recv_queue_new\<lparr>out_of_order := map (\<lambda>i. (of_nat i, payload i)) [1..<n]\<rparr>)"

lemma update_new: "k \<notin> fst ` set al \<Longrightarrow> AList.update k v al = al @ [(k, v)]"
  by (induction al) auto

lemma waiting_step:
  assumes "1 \<le> i" and "i \<le> 66"
  shows "exchange payload (\<lambda>i. i = 0) i (waiting payload i i) = waiting payload (i + 1) (if i \<le> 65 then i + 1 else i)"
proof -
  have pos: "(of_nat i :: 32 word) \<noteq> 0" "(0 :: 32 word) < of_nat i"
    using assms by (simp_all add: word_unat_eq_iff word_less_nat_alt of_nat_32)
  have "(of_nat i :: 32 word) \<notin> fst ` (\<lambda>i. (of_nat i, payload i)) ` {Suc 0..<i}"
    using assms by (auto simp: of_nat_32_eq)
  moreover have "(64 < i - Suc 0) = (\<not> i \<le> 65)" by linarith
  ultimately show ?thesis using assms pos
    by (simp add: exchange_def waiting_def send_queue_new_def enqueue_def recv_queue_new_def process_packet_def drain_acks_def
        process_acks_def update_new first_packet_def Let_def add.commute)
qed

lemma after_delay_Suc: "after_delay payload (Suc n) = exchange payload (\<lambda>i. i = 0) n (after_delay payload n)"
  by (simp add: after_delay_def)

lemma after_delay_waiting: "1 \<le> n \<Longrightarrow> n \<le> 66 \<Longrightarrow> after_delay payload n = waiting payload n n"
proof (induction n rule: nat_induct_at_least)
  case base
  show ?case by (simp add: after_delay_def exchange_def waiting_def send_queue_new_def enqueue_def first_packet_def
        recv_queue_new_def)
next
  case (Suc n)
  then show ?case using waiting_step [of n payload] by (simp add: after_delay_Suc)
qed

lemma map_of_numbered:
  "set xs \<subseteq> {..< 2 ^ 32} \<Longrightarrow> j < 2 ^ 32 \<Longrightarrow>
     map_of (map (\<lambda>i. (of_nat i :: 32 word, payload i)) xs) (of_nat j) = (if j \<in> set xs then Some (payload j) else None)"
  by (induction xs) (auto simp: of_nat_32_eq)

theorem acknowledged_packet_lost:
  "map rp_packet_id (unacked (fst (after_delay payload 67))) = [0] \<and>
   (let r = snd (process_packet 0 (payload 0) (snd (after_delay payload 67)));
        s = snd (process_acks (fst (drain_acks r)) (fst (after_delay payload 67))) in
    ready_stream r = map payload [0..<66] \<and> next_expected_id r = 66 \<and> next_packet_id s = 67 \<and> unacked s = [])"
proof -
  have st: "after_delay payload 67 = waiting payload 67 66"
    using after_delay_Suc [of payload 66] after_delay_waiting [of 66 payload] waiting_step [of 66 payload] by simp
  have small: "{1..<66 :: nat} \<subseteq> {..< 2 ^ 32 - 1}" by auto
  have "buffers payload {1..<66} 1 (map (\<lambda>i. (of_nat i, payload i)) [1..<66])"
    by (simp add: buffers_def map_of_numbered subset_eq del: upt_rec_numeral)
  then obtain k b where k: "drain_buffered (map (\<lambda>i. (of_nat i, payload i)) [1..<66]) (of_nat 1) =
      (map payload [1..<k], b, of_nat k)" "{1..<k} \<subseteq> {1..<66}" "k \<notin> {1..<66}" "1 \<le> k"
    using drain_buffers [of payload "{1..<66}" 1] by (metis (no_types, lifting) small one_less_numeral_iff one_less_power
        semiring_norm(76) zero_less_numeral)
  then have "k = 66" by (cases "66 \<le> k") (auto dest: subsetD [of _ _ 66])
  have up: "[0..<66] = 0 # [1..<66]" by (simp add: upt_conv_Cons)
  show ?thesis using k(1) \<open>k = 66\<close> unfolding st up
    by (simp add: waiting_def recv_queue_new_def process_packet_def drain_acks_def process_acks_def first_packet_def Let_def del: upt_rec_numeral)
qed

end
