(* ===== verification/Ovpn_Tls_Auth.thy ===== *)
theory Ovpn_Tls_Auth
  imports Ovpn_Wire
begin

text \<open>
  The static key that signs the control packets of OpenVPN, \<^verbatim>\<open>ovpn-crypto/src/static_key.rs\<close>, and the cipher suites of
  \<^verbatim>\<open>aead.rs\<close>. HMAC and the decoding of hexadecimal texts are third-party code and arguments, as are the clock and
  the ciphers.
\<close>

section \<open>Static key\<close>

record StaticKey =
  cipher_key_1 :: bytes
  cipher_key_2 :: bytes
  hmac_key_1 :: bytes
  hmac_key_2 :: bytes

definition key_line :: "string \<Rightarrow> bool" where
  "key_line trimmed \<longleftrightarrow> \<not> (trimmed = [] \<or> startsWith trimmed ''#'' \<or> startsWith trimmed '';'' \<or> startsWith trimmed ''-----'')"

definition static_key_parse :: "(string \<Rightarrow> string + bytes) \<Rightarrow> string \<Rightarrow> CryptoError + StaticKey" where
  "static_key_parse hex_decode text =
     (case hex_decode (concat (filter key_line (map trim (split_on (CHR 0x0A) text)))) of
        Inl e \<Rightarrow> Inl (InvalidKey (''Failed to parse static key hex: '' @ e))
      | Inr raw \<Rightarrow> if length raw < 256
          then Inl (InvalidKey (''Static key must be at least 256 bytes (found '' @ string_of_nat (length raw) @ '')''))
          else Inr \<lparr>cipher_key_1 = take 64 raw, cipher_key_2 = take 64 (drop 128 raw),
            hmac_key_1 = take 64 (drop 64 raw), hmac_key_2 = take 64 (drop 192 raw)\<rparr>)"

section \<open>Signed packets\<close>

datatype AuthDigest = Sha1 | Sha256

primrec tag_len :: "AuthDigest \<Rightarrow> nat" where
  "tag_len Sha1 = 20"
| "tag_len Sha256 = 32"

record TlsAuthContext =
  send_hmac_key :: bytes
  recv_hmac_key :: bytes
  send_packet_id :: "32 word"
  ta_digest :: AuthDigest

definition tls_auth_new :: "StaticKey \<Rightarrow> bool \<Rightarrow> bool \<Rightarrow> AuthDigest \<Rightarrow> TlsAuthContext" where
  "tls_auth_new k is_client bidirectional d = (case
     (if bidirectional then (hmac_key_1 k, hmac_key_1 k)
      else if is_client then (hmac_key_2 k, hmac_key_1 k) else (hmac_key_1 k, hmac_key_2 k)) of (s, r) \<Rightarrow>
     \<lparr>send_hmac_key = s, recv_hmac_key = r, send_packet_id = 1, ta_digest = d\<rparr>)"

text \<open>The key is as long as the tag. The bytes signed, in their order.\<close>

type_synonym hmac = "AuthDigest \<Rightarrow> bytes \<Rightarrow> bytes \<Rightarrow> bytes"

definition signature :: "hmac \<Rightarrow> AuthDigest \<Rightarrow> bytes \<Rightarrow> 32 word \<Rightarrow> 32 word \<Rightarrow> 8 word \<Rightarrow> 64 word \<Rightarrow> bytes \<Rightarrow> bytes" where
  "signature hmac d key packet_id timestamp header session_id payload =
     hmac d (take (tag_len d) key) (be_bytes32 packet_id @ be_bytes32 timestamp @ [header] @ be_bytes64 session_id @ payload)"

definition wrap_packet ::
  "hmac \<Rightarrow> 32 word \<Rightarrow> 8 word \<Rightarrow> 64 word \<Rightarrow> bytes \<Rightarrow> TlsAuthContext \<Rightarrow> bytes \<times> TlsAuthContext" where
  "wrap_packet hmac timestamp header session_id payload ta = (let packet_id = send_packet_id ta in
     ([header] @ be_bytes64 session_id @
        signature hmac (ta_digest ta) (send_hmac_key ta) packet_id timestamp header session_id payload @
        be_bytes32 packet_id @ be_bytes32 timestamp @ payload,
      ta\<lparr>send_packet_id := packet_id + 1\<rparr>))"

definition unwrap_packet ::
  "hmac \<Rightarrow> TlsAuthContext \<Rightarrow> bytes \<Rightarrow> CryptoError + 8 word \<times> 64 word \<times> 32 word \<times> 32 word \<times> bytes" where
  "unwrap_packet hmac ta packet = (let n = tag_len (ta_digest ta) in
     if length packet < 17 + n then Inl (DecryptionFailed ''tls-auth packet too short'')
     else let header = packet ! 0; session_id = fst (get_u64 (drop 1 packet)); received_tag = take n (drop 9 packet);
              packet_id = fst (get_u32 (drop (9 + n) packet)); timestamp = fst (get_u32 (drop (13 + n) packet));
              payload = drop (17 + n) packet in
       if signature hmac (ta_digest ta) (recv_hmac_key ta) packet_id timestamp header session_id payload = received_tag
       then Inr (header, session_id, packet_id, timestamp, payload)
       else Inl (DecryptionFailed ''tls-auth HMAC verification failed''))"

section \<open>Cipher suites\<close>

datatype CipherSuite = Aes256Gcm | Aes128Gcm | ChaCha20Poly1305

definition suite_from_name :: "string \<Rightarrow> CipherSuite option" where
  "suite_from_name name = (let upper = filter (\<lambda>c. c \<noteq> CHR ''-'' \<and> c \<noteq> CHR ''_'') (toUpperCase name) in
     if upper = ''AES256GCM'' then Some Aes256Gcm else if upper = ''AES128GCM'' then Some Aes128Gcm
     else if upper = ''CHACHA20POLY1305'' then Some ChaCha20Poly1305 else None)"

primrec key_size :: "CipherSuite \<Rightarrow> nat" where
  "key_size Aes256Gcm = 32"
| "key_size Aes128Gcm = 16"
| "key_size ChaCha20Poly1305 = 32"

section \<open>Signed packets are accepted\<close>

text \<open>
  What one end signs the other end accepts, when both have the static key and opposite directions or both
  none: header, session, number, time and payload come back, and the number is used up. A packet is accepted as often as
  it arrives: the receiving end keeps nothing.
\<close>

theorem signed_packet_accepted:
  assumes "\<And>d k m. length (hmac d k m) = tag_len d"
    and "wrap_packet hmac timestamp header session_id payload (a\<lparr>send_packet_id := n\<rparr>) = (packet, a')"
    and "a = tls_auth_new key client bidirectional d" and "b = tls_auth_new key (\<not> client) bidirectional d"
  shows "unwrap_packet hmac b packet = Inr (header, session_id, n, timestamp, payload) \<and> send_packet_id a' = n + 1"
proof -
  let ?tag = "signature hmac d (send_hmac_key a) n timestamp header session_id payload"
  have dig: "ta_digest a = d" "ta_digest b = d" "recv_hmac_key b = send_hmac_key a"
    unfolding assms(3,4) by (simp_all add: tls_auth_new_def)
  have len: "length ?tag = tag_len d" by (simp add: signature_def assms(1))
  have p: "packet = header # be_bytes64 session_id @ ?tag @ be_bytes32 n @ be_bytes32 timestamp @ payload"
    and a': "send_packet_id a' = n + 1"
    using assms(2) dig by (auto simp: wrap_packet_def Let_def)
  have l8: "length (be_bytes64 session_id) = 8" and l4: "\<And>w. length (be_bytes32 w) = 4" by simp_all
  have "drop 9 packet = ?tag @ be_bytes32 n @ be_bytes32 timestamp @ payload" unfolding p using l8 by simp
  then have parts: "take (tag_len d) (drop 9 packet) = ?tag"
      "drop (9 + tag_len d) packet = be_bytes32 n @ be_bytes32 timestamp @ payload"
    using len by (simp_all add: drop_drop [symmetric] add.commute [of 9])
  have next4: "drop (i + 4) packet = r" if "drop i packet = be_bytes32 w @ r" for i w r
    using that drop_drop [of 4 i packet] by (simp add: add.commute)
  have time: "drop (13 + tag_len d) packet = be_bytes32 timestamp @ payload" using next4 [OF parts(2)] by (simp add: add.commute)
  have rest: "drop (17 + tag_len d) packet = payload" using next4 [OF time] by (simp add: add.commute)
  have "drop 1 packet = be_bytes64 session_id @ ?tag @ be_bytes32 n @ be_bytes32 timestamp @ payload" "packet ! 0 = header"
    unfolding p by simp_all
  then show ?thesis using parts time rest a' len l8 l4 dig
    by (simp add: unwrap_packet_def Let_def get_u32_put get_u64_put) (simp add: p)
qed

definition sample_hmac :: hmac where
  "sample_hmac d k m = replicate (tag_len d) 0"

definition sample_static_key :: StaticKey where
  "sample_static_key = \<lparr>cipher_key_1 = [], cipher_key_2 = [], hmac_key_1 = replicate 64 1, hmac_key_2 = replicate 64 2\<rparr>"

theorem signed_packet_accepted_witness:
  "unwrap_packet sample_hmac (tls_auth_new sample_static_key False False Sha1)
     (fst (wrap_packet sample_hmac 5 56 9 [1, 2] ((tls_auth_new sample_static_key True False Sha1)\<lparr>send_packet_id := 3\<rparr>))) =
   Inr (56, 9, 3, 5, [1, 2])"
  using signed_packet_accepted [where hmac = sample_hmac and timestamp = 5 and header = 56 and session_id = 9
      and payload = "[1, 2]" and n = 3 and key = sample_static_key and client = True and bidirectional = False and d = Sha1,
      OF _ prod.collapse [symmetric] refl refl]
  by (simp add: sample_hmac_def)

end
