(* ===== verification/Ovpn_Engine.thy ===== *)
theory Ovpn_Engine
  imports Ovpn_Data Ovpn_Reliable Ovpn_Tls_Auth
begin

text \<open>
  The control channel of the OpenVPN engine, \<^verbatim>\<open>ovpn-protocol/src/engine.rs\<close>: start, control packets, the TLS handshake,
  the messages of the server, time-outs. The TLS connection of \<^verbatim>\<open>tls.rs\<close> wraps a third-party library and is
  an argument, as are HMAC, the ciphers, random bytes and the clock. Instants are milliseconds. A function that
  returns early with an error keeps what it changed before.
\<close>

section \<open>State\<close>

record 'tls engine_env =
  tls_new :: "string \<Rightarrow> string option \<Rightarrow> string option \<Rightarrow> string option \<Rightarrow> ProtocolError + 'tls"
  feed_tls_bytes :: "bytes \<Rightarrow> 'tls \<Rightarrow> (ProtocolError + unit) \<times> 'tls"
  extract_outgoing_tls_bytes :: "'tls \<Rightarrow> (ProtocolError + bytes) \<times> 'tls"
  read_plaintext_app_data :: "'tls \<Rightarrow> (ProtocolError + bytes) \<times> 'tls"
  send_plaintext_app_data :: "bytes \<Rightarrow> 'tls \<Rightarrow> (ProtocolError + unit) \<times> 'tls"
  is_handshaking :: "'tls \<Rightarrow> bool"
  export_keying_material :: "'tls \<Rightarrow> ProtocolError + bytes"
  env_hmac :: hmac
  create_cipher :: "CipherSuite \<Rightarrow> bytes \<Rightarrow> CryptoError + SymmCipher"
  hex_decode :: "string \<Rightarrow> string + bytes"
  random_bytes :: bytes
  unix_time :: "32 word"

record 'tls Engine = ProtocolEngine +
  eng_config :: OpenVpnConfig
  local_session_id :: "64 word"
  eng_remote_session_id :: "64 word option"
  send_queue :: ReliableSendQueue
  recv_queue :: ReliableRecvQueue
  tls_adapter :: "'tls option"
  tls_auth :: "TlsAuthContext option"
  last_packet_recv :: nat
  cipher_suite :: CipherSuite
  pushed_options_accumulator :: string
  auth_token :: "string option"

type_synonym 'tls engine_result = "(ProtocolError + unit) \<times> 'tls Engine"

text \<open>The operator \<open>?\<close>.\<close>

definition and_then :: "(ProtocolError + 'a) \<times> 's \<Rightarrow> ('a \<Rightarrow> 's \<Rightarrow> (ProtocolError + 'b) \<times> 's) \<Rightarrow> (ProtocolError + 'b) \<times> 's" where
  "and_then r f = (case r of (Inl err, s) \<Rightarrow> (Inl err, s) | (Inr x, s) \<Rightarrow> f x s)"

definition push_action :: "OutputAction \<Rightarrow> 'a ProtocolEngine_scheme \<Rightarrow> 'a ProtocolEngine_scheme" where
  "push_action a e = e\<lparr>eng_outbox := eng_outbox e @ [a]\<rparr>"

definition transition_state :: "EngineState \<Rightarrow> 'a ProtocolEngine_scheme \<Rightarrow> 'a ProtocolEngine_scheme" where
  "transition_state st e = (if eng_state e \<noteq> st then push_action (StateChange st) (e\<lparr>eng_state := st\<rparr>) else e)"

section \<open>Start\<close>

definition auth_digest_of :: "string option \<Rightarrow> AuthDigest" where
  "auth_digest_of d = (case d of Some n \<Rightarrow> if toLowerCase n \<in> {''sha256'', ''sha-256''} then Sha256 else Sha1 | None \<Rightarrow> Sha1)"

definition tls_auth_of :: "'tls engine_env \<Rightarrow> OpenVpnConfig \<Rightarrow> TlsAuthContext option" where
  "tls_auth_of env c = (case oc_tls_auth c of None \<Rightarrow> None
   | Some (key, direction) \<Rightarrow> (case static_key_parse (hex_decode env) key of
       Inl _ \<Rightarrow> None
     | Inr k \<Rightarrow> let dir = or_opt direction (oc_key_direction c) in
         Some (tls_auth_new k (dir \<noteq> Some ServerDirection) (dir = None \<or> dir = Some Bidirectional)
           (auth_digest_of (oc_auth_digest c)))))"

definition suite_of :: "OpenVpnConfig \<Rightarrow> CipherSuite" where
  "suite_of c = nullish (Option.bind (first_opt (oc_data_ciphers c)) suite_from_name) Aes256Gcm"

definition engine_new :: "'tls engine_env \<Rightarrow> 64 word \<Rightarrow> OpenVpnConfig \<Rightarrow> nat \<Rightarrow> 'tls Engine" where
  "engine_new env session_id c now = \<lparr>eng_state = EsDisconnected, eng_peer_id = None,
     key_manager = \<lparr>primary = None, secondary = None\<rparr>, eng_outbox = [], mss_fix = map_option of_nat (oc_mss_fix c),
     eng_last_ping_sent = now, eng_config = c, local_session_id = session_id, eng_remote_session_id = None,
     send_queue = send_queue_new session_id 16, recv_queue = recv_queue_new, tls_adapter = None,
     tls_auth = tls_auth_of env c, last_packet_recv = now, cipher_suite = suite_of c,
     pushed_options_accumulator = [], auth_token = None\<rparr>"

definition emit_control_packet :: "'tls engine_env \<Rightarrow> ControlPacket \<Rightarrow> 'tls Engine \<Rightarrow> 'tls Engine" where
  "emit_control_packet env cp e = (case tls_auth e of
     Some ta \<Rightarrow> (case wrap_packet (env_hmac env) (unix_time env) (encode_header_byte (cp_opcode cp) (cp_key_id cp))
         (cp_session_id cp) (encode_body cp) ta of
       (wrapped, ta') \<Rightarrow> push_action (SendToNetwork wrapped) (e\<lparr>tls_auth := Some ta'\<rparr>))
   | None \<Rightarrow> push_action (SendToNetwork (encode_control cp)) e)"

definition enqueue_control :: "Opcode \<Rightarrow> bytes \<Rightarrow> nat \<Rightarrow> 'tls Engine \<Rightarrow> (ProtocolError + 32 word) \<times> 'tls Engine" where
  "enqueue_control op payload now e = (case enqueue op 0 payload now (send_queue e) of (r, q) \<Rightarrow> (r, e\<lparr>send_queue := q\<rparr>))"

definition start_connect :: "'tls engine_env \<Rightarrow> nat \<Rightarrow> 'tls Engine \<Rightarrow> 'tls engine_result" where
  "start_connect env now e =
     and_then (enqueue_control ControlHardResetClientV2 [] now (transition_state EsConnecting e)) (\<lambda>pid e1.
     let e2 = emit_control_packet env \<lparr>cp_opcode = ControlHardResetClientV2, cp_key_id = 0,
           cp_session_id = local_session_id e1, ack_array = [], cp_remote_session_id = None, cp_packet_id = Some pid,
           cp_payload = []\<rparr> e1 in
     (case tls_new env (nullish (first_opt (oc_hosts (eng_config e2))) ''vpn.example.com'') (oc_ca (eng_config e2))
          (oc_cert (eng_config e2)) (oc_key (eng_config e2)) of
        Inl err \<Rightarrow> (Inl err, e2) | Inr tls \<Rightarrow> (Inr (), e2\<lparr>tls_adapter := Some tls\<rparr>)))"

section \<open>Messages of the server\<close>

text \<open>\<open>s.split(p)\<close> for a text \<open>p\<close>.\<close>

fun split_text :: "string \<Rightarrow> nat \<Rightarrow> string \<Rightarrow> string \<Rightarrow> string list" where
  "split_text p skip acc [] = [rev acc]"
| "split_text p skip acc (c # s) =
     (if skip > 0 then split_text p (skip - 1) acc s
      else if prefix p (c # s) then rev acc # split_text p (length p - 1) [] s
      else split_text p 0 (c # acc) s)"

definition trim_commas :: "string \<Rightarrow> string" where
  "trim_commas s = rev (dropWhile (\<lambda>c. c = CHR '','') (rev (dropWhile (\<lambda>c. c = CHR '','') s)))"

definition accumulate_part :: "string \<Rightarrow> string \<Rightarrow> string" where
  "accumulate_part part acc = (let trimmed = trim (trim_commas (trim part)) in
     if trimmed = [] then acc else if acc = [] then trimmed else acc @ '','' @ trimmed)"

definition apply_push_options :: "PushOptions \<Rightarrow> 'tls Engine \<Rightarrow> 'tls Engine" where
  "apply_push_options opts e = e\<lparr>
     eng_peer_id := or_opt (map_option of_nat (push_peer_id opts)) (eng_peer_id e),
     eng_config := (eng_config e)\<lparr>oc_ping_interval := or_opt (ping_interval opts) (oc_ping_interval (eng_config e)),
       oc_ping_restart := or_opt (ping_restart opts) (oc_ping_restart (eng_config e))\<rparr>,
     auth_token := or_opt (push_auth_token opts) (auth_token e)\<rparr>"

definition handle_app_message :: "string \<Rightarrow> 'tls Engine \<Rightarrow> 'tls engine_result" where
  "handle_app_message message e =
     (if str_includes message ''PUSH_REPLY'' then
        let e1 = e\<lparr>pushed_options_accumulator :=
              fold accumulate_part (split_text ''PUSH_REPLY'' 0 [] message) (pushed_options_accumulator e)\<rparr> in
        if str_includes message ''push-continuation 2'' then (Inr (), e1)
        else let opts = parse_push_reply (''PUSH_REPLY,'' @ pushed_options_accumulator e1); e2 = apply_push_options opts e1 in
          (Inr (), push_action (ConfigureNetwork (build_provisioning_config opts (eng_config e2))) (transition_state EsConnected e2))
      else case parse_challenge message of
        Some ch \<Rightarrow> (Inr (), push_action (RequestAuthChallenge ch) (transition_state EsAuthenticating e))
      | None \<Rightarrow> if str_includes message ''AUTH_FAILED''
          then (Inl (AuthenticationFailed message), push_action (CloseSession message) (transition_state EsError e))
          else (Inr (), e))"

section \<open>Control channel\<close>

text \<open>An operation of the TLS connection, if there is one.\<close>

definition with_tls :: "('tls \<Rightarrow> (ProtocolError + 'a) \<times> 'tls) \<Rightarrow> 'a \<Rightarrow> 'tls Engine \<Rightarrow> (ProtocolError + 'a) \<times> 'tls Engine" where
  "with_tls op absent e = (case tls_adapter e of None \<Rightarrow> (Inr absent, e)
   | Some t \<Rightarrow> (case op t of (r, t') \<Rightarrow> (r, e\<lparr>tls_adapter := Some t'\<rparr>)))"

fun feed_chunks :: "'tls engine_env \<Rightarrow> bytes list \<Rightarrow> 'tls Engine \<Rightarrow> 'tls engine_result" where
  "feed_chunks env [] e = (Inr (), e)"
| "feed_chunks env (c # cs) e = and_then (with_tls (feed_tls_bytes env c) () e) (\<lambda>_. feed_chunks env cs)"

definition handshake_completed :: "'tls engine_env \<Rightarrow> 'tls Engine \<Rightarrow> bool" where
  "handshake_completed env e = (case tls_adapter e of None \<Rightarrow> False
   | Some t \<Rightarrow> \<not> is_handshaking env t \<and> eng_state e = EsConnecting)"

definition tls_round ::
  "'tls engine_env \<Rightarrow> bytes list \<Rightarrow> 'tls Engine \<Rightarrow> (ProtocolError + bytes \<times> bool \<times> bytes) \<times> 'tls Engine" where
  "tls_round env chunks e =
     and_then (feed_chunks env chunks e) (\<lambda>_ e1.
     and_then (with_tls (extract_outgoing_tls_bytes env) [] e1) (\<lambda>out e2.
     and_then (with_tls (read_plaintext_app_data env) [] e2) (\<lambda>app e3.
     (Inr (out, handshake_completed env e2, app), e3))))"

definition send_acks_with :: "'tls engine_env \<Rightarrow> Opcode \<Rightarrow> 32 word option \<Rightarrow> bytes \<Rightarrow> 'tls Engine \<Rightarrow> 'tls Engine" where
  "send_acks_with env op pid payload e = (case drain_acks (recv_queue e) of (acks, rq) \<Rightarrow>
     emit_control_packet env \<lparr>cp_opcode = op, cp_key_id = 0, cp_session_id = local_session_id e, ack_array = acks,
       cp_remote_session_id = eng_remote_session_id e, cp_packet_id = pid, cp_payload = payload\<rparr> (e\<lparr>recv_queue := rq\<rparr>))"

definition send_tls_bytes :: "'tls engine_env \<Rightarrow> nat \<Rightarrow> bytes \<Rightarrow> 'tls Engine \<Rightarrow> 'tls engine_result" where
  "send_tls_bytes env now out e = (if out = [] then (Inr (), e)
     else and_then (enqueue_control ControlV1 out now e) (\<lambda>pid e1. (Inr (), send_acks_with env ControlV1 (Some pid) out e1)))"

definition send_pending_acks :: "'tls engine_env \<Rightarrow> 'tls Engine \<Rightarrow> 'tls Engine" where
  "send_pending_acks env e = (if pending_acks (recv_queue e) = [] then e else send_acks_with env AckV1 None [] e)"

text \<open>
  \<open>String::from_utf8_lossy\<close>. A lead byte gives the length of the character and the range of its second byte;
  what is not the beginning of a character, as far as it goes, becomes one replacement character. Texts are
  their UTF-8 bytes here, so a valid character stays as it is.
\<close>

definition utf8_lead :: "8 word \<Rightarrow> (nat \<times> 8 word \<times> 8 word) option" where
  "utf8_lead b = (if 0xC2 \<le> b \<and> b \<le> 0xDF then Some (2, 0x80, 0xBF) else if b = 0xE0 then Some (3, 0xA0, 0xBF)
     else if b = 0xED then Some (3, 0x80, 0x9F) else if 0xE1 \<le> b \<and> b \<le> 0xEF then Some (3, 0x80, 0xBF)
     else if b = 0xF0 then Some (4, 0x90, 0xBF) else if 0xF1 \<le> b \<and> b \<le> 0xF3 then Some (4, 0x80, 0xBF)
     else if b = 0xF4 then Some (4, 0x80, 0x8F) else None)"

definition utf8_chunk :: "8 word \<Rightarrow> bytes \<Rightarrow> nat \<times> bool" where
  "utf8_chunk b rest = (if b < 0x80 then (1, True) else case utf8_lead b of None \<Rightarrow> (1, False)
   | Some (n, lo, hi) \<Rightarrow>
       if rest = [] \<or> hd rest < lo \<or> hi < hd rest then (1, False)
       else let k = length (takeWhile (\<lambda>w. 0x80 \<le> w \<and> w \<le> 0xBF) (take (n - 2) (tl rest))) in (2 + k, k = n - 2))"

fun from_utf8_lossy :: "bytes \<Rightarrow> bytes" where
  "from_utf8_lossy [] = []"
| "from_utf8_lossy (b # rest) = (case utf8_chunk b rest of (n, valid) \<Rightarrow>
     (if valid then take n (b # rest) else [0xEF, 0xBF, 0xBD]) @ from_utf8_lossy (drop (n - 1) rest))"

definition message_text :: "bytes \<Rightarrow> string" where
  "message_text b = map (\<lambda>w. char_of (unat w)) (from_utf8_lossy b)"

lemma ascii_lossless: "list_all (\<lambda>w. w < 0x80) b \<Longrightarrow> from_utf8_lossy b = b"
  by (induction b) (simp_all add: utf8_chunk_def)

text \<open>
  Flushing the channel and completing the handshake call each other. The handshake is complete only once, in the
  state \<open>Connecting\<close>, which the completion has left when it flushes again; so the inner flush never
  completes a handshake.
\<close>

definition flush_with :: "('tls Engine \<Rightarrow> 'tls engine_result) \<Rightarrow> 'tls engine_env \<Rightarrow> nat \<Rightarrow> 'tls Engine \<Rightarrow> 'tls engine_result" where
  "flush_with on_complete env now e = (case drain_ready (recv_queue e) of (chunks, rq) \<Rightarrow>
     and_then (tls_round env (if tls_adapter e = None then [] else chunks) (e\<lparr>recv_queue := rq\<rparr>)) (\<lambda>(out, completed, app) e1.
     and_then (send_tls_bytes env now out e1) (\<lambda>_ e2.
     and_then (if completed then on_complete (transition_state EsTlsHandshake e2) else (Inr (), e2)) (\<lambda>_ e3.
     and_then (if app \<noteq> [] then handle_app_message (message_text app) e3 else (Inr (), e3)) (\<lambda>_ e4.
     (Inr (), send_pending_acks env e4))))))"

definition session_keys_of :: "bytes \<Rightarrow> nat \<Rightarrow> SessionKeySet" where
  "session_keys_of m n = \<lparr>sk_key_id = 0, tx_cipher_key = take n m, tx_hmac_key = take 64 (drop 64 m),
     rx_cipher_key = take n (drop 128 m), rx_hmac_key = take 64 (drop 192 m)\<rparr>"

definition auth_creds :: "'tls Engine \<Rightarrow> (string \<times> string) option" where
  "auth_creds e = (case auth_token e of
     Some token \<Rightarrow> Some (nullish (Option.bind (oc_auth_user_pass (eng_config e)) fst) ''auth-token-user'', token)
   | None \<Rightarrow> (case oc_auth_user_pass (eng_config e) of Some (Some u, Some p) \<Rightarrow> Some (u, p) | _ \<Rightarrow> None))"

definition install_keys :: "'tls engine_env \<Rightarrow> nat \<Rightarrow> 'tls Engine \<Rightarrow> 'tls engine_result" where
  "install_keys env now e =
     (case (case tls_adapter e of None \<Rightarrow> Inr (replicate 256 0) | Some t \<Rightarrow> export_keying_material env t) of
        Inl err \<Rightarrow> (Inl err, e)
      | Inr m \<Rightarrow> (case install_new_key (create_cipher env (cipher_suite e)) (session_keys_of m (key_size (cipher_suite e))) now
            (key_manager e) of (r, km) \<Rightarrow> (r, e\<lparr>key_manager := km\<rparr>)))"

definition complete_with :: "('tls Engine \<Rightarrow> 'tls engine_result) \<Rightarrow> 'tls engine_env \<Rightarrow> nat \<Rightarrow> 'tls Engine \<Rightarrow> 'tls engine_result" where
  "complete_with flush env now e = and_then (install_keys env now e) (\<lambda>_ e1.
     case auth_creds e1 of
       Some (u, p) \<Rightarrow> and_then (with_tls (send_plaintext_app_data env (encode_credentials (random_bytes env) u p)) ()
           (transition_state EsAuthenticating e1)) (\<lambda>_. flush)
     | None \<Rightarrow> and_then (with_tls (send_plaintext_app_data env (text_bytes ''PUSH_REQUEST'' @ [0])) ()
           (transition_state EsPullingConfig e1)) (\<lambda>_. flush))"

definition flush_again :: "'tls engine_env \<Rightarrow> nat \<Rightarrow> 'tls Engine \<Rightarrow> 'tls engine_result" where
  "flush_again = flush_with (\<lambda>e. (Inr (), e))"

definition handle_tls_handshake_completion :: "'tls engine_env \<Rightarrow> nat \<Rightarrow> 'tls Engine \<Rightarrow> 'tls engine_result" where
  "handle_tls_handshake_completion env now = complete_with (flush_again env now) env now"

definition flush_control_channel :: "'tls engine_env \<Rightarrow> nat \<Rightarrow> 'tls Engine \<Rightarrow> 'tls engine_result" where
  "flush_control_channel env now = flush_with (handle_tls_handshake_completion env now) env now"

section \<open>Packets and time\<close>

definition open_control :: "'tls engine_env \<Rightarrow> bytes \<Rightarrow> 'tls Engine \<Rightarrow> ProtocolError + ControlPacket" where
  "open_control env packet e = (case tls_auth e of
     None \<Rightarrow> decode_control packet
   | Some ta \<Rightarrow> (case unwrap_packet (env_hmac env) ta packet of
       Inl err \<Rightarrow> Inl (CryptoFailure err)
     | Inr (header, session_id, pid, ts, body) \<Rightarrow> (case parse_header_byte header of
         Inl err \<Rightarrow> Inl err | Inr (op, key_id) \<Rightarrow> decode_body op key_id session_id body)))"

definition discover_session :: "64 word \<Rightarrow> 'tls Engine \<Rightarrow> 'tls Engine" where
  "discover_session sid e = (if eng_remote_session_id e = None
     then e\<lparr>eng_remote_session_id := Some sid, send_queue := (send_queue e)\<lparr>sq_remote_session_id := Some sid\<rparr>\<rparr> else e)"

definition process_incoming_control_packet :: "'tls engine_env \<Rightarrow> nat \<Rightarrow> bytes \<Rightarrow> 'tls Engine \<Rightarrow> 'tls engine_result" where
  "process_incoming_control_packet env now packet e = (case open_control env packet e of
     Inl err \<Rightarrow> (Inl err, e)
   | Inr cp \<Rightarrow>
       let e1 = discover_session (cp_session_id cp) e;
           e2 = e1\<lparr>send_queue := snd (process_acks (ack_array cp) (send_queue e1))\<rparr> in
       and_then (case cp_packet_id cp of None \<Rightarrow> (Inr (), e2)
           | Some pid \<Rightarrow> (case process_packet pid (cp_payload cp) (recv_queue e2) of (r, rq) \<Rightarrow> (r, e2\<lparr>recv_queue := rq\<rparr>)))
         (\<lambda>_. flush_control_channel env now))"

definition process_network_packet :: "'tls engine_env \<Rightarrow> nat \<Rightarrow> bytes \<Rightarrow> 'tls Engine \<Rightarrow> 'tls engine_result" where
  "process_network_packet env now packet e = (let e0 = e\<lparr>last_packet_recv := now\<rparr> in
     case packet of [] \<Rightarrow> (Inr (), e0)
     | b # _ \<Rightarrow> (case parse_header_byte b of
         Inl err \<Rightarrow> (Inl err, e0)
       | Inr (op, key_id) \<Rightarrow>
           if is_data op then process_incoming_data_packet key_id packet e0
           else process_incoming_control_packet env now packet e0))"

definition submit_challenge_response :: "'tls engine_env \<Rightarrow> nat \<Rightarrow> string \<Rightarrow> string \<Rightarrow> 'tls Engine \<Rightarrow> 'tls engine_result" where
  "submit_challenge_response env now state_id response e =
     and_then (with_tls (send_plaintext_app_data env (encode_crv1_response state_id response)) () e) (\<lambda>_. flush_control_channel env now)"

definition resend_control :: "'tls engine_env \<Rightarrow> ControlPacket \<Rightarrow> 'tls Engine \<Rightarrow> 'tls Engine" where
  "resend_control env cp e = (case drain_acks (recv_queue e) of (acks, rq) \<Rightarrow>
     emit_control_packet env (cp\<lparr>ack_array := acks\<rparr>) (e\<lparr>recv_queue := rq\<rparr>))"

definition inactivity_text :: "nat \<Rightarrow> string" where
  "inactivity_text secs = ''Inactivity timeout: no packets received from server in '' @ string_of_nat secs @ ''s (ping-restart)''"

definition check_inactivity :: "nat \<Rightarrow> 'tls Engine \<Rightarrow> 'tls engine_result" where
  "check_inactivity now e = (let restart = nullish (oc_ping_restart (eng_config e)) 120 in
     if now - last_packet_recv e \<ge> restart * 1000
     then (Inl (HandshakeTimeout (restart * 1000)), push_action (CloseSession (inactivity_text restart)) (transition_state EsError e))
     else (Inr (), e))"

definition handle_timeout :: "'tls engine_env \<Rightarrow> nat \<Rightarrow> 'tls Engine \<Rightarrow> 'tls engine_result" where
  "handle_timeout env now e = (case poll_retransmissions now (send_queue e) of (r, q) \<Rightarrow>
     and_then (r, e\<lparr>send_queue := q\<rparr>) (\<lambda>resends e1.
       let e2 = fold (resend_control env) resends e1 in
       if eng_state e2 = EsConnected
       then and_then (if now - eng_last_ping_sent e2 \<ge> nullish (oc_ping_interval (eng_config e2)) 10 * 1000
           then send_keepalive_ping now e2 else (Inr (), e2)) (\<lambda>_. check_inactivity now)
       else (Inr (), e2)))"

end
