(* ===== verification/Ovpn_Session.thy ===== *)
theory Ovpn_Session
  imports Ovpn_Engine
begin

text \<open>
  The client session around the engine, \<^verbatim>\<open>ovpn-core/src/session.rs\<close>: the pipeline that feeds packets, commands and ticks to
  the engine and carries out its actions, and the loop over the addresses of the server. Whether a write to the socket
  or to the tunnel device succeeds is an argument, as is which addresses can be connected. Then what the engine keeps, and
  what one packet can do to a session.
\<close>

section \<open>Pipeline\<close>

datatype CoreError =
  CoreConfig string
| CoreProtocol ProtocolError
| CoreTransport
| CoreTun
| CoreIo
| AllRemotesFailed
| SessionClosed string

datatype pipeline_input =
  NetworkPacket nat bytes
| TunPacket bytes
| SubmitCredentials string string
| SubmitChallengeResponse nat string string
| DisconnectCommand string
| HandleDropped
| Ticker nat nat nat nat

datatype pipeline_effect = ToNetwork bytes | ToTun bytes | SendEvent SessionEvent

text \<open>\<open>Hangs\<close> is a call of the engine that never returns, \<open>Panics\<close> one that panics.\<close>

datatype 'e pipeline = Running 'e | Ended "CoreError + unit" | Hangs | Panics

definition show_ip :: "(Ipv6Addr \<Rightarrow> string) \<Rightarrow> IpAddr \<Rightarrow> string" where
  "show_ip show6 a = (case a of V4 w \<Rightarrow> show_ipv4 w | V6 g \<Rightarrow> show6 g)"

text \<open>What the driver reads of the configuration; how an IPv6 address is written is an argument.\<close>

definition provision_of :: "(Ipv6Addr \<Rightarrow> string) \<Rightarrow> NetworkProvisioningConfig \<Rightarrow> NetworkProvision" where
  "provision_of show6 c = \<lparr>np_ipv4_address = map_option show_ipv4 (nc_ipv4_address c),
     np_redirect_gateway = enabled (nc_redirect_gateway c), np_search_domains = nc_search_domains c,
     np_dns_servers = map (show_ip show6) (nc_dns_servers c),
     np_routes_v4 = map (\<lambda>r. (show_ipv4 (destination r), netmask_v4 r)) (nc_routes_v4 c)\<rparr>"

definition challenge_text :: "AuthChallenge \<Rightarrow> string" where
  "challenge_text c = (case c of CrV1 flags state_id user prompt \<Rightarrow> prompt | WebSso url \<Rightarrow> url | UserPassRequired \<Rightarrow> [])"

record io =
  write_ok :: "OutputAction \<Rightarrow> bool"
  show_ipv6 :: "Ipv6Addr \<Rightarrow> string"

fun drain_engine_actions :: "io \<Rightarrow> OutputAction list \<Rightarrow> pipeline_effect list \<times> (CoreError + unit)" where
  "drain_engine_actions w [] = ([], Inr ())"
| "drain_engine_actions w (a # as) =
     (let go = (\<lambda>fx. case drain_engine_actions w as of (fxs, r) \<Rightarrow> (fx # fxs, r)) in
      case a of
        SendToNetwork p \<Rightarrow> if write_ok w a then go (ToNetwork p) else ([], Inl CoreTransport)
      | SendToTun p \<Rightarrow> if write_ok w a then go (ToTun p) else ([], Inl CoreTun)
      | ConfigureNetwork c \<Rightarrow> go (SendEvent (SeNetworkConfigured (provision_of (show_ipv6 w) c)))
      | RequestAuthChallenge c \<Rightarrow> go (SendEvent (SeAuthChallenge (challenge_text c)))
      | StateChange st \<Rightarrow> go (SendEvent (SeStateChanged st))
      | CloseSession reason \<Rightarrow> ([SendEvent (SeDisconnected reason)], Inl (SessionClosed reason)))"

definition carry_out :: "io \<Rightarrow> 'tls Engine \<Rightarrow> pipeline_effect list \<times> 'tls Engine pipeline" where
  "carry_out w e = (case drain_engine_actions w (eng_outbox e) of
     (fx, Inl err) \<Rightarrow> (fx, Ended (Inl err)) | (fx, Inr _) \<Rightarrow> (fx, Running (e\<lparr>eng_outbox := []\<rparr>)))"

definition after_engine :: "io \<Rightarrow> 'tls engine_result \<Rightarrow> pipeline_effect list \<times> 'tls Engine pipeline" where
  "after_engine w r = (case r of (Inl err, e) \<Rightarrow> ([], Ended (Inl (CoreProtocol err))) | (Inr _, e) \<Rightarrow> carry_out w e)"

definition tick_outcome :: "SessionEvent \<Rightarrow> pipeline_effect list \<times> 'tls Engine pipeline \<Rightarrow> pipeline_effect list \<times> 'tls Engine pipeline" where
  "tick_outcome stats r = (case r of
     (fx, Running e) \<Rightarrow> (fx @ [SendEvent stats], if eng_state e = EsError
       then Ended (Inl (SessionClosed ''Protocol engine entered Error state'')) else Running e)
   | (fx, p) \<Rightarrow> (fx, p))"

fun pipeline_step :: "'tls engine_env \<Rightarrow> io \<Rightarrow> pipeline_input \<Rightarrow> 'tls Engine \<Rightarrow> pipeline_effect list \<times> 'tls Engine pipeline" where
  "pipeline_step env w (NetworkPacket now packet) e = after_engine w (process_network_packet env now packet e)"
| "pipeline_step env w (TunPacket packet) e = (if packet = [] then ([], Running e)
     else case process_tun_packet packet e of
       None \<Rightarrow> ([], Hangs) | Some TunPanics \<Rightarrow> ([], Panics) | Some (TunReturns r e1) \<Rightarrow> after_engine w (r, e1))"
| "pipeline_step env w (SubmitCredentials user pass) e = carry_out w e"
| "pipeline_step env w (SubmitChallengeResponse now state_id response) e =
     after_engine w (submit_challenge_response env now state_id response e)"
| "pipeline_step env w (DisconnectCommand reason) e = ([SendEvent (SeDisconnected reason)], Ended (Inr ()))"
| "pipeline_step env w HandleDropped e = ([], Ended (Inr ()))"
| "pipeline_step env w (Ticker now i out up) e =
     tick_outcome (SeStatsUpdated i out up) (after_engine w (handle_timeout env now e))"

definition start_pipeline ::
  "'tls engine_env \<Rightarrow> io \<Rightarrow> 64 word \<Rightarrow> OpenVpnConfig \<Rightarrow> nat \<Rightarrow> pipeline_effect list \<times> 'tls Engine pipeline" where
  "start_pipeline env w session_id c now = after_engine w (start_connect env now (engine_new env session_id c now))"

fun run_from :: "'tls engine_env \<Rightarrow> io \<Rightarrow> pipeline_input list \<Rightarrow> pipeline_effect list \<times> 'tls Engine pipeline \<Rightarrow>
    pipeline_effect list \<times> 'tls Engine pipeline" where
  "run_from env w (i # is) (fx, Running e) = (case pipeline_step env w i e of (fx', p) \<Rightarrow> run_from env w is (fx @ fx', p))"
| "run_from env w is r = r"

section \<open>Addresses\<close>

definition core_error_text :: "CoreError \<Rightarrow> string" where
  "core_error_text e = (case e of
     AllRemotesFailed \<Rightarrow> ''Failed to connect to all configured remote endpoints''
   | SessionClosed r \<Rightarrow> ''Client session was closed: '' @ r
   | _ \<Rightarrow> [])"

text \<open>One entry for each resolved address: \<open>None\<close> when no connection was made, otherwise the events and the outcome.\<close>

fun run_orchestration_loop :: "(SessionEvent list \<times> (CoreError + unit)) option list \<Rightarrow> SessionEvent list \<times> (CoreError + unit)" where
  "run_orchestration_loop [] = ([], Inl AllRemotesFailed)"
| "run_orchestration_loop (None # as) = run_orchestration_loop as"
| "run_orchestration_loop (Some (evs, Inr u) # as) = (evs, Inr u)"
| "run_orchestration_loop (Some (evs, Inl err) # as) = (case run_orchestration_loop as of (evs', r) \<Rightarrow> (evs @ evs', r))"

definition session_task :: "(SessionEvent list \<times> (CoreError + unit)) option list \<Rightarrow> SessionEvent list" where
  "session_task as = (case run_orchestration_loop as of
     (evs, Inl err) \<Rightarrow> evs @ [SeError (core_error_text err)] | (evs, Inr _) \<Rightarrow> evs)"

fun events_of :: "pipeline_effect list \<Rightarrow> SessionEvent list" where
  "events_of [] = []"
| "events_of (SendEvent ev # fx) = ev # events_of fx"
| "events_of (_ # fx) = events_of fx"

section \<open>Keys are there before packets\<close>

lemma and_then_Inr: "and_then r f = (Inr y, s) \<longleftrightarrow> (\<exists>x s1. r = (Inr x, s1) \<and> f x s1 = (Inr y, s))"
  by (cases r; cases "fst r") (auto simp: and_then_def)

text \<open>What the operations below the handshake leave alone.\<close>

definition same_keys :: "'tls Engine \<Rightarrow> 'tls Engine \<Rightarrow> bool" where
  "same_keys e e' \<longleftrightarrow> eng_state e' = eng_state e \<and> key_manager e' = key_manager e \<and> (tls_adapter e' = None \<longleftrightarrow> tls_adapter e = None)"

lemma same_keys_refl [simp]: "same_keys e e"
  by (simp add: same_keys_def)

lemma same_keys_trans [trans]: "same_keys a b \<Longrightarrow> same_keys b c \<Longrightarrow> same_keys a c"
  by (simp add: same_keys_def)

lemma emit_keeps: "same_keys e (emit_control_packet env cp e)"
  by (simp add: emit_control_packet_def same_keys_def push_action_def split: option.split prod.split)

lemma update_keeps:
  "same_keys e (e\<lparr>recv_queue := q\<rparr>)" "same_keys e (e\<lparr>send_queue := sq\<rparr>)" "same_keys e (e\<lparr>last_packet_recv := t\<rparr>)"
  "same_keys e (e\<lparr>eng_outbox := out\<rparr>)"
  by (simp_all add: same_keys_def)

lemma with_tls_keeps: "with_tls op d e = (r, e') \<Longrightarrow> same_keys e e'"
  by (auto simp: with_tls_def same_keys_def split: option.splits prod.splits)

lemma feed_keeps: "feed_chunks env cs e = (r, e') \<Longrightarrow> same_keys e e'"
proof (induction cs arbitrary: e)
  case (Cons c cs)
  then show ?case
    by (auto simp: and_then_def split: prod.splits sum.splits dest!: with_tls_keeps intro: same_keys_trans)
qed simp

lemma acks_keep: "same_keys e (send_acks_with env op pid payload e)"
  unfolding send_acks_with_def drain_acks_def prod.case
  by (rule same_keys_trans [OF update_keeps(1) emit_keeps])

lemma pending_keeps: "same_keys e (send_pending_acks env e)"
  by (simp add: send_pending_acks_def acks_keep)

lemma enqueue_keeps: "enqueue_control op payload now e = (r, e') \<Longrightarrow> same_keys e e'"
  by (auto simp: enqueue_control_def update_keeps split: prod.splits)

lemma send_tls_keeps: "send_tls_bytes env now out e = (r, e') \<Longrightarrow> same_keys e e'"
  by (auto simp: send_tls_bytes_def and_then_def split: if_splits prod.splits sum.splits dest!: enqueue_keeps
      intro: same_keys_trans acks_keep)

text \<open>A TLS connection hands out application data only when its handshake is over.\<close>

definition tls_law :: "'tls engine_env \<Rightarrow> bool" where
  "tls_law env \<longleftrightarrow> (\<forall>t app t'. read_plaintext_app_data env t = (Inr app, t') \<longrightarrow> app \<noteq> [] \<longrightarrow> \<not> is_handshaking env t)"

lemma tls_round_keeps:
  assumes "tls_law env" and "tls_round env chunks e = (Inr (out, completed, app), e')"
  shows "same_keys e e'" and "app \<noteq> [] \<Longrightarrow> tls_adapter e \<noteq> None \<and> (eng_state e = EsConnecting \<longrightarrow> completed)"
    and "completed \<Longrightarrow> eng_state e = EsConnecting"
proof -
  obtain e1 e2 where f: "feed_chunks env chunks e = (Inr (), e1)"
    and x: "with_tls (extract_outgoing_tls_bytes env) [] e1 = (Inr out, e2)"
    and r: "with_tls (read_plaintext_app_data env) [] e2 = (Inr app, e')" and c: "completed = handshake_completed env e2"
    using assms(2) by (auto simp: tls_round_def and_then_Inr)
  have s: "same_keys e e2" using feed_keeps [OF f] with_tls_keeps [OF x] same_keys_trans by blast
  show "same_keys e e'" using s with_tls_keeps [OF r] same_keys_trans by blast
  show "tls_adapter e \<noteq> None \<and> (eng_state e = EsConnecting \<longrightarrow> completed)" if "app \<noteq> []"
  proof (cases "tls_adapter e2")
    case None
    then show ?thesis using r that by (simp add: with_tls_def)
  next
    case (Some t)
    then have "\<not> is_handshaking env t"
      using r that assms(1) by (auto simp: with_tls_def tls_law_def split: prod.splits)
    then show ?thesis using s Some by (auto simp: c handshake_completed_def same_keys_def)
  qed
  show "eng_state e = EsConnecting" if "completed"
    using that s by (auto simp: c handshake_completed_def same_keys_def split: option.splits)
qed

text \<open>Past the handshake there is a key; before the start there is no TLS connection.\<close>

definition settled :: "'tls Engine \<Rightarrow> bool" where
  "settled e \<longleftrightarrow> primary (key_manager e) \<noteq> None \<and> eng_state e \<notin> {EsDisconnected, EsConnecting}"

definition keyed :: "'tls Engine \<Rightarrow> bool" where
  "keyed e \<longleftrightarrow> settled e \<or> eng_state e = EsConnecting \<or> (eng_state e = EsDisconnected \<and> tls_adapter e = None)"

lemma same_keys_settled: "same_keys e e' \<Longrightarrow> settled e' = settled e"
  by (simp add: same_keys_def settled_def)

lemma same_keys_keyed: "same_keys e e' \<Longrightarrow> keyed e' = keyed e"
  by (simp add: same_keys_def keyed_def settled_def)

lemma message_settled: "settled e \<Longrightarrow> handle_app_message m e = (Inr (), e') \<Longrightarrow> settled e'"
  by (auto simp: handle_app_message_def settled_def Let_def push_action_def transition_state_def apply_push_options_def
      split: if_splits option.splits)

lemma flush_withE:
  assumes "flush_with on_complete env now e = (Inr (), e')"
  obtains out completed app e1 e2 e3 e4 where
    "tls_round env (if tls_adapter e = None then [] else ready_stream (recv_queue e)) (e\<lparr>recv_queue := snd (drain_ready (recv_queue e))\<rparr>) =
      (Inr (out, completed, app), e1)"
    "send_tls_bytes env now out e1 = (Inr (), e2)"
    "(if completed then on_complete (transition_state EsTlsHandshake e2) else (Inr (), e2)) = (Inr (), e3)"
    "(if app \<noteq> [] then handle_app_message (message_text app) e3 else (Inr (), e3)) = (Inr (), e4)"
    "e' = send_pending_acks env e4"
  using assms by (fastforce simp: flush_with_def drain_ready_def and_then_Inr)

lemma flush_settled:
  assumes "tls_law env" and "settled e" and "flush_with on_complete env now e = (Inr (), e')"
  shows "settled e'"
proof -
  from assms(3) obtain out completed app e1 e2 e3 e4 where
    t: "tls_round env (if tls_adapter e = None then [] else ready_stream (recv_queue e)) (e\<lparr>recv_queue := snd (drain_ready (recv_queue e))\<rparr>) =
      (Inr (out, completed, app), e1)"
    and s: "send_tls_bytes env now out e1 = (Inr (), e2)"
    and c: "(if completed then on_complete (transition_state EsTlsHandshake e2) else (Inr (), e2)) = (Inr (), e3)"
    and m: "(if app \<noteq> [] then handle_app_message (message_text app) e3 else (Inr (), e3)) = (Inr (), e4)"
    and e': "e' = send_pending_acks env e4"
    by (rule flush_withE)
  have "settled e1" using tls_round_keeps(1) [OF assms(1) t] assms(2) update_keeps(1) same_keys_settled same_keys_trans by metis
  moreover have "\<not> completed" using tls_round_keeps(3) [OF assms(1) t] assms(2) by (auto simp: settled_def)
  ultimately have "settled e3" using c s send_tls_keeps same_keys_settled by (metis prod.inject)
  then have "settled e4" using m message_settled by (auto split: if_splits)
  then show ?thesis unfolding e' using pending_keeps same_keys_settled by metis
qed

lemma install_settles:
  assumes "install_keys env now e = (Inr (), e')" and "eng_state e \<notin> {EsDisconnected, EsConnecting}"
  shows "settled e'"
  using assms by (auto simp: install_keys_def install_new_key_def settled_def split: sum.splits option.splits prod.splits)

lemma transition_settled: "settled e \<Longrightarrow> st \<notin> {EsDisconnected, EsConnecting} \<Longrightarrow> settled (transition_state st e)"
  by (simp add: transition_state_def settled_def push_action_def)

lemma completion_settles:
  assumes "tls_law env" and "handle_tls_handshake_completion env now e = (Inr (), e')" and "eng_state e = EsTlsHandshake"
  shows "settled e'"
proof -
  obtain e1 where i: "install_keys env now e = (Inr (), e1)"
    and r: "(case auth_creds e1 of
       Some (u, p) \<Rightarrow> and_then (with_tls (send_plaintext_app_data env (encode_credentials (random_bytes env) u p)) ()
           (transition_state EsAuthenticating e1)) (\<lambda>_. flush_again env now)
     | None \<Rightarrow> and_then (with_tls (send_plaintext_app_data env (text_bytes ''PUSH_REQUEST'' @ [0])) ()
           (transition_state EsPullingConfig e1)) (\<lambda>_. flush_again env now)) = (Inr (), e')"
    using assms(2) by (auto simp: handle_tls_handshake_completion_def complete_with_def and_then_Inr)
  have s: "settled e1" using install_settles [OF i] assms(3) by simp
  obtain b st e2 where w: "with_tls (send_plaintext_app_data env b) () (transition_state st e1) = (Inr (), e2)"
    and st: "st \<in> {EsAuthenticating, EsPullingConfig}" and f: "flush_again env now e2 = (Inr (), e')"
    using r by (fastforce simp: and_then_Inr split: option.splits prod.splits)
  have "settled (transition_state st e1)" using transition_settled [OF s] st by auto
  then have "settled e2" using with_tls_keeps [OF w] same_keys_settled by metis
  then show ?thesis using flush_settled [OF assms(1)] f by (simp add: flush_again_def)
qed

lemma flush_keyed:
  assumes "tls_law env" and "keyed e" and "flush_control_channel env now e = (Inr (), e')"
  shows "keyed e'"
proof -
  from assms(3) [unfolded flush_control_channel_def] obtain out completed app e1 e2 e3 e4 where
    t: "tls_round env (if tls_adapter e = None then [] else ready_stream (recv_queue e)) (e\<lparr>recv_queue := snd (drain_ready (recv_queue e))\<rparr>) =
      (Inr (out, completed, app), e1)"
    and s: "send_tls_bytes env now out e1 = (Inr (), e2)"
    and c: "(if completed then handle_tls_handshake_completion env now (transition_state EsTlsHandshake e2) else (Inr (), e2)) = (Inr (), e3)"
    and m: "(if app \<noteq> [] then handle_app_message (message_text app) e3 else (Inr (), e3)) = (Inr (), e4)"
    and e': "e' = send_pending_acks env e4"
    by (rule flush_withE)
  have e2: "same_keys e e2"
    using tls_round_keeps(1) [OF assms(1) t] send_tls_keeps [OF s] update_keeps(1) same_keys_trans by metis
  have e3: "settled e3 \<or> (\<not> completed \<and> same_keys e e3)"
  proof (cases completed)
    case True
    then have "eng_state (transition_state EsTlsHandshake e2) = EsTlsHandshake"
      by (simp add: transition_state_def push_action_def)
    then show ?thesis using completion_settles [OF assms(1)] c True by auto
  next
    case False
    then show ?thesis using c e2 by simp
  qed
  have "settled e3 \<or> app = []"
    using e3 tls_round_keeps(2) [OF assms(1) t] assms(2) same_keys_settled by (auto simp: keyed_def)
  then have "settled e4 \<or> same_keys e e4" using m e3 message_settled by (auto split: if_splits)
  then show ?thesis unfolding e' using pending_keeps same_keys_keyed assms(2) by (metis keyed_def)
qed

lemma data_packet_keeps:
  assumes "process_incoming_data_packet k p e = (r, e')"
  shows "eng_state e' = eng_state e \<and> (primary (key_manager e') = None \<longleftrightarrow> primary (key_manager e) = None) \<and>
    tls_adapter e' = tls_adapter e"
  using assms by (auto simp: process_incoming_data_packet_def put_rx_slot_def Let_def split: sum.splits option.splits prod.splits if_splits)

lemma control_packet_keyed:
  assumes "tls_law env" and "keyed e" and "process_incoming_control_packet env now p e = (Inr (), e')"
  shows "keyed e'"
proof -
  obtain cp where o: "open_control env p e = Inr cp" using assms(3)
    by (cases "open_control env p e") (simp_all add: process_incoming_control_packet_def)
  let ?e1 = "discover_session (cp_session_id cp) e"
  let ?e2 = "?e1\<lparr>send_queue := snd (process_acks (ack_array cp) (send_queue ?e1))\<rparr>"
  let ?r = "case cp_packet_id cp of None \<Rightarrow> (Inr (), ?e2)
    | Some pid \<Rightarrow> (case process_packet pid (cp_payload cp) (recv_queue ?e2) of (r, rq) \<Rightarrow> (r, ?e2\<lparr>recv_queue := rq\<rparr>))"
  have "and_then ?r (\<lambda>_. flush_control_channel env now) = (Inr (), e')"
    using assms(3) o by (simp add: process_incoming_control_packet_def Let_def)
  then obtain u e3 where r: "?r = (Inr u, e3)" and f: "flush_control_channel env now e3 = (Inr (), e')"
    unfolding and_then_Inr by blast
  have "same_keys e ?e1" by (simp add: discover_session_def same_keys_def)
  moreover have "same_keys ?e2 e3" using r by (cases "cp_packet_id cp") (auto simp: update_keeps split: prod.splits)
  ultimately have "keyed e3" using assms(2) update_keeps(2) same_keys_keyed same_keys_trans by metis
  then show ?thesis using flush_keyed [OF assms(1) _ f] by simp
qed

lemma network_packet_keyed:
  assumes "tls_law env" and "keyed e" and "process_network_packet env now p e = (Inr (), e')"
  shows "keyed e'"
proof -
  have e0: "keyed (e\<lparr>last_packet_recv := now\<rparr>)" using assms(2) update_keeps(3) same_keys_keyed by metis
  consider "e' = e\<lparr>last_packet_recv := now\<rparr>" | k where "process_incoming_data_packet k p (e\<lparr>last_packet_recv := now\<rparr>) = (Inr (), e')"
    | "process_incoming_control_packet env now p (e\<lparr>last_packet_recv := now\<rparr>) = (Inr (), e')"
  proof (cases p)
    case Nil
    then show ?thesis using assms(3) that(1) by (simp add: process_network_packet_def)
  next
    case (Cons b r)
    then obtain op k where h: "parse_header_byte b = Inr (op, k)"
      using assms(3) by (cases "parse_header_byte b") (auto simp: process_network_packet_def)
    then show ?thesis using assms(3) Cons that(2,3) by (cases "is_data op") (simp_all add: process_network_packet_def)
  qed
  then show ?thesis
  proof cases
    case 1
    then show ?thesis using e0 by simp
  next
    case 2
    then show ?thesis using e0 data_packet_keeps [OF 2] by (auto simp: keyed_def settled_def)
  next
    case 3
    then show ?thesis using e0 control_packet_keyed [OF assms(1)] by blast
  qed
qed

lemma challenge_keyed:
  assumes "tls_law env" and "keyed e" and "submit_challenge_response env now sid resp e = (Inr (), e')"
  shows "keyed e'"
proof -
  obtain e1 where "with_tls (send_plaintext_app_data env (encode_crv1_response sid resp)) () e = (Inr (), e1)"
    and f: "flush_control_channel env now e1 = (Inr (), e')"
    using assms(3) by (auto simp: submit_challenge_response_def and_then_Inr)
  then have "keyed e1" using assms(2) with_tls_keeps same_keys_keyed by metis
  then show ?thesis using flush_keyed [OF assms(1) _ f] by simp
qed

lemma resend_keeps: "same_keys e (fold (resend_control env) cps e)"
proof (induction cps arbitrary: e)
  case (Cons cp cps)
  have "same_keys e (resend_control env cp e)"
    unfolding resend_control_def drain_acks_def prod.case by (rule same_keys_trans [OF update_keeps(1) emit_keeps])
  then show ?case using Cons.IH same_keys_trans by (metis fold_simps(2))
qed simp

lemma ping_keyed: "keyed e \<Longrightarrow> send_keepalive_ping now e = (r, e') \<Longrightarrow> keyed e'"
  by (auto simp: send_keepalive_ping_def keyed_def settled_def Let_def split: if_splits option.splits prod.splits sum.splits)

lemma timeout_keyed:
  assumes "keyed e" and "handle_timeout env now e = (Inr (), e')"
  shows "keyed e'"
proof -
  obtain resends q where h: "(let e2 = fold (resend_control env) resends (e\<lparr>send_queue := q\<rparr>) in
       if eng_state e2 = EsConnected
       then and_then (if now - eng_last_ping_sent e2 \<ge> nullish (oc_ping_interval (eng_config e2)) 10 * 1000
           then send_keepalive_ping now e2 else (Inr (), e2)) (\<lambda>_. check_inactivity now)
       else (Inr (), e2)) = (Inr (), e')"
    using assms(2) by (auto simp: handle_timeout_def and_then_Inr split: prod.splits)
  let ?e2 = "fold (resend_control env) resends (e\<lparr>send_queue := q\<rparr>)"
  have e2: "keyed ?e2" using assms(1) resend_keeps update_keeps(2) same_keys_keyed by metis
  then show ?thesis using h
    by (auto simp: Let_def and_then_Inr check_inactivity_def split: if_splits dest: ping_keyed)
qed

section \<open>Reachable engines\<close>

inductive session_reaches :: "'tls engine_env \<Rightarrow> io \<Rightarrow> 'tls Engine \<Rightarrow> bool" for env w where
  started: "start_pipeline env w session_id c now = (fx, Running e) \<Longrightarrow> session_reaches env w e"
| stepped: "session_reaches env w e \<Longrightarrow> pipeline_step env w i e = (fx, Running e') \<Longrightarrow> session_reaches env w e'"

lemma carry_out_keyed: "carry_out w e = (fx, Running e') \<Longrightarrow> keyed e' = keyed e"
  by (auto simp: carry_out_def keyed_def settled_def split: prod.splits sum.splits)

lemma after_engine_keyed:
  assumes "after_engine w r = (fx, Running e')" and "\<And>e1. r = (Inr (), e1) \<Longrightarrow> keyed e1"
  shows "keyed e'"
  using assms by (cases r; cases "fst r") (auto simp: after_engine_def dest: carry_out_keyed)

lemma start_keyed:
  assumes "start_pipeline env w session_id c now = (fx, Running e)"
  shows "keyed e"
proof (rule after_engine_keyed [OF assms [unfolded start_pipeline_def]])
  fix e1
  assume "start_connect env now (engine_new env session_id c now) = (Inr (), e1)"
  then obtain pid e2 where q: "enqueue_control ControlHardResetClientV2 [] now
      (transition_state EsConnecting (engine_new env session_id c now)) = (Inr pid, e2)"
    and t: "\<exists>cp t. e1 = (emit_control_packet env cp e2)\<lparr>tls_adapter := Some t\<rparr>"
    unfolding start_connect_def and_then_Inr Let_def by (elim exE conjE) (auto split: sum.split_asm)
  have "eng_state e2 = EsConnecting"
    using enqueue_keeps [OF q] by (simp add: same_keys_def transition_state_def push_action_def engine_new_def)
  then show "keyed e1" using t emit_keeps [of e2 env] by (auto simp: keyed_def same_keys_def)
qed

lemma tun_packet_keyed:
  assumes "keyed e" and "process_tun_packet p e = Some (TunReturns r e')"
  shows "keyed e'"
  using assms
  by (auto simp: process_tun_packet_def keyed_def settled_def Let_def
      split: if_splits option.splits mss_outcome.splits prod.splits sum.splits)

lemma step_keyed:
  assumes "tls_law env" and "keyed e" and "pipeline_step env w i e = (fx, Running e')"
  shows "keyed e'"
proof (cases i)
  case (NetworkPacket now p)
  then show ?thesis using assms(3) network_packet_keyed [OF assms(1,2)] by (auto intro: after_engine_keyed)
next
  case (TunPacket p)
  then show ?thesis using assms(2,3)
    by (auto split: if_splits option.splits tun_outcome.splits intro: after_engine_keyed tun_packet_keyed)
next
  case (SubmitCredentials u p)
  then show ?thesis using assms(2,3) carry_out_keyed by fastforce
next
  case (SubmitChallengeResponse now sid resp)
  then show ?thesis using assms(3) challenge_keyed [OF assms(1,2)] by (auto intro: after_engine_keyed)
next
  case (Ticker now i out up)
  then obtain fx' where "after_engine w (handle_timeout env now e) = (fx', Running e')"
    using assms(3) by (auto simp: tick_outcome_def split: prod.splits pipeline.splits if_splits)
  then show ?thesis using timeout_keyed [OF assms(2)] by (auto intro: after_engine_keyed)
qed (use assms(3) in auto)

lemma reachable_keyed: "tls_law env \<Longrightarrow> session_reaches env w e \<Longrightarrow> keyed e"
  proof -
  assume law: "tls_law env"
  show "session_reaches env w e \<Longrightarrow> keyed e"
    by (induction rule: session_reaches.induct) (auto intro: start_keyed step_keyed [OF law])
qed

text \<open>
  Property C26. In every state a running session can reach, an engine that is connected has a key to send with; so no
  packet of the tunnel device ends the session for want of a key. Of TLS it is only needed that application
  data comes after the handshake.
\<close>

theorem connected_session_has_key:
  assumes "tls_law env" and "session_reaches env w e"
  shows "(eng_state e \<in> {EsConnected, EsRekeying} \<longrightarrow> primary (key_manager e) \<noteq> None) \<and>
    snd (pipeline_step env w (TunPacket p) e) \<noteq> Ended (Inl (CoreProtocol (InvalidFraming ''No active TX key slot'')))"
proof
  show key: "eng_state e \<in> {EsConnected, EsRekeying} \<longrightarrow> primary (key_manager e) \<noteq> None"
    using reachable_keyed [OF assms] by (auto simp: keyed_def settled_def)
  have "\<not> (\<exists>e'. process_tun_packet p e = Some (TunReturns (Inl (InvalidFraming ''No active TX key slot'')) e'))"
    using key by (auto simp: process_tun_packet_def seal_def Let_def split: if_splits option.splits mss_outcome.splits
        prod.splits sum.splits)
  moreover have "snd (carry_out w e1) \<noteq> Ended (Inl (CoreProtocol err))" for e1 :: "'a Engine" and err
  proof -
    have "snd (drain_engine_actions w as) \<noteq> Inl (CoreProtocol err)" for as
      by (induction as) (auto simp: Let_def split: OutputAction.split prod.split)
    then show ?thesis by (auto simp: carry_out_def split: prod.split sum.split) (metis snd_conv)
  qed
  ultimately show "snd (pipeline_step env w (TunPacket p) e) \<noteq> Ended (Inl (CoreProtocol (InvalidFraming ''No active TX key slot'')))"
    by (auto simp: after_engine_def split: option.split tun_outcome.split prod.split sum.split)
qed

section \<open>One datagram\<close>

lemma low_bit: "push_bit 0 1 = (1 :: 64 word)" "(w OR 1) AND (1 :: 64 word) = 1"
  by (simp_all add: bit_eq_iff bit_simps)

lemma accepted_then_refused:
  assumes "check_and_update w s = (Inr (), w')"
  shows "\<exists>err w''. check_and_update w' s = (Inl err, w'')"
proof -
  have fresh: "\<exists>err w''. check_and_update v (max_seq v) = (Inl err, w'')" if "initialized v" "fst (bitmap v) AND 1 = 1" for v
    using that by (simp add: check_and_update_def Let_def WINDOW_SIZE_def mask_at_def)
  consider (first) "\<not> initialized w" | (ahead) "initialized w" "max_seq w < s" | (within) "initialized w" "s \<le> max_seq w"
    by (metis not_le)
  then show ?thesis
  proof cases
    case first
    then have "initialized w'" "max_seq w' = s" "fst (bitmap w') AND 1 = 1" using assms by (auto simp: check_and_update_def)
    then show ?thesis using fresh by blast
  next
    case ahead
    then have "initialized w'" "max_seq w' = s" "fst (bitmap w') AND 1 = 1"
      using assms by (auto simp: check_and_update_def advance_def Let_def low_bit)
    then show ?thesis using fresh by blast
  next
    case within
    have "\<not> 64 \<le> unat ((max_seq w - s) mod 64)" by (simp add: unat_64(2))
    then show ?thesis using assms within
      by (auto simp: check_and_update_def Let_def mask_at_def mask_update_def bit.conj_disj_distrib2 split: if_splits)
  qed
qed

lemma repeated_data_packet:
  assumes "process_incoming_data_packet k p e = (Inr (), e')" and "key_manager e'' = key_manager e'"
  shows "\<exists>err e3. process_incoming_data_packet k p e'' = (Inl (CryptoFailure err), e3)"
proof -
  obtain op kid peer pid payload slot w' n where d: "decode_data p = Inr (op, kid, peer, pid, payload)"
    and g: "get_rx_slot k (key_manager e) = Some slot" and c: "check_and_update (anti_replay slot) (ucast pid) = (Inr (), w')"
    and km: "key_manager e' = put_rx_slot k (slot\<lparr>anti_replay := w', bytes_received := n\<rparr>) (key_manager e)"
    using assms(1) by (auto simp: process_incoming_data_packet_def Let_def split: sum.splits option.splits prod.splits if_splits)
  have "get_rx_slot k (key_manager e'') = Some (slot\<lparr>anti_replay := w', bytes_received := n\<rparr>)"
    using get_put_rx_slot [OF g, of "slot\<lparr>anti_replay := w', bytes_received := n\<rparr>"] rx_slot_key [OF g] km assms(2) by simp
  then show ?thesis using d accepted_then_refused [OF c] by (auto simp: process_incoming_data_packet_def Let_def)
qed

text \<open>
  Property C27. A data packet that a running session has accepted ends the session when it arrives again as the next input, as
  packets of UDP may: the replay filter refuses it and every error of the engine leaves the pipeline. When the server has one
  address, the session then reports that no endpoint could be reached, and the driver a fatal error.
\<close>

theorem repeated_datagram_ends_session:
  assumes "pipeline_step env w (NetworkPacket t p) e = (fx, Running e')"
    and "p \<noteq> []" and "parse_header_byte (hd p) = Inr (op, k)" and "is_data op"
  shows "\<exists>err. pipeline_step env w (NetworkPacket t' p) e' = ([], Ended (Inl (CoreProtocol (CryptoFailure err)))) \<and>
    session_task [Some ([], Inl (CoreProtocol (CryptoFailure err)))] =
      [SeError ''Failed to connect to all configured remote endpoints''] \<and>
    bridge_events (session_task [Some ([], Inl (CoreProtocol (CryptoFailure err)))]) =
      [DriverFatal (InitializationFailed ''Failed to connect to all configured remote endpoints'')]"
proof -
  have net: "process_network_packet env n p x = process_incoming_data_packet k p (x\<lparr>last_packet_recv := n\<rparr>)" for n x
    using assms(2-4) by (cases p) (simp_all add: process_network_packet_def)
  obtain e1 where e1: "process_incoming_data_packet k p (e\<lparr>last_packet_recv := t\<rparr>) = (Inr (), e1)" and "e' = e1\<lparr>eng_outbox := []\<rparr>"
    using assms(1) unfolding pipeline_step.simps net
    by (auto simp: after_engine_def carry_out_def split: prod.splits sum.splits)
  then have "key_manager (e'\<lparr>last_packet_recv := t'\<rparr>) = key_manager e1" by simp
  from repeated_data_packet [OF e1 this] show ?thesis
    unfolding pipeline_step.simps net
    by (auto simp: after_engine_def session_task_def core_error_text_def bridge_event_def)
qed

section \<open>From the push message to the driver\<close>

lemma split_text_none: "p \<noteq> [] \<Longrightarrow> \<not> str_includes s p \<Longrightarrow> split_text p 0 acc s = [rev acc @ s]"
  by (induction s arbitrary: acc) auto

lemma accumulate_options:
  assumes "j \<noteq> []" and "hd j \<noteq> CHR '',''" "last j \<noteq> CHR '',''" and "\<not> is_space (hd j)" "\<not> is_space (last j)"
  shows "accumulate_part ('','' @ j) [] = j" "accumulate_part [] acc = acc"
proof -
  have "trim ('','' @ j) = '','' @ j" using assms by (intro trim_ends) (simp_all add: is_space_def)
  moreover have "dropWhile (\<lambda>c. c = CHR '','') j = j" using assms(1,2) by (cases j) simp_all
  moreover have "dropWhile (\<lambda>c. c = CHR '','') (rev j) = rev j" using assms(1,3) by (cases j rule: rev_cases) simp_all
  ultimately have "trim (trim_commas (trim ('','' @ j))) = j" using trim_ends assms by (simp add: trim_commas_def)
  then show "accumulate_part ('','' @ j) [] = j" using assms(1) by (simp add: accumulate_part_def)
  show "accumulate_part [] acc = acc" by (simp add: accumulate_part_def trim_def trim_commas_def)
qed

lemma pushed_text_accumulated:
  assumes "list_all plain_item items" and "items \<noteq> []" and "\<not> str_includes ('','' @ joinWith '','' items) ''PUSH_REPLY''"
  shows "fold accumulate_part (split_text ''PUSH_REPLY'' 0 [] (''PUSH_REPLY,'' @ joinWith '','' items)) [] = joinWith '','' items"
proof -
  let ?j = "joinWith '','' items"
  have ends: "?j \<noteq> []" "hd ?j = hd (hd items)" "last ?j = last (last items)" using join_ends assms by auto
  have "plain_item (hd items)" "plain_item (last items)" using assms by (auto simp: list_all_iff)
  then have "?j \<noteq> []" "hd ?j \<noteq> CHR '',''" "last ?j \<noteq> CHR '',''" "\<not> is_space (hd ?j)" "\<not> is_space (last ?j)"
    using ends by (auto simp: plain_item_def plain_char_def list_all_iff)
  note acc = accumulate_options [OF this]
  have "split_text ''PUSH_REPLY'' 0 [] (''PUSH_REPLY,'' @ ?j) = [[], '','' @ ?j]"
    using split_text_none [OF _ assms(3), of "[]"] by (simp add: numeral_eq_Suc)
  then show ?thesis using acc by simp
qed

text \<open>The engine after the options of a push message.\<close>

definition with_options :: "pushed list \<Rightarrow> 'tls Engine \<Rightarrow> 'tls Engine" where
  "with_options ps e = apply_push_options (fold pushed_meaning ps no_push_options)
     (e\<lparr>pushed_options_accumulator := joinWith '','' (map (\<lambda>p. joinWith '' '' (pushed_words p)) ps)\<rparr>)"

lemma push_message_handled:
  assumes "list_all printable ps" and "ps \<noteq> []" and "pushed_options_accumulator e = []"
    and "\<not> str_includes (drop 10 (pushed_text ps)) ''PUSH_REPLY''" and "\<not> str_includes (pushed_text ps) ''push-continuation 2''"
  shows "handle_app_message (pushed_text ps) e = (Inr (), push_action
    (ConfigureNetwork (build_provisioning_config (fold pushed_meaning ps no_push_options) (eng_config (with_options ps e))))
    (transition_state EsConnected (with_options ps e)))"
proof -
  let ?items = "map (\<lambda>p. joinWith '' '' (pushed_words p)) ps"
  have acc: "fold accumulate_part (split_text ''PUSH_REPLY'' 0 [] (pushed_text ps)) [] = joinWith '','' ?items"
    using pushed_text_accumulated [OF plain_pushed [OF assms(1)]] assms(2,4) by (simp add: pushed_text_def)
  have opts: "parse_push_reply (''PUSH_REPLY,'' @ joinWith '','' ?items) = fold pushed_meaning ps no_push_options"
    using pushed_options_read [OF assms(1,2)] by (simp add: pushed_text_def)
  have "str_includes (pushed_text ps) ''PUSH_REPLY''" by (simp add: pushed_text_def)
  then show ?thesis using assms(3,5) acc opts by (simp add: handle_app_message_def Let_def with_options_def)
qed

text \<open>
  Property C28. A push message in one piece, written without a terminating zero byte, connects the engine with the options it was written from: the
  network configuration is built of them and the peer number is taken over. The session announces that
  it is connected before it hands on the configuration, so that the driver reports the tunnel as up
  while its own address, routes and name servers are still the old ones.
\<close>

theorem push_message_connects:
  assumes "list_all printable ps" and "ps \<noteq> []" and "pushed_options_accumulator e = []" and "eng_state e \<noteq> EsConnected"
    and "\<not> str_includes (drop 10 (pushed_text ps)) ''PUSH_REPLY''" and "\<not> str_includes (pushed_text ps) ''push-continuation 2''"
  shows "\<exists>e' c. handle_app_message (pushed_text ps) e = (Inr (), e') \<and> eng_state e' = EsConnected \<and>
    c = build_provisioning_config (fold pushed_meaning ps no_push_options) (eng_config e') \<and>
    eng_outbox e' = eng_outbox e @ [StateChange EsConnected, ConfigureNetwork c] \<and>
    (\<forall>n. push_peer_id (fold pushed_meaning ps no_push_options) = Some n \<longrightarrow> eng_peer_id e' = Some (of_nat n)) \<and>
    map bridge_event (events_of (fst (drain_engine_actions w [StateChange EsConnected, ConfigureNetwork c]))) =
      [([DriverState Connected], id, True), ([], provision_driver (provision_of (show_ipv6 w) c), True)]"
proof -
  let ?c = "build_provisioning_config (fold pushed_meaning ps no_push_options) (eng_config (with_options ps e))"
  show ?thesis unfolding push_message_handled [OF assms(1-3,5,6)]
    by (intro exI [of _ "push_action (ConfigureNetwork ?c) (transition_state EsConnected (with_options ps e))"] exI [of _ ?c])
      (use assms(4) in \<open>simp add: with_options_def push_action_def transition_state_def apply_push_options_def or_opt_def
        bridge_event_def id_def\<close>)
qed

text \<open>
  A refused log-in: the engine queues a message with the reason, but its error ends the pipeline before the queue is
  carried out, so that no event tells the reason.
\<close>

lemma refusal_not_reported:
  assumes "str_includes m ''AUTH_FAILED''" and "\<not> str_includes m ''PUSH_REPLY''" and "parse_challenge m = None"
  shows "\<exists>e'. handle_app_message m e = (Inl (AuthenticationFailed m), e') \<and> last (eng_outbox e') = CloseSession m \<and>
    after_engine w (handle_app_message m e) = ([], Ended (Inl (CoreProtocol (AuthenticationFailed m))))"
  using assms by (simp add: handle_app_message_def after_engine_def push_action_def)

text \<open>Credentials submitted while the session runs change nothing.\<close>

lemma submitted_credentials_dropped: "eng_outbox e = [] \<Longrightarrow> pipeline_step env w (SubmitCredentials u p) e = ([], Running e)"
  by (simp add: carry_out_def)

section \<open>Instances\<close>

definition sample_config :: OpenVpnConfig where
  "sample_config = \<lparr>oc_hosts = [''vpn.example.org''], oc_dev = ''tun0'', oc_ca = None, oc_cert = None, oc_key = None, oc_tls_auth = None,
     oc_key_direction = None, oc_data_ciphers = [], oc_auth_digest = None, oc_auth_user_pass = None, oc_ifconfig_v4 = None,
     oc_ifconfig_v6 = None, oc_topology = None, oc_routes_v4 = [], oc_routes_v6 = [], oc_redirect_gateway = no_redirect,
     oc_dns_servers = [], oc_search_domains = [], oc_block_outside_dns = False, oc_tun_mtu = None, oc_mss_fix = None,
     oc_ping_interval = None, oc_ping_restart = None\<rparr>"

text \<open>A TLS connection whose handshake is over after the first bytes fed, and that then has one message.\<close>

definition sample_env :: "nat engine_env" where
  "sample_env = \<lparr>tls_new = \<lambda>_ _ _ _. Inr 0, feed_tls_bytes = \<lambda>b t. (Inr (), 1), extract_outgoing_tls_bytes = \<lambda>t. (Inr [], t),
     read_plaintext_app_data = \<lambda>t. if t = 1 then (Inr (text_bytes (pushed_text [PushedPeerId 7])), 2) else (Inr [], t),
     send_plaintext_app_data = \<lambda>b t. (Inr (), t), is_handshaking = \<lambda>t. t = 0, export_keying_material = \<lambda>t. Inr (replicate 256 7),
     env_hmac = sample_hmac, create_cipher = \<lambda>s k. Inr sample_cipher, hex_decode = \<lambda>t. Inl [], random_bytes = [], unix_time = 0\<rparr>"

definition sample_io :: io where
  "sample_io = \<lparr>write_ok = \<lambda>a. True, show_ipv6 = \<lambda>g. []\<rparr>"

definition fresh_engine :: "nat Engine" where
  "fresh_engine = (case snd (start_pipeline sample_env sample_io 1 sample_config 0) of Running e \<Rightarrow> e)"

lemma sample_law: "tls_law sample_env"
  by (simp add: tls_law_def sample_env_def)

lemma fresh_running: "\<exists>fx. start_pipeline sample_env sample_io 1 sample_config 0 = (fx, Running fresh_engine)"
  by (simp add: fresh_engine_def start_pipeline_def start_connect_def engine_new_def and_then_def enqueue_control_def enqueue_def
      send_queue_new_def transition_state_def push_action_def emit_control_packet_def tls_auth_of_def sample_config_def
      sample_env_def sample_io_def after_engine_def carry_out_def Let_def)

lemma fresh_reached: "session_reaches sample_env sample_io fresh_engine"
  using fresh_running session_reaches.started by blast

definition server_hello :: ControlPacket where
  "server_hello = \<lparr>cp_opcode = ControlV1, cp_key_id = 0, cp_session_id = 5, ack_array = [], cp_remote_session_id = None,
     cp_packet_id = Some 0, cp_payload = [1]\<rparr>"

lemma message_text_bytes:
  assumes "list_all (\<lambda>c. of_char c < (128 :: nat)) s"
  shows "message_text (text_bytes s) = s"
proof -
  have "list_all (\<lambda>w. w < 0x80) (text_bytes s)"
    using assms by (auto simp: text_bytes_def list_all_iff word_less_nat_alt unat_of_nat)
  moreover have "char_of (unat (of_nat (of_char c) :: 8 word)) = c" for c
    by (simp add: unat_of_nat take_bit_eq_mod of_char_mod_256)
  ultimately show ?thesis by (simp add: message_text_def ascii_lossless text_bytes_def comp_def)
qed

lemma pushed_ascii: "message_text (text_bytes (pushed_text [PushedPeerId 7])) = pushed_text [PushedPeerId 7]"
proof (rule message_text_bytes)
  have "pushed_text [PushedPeerId 7] = ''PUSH_REPLY,peer-id 7''" by code_simp
  then show "list_all (\<lambda>c. of_char c < (128 :: nat)) (pushed_text [PushedPeerId 7])" by simp
qed

lemma one_option_handled:
  assumes "pushed_options_accumulator e = []"
  shows "handle_app_message (pushed_text [PushedPeerId 7]) e = (Inr (), push_action
    (ConfigureNetwork (build_provisioning_config (pushed_meaning (PushedPeerId 7) no_push_options)
      (eng_config (with_options [PushedPeerId 7] e))))
    (transition_state EsConnected (with_options [PushedPeerId 7] e)))"
proof -
  have t: "pushed_text [PushedPeerId 7] = ''PUSH_REPLY,peer-id 7''" by code_simp
  show ?thesis using push_message_handled [of "[PushedPeerId 7]" e] assms by (simp add: t)
qed

lemmas engine_defs = process_network_packet_def process_incoming_control_packet_def open_control_def discover_session_def
  flush_control_channel_def flush_again_def flush_with_def handle_tls_handshake_completion_def complete_with_def tls_round_def
  install_keys_def install_new_key_def key_slot_new_def auth_creds_def handshake_completed_def with_tls_def and_then_def
  send_tls_bytes_def send_pending_acks_def send_acks_with_def emit_control_packet_def transition_state_def push_action_def
  process_packet_def drain_ready_def drain_acks_def process_acks_def Let_def

lemma fresh_engine_fields:
  "eng_state fresh_engine = EsConnecting" "tls_adapter fresh_engine = Some 0" "recv_queue fresh_engine = recv_queue_new"
  "tls_auth fresh_engine = None" "eng_remote_session_id fresh_engine = None" "pushed_options_accumulator fresh_engine = []"
  "key_manager fresh_engine = \<lparr>primary = None, secondary = None\<rparr>" "eng_config fresh_engine = sample_config"
  "eng_outbox fresh_engine = []" "auth_token fresh_engine = None"
  by (simp_all add: fresh_engine_def start_pipeline_def start_connect_def engine_new_def and_then_def enqueue_control_def enqueue_def
      send_queue_new_def transition_state_def push_action_def emit_control_packet_def tls_auth_of_def sample_config_def
      sample_env_def sample_io_def after_engine_def carry_out_def Let_def)

lemma hello_decoded: "decode_control (encode_control server_hello) = Inr server_hello"
  by (rule decode_encode_control) (simp add: server_hello_def wire_packet_def is_reliable_def)

lemma hello_header: "encode_control server_hello = 0x20 # tl (encode_control server_hello)" "parse_header_byte 0x20 = Inr (ControlV1, 0)"
  by (simp_all add: encode_control_def server_hello_def encode_header_byte_def parse_header_byte_def from_u8_def)

lemma hello_connects:
  "\<exists>e'. process_network_packet sample_env 5 (encode_control server_hello) fresh_engine = (Inr (), e') \<and> eng_state e' = EsConnected \<and>
     (\<exists>a b c d. eng_outbox e' = [StateChange a, StateChange b, SendToNetwork c, StateChange EsConnected, ConfigureNetwork d])"
proof -
  obtain r where r: "encode_control server_hello = 0x20 # r" using hello_header(1) by blast
  have net: "process_network_packet sample_env 5 (encode_control server_hello) fresh_engine =
      process_incoming_control_packet sample_env 5 (encode_control server_hello) (fresh_engine\<lparr>last_packet_recv := 5\<rparr>)"
    using hello_header(2) by (simp add: r process_network_packet_def is_data_def)
  let ?q = "\<lparr>next_expected_id = 1, pending_acks = [0], out_of_order = [], ready_stream = [[1]]\<rparr>"
  let ?e3 = "fresh_engine\<lparr>last_packet_recv := 5, eng_remote_session_id := Some 5,
    send_queue := (send_queue fresh_engine)\<lparr>sq_remote_session_id := Some 5\<rparr>, recv_queue := ?q\<rparr>"
  have q: "process_packet 0 [1] recv_queue_new = (Inr (), ?q)"
    by (simp add: process_packet_def recv_queue_new_def drain_buffered.simps Let_def)
  have ctl: "process_incoming_control_packet sample_env 5 (encode_control server_hello) (fresh_engine\<lparr>last_packet_recv := 5\<rparr>) =
      flush_control_channel sample_env 5 ?e3"
    using q by (simp add: process_incoming_control_packet_def open_control_def hello_decoded fresh_engine_fields discover_session_def
        Let_def and_then_def process_acks_def) (simp add: server_hello_def and_then_def fresh_engine_fields)
  have "text_bytes (pushed_text [PushedPeerId 7]) \<noteq> []" by (simp add: text_bytes_def pushed_text_def)
  then show ?thesis unfolding net ctl
    by (simp add: engine_defs fresh_engine_fields sample_env_def pushed_ascii sample_config_def one_option_handled
        with_options_def apply_push_options_def)
qed

lemma connected_reached: "\<exists>e. session_reaches sample_env sample_io e \<and> eng_state e = EsConnected"
proof -
  obtain e a b c d where e: "process_network_packet sample_env 5 (encode_control server_hello) fresh_engine = (Inr (), e)"
      "eng_state e = EsConnected"
      "eng_outbox e = [StateChange a, StateChange b, SendToNetwork c, StateChange EsConnected, ConfigureNetwork d]"
    using hello_connects by blast
  then have "\<exists>fx. pipeline_step sample_env sample_io (NetworkPacket 5 (encode_control server_hello)) fresh_engine = (fx, Running (e\<lparr>eng_outbox := []\<rparr>))"
    by (simp add: after_engine_def carry_out_def sample_io_def Let_def)
  then have "session_reaches sample_env sample_io (e\<lparr>eng_outbox := []\<rparr>)" using session_reaches.stepped [OF fresh_reached] by blast
  then show ?thesis using e(2) by fastforce
qed

theorem connected_session_has_key_witness:
  "\<exists>e. session_reaches sample_env sample_io e \<and> eng_state e = EsConnected \<and> primary (key_manager e) \<noteq> None"
  using connected_reached connected_session_has_key [OF sample_law] by fastforce

theorem push_message_connects_witness:
  "\<exists>e'. handle_app_message (pushed_text [PushedPeerId 7]) fresh_engine = (Inr (), e') \<and> eng_state e' = EsConnected \<and> eng_peer_id e' = Some 7"
proof -
  have t: "pushed_text [PushedPeerId 7] = ''PUSH_REPLY,peer-id 7''" by code_simp
  show ?thesis using push_message_connects [of "[PushedPeerId 7]" fresh_engine sample_io] by (auto simp: t fresh_engine_fields)
qed

definition keyed_engine :: "nat Engine" where
  "keyed_engine = fresh_engine\<lparr>key_manager := \<lparr>primary = Some sample_slot, secondary = None\<rparr>\<rparr>"

lemma sample_frame_accepted:
  "\<exists>fx e'. pipeline_step sample_env sample_io (NetworkPacket 5 sample_frame) keyed_engine = (fx, Running e')"
proof -
  let ?e = "keyed_engine\<lparr>last_packet_recv := 5\<rparr>"
  have "\<exists>s1. seal sample_ip_packet sample_slot None = (Inr sample_frame, s1)"
    by (simp add: seal_def next_tx_packet_id_def sample_slot_def sample_cipher_def sample_frame_def Let_def)
  then obtain s1 where s1: "seal sample_ip_packet sample_slot None = (Inr sample_frame, s1)" by blast
  have "\<exists>b'. process_incoming_data_packet (ks_key_id sample_slot) sample_frame ?e = (Inr (), b') \<and>
      eng_outbox b' = eng_outbox ?e @ (if deliverable sample_ip_packet then [SendToTun sample_ip_packet] else [])"
    by (rule sealed_received [OF s1, where r = sample_slot])
      (simp_all add: keyed_engine_def get_rx_slot_def sample_slot_def sample_cipher_def check_only_def window_new_def)
  moreover have "process_network_packet sample_env 5 sample_frame keyed_engine = process_incoming_data_packet 0 sample_frame ?e"
    by (simp add: process_network_packet_def sample_frame_def encode_header_def encode_header_byte_def parse_header_byte_def
        from_u8_def is_data_def)
  ultimately show ?thesis
    by (auto simp: after_engine_def carry_out_def sample_io_def sample_slot_def keyed_engine_def fresh_engine_fields Let_def)
qed

theorem repeated_datagram_ends_session_witness:
  "\<exists>fx e' err. pipeline_step sample_env sample_io (NetworkPacket 5 sample_frame) keyed_engine = (fx, Running e') \<and>
     pipeline_step sample_env sample_io (NetworkPacket 6 sample_frame) e' = ([], Ended (Inl (CoreProtocol (CryptoFailure err))))"
proof -
  obtain fx e' where s: "pipeline_step sample_env sample_io (NetworkPacket 5 sample_frame) keyed_engine = (fx, Running e')"
    using sample_frame_accepted by blast
  have h: "sample_frame \<noteq> []" "parse_header_byte (hd sample_frame) = Inr (DataV1, 0)" "is_data DataV1"
    by (simp_all add: sample_frame_def encode_header_def encode_header_byte_def parse_header_byte_def from_u8_def is_data_def)
  show ?thesis using s repeated_datagram_ends_session [OF s h, of 6] by blast
qed

end
