(* ===== verification/Daemon_Tasks.thy ===== *)
theory Daemon_Tasks
  imports Daemon_Core
begin

text \<open>
  The daemon's requests and monitoring tasks as they run beside each other on a multi-threaded runtime:
  \<^verbatim>\<open>core/state.rs\<close> and \<^verbatim>\<open>core/orchestrator.rs\<close>, one step for each access to shared state. A transition of
  the state machine takes no lock: reading the state, storing the start time, publishing the new state
  and announcing it are steps of their own. So are the guard of a request and every section under a
  mutex. A section under a mutex that does not wait is one step; the mutex of the driver is held while
  a driver stops, so it is part of the state, and who needs it waits. Any task can move at any time.
\<close>

section \<open>A transition, access by access\<close>

datatype transition_pc =
  ReadState
| StoreStart ConnectionState
| SendState ConnectionState
| EmitEvent ConnectionState

text \<open>The next point of the transition, or its result. What was read is carried along.\<close>

fun transition_step :: "nat \<Rightarrow> ConnectionState \<Rightarrow> string option \<Rightarrow> transition_pc \<Rightarrow> StateManager \<Rightarrow>
    (transition_pc + (DaemonError + unit)) \<times> StateManager" where
  "transition_step now new_state reason ReadState sm =
     (let cur = current_state sm in
      if cur = new_state then (Inr (Inr ()), sm)
      else if \<not> is_valid_transition cur new_state
      then (Inr (Inl (InvalidState (''Cannot transition from '' @ debug_state cur @ '' to '' @ debug_state new_state))), sm)
      else (Inl (StoreStart cur), sm))"
| "transition_step now new_state reason (StoreStart cur) sm =
     (Inl (SendState cur), sm\<lparr>session_start_epoch_secs := (if new_state = Connected then now
        else if new_state = Disconnected then 0 else session_start_epoch_secs sm)\<rparr>)"
| "transition_step now new_state reason (SendState cur) sm = (Inl (EmitEvent cur), sm\<lparr>current_state := new_state\<rparr>)"
| "transition_step now new_state reason (EmitEvent cur) sm =
     (Inr (Inr ()), sm\<lparr>sent_events := sent_events sm @ [StateChanged cur new_state reason]\<rparr>)"

section \<open>Tasks\<close>

text \<open>What a task does with the result of a transition.\<close>

datatype continuation =
  StartDriver VpnConnectParams
| FailConnect DriverError
| StopSession
| EndDisconnect
| NextEvent VpnConnectParams string
| EndMonitor

text \<open>
  A task is where it stands: first the points of \<open>connect\<close>, then those of \<open>disconnect\<close>, then those of
  the monitoring task, which carries the request and the interface it was spawned with.
\<close>

datatype task =
  InTransition ConnectionState "string option" transition_pc continuation
| ConnectGuard VpnConnectParams
| DriverStarting VpnConnectParams
| StoreSession VpnConnectParams driver
| StoreDriver VpnConnectParams driver
| StartCollector VpnConnectParams driver
| SpawnMonitor VpnConnectParams driver
| DisconnectGuard
| StopCollector
| TakeDriver
| DriverStopping
| TearDown
| ClearSession
| NextDriverEvent VpnConnectParams string
| HandleState VpnConnectParams string ConnectionState
| ReadDriver VpnConnectParams string
| UpdateSession VpnConnectParams string tunnel_setup
| SetupNetwork VpnConnectParams string tunnel_setup
| MonitorEnded
| Answered "DaemonError + unit"

fun after_transition :: "continuation \<Rightarrow> DaemonError + unit \<Rightarrow> task" where
  "after_transition (StartDriver params) (Inr _) = DriverStarting params"
| "after_transition (FailConnect e) (Inr _) = Answered (Inl (DriverFailed e))"
| "after_transition StopSession (Inr _) = StopCollector"
| "after_transition EndDisconnect r = Answered r"
| "after_transition (NextEvent params iface) r = NextDriverEvent params iface"
| "after_transition EndMonitor r = MonitorEnded"
| "after_transition _ (Inl e) = Answered (Inl e)"

definition begin_transition :: "ConnectionState \<Rightarrow> string option \<Rightarrow> continuation \<Rightarrow> task" where
  "begin_transition st reason k = InTransition st reason ReadState k"

text \<open>The session's address, as the driver reported it.\<close>

definition update_session :: "tunnel_setup \<Rightarrow> daemon \<Rightarrow> daemon" where
  "update_session t d = d\<lparr>active_session := map_option (\<lambda>s. if ts_assigned_ip t \<noteq> None
     then s\<lparr>as_assigned_ip := ts_assigned_ip t\<rparr> else s) (active_session d)\<rparr>"

text \<open>
  One step of a task: where it stands then, the tasks it spawns, and the shared state, whose second
  part says whether the driver's mutex is held. A task that waits for the mutex, for its driver or
  for an event stays where it is.
\<close>

fun task_step :: "os_env \<Rightarrow> nat \<Rightarrow> task \<Rightarrow> daemon \<times> bool \<Rightarrow> (task \<times> task list) \<times> daemon \<times> bool" where
  "task_step env now (InTransition st reason pc k) (d, held) =
     (case transition_step now st reason pc (state_mgr d) of
        (Inl pc', sm) \<Rightarrow> ((InTransition st reason pc' k, []), d\<lparr>state_mgr := sm\<rparr>, held)
      | (Inr r, sm) \<Rightarrow> ((after_transition k r, []), d\<lparr>state_mgr := sm\<rparr>, held))"
| "task_step env now (ConnectGuard params) (d, held) =
     ((if dstate d \<noteq> Disconnected \<and> dstate d \<noteq> ErrorState
       then Answered (Inl (InvalidState (''Cannot connect while in state '' @ debug_state (dstate d))))
       else begin_transition Connecting (Some ''User initiated connection'') (StartDriver params), []), d, held)"
| "task_step env now (StoreSession params drv) (d, held) = ((StoreDriver params drv, []),
     d\<lparr>active_session := Some (active_session_new now params (dr_interface_name drv) (dr_assigned_ip drv))\<rparr>, held)"
| "task_step env now (StoreDriver params drv) (d, held) =
     (if held then ((StoreDriver params drv, []), d, held)
      else ((StartCollector params drv, []), d\<lparr>active_driver := Some drv\<rparr>, held))"
| "task_step env now (StartCollector params drv) (d, held) =
     ((SpawnMonitor params drv, []), d\<lparr>collector_running := True\<rparr>, held)"
| "task_step env now (SpawnMonitor params drv) (d, held) =
     ((Answered (Inr ()), [NextDriverEvent params (dr_interface_name drv)]),
      d\<lparr>monitors := monitors d @ [(params, dr_interface_name drv)]\<rparr>, held)"
| "task_step env now DisconnectGuard (d, held) =
     ((if dstate d = Disconnected then Answered (Inr ())
       else begin_transition Disconnecting (Some ''Disconnect initiated'') StopSession, []), d, held)"
| "task_step env now StopCollector (d, held) = ((TakeDriver, []), d\<lparr>collector_running := False\<rparr>, held)"
| "task_step env now TakeDriver (d, held) =
     (if held then ((TakeDriver, []), d, held)
      else if active_driver d = None then ((TearDown, []), d, held)
      else ((DriverStopping, []), d\<lparr>active_driver := None\<rparr>, True))"
| "task_step env now TearDown (d, held) =
     ((ClearSession, []), d\<lparr>network_mgr := teardown_vpn_network env (network_mgr d)\<rparr>, held)"
| "task_step env now ClearSession (d, held) =
     ((begin_transition Disconnected (Some ''Session terminated cleanly'') EndDisconnect, []), d\<lparr>active_session := None\<rparr>, held)"
| "task_step env now (HandleState params iface st) (d, held) =
     ((if dstate d = st then NextDriverEvent params iface
       else if st = Connected then ReadDriver params iface
       else begin_transition st None (NextEvent params iface), []), d, held)"
| "task_step env now (ReadDriver params iface) (d, held) =
     ((if held then ReadDriver params iface else UpdateSession params iface (tunnel_of params iface d), []), d, held)"
| "task_step env now (UpdateSession params iface t) (d, held) = ((SetupNetwork params iface t, []), update_session t d, held)"
| "task_step env now (SetupNetwork params iface t) (d, held) =
     ((begin_transition Connected None (NextEvent params iface), []),
      d\<lparr>network_mgr := setup_vpn_network env t (network_mgr d)\<rparr>, held)"
| "task_step env now t (d, held) = ((t, []), d, held)"

section \<open>The system\<close>

record system =
  sys_daemon :: daemon
  driver_held :: bool
  tasks :: "task list"

definition system_new :: "string option \<Rightarrow> system" where
  "system_new resolv = \<lparr>sys_daemon = daemon_new resolv, driver_held = False, tasks = []\<rparr>"

abbreviation sstate :: "system \<Rightarrow> ConnectionState" where
  "sstate s \<equiv> dstate (sys_daemon s)"

text \<open>
  What can happen: a request arrives, task \<open>i\<close> takes a step, the driver that task \<open>i\<close> waits for has
  started or stopped, task \<open>i\<close> receives an event of its driver or finds the channel closed, the engine
  provisions a driver (the stored one, or one that a connect has not stored yet), the kill switch is
  set, the collector takes a sample.
\<close>

datatype move =
  NewConnect VpnConnectParams
| NewDisconnect
| Run nat
| Started nat "DriverError + driver"
| Stopped nat
| Reports nat DriverEvent
| ChannelClosed nat
| Provisioned "nat option" NetworkProvision
| KillSwitch bool "KillSwitchMode option"
| Sampled BandwidthMetrics

fun driver_started :: "DriverError + driver \<Rightarrow> task \<Rightarrow> task" where
  "driver_started (Inl e) (DriverStarting params) = begin_transition ErrorState (Some (driver_error_text e)) (FailConnect e)"
| "driver_started (Inr drv) (DriverStarting params) = StoreSession params drv"
| "driver_started r t = t"

fun driver_reports :: "DriverEvent \<Rightarrow> task \<Rightarrow> task" where
  "driver_reports (DriverState st) (NextDriverEvent params iface) = HandleState params iface st"
| "driver_reports (DriverFatal e) (NextDriverEvent params iface) =
     begin_transition ErrorState (Some (driver_error_text e)) EndMonitor"
| "driver_reports ev t = t"

fun channel_closed :: "task \<Rightarrow> task" where
  "channel_closed (NextDriverEvent params iface) = MonitorEnded"
| "channel_closed t = t"

fun provision_task :: "NetworkProvision \<Rightarrow> task \<Rightarrow> task" where
  "provision_task p (StoreSession params drv) = StoreSession params (provision_driver p drv)"
| "provision_task p (StoreDriver params drv) = StoreDriver params (provision_driver p drv)"
| "provision_task p t = t"

definition update_task :: "nat \<Rightarrow> (task \<Rightarrow> task) \<Rightarrow> system \<Rightarrow> system" where
  "update_task i f s = (if i < length (tasks s) then s\<lparr>tasks := (tasks s)[i := f (tasks s ! i)]\<rparr> else s)"

definition run_task :: "os_env \<Rightarrow> nat \<Rightarrow> nat \<Rightarrow> system \<Rightarrow> system" where
  "run_task env now i s = (if i < length (tasks s)
     then (case task_step env now (tasks s ! i) (sys_daemon s, driver_held s) of
       ((t, spawned), d, held) \<Rightarrow> \<lparr>sys_daemon = d, driver_held = held, tasks = (tasks s)[i := t] @ spawned\<rparr>)
     else s)"

definition driver_stopped :: "nat \<Rightarrow> system \<Rightarrow> system" where
  "driver_stopped i s = (if i < length (tasks s) \<and> tasks s ! i = DriverStopping
     then s\<lparr>driver_held := False, tasks := (tasks s)[i := TearDown]\<rparr> else s)"

fun sys_move :: "os_env \<Rightarrow> nat \<Rightarrow> move \<Rightarrow> system \<Rightarrow> system" where
  "sys_move env now (NewConnect params) s = s\<lparr>tasks := tasks s @ [ConnectGuard params]\<rparr>"
| "sys_move env now NewDisconnect s = s\<lparr>tasks := tasks s @ [DisconnectGuard]\<rparr>"
| "sys_move env now (Run i) s = run_task env now i s"
| "sys_move env now (Started i r) s = update_task i (driver_started r) s"
| "sys_move env now (Stopped i) s = driver_stopped i s"
| "sys_move env now (Reports i ev) s = update_task i (driver_reports ev) s"
| "sys_move env now (ChannelClosed i) s = update_task i channel_closed s"
| "sys_move env now (Provisioned None p) s =
     s\<lparr>sys_daemon := (sys_daemon s)\<lparr>active_driver := map_option (provision_driver p) (active_driver (sys_daemon s))\<rparr>\<rparr>"
| "sys_move env now (Provisioned (Some i) p) s = update_task i (provision_task p) s"
| "sys_move env now (KillSwitch enabled mode) s = s\<lparr>sys_daemon := set_kill_switch_daemon env enabled mode (sys_daemon s)\<rparr>"
| "sys_move env now (Sampled m) s = (if collector_running (sys_daemon s)
     then s\<lparr>sys_daemon := (sys_daemon s)\<lparr>latest_metrics := m\<rparr>\<rparr> else s)"

fun sys_run :: "os_env \<Rightarrow> nat \<Rightarrow> move list \<Rightarrow> system \<Rightarrow> system" where
  "sys_run env now [] s = s"
| "sys_run env now (m # ms) s = sys_run env now ms (sys_move env now m s)"

inductive sys_reachable :: "system \<Rightarrow> bool" where
  sys_boot: "sys_reachable (system_new resolv)"
| sys_moves: "sys_reachable s \<Longrightarrow> sys_reachable (sys_move env now m s)"

lemma sys_run_append [simp]: "sys_run env now (ms @ ms') s = sys_run env now ms' (sys_run env now ms s)"
  by (induction ms arbitrary: s) simp_all

section \<open>A task run alone\<close>

text \<open>A system whose last task is at hand.\<close>

definition with_last :: "daemon \<Rightarrow> bool \<Rightarrow> task list \<Rightarrow> task \<Rightarrow> system" where
  "with_last d held ts t = \<lparr>sys_daemon = d, driver_held = held, tasks = ts @ [t]\<rparr>"

lemma run_last:
  "task_step env now t (d, held) = ((t', []), d', held') \<Longrightarrow>
   sys_move env now (Run (length ts)) (with_last d held ts t) = with_last d' held' ts t'"
  by (simp add: run_task_def with_last_def)

lemma update_last: "update_task (length ts) f (with_last d held ts t) = with_last d held ts (f t)"
  by (simp add: update_task_def with_last_def)

lemma stopped_last: "sys_move env now (Stopped (length ts)) (with_last d held ts DriverStopping) = with_last d False ts TearDown"
  by (simp add: driver_stopped_def with_last_def)

lemma new_last:
  "sys_move env now (NewConnect params) \<lparr>sys_daemon = d, driver_held = held, tasks = ts\<rparr> = with_last d held ts (ConnectGuard params)"
  "sys_move env now NewDisconnect \<lparr>sys_daemon = d, driver_held = held, tasks = ts\<rparr> = with_last d held ts DisconnectGuard"
  by (simp_all add: with_last_def)

text \<open>The moves of one task and of its driver.\<close>

fun own_move :: "nat \<Rightarrow> move \<Rightarrow> bool" where
  "own_move i (Run j) = (j = i)"
| "own_move i (Started j r) = (j = i)"
| "own_move i (Stopped j) = (j = i)"
| "own_move i _ = False"

definition alone :: "os_env \<Rightarrow> nat \<Rightarrow> nat \<Rightarrow> system \<Rightarrow> system \<Rightarrow> bool" where
  "alone env now i s s' \<longleftrightarrow> (\<exists>ms. list_all (own_move i) ms \<and> sys_run env now ms s = s')"

lemma alone_refl: "alone env now i s s"
  by (auto simp: alone_def intro: exI [of _ "[]"])

lemma alone_step: "own_move i m \<Longrightarrow> sys_move env now m s = s1 \<Longrightarrow> alone env now i s1 s2 \<Longrightarrow> alone env now i s s2"
  unfolding alone_def by (elim exE conjE, rule_tac x = "m # ms" in exI) simp

lemma alone_run:
  assumes "task_step env now t (d, held) = ((t', []), d', held')"
    and "alone env now (length ts) (with_last d' held' ts t') s2"
  shows "alone env now (length ts) (with_last d held ts t) s2"
  using alone_step [OF _ run_last [OF assms(1)] assms(2)] by simp

lemma alone_transition:
  assumes "alone env now (length ts) (with_last (snd (go now st reason d)) held ts
      (after_transition k (fst (go now st reason d)))) s2"
  shows "alone env now (length ts) (with_last d held ts (begin_transition st reason k)) s2"
proof (cases "dstate d = st \<or> \<not> is_valid_transition (dstate d) st")
  case True
  then have "task_step env now (begin_transition st reason k) (d, held) =
      ((after_transition k (fst (go now st reason d)), []), snd (go now st reason d), held)"
    by (auto simp: begin_transition_def go_def transition_to_def Let_def)
  then show ?thesis using assms by (rule alone_run)
next
  case False
  let ?e = "if st = Connected then now else if st = Disconnected then 0 else session_start_epoch_secs (state_mgr d)"
  let ?d1 = "d\<lparr>state_mgr := (state_mgr d)\<lparr>session_start_epoch_secs := ?e\<rparr>\<rparr>"
  let ?d2 = "d\<lparr>state_mgr := (state_mgr d)\<lparr>session_start_epoch_secs := ?e, current_state := st\<rparr>\<rparr>"
  have f: "go now st reason d = (Inr (), d\<lparr>state_mgr := (state_mgr d)\<lparr>session_start_epoch_secs := ?e, current_state := st,
      sent_events := sent_events (state_mgr d) @ [StateChanged (dstate d) st reason]\<rparr>\<rparr>)"
    using False by (simp add: go_def transition_to_def Let_def)
  have s1: "task_step env now (begin_transition st reason k) (d, held) =
      ((InTransition st reason (StoreStart (dstate d)) k, []), d, held)"
    using False by (simp add: begin_transition_def Let_def)
  have s2: "task_step env now (InTransition st reason (StoreStart (dstate d)) k) (d, held) =
      ((InTransition st reason (SendState (dstate d)) k, []), ?d1, held)"
    by simp
  have s3: "task_step env now (InTransition st reason (SendState (dstate d)) k) (?d1, held) =
      ((InTransition st reason (EmitEvent (dstate d)) k, []), ?d2, held)"
    by simp
  have s4: "task_step env now (InTransition st reason (EmitEvent (dstate d)) k) (?d2, held) =
      ((after_transition k (fst (go now st reason d)), []), snd (go now st reason d), held)"
    by (simp add: f)
  show ?thesis
    using assms by (rule alone_run [OF s1 alone_run [OF s2 alone_run [OF s3 alone_run [OF s4]]]])
qed

text \<open>A connect, a disconnect and an event of the driver, run alone, are the functions of \<open>Daemon_Core\<close>.\<close>

lemma connect_alone:
  assumes "\<not> held" and "d' = snd (connect_daemon now started params d)" and "r = fst (connect_daemon now started params d)"
  shows "\<exists>spawned. alone env now (length ts) (with_last d held ts (ConnectGuard params))
    \<lparr>sys_daemon = d', driver_held = held, tasks = ts @ Answered r # spawned\<rparr> \<and>
    (r = Inr () \<longrightarrow> (\<exists>drv. started = Inr drv \<and> spawned = [NextDriverEvent params (dr_interface_name drv)]))"
proof (cases "dstate d \<noteq> Disconnected \<and> dstate d \<noteq> ErrorState")
  case True
  then have "alone env now (length ts) (with_last d held ts (ConnectGuard params)) (with_last d' held ts (Answered r))"
    using assms(2,3) by (intro alone_run [OF _ alone_refl]) (simp add: connect_daemon_def connect_begin_def)
  then show ?thesis using True assms(3)
    by (intro exI [of _ "[]"]) (simp add: with_last_def connect_daemon_def connect_begin_def)
next
  case False
  let ?c = "Some ''User initiated connection''"
  obtain d1 where g: "go now Connecting ?c d = (Inr (), d1)"
    using False by (auto simp: go_def transition_to_def Let_def)
  have guard: "task_step env now (ConnectGuard params) (d, held) =
      ((begin_transition Connecting ?c (StartDriver params), []), d, held)"
    using False by auto
  have started: "alone env now (length ts) (with_last d held ts (ConnectGuard params)) s2"
    if "alone env now (length ts) (with_last d1 held ts (driver_started started (DriverStarting params))) s2" for s2
  proof (rule alone_run [OF guard alone_transition])
    have "alone env now (length ts) (with_last d1 held ts (DriverStarting params)) s2"
      by (rule alone_step [OF _ _ that, where m = "Started (length ts) started"]) (simp_all add: update_last)
    then show "alone env now (length ts) (with_last (snd (go now Connecting ?c d)) held ts
        (after_transition (StartDriver params) (fst (go now Connecting ?c d)))) s2"
      by (simp add: g)
  qed
  have cd: "connect_daemon now started params d = connect_finish now params started d1"
    using False by (auto simp: connect_daemon_def connect_begin_def g)
  show ?thesis
  proof (cases started)
    case (Inl e)
    let ?g = "go now ErrorState (Some (driver_error_text e)) d1"
    have "connect_finish now params started d1 = (case fst ?g of Inl err \<Rightarrow> Inl err | Inr _ \<Rightarrow> Inl (DriverFailed e), snd ?g)"
      using Inl by (cases ?g; cases "fst ?g") (simp_all add: connect_finish_def)
    then have r: "r = (case fst ?g of Inl err \<Rightarrow> Inl err | Inr _ \<Rightarrow> Inl (DriverFailed e))" "d' = snd ?g"
      using assms(2,3) cd by simp_all
    have "after_transition (FailConnect e) (fst ?g) = Answered (case fst ?g of Inl err \<Rightarrow> Inl err | Inr _ \<Rightarrow> Inl (DriverFailed e))"
      by (cases "fst ?g") simp_all
    then have "alone env now (length ts) (with_last d held ts (ConnectGuard params)) (with_last d' held ts (Answered r))"
      using r by (intro started) (simp add: Inl alone_transition alone_refl)
    moreover have "r \<noteq> Inr ()" using r(1) by (auto split: sum.splits)
    ultimately show ?thesis by (intro exI [of _ "[]"]) (simp add: with_last_def)
  next
    case (Inr drv)
    let ?i = "dr_interface_name drv" and ?n = "length ts"
    let ?d2 = "d1\<lparr>active_session := Some (active_session_new now params ?i (dr_assigned_ip drv))\<rparr>"
    let ?d4 = "?d2\<lparr>active_driver := Some drv, collector_running := True\<rparr>"
    have r: "r = Inr ()" "d' = ?d4\<lparr>monitors := monitors d1 @ [(params, ?i)]\<rparr>"
      unfolding assms(2,3) cd using Inr by (simp_all add: connect_finish_def Let_def)
    have spawn: "alone env now ?n (with_last ?d4 held ts (SpawnMonitor params drv))
        \<lparr>sys_daemon = d', driver_held = held, tasks = ts @ [Answered r, NextDriverEvent params ?i]\<rparr>"
      by (rule alone_step [OF _ _ alone_refl, where m = "Run ?n"]) (simp_all add: run_task_def with_last_def r)
    have "alone env now ?n (with_last ?d2 held ts (StoreDriver params drv))
        \<lparr>sys_daemon = d', driver_held = held, tasks = ts @ [Answered r, NextDriverEvent params ?i]\<rparr>"
      by (rule alone_run, use assms(1) in simp, rule alone_run [OF _ spawn], simp)
    then have "alone env now ?n (with_last d held ts (ConnectGuard params))
        \<lparr>sys_daemon = d', driver_held = held, tasks = ts @ [Answered r, NextDriverEvent params ?i]\<rparr>"
      by (intro started) (simp add: Inr, rule alone_run [OF task_step.simps(3)])
    then show ?thesis using Inr by auto
  qed
qed

lemma disconnect_alone:
  assumes "\<not> held"
  shows "alone env now (length ts) (with_last d held ts DisconnectGuard)
    (with_last (snd (disconnect_daemon env now d)) held ts (Answered (fst (disconnect_daemon env now d))))"
proof (cases "dstate d = Disconnected")
  case True
  then show ?thesis
    by (intro alone_run [OF _ alone_refl]) (simp add: disconnect_daemon_def disconnect_begin_def)
next
  case False
  let ?g = "go now Disconnecting (Some ''Disconnect initiated'') d" and ?n = "length ts"
  have guard: "task_step env now DisconnectGuard (d, held) =
      ((begin_transition Disconnecting (Some ''Disconnect initiated'') StopSession, []), d, held)"
    using False by simp
  show ?thesis
  proof (cases "fst ?g")
    case (Inl e)
    then have "disconnect_begin now d = (Some (Inl e), snd ?g)"
      using False by (cases ?g) (simp add: disconnect_begin_def)
    then show ?thesis
      using Inl by (intro alone_run [OF guard] alone_transition) (simp add: disconnect_daemon_def alone_refl)
  next
    case (Inr u)
    let ?d1 = "(snd ?g)\<lparr>collector_running := False\<rparr>"
    let ?d2 = "(snd ?g)\<lparr>collector_running := False, active_driver := None\<rparr>"
    let ?d4 = "?d2\<lparr>network_mgr := teardown_vpn_network env (network_mgr ?d2), active_session := None\<rparr>"
    have "disconnect_begin now d = (None, ?d2)"
      using False Inr by (cases ?g) (simp add: disconnect_begin_def)
    then have r: "disconnect_daemon env now d = go now Disconnected (Some ''Session terminated cleanly'') ?d4"
      by (simp add: disconnect_daemon_def disconnect_finish_def)
    have down: "alone env now ?n (with_last ?d2 held ts TearDown)
        (with_last (snd (disconnect_daemon env now d)) held ts (Answered (fst (disconnect_daemon env now d))))"
      unfolding r by (rule alone_run, simp, rule alone_run, simp, rule alone_transition) (simp add: alone_refl)
    have "alone env now ?n (with_last ?d1 held ts TakeDriver)
        (with_last (snd (disconnect_daemon env now d)) held ts (Answered (fst (disconnect_daemon env now d))))"
    proof (cases "active_driver ?d1 = None")
      case True
      then have "task_step env now TakeDriver (?d1, held) = ((TearDown, []), ?d2, held)"
        using assms by (cases "snd ?g") simp
      then show ?thesis using down by (rule alone_run)
    next
      case False
      then have t: "task_step env now TakeDriver (?d1, held) = ((DriverStopping, []), ?d2, True)" using assms by simp
      show ?thesis
        by (rule alone_run [OF t], rule alone_step [OF _ stopped_last]) (use down assms in simp_all)
    qed
    then have "alone env now ?n (with_last (snd ?g) held ts StopCollector)
        (with_last (snd (disconnect_daemon env now d)) held ts (Answered (fst (disconnect_daemon env now d))))"
      by (rule alone_run [OF task_step.simps(8)])
    then show ?thesis
      using Inr by (intro alone_run [OF guard] alone_transition) simp
  qed
qed

lemma tunnel_up_steps:
  "tunnel_up env params iface d = (update_session (tunnel_of params iface d) d)
     \<lparr>network_mgr := setup_vpn_network env (tunnel_of params iface d) (network_mgr d)\<rparr>"
proof -
  have "driver_part dr_assigned_ip None d = ts_assigned_ip (tunnel_of params iface d)" by (simp add: tunnel_of_def)
  then show ?thesis by (simp add: tunnel_up_def update_session_def Let_def)
qed

lemma report_alone:
  assumes "\<not> held"
  shows "alone env now (length ts) (with_last d held ts (HandleState params iface st))
    (with_last (monitor_state env now (params, iface) st d) held ts (NextDriverEvent params iface))"
proof -
  consider "dstate d = st" | "dstate d \<noteq> st" "st = Connected" | "dstate d \<noteq> st" "st \<noteq> Connected" by blast
  then show ?thesis
  proof cases
    case 1
    then show ?thesis by (intro alone_run [OF _ alone_refl]) (simp add: monitor_state_def)
  next
    case 2
    let ?t = "tunnel_of params iface d" and ?u = "tunnel_up env params iface d"
    have "alone env now (length ts) (with_last (update_session ?t d) held ts (SetupNetwork params iface ?t))
        (with_last (snd (go now Connected None ?u)) held ts (NextDriverEvent params iface))"
      by (rule alone_run, simp, rule alone_transition) (simp add: tunnel_up_steps update_session_def alone_refl)
    note upd = alone_run [OF task_step.simps(14) this]
    have "task_step env now (ReadDriver params iface) (d, held) = ((UpdateSession params iface ?t, []), d, held)"
      "task_step env now (HandleState params iface st) (d, held) = ((ReadDriver params iface, []), d, held)"
      "monitor_state env now (params, iface) st d = snd (go now Connected None ?u)"
      using assms 2 by (simp_all add: monitor_state_def Let_def)
    then show ?thesis using alone_run [OF _ alone_run [OF _ upd]] by simp
  next
    case 3
    then have "task_step env now (HandleState params iface st) (d, held) =
        ((begin_transition st None (NextEvent params iface), []), d, held)"
      "monitor_state env now (params, iface) st d = snd (go now st None d)"
      by (simp_all add: monitor_state_def Let_def)
    then show ?thesis using alone_run [OF _ alone_transition [where k = "NextEvent params iface"]] alone_refl by simp
  qed
qed

end
