(* ===== verification/Daemon_Races.thy ===== *)
theory Daemon_Races
  imports Daemon_Tasks Daemon_Properties
begin

text \<open>
  Requests and drivers beside each other. As long as no two transitions of the state machine overlap,
  the announced history is a lawful life of a session; overlapping transitions break it. Then two
  ways in which a disconnect and a connect that are both under way part the state from the network.
\<close>

section \<open>Histories\<close>

text \<open>
  What a step in the life of a session may be, whatever table the code has: a session comes up only
  out of an attempt, ends only after it was closed or has failed, and begins with an attempt.
\<close>

definition lawful :: "ConnectionState \<Rightarrow> ConnectionState \<Rightarrow> bool" where
  "lawful a b \<longleftrightarrow> a \<noteq> b \<and> (b = Connected \<longrightarrow> a \<in> {Connecting, Reconnecting}) \<and>
     (b = Disconnected \<longrightarrow> a \<in> {Disconnecting, ErrorState}) \<and> (a = Disconnected \<longrightarrow> b = Connecting) \<and>
     (b = Reconnecting \<longrightarrow> a \<in> {Connecting, Connected}) \<and>
     (a = Disconnecting \<longrightarrow> b \<in> {Disconnected, ErrorState})"

lemma valid_lawful: "is_valid_transition a b \<Longrightarrow> lawful a b"
  by (cases a; cases b) (simp_all add: lawful_def)

text \<open>The state a sequence of announced transitions leads to, if each is lawful and starts where the
  one before it ended.\<close>

fun follow :: "ConnectionState \<Rightarrow> DaemonEvent list \<Rightarrow> ConnectionState option" where
  "follow s [] = Some s"
| "follow s (StateChanged a b r # es) = (if a = s \<and> lawful a b then follow b es else None)"

lemma follow_append:
  "follow s (es @ fs) = (case follow s es of Some t \<Rightarrow> follow t fs | None \<Rightarrow> None)"
  by (induction s es rule: follow.induct) auto

text \<open>A task is inside a transition when it has read the state and not yet announced the new one.\<close>

fun inside :: "task \<Rightarrow> bool" where
  "inside (InTransition st reason ReadState k) = False"
| "inside (InTransition st reason pc k) = True"
| "inside t = False"

text \<open>Runs in which at most one task at a time is inside a transition.\<close>

inductive serial_reachable :: "system \<Rightarrow> bool" where
  serial_boot: "serial_reachable (system_new resolv)"
| serial_moves: "serial_reachable s \<Longrightarrow> length (filter inside (tasks (sys_move env now m s))) \<le> 1 \<Longrightarrow>
    serial_reachable (sys_move env now m s)"

subsection \<open>What holds inside a transition\<close>

definition at_rest :: "StateManager \<Rightarrow> bool" where
  "at_rest sm \<longleftrightarrow> follow Disconnected (sent_events sm) = Some (current_state sm) \<and>
     (current_state sm = Disconnected \<longrightarrow> session_start_epoch_secs sm = 0)"

fun midway :: "task \<Rightarrow> StateManager \<Rightarrow> bool" where
  "midway (InTransition st reason (StoreStart cur) k) sm \<longleftrightarrow> at_rest sm \<and> current_state sm = cur \<and> lawful cur st"
| "midway (InTransition st reason (SendState cur) k) sm \<longleftrightarrow> at_rest sm \<and> current_state sm = cur \<and> lawful cur st \<and>
     (st = Disconnected \<longrightarrow> session_start_epoch_secs sm = 0)"
| "midway (InTransition st reason (EmitEvent cur) k) sm \<longleftrightarrow> follow Disconnected (sent_events sm) = Some cur \<and>
     current_state sm = st \<and> lawful cur st \<and> (st = Disconnected \<longrightarrow> session_start_epoch_secs sm = 0)"
| "midway t sm \<longleftrightarrow> at_rest sm"

definition history_inv :: "task list \<Rightarrow> StateManager \<Rightarrow> bool" where
  "history_inv ts sm = (case filter inside ts of [] \<Rightarrow> at_rest sm | [t] \<Rightarrow> midway t sm | _ \<Rightarrow> False)"

lemma midway_outside: "\<not> inside t \<Longrightarrow> midway t sm = at_rest sm"
  by (cases t rule: inside.cases) simp_all

lemma begin_outside [simp]: "\<not> inside (begin_transition st reason k)"
  by (simp add: begin_transition_def)

lemma after_outside [simp]: "\<not> inside (after_transition k r)"
  by (cases "(k, r)" rule: after_transition.cases) simp_all

lemma lawful_start: "lawful cur Connected \<Longrightarrow> cur \<noteq> Disconnected"
  by (simp add: lawful_def)

text \<open>A step of a task that is the only one inside, or that nobody else is inside of.\<close>

lemma task_step_midway:
  assumes "task_step env now t (d, held) = ((t', new), d', held')" and "midway t (state_mgr d)"
  shows "midway t' (state_mgr d')"
  using assms(1,2)
proof (cases t)
  case (InTransition st reason pc k)
  have "\<not> inside (after_transition k r)" for r by simp
  then show ?thesis
    using assms InTransition valid_lawful
    by (cases pc) (auto simp: at_rest_def follow_append midway_outside lawful_start Let_def split: if_splits)
qed (auto simp: midway_outside begin_transition_def update_session_def split: if_splits)

lemma task_step_outside:
  assumes "task_step env now t (d, held) = ((t', new), d', held')"
  shows "\<not> inside t \<Longrightarrow> state_mgr d' = state_mgr d" and "filter inside new = []"
proof -
  show "state_mgr d' = state_mgr d" if "\<not> inside t"
  proof (cases t)
    case (InTransition st reason pc k)
    with that have "pc = ReadState" by (cases pc) simp_all
    then show ?thesis using assms InTransition by (auto simp: Let_def split: if_splits)
  qed (use assms in \<open>auto simp: update_session_def split: if_splits\<close>)
  show "filter inside new = []"
    using assms by (cases t) (auto split: prod.splits sum.splits if_splits)
qed

lemma started_outside: "inside (driver_started r t) = inside t" "inside t \<Longrightarrow> driver_started r t = t"
  by (cases r; cases t; simp)+

lemma reports_outside: "inside (driver_reports ev t) = inside t" "inside t \<Longrightarrow> driver_reports ev t = t"
  by (cases ev; cases t; simp)+

lemma closed_outside: "inside (channel_closed t) = inside t" "inside t \<Longrightarrow> channel_closed t = t"
  by (cases t; simp)+

lemma provision_outside: "inside (provision_task p t) = inside t" "inside t \<Longrightarrow> provision_task p t = t"
  by (cases t; simp)+

definition stop_task :: "task \<Rightarrow> task" where
  "stop_task t = (if t = DriverStopping then TearDown else t)"

lemma stop_outside: "inside (stop_task t) = inside t" "inside t \<Longrightarrow> stop_task t = t"
  by (auto simp: stop_task_def)

lemma filter_update_same:
  assumes "\<And>t. inside (f t) = inside t" and "\<And>t. inside t \<Longrightarrow> f t = t"
  shows "filter inside (tasks (update_task i f s)) = filter inside (tasks s)"
proof (cases "i < length (tasks s)")
  case True
  let ?xs = "take i (tasks s)" and ?u = "tasks s ! i" and ?ys = "drop (Suc i) (tasks s)"
  have "filter inside (tasks s) = filter inside ?xs @ filter inside [?u] @ filter inside ?ys"
    by (subst id_take_nth_drop [OF True]) simp
  moreover have "filter inside [?u] = filter inside [f ?u]" using assms by (cases "inside ?u") simp_all
  ultimately show ?thesis using True by (simp add: update_task_def upd_conv_take_nth_drop)
qed (simp add: update_task_def)

lemma one_inside:
  "(case a @ t # b of [] \<Rightarrow> x | [u] \<Rightarrow> P u | u # v # w \<Rightarrow> False) = (a @ b = [] \<and> P t)"
  by (cases a) (auto split: list.split)

lemma run_task_history:
  assumes "history_inv (tasks s) (state_mgr (sys_daemon s))"
    and "length (filter inside (tasks (run_task env now i s))) \<le> 1"
  shows "history_inv (tasks (run_task env now i s)) (state_mgr (sys_daemon (run_task env now i s)))"
proof (cases "i < length (tasks s)")
  case True
  obtain t' new d' held' where st: "task_step env now (tasks s ! i) (sys_daemon s, driver_held s) = ((t', new), d', held')"
    by (metis prod.exhaust)
  let ?xs = "take i (tasks s)" and ?ys = "drop (Suc i) (tasks s)" and ?t = "tasks s ! i"
  have split: "tasks s = ?xs @ ?t # ?ys" using True by (rule id_take_nth_drop)
  have run: "run_task env now i s = \<lparr>sys_daemon = d', driver_held = held', tasks = (?xs @ t' # ?ys) @ new\<rparr>"
    using True st by (simp add: run_task_def upd_conv_take_nth_drop)
  have new: "filter inside new = []" using task_step_outside(2) [OF st] .
  let ?o = "filter inside ?xs @ filter inside ?ys"
  have before: "history_inv (tasks s) sm = (if inside ?t then ?o = [] \<and> midway ?t sm
      else (case ?o of [] \<Rightarrow> at_rest sm | [u] \<Rightarrow> midway u sm | _ \<Rightarrow> False))" for sm
  proof (cases "inside ?t")
    case True
    then have "filter inside (tasks s) = filter inside ?xs @ ?t # filter inside ?ys" by (subst split) simp
    then show ?thesis using True unfolding history_inv_def by (simp only: one_inside if_True)
  next
    case False
    then have "filter inside (tasks s) = ?o" by (subst split) simp
    then show ?thesis using False unfolding history_inv_def by (simp only: if_False)
  qed
  show ?thesis
  proof (cases "?o = []")
    case True
    then have "midway ?t (state_mgr (sys_daemon s))"
      using assms(1) unfolding before by (auto simp: midway_outside split: if_splits)
    then have m: "midway t' (state_mgr d')" by (rule task_step_midway [OF st])
    have "filter inside (tasks (run_task env now i s)) = (if inside t' then [t'] else [])"
      using True by (simp add: run new)
    then show ?thesis using m by (simp add: history_inv_def run midway_outside split: if_splits)
  next
    case False
    then obtain u where u: "?o = [u]" "midway u (state_mgr (sys_daemon s))" "\<not> inside ?t"
      using assms(1) unfolding before by (auto split: if_splits list.splits)
    moreover have "\<not> inside t'"
    proof
      assume "inside t'"
      then have "length (filter inside (tasks (run_task env now i s))) = Suc (length ?o)" by (simp add: run new)
      then show False using assms(2) u(1) by simp
    qed
    moreover have "state_mgr d' = state_mgr (sys_daemon s)" using task_step_outside(1) [OF st] u(3) by simp
    ultimately show ?thesis by (simp add: history_inv_def run new)
  qed
qed (use assms in \<open>simp add: run_task_def\<close>)

lemma move_history:
  assumes "history_inv (tasks s) (state_mgr (sys_daemon s))"
    and "length (filter inside (tasks (sys_move env now m s))) \<le> 1"
  shows "history_inv (tasks (sys_move env now m s)) (state_mgr (sys_daemon (sys_move env now m s)))"
proof -
  have keep: "history_inv (tasks (update_task i f s)) (state_mgr (sys_daemon (update_task i f s)))"
    if "\<And>t. inside (f t) = inside t" "\<And>t. inside t \<Longrightarrow> f t = t" for i f
  proof -
    have "sys_daemon (update_task i f s) = sys_daemon s" by (simp add: update_task_def)
    then show ?thesis using filter_update_same [of f i s] that assms(1) by (simp add: history_inv_def)
  qed
  show ?thesis
  proof (cases "(env, now, m, s)" rule: sys_move.cases)
    case (3 env now i s)
    then show ?thesis using run_task_history assms by simp
  next
    case (5 env now i s)
    have "driver_stopped i s = (if i < length (tasks s) \<and> tasks s ! i = DriverStopping
        then (update_task i stop_task s)\<lparr>driver_held := False\<rparr> else s)"
      by (simp add: driver_stopped_def update_task_def stop_task_def)
    then show ?thesis using 5 assms(1) keep [OF stop_outside, of i] by simp
  next
    case (4 env now i r s)
    then show ?thesis using keep [OF started_outside] by simp
  next
    case (6 env now i ev s)
    then show ?thesis using keep [OF reports_outside] by simp
  next
    case (7 env now i s)
    then show ?thesis using keep [OF closed_outside] by simp
  next
    case (9 env now i p s)
    then show ?thesis using keep [OF provision_outside] by simp
  next
    case (11 env now b s)
    then show ?thesis using assms(1) by (simp add: history_inv_def split: list.splits)
  qed (use assms in \<open>auto simp: history_inv_def set_kill_switch_daemon_def\<close>)
qed

text \<open>
  Property C12. However requests, monitoring tasks and drivers interleave, access by access, the announced
  history is the life of one session as long as no two transitions of the state machine overlap: each
  announced transition starts in the state the one before it led to, a tunnel comes up only out of an
  attempt, ends only after it was closed or has failed, and the first and every next life begins with
  an attempt; while no task is inside a transition the history ends in the current state, and a
  daemon that is disconnected reports a session of zero seconds. The code takes no lock around a
  transition, so that overlaps are not excluded; what one does is shown below.
\<close>

theorem histories_lawful:
  assumes "serial_reachable s"
  shows "(\<exists>st. follow Disconnected (sent_events (state_mgr (sys_daemon s))) = Some st \<and>
      ((\<forall>t\<in>set (tasks s). \<not> inside t) \<longrightarrow> st = sstate s)) \<and>
    (sstate s = Disconnected \<longrightarrow> ds_session_duration_secs (get_status now (sys_daemon s)) = 0)"
proof -
  have "history_inv (tasks s) (state_mgr (sys_daemon s))"
    using assms
  proof induction
    case (serial_boot resolv)
    then show ?case by (simp add: history_inv_def system_new_def daemon_new_def state_manager_new_def at_rest_def)
  next
    case (serial_moves s env now m)
    then show ?case by (simp add: move_history)
  qed
  then consider "filter inside (tasks s) = []" "at_rest (state_mgr (sys_daemon s))"
    | t where "filter inside (tasks s) = [t]" "midway t (state_mgr (sys_daemon s))"
    by (auto simp: history_inv_def split: list.splits)
  then show ?thesis
  proof cases
    case 1
    then show ?thesis
      by (auto simp: at_rest_def get_status_def session_duration_secs_def split: option.split)
  next
    case 2
    then have "t \<in> set (filter inside (tasks s))" by simp
    then have "t \<in> set (tasks s)" "inside t" by simp_all
    then show ?thesis using 2(2)
      by (cases t rule: inside.cases)
        (auto simp: at_rest_def get_status_def session_duration_secs_def split: option.split)
  qed
qed

section \<open>A session under way\<close>

text \<open>
  The moves of a connect (task 0) that is not interrupted until its monitoring task (task 1) has been
  spawned and has handled the first report of every driver, the state connecting.
\<close>

definition connecting_moves :: "VpnConnectParams \<Rightarrow> driver \<Rightarrow> move list" where
  "connecting_moves params drv = [NewConnect params, Run 0, Run 0, Run 0, Run 0, Run 0, Started 0 (Inr drv),
     Run 0, Run 0, Run 0, Run 0, Reports 1 (DriverState Connecting), Run 1]"

text \<open>The moves of a disconnect (task 2) until it has taken the driver and waits for it to stop, and its other moves.\<close>

definition disconnecting_moves :: "move list" where
  "disconnecting_moves = [NewDisconnect, Run 2, Run 2, Run 2, Run 2, Run 2, Run 2, Run 2]"

definition disconnected_moves :: "move list" where
  "disconnected_moves = [Stopped 2, Run 2, Run 2, Run 2, Run 2, Run 2, Run 2]"

abbreviation idle_system :: "daemon \<Rightarrow> system" where
  "idle_system d \<equiv> \<lparr>sys_daemon = d, driver_held = False, tasks = []\<rparr>"

lemma connecting:
  assumes "dstate d = Disconnected"
  shows "sys_run env now (connecting_moves params drv) (idle_system d) =
    \<lparr>sys_daemon = snd (connect_daemon now (Inr drv) params d), driver_held = False,
     tasks = [Answered (Inr ()), NextDriverEvent params (dr_interface_name drv)]\<rparr>"
  using assms
  by (simp add: connecting_moves_def run_task_def update_task_def begin_transition_def Let_def connect_daemon_def
      connect_begin_def connect_finish_def go_def transition_to_def)

lemma connecting_daemon:
  assumes "dstate d = Disconnected" and "c = snd (connect_daemon now (Inr drv) params d)"
  shows "dstate c = Connecting" "active_driver c = Some drv" "network_mgr c = network_mgr d"
    "sent_events (state_mgr c) = sent_events (state_mgr d) @ [StateChanged Disconnected Connecting (Some ''User initiated connection'')]"
  using assms by (simp_all add: connect_daemon_def connect_begin_def connect_finish_def go_def transition_to_def Let_def)

lemma disconnecting:
  assumes "dstate c = Connecting" and "active_driver c = Some drv"
  shows "\<exists>c'. sys_run env now disconnecting_moves \<lparr>sys_daemon = c, driver_held = False, tasks = [t0, t1]\<rparr> =
      \<lparr>sys_daemon = c', driver_held = True, tasks = [t0, t1, DriverStopping]\<rparr> \<and>
    dstate c' = Disconnecting \<and> network_mgr c' = network_mgr c \<and> active_driver c' = None \<and>
    sent_events (state_mgr c') = sent_events (state_mgr c) @ [StateChanged Connecting Disconnecting (Some ''Disconnect initiated'')]"
  using assms
  by (simp add: disconnecting_moves_def run_task_def begin_transition_def Let_def numeral_2_eq_2)

lemma disconnected:
  assumes "dstate c = Disconnecting"
  shows "\<exists>c'. sys_run env now disconnected_moves \<lparr>sys_daemon = c, driver_held = True, tasks = [t0, t1, DriverStopping]\<rparr> =
      \<lparr>sys_daemon = c', driver_held = False, tasks = [t0, t1, Answered (Inr ())]\<rparr> \<and>
    dstate c' = Disconnected \<and> network_mgr c' = teardown_vpn_network env (network_mgr c) \<and>
    active_driver c' = active_driver c \<and> active_session c' = None \<and>
    sent_events (state_mgr c') = sent_events (state_mgr c) @ [StateChanged Disconnecting Disconnected (Some ''Session terminated cleanly'')]"
  using assms
  by (simp add: disconnected_moves_def run_task_def driver_stopped_def begin_transition_def Let_def numeral_2_eq_2)

text \<open>The monitoring task with the report that the tunnel is up: it finds the state changed and asks for the driver.\<close>

definition report_moves :: "move list" where
  "report_moves = [Reports 1 (DriverState Connected), Run 1]"

lemma reported:
  assumes "dstate c \<noteq> Connected"
  shows "sys_run env now report_moves \<lparr>sys_daemon = c, driver_held = held, tasks = t0 # NextDriverEvent params iface # ts\<rparr> =
    \<lparr>sys_daemon = c, driver_held = held, tasks = t0 # ReadDriver params iface # ts\<rparr>"
  using assms by (simp add: report_moves_def run_task_def update_task_def)

lemma set_up:
  "\<exists>c' t. sys_run env now [Run 1, Run 1, Run 1]
      \<lparr>sys_daemon = c, driver_held = False, tasks = t0 # ReadDriver params iface # ts\<rparr> =
    \<lparr>sys_daemon = c', driver_held = False, tasks = t0 # InTransition Connected None ReadState (NextEvent params iface) # ts\<rparr> \<and>
    c' = (update_session t c)\<lparr>network_mgr := setup_vpn_network env t (network_mgr c)\<rparr> \<and>
    ts_security t = nullish (security_policy params) (default_policy params)"
  by (simp add: run_task_def begin_transition_def update_session_def)
    (rule exI [of _ "tunnel_of params iface c"], simp add: tunnel_of_def)

lemma tunnel_policy: "ts_security (tunnel_of params iface c) = nullish (security_policy params) (default_policy params)"
  by (simp add: tunnel_of_def)

section \<open>Overlapping transitions\<close>

text \<open>
  Without a lock the histories are not lawful. The monitoring task reads the state connecting, and
  before it publishes the state connected a disconnect runs from its beginning to its end. The daemon
  then reports a connected tunnel with no session, no driver and a network that has been cleared, and
  it has announced the end of the session before it announced that the tunnel came up.
\<close>

theorem overlapping_transitions_break_history:
  assumes "dstate d = Disconnected"
  shows "let s = sys_run env now (connecting_moves params drv @ report_moves @ [Run 1, Run 1, Run 1, Run 1] @
        disconnecting_moves @ disconnected_moves @ [Run 1, Run 1, Run 1]) (idle_system d)
    in sstate s = Connected \<and> active_session (sys_daemon s) = None \<and> active_driver (sys_daemon s) = None \<and>
       network_clear (network_mgr (sys_daemon s)) \<and>
       follow Disconnected (sent_events (state_mgr (sys_daemon s))) = None"
proof -
  let ?i = "dr_interface_name drv" and ?c = "snd (connect_daemon now (Inr drv) params d)"
  note c = connecting_daemon [OF assms refl, of now drv params]
  obtain c1 t where up: "sys_run env now [Run 1, Run 1, Run 1]
        \<lparr>sys_daemon = ?c, driver_held = False, tasks = [Answered (Inr ()), ReadDriver params ?i]\<rparr> =
      \<lparr>sys_daemon = c1, driver_held = False, tasks = [Answered (Inr ()), InTransition Connected None ReadState (NextEvent params ?i)]\<rparr>"
      "c1 = (update_session t ?c)\<lparr>network_mgr := setup_vpn_network env t (network_mgr ?c)\<rparr>"
    using set_up [of env now ?c "Answered (Inr ())" params ?i "[]"] by blast
  have c1: "dstate c1 = Connecting" "active_driver c1 = Some drv" "sent_events (state_mgr c1) = sent_events (state_mgr ?c)"
    using c up(2) by (simp_all add: update_session_def)
  let ?t = "InTransition Connected None (StoreStart Connecting) (NextEvent params ?i)"
  obtain c2 where c2: "sys_run env now disconnecting_moves \<lparr>sys_daemon = c1, driver_held = False, tasks = [Answered (Inr ()), ?t]\<rparr> =
      \<lparr>sys_daemon = c2, driver_held = True, tasks = [Answered (Inr ()), ?t, DriverStopping]\<rparr>" "dstate c2 = Disconnecting"
      "active_driver c2 = None" "sent_events (state_mgr c2) = sent_events (state_mgr c1) @ [StateChanged Connecting Disconnecting (Some ''Disconnect initiated'')]"
    using disconnecting [OF c1(1,2)] by blast
  obtain c3 where c3: "sys_run env now disconnected_moves \<lparr>sys_daemon = c2, driver_held = True, tasks = [Answered (Inr ()), ?t, DriverStopping]\<rparr> =
      \<lparr>sys_daemon = c3, driver_held = False, tasks = [Answered (Inr ()), ?t, Answered (Inr ())]\<rparr>" "dstate c3 = Disconnected"
      "network_mgr c3 = teardown_vpn_network env (network_mgr c2)" "active_driver c3 = None" "active_session c3 = None"
      "sent_events (state_mgr c3) = sent_events (state_mgr c2) @ [StateChanged Disconnecting Disconnected (Some ''Session terminated cleanly'')]"
    using disconnected [OF c2(2)] c2(3) by metis
  have "sys_run env now (connecting_moves params drv @ report_moves @ [Run 1, Run 1, Run 1, Run 1] @
        disconnecting_moves @ disconnected_moves @ [Run 1, Run 1, Run 1]) (idle_system d) =
      sys_run env now [Run 1, Run 1, Run 1] \<lparr>sys_daemon = c3, driver_held = False, tasks = [Answered (Inr ()), ?t, Answered (Inr ())]\<rparr>"
    (is "?run = ?end")
  proof -
    have "?run = sys_run env now (disconnecting_moves @ disconnected_moves @ [Run 1, Run 1, Run 1])
        (sys_move env now (Run 1) (sys_run env now [Run 1, Run 1, Run 1]
          \<lparr>sys_daemon = ?c, driver_held = False, tasks = [Answered (Inr ()), ReadDriver params ?i]\<rparr>))"
      using connecting [OF assms] reported c(1) by (simp del: sys_move.simps)
    also have "\<dots> = ?end"
      unfolding up(1) using c1(1) c2(1) c3(1) by (simp add: run_task_def del: sys_run.simps)
    finally show ?thesis .
  qed
  moreover have "follow Disconnected (xs @ [StateChanged Disconnecting Disconnected r, StateChanged Connecting Connected r']) = None" for xs r r'
    by (auto simp: follow_append split: option.split)
  moreover have "sys_run env now [Run 1, Run 1, Run 1] \<lparr>sys_daemon = c3, driver_held = False, tasks = [Answered (Inr ()), ?t, Answered (Inr ())]\<rparr> =
      \<lparr>sys_daemon = c3\<lparr>state_mgr := (state_mgr c3)\<lparr>session_start_epoch_secs := now, current_state := Connected,
         sent_events := sent_events (state_mgr c3) @ [StateChanged Connecting Connected None]\<rparr>\<rparr>, driver_held = False,
       tasks = [Answered (Inr ()), NextDriverEvent params ?i, Answered (Inr ())]\<rparr>"
    by (simp add: run_task_def)
  ultimately show ?thesis
    unfolding Let_def using c3(3-6) teardown_clears [of env "network_mgr c2"] by (simp del: sys_run.simps sys_run_append)
qed

section \<open>A report that comes too late\<close>

text \<open>
  Property C22. A tunnel that comes up during a disconnect strands its firewall rules. The driver's
  report reaches the monitoring task while a disconnect, which holds the driver's lock, waits for the
  driver to stop; the task sees a state other than connected and waits for the lock. The disconnect
  clears the network, answers success and leaves the daemon disconnected. Then the task goes on: it
  configures the network for the tunnel, with the kill switch engaged unless the policy is off, and only
  its last step, the transition to connected, is refused. The daemon stays disconnected without a
  session, and every later disconnect answers success and leaves the network as it is.
\<close>

theorem late_report_strands_network:
  assumes "dstate d = Disconnected"
  shows "let s1 = sys_run env now (connecting_moves params drv @ disconnecting_moves @ report_moves @ [Run 1] @
               disconnected_moves) (idle_system d);
             s2 = sys_run env now [Run 1, Run 1, Run 1, Run 1] s1
    in tasks s1 ! 2 = Answered (Inr ()) \<and> sstate s1 = Disconnected \<and> network_clear (network_mgr (sys_daemon s1)) \<and>
       sstate s2 = Disconnected \<and> active_session (sys_daemon s2) = None \<and> active_driver (sys_daemon s2) = None \<and>
       active_tunnel (network_mgr (sys_daemon s2)) \<noteq> None \<and>
       (kill_switch_mode (nullish (security_policy params) (default_policy params)) \<noteq> KsOff \<longrightarrow>
          firewall_active (network_mgr (sys_daemon s2))) \<and>
       handle_request env' now' started (ReqDisconnect force) (sys_daemon s2) = (ReplySuccess, sys_daemon s2)"
proof -
  let ?i = "dr_interface_name drv" and ?c = "snd (connect_daemon now (Inr drv) params d)"
  note c = connecting_daemon [OF assms refl, of now drv params]
  obtain c1 where c1: "sys_run env now disconnecting_moves
        \<lparr>sys_daemon = ?c, driver_held = False, tasks = [Answered (Inr ()), NextDriverEvent params ?i]\<rparr> =
      \<lparr>sys_daemon = c1, driver_held = True, tasks = [Answered (Inr ()), NextDriverEvent params ?i, DriverStopping]\<rparr>"
      "dstate c1 = Disconnecting" "active_driver c1 = None"
    using disconnecting [OF c(1,2)] by blast
  obtain c2 where c2: "sys_run env now disconnected_moves
        \<lparr>sys_daemon = c1, driver_held = True, tasks = [Answered (Inr ()), ReadDriver params ?i, DriverStopping]\<rparr> =
      \<lparr>sys_daemon = c2, driver_held = False, tasks = [Answered (Inr ()), ReadDriver params ?i, Answered (Inr ())]\<rparr>"
      "dstate c2 = Disconnected" "network_mgr c2 = teardown_vpn_network env (network_mgr c1)" "active_driver c2 = None" "active_session c2 = None"
    using disconnected [OF c1(2)] c1(3) by metis
  obtain c3 t where c3: "sys_run env now [Run 1, Run 1, Run 1]
        \<lparr>sys_daemon = c2, driver_held = False, tasks = [Answered (Inr ()), ReadDriver params ?i, Answered (Inr ())]\<rparr> =
      \<lparr>sys_daemon = c3, driver_held = False,
       tasks = [Answered (Inr ()), InTransition Connected None ReadState (NextEvent params ?i), Answered (Inr ())]\<rparr>"
      "c3 = (update_session t c2)\<lparr>network_mgr := setup_vpn_network env t (network_mgr c2)\<rparr>"
      "ts_security t = nullish (security_policy params) (default_policy params)"
    using set_up [of env now c2 "Answered (Inr ())" params ?i "[Answered (Inr ())]"] by blast
  let ?s1 = "sys_run env now (connecting_moves params drv @ disconnecting_moves @ report_moves @ [Run 1] @ disconnected_moves) (idle_system d)"
  have s1: "?s1 = \<lparr>sys_daemon = c2, driver_held = False, tasks = [Answered (Inr ()), ReadDriver params ?i, Answered (Inr ())]\<rparr>"
    using connecting [OF assms] c1(1,2) c2(1) reported [of c1] by (simp add: run_task_def)
  have d3: "dstate c3 = Disconnected" "active_session c3 = None" "active_driver c3 = None"
      "network_mgr c3 = setup_vpn_network env t (network_mgr c2)"
    using c2 c3(2) by (simp_all add: update_session_def)
  have "sys_run env now [Run 1, Run 1, Run 1, Run 1] ?s1 = sys_move env now (Run 1) (sys_run env now [Run 1, Run 1, Run 1] ?s1)"
    by simp
  also have "\<dots> = \<lparr>sys_daemon = c3, driver_held = False, tasks = [Answered (Inr ()), NextDriverEvent params ?i, Answered (Inr ())]\<rparr>"
    unfolding s1 c3(1) using d3(1) by (simp add: run_task_def Let_def)
  finally show ?thesis
    unfolding Let_def using s1 d3 c2(2,3) c3(3) setup_marks teardown_clears [of env "network_mgr c1"]
    by (simp add: disconnect_daemon_def disconnect_begin_def reply_of_def del: sys_run.simps)
qed

section \<open>A disconnect while the driver starts\<close>

text \<open>
  A disconnect that overtakes a connect is lost. It runs while the driver is still starting, finds no
  driver to stop and answers success; the connect stores its session and driver all the same, and the
  driver's reports, connecting and connected, take the daemon from disconnected to a connected tunnel
  that nobody asked for any more.
\<close>

definition overtaking_moves :: "VpnConnectParams \<Rightarrow> move list" where
  "overtaking_moves params = [NewConnect params, Run 0, Run 0, Run 0, Run 0, Run 0, NewDisconnect,
     Run 1, Run 1, Run 1, Run 1, Run 1, Run 1, Run 1, Run 1, Run 1, Run 1, Run 1, Run 1, Run 1]"

definition tunnel_moves :: "driver \<Rightarrow> move list" where
  "tunnel_moves drv = [Started 0 (Inr drv), Run 0, Run 0, Run 0, Run 0, Reports 2 (DriverState Connecting),
     Run 2, Run 2, Run 2, Run 2, Run 2, Reports 2 (DriverState Connected), Run 2, Run 2, Run 2, Run 2, Run 2, Run 2, Run 2, Run 2]"

lemma overtaken:
  assumes "dstate d = Disconnected" and "active_driver d = None"
  shows "\<exists>c. sys_run env now (overtaking_moves params) (idle_system d) =
      \<lparr>sys_daemon = c, driver_held = False, tasks = [DriverStarting params, Answered (Inr ())]\<rparr> \<and>
    dstate c = Disconnected \<and> network_clear (network_mgr c)"
  using assms teardown_clears
  by (simp add: overtaking_moves_def run_task_def begin_transition_def Let_def)

lemma tunnel_after:
  assumes "dstate c = Disconnected"
  shows "\<exists>c' t ts n. sys_run env now (tunnel_moves drv)
        \<lparr>sys_daemon = c, driver_held = False, tasks = [DriverStarting params, t1]\<rparr> = \<lparr>sys_daemon = c', driver_held = False, tasks = ts\<rparr> \<and>
      dstate c' = Connected \<and> active_driver c' = Some drv \<and> network_mgr c' = setup_vpn_network env t n \<and>
      ts_security t = nullish (security_policy params) (default_policy params)"
  using assms
  by (simp add: tunnel_moves_def run_task_def update_task_def begin_transition_def update_session_def Let_def numeral_2_eq_2)
    (metis tunnel_policy)

theorem disconnect_overtaking_connect:
  assumes "dstate d = Disconnected" and "active_driver d = None"
  shows "let s1 = sys_run env now (overtaking_moves params) (idle_system d); s2 = sys_run env now (tunnel_moves drv) s1
    in tasks s1 ! 1 = Answered (Inr ()) \<and> sstate s1 = Disconnected \<and> network_clear (network_mgr (sys_daemon s1)) \<and>
       sstate s2 = Connected \<and> active_driver (sys_daemon s2) = Some drv \<and> active_tunnel (network_mgr (sys_daemon s2)) \<noteq> None \<and>
       (kill_switch_mode (nullish (security_policy params) (default_policy params)) \<noteq> KsOff \<longrightarrow>
          firewall_active (network_mgr (sys_daemon s2)))"
proof -
  obtain c where c: "sys_run env now (overtaking_moves params) (idle_system d) =
      \<lparr>sys_daemon = c, driver_held = False, tasks = [DriverStarting params, Answered (Inr ())]\<rparr>"
      "dstate c = Disconnected" "network_clear (network_mgr c)"
    using overtaken [OF assms] by blast
  show ?thesis using tunnel_after [OF c(2), of env now drv params "Answered (Inr ())"] setup_marks c by (auto simp: Let_def)
qed

text \<open>
  The guard of a connect and its transition are separate accesses, and a transition to the state the
  daemon is already in succeeds: two connects that pass the guard together both start a driver, even if
  their transitions do not overlap.
\<close>

lemma two_connects_start:
  assumes "dstate d = Disconnected"
  shows "tasks (sys_run env now [NewConnect p, NewConnect q, Run 0, Run 1, Run 0, Run 0, Run 0, Run 0, Run 1] (idle_system d)) =
    [DriverStarting p, DriverStarting q]"
  using assms by (simp add: run_task_def begin_transition_def Let_def)

section \<open>Witnesses\<close>

definition started_system :: system where
  "started_system = sys_run quiet_env 7 [NewConnect sample_params, Run 0, Run 0, Run 0, Run 0, Run 0] (system_new None)"

lemma started_serial: "serial_reachable started_system"
  unfolding started_system_def sys_run.simps
  by (intro serial_moves serial_boot)
    (simp_all add: system_new_def daemon_new_def state_manager_new_def run_task_def begin_transition_def Let_def)

lemma started_state: "sstate started_system = Connecting" "\<forall>t\<in>set (tasks started_system). \<not> inside t"
  by (simp_all add: started_system_def system_new_def daemon_new_def state_manager_new_def run_task_def
      begin_transition_def Let_def)

theorem histories_lawful_witness:
  "follow Disconnected (sent_events (state_mgr (sys_daemon started_system))) = Some Connecting"
  using histories_lawful [OF started_serial] started_state by auto

theorem late_report_strands_network_witness:
  "let s1 = sys_run quiet_env 7 (connecting_moves sample_params wireguard_driver @ disconnecting_moves @ report_moves @ [Run 1] @
         disconnected_moves) (idle_system (daemon_new None));
       s2 = sys_run quiet_env 7 [Run 1, Run 1, Run 1, Run 1] s1
   in sstate s2 = Disconnected \<and> firewall_active (network_mgr (sys_daemon s2)) \<and>
      firewall_active (network_mgr (snd (handle_request quiet_env 9 (Inr wireguard_driver) (ReqDisconnect True) (sys_daemon s2))))"
proof -
  have "kill_switch_mode (nullish (security_policy sample_params) (default_policy sample_params)) \<noteq> KsOff"
    by (simp add: sample_params_def default_policy_def)
  then show ?thesis
    using late_report_strands_network [OF new_daemon_rests(1) [of None], of quiet_env 7 sample_params wireguard_driver
      quiet_env 9 "Inr wireguard_driver" True]
    unfolding Let_def by (metis snd_conv)
qed

end
