(* ===== verification/Tunnel_Loss.thy ===== *)
theory Tunnel_Loss
  imports Ovpn_Session Daemon_Properties
begin

text \<open>
  What the daemon learns when an OpenVPN tunnel is lost: the events of the session's pipelines
  (\<^verbatim>\<open>ovpn-core/src/session.rs\<close>), through the bridging task of the driver
  (\<^verbatim>\<open>engine/openvpn/driver.rs\<close>), to the monitoring task of the daemon. First which events a pipeline can send
  at all, then what they do to a daemon that is connected.
\<close>

section \<open>What a pipeline sends\<close>

text \<open>The actions the engine queues when it returns without an error: it never announces an error state or closes.\<close>

definition going :: "EngineState \<Rightarrow> bool" where
  "going st \<longleftrightarrow> st \<in> {EsConnecting, EsTlsHandshake, EsAuthenticating, EsPullingConfig, EsConnected}"

fun ordinary_action :: "OutputAction \<Rightarrow> bool" where
  "ordinary_action (StateChange st) = going st"
| "ordinary_action (CloseSession r) = False"
| "ordinary_action _ = True"

definition ordinary :: "'a ProtocolEngine_scheme \<Rightarrow> bool" where
  "ordinary e \<longleftrightarrow> list_all ordinary_action (eng_outbox e)"


lemma ordinary_push [simp]: "ordinary (push_action a e) \<longleftrightarrow> ordinary e \<and> ordinary_action a"
  by (auto simp: ordinary_def push_action_def)


lemma going_states [simp]:
  "going EsConnecting" "going EsTlsHandshake" "going EsAuthenticating" "going EsPullingConfig" "going EsConnected"
  by (simp_all add: going_def)

lemma ordinary_updates [simp]:
  "ordinary (e\<lparr>recv_queue := q\<rparr>) = ordinary e" "ordinary (e\<lparr>send_queue := sq\<rparr>) = ordinary e"
  "ordinary (e\<lparr>last_packet_recv := n\<rparr>) = ordinary e" "ordinary (e\<lparr>tls_adapter := t\<rparr>) = ordinary e"
  "ordinary (e\<lparr>tls_auth := a\<rparr>) = ordinary e" "ordinary (e\<lparr>key_manager := km\<rparr>) = ordinary e"
  "ordinary (e\<lparr>eng_remote_session_id := x\<rparr>) = ordinary e" "ordinary (e\<lparr>pushed_options_accumulator := y\<rparr>) = ordinary e"
  for e :: "'tls Engine"
  by (simp_all add: ordinary_def)

lemma ordinary_emit [simp]: "ordinary (emit_control_packet env cp e) = ordinary e"
  by (simp add: emit_control_packet_def split: option.split prod.split)

lemma ordinary_acks [simp]: "ordinary (send_acks_with env op pid payload e) = ordinary e"
  by (simp add: send_acks_with_def split: prod.split)

lemma ordinary_pending [simp]: "ordinary (send_pending_acks env e) = ordinary e"
  by (simp add: send_pending_acks_def)






















section \<open>Events of a pipeline\<close>

lemma events_of_append [simp]: "events_of (a @ b) = events_of a @ events_of b"
  by (induction a rule: events_of.induct) simp_all












section \<open>At the daemon\<close>











end
