(* ===== verification/Spec2Isabelle.thy ===== *)
theory Spec2Isabelle
  imports Session_Properties Event_Loop Store_Properties Import_Properties Import_Roundtrip Form_Properties
    View_Properties Element_Properties Route_Properties Ipc_Channel End_To_End
    Earlier_Dashboard Language_Properties Window_Frame Ovpn_Session Daemon_Races Tunnel_Loss
begin

text \<open>
  VPNHub: verification library of the desktop application under \<^verbatim>\<open>src/packages/app/src\<close>, of its native
  shell under \<^verbatim>\<open>src/packages/app/src-tauri/src\<close>, of the daemon under \<^verbatim>\<open>src/packages/daemon/src\<close> and of its
  OpenVPN client under \<^verbatim>\<open>src/crates\<close>.

  \<^bold>\<open>The program.\<close> VPNHub is a VPN client. Its user interface, written in TypeScript with React, keeps
  one store (\<^verbatim>\<open>state/useVpnStore.ts\<close>) that all views read and change. The store talks to a native
  shell, written in Rust, through a bridge (\<^verbatim>\<open>services/ipcBridge.ts\<close>). The shell keeps profiles and
  settings in files and secrets in an encrypted vault, adds the secrets to connect requests and
  forwards them over a socket to a privileged daemon; a worker of the shell asks the daemon every
  second for its status and passes it on as events. The daemon keeps the state of the session,
  starts a WireGuard or OpenVPN driver and configures interface, routes, DNS, IPv6 and the firewall.
  The OpenVPN driver runs an OpenVPN client of its own: a session feeds packets, commands and ticks to
  a protocol engine that has no input and output of its own and carries out the actions it queues.
  Profiles are imported from configuration files or typed into a form; a profile may need a
  one-time password, which the application computes itself (\<^verbatim>\<open>utils/totp.ts\<close>).

  \<^bold>\<open>The theories.\<close>
  \<^item> \<open>Js_Prelude\<close>, \<open>Js_Regex\<close>, \<open>Keyed_Collections\<close>: what the source uses of the language and its
    library. Optional values and the operators \<open>||\<close> and \<open>??\<close>, strings as byte lists, numbers in
    texts, a backtracking matcher for the regular expressions of the import, lists searched and
    updated by a key, bounded windows. The locales there state the contract of a keyed collection
    and of a window and are interpreted on the store's collections.
  \<^item> \<open>Totp\<close>: \<^verbatim>\<open>utils/totp.ts\<close> on machine words of the widths JavaScript uses. HMAC-SHA1 is a
    parameter (the Web Crypto API); no law about it is assumed.
  \<^item> \<open>Vpn_Types\<close>: \<^verbatim>\<open>types/vpn.ts\<close>. \<open>Ipc_Bridge\<close>: every method of the bridge, as the commands it issues
    and how it maps the answer; the answers are arguments.
  \<^item> \<open>Vpn_Store\<close>, \<open>Vpn_Session\<close>: the store. Its state is a record with the fields of the source and, after
    them, what the module keeps outside the store and what it does to its environment: commands
    sent, toasts shown, continuations of \<open>await\<close> that are pending. One definition per action and
    per event handler; an action that awaits leaves a pending task, and the task's continuation
    is a definition of its own. \<open>step\<close> is the event loop, \<open>reachable\<close> its reachable states: user
    actions, daemon events, timers and answers in any order.
  \<^item> \<open>Session_Invariants\<close>, \<open>Session_Properties\<close>, \<open>Store_Properties\<close>: invariants of every reachable state
    (bounded log and sparkline, consistent requests, a released loading mark), what connecting,
    disconnecting, status reports and the loss of the daemon do, the refinement of the profile
    list to a map, persistence of rules and settings, notifications, uptime; and races.
  \<^item> \<open>Event_Loop\<close>: the pending continuations decrease in a multiset order with every answer, so the
    application comes to rest whenever no new event arrives.
  \<^item> \<open>Config_Import\<close>, \<open>Import_Properties\<close>, \<open>Import_Roundtrip\<close>: the parser of
    \<^verbatim>\<open>profiles/NewProfileHubModal.tsx\<close> and the older one of \<^verbatim>\<open>ImportProfileModal.tsx\<close>, the import dialog as
    a state machine, and that a printed OpenVPN configuration is read back.
  \<^item> \<open>Profile_Forms\<close>, \<open>Form_Properties\<close>: state and submission of \<^verbatim>\<open>ProfileModal.tsx\<close>,
    \<^verbatim>\<open>CertificateManagerModal.tsx\<close> and \<^verbatim>\<open>ConnectMfaModal.tsx\<close>.
  \<^item> \<open>Dashboard_Views\<close>, \<open>Tool_Views\<close>, \<open>View_Properties\<close>: what the views compute. Formats, sparkline
    paths, card states, filters, statistics, the width of the sidebar, the simulated DNS test,
    settings and autostart.
  \<^item> \<open>Ui_Elements\<close>, \<open>Shell_Views\<close>, \<open>Dashboard_Elements\<close>, \<open>Library_Elements\<close>, \<open>Rule_Elements\<close>, \<open>Form_Elements\<close>:
    what the views render, as trees of texts, badges, buttons, switches and fields with their
    handlers, one definition per component or part of it. A handler transforms the store, the
    local state of the component, or both.
  \<^item> \<open>Controlled_Inputs\<close>, \<open>Element_Properties\<close>: every view with inputs is an instance of the contract
    of \<open>Ui_Elements\<close> (an input shows what it was set to and sets nothing else); a profile typed in
    or imported reaches the store; the navigation; what the buttons of a profile do.
  \<^item> \<open>Dictionaries\<close>, \<open>Language_Properties\<close>: \<^verbatim>\<open>i18n/types.ts\<close> and the four files of \<^verbatim>\<open>i18n/locales\<close>. Every language
    has a text for every key; no view asks for another key, so that no text is ever missing; the
    texts that a view completes have their placeholder in every language.
  \<^item> \<open>Earlier_Dashboard\<close>: the dashboard components that no view uses and the fixtures of \<^verbatim>\<open>mockData.ts\<close>, with
    what they have in common with the components that replaced them.
  \<^item> \<open>Rust_Prelude\<close>: what the Rust sources use of their library (splitting of texts, IPv4 addresses on
    32-bit words) and child processes, as a trace of the commands run; what a command answers is an
    argument.
  \<^item> \<open>Linux_Network\<close>, \<open>Network_Properties\<close>, \<open>Route_Properties\<close>: the daemon's \<^verbatim>\<open>network/\<close> on Linux, one
    record for the fields of its managers and one definition per operation. A meaning of the
    firewall's rules on packets shows what the kill switch lets through and that its fallback blocks nothing; teardown removes every
    route that setup installed.
  \<^item> \<open>Daemon_Core\<close>, \<open>Daemon_Properties\<close>: \<^verbatim>\<open>core/state.rs\<close>, \<^verbatim>\<open>core/session.rs\<close>, \<^verbatim>\<open>core/orchestrator.rs\<close>, the
    messages of \<^verbatim>\<open>ipc/protocol.rs\<close> and what the drivers of \<^verbatim>\<open>engine/\<close> report. The functions are calls run
    alone; \<open>handle_request\<close> is one request. A disconnect leads back to rest, and where driver, network and
    state part company.
  \<^item> \<open>Daemon_Tasks\<close>, \<open>Daemon_Races\<close>: the same requests and monitoring tasks beside each other, one step for
    each access to shared state and for each section under a mutex that does not wait; a transition of the state machine,
    which takes no lock, is four steps. A task run alone is the function of \<open>Daemon_Core\<close>. The announced history is
    lawful while no two transitions overlap; what happens when two do, when two connects pass the guard together, when
    a disconnect overtakes a connect and when a report of the driver is late.
  \<^item> \<open>Ipc_Channel\<close>: the codec of \<^verbatim>\<open>ipc/codec.rs\<close>; messages do not depend on how the stream is cut. The
    locale there states the contract of a framing and is interpreted on the codec.
  \<^item> \<open>Shell_Client\<close>, \<open>Shell_Properties\<close>: the shell's client, worker, tray texts and commands, with the
    stream between client and daemon; the store follows the daemon while the stream is in step, and
    one late answer puts it out of step for good.
  \<^item> \<open>App_Storage\<close>, \<open>Storage_Properties\<close>: \<^verbatim>\<open>storage/\<close> of the shell and the command \<^verbatim>\<open>vpn_connect\<close>; a write
    succeeds, does not open the file, or opens (and so truncates) it and breaks off. What was saved is there after a restart
    and connects with its data, and what each kind of failed write leaves in memory and on disk.
  \<^item> \<open>Window_Frame\<close>: the resize handles of \<^verbatim>\<open>WindowResizeBorders.tsx\<close> and their mark, the composition of
    the shell's views, and on the native side the window commands, the hidden start and the exit.
  \<^item> \<open>Ovpn_Replay\<close>: \<^verbatim>\<open>ovpn-crypto/src/anti_replay.rs\<close>, the replay window as a 128-bit mask; it refines the set of all
    numbers accepted, and accepts each number once.
  \<^item> \<open>Ovpn_Wire\<close>, \<open>Ovpn_Tls_Auth\<close>: \<^verbatim>\<open>opcode.rs\<close>, \<^verbatim>\<open>frame.rs\<close> and \<^verbatim>\<open>static_key.rs\<close>; packets
    encoded are decoded again, and a packet signed by one end is accepted by the other.
  \<^item> \<open>Ovpn_Reliable\<close>: \<^verbatim>\<open>reliable.rs\<close>, the queues of the control channel; what is delivered is what was
    sent, in order, whatever order packets arrive in.
  \<^item> \<open>Ovpn_Mss\<close>, \<open>Ovpn_Data\<close>: \<^verbatim>\<open>mssfix.rs\<close>, \<^verbatim>\<open>key_slots.rs\<close> and the data channel of \<^verbatim>\<open>engine.rs\<close>; a packet
    sent into one end of the tunnel leaves the other, clamping keeps a correct checksum correct, and
    the packets on which the scan of the options does not end.
  \<^item> \<open>Ovpn_Messages\<close>: \<^verbatim>\<open>push.rs\<close>, \<^verbatim>\<open>network_config.rs\<close> and \<^verbatim>\<open>auth.rs\<close>, the texts of the control channel:
    which options are read from a push reply, the provisioning built from them, challenges.
  \<^item> \<open>Ovpn_Engine\<close>, \<open>Ovpn_Session\<close>: the control channel of \<^verbatim>\<open>engine.rs\<close>, and the pipeline and the loop over addresses of \<^verbatim>\<open>ovpn-core/src/session.rs\<close>
    around it. A connected session holds keys, the push message leads to the connected state, and what ends a session.
  \<^item> \<open>Tunnel_Loss\<close>: session, bridging task and daemon composed: which events a pipeline can send at all, and what
    the daemon makes of them when a tunnel is lost.
  \<^item> \<open>End_To_End\<close>: store, shell and daemon composed, from the user's click to the connected state shown.

  \<^bold>\<open>Conventions.\<close> Time, random numbers and fresh identifiers are drawn from the state or passed as
  arguments. Strings are sequences of UTF-8 bytes, so that lengths of texts with other characters
  differ from JavaScript's; no theorem depends on such a length. Numbers are \<open>int\<close>, \<open>nat\<close> or \<open>rat\<close>
  where the source stays within exact arithmetic and words where it relies on 32-bit operations
  (a text of digits above 2^53 would be rounded by JavaScript, which is not modelled);
  a number field is taken to report a natural number. Nothing has fuel: every function is total, the
  regular-expression matcher by a measure, except the scan of TCP options, which is a partial
  function whose value \<open>None\<close> is not returning. The dictionary of the current language
  is an argument of the views. A select box is taken to report one of its options. The daemon's events
  count as heard from the moment the store begins to subscribe. On the Rust
  side the results of commands, writes, connects and the resolver are arguments, the system is Linux,
  and the one shift that can exceed its width behaves as in a release build. In the OpenVPN client the
  ciphers, the hash, the TLS library, the clock and random bytes are parameters; reading past the
  end of a slice and not returning are outcomes of their own; the call of the handshake from within
  the flush that it calls is unrolled once; invalid UTF-8 is replaced as \<^verbatim>\<open>from_utf8_lossy\<close> does. The shell and the network layer are
  modelled one call at a time; the store interleaves its continuations, and the daemon its tasks.

  \<^bold>\<open>Not modelled.\<close> Icons, styles and animations; the download of a file and scrolling, which the
  browser does; mounting and theme (\<^verbatim>\<open>App.tsx\<close>, \<^verbatim>\<open>main.tsx\<close>, \<^verbatim>\<open>theme/\<close>). Of the Rust side: logging and
  plugins of the shell, the daemon's network layer on other systems, its sockets and the
  authentication of peers, telemetry and probes, the construction of the OpenVPN client's
  configuration from a profile, its parser of configuration files, its wrapper of the TLS library,
  its ciphers, sockets and tunnel devices. Serialisation to JSON and AES-GCM are parameters; where a
  property needs them to read back what they wrote, it says so.

  \<^bold>\<open>Next.\<close> The parser of \<^verbatim>\<open>ovpn-config/src/parser.rs\<close>, with the parser of the application's import as its
  counterpart, and the telemetry of the daemon.
\<close>

end
